(* ===== verification/Prelude.thy ===== *)
theory Prelude
  imports Complex_Main "HOL-Library.AList"
begin

text \<open>
  Shared vocabulary of the development: Go's clock and 64-bit arithmetic, the file that
  backs a store, the two loop shapes that the stores of the node repeat (update the first
  matching element; keep the elements that do not match), and the generic facts about
  them.  Every other theory imports this one.

  Conventions.  A Go string is a byte sequence and is a \<^typ>\<open>string\<close>.  A map that is
  only read and written by key is a HOL map; a map whose length or iteration the code
  uses is an association list with its library operations.  A nil map and an
  empty map are read alike by Go, so both are the empty map.  Every operation reads the
  clock once and gets the reading as the argument \<open>now\<close>.  Mutex regions of one method
  are atomic, so a method is one state transformer.
\<close>

named_theorems go_simps \<open>equations that unfold the Go run-time vocabulary\<close>
named_theorems store_simps \<open>what the operations of the file-backed stores return\<close>

section \<open>Time and 64-bit arithmetic\<close>

text \<open>
  A \<open>time.Time\<close> is the number of nanoseconds since Go's zero time, so that the zero value
  is 0; a \<open>time.Duration\<close> is a signed 64-bit number of nanoseconds.
\<close>

type_synonym time = int
type_synonym duration = int

definition IsZero :: "time \<Rightarrow> bool" where
  [go_simps]: "IsZero t \<longleftrightarrow> t = 0"

definition After :: "time \<Rightarrow> time \<Rightarrow> bool" where
  [go_simps]: "After t u \<longleftrightarrow> u < t"

definition wrap64 :: "int \<Rightarrow> int" where
  "wrap64 i = (i + 2 ^ 63) mod 2 ^ 64 - 2 ^ 63"

definition max_int64 :: int where
  [go_simps]: "max_int64 = 2 ^ 63 - 1"

definition min_int64 :: int where
  [go_simps]: "min_int64 = - (2 ^ 63)"

text \<open>\<open>t.Sub(u)\<close> saturates at the ends of the duration range.\<close>

definition time_Sub :: "time \<Rightarrow> time \<Rightarrow> duration" where
  "time_Sub t u = max min_int64 (min max_int64 (t - u))"

definition Second :: duration where
  [go_simps]: "Second = 1000000000"

definition Minute :: duration where
  [go_simps]: "Minute = 60 * Second"

definition Hour :: duration where
  [go_simps]: "Hour = 60 * Minute"

text \<open>\<open>time.Duration(s) * time.Second\<close>: the product wraps around.\<close>

definition seconds :: "int \<Rightarrow> duration" where
  "seconds s = wrap64 (s * Second)"

text \<open>\<open>d.Hours()\<close>; floating point numbers are exact reals in this development.\<close>

definition Hours :: "duration \<Rightarrow> real" where
  "Hours d = real_of_int d / real_of_int Hour"

lemma wrap64_id: "min_int64 \<le> i \<Longrightarrow> i \<le> max_int64 \<Longrightarrow> wrap64 i = i"
  by (simp add: wrap64_def min_int64_def max_int64_def)

lemma wrap64_bounds: "min_int64 \<le> wrap64 i \<and> wrap64 i \<le> max_int64"
proof -
  have "0 \<le> (i + 2 ^ 63) mod 2 ^ 64" and "(i + 2 ^ 63) mod 2 ^ 64 < (2::int) ^ 64"
    by simp_all
  then show ?thesis
    by (simp add: wrap64_def min_int64_def max_int64_def)
qed

lemma time_Sub_gt: "0 \<le> d \<Longrightarrow> d < max_int64 \<Longrightarrow> d < time_Sub t u \<longleftrightarrow> u + d < t"
  by (auto simp: time_Sub_def max_int64_def min_int64_def)

lemma seconds_small: "0 \<le> s \<Longrightarrow> s \<le> 9223372036 \<Longrightarrow> seconds s = s * Second"
  by (simp add: seconds_def wrap64_def Second_def)

section \<open>Files\<close>

text \<open>
  What the path of a store holds: no file, a file the process cannot read, bytes that do
  not parse as the store's JSON format, or a parsed document.
\<close>

datatype 'a file_content = NoFile | Unreadable | Corrupt | Document 'a

text \<open>
  What \<open>os.WriteFile\<close> does: it replaces the content, or it fails and leaves
  some content behind.
\<close>

datatype 'a write_outcome = WriteOk | WriteFails "'a file_content"

datatype store_error =
    PathNotSet
  | ReadFailed
  | UnmarshalFailed
  | WriteFailed
  | Required string
  | NotFound string

text \<open>
  \<open>saveLocked\<close> of every store: without a path it fails before touching the disk; otherwise
  it writes the document.  An error is \<open>Some\<close>, Go's nil error is \<open>None\<close>.
\<close>

definition save_document ::
  "string \<Rightarrow> 'a \<Rightarrow> 'a write_outcome \<Rightarrow> 'a file_content \<Rightarrow> store_error option \<times> 'a file_content" where
  "save_document path doc w f =
     (if path = [] then (Some PathNotSet, f)
      else case w of WriteOk \<Rightarrow> (None, Document doc) | WriteFails g \<Rightarrow> (Some WriteFailed, g))"

lemma save_document_ok [store_simps]:
  "path \<noteq> [] \<Longrightarrow> save_document path doc WriteOk f = (None, Document doc)"
  by (simp add: save_document_def)

lemma save_document_None_iff:
  "fst (save_document path doc w f) = None \<longleftrightarrow> path \<noteq> [] \<and> w = WriteOk"
  by (cases w) (simp_all add: save_document_def)

lemma save_document_written:
  "fst (save_document path doc w f) = None \<Longrightarrow> snd (save_document path doc w f) = Document doc"
  by (cases w) (auto simp: save_document_def split: if_splits)

text \<open>
  An operation of a store returns its error, the new store and what is on disk;
  \<open>saved\<close> is the tail \<open>return s.saveLocked()\<close>, \<open>unsaved\<close> a return before it.
\<close>

type_synonym ('s, 'd) store_result = "store_error option \<times> 's \<times> 'd file_content"

definition saved :: "'s \<Rightarrow> store_error option \<times> 'd file_content \<Rightarrow> ('s, 'd) store_result" where
  "saved s r = (fst r, s, snd r)"

definition unsaved :: "store_error option \<Rightarrow> 's \<Rightarrow> 'd file_content \<Rightarrow> ('s, 'd) store_result" where
  "unsaved e s f = (e, s, f)"

definition result_state :: "('s, 'd) store_result \<Rightarrow> 's" where
  "result_state r = fst (snd r)"

definition result_file :: "('s, 'd) store_result \<Rightarrow> 'd file_content" where
  "result_file r = snd (snd r)"

lemma store_result_simps [simp]:
  "result_state (saved s r) = s" "result_state (unsaved e s f) = s"
  "fst (saved s r) = fst r" "fst (unsaved e s f) = e"
  "result_file (saved s r) = snd r" "result_file (unsaved e s f) = f"
  "saved s r = (e, s', f') \<longleftrightarrow> s' = s \<and> r = (e, f')"
  "unsaved e s f = (e', s', f') \<longleftrightarrow> e' = e \<and> s' = s \<and> f' = f"
  by (auto simp: saved_def unsaved_def result_state_def result_file_def)

text \<open>A key of a JSON object: absent, null, or with a value.\<close>

datatype 'a json_field = Absent | Null | Value 'a

fun field_value :: "'a \<Rightarrow> 'a json_field \<Rightarrow> 'a" where
  "field_value z (Value x) = x"
| "field_value z Absent = z"
| "field_value z Null = z"

section \<open>Loops over slices\<close>

text \<open>
  \<open>for i := range xs { if P(xs[i]) { xs[i] = f(xs[i]); return } }\<close>
\<close>

fun update_first :: "('a \<Rightarrow> bool) \<Rightarrow> ('a \<Rightarrow> 'a) \<Rightarrow> 'a list \<Rightarrow> 'a list" where
  "update_first P f [] = []"
| "update_first P f (x # xs) = (if P x then f x # xs else x # update_first P f xs)"

lemma length_update_first [simp]: "length (update_first P f xs) = length xs"
  by (induction xs) auto

lemma update_first_none: "\<forall>x \<in> set xs. \<not> P x \<Longrightarrow> update_first P f xs = xs"
  by (induction xs) auto

lemma map_update_first: "(\<And>x. P x \<Longrightarrow> g (f x) = g x) \<Longrightarrow> map g (update_first P f xs) = map g xs"
  by (induction xs) auto

lemma find_update_first_same:
  "(\<And>x. P x \<Longrightarrow> P (f x)) \<Longrightarrow> find P (update_first P f xs) = map_option f (find P xs)"
  by (induction xs) auto

lemma find_update_first_other:
  "(\<And>x. P x \<Longrightarrow> \<not> Q x \<and> \<not> Q (f x)) \<Longrightarrow> find Q (update_first P f xs) = find Q xs"
  by (induction xs) auto

lemma find_None_iff_ex: "find P xs = None \<longleftrightarrow> \<not> (\<exists>x \<in> set xs. P x)"
  by (auto simp: find_None_iff)

lemma find_absent: "\<forall>x \<in> set xs. \<not> P x \<Longrightarrow> find P xs = None"
  by (auto simp: find_None_iff)

lemma find_key_mem: "distinct (map g xs) \<Longrightarrow> x \<in> set xs \<Longrightarrow> find (\<lambda>y. g y = g x) xs = Some x"
  by (induction xs) auto

lemma find_append: "find P (xs @ ys) = (case find P xs of None \<Rightarrow> find P ys | Some x \<Rightarrow> Some x)"
  by (induction xs) auto

lemma find_filter_neg: "find P (filter (\<lambda>x. \<not> P x) xs) = None"
  by (induction xs) auto

lemma find_filter_other:
  "(\<And>x. Q x \<Longrightarrow> R x) \<Longrightarrow> find Q (filter R xs) = find Q xs"
  by (induction xs) auto

lemma find_SomeD: "find P xs = Some x \<Longrightarrow> x \<in> set xs \<and> P x"
  by (induction xs) (auto split: if_splits)

lemma distinct_update_first:
  "(\<And>x. P x \<Longrightarrow> g (f x) = g x) \<Longrightarrow> distinct (map g (update_first P f xs)) \<longleftrightarrow> distinct (map g xs)"
  by (simp add: map_update_first)

lemma distinct_map_filterI: "distinct (map g xs) \<Longrightarrow> distinct (map g (filter P xs))"
  by (induction xs) auto

lemma find_eq_None_map: "find (\<lambda>x. g x = k) xs = None \<longleftrightarrow> k \<notin> set (map g xs)"
  by (auto simp: find_None_iff)

text \<open>
  \<open>for i := range xs { if key(xs[i]) == key(y) { xs[i] = f(xs[i]); return } }; append(xs, y)\<close>
\<close>

definition put_by :: "('a \<Rightarrow> 'k) \<Rightarrow> ('a \<Rightarrow> 'a) \<Rightarrow> 'a \<Rightarrow> 'a list \<Rightarrow> 'a list" where
  "put_by g f y xs = (if \<exists>x \<in> set xs. g x = g y then update_first (\<lambda>x. g x = g y) f xs else xs @ [y])"

text \<open>Keyed lookup after the ways the stores change their slice.\<close>

lemma find_key_update:
  assumes "\<And>x. g x = k \<Longrightarrow> g (f x) = k"
  shows "(\<lambda>j. find (\<lambda>x. g x = j) (update_first (\<lambda>x. g x = k) f xs)) =
     (\<lambda>j. find (\<lambda>x. g x = j) xs)(k := map_option f (find (\<lambda>x. g x = k) xs))"
  using find_update_first_same[of "\<lambda>x. g x = k" f xs] assms
  by (auto simp: fun_eq_iff intro!: find_update_first_other)

lemma find_put_by:
  assumes "\<And>x. g x = g y \<Longrightarrow> g (f x) = g y"
  shows "(\<lambda>j. find (\<lambda>x. g x = j) (put_by g f y xs)) =
     (\<lambda>j. find (\<lambda>x. g x = j) xs)(g y \<mapsto> (case find (\<lambda>x. g x = g y) xs of None \<Rightarrow> y | Some x \<Rightarrow> f x))"
proof (cases "find (\<lambda>x. g x = g y) xs")
  case None
  then have "\<not> (\<exists>x \<in> set xs. g x = g y)" by (auto simp: find_None_iff)
  with None show ?thesis by (auto simp: put_by_def fun_eq_iff find_append split: option.split)
next
  case (Some x)
  then have "\<exists>x \<in> set xs. g x = g y" by (auto dest: find_SomeD)
  with Some show ?thesis using find_key_update[of g "g y" f xs, OF assms] by (simp add: put_by_def)
qed

lemma keys_put_by:
  assumes "\<And>x. g x = g y \<Longrightarrow> g (f x) = g y"
  shows "map g (put_by g f y xs) = (if g y \<in> set (map g xs) then map g xs else map g xs @ [g y])"
proof -
  have "map g (update_first (\<lambda>x. g x = g y) f xs) = map g xs"
    using assms by (intro map_update_first) auto
  then show ?thesis by (auto simp: put_by_def image_iff) (metis+)?
qed

lemma find_key_remove:
  "(\<lambda>j. find (\<lambda>x. g x = j) (filter (\<lambda>x. g x \<noteq> k) xs)) = (\<lambda>j. find (\<lambda>x. g x = j) xs)(k := None)"
proof
  fix j show "find (\<lambda>x. g x = j) (filter (\<lambda>x. g x \<noteq> k) xs) = ((\<lambda>j. find (\<lambda>x. g x = j) xs)(k := None)) j"
    using find_filter_neg[of "\<lambda>x. g x = k" xs] find_filter_other[of "\<lambda>x. g x = j" "\<lambda>x. g x \<noteq> k" xs]
    by (cases "j = k") auto
qed

lemma length_filter_eq_iff: "length (filter P xs) = length xs \<longleftrightarrow> (\<forall>x \<in> set xs. P x)"
proof (induction xs)
  case (Cons a xs)
  have "length (filter P xs) \<le> length xs" by simp
  with Cons show ?case by (auto simp del: length_filter_le)
qed simp

section \<open>Maps with a bulk delete\<close>

text \<open>\<open>for k, v := range m { if P(v) { delete(m, k) } }\<close>\<close>

definition drop_where :: "('k \<Rightarrow> 'v \<Rightarrow> bool) \<Rightarrow> ('k \<rightharpoonup> 'v) \<Rightarrow> ('k \<rightharpoonup> 'v)" where
  "drop_where P m = (\<lambda>k. case m k of None \<Rightarrow> None | Some v \<Rightarrow> if P k v then None else Some v)"

lemma drop_where_Some [simp]:
  "drop_where P m k = Some v \<longleftrightarrow> m k = Some v \<and> \<not> P k v"
  by (auto simp: drop_where_def split: option.splits)

lemma drop_where_None:
  "drop_where P m k = None \<longleftrightarrow> (\<forall>v. m k = Some v \<longrightarrow> P k v)"
  by (auto simp: drop_where_def split: option.splits)

lemma map_of_AList_update [simp]: "map_of (AList.update k v al) = (map_of al)(k \<mapsto> v)"
  by (rule update_conv')

lemma map_of_AList_delete [simp]: "map_of (AList.delete k al) = (map_of al)(k := None)"
  by (rule delete_conv')

text \<open>The dimension of the node's vectors (\<open>VectorDim\<close> of utils.go), used by the layers and the texts.\<close>

definition VectorDim :: nat where "VectorDim = 100"

end
