(* ===== verification/Messages.thy ===== *)
theory Messages
  imports Prelude
begin

text \<open>
  The data model of node/memory.go and node/node.go that every component shares: message
  types and delivery statuses (Go integer types with named constants), and the
  \<open>Message\<close> struct, one field per Go field and in the same order.  The zero message is
  Go's \<open>Message{}\<close>.
\<close>

section \<open>Message types\<close>

text \<open>\<open>type MessageType int\<close>: any integer can arrive from the wire, fifteen have a name.\<close>

datatype message_type = MessageType int

definition TypeMessage :: message_type where "TypeMessage = MessageType 0"
definition TypeDelivered :: message_type where "TypeDelivered = MessageType 1"
definition TypeRead :: message_type where "TypeRead = MessageType 2"
definition TypeContactRequest :: message_type where "TypeContactRequest = MessageType 3"
definition TypeContactAccept :: message_type where "TypeContactAccept = MessageType 4"
definition TypeContactReject :: message_type where "TypeContactReject = MessageType 5"
definition TypeContactHello :: message_type where "TypeContactHello = MessageType 6"
definition TypeContactHelloAck :: message_type where "TypeContactHelloAck = MessageType 7"
definition TypeTtlUpdate :: message_type where "TypeTtlUpdate = MessageType 8"
definition TypeFileComplete :: message_type where "TypeFileComplete = MessageType 9"
definition TypeFileOffer :: message_type where "TypeFileOffer = MessageType 10"
definition TypeFileAccept :: message_type where "TypeFileAccept = MessageType 11"
definition TypeFileDecline :: message_type where "TypeFileDecline = MessageType 12"
definition TypeFileCancel :: message_type where "TypeFileCancel = MessageType 13"
definition TypeFileAbort :: message_type where "TypeFileAbort = MessageType 14"

lemmas message_type_defs =
  TypeMessage_def TypeDelivered_def TypeRead_def TypeContactRequest_def TypeContactAccept_def
  TypeContactReject_def TypeContactHello_def TypeContactHelloAck_def TypeTtlUpdate_def
  TypeFileComplete_def TypeFileOffer_def TypeFileAccept_def TypeFileDecline_def
  TypeFileCancel_def TypeFileAbort_def

text \<open>\<open>isServiceType\<close> of node/node_service.go: the types that never reach the user interface.\<close>

definition isServiceType :: "message_type \<Rightarrow> bool" where
  "isServiceType t \<longleftrightarrow> t \<in> set
     [TypeDelivered, TypeRead, TypeContactRequest, TypeContactAccept, TypeContactReject,
      TypeContactHello, TypeContactHelloAck, TypeTtlUpdate, TypeFileComplete,
      TypeFileOffer, TypeFileAccept, TypeFileDecline, TypeFileCancel, TypeFileAbort]"

lemma isServiceType_iff: "isServiceType (MessageType i) \<longleftrightarrow> 1 \<le> i \<and> i \<le> 14"
  unfolding isServiceType_def message_type_defs by simp presburger

section \<open>Delivery status\<close>

text \<open>
  \<open>type MessageStatus int\<close>; 0 means unknown.  The code compares statuses with the integer
  order, so the type is a linear order by its number.
\<close>

datatype message_status = MessageStatus (status_code: int)

instantiation message_status :: linorder
begin

definition less_eq_message_status :: "message_status \<Rightarrow> message_status \<Rightarrow> bool" where
  "less_eq_message_status s t \<longleftrightarrow> status_code s \<le> status_code t"

definition less_message_status :: "message_status \<Rightarrow> message_status \<Rightarrow> bool" where
  "less_message_status s t \<longleftrightarrow> status_code s < status_code t"

instance
  by standard
    (auto simp: less_eq_message_status_def less_message_status_def intro: message_status.expand)

end

definition StatusUnknown :: message_status where "StatusUnknown = MessageStatus 0"
definition StatusSent :: message_status where "StatusSent = MessageStatus 1"
definition StatusDelivered :: message_status where "StatusDelivered = MessageStatus 2"
definition StatusHidden :: message_status where "StatusHidden = MessageStatus 3"
definition StatusRead :: message_status where "StatusRead = MessageStatus 4"

lemmas message_status_defs =
  StatusUnknown_def StatusSent_def StatusDelivered_def StatusHidden_def StatusRead_def

lemmas message_status_order = less_eq_message_status_def less_message_status_def

section \<open>Messages\<close>

definition isChunkedMediaType :: "string \<Rightarrow> bool" where
  "isChunkedMediaType mt \<longleftrightarrow> mt = ''file'' \<or> mt = ''voice'' \<or> mt = ''photo''"

record message =
  msg_ID :: string
  msg_Text :: string
  msg_PlainText :: string
  msg_Sender :: string
  msg_Time :: string
  msg_IsOwn :: bool
  msg_Score :: int
  msg_Weight :: real
  msg_Created :: time
  msg_Archived :: bool
  msg_Priority :: int
  msg_Mode :: int
  msg_Relayed :: bool
  msg_ExpiresAt :: time
  msg_ReplicatedFrom :: string
  msg_ReplicatedAt :: time
  msg_Recipient :: string
  msg_Version :: int
  msg_Type :: message_type
  msg_Ref :: string
  msg_Refs :: "string list"
  msg_ReadEnabled :: "bool option"
  msg_TtlPeriodSeconds :: int
  msg_TtlMode :: string
  msg_Status :: message_status
  msg_ReadLocally :: bool
  msg_SenderName :: string
  msg_MediaType :: string
  msg_MediaData :: string
  msg_FileName :: string
  msg_FileSize :: int
  msg_Duration :: int
  msg_MediaID :: string
  msg_ChunkIndex :: int
  msg_ChunkTotal :: int
  msg_MixingEnabled :: bool

definition zero_message :: message where
  "zero_message =
     \<lparr>msg_ID = [], msg_Text = [], msg_PlainText = [], msg_Sender = [], msg_Time = [],
      msg_IsOwn = False, msg_Score = 0, msg_Weight = 0, msg_Created = 0,
      msg_Archived = False, msg_Priority = 0, msg_Mode = 0, msg_Relayed = False,
      msg_ExpiresAt = 0, msg_ReplicatedFrom = [], msg_ReplicatedAt = 0,
      msg_Recipient = [], msg_Version = 0, msg_Type = TypeMessage, msg_Ref = [],
      msg_Refs = [], msg_ReadEnabled = None, msg_TtlPeriodSeconds = 0, msg_TtlMode = [],
      msg_Status = StatusUnknown, msg_ReadLocally = False, msg_SenderName = [],
      msg_MediaType = [], msg_MediaData = [], msg_FileName = [], msg_FileSize = 0,
      msg_Duration = 0, msg_MediaID = [], msg_ChunkIndex = 0, msg_ChunkTotal = 0,
      msg_MixingEnabled = False\<rparr>"

text \<open>
  The test \<open>isChunkedMediaType(m.MediaType) && m.ChunkTotal > 0\<close>, which the node repeats
  wherever file chunks are treated apart.
\<close>

definition is_chunk :: "message \<Rightarrow> bool" where
  "is_chunk m \<longleftrightarrow> isChunkedMediaType (msg_MediaType m) \<and> 0 < msg_ChunkTotal m"

text \<open>\<open>!m.ExpiresAt.IsZero() && now.After(m.ExpiresAt)\<close>\<close>

definition is_expired :: "time \<Rightarrow> message \<Rightarrow> bool" where
  "is_expired now m \<longleftrightarrow> \<not> IsZero (msg_ExpiresAt m) \<and> After now (msg_ExpiresAt m)"

text \<open>\<open>m.Text, m.PlainText = "", ""\<close>\<close>

definition clear_text :: "message \<Rightarrow> message" where
  "clear_text m = m\<lparr>msg_Text := [], msg_PlainText := []\<rparr>"

lemma clear_text_simps [simp]:
  "msg_ID (clear_text m) = msg_ID m" "msg_MediaID (clear_text m) = msg_MediaID m"
  "msg_MediaType (clear_text m) = msg_MediaType m"
  "msg_ChunkIndex (clear_text m) = msg_ChunkIndex m"
  "msg_ChunkTotal (clear_text m) = msg_ChunkTotal m"
  "msg_Status (clear_text m) = msg_Status m"
  "msg_Text (clear_text m) = []" "msg_PlainText (clear_text m) = []"
  by (simp_all add: clear_text_def)

end
