(* ===== verification/Interfaces.thy ===== *)
theory Interfaces
  imports Prelude
begin

text \<open>
  The contracts between the stores of the node and the code that calls them, as locales.

  \<^item> \<open>keyed_store\<close>: entries found by a key, put with a merge rule, deleted by key.  The
    message memory, the contacts and the file offers provide it.
  \<^item> \<open>peer_set\<close>: identifiers that are added, removed and tested.  The deleted contacts and
    the aborted media provide it.
  \<^item> \<open>persistent\<close>: what a save wrote is what a load reads.  Every file-backed store
    provides it.
  \<^item> \<open>answering\<close>: calls that are answered one after the other, each answer good and the
    invariant kept.  The HTTP interface and the interface of the mobile app provide it.
  \<^item> \<open>interleaving\<close> and \<open>settling\<close>: goroutines as a step relation, with an invariant, and coming to rest.
    The batched receipts, the text batches, the turns of the files and the delayed saves provide them.

  Each locale is interpreted on the model's own operations in the theory of the provider;
  its lemmas are the facts the node-level theories use about the stores.
\<close>

section \<open>Keyed stores\<close>

datatype ('k, 'a) store_op = Put 'a | Del 'k

text \<open>
  A sequence of operations on a store, and on the abstract map it stands for.  What is put need not be
  what is found: a message is put together with the reading of the clock.
\<close>

fun run_ops ::
  "('a \<Rightarrow> 's \<Rightarrow> 's) \<Rightarrow> ('k \<Rightarrow> 's \<Rightarrow> 's) \<Rightarrow> ('k, 'a) store_op list \<Rightarrow> 's \<Rightarrow> 's" where
  "run_ops put del [] s = s"
| "run_ops put del (Put v # os) s = run_ops put del os (put v s)"
| "run_ops put del (Del k # os) s = run_ops put del os (del k s)"

fun spec_ops ::
  "('a \<Rightarrow> 'k) \<Rightarrow> ('v option \<Rightarrow> 'a \<Rightarrow> 'v option) \<Rightarrow> ('k, 'a) store_op list
     \<Rightarrow> ('k \<rightharpoonup> 'v) \<Rightarrow> ('k \<rightharpoonup> 'v)" where
  "spec_ops key mrg [] m = m"
| "spec_ops key mrg (Put v # os) m = spec_ops key mrg os (m(key v := mrg (m (key v)) v))"
| "spec_ops key mrg (Del k # os) m = spec_ops key mrg os (m(k := None))"

fun op_key :: "('a \<Rightarrow> 'k) \<Rightarrow> ('k, 'a) store_op \<Rightarrow> 'k" where
  "op_key key (Put v) = key v"
| "op_key key (Del k) = k"

locale keyed_store =
  fixes get :: "'s \<Rightarrow> 'k \<Rightarrow> 'v option"
    and put :: "'a \<Rightarrow> 's \<Rightarrow> 's"
    and del :: "'k \<Rightarrow> 's \<Rightarrow> 's"
    and key :: "'a \<Rightarrow> 'k"
    and mrg :: "'v option \<Rightarrow> 'a \<Rightarrow> 'v option"
    and invar :: "'s \<Rightarrow> bool"
  assumes get_put: "invar s \<Longrightarrow> get (put v s) = (get s)(key v := mrg (get s (key v)) v)"
    and get_del: "invar s \<Longrightarrow> get (del k s) = (get s)(k := None)"
    and invar_put: "invar s \<Longrightarrow> invar (put v s)"
    and invar_del: "invar s \<Longrightarrow> invar (del k s)"
begin

lemma get_put_other: "invar s \<Longrightarrow> k \<noteq> key v \<Longrightarrow> get (put v s) k = get s k"
  by (simp add: get_put)

lemma get_del_same: "invar s \<Longrightarrow> get (del k s) k = None"
  by (simp add: get_del)

lemma del_put_cancel: "invar s \<Longrightarrow> get (del (key v) (put v s)) = (get s)(key v := None)"
  by (simp add: get_del get_put invar_put)

lemma put_put_commute:
  "invar s \<Longrightarrow> key v \<noteq> key w \<Longrightarrow> get (put v (put w s)) = get (put w (put v s))"
  by (simp add: get_put invar_put fun_upd_twist)

lemma run_invar: "invar s \<Longrightarrow> invar (run_ops put del os s)"
proof (induction os arbitrary: s)
  case (Cons x os)
  then show ?case by (cases x) (simp_all add: invar_put invar_del)
qed simp

lemma run_refines: "invar s \<Longrightarrow> get (run_ops put del os s) = spec_ops key mrg os (get s)"
proof (induction os arbitrary: s)
  case (Cons x os)
  then show ?case
    by (cases x) (simp_all add: Cons.IH invar_put invar_del get_put get_del del: fun_upd_apply)
qed simp

lemma run_frame:
  "invar s \<Longrightarrow> k \<notin> op_key key ` set os \<Longrightarrow> get (run_ops put del os s) k = get s k"
proof (induction os arbitrary: s)
  case (Cons x os)
  then show ?case by (cases x) (simp_all add: get_put get_del invar_put invar_del)
qed simp

end

section \<open>Sets of identifiers\<close>

locale peer_set =
  fixes member :: "'s \<Rightarrow> string \<Rightarrow> bool"
    and add :: "string \<Rightarrow> 's \<Rightarrow> 's"
    and remove :: "string \<Rightarrow> 's \<Rightarrow> 's"
    and invar :: "'s \<Rightarrow> bool"
  assumes member_add: "invar s \<Longrightarrow> x \<noteq> [] \<Longrightarrow> member (add x s) y \<longleftrightarrow> y = x \<or> member s y"
    and member_remove: "invar s \<Longrightarrow> member (remove x s) y \<longleftrightarrow> y \<noteq> x \<and> member s y"
    and add_empty: "add [] s = s"
    and member_nonempty: "invar s \<Longrightarrow> \<not> member s []"
    and invar_add: "invar s \<Longrightarrow> invar (add x s)"
    and invar_remove: "invar s \<Longrightarrow> invar (remove x s)"
begin

lemma member_add_self: "invar s \<Longrightarrow> x \<noteq> [] \<Longrightarrow> member (add x s) x"
  by (simp add: member_add)

lemma not_member_remove: "invar s \<Longrightarrow> \<not> member (remove x s) x"
  by (simp add: member_remove)

lemma remove_add: "invar s \<Longrightarrow> \<not> member s x \<Longrightarrow> member (remove x (add x s)) = member s"
proof (cases "x = []")
  case True
  assume "invar s"
  with True show ?thesis by (auto simp: fun_eq_iff add_empty member_remove member_nonempty)
next
  case False
  assume "invar s" "\<not> member s x"
  with False show ?thesis by (auto simp: fun_eq_iff member_remove member_add invar_add)
qed

lemma add_idem: "invar s \<Longrightarrow> member (add x (add x s)) = member (add x s)"
proof (cases "x = []")
  case False
  assume "invar s"
  with False show ?thesis by (auto simp: fun_eq_iff member_add invar_add)
qed (simp add: add_empty)

end

section \<open>Persistence\<close>

text \<open>
  \<open>save\<close> writes the store to its file, \<open>load\<close> reads a file into a store, \<open>view\<close> is what
  the callers of the store can observe.
\<close>

locale persistent =
  fixes save :: "'s \<Rightarrow> 'f write_outcome \<Rightarrow> 'f file_content \<Rightarrow> store_error option \<times> 'f file_content"
    and load :: "'f file_content \<Rightarrow> 's \<Rightarrow> store_error option \<times> 's"
    and path :: "'s \<Rightarrow> string"
    and view :: "'s \<Rightarrow> 'x"
    and invar :: "'s \<Rightarrow> bool"
  assumes load_save: "invar s \<Longrightarrow> path s \<noteq> [] \<Longrightarrow> path s' = path s \<Longrightarrow>
      fst (save s w f) = None \<Longrightarrow>
      fst (load (snd (save s w f)) s') = None \<and> view (snd (load (snd (save s w f)) s')) = view s"
    and save_fails: "path s = [] \<Longrightarrow> save s w f = (Some PathNotSet, f)"
    and load_failed: "fst (load f s) \<noteq> None \<Longrightarrow> snd (load f s) = s"
begin

lemma save_needs_path: "fst (save s w f) = None \<Longrightarrow> path s \<noteq> []"
  by (auto simp: save_fails)

lemma restart: "invar s \<Longrightarrow> path s' = path s \<Longrightarrow> fst (save s w f) = None \<Longrightarrow>
    view (snd (load (snd (save s w f)) s')) = view s"
  using load_save save_needs_path by blast

end

section \<open>Answering calls\<close>

text \<open>The answers to a sequence of calls, and the state afterwards.\<close>

fun serve_all :: "('c \<Rightarrow> 's \<Rightarrow> 'r \<times> 's) \<Rightarrow> 'c list \<Rightarrow> 's \<Rightarrow> 'r list \<times> 's" where
  "serve_all step [] s = ([], s)"
| "serve_all step (c # cs) s = (case step c s of (r, s1) \<Rightarrow> (case serve_all step cs s1 of (rs, s2) \<Rightarrow> (r # rs, s2)))"

lemma serve_all_append:
  "serve_all step (cs @ ds) s =
     (case serve_all step cs s of (rs, s1) \<Rightarrow> (case serve_all step ds s1 of (qs, s2) \<Rightarrow> (rs @ qs, s2)))"
  by (induction cs arbitrary: s) (simp_all split: prod.split)

locale answering =
  fixes step :: "'c \<Rightarrow> 's \<Rightarrow> 'r \<times> 's"
    and invar :: "'s \<Rightarrow> bool"
    and allowed :: "'c \<Rightarrow> bool"
    and good :: "'r \<Rightarrow> bool"
  assumes step_good: "invar s \<Longrightarrow> allowed c \<Longrightarrow> good (fst (step c s))"
    and step_invar: "invar s \<Longrightarrow> allowed c \<Longrightarrow> invar (snd (step c s))"
begin

lemma serve_all_good:
  "invar s \<Longrightarrow> list_all allowed cs \<Longrightarrow> list_all good (fst (serve_all step cs s)) \<and> invar (snd (serve_all step cs s))"
proof (induction cs arbitrary: s)
  case (Cons c cs)
  obtain r s1 where "step c s = (r, s1)" by (cases "step c s")
  moreover from this have "good r" "invar s1" using step_good[of s c] step_invar[of s c] Cons.prems by auto
  ultimately show ?case using Cons.IH[of s1] Cons.prems(2) by (auto split: prod.split)
qed simp

lemmas serve_all_invar = serve_all_good[THEN conjunct2]

end

section \<open>Interleavings\<close>

text \<open>A system of goroutines as a step relation, with an invariant of all its states.\<close>

locale interleaving =
  fixes start :: "'s \<Rightarrow> bool"
    and step :: "'s \<Rightarrow> 's \<Rightarrow> bool"
    and invar :: "'s \<Rightarrow> bool"
  assumes start_invar: "start s \<Longrightarrow> invar s"
    and step_invar: "step s s' \<Longrightarrow> invar s \<Longrightarrow> invar s'"
begin

lemma run_invar: "step\<^sup>*\<^sup>* s s' \<Longrightarrow> invar s \<Longrightarrow> invar s'"
  by (induction rule: rtranclp_induct) (auto intro: step_invar)

lemma reachable_invar: "step\<^sup>*\<^sup>* s s' \<Longrightarrow> start s \<Longrightarrow> invar s'"
  using run_invar start_invar by blast

end

text \<open>
  The goroutines come to rest when nobody calls: the steps that they take on their own use up a
  number, and one of them can go on until all are idle.
\<close>

locale settling = interleaving +
  fixes inside :: "'s \<Rightarrow> 's \<Rightarrow> bool"
    and work :: "'s \<Rightarrow> nat"
    and idle :: "'s \<Rightarrow> bool"
  assumes inside_step: "inside s s' \<Longrightarrow> step s s'"
    and inside_work: "inside s s' \<Longrightarrow> work s' < work s"
    and inside_progress: "\<not> idle s \<Longrightarrow> \<exists>s'. inside s s'"
begin

lemma terminates: "wfP (\<lambda>s' s. inside s s')"
  by (rule wfp_if_convertible_to_nat[where f = work]) (rule inside_work)

lemma settles: "\<exists>s'. inside\<^sup>*\<^sup>* s s' \<and> idle s'"
proof (induction "work s" arbitrary: s rule: less_induct)
  case less
  show ?case
  proof (cases "idle s")
    case False
    then obtain t where "inside s t" using inside_progress by blast
    moreover from less.hyps[OF inside_work[OF this]] obtain s' where "inside\<^sup>*\<^sup>* t s'" "idle s'" by blast
    ultimately show ?thesis by (blast intro: converse_rtranclp_into_rtranclp)
  qed blast
qed

lemma rest_idle: "\<not> (\<exists>t. inside s t) \<Longrightarrow> idle s"
  using inside_progress by blast

lemma inside_invar: "inside\<^sup>*\<^sup>* s s' \<Longrightarrow> invar s \<Longrightarrow> invar s'"
  by (induction rule: rtranclp_induct) (auto intro: step_invar inside_step)

end

end
