(* ===== verification/Memory.thy ===== *)
theory Memory
  imports Messages Interfaces
begin

text \<open>
  node/memory.go: the message memory, a slice of messages with three indexes (\<open>seen\<close>,
  \<open>byID\<close>, and \<open>fileChunks\<close> from media ID and chunk index to a position), and the
  associative memory.

  The state is the record \<open>memory\<close>; each method is a definition \<open>Memory_<Method>\<close> that
  returns its result and the new state.  \<open>Memory_Remove\<close> indexes the slice without a
  bounds check and so returns an option, \<open>None\<close> being Go's run-time panic.  Positions
  come from \<open>len\<close> and range loops and are natural numbers, which makes the tests
  \<open>pos < 0\<close> of the code vacuous.  The inner maps of \<open>fileChunks\<close> are association lists
  because the code takes their length.

  The invariant \<open>mem_inv\<close> says what the indexes mean; every method preserves it
  (\<open>*_inv\<close>), and under it the memory is a map from IDs to messages (\<open>keyed_store\<close>).
  \<open>FindSimilar\<close> is in the theory of the vector arithmetic it needs.
\<close>

section \<open>State\<close>

record memory =
  mem_messages :: "message list"
  mem_seen :: "string \<rightharpoonup> bool"
  mem_byID :: "string \<rightharpoonup> nat"
  mem_fileChunks :: "string \<rightharpoonup> (int \<times> nat) list"

definition empty_memory :: memory where
  "empty_memory = \<lparr>mem_messages = [], mem_seen = Map.empty, mem_byID = Map.empty,
     mem_fileChunks = Map.empty\<rparr>"

text \<open>\<open>isChunkedMediaType(m.MediaType) && m.ChunkTotal > 0 && m.MediaID != ""\<close>\<close>

definition indexed :: "message \<Rightarrow> bool" where
  "indexed m \<longleftrightarrow> is_chunk m \<and> msg_MediaID m \<noteq> []"

definition chunk_key :: "message \<Rightarrow> (string \<times> int) option" where
  "chunk_key m = (if indexed m then Some (msg_MediaID m, msg_ChunkIndex m) else None)"

section \<open>The indexes\<close>

text \<open>The block that \<open>Add\<close> and \<open>rebuildIndexes\<close> share: create the inner map, write the position.\<close>

definition index_chunk ::
  "message \<Rightarrow> nat \<Rightarrow> (string \<rightharpoonup> (int \<times> nat) list) \<Rightarrow> (string \<rightharpoonup> (int \<times> nat) list)" where
  "index_chunk m pos fcs =
     (if indexed m
      then let fc = (case fcs (msg_MediaID m) of None \<Rightarrow> [] | Some fc \<Rightarrow> fc)
           in fcs(msg_MediaID m \<mapsto> AList.update (msg_ChunkIndex m) pos fc)
      else fcs)"

text \<open>\<open>Remove\<close>, for the message that was moved: only an existing inner map is written.\<close>

definition reindex_moved ::
  "message \<Rightarrow> nat \<Rightarrow> (string \<rightharpoonup> (int \<times> nat) list) \<Rightarrow> (string \<rightharpoonup> (int \<times> nat) list)" where
  "reindex_moved m pos fcs =
     (if indexed m
      then case fcs (msg_MediaID m) of None \<Rightarrow> fcs
           | Some fc \<Rightarrow> fcs(msg_MediaID m \<mapsto> AList.update (msg_ChunkIndex m) pos fc)
      else fcs)"

text \<open>\<open>Remove\<close>, for the message that was removed: an inner map that becomes empty goes too.\<close>

definition unindex_chunk ::
  "message \<Rightarrow> (string \<rightharpoonup> (int \<times> nat) list) \<Rightarrow> (string \<rightharpoonup> (int \<times> nat) list)" where
  "unindex_chunk m fcs =
     (if indexed m
      then case fcs (msg_MediaID m) of None \<Rightarrow> fcs
           | Some fc \<Rightarrow> let fc' = AList.delete (msg_ChunkIndex m) fc
                        in if length fc' = 0 then fcs(msg_MediaID m := None)
                           else fcs(msg_MediaID m \<mapsto> fc')
      else fcs)"

definition chunk_pos :: "(string \<rightharpoonup> (int \<times> nat) list) \<Rightarrow> string \<times> int \<Rightarrow> nat option" where
  "chunk_pos fcs k = (case fcs (fst k) of None \<Rightarrow> None | Some fc \<Rightarrow> map_of fc (snd k))"

definition Memory_rebuildIndexes :: "memory \<Rightarrow> memory" where
  "Memory_rebuildIndexes m =
     (let (b, fcs) = fold (\<lambda>(pos, x) (b, fcs). (b(msg_ID x \<mapsto> pos), index_chunk x pos fcs))
                       (enumerate 0 (mem_messages m)) (Map.empty, Map.empty)
      in m\<lparr>mem_byID := b, mem_fileChunks := fcs\<rparr>)"

text \<open>\<open>pos, ok := m.byID[id]; if !ok || pos < 0 || pos >= len(m.messages)\<close>\<close>

definition mem_lookup :: "memory \<Rightarrow> string \<Rightarrow> nat option" where
  "mem_lookup m i = (case mem_byID m i of None \<Rightarrow> None
     | Some pos \<Rightarrow> if length (mem_messages m) \<le> pos then None else Some pos)"

definition chunk_lookup :: "memory \<Rightarrow> string \<Rightarrow> int \<Rightarrow> nat option" where
  "chunk_lookup m mediaID ci = (case chunk_pos (mem_fileChunks m) (mediaID, ci) of None \<Rightarrow> None
     | Some pos \<Rightarrow> if length (mem_messages m) \<le> pos then None else Some pos)"

text \<open>\<open>m.messages[pos] = f(m.messages[pos])\<close>\<close>

definition mem_modify :: "nat \<Rightarrow> (message \<Rightarrow> message) \<Rightarrow> memory \<Rightarrow> memory" where
  "mem_modify pos f m =
     m\<lparr>mem_messages := (mem_messages m)[pos := f (mem_messages m ! pos)]\<rparr>"

section \<open>Operations\<close>

text \<open>The defaults \<open>Add\<close> gives a message: weight 0.5, created now.\<close>

definition with_defaults :: "time \<Rightarrow> message \<Rightarrow> message" where
  "with_defaults now msg =
     (let msg1 = (if msg_Weight msg = 0 then msg\<lparr>msg_Weight := 1 / 2\<rparr> else msg)
      in if IsZero (msg_Created msg1) then msg1\<lparr>msg_Created := now\<rparr> else msg1)"

definition Memory_Add :: "time \<Rightarrow> message \<Rightarrow> memory \<Rightarrow> bool \<times> memory" where
  "Memory_Add now msg m =
     (if mem_seen m (msg_ID msg) = Some True then (False, m)
      else if is_expired now msg then (False, m)
      else let msg2 = with_defaults now msg;
               pos = length (mem_messages m)
           in (True, m\<lparr>mem_seen := (mem_seen m)(msg_ID msg \<mapsto> True),
                       mem_byID := (mem_byID m)(msg_ID msg2 \<mapsto> pos),
                       mem_fileChunks := index_chunk msg2 pos (mem_fileChunks m),
                       mem_messages := mem_messages m @ [msg2]\<rparr>))"

definition Memory_SetExpiresAt :: "string \<Rightarrow> time \<Rightarrow> memory \<Rightarrow> bool \<times> memory" where
  "Memory_SetExpiresAt i t m = (case mem_lookup m i of None \<Rightarrow> (False, m)
     | Some pos \<Rightarrow> (True, mem_modify pos (\<lambda>x. x\<lparr>msg_ExpiresAt := t\<rparr>) m))"

definition Memory_SetStatus :: "string \<Rightarrow> message_status \<Rightarrow> memory \<Rightarrow> bool \<times> memory" where
  "Memory_SetStatus i st m = (case mem_lookup m i of None \<Rightarrow> (False, m)
     | Some pos \<Rightarrow>
         let cur = msg_Status (mem_messages m ! pos)
         in if cur = StatusHidden then (False, m)
            else if st \<le> cur then (False, m)
            else (True, mem_modify pos (\<lambda>x. x\<lparr>msg_Status := st\<rparr>) m))"

definition Memory_MarkReadLocally :: "string list \<Rightarrow> memory \<Rightarrow> nat \<times> memory" where
  "Memory_MarkReadLocally refs m =
     (if length refs = 0 then (0, m)
      else let hit = (\<lambda>x. msg_ID x \<in> set refs \<and> \<not> msg_ReadLocally x)
           in (length (filter hit (mem_messages m)),
               m\<lparr>mem_messages :=
                   map (\<lambda>x. if hit x then x\<lparr>msg_ReadLocally := True\<rparr> else x) (mem_messages m)\<rparr>))"

definition Memory_ClearChunkData :: "string \<Rightarrow> memory \<Rightarrow> bool \<times> memory" where
  "Memory_ClearChunkData i m = (case mem_lookup m i of None \<Rightarrow> (False, m)
     | Some pos \<Rightarrow> (True, mem_modify pos clear_text m))"

definition Memory_ClearFileChunk :: "string \<Rightarrow> int \<Rightarrow> memory \<Rightarrow> bool \<times> memory" where
  "Memory_ClearFileChunk mediaID ci m = (case chunk_lookup m mediaID ci of None \<Rightarrow> (False, m)
     | Some pos \<Rightarrow> (True, mem_modify pos clear_text m))"

definition Memory_GetFileChunk :: "string \<Rightarrow> int \<Rightarrow> memory \<Rightarrow> message option" where
  "Memory_GetFileChunk mediaID ci m =
     map_option (\<lambda>pos. mem_messages m ! pos) (chunk_lookup m mediaID ci)"

definition Memory_GetByID :: "memory \<Rightarrow> string \<Rightarrow> message option" where
  "Memory_GetByID m i = map_option (\<lambda>pos. mem_messages m ! pos) (mem_lookup m i)"

definition Memory_Remove :: "string \<Rightarrow> memory \<Rightarrow> (bool \<times> memory) option" where
  "Memory_Remove i m = (case mem_byID m i of None \<Rightarrow> Some (False, m)
     | Some pos \<Rightarrow>
         if length (mem_messages m) \<le> pos then None
         else let removed = mem_messages m ! pos;
                  last = length (mem_messages m) - 1;
                  moved = mem_messages m ! last;
                  m1 = (if pos \<noteq> last
                        then m\<lparr>mem_messages := (mem_messages m)[pos := moved],
                               mem_byID := (mem_byID m)(msg_ID moved \<mapsto> pos),
                               mem_fileChunks := reindex_moved moved pos (mem_fileChunks m)\<rparr>
                        else m)
              in Some (True, m1\<lparr>mem_messages := take last (mem_messages m1),
                                mem_byID := (mem_byID m1)(i := None),
                                mem_fileChunks := unindex_chunk removed (mem_fileChunks m1),
                                mem_seen := (mem_seen m1)(i := None)\<rparr>))"

definition Memory_GetAll :: "memory \<Rightarrow> message list" where
  "Memory_GetAll m = mem_messages m"

definition Memory_GetSeenCopy :: "memory \<Rightarrow> string \<rightharpoonup> bool" where
  "Memory_GetSeenCopy m = mem_seen m"

text \<open>\<open>msg.Weight - time.Since(msg.Created).Hours()*0.01\<close>\<close>

definition aged_weight :: "time \<Rightarrow> message \<Rightarrow> real" where
  "aged_weight now x = msg_Weight x - Hours (time_Sub now (msg_Created x)) * (1 / 100)"

definition Memory_GetActiveMessages :: "time \<Rightarrow> real \<Rightarrow> memory \<Rightarrow> message list" where
  "Memory_GetActiveMessages now threshold m =
     map (\<lambda>x. x\<lparr>msg_Weight := max 0 (aged_weight now x)\<rparr>)
       (filter (\<lambda>x. \<not> msg_Archived x \<and> threshold \<le> max 0 (aged_weight now x)) (mem_messages m))"

definition Memory_ArchiveOld :: "time \<Rightarrow> real \<Rightarrow> memory \<Rightarrow> nat \<times> memory" where
  "Memory_ArchiveOld now threshold m =
     (let hit = (\<lambda>x. \<not> msg_Archived x \<and> aged_weight now x < threshold)
      in (length (filter hit (mem_messages m)),
          m\<lparr>mem_messages :=
              map (\<lambda>x. if hit x then x\<lparr>msg_Archived := True\<rparr> else x) (mem_messages m)\<rparr>))"

definition Memory_RestoreFromArchive :: "time \<Rightarrow> string \<Rightarrow> memory \<Rightarrow> bool \<times> memory" where
  "Memory_RestoreFromArchive now i m = (case mem_lookup m i of None \<Rightarrow> (False, m)
     | Some pos \<Rightarrow>
         if \<not> msg_Archived (mem_messages m ! pos) then (False, m)
         else (True, mem_modify pos
                 (\<lambda>x. x\<lparr>msg_Archived := False, msg_Weight := 1 / 2, msg_Created := now\<rparr>) m))"

definition Memory_UpdateWeight :: "string \<Rightarrow> real \<Rightarrow> memory \<Rightarrow> bool \<times> memory" where
  "Memory_UpdateWeight i delta m = (case mem_lookup m i of None \<Rightarrow> (False, m)
     | Some pos \<Rightarrow> (True, mem_modify pos
         (\<lambda>x. let w0 = msg_Weight x + delta;
                  w1 = (if 1 < w0 then 1 else w0);
                  w2 = (if w1 < 0 then 0 else w1)
              in x\<lparr>msg_Weight := w2\<rparr>) m))"

definition Memory_Count :: "memory \<Rightarrow> nat" where
  "Memory_Count m = length (mem_messages m)"

definition Memory_CountArchived :: "memory \<Rightarrow> nat" where
  "Memory_CountArchived m = length (filter msg_Archived (mem_messages m))"

text \<open>
  \<open>PurgeDead\<close> and \<open>DeleteExpired\<close> differ in their test only: both drop the matching
  messages and their \<open>seen\<close> entries, and rebuild the indexes when something went.
\<close>

definition drop_messages :: "(message \<Rightarrow> bool) \<Rightarrow> memory \<Rightarrow> nat \<times> memory" where
  "drop_messages dead m =
     (let gone = filter dead (mem_messages m);
          m1 = m\<lparr>mem_seen := fold (\<lambda>x s. s(msg_ID x := None)) gone (mem_seen m),
                 mem_messages := filter (\<lambda>x. \<not> dead x) (mem_messages m)\<rparr>
      in (length gone, if 0 < length gone then Memory_rebuildIndexes m1 else m1))"

definition Memory_PurgeDead :: "time \<Rightarrow> real \<Rightarrow> memory \<Rightarrow> nat \<times> memory" where
  "Memory_PurgeDead now threshold = drop_messages (\<lambda>x. aged_weight now x < threshold)"

definition overdue :: "time \<Rightarrow> message \<Rightarrow> bool" where
  "overdue now x \<longleftrightarrow>
     (let expired = is_expired now x;
          fallback = \<not> expired \<and> msg_TtlMode x \<noteq> [] \<and> 0 < msg_TtlPeriodSeconds x \<and>
                     \<not> IsZero (msg_Created x) \<and> After now (msg_Created x + 48 * Hour)
      in expired \<or> fallback)"

definition Memory_DeleteExpired :: "time \<Rightarrow> memory \<Rightarrow> nat \<times> memory" where
  "Memory_DeleteExpired now = drop_messages (overdue now)"

definition Memory_GetMessagesFrom :: "string \<Rightarrow> memory \<Rightarrow> message list" where
  "Memory_GetMessagesFrom p m =
     filter (\<lambda>x. msg_Sender x = p \<or> msg_ReplicatedFrom x = p) (mem_messages m)"

definition Memory_GetReplicasFor :: "string \<Rightarrow> memory \<Rightarrow> message list" where
  "Memory_GetReplicasFor p m = filter (\<lambda>x. msg_ReplicatedFrom x = p) (mem_messages m)"

definition Memory_GetMessagesForRecipient :: "string \<Rightarrow> memory \<Rightarrow> message list" where
  "Memory_GetMessagesForRecipient p m = filter (\<lambda>x. msg_Recipient x = p) (mem_messages m)"

section \<open>What the indexes mean\<close>

definition mem_inv :: "memory \<Rightarrow> bool" where
  "mem_inv m \<longleftrightarrow>
     (\<forall>i p. mem_byID m i = Some p \<longleftrightarrow>
        p < length (mem_messages m) \<and> msg_ID (mem_messages m ! p) = i) \<and>
     (\<forall>x \<in> set (mem_messages m). mem_seen m (msg_ID x) = Some True) \<and>
     (\<forall>k p. chunk_pos (mem_fileChunks m) k = Some p \<longrightarrow>
        p < length (mem_messages m) \<and> chunk_key (mem_messages m ! p) = Some k) \<and>
     (\<forall>mid fc. mem_fileChunks m mid = Some fc \<longrightarrow> fc \<noteq> [] \<and> distinct (map fst fc))"

text \<open>\<open>seen\<close> holds no more than the messages; a restart breaks it, no method does.\<close>

definition mem_seen_exact :: "memory \<Rightarrow> bool" where
  "mem_seen_exact m \<longleftrightarrow>
     (\<forall>i. mem_seen m i = (if i \<in> msg_ID ` set (mem_messages m) then Some True else None))"

text \<open>Every chunk is indexed, and no two messages are the same chunk.\<close>

definition chunks_complete :: "memory \<Rightarrow> bool" where
  "chunks_complete m \<longleftrightarrow>
     (\<forall>p < length (mem_messages m). \<forall>k. chunk_key (mem_messages m ! p) = Some k \<longrightarrow>
        chunk_pos (mem_fileChunks m) k = Some p)"

named_theorems mem_inv_intros \<open>the operations that preserve the memory invariant\<close>

lemma mem_invD:
  assumes "mem_inv m"
  shows mem_inv_byID: "mem_byID m i = Some p \<longleftrightarrow>
          p < length (mem_messages m) \<and> msg_ID (mem_messages m ! p) = i"
    and mem_inv_seen: "x \<in> set (mem_messages m) \<Longrightarrow> mem_seen m (msg_ID x) = Some True"
    and mem_inv_chunk: "chunk_pos (mem_fileChunks m) k = Some p \<Longrightarrow>
          p < length (mem_messages m) \<and> chunk_key (mem_messages m ! p) = Some k"
    and mem_inv_fc: "mem_fileChunks m mid = Some fc \<Longrightarrow> fc \<noteq> [] \<and> distinct (map fst fc)"
  using assms unfolding mem_inv_def by blast+

lemma mem_invI:
  assumes "\<And>i p. mem_byID m i = Some p \<longleftrightarrow>
      p < length (mem_messages m) \<and> msg_ID (mem_messages m ! p) = i"
    and "\<And>x. x \<in> set (mem_messages m) \<Longrightarrow> mem_seen m (msg_ID x) = Some True"
    and "\<And>k p. chunk_pos (mem_fileChunks m) k = Some p \<Longrightarrow>
      p < length (mem_messages m) \<and> chunk_key (mem_messages m ! p) = Some k"
    and "\<And>mid fc. mem_fileChunks m mid = Some fc \<Longrightarrow> fc \<noteq> [] \<and> distinct (map fst fc)"
  shows "mem_inv m"
  unfolding mem_inv_def using assms by blast

lemma mem_inv_empty [simp]: "mem_inv empty_memory"
  by (simp add: mem_inv_def empty_memory_def chunk_pos_def)

lemma mem_seen_exact_empty [simp]: "mem_seen_exact empty_memory"
  by (simp add: mem_seen_exact_def empty_memory_def)

lemma chunks_complete_empty [simp]: "chunks_complete empty_memory"
  by (simp add: chunks_complete_def empty_memory_def)

lemma mem_inv_distinct: "mem_inv m \<Longrightarrow> distinct (map msg_ID (mem_messages m))"
  unfolding distinct_conv_nth by (metis length_map mem_inv_byID nth_map option.inject)

lemma mem_inv_inj:
  "mem_inv m \<Longrightarrow> p < length (mem_messages m) \<Longrightarrow> q < length (mem_messages m) \<Longrightarrow>
     msg_ID (mem_messages m ! p) = msg_ID (mem_messages m ! q) \<Longrightarrow> p = q"
  by (metis mem_inv_byID option.inject)

lemma mem_lookup_Some:
  "mem_inv m \<Longrightarrow> mem_lookup m i = Some p \<longleftrightarrow>
     p < length (mem_messages m) \<and> msg_ID (mem_messages m ! p) = i"
  by (auto simp: mem_lookup_def mem_inv_byID split: option.splits)
    (metis mem_inv_byID option.inject option.distinct(1))+

lemma chunk_lookup_Some:
  "mem_inv m \<Longrightarrow> chunk_lookup m mid ci = Some p \<longleftrightarrow>
     chunk_pos (mem_fileChunks m) (mid, ci) = Some p"
  by (auto simp: chunk_lookup_def split: option.splits dest: mem_inv_chunk)

lemma mem_lookup_less: "mem_lookup m i = Some p \<Longrightarrow> p < length (mem_messages m)"
  by (auto simp: mem_lookup_def split: option.splits if_splits)

lemma chunk_lookup_less: "chunk_lookup m mid ci = Some p \<Longrightarrow> p < length (mem_messages m)"
  by (auto simp: chunk_lookup_def split: option.splits if_splits)

text \<open>The memory is a map: \<open>GetByID\<close> finds the message with the ID, if there is one.\<close>

lemma GetByID_Some:
  "mem_inv m \<Longrightarrow> Memory_GetByID m i = Some x \<longleftrightarrow> x \<in> set (mem_messages m) \<and> msg_ID x = i"
  by (auto simp: Memory_GetByID_def mem_lookup_Some in_set_conv_nth)

lemma GetByID_None:
  "mem_inv m \<Longrightarrow> Memory_GetByID m i = None \<longleftrightarrow> i \<notin> msg_ID ` set (mem_messages m)"
  by (metis GetByID_Some image_iff not_None_eq)

subsection \<open>Position maps under the index operations\<close>

lemma chunk_key_Some [simp]:
  "chunk_key x = Some k \<longleftrightarrow> indexed x \<and> k = (msg_MediaID x, msg_ChunkIndex x)"
  by (auto simp: chunk_key_def)

lemma chunk_pos_index:
  "chunk_pos (index_chunk x p fcs) k = (if chunk_key x = Some k then Some p else chunk_pos fcs k)"
  by (cases k) (auto simp: index_chunk_def chunk_pos_def Let_def split: option.splits)

lemma index_chunk_wf:
  assumes "\<And>mid fc. fcs mid = Some fc \<Longrightarrow> fc \<noteq> [] \<and> distinct (map fst fc)"
    and "index_chunk x p fcs mid = Some fc"
  shows "fc \<noteq> [] \<and> distinct (map fst fc)"
  using assms
  by (auto simp: index_chunk_def Let_def distinct_update split: option.splits if_splits)

lemma chunk_pos_reindex:
  "chunk_pos (reindex_moved x p fcs) k =
     (if chunk_key x = Some k \<and> fcs (msg_MediaID x) \<noteq> None then Some p else chunk_pos fcs k)"
  by (cases k) (auto simp: reindex_moved_def chunk_pos_def split: option.splits)

lemma reindex_moved_wf:
  assumes "\<And>mid fc. fcs mid = Some fc \<Longrightarrow> fc \<noteq> [] \<and> distinct (map fst fc)"
    and "reindex_moved x p fcs mid = Some fc"
  shows "fc \<noteq> [] \<and> distinct (map fst fc)"
  using assms by (auto simp: reindex_moved_def distinct_update split: option.splits if_splits)

lemma chunk_pos_unindex:
  "chunk_pos (unindex_chunk x fcs) k = (if chunk_key x = Some k then None else chunk_pos fcs k)"
proof (cases k)
  case (Pair mid ci)
  have "map_of (AList.delete j fc) ci = None" if "AList.delete j fc = []" for j and fc :: "(int \<times> nat) list"
    using that by simp
  moreover have "map_of fc ci = None" if "AList.delete j fc = []" "j \<noteq> ci"
    for j and fc :: "(int \<times> nat) list"
    using that by (metis delete_conv' fun_upd_apply map_of.simps(1))
  ultimately show ?thesis using Pair
    by (auto simp: unindex_chunk_def chunk_pos_def Let_def split: option.splits)
qed

lemma unindex_chunk_wf:
  assumes "\<And>mid fc. fcs mid = Some fc \<Longrightarrow> fc \<noteq> [] \<and> distinct (map fst fc)"
    and "unindex_chunk x fcs mid = Some fc"
  shows "fc \<noteq> [] \<and> distinct (map fst fc)"
  using assms
  by (auto simp: unindex_chunk_def Let_def distinct_delete split: option.splits if_splits)

lemmas chunk_index_simps = chunk_pos_index chunk_pos_reindex chunk_pos_unindex

subsection \<open>Operations that change fields of messages\<close>

text \<open>
  The invariant reads the slice through \<open>msg_key\<close> only, so an operation that keeps the
  keys of all messages keeps the invariant.
\<close>

definition msg_key :: "message \<Rightarrow> string \<times> (string \<times> int) option" where
  "msg_key x = (msg_ID x, chunk_key x)"

lemma mem_frame_set:
  assumes keys: "map msg_key ms = map msg_key (mem_messages m)"
  shows mem_inv_frame: "mem_inv (m\<lparr>mem_messages := ms\<rparr>) \<longleftrightarrow> mem_inv m"
    and mem_seen_exact_frame: "mem_seen_exact (m\<lparr>mem_messages := ms\<rparr>) \<longleftrightarrow> mem_seen_exact m"
    and chunks_complete_frame: "chunks_complete (m\<lparr>mem_messages := ms\<rparr>) \<longleftrightarrow> chunks_complete m"
proof -
  have len: "length ms = length (mem_messages m)" using keys by (metis length_map)
  have key: "msg_ID (ms ! p) = msg_ID (mem_messages m ! p) \<and>
      chunk_key (ms ! p) = chunk_key (mem_messages m ! p)" if "p < length ms" for p
    using that keys len by (metis msg_key_def nth_map prod.inject)
  have "map msg_ID ms = map fst (map msg_key ms)" by (simp add: msg_key_def)
  also have "\<dots> = map msg_ID (mem_messages m)" by (subst keys) (simp add: msg_key_def)
  finally have ids: "msg_ID ` set ms = msg_ID ` set (mem_messages m)" by (metis list.set_map)
  have ball: "(\<forall>x \<in> set xs. mem_seen m (msg_ID x) = Some True) \<longleftrightarrow>
      (\<forall>i \<in> msg_ID ` set xs. mem_seen m i = Some True)" for xs
    by blast
  have seen: "(\<forall>x \<in> set ms. mem_seen m (msg_ID x) = Some True) \<longleftrightarrow>
      (\<forall>x \<in> set (mem_messages m). mem_seen m (msg_ID x) = Some True)"
    by (simp only: ball ids)
  have at: "(p < length ms \<and> msg_ID (ms ! p) = i) \<longleftrightarrow>
      (p < length (mem_messages m) \<and> msg_ID (mem_messages m ! p) = i)"
    and ck: "(p < length ms \<and> chunk_key (ms ! p) = k) \<longleftrightarrow>
      (p < length (mem_messages m) \<and> chunk_key (mem_messages m ! p) = k)" for p i k
    using len key by auto
  have proj: "mem_messages (m\<lparr>mem_messages := ms\<rparr>) = ms"
      "mem_byID (m\<lparr>mem_messages := ms\<rparr>) = mem_byID m"
      "mem_seen (m\<lparr>mem_messages := ms\<rparr>) = mem_seen m"
      "mem_fileChunks (m\<lparr>mem_messages := ms\<rparr>) = mem_fileChunks m"
    by simp_all
  show "mem_inv (m\<lparr>mem_messages := ms\<rparr>) \<longleftrightarrow> mem_inv m"
    by (simp only: mem_inv_def proj seen at ck)
  show "mem_seen_exact (m\<lparr>mem_messages := ms\<rparr>) \<longleftrightarrow> mem_seen_exact m"
    by (simp add: mem_seen_exact_def ids)
  have "(\<forall>p < length ms. \<forall>k. chunk_key (ms ! p) = Some k \<longrightarrow> Q k p) \<longleftrightarrow>
      (\<forall>p k. p < length ms \<and> chunk_key (ms ! p) = Some k \<longrightarrow> Q k p)" for ms Q
    by blast
  then show "chunks_complete (m\<lparr>mem_messages := ms\<rparr>) \<longleftrightarrow> chunks_complete m"
    by (simp only: chunks_complete_def proj ck)
qed

lemmas mem_frame = mem_inv_frame mem_seen_exact_frame chunks_complete_frame

lemma mem_modify_keys:
  "(\<And>x. msg_key (f x) = msg_key x) \<Longrightarrow>
     map msg_key ((mem_messages m)[pos := f (mem_messages m ! pos)]) = map msg_key (mem_messages m)"
  by (metis list_update_id map_update)

lemma mem_modify_frame:
  assumes "\<And>x. msg_key (f x) = msg_key x"
  shows mem_inv_modify [simp]: "mem_inv (mem_modify pos f m) \<longleftrightarrow> mem_inv m"
    and mem_seen_exact_modify [simp]: "mem_seen_exact (mem_modify pos f m) \<longleftrightarrow> mem_seen_exact m"
    and chunks_complete_modify [simp]: "chunks_complete (mem_modify pos f m) \<longleftrightarrow> chunks_complete m"
  using mem_frame[OF mem_modify_keys[OF assms]] by (simp_all add: mem_modify_def)

lemma msg_key_simps [simp]:
  "msg_key (clear_text x) = msg_key x"
  "msg_key (x\<lparr>msg_ExpiresAt := t\<rparr>) = msg_key x"
  "msg_key (x\<lparr>msg_Status := st\<rparr>) = msg_key x"
  "msg_key (x\<lparr>msg_ReadLocally := r\<rparr>) = msg_key x"
  "msg_key (x\<lparr>msg_Archived := a\<rparr>) = msg_key x"
  "msg_key (x\<lparr>msg_Weight := w\<rparr>) = msg_key x"
  "msg_key (x\<lparr>msg_Created := t\<rparr>) = msg_key x"
  by (simp_all add: msg_key_def chunk_key_def indexed_def is_chunk_def clear_text_def)

text \<open>The three facts are kept together by every method, so they have one name.\<close>

definition mem_ok :: "memory \<Rightarrow> bool" where
  "mem_ok m \<longleftrightarrow> mem_inv m \<and> mem_seen_exact m"

lemma SetExpiresAt_inv [mem_inv_intros]:
  "mem_inv m \<Longrightarrow> mem_inv (snd (Memory_SetExpiresAt i t m))"
  "mem_seen_exact m \<Longrightarrow> mem_seen_exact (snd (Memory_SetExpiresAt i t m))"
  by (simp_all add: Memory_SetExpiresAt_def split: option.splits)

lemma SetStatus_inv [mem_inv_intros]:
  "mem_inv m \<Longrightarrow> mem_inv (snd (Memory_SetStatus i st m))"
  "mem_seen_exact m \<Longrightarrow> mem_seen_exact (snd (Memory_SetStatus i st m))"
  by (simp_all add: Memory_SetStatus_def Let_def split: option.splits)

lemma ClearChunkData_inv [mem_inv_intros]:
  "mem_inv m \<Longrightarrow> mem_inv (snd (Memory_ClearChunkData i m))"
  "mem_seen_exact m \<Longrightarrow> mem_seen_exact (snd (Memory_ClearChunkData i m))"
  by (simp_all add: Memory_ClearChunkData_def split: option.splits)

lemma ClearFileChunk_inv [mem_inv_intros]:
  "mem_inv m \<Longrightarrow> mem_inv (snd (Memory_ClearFileChunk mid ci m))"
  "mem_seen_exact m \<Longrightarrow> mem_seen_exact (snd (Memory_ClearFileChunk mid ci m))"
  by (simp_all add: Memory_ClearFileChunk_def split: option.splits)

lemma RestoreFromArchive_inv [mem_inv_intros]:
  "mem_inv m \<Longrightarrow> mem_inv (snd (Memory_RestoreFromArchive now i m))"
  "mem_seen_exact m \<Longrightarrow> mem_seen_exact (snd (Memory_RestoreFromArchive now i m))"
  by (simp_all add: Memory_RestoreFromArchive_def split: option.splits)

lemma UpdateWeight_inv [mem_inv_intros]:
  "mem_inv m \<Longrightarrow> mem_inv (snd (Memory_UpdateWeight i d m))"
  "mem_seen_exact m \<Longrightarrow> mem_seen_exact (snd (Memory_UpdateWeight i d m))"
  by (simp_all add: Memory_UpdateWeight_def Let_def split: option.splits)

lemma map_keys_if:
  "(\<And>x. msg_key (f x) = msg_key x) \<Longrightarrow>
     map msg_key (map (\<lambda>x. if P x then f x else x) xs) = map msg_key xs"
  by simp

lemma MarkReadLocally_inv [mem_inv_intros]:
  "mem_inv m \<Longrightarrow> mem_inv (snd (Memory_MarkReadLocally refs m))"
  "mem_seen_exact m \<Longrightarrow> mem_seen_exact (snd (Memory_MarkReadLocally refs m))"
  unfolding Memory_MarkReadLocally_def Let_def
  by (simp_all add: mem_inv_frame[OF map_keys_if] mem_seen_exact_frame[OF map_keys_if])

lemma ArchiveOld_inv [mem_inv_intros]:
  "mem_inv m \<Longrightarrow> mem_inv (snd (Memory_ArchiveOld now th m))"
  "mem_seen_exact m \<Longrightarrow> mem_seen_exact (snd (Memory_ArchiveOld now th m))"
  unfolding Memory_ArchiveOld_def Let_def
  by (simp_all add: mem_inv_frame[OF map_keys_if] mem_seen_exact_frame[OF map_keys_if])

subsection \<open>Operations that add and remove messages\<close>

definition idx_ok ::
  "(string \<rightharpoonup> nat) \<Rightarrow> (string \<rightharpoonup> (int \<times> nat) list) \<Rightarrow> message list \<Rightarrow> bool" where
  "idx_ok b fcs ms \<longleftrightarrow>
     (\<forall>i p. b i = Some p \<longleftrightarrow> p < length ms \<and> msg_ID (ms ! p) = i) \<and>
     (\<forall>k p. chunk_pos fcs k = Some p \<longrightarrow> p < length ms \<and> chunk_key (ms ! p) = Some k) \<and>
     (\<forall>mid fc. fcs mid = Some fc \<longrightarrow> fc \<noteq> [] \<and> distinct (map fst fc))"

lemma mem_inv_idx: "mem_inv m \<longleftrightarrow> idx_ok (mem_byID m) (mem_fileChunks m) (mem_messages m) \<and>
    (\<forall>x \<in> set (mem_messages m). mem_seen m (msg_ID x) = Some True)"
  unfolding mem_inv_def idx_ok_def by blast

lemma idx_ok_Nil [simp]: "idx_ok Map.empty Map.empty []"
  by (simp add: idx_ok_def chunk_pos_def)

lemma idx_ok_append:
  assumes ok: "idx_ok b fcs ms" and new: "msg_ID x \<notin> msg_ID ` set ms"
  shows "idx_ok (b(msg_ID x \<mapsto> length ms)) (index_chunk x (length ms) fcs) (ms @ [x])"
proof -
  have byid: "(b(msg_ID x \<mapsto> length ms)) i = Some p \<longleftrightarrow>
      p < length (ms @ [x]) \<and> msg_ID ((ms @ [x]) ! p) = i" for i p
  proof (cases "i = msg_ID x")
    case True
    have "msg_ID (ms ! p) \<noteq> i" if "p < length ms" using that new True by (metis image_eqI nth_mem)
    with True show ?thesis by (auto simp: nth_append less_Suc_eq)
  next
    case False
    with ok show ?thesis by (auto simp: idx_ok_def nth_append less_Suc_eq)
  qed
  have chunk: "p < length (ms @ [x]) \<and> chunk_key ((ms @ [x]) ! p) = Some k"
    if "chunk_pos (index_chunk x (length ms) fcs) k = Some p" for k p
  proof (cases "chunk_key x = Some k")
    case False
    with that have "chunk_pos fcs k = Some p" by (simp only: chunk_pos_index if_False)
    with ok have "p < length ms" "chunk_key (ms ! p) = Some k" unfolding idx_ok_def by blast+
    then show ?thesis by (simp add: nth_append)
  qed (use that in \<open>auto simp: chunk_pos_index\<close>)
  have "fc \<noteq> [] \<and> distinct (map fst fc)"
    if "index_chunk x (length ms) fcs mid = Some fc" for mid fc
    using index_chunk_wf[OF _ that] ok unfolding idx_ok_def by blast
  with byid chunk show ?thesis unfolding idx_ok_def by blast
qed

definition idx_build ::
  "message list \<Rightarrow> (string \<rightharpoonup> nat) \<times> (string \<rightharpoonup> (int \<times> nat) list)" where
  "idx_build ms = fold (\<lambda>(pos, x) (b, fcs). (b(msg_ID x \<mapsto> pos), index_chunk x pos fcs))
     (enumerate 0 ms) (Map.empty, Map.empty)"

lemma idx_build_simps [simp]:
  "idx_build [] = (Map.empty, Map.empty)"
  "idx_build (ms @ [x]) = ((fst (idx_build ms))(msg_ID x \<mapsto> length ms),
     index_chunk x (length ms) (snd (idx_build ms)))"
  by (simp_all add: idx_build_def enumerate_append_eq split: prod.split)

lemma rebuild_simps [simp]:
  "mem_messages (Memory_rebuildIndexes m) = mem_messages m"
  "mem_seen (Memory_rebuildIndexes m) = mem_seen m"
  "mem_byID (Memory_rebuildIndexes m) = fst (idx_build (mem_messages m))"
  "mem_fileChunks (Memory_rebuildIndexes m) = snd (idx_build (mem_messages m))"
  by (simp_all add: Memory_rebuildIndexes_def idx_build_def split: prod.split)

lemma idx_build_ok:
  "distinct (map msg_ID ms) \<Longrightarrow> idx_ok (fst (idx_build ms)) (snd (idx_build ms)) ms"
  by (induction ms rule: rev_induct) (auto intro: idx_ok_append)

lemma rebuild_inv:
  "distinct (map msg_ID (mem_messages m)) \<Longrightarrow>
     \<forall>x \<in> set (mem_messages m). mem_seen m (msg_ID x) = Some True \<Longrightarrow>
     mem_inv (Memory_rebuildIndexes m)"
  by (simp add: mem_inv_idx idx_build_ok)

lemma with_defaults_simps [simp]:
  "msg_ID (with_defaults now x) = msg_ID x"
  "msg_key (with_defaults now x) = msg_key x"
  "chunk_key (with_defaults now x) = chunk_key x"
  "msg_Status (with_defaults now x) = msg_Status x"
  by (simp_all add: with_defaults_def Let_def msg_key_def chunk_key_def indexed_def is_chunk_def)

lemma Add_inv [mem_inv_intros]:
  "mem_inv m \<Longrightarrow> mem_inv (snd (Memory_Add now msg m))"
  "mem_seen_exact m \<Longrightarrow> mem_seen_exact (snd (Memory_Add now msg m))"
proof -
  assume inv: "mem_inv m"
  have "msg_ID msg \<notin> msg_ID ` set (mem_messages m)" if "mem_seen m (msg_ID msg) \<noteq> Some True"
    using that inv by (metis image_iff mem_inv_seen)
  with inv show "mem_inv (snd (Memory_Add now msg m))"
    using idx_ok_append[of "mem_byID m" "mem_fileChunks m" "mem_messages m" "with_defaults now msg"]
    by (auto simp: Memory_Add_def Let_def mem_inv_idx)
next
  assume "mem_seen_exact m"
  then show "mem_seen_exact (snd (Memory_Add now msg m))"
    by (auto simp: Memory_Add_def Let_def mem_seen_exact_def)
qed

lemma fold_forget:
  "fold (\<lambda>x s. s(f x := None)) xs s k = (if k \<in> f ` set xs then None else s k)"
  by (induction xs arbitrary: s) auto

lemma drop_messages_messages [simp]:
  "mem_messages (snd (drop_messages dead m)) = filter (\<lambda>x. \<not> dead x) (mem_messages m)"
  by (simp add: drop_messages_def Let_def)

lemma drop_messages_seen:
  "mem_seen (snd (drop_messages dead m)) k =
     (if k \<in> msg_ID ` set (filter dead (mem_messages m)) then None else mem_seen m k)"
  by (auto simp: drop_messages_def Let_def fold_forget filter_empty_conv)

lemma drop_messages_none:
  "filter dead (mem_messages m) = [] \<Longrightarrow> drop_messages dead m = (0, m)"
  by (simp add: drop_messages_def filter_empty_conv)

lemma drop_messages_inv:
  assumes inv: "mem_inv m" shows "mem_inv (snd (drop_messages dead m))"
proof (cases "filter dead (mem_messages m) = []")
  case False
  have dist: "distinct (map msg_ID (mem_messages m))" by (rule mem_inv_distinct[OF inv])
  have "mem_seen (snd (drop_messages dead m)) (msg_ID x) = Some True"
    if "x \<in> set (mem_messages m)" "\<not> dead x" for x
  proof -
    have "msg_ID x \<noteq> msg_ID y" if "y \<in> set (mem_messages m)" "dead y" for y
      using that \<open>x \<in> set (mem_messages m)\<close> \<open>\<not> dead x\<close> dist
      by (metis distinct_map inj_on_eq_iff)
    then show ?thesis using that inv by (auto simp: drop_messages_seen mem_inv_seen)
  qed
  with False dist show ?thesis
    by (auto simp: drop_messages_def Let_def fold_forget distinct_map_filter intro!: rebuild_inv)
qed (simp add: drop_messages_none inv)

lemma drop_messages_seen_exact:
  assumes "mem_inv m" "mem_seen_exact m" shows "mem_seen_exact (snd (drop_messages dead m))"
proof -
  have inj: "x = y" if "x \<in> set (mem_messages m)" "y \<in> set (mem_messages m)" "msg_ID x = msg_ID y" for x y
    using that mem_inv_distinct[OF assms(1)] by (simp add: distinct_map inj_on_def)
  show ?thesis
    unfolding mem_seen_exact_def drop_messages_seen drop_messages_messages
    using assms(2) inj by (fastforce simp: mem_seen_exact_def)
qed

lemma PurgeDead_inv [mem_inv_intros]:
  "mem_inv m \<Longrightarrow> mem_inv (snd (Memory_PurgeDead now th m))"
  "mem_inv m \<Longrightarrow> mem_seen_exact m \<Longrightarrow> mem_seen_exact (snd (Memory_PurgeDead now th m))"
  by (simp_all add: Memory_PurgeDead_def drop_messages_inv drop_messages_seen_exact)

lemma DeleteExpired_inv [mem_inv_intros]:
  "mem_inv m \<Longrightarrow> mem_inv (snd (Memory_DeleteExpired now m))"
  "mem_inv m \<Longrightarrow> mem_seen_exact m \<Longrightarrow> mem_seen_exact (snd (Memory_DeleteExpired now m))"
  by (simp_all add: Memory_DeleteExpired_def drop_messages_inv drop_messages_seen_exact)

subsection \<open>Remove\<close>

text \<open>What \<open>Remove\<close> makes of the slice and of the two indexes when the ID is at \<open>pos\<close>.\<close>

definition removed_at :: "nat \<Rightarrow> memory \<Rightarrow> memory" where
  "removed_at pos m =
     (let ms = mem_messages m; n = length ms - 1; x = ms ! pos; y = ms ! n
      in m\<lparr>mem_messages := take n (if pos \<noteq> n then ms[pos := y] else ms),
           mem_byID := (if pos \<noteq> n then (mem_byID m)(msg_ID y \<mapsto> pos) else mem_byID m)(msg_ID x := None),
           mem_fileChunks := unindex_chunk x
             (if pos \<noteq> n then reindex_moved y pos (mem_fileChunks m) else mem_fileChunks m),
           mem_seen := (mem_seen m)(msg_ID x := None)\<rparr>)"

lemma Remove_absent: "mem_inv m \<Longrightarrow> mem_byID m i = None \<Longrightarrow> Memory_Remove i m = Some (False, m)"
  by (simp add: Memory_Remove_def)

lemma Remove_present:
  assumes inv: "mem_inv m" and pos: "mem_byID m i = Some pos"
  shows "Memory_Remove i m = Some (True, removed_at pos m)"
proof -
  have "\<not> length (mem_messages m) \<le> pos" "msg_ID (mem_messages m ! pos) = i"
    using mem_inv_byID[OF inv, of i pos] pos by auto
  then show ?thesis by (simp add: Memory_Remove_def removed_at_def Let_def pos)
qed

lemma removed_at_nth:
  assumes "pos < length (mem_messages m)" "p < length (mem_messages m) - 1"
  shows "mem_messages (removed_at pos m) ! p =
    (if p = pos then mem_messages m ! (length (mem_messages m) - 1) else mem_messages m ! p)"
  using assms by (auto simp: removed_at_def Let_def nth_list_update)

lemma removed_at_length [simp]:
  "length (mem_messages (removed_at pos m)) = length (mem_messages m) - 1"
  by (simp add: removed_at_def Let_def)

lemma removed_at_set:
  assumes inv: "mem_inv m" and pos: "pos < length (mem_messages m)"
  shows "set (mem_messages (removed_at pos m)) = set (mem_messages m) - {mem_messages m ! pos}"
proof -
  let ?ms = "mem_messages m" and ?n = "length (mem_messages m) - 1"
  have other: "?ms ! p \<noteq> ?ms ! pos" if "p < length ?ms" "p \<noteq> pos" for p
    using mem_inv_inj[OF inv that(1) pos] that by auto
  show ?thesis
  proof (intro set_eqI iffI)
    fix x assume "x \<in> set (mem_messages (removed_at pos m))"
    then obtain p where p: "p < ?n" "x = mem_messages (removed_at pos m) ! p"
      by (metis in_set_conv_nth removed_at_length)
    then have "x = (if p = pos then ?ms ! ?n else ?ms ! p)" using pos by (simp add: removed_at_nth)
    moreover have "?n < length ?ms" "p < length ?ms" "p = pos \<Longrightarrow> ?n \<noteq> pos" using p pos by auto
    ultimately show "x \<in> set ?ms - {?ms ! pos}"
      using other[of p] other[of ?n] nth_mem by (cases "p = pos") auto
  next
    fix x assume "x \<in> set ?ms - {?ms ! pos}"
    then obtain q where q: "q < length ?ms" "x = ?ms ! q" "q \<noteq> pos"
      by (auto simp: in_set_conv_nth)
    define p where "p = (if q = ?n then pos else q)"
    have "p < ?n" using q pos by (auto simp: p_def)
    moreover have "mem_messages (removed_at pos m) ! p = x"
      using q pos \<open>p < ?n\<close> by (auto simp: removed_at_nth p_def)
    ultimately show "x \<in> set (mem_messages (removed_at pos m))"
      by (metis nth_mem removed_at_length)
  qed
qed

lemma removed_at_byID:
  assumes inv: "mem_inv m" and pos: "pos < length (mem_messages m)"
  shows "mem_byID (removed_at pos m) i = Some p \<longleftrightarrow>
    p < length (mem_messages (removed_at pos m)) \<and> msg_ID (mem_messages (removed_at pos m) ! p) = i"
proof -
  let ?ms = "mem_messages m" and ?n = "length (mem_messages m) - 1"
  have b: "mem_byID (removed_at pos m) i =
      (if i = msg_ID (?ms ! pos) then None
       else if pos \<noteq> ?n \<and> i = msg_ID (?ms ! ?n) then Some pos else mem_byID m i)"
    by (simp add: removed_at_def Let_def)
  have n: "?n < length ?ms" using pos by auto
  have ne: "msg_ID (?ms ! q) \<noteq> msg_ID (?ms ! r)" if "q < length ?ms" "r < length ?ms" "q \<noteq> r" for q r
    using that mem_inv_inj[OF inv] by blast
  note byid = mem_inv_byID[OF inv]
  consider (moved) "p < ?n" "p = pos" | (kept) "p < ?n" "p \<noteq> pos" | (out) "?n \<le> p" by linarith
  then show ?thesis
  proof cases
    case moved
    then have "mem_byID (removed_at pos m) i = Some p \<longleftrightarrow> msg_ID (?ms ! ?n) = i"
      unfolding b using n pos ne[of ?n pos] by (auto simp: byid)
    with moved pos show ?thesis by (simp add: removed_at_nth)
  next
    case kept
    then have lt: "p < length ?ms" "p \<noteq> ?n" by auto
    have "mem_byID (removed_at pos m) i = Some p \<longleftrightarrow> msg_ID (?ms ! p) = i"
      unfolding b using kept n pos lt ne[of p ?n] ne[of p pos] by (auto simp: byid)
    with kept pos show ?thesis by (simp add: removed_at_nth)
  next
    case out
    have "mem_byID (removed_at pos m) i \<noteq> Some p"
    proof
      assume *: "mem_byID (removed_at pos m) i = Some p"
      show False
      proof (cases "pos \<noteq> ?n \<and> i = msg_ID (?ms ! ?n)")
        case True
        with * have "p = pos" unfolding b by (auto split: if_splits)
        with True out pos show False by auto
      next
        case False
        with * have "mem_byID m i = Some p" "i \<noteq> msg_ID (?ms ! pos)"
          unfolding b by (auto split: if_splits)
        then have "p < length ?ms" "msg_ID (?ms ! p) = i" by (auto simp: byid)
        with out False have "p = ?n" by linarith
        with False \<open>msg_ID (?ms ! p) = i\<close> \<open>i \<noteq> msg_ID (?ms ! pos)\<close> show False by auto
      qed
    qed
    with out show ?thesis by simp
  qed
qed

lemma removed_at_chunk_pos:
  assumes inv: "mem_inv m" and pos: "pos < length (mem_messages m)"
  shows "chunk_pos (mem_fileChunks (removed_at pos m)) k =
    (if chunk_key (mem_messages m ! pos) = Some k then None
     else let n = length (mem_messages m) - 1
          in if pos \<noteq> n \<and> chunk_key (mem_messages m ! n) = Some k \<and> mem_fileChunks m (fst k) \<noteq> None
             then Some pos else chunk_pos (mem_fileChunks m) k)"
  by (cases k) (auto simp: removed_at_def Let_def chunk_pos_unindex chunk_pos_reindex)

lemma removed_at_chunk:
  assumes inv: "mem_inv m" and pos: "pos < length (mem_messages m)"
    and p: "chunk_pos (mem_fileChunks (removed_at pos m)) k = Some p"
  shows "p < length (mem_messages (removed_at pos m)) \<and>
    chunk_key (mem_messages (removed_at pos m) ! p) = Some k"
proof -
  let ?ms = "mem_messages m" and ?n = "length (mem_messages m) - 1"
  have rk: "chunk_key (?ms ! pos) \<noteq> Some k"
    using p unfolding removed_at_chunk_pos[OF inv pos] by (metis option.distinct(1))
  show ?thesis
  proof (cases "pos \<noteq> ?n \<and> chunk_key (?ms ! ?n) = Some k \<and> mem_fileChunks m (fst k) \<noteq> None")
    case True
    with p rk have "p = pos" by (simp add: removed_at_chunk_pos[OF inv pos] Let_def del: chunk_key_Some)
    moreover have "pos < ?n" using True pos by linarith
    ultimately show ?thesis using True pos by (simp add: removed_at_nth del: chunk_key_Some)
  next
    case False
    with p rk have old: "chunk_pos (mem_fileChunks m) k = Some p"
      by (simp only: removed_at_chunk_pos[OF inv pos] Let_def if_False)
    then have f: "mem_fileChunks m (fst k) \<noteq> None" by (auto simp: chunk_pos_def split: option.splits)
    from mem_inv_chunk[OF inv old] have pk: "p < length ?ms" "chunk_key (?ms ! p) = Some k" by auto
    then have "p \<noteq> pos" using rk by metis
    moreover have "p \<noteq> ?n" using False f pk \<open>p \<noteq> pos\<close> by metis
    ultimately show ?thesis using pk pos by (simp add: removed_at_nth del: chunk_key_Some)
  qed
qed

lemma removed_at_inv:
  assumes inv: "mem_inv m" and pos: "pos < length (mem_messages m)"
  shows "mem_inv (removed_at pos m)"
proof (rule mem_invI)
  fix x assume x: "x \<in> set (mem_messages (removed_at pos m))"
  then have "x \<in> set (mem_messages m)" "msg_ID x \<noteq> msg_ID (mem_messages m ! pos)"
    using removed_at_set[OF inv pos] mem_inv_inj[OF inv _ pos] by (auto simp: in_set_conv_nth)
  then show "mem_seen (removed_at pos m) (msg_ID x) = Some True"
    by (simp add: removed_at_def Let_def mem_inv_seen[OF inv])
next
  fix mid fc assume fc: "mem_fileChunks (removed_at pos m) mid = Some fc"
  have wf: "mem_fileChunks m d = Some c \<Longrightarrow> c \<noteq> [] \<and> distinct (map fst c)" for d c
    by (rule mem_inv_fc[OF inv])
  show "fc \<noteq> [] \<and> distinct (map fst fc)"
    using fc unfolding removed_at_def Let_def
    by simp (erule unindex_chunk_wf[rotated], use wf reindex_moved_wf[OF wf] in \<open>auto split: if_splits\<close>)
qed (use removed_at_byID[OF inv pos] removed_at_chunk[OF inv pos] in auto)

lemma Remove_inv [mem_inv_intros]:
  "mem_inv m \<Longrightarrow> \<exists>b m'. Memory_Remove i m = Some (b, m') \<and> mem_inv m'"
  by (cases "mem_byID m i")
    (auto simp: Remove_absent Remove_present intro: removed_at_inv dest: mem_inv_byID[THEN iffD1])

lemma removed_at_seen_exact:
  assumes inv: "mem_inv m" and pos: "pos < length (mem_messages m)" and "mem_seen_exact m"
  shows "mem_seen_exact (removed_at pos m)"
proof -
  have "msg_ID ` set (mem_messages (removed_at pos m)) =
      msg_ID ` set (mem_messages m) - {msg_ID (mem_messages m ! pos)}"
    unfolding removed_at_set[OF inv pos]
    using mem_inv_distinct[OF inv] nth_mem[OF pos] by (auto simp: distinct_map inj_on_def)
  with assms(3) show ?thesis by (auto simp: mem_seen_exact_def removed_at_def Let_def)
qed

end
