(* ===== verification/MemorySpec.thy ===== *)
theory MemorySpec
  imports Memory
begin

text \<open>
  What the message memory promises.  Under its invariant it is a map from message IDs to
  messages: \<open>GetByID\<close> reads the map and each method updates it as its name says
  (\<open>GetByID_*\<close>); the interpretation \<open>memory_store\<close> gives the contract of \<open>keyed_store\<close>.
  No sequence of method calls panics (\<open>memory_run_safe\<close>).
\<close>

section \<open>The memory as a map\<close>

lemma mem_okD: "mem_ok m \<Longrightarrow> mem_inv m" "mem_ok m \<Longrightarrow> mem_seen_exact m"
  by (simp_all add: mem_ok_def)

lemma mem_ok_empty [simp]: "mem_ok empty_memory"
  by (simp add: mem_ok_def)

lemma GetByID_eqI:
  assumes "mem_inv m" and "\<And>x. f i = Some x \<longleftrightarrow> x \<in> set (mem_messages m) \<and> msg_ID x = i"
  shows "Memory_GetByID m i = f i"
  using assms by (metis GetByID_Some not_None_eq)

lemma mem_inv_ID_eq:
  "mem_inv m \<Longrightarrow> x \<in> set (mem_messages m) \<Longrightarrow> y \<in> set (mem_messages m) \<Longrightarrow>
     msg_ID x = msg_ID y \<Longrightarrow> x = y"
  by (metis mem_inv_distinct distinct_map inj_on_eq_iff)

lemma GetByID_modify:
  assumes inv: "mem_inv m" and pos: "mem_lookup m i = Some pos"
    and keys: "\<And>x. msg_key (f x) = msg_key x"
  shows "Memory_GetByID (mem_modify pos f m) = (Memory_GetByID m)(i := map_option f (Memory_GetByID m i))"
proof
  fix j
  have ids: "msg_ID (f x) = msg_ID x" for x using keys[of x] by (simp add: msg_key_def)
  have inv': "mem_inv (mem_modify pos f m)" using inv keys by simp
  have p: "pos < length (mem_messages m)" "msg_ID (mem_messages m ! pos) = i"
    using pos inv by (simp_all add: mem_lookup_Some)
  have "mem_lookup (mem_modify pos f m) j = mem_lookup m j"
    by (simp add: mem_lookup_def mem_modify_def split: option.split)
  then have get: "Memory_GetByID (mem_modify pos f m) j =
      map_option (\<lambda>q. (mem_messages m)[pos := f (mem_messages m ! pos)] ! q) (mem_lookup m j)"
    by (simp add: Memory_GetByID_def mem_modify_def)
  show "Memory_GetByID (mem_modify pos f m) j =
      ((Memory_GetByID m)(i := map_option f (Memory_GetByID m i))) j"
  proof (cases "j = i")
    case True
    with get pos p show ?thesis by (simp add: Memory_GetByID_def)
  next
    case False
    have "q \<noteq> pos" if "mem_lookup m j = Some q" for q
      using that pos False inv by (auto simp: mem_lookup_Some)
    with False show ?thesis unfolding get by (cases "mem_lookup m j") (auto simp: Memory_GetByID_def)
  qed
qed

lemma GetByID_upd_None:
  "mem_lookup m i = None \<Longrightarrow> (Memory_GetByID m)(i := map_option f (Memory_GetByID m i)) = Memory_GetByID m"
  by (auto simp: Memory_GetByID_def fun_eq_iff)

text \<open>The status rule of \<open>SetStatus\<close>: hidden is terminal and a status is never lowered.\<close>

definition status_step :: "message_status \<Rightarrow> message_status \<Rightarrow> message_status" where
  "status_step st cur = (if cur = StatusHidden \<or> st \<le> cur then cur else st)"

lemma GetByID_SetStatus:
  assumes inv: "mem_inv m"
  shows "Memory_GetByID (snd (Memory_SetStatus i st m)) = (Memory_GetByID m)(i :=
    map_option (\<lambda>x. x\<lparr>msg_Status := status_step st (msg_Status x)\<rparr>) (Memory_GetByID m i))"
proof (cases "mem_lookup m i")
  case None
  then show ?thesis by (simp add: Memory_SetStatus_def GetByID_upd_None)
next
  case (Some pos)
  then have g: "Memory_GetByID m i = Some (mem_messages m ! pos)" by (simp add: Memory_GetByID_def)
  show ?thesis
    using Some g GetByID_modify[OF inv Some, of "\<lambda>x. x\<lparr>msg_Status := st\<rparr>"]
    by (auto simp: Memory_SetStatus_def Let_def status_step_def fun_eq_iff)
qed

lemma GetByID_SetExpiresAt:
  assumes inv: "mem_inv m"
  shows "Memory_GetByID (snd (Memory_SetExpiresAt i t m)) = (Memory_GetByID m)(i :=
    map_option (\<lambda>x. x\<lparr>msg_ExpiresAt := t\<rparr>) (Memory_GetByID m i))"
  using GetByID_modify[OF inv, of i _ "\<lambda>x. x\<lparr>msg_ExpiresAt := t\<rparr>"]
  by (cases "mem_lookup m i") (simp_all add: Memory_SetExpiresAt_def GetByID_upd_None)

lemma GetByID_ClearChunkData:
  assumes inv: "mem_inv m"
  shows "Memory_GetByID (snd (Memory_ClearChunkData i m)) = (Memory_GetByID m)(i :=
    map_option clear_text (Memory_GetByID m i))"
  using GetByID_modify[OF inv, of i _ clear_text]
  by (cases "mem_lookup m i") (simp_all add: Memory_ClearChunkData_def GetByID_upd_None)

lemma Remove_messages:
  assumes "mem_inv m"
  obtains b m' where "Memory_Remove i m = Some (b, m')" "mem_inv m'"
    "set (mem_messages m') = {x \<in> set (mem_messages m). msg_ID x \<noteq> i}"
    "b \<longleftrightarrow> i \<in> msg_ID ` set (mem_messages m)" "mem_seen_exact m \<Longrightarrow> mem_seen_exact m'"
proof (cases "mem_byID m i")
  case None
  have "\<not> (x \<in> set (mem_messages m) \<and> msg_ID x = i)" for x
    using None mem_inv_byID[OF assms, of i] by (auto simp: in_set_conv_nth)
  with assms None that show ?thesis by (auto simp: Remove_absent)
next
  case (Some pos)
  then have p: "pos < length (mem_messages m)" "msg_ID (mem_messages m ! pos) = i"
    using mem_inv_byID[OF assms] by auto
  have "set (mem_messages m) - {mem_messages m ! pos} = {x \<in> set (mem_messages m). msg_ID x \<noteq> i}"
    using p mem_inv_ID_eq[OF assms _ nth_mem[OF p(1)]] by auto
  with p that[of True "removed_at pos m"] show ?thesis
    by (auto simp: Remove_present[OF assms Some] removed_at_set[OF assms p(1)]
        removed_at_inv[OF assms p(1)] removed_at_seen_exact[OF assms p(1)])
qed

definition memory_put :: "time \<Rightarrow> message \<Rightarrow> memory \<Rightarrow> memory" where
  "memory_put now msg m = snd (Memory_Add now msg m)"

definition memory_del :: "string \<Rightarrow> memory \<Rightarrow> memory" where
  "memory_del i m = (case Memory_Remove i m of Some (b, m') \<Rightarrow> m' | None \<Rightarrow> m)"

text \<open>\<open>Add\<close> keeps a message that is there and does not admit one that has expired.\<close>

definition memory_merge :: "time \<Rightarrow> message option \<Rightarrow> message \<Rightarrow> message option" where
  "memory_merge now old msg = (case old of Some x \<Rightarrow> Some x
     | None \<Rightarrow> if is_expired now msg then None else Some (with_defaults now msg))"

lemma GetByID_Add:
  assumes ok: "mem_ok m"
  shows "Memory_GetByID (memory_put now msg m) =
    (Memory_GetByID m)(msg_ID msg := memory_merge now (Memory_GetByID m (msg_ID msg)) msg)"
proof
  fix j
  note inv = mem_okD(1)[OF ok]
  have inv': "mem_inv (memory_put now msg m)" unfolding memory_put_def by (rule Add_inv(1)[OF inv])
  have seen: "mem_seen m (msg_ID msg) = Some True \<longleftrightarrow> Memory_GetByID m (msg_ID msg) \<noteq> None"
    using GetByID_None[OF inv, of "msg_ID msg"] mem_okD(2)[OF ok]
    by (auto simp: mem_seen_exact_def)
  show "Memory_GetByID (memory_put now msg m) j =
      ((Memory_GetByID m)(msg_ID msg := memory_merge now (Memory_GetByID m (msg_ID msg)) msg)) j"
  proof (cases "mem_seen m (msg_ID msg) = Some True \<or> is_expired now msg")
    case True
    then have "memory_put now msg m = m" by (auto simp: memory_put_def Memory_Add_def)
    with True seen show ?thesis by (auto simp: memory_merge_def split: option.splits)
  next
    case False
    then have none: "Memory_GetByID m (msg_ID msg) = None" using seen by blast
    have "mem_messages (memory_put now msg m) = mem_messages m @ [with_defaults now msg]"
      using False by (simp add: memory_put_def Memory_Add_def Let_def)
    moreover have "msg_ID msg \<notin> msg_ID ` set (mem_messages m)" using none GetByID_None[OF inv] by blast
    ultimately have "x \<in> set (mem_messages (memory_put now msg m)) \<and> msg_ID x = j \<longleftrightarrow>
        (if j = msg_ID msg then x = with_defaults now msg else x \<in> set (mem_messages m) \<and> msg_ID x = j)" for x
      by (auto simp: image_iff)
    then show ?thesis
      using False none by (intro GetByID_eqI[OF inv']) (auto simp: memory_merge_def GetByID_Some[OF inv])
  qed
qed

text \<open>Each message is added at a reading of the clock of its own.\<close>

definition timed_put :: "time \<times> message \<Rightarrow> memory \<Rightarrow> memory" where
  "timed_put x m = memory_put (fst x) (snd x) m"

definition timed_ID :: "time \<times> message \<Rightarrow> string" where
  "timed_ID x = msg_ID (snd x)"

definition timed_merge :: "message option \<Rightarrow> time \<times> message \<Rightarrow> message option" where
  "timed_merge old x = memory_merge (fst x) old (snd x)"

interpretation memory_store:
  keyed_store Memory_GetByID timed_put memory_del timed_ID timed_merge mem_ok
proof unfold_locales
  fix s k and v :: "time \<times> message"
  show "mem_ok s \<Longrightarrow> Memory_GetByID (timed_put v s) =
      (Memory_GetByID s)(timed_ID v := timed_merge (Memory_GetByID s (timed_ID v)) v)"
    unfolding timed_put_def timed_ID_def timed_merge_def by (rule GetByID_Add)
  show "mem_ok s \<Longrightarrow> mem_ok (timed_put v s)"
    by (simp add: mem_ok_def timed_put_def memory_put_def Add_inv)
  show "mem_ok s \<Longrightarrow> mem_ok (memory_del k s)"
    by (rule Remove_messages[of s k]) (auto simp: mem_ok_def memory_del_def)
  assume "mem_ok s"
  then have inv: "mem_inv s" by (rule mem_okD)
  then obtain b m' where "Memory_Remove k s = Some (b, m')" "mem_inv m'"
      "set (mem_messages m') = {x \<in> set (mem_messages s). msg_ID x \<noteq> k}"
    by (rule Remove_messages)
  then show "Memory_GetByID (memory_del k s) = (Memory_GetByID s)(k := None)"
    by (intro ext GetByID_eqI) (auto simp: memory_del_def GetByID_Some[OF inv])
qed

section \<open>Runs of method calls\<close>

datatype memory_op =
    MAdd message | MSetExpiresAt string time | MSetStatus string message_status
  | MMarkReadLocally "string list" | MClearChunkData string | MClearFileChunk string int
  | MRemove string | MArchiveOld real | MRestoreFromArchive string
  | MUpdateWeight string real | MPurgeDead real | MDeleteExpired

fun memory_step :: "time \<Rightarrow> memory_op \<Rightarrow> memory \<Rightarrow> memory option" where
  "memory_step now (MAdd x) m = Some (snd (Memory_Add now x m))"
| "memory_step now (MSetExpiresAt i t) m = Some (snd (Memory_SetExpiresAt i t m))"
| "memory_step now (MSetStatus i st) m = Some (snd (Memory_SetStatus i st m))"
| "memory_step now (MMarkReadLocally refs) m = Some (snd (Memory_MarkReadLocally refs m))"
| "memory_step now (MClearChunkData i) m = Some (snd (Memory_ClearChunkData i m))"
| "memory_step now (MClearFileChunk mid ci) m = Some (snd (Memory_ClearFileChunk mid ci m))"
| "memory_step now (MRemove i) m = map_option snd (Memory_Remove i m)"
| "memory_step now (MArchiveOld th) m = Some (snd (Memory_ArchiveOld now th m))"
| "memory_step now (MRestoreFromArchive i) m = Some (snd (Memory_RestoreFromArchive now i m))"
| "memory_step now (MUpdateWeight i d) m = Some (snd (Memory_UpdateWeight i d m))"
| "memory_step now (MPurgeDead th) m = Some (snd (Memory_PurgeDead now th m))"
| "memory_step now MDeleteExpired m = Some (snd (Memory_DeleteExpired now m))"

fun memory_run :: "(time \<times> memory_op) list \<Rightarrow> memory \<Rightarrow> memory option" where
  "memory_run [] m = Some m"
| "memory_run ((now, x) # os) m = Option.bind (memory_step now x m) (memory_run os)"

lemma memory_step_inv:
  assumes "mem_inv m" shows "\<exists>m'. memory_step now x m = Some m' \<and> mem_inv m'"
proof (cases "\<exists>i. x = MRemove i")
  case True
  then show ?thesis using Remove_inv[OF assms] by force
next
  case False
  with assms show ?thesis by (cases x) (simp_all add: mem_inv_intros)
qed

lemma memory_step_ok:
  assumes ok: "mem_ok m" and step: "memory_step now x m = Some m'" shows "mem_ok m'"
proof (cases "\<exists>i. x = MRemove i")
  case True
  then obtain i where x: "x = MRemove i" by blast
  obtain b m1 where "Memory_Remove i m = Some (b, m1)" "mem_inv m1" "mem_seen_exact m1"
    using Remove_messages[OF mem_okD(1)[OF ok], of i] mem_okD(2)[OF ok] by metis
  with x step show ?thesis by (simp add: mem_ok_def)
next
  case False
  from mem_okD[OF ok] have "mem_inv m" "mem_seen_exact m" .
  with False step show ?thesis unfolding mem_ok_def
    by (cases x) (simp_all, (metis mem_inv_intros)+)
qed

lemma memory_run_inv: "mem_inv m \<Longrightarrow> \<exists>m'. memory_run os m = Some m' \<and> mem_inv m'"
proof (induction os arbitrary: m)
  case (Cons a os)
  obtain now x where a: "a = (now, x)" by (cases a)
  from memory_step_inv[OF Cons.prems, of now x] show ?case using Cons.IH a by auto
qed simp

lemma memory_run_ok: "mem_ok m \<Longrightarrow> memory_run os m = Some m' \<Longrightarrow> mem_ok m'"
proof (induction os arbitrary: m)
  case (Cons a os)
  obtain now x where a: "a = (now, x)" by (cases a)
  with Cons.prems obtain m1 where "memory_step now x m = Some m1" "memory_run os m1 = Some m'"
    by (auto simp: bind_eq_Some_conv)
  with Cons memory_step_ok show ?case by blast
qed simp

subsection \<open>Bulk deletion\<close>

lemma GetByID_drop:
  assumes inv: "mem_inv m"
  shows "Memory_GetByID (snd (drop_messages dead m)) i =
    (case Memory_GetByID m i of None \<Rightarrow> None | Some x \<Rightarrow> if dead x then None else Some x)"
  by (rule GetByID_eqI[OF drop_messages_inv[OF inv]])
    (auto simp: GetByID_Some[OF inv] GetByID_None[OF inv] split: option.splits
      dest: mem_inv_ID_eq[OF inv])

lemma drop_messages_fst: "fst (drop_messages dead m) = length (filter dead (mem_messages m))"
  by (simp add: drop_messages_def Let_def)

subsection \<open>The chunk index\<close>

lemma GetFileChunk_Some:
  assumes inv: "mem_inv m" and complete: "chunks_complete m"
  shows "Memory_GetFileChunk mid ci m = Some x \<longleftrightarrow>
    x \<in> set (mem_messages m) \<and> chunk_key x = Some (mid, ci)"
proof
  assume "Memory_GetFileChunk mid ci m = Some x"
  then show "x \<in> set (mem_messages m) \<and> chunk_key x = Some (mid, ci)"
    by (auto simp: Memory_GetFileChunk_def chunk_lookup_Some[OF inv] simp del: chunk_key_Some
        dest!: mem_inv_chunk[OF inv])
next
  assume "x \<in> set (mem_messages m) \<and> chunk_key x = Some (mid, ci)"
  then obtain p where "p < length (mem_messages m)" "mem_messages m ! p = x"
      "chunk_key (mem_messages m ! p) = Some (mid, ci)"
    by (auto simp: in_set_conv_nth)
  with complete have "chunk_lookup m mid ci = Some p"
    unfolding chunk_lookup_Some[OF inv] chunks_complete_def by blast
  with \<open>mem_messages m ! p = x\<close> show "Memory_GetFileChunk mid ci m = Some x"
    by (simp add: Memory_GetFileChunk_def)
qed

lemma chunks_complete_Add:
  assumes inv: "mem_inv m" and "chunks_complete m"
    and new: "\<And>k. chunk_key msg = Some k \<Longrightarrow> \<forall>x \<in> set (mem_messages m). chunk_key x \<noteq> Some k"
  shows "chunks_complete (snd (Memory_Add now msg m))"
proof (cases "fst (Memory_Add now msg m)")
  case True
  then have add: "mem_messages (snd (Memory_Add now msg m)) = mem_messages m @ [with_defaults now msg]"
      "mem_fileChunks (snd (Memory_Add now msg m)) =
        index_chunk (with_defaults now msg) (length (mem_messages m)) (mem_fileChunks m)"
    by (auto simp: Memory_Add_def Let_def split: if_splits)
  show ?thesis
    unfolding chunks_complete_def add chunk_pos_index with_defaults_simps
  proof (intro allI impI)
    fix p k
    assume p: "p < length (mem_messages m @ [with_defaults now msg])"
      and k: "chunk_key ((mem_messages m @ [with_defaults now msg]) ! p) = Some k"
    show "(if chunk_key msg = Some k then Some (length (mem_messages m))
        else chunk_pos (mem_fileChunks m) k) = Some p"
    proof (cases "p < length (mem_messages m)")
      case True
      with k have k': "chunk_key (mem_messages m ! p) = Some k" by (simp add: nth_append)
      with new True have "chunk_key msg \<noteq> Some k" by (metis nth_mem)
      with k' True assms(2) show ?thesis unfolding chunks_complete_def by simp
    next
      case False
      with p have "p = length (mem_messages m)" by simp
      with k show ?thesis by simp
    qed
  qed
next
  case False
  then have "snd (Memory_Add now msg m) = m" by (auto simp: Memory_Add_def Let_def split: if_splits)
  with assms(2) show ?thesis by simp
qed

lemma chunks_complete_Remove:
  assumes inv: "mem_inv m" and c: "chunks_complete m" and pos: "pos < length (mem_messages m)"
  shows "chunks_complete (removed_at pos m)"
  unfolding chunks_complete_def
proof (intro allI impI)
  let ?ms = "mem_messages m" and ?n = "length (mem_messages m) - 1"
  fix p k
  assume p: "p < length (mem_messages (removed_at pos m))"
    and k: "chunk_key (mem_messages (removed_at pos m) ! p) = Some k"
  define q where "q = (if p = pos then ?n else p)"
  have q: "q < length ?ms" "q \<noteq> pos" "chunk_key (?ms ! q) = Some k"
    using p k pos by (auto simp: q_def removed_at_nth simp del: chunk_key_Some)
  have qk: "chunk_pos (mem_fileChunks m) k = Some q" using c q unfolding chunks_complete_def by blast
  have "chunk_key (?ms ! pos) \<noteq> Some k"
    using c pos q(2) qk unfolding chunks_complete_def by (metis option.inject)
  moreover have "mem_fileChunks m (fst k) \<noteq> None" using qk by (auto simp: chunk_pos_def split: option.splits)
  moreover have "chunk_key (?ms ! ?n) = Some k \<longleftrightarrow> q = ?n"
    using c pos q qk unfolding chunks_complete_def
    by (metis diff_less length_greater_0_conv length_pos_if_in_set nth_mem option.inject zero_less_one)
  ultimately show "chunk_pos (mem_fileChunks (removed_at pos m)) k = Some p"
    using qk p pos unfolding removed_at_chunk_pos[OF inv pos] Let_def
    by (auto simp: q_def simp del: chunk_key_Some split: if_splits)
qed

lemma idx_build_chunk:
  "p < length ms \<Longrightarrow> chunk_key (ms ! p) = Some k \<Longrightarrow>
     \<forall>q < length ms. chunk_key (ms ! q) = Some k \<longrightarrow> q = p \<Longrightarrow>
     chunk_pos (snd (idx_build ms)) k = Some p"
proof (induction ms rule: rev_induct)
  case (snoc x ms)
  show ?case
  proof (cases "p = length ms")
    case True
    with snoc.prems show ?thesis by (simp add: chunk_pos_index del: chunk_key_Some)
  next
    case False
    then have p: "p < length ms" using snoc.prems(1) by simp
    have "chunk_key x \<noteq> Some k" using snoc.prems(3) False by (metis length_append_singleton lessI nth_append_length)
    moreover have "chunk_pos (snd (idx_build ms)) k = Some p"
    proof (rule snoc.IH[OF p])
      show "chunk_key (ms ! p) = Some k" using snoc.prems(2) p by (simp add: nth_append del: chunk_key_Some)
      show "\<forall>q < length ms. chunk_key (ms ! q) = Some k \<longrightarrow> q = p"
        using snoc.prems(3) by (simp add: nth_append less_Suc_eq del: chunk_key_Some)
    qed
    ultimately show ?thesis by (simp add: chunk_pos_index del: chunk_key_Some)
  qed
qed simp

lemma chunks_complete_unique:
  "chunks_complete m \<Longrightarrow> p < length (mem_messages m) \<Longrightarrow> q < length (mem_messages m) \<Longrightarrow>
     chunk_key (mem_messages m ! p) = Some k \<Longrightarrow> chunk_key (mem_messages m ! q) = Some k \<Longrightarrow> p = q"
  unfolding chunks_complete_def by (metis option.inject)

lemma mem_inv_chunk_iff:
  "mem_inv m \<Longrightarrow> chunks_complete m \<Longrightarrow> chunk_pos (mem_fileChunks m) k = Some p \<longleftrightarrow>
     p < length (mem_messages m) \<and> chunk_key (mem_messages m ! p) = Some k"
  unfolding chunks_complete_def by (metis mem_inv_chunk)

lemma rebuild_complete:
  "chunks_complete m \<Longrightarrow> chunks_complete (Memory_rebuildIndexes m)"
  unfolding chunks_complete_def[of "Memory_rebuildIndexes m"] rebuild_simps
  using chunks_complete_unique by (blast intro: idx_build_chunk)

subsection \<open>Chunks over a run of additions and removals\<close>

text \<open>Messages that are the same chunk of the same file have the same ID.\<close>

definition chunk_ids_agree :: "message set \<Rightarrow> bool" where
  "chunk_ids_agree S \<longleftrightarrow> (\<forall>x \<in> S. \<forall>y \<in> S. \<forall>k.
     chunk_key x = Some k \<longrightarrow> chunk_key y = Some k \<longrightarrow> msg_ID x = msg_ID y)"

definition put_messages :: "(string, time \<times> message) store_op list \<Rightarrow> message set" where
  "put_messages os = {x. \<exists>now. Put (now, x) \<in> set os}"

definition stems_from :: "message set \<Rightarrow> memory \<Rightarrow> bool" where
  "stems_from S m \<longleftrightarrow> (\<forall>x \<in> set (mem_messages m). \<exists>y \<in> S. msg_key x = msg_key y)"

lemma Add_messages:
  "mem_messages (memory_put now v m) = mem_messages m \<or>
   mem_messages (memory_put now v m) = mem_messages m @ [with_defaults now v]"
  by (auto simp: memory_put_def Memory_Add_def Let_def)

lemma complete_put:
  assumes ok: "mem_ok m" "chunks_complete m" "stems_from S m" "v \<in> S" "chunk_ids_agree S"
  shows "chunks_complete (memory_put now v m) \<and> stems_from S (memory_put now v m)"
proof
  show "stems_from S (memory_put now v m)"
    using assms Add_messages[of now v m] unfolding stems_from_def by fastforce
  note inv = mem_okD(1)[OF ok(1)]
  show "chunks_complete (memory_put now v m)"
  proof (cases "mem_seen m (msg_ID v) = Some True")
    case True
    then show ?thesis using ok(2) by (simp add: memory_put_def Memory_Add_def)
  next
    case False
    have "chunk_key x \<noteq> Some k" if x: "x \<in> set (mem_messages m)" and k: "chunk_key v = Some k" for x k
    proof
      assume xk: "chunk_key x = Some k"
      obtain y where y: "y \<in> S" "msg_ID y = msg_ID x" "chunk_key y = chunk_key x"
        using assms(3) x unfolding stems_from_def msg_key_def by (metis prod.inject)
      then have "msg_ID x = msg_ID v" using assms(4,5) k xk unfolding chunk_ids_agree_def by metis
      with False mem_inv_seen[OF inv x] show False by simp
    qed
    then show ?thesis unfolding memory_put_def by (intro chunks_complete_Add[OF inv ok(2)]) blast
  qed
qed

lemma complete_del:
  assumes inv: "mem_inv m" and c: "chunks_complete m" and st: "stems_from S m"
  shows "chunks_complete (memory_del i m) \<and> stems_from S (memory_del i m)"
proof (cases "mem_byID m i")
  case None
  with assms show ?thesis by (simp add: memory_del_def Remove_absent[OF inv None])
next
  case (Some pos)
  then have "pos < length (mem_messages m)" using mem_inv_byID[OF inv] by blast
  with st show ?thesis
    by (simp add: memory_del_def Remove_present[OF inv Some] chunks_complete_Remove[OF inv c]
        stems_from_def removed_at_set[OF inv])
qed

lemma complete_run:
  assumes "mem_ok m" "chunks_complete m" "stems_from S m" "chunk_ids_agree S" "put_messages os \<subseteq> S"
  shows "chunks_complete (run_ops timed_put memory_del os m)"
  using assms
proof (induction os arbitrary: m)
  case (Cons x os)
  have sub: "put_messages os \<subseteq> S" using Cons.prems(5) by (auto simp: put_messages_def)
  show ?case
  proof (cases x)
    case (Put v)
    with Cons.prems(5) have "snd v \<in> S" by (cases v) (auto simp: put_messages_def)
    with Cons.prems complete_put[of m S "snd v" "fst v"] sub Cons.IH[of "timed_put v m"] Put
    show ?thesis by (simp add: memory_store.invar_put timed_put_def[symmetric])
  next
    case (Del k)
    with Cons.prems complete_del[OF mem_okD(1), of m S k] sub Cons.IH[of "memory_del k m"]
    show ?thesis by (simp add: memory_store.invar_del)
  qed
qed simp

subsection \<open>Sequences of status changes\<close>

definition set_statuses :: "string \<Rightarrow> message_status list \<Rightarrow> memory \<Rightarrow> memory" where
  "set_statuses i sts m = fold (\<lambda>st m. snd (Memory_SetStatus i st m)) sts m"

lemma GetByID_set_statuses:
  "mem_inv m \<Longrightarrow> Memory_GetByID m i = Some x \<Longrightarrow>
     map_option msg_Status (Memory_GetByID (set_statuses i sts m) i) =
     Some (fold status_step sts (msg_Status x))"
proof (induction sts arbitrary: m x)
  case (Cons st sts)
  have "Memory_GetByID (snd (Memory_SetStatus i st m)) i =
      Some (x\<lparr>msg_Status := status_step st (msg_Status x)\<rparr>)"
    using Cons.prems by (simp add: GetByID_SetStatus)
  from Cons.IH[OF SetStatus_inv(1)[OF Cons.prems(1)] this] show ?case
    by (simp add: set_statuses_def)
qed (simp add: set_statuses_def)

lemma status_step_terminal:
  "cur = StatusHidden \<or> cur = StatusRead \<Longrightarrow>
     set sts \<subseteq> {StatusSent, StatusDelivered, StatusHidden, StatusRead} \<Longrightarrow>
     fold status_step sts cur = cur"
  by (induction sts) (auto simp: status_step_def message_status_defs message_status_order)

definition terminal_status :: "message_status \<Rightarrow> bool" where
  "terminal_status st \<longleftrightarrow> st = StatusHidden \<or> st = StatusRead"

lemma status_fold:
  "cur \<in> {StatusUnknown, StatusSent, StatusDelivered} \<Longrightarrow>
     set sts \<subseteq> {StatusSent, StatusDelivered, StatusHidden, StatusRead} \<Longrightarrow>
     fold status_step sts cur =
       (case find terminal_status sts of Some st \<Rightarrow> st | None \<Rightarrow> fold max sts cur)"
proof (induction sts arbitrary: cur)
  case (Cons st sts)
  show ?case
  proof (cases "terminal_status st")
    case True
    with Cons.prems have "status_step st cur = st"
      by (auto simp: status_step_def terminal_status_def message_status_defs message_status_order)
    with True Cons.prems status_step_terminal[of st sts] show ?thesis
      by (simp add: terminal_status_def)
  next
    case False
    with Cons.prems have "status_step st cur = max st cur"
        "max st cur \<in> {StatusUnknown, StatusSent, StatusDelivered}"
      by (auto simp: status_step_def terminal_status_def message_status_defs message_status_order max_def)
    moreover from this have "fold status_step sts (max st cur) =
        (case find terminal_status sts of Some st \<Rightarrow> st | None \<Rightarrow> fold max sts (max st cur))"
      using Cons by simp
    ultimately show ?thesis using False by (simp split: option.split)
  qed
qed simp

section \<open>Properties\<close>

text \<open>C2.  From the empty memory, no sequence of method calls, at any clock readings, makes a
  method panic, and every state reached satisfies the memory invariant: the ID index
  locates exactly the messages of the slice, the chunk index only points at messages
  that are the chunk it names, and \<open>seen\<close> holds exactly the IDs of the messages.\<close>

theorem memory_run_safe:
  "\<exists>m. memory_run os empty_memory = Some m \<and> mem_inv m \<and> mem_seen_exact m"
  using memory_run_inv[OF mem_inv_empty, of os] memory_run_ok[OF mem_ok_empty, of os]
  by (auto simp: mem_ok_def)

text \<open>C5.  The memory refines a map: after any sequence of \<open>Add\<close> and \<open>Remove\<close> calls, each \<open>Add\<close> at a
  reading of the clock of its own, what \<open>GetByID\<close> finds is what the same sequence makes of the empty map, where adding keeps an
  entry that is there, ignores an expired message and gives a new one its defaults.\<close>

theorem memory_refines_map:
  "Memory_GetByID (run_ops timed_put memory_del os empty_memory) = spec_ops timed_ID timed_merge os Map.empty"
proof -
  have "Memory_GetByID empty_memory = Map.empty"
    by (simp add: fun_eq_iff Memory_GetByID_def mem_lookup_def empty_memory_def)
  then show ?thesis by (simp add: memory_store.run_refines)
qed

text \<open>C26.  After any sequence of \<open>Add\<close> and \<open>Remove\<close> calls, each \<open>Add\<close> at a reading of the clock of its
  own, in which the same chunk always comes with the same message ID, \<open>GetFileChunk\<close> finds a message exactly when it is in the memory
  and is that chunk: the swap with the last message in \<open>Remove\<close> leaves no stale position.\<close>

theorem chunk_index_exact:
  assumes "chunk_ids_agree (put_messages os)"
  shows "Memory_GetFileChunk mid ci (run_ops timed_put memory_del os empty_memory) = Some x \<longleftrightarrow>
    x \<in> set (Memory_GetAll (run_ops timed_put memory_del os empty_memory)) \<and>
    chunk_key x = Some (mid, ci)"
  unfolding Memory_GetAll_def
proof (rule GetFileChunk_Some)
  show "mem_inv (run_ops timed_put memory_del os empty_memory)"
    by (rule mem_okD(1)[OF memory_store.run_invar[OF mem_ok_empty]])
  have "stems_from (put_messages os) empty_memory" by (simp add: stems_from_def empty_memory_def)
  with assms show "chunks_complete (run_ops timed_put memory_del os empty_memory)"
    by (intro complete_run[of empty_memory "put_messages os"]) auto
qed

definition sample_chunk :: "string \<Rightarrow> int \<Rightarrow> message" where
  "sample_chunk i ci = zero_message\<lparr>msg_ID := i, msg_MediaType := ''file'', msg_MediaID := ''m'',
     msg_ChunkIndex := ci, msg_ChunkTotal := 2\<rparr>"

lemma sample_chunk_key [simp]: "chunk_key (sample_chunk i ci) = Some (''m'', ci)"
  by (simp add: sample_chunk_def indexed_def is_chunk_def isChunkedMediaType_def)

lemma sample_chunk_ID [simp]: "msg_ID (sample_chunk i ci) = i"
  by (simp add: sample_chunk_def)

theorem chunk_index_exact_witness:
  "let os = [Put (1, sample_chunk ''a'' 0), Put (2, sample_chunk ''b'' 1), Del ''a''];
       m = run_ops timed_put memory_del os empty_memory
   in \<forall>x. Memory_GetFileChunk ''m'' 1 m = Some x \<longleftrightarrow>
      x \<in> set (Memory_GetAll m) \<and> chunk_key x = Some (''m'', 1)"
  unfolding Let_def
  by (rule allI, rule chunk_index_exact) (auto simp: chunk_ids_agree_def put_messages_def sample_chunk_def)

text \<open>When two messages in the memory are the same chunk, removing one of them drops the
  chunk from the index although the other message stays.\<close>

theorem Remove_duplicate_chunk:
  assumes inv: "mem_inv m" and x: "x \<in> set (Memory_GetAll m)" and y: "y \<in> set (Memory_GetAll m)"
    and ne: "x \<noteq> y" and k: "chunk_key x = Some (mid, ci)" "chunk_key y = Some (mid, ci)"
  shows "\<exists>m'. Memory_Remove (msg_ID x) m = Some (True, m') \<and>
    y \<in> set (Memory_GetAll m') \<and> Memory_GetFileChunk mid ci m' = None"
proof -
  obtain pos where pos: "pos < length (mem_messages m)" "mem_messages m ! pos = x"
    using x by (auto simp: Memory_GetAll_def in_set_conv_nth)
  then have b: "mem_byID m (msg_ID x) = Some pos" using mem_inv_byID[OF inv] by blast
  have "y \<in> set (mem_messages (removed_at pos m))"
    using y ne pos by (simp add: removed_at_set[OF inv] Memory_GetAll_def)
  moreover have "chunk_lookup (removed_at pos m) mid ci = None"
    using removed_at_chunk_pos[OF inv pos(1), of "(mid, ci)"] k pos(2) by (simp add: chunk_lookup_def)
  ultimately show ?thesis
    by (simp add: Remove_present[OF inv b] Memory_GetAll_def Memory_GetFileChunk_def)
qed

theorem Remove_duplicate_chunk_witness:
  "let x = with_defaults 1 (sample_chunk ''a'' 0); y = with_defaults 1 (sample_chunk ''b'' 0);
       m = snd (Memory_Add 1 (sample_chunk ''b'' 0) (snd (Memory_Add 1 (sample_chunk ''a'' 0) empty_memory)))
   in \<exists>m'. Memory_Remove (msg_ID x) m = Some (True, m') \<and>
        y \<in> set (Memory_GetAll m') \<and> Memory_GetFileChunk ''m'' 0 m' = None"
  unfolding Let_def
proof (rule Remove_duplicate_chunk)
  let ?m = "snd (Memory_Add 1 (sample_chunk ''b'' 0) (snd (Memory_Add 1 (sample_chunk ''a'' 0) empty_memory)))"
  show "mem_inv ?m" by (intro Add_inv mem_inv_empty)
  have ms: "mem_messages ?m = [with_defaults 1 (sample_chunk ''a'' 0), with_defaults 1 (sample_chunk ''b'' 0)]"
    by (simp add: Memory_Add_def Let_def empty_memory_def is_expired_def IsZero_def sample_chunk_def zero_message_def)
  show "with_defaults 1 (sample_chunk ''a'' 0) \<in> set (Memory_GetAll ?m)"
    "with_defaults 1 (sample_chunk ''b'' 0) \<in> set (Memory_GetAll ?m)"
    unfolding Memory_GetAll_def ms by simp_all
  show "with_defaults 1 (sample_chunk ''a'' 0) \<noteq> with_defaults 1 (sample_chunk ''b'' 0)"
  proof
    assume "with_defaults 1 (sample_chunk ''a'' 0) = with_defaults 1 (sample_chunk ''b'' 0)"
    from arg_cong[OF this, of msg_ID] show False by simp
  qed
qed simp_all

text \<open>C27.  In a memory that satisfies the invariant and whose chunk index is complete (every chunk of a file in it is
  found under its key, so that no two messages are the same chunk), rebuilding the indexes from scratch, as
  the bulk deletions and the loading of a state do, gives the same ID index and the same chunk positions as
  keeping them up to date one message at a time.\<close>

theorem rebuildIndexes_incremental:
  assumes inv: "mem_inv m" and c: "chunks_complete m"
  shows "mem_byID (Memory_rebuildIndexes m) = mem_byID m \<and>
    chunk_pos (mem_fileChunks (Memory_rebuildIndexes m)) = chunk_pos (mem_fileChunks m)"
proof -
  have inv': "mem_inv (Memory_rebuildIndexes m)"
    by (intro rebuild_inv) (auto simp: mem_inv_distinct[OF inv] mem_inv_seen[OF inv])
  have "mem_byID (Memory_rebuildIndexes m) i = mem_byID m i" for i
    using mem_inv_byID[OF inv, of i] mem_inv_byID[OF inv', of i]
    by (metis not_None_eq rebuild_simps(1))
  moreover have "chunk_pos (mem_fileChunks (Memory_rebuildIndexes m)) k = chunk_pos (mem_fileChunks m) k" for k
    using mem_inv_chunk_iff[OF inv c, of k] mem_inv_chunk_iff[OF inv' rebuild_complete[OF c], of k]
    by (metis not_None_eq rebuild_simps(1))
  ultimately show ?thesis by blast
qed

theorem rebuildIndexes_incremental_witness:
  "let m = snd (Memory_Add 1 (sample_chunk ''a'' 0) empty_memory)
   in mem_byID (Memory_rebuildIndexes m) = mem_byID m \<and>
      chunk_pos (mem_fileChunks (Memory_rebuildIndexes m)) = chunk_pos (mem_fileChunks m)"
  unfolding Let_def
  by (rule rebuildIndexes_incremental)
    (auto intro!: Add_inv chunks_complete_Add simp: empty_memory_def[THEN arg_cong[of _ _ mem_messages]])

text \<open>C25.  A message that is not yet read or hidden and gets a sequence of status changes ends
  with the first terminal one, hidden or read, whatever follows it; without a terminal one
  it ends with the highest status, so that a late or repeated confirmation never lowers it.\<close>

theorem SetStatus_first_terminal:
  assumes "mem_inv m" "Memory_GetByID m i = Some x"
    and "msg_Status x \<in> {StatusUnknown, StatusSent, StatusDelivered}"
    and "set sts \<subseteq> {StatusSent, StatusDelivered, StatusHidden, StatusRead}"
  shows "map_option msg_Status (Memory_GetByID (set_statuses i sts m) i) =
    Some (case find terminal_status sts of Some st \<Rightarrow> st | None \<Rightarrow> fold max sts (msg_Status x))"
  unfolding GetByID_set_statuses[OF assms(1,2)] status_fold[OF assms(3,4)] ..

theorem SetStatus_first_terminal_witness:
  "map_option msg_Status (Memory_GetByID (set_statuses ''a'' [StatusDelivered, StatusHidden, StatusRead]
      (snd (Memory_Add 1 (sample_chunk ''a'' 0) empty_memory))) ''a'') = Some StatusHidden"
proof -
  have g: "Memory_GetByID (snd (Memory_Add 1 (sample_chunk ''a'' 0) empty_memory)) ''a'' =
      Some (with_defaults 1 (sample_chunk ''a'' 0))"
    by (simp add: GetByID_Some[OF Add_inv(1)[OF mem_inv_empty]])
      (simp add: Memory_Add_def Let_def empty_memory_def is_expired_def IsZero_def sample_chunk_def zero_message_def)
  have "map_option msg_Status (Memory_GetByID (set_statuses ''a'' [StatusDelivered, StatusHidden, StatusRead]
      (snd (Memory_Add 1 (sample_chunk ''a'' 0) empty_memory))) ''a'') =
      Some (case find terminal_status [StatusDelivered, StatusHidden, StatusRead] of Some st \<Rightarrow> st
        | None \<Rightarrow> fold max [StatusDelivered, StatusHidden, StatusRead]
            (msg_Status (with_defaults 1 (sample_chunk ''a'' 0))))"
    by (rule SetStatus_first_terminal[OF Add_inv(1)[OF mem_inv_empty] g])
      (simp_all add: sample_chunk_def zero_message_def)
  then show ?thesis by (simp add: terminal_status_def message_status_defs)
qed

text \<open>\<open>DeleteExpired\<close> removes exactly the overdue messages (expired, or with a TTL and
  older than 48 hours), keeps every other one findable, returns how many went, and has
  nothing left to do when it is run again at the same time.\<close>

theorem DeleteExpired_exact:
  assumes inv: "mem_inv m"
  shows "Memory_GetByID (snd (Memory_DeleteExpired now m)) i =
      (case Memory_GetByID m i of None \<Rightarrow> None | Some x \<Rightarrow> if overdue now x then None else Some x) \<and>
    fst (Memory_DeleteExpired now m) + Memory_Count (snd (Memory_DeleteExpired now m)) = Memory_Count m \<and>
    Memory_DeleteExpired now (snd (Memory_DeleteExpired now m)) = (0, snd (Memory_DeleteExpired now m))"
  unfolding Memory_DeleteExpired_def
  by (intro conjI GetByID_drop[OF inv] drop_messages_none)
    (auto simp: drop_messages_fst Memory_Count_def sum_length_filter_compl)

theorem DeleteExpired_exact_witness:
  "let m = snd (Memory_Add 1 (sample_chunk ''a'' 0) empty_memory)
   in fst (Memory_DeleteExpired 2 m) + Memory_Count (snd (Memory_DeleteExpired 2 m)) = Memory_Count m"
  unfolding Let_def using DeleteExpired_exact[OF Add_inv(1)[OF mem_inv_empty]] by blast

end
