(* ===== verification/Contacts.thy ===== *)
theory Contacts
  imports Interfaces
begin

text \<open>
  node/contacts.go: the contact list and its file.  The state is the path and the slice of
  contacts; the file is the version and the contacts, each with a flag that says whether
  its JSON object has the key \<open>read_enabled\<close>.  An operation takes the outcome of the write
  it may do and the content of the file, and returns its error, the new store and the new
  content.  \<open>now\<close> is the current time formatted as RFC 3339.
\<close>

section \<open>State\<close>

record contact =
  con_PeerID :: string
  con_Ed25519Pub :: string
  con_X25519Pub :: string
  con_Signature :: string
  con_Verified :: bool
  con_Confirmed :: bool
  con_Name :: string
  con_RemoteName :: string
  con_AddedAt :: string
  con_ReadEnabled :: bool

record contacts_store =
  cs_path :: string
  cs_contacts :: "contact list"

datatype contacts_file = ContactsFile int "(contact \<times> bool) list"

definition CONTACTS_VERSION :: int where "CONTACTS_VERSION = 1"

section \<open>Operations\<close>

fun read_enabled_default :: "contact \<times> bool \<Rightarrow> contact" where
  "read_enabled_default (c, has) = (if has then c else c\<lparr>con_ReadEnabled := True\<rparr>)"

fun ContactsStore_Load :: "contacts_file file_content \<Rightarrow> contacts_store \<Rightarrow> store_error option \<times> contacts_store" where
  "ContactsStore_Load f cs =
     (if cs_path cs = [] then (None, cs)
      else case f of
        NoFile \<Rightarrow> (None, cs\<lparr>cs_contacts := []\<rparr>)
      | Unreadable \<Rightarrow> (Some ReadFailed, cs)
      | Corrupt \<Rightarrow> (Some UnmarshalFailed, cs)
      | Document (ContactsFile v xs) \<Rightarrow> (None, cs\<lparr>cs_contacts := map read_enabled_default xs\<rparr>))"

definition NewContactsStore :: "string \<Rightarrow> contacts_file file_content \<Rightarrow> contacts_store" where
  "NewContactsStore path f = snd (ContactsStore_Load f \<lparr>cs_path = path, cs_contacts = []\<rparr>)"

definition ContactsStore_saveLocked ::
  "contacts_store \<Rightarrow> contacts_file write_outcome \<Rightarrow> contacts_file file_content \<Rightarrow>
     store_error option \<times> contacts_file file_content" where
  "ContactsStore_saveLocked cs =
     save_document (cs_path cs) (ContactsFile CONTACTS_VERSION (map (\<lambda>c. (c, True)) (cs_contacts cs)))"

text \<open>The update of an existing contact: keys and signature are replaced, the name and the
  two flags are not lost.\<close>

definition merge_contact :: "string \<Rightarrow> contact \<Rightarrow> contact \<Rightarrow> contact" where
  "merge_contact now c old =
     (let c1 = (if con_Name old \<noteq> [] \<and> con_Name c = [] then c\<lparr>con_Name := con_Name old\<rparr> else c);
          c2 = (if con_ReadEnabled old then c1\<lparr>con_ReadEnabled := True\<rparr> else c1);
          c3 = (if con_Confirmed old then c2\<lparr>con_Confirmed := True\<rparr> else c2)
      in if con_AddedAt c3 = [] then c3\<lparr>con_AddedAt := now\<rparr> else c3)"

definition dated_contact :: "string \<Rightarrow> contact \<Rightarrow> contact" where
  "dated_contact now c = (if con_AddedAt c = [] then c\<lparr>con_AddedAt := now\<rparr> else c)"

definition ContactsStore_Add ::
  "string \<Rightarrow> contact \<Rightarrow> contacts_file write_outcome \<Rightarrow> contacts_store \<Rightarrow> contacts_file file_content \<Rightarrow>
     (contacts_store, contacts_file) store_result" where
  "ContactsStore_Add now c w cs f =
     (if con_PeerID c = [] then unsaved (Some (Required ''peerID'')) cs f
      else let c' = dated_contact now c;
               cs' = cs\<lparr>cs_contacts := put_by con_PeerID (merge_contact now c') c' (cs_contacts cs)\<rparr>
           in saved cs' (ContactsStore_saveLocked cs' w f))"

definition ContactsStore_Get :: "contacts_store \<Rightarrow> string \<Rightarrow> contact option" where
  "ContactsStore_Get cs p = find (\<lambda>c. con_PeerID c = p) (cs_contacts cs)"

definition ContactsStore_GetAll :: "contacts_store \<Rightarrow> contact list" where
  "ContactsStore_GetAll cs = cs_contacts cs"

definition ContactsStore_Count :: "contacts_store \<Rightarrow> nat" where
  "ContactsStore_Count cs = length (cs_contacts cs)"

definition ContactsStore_Remove ::
  "string \<Rightarrow> contacts_file write_outcome \<Rightarrow> contacts_store \<Rightarrow> contacts_file file_content \<Rightarrow>
     (contacts_store, contacts_file) store_result" where
  "ContactsStore_Remove p w cs f =
     (let kept = filter (\<lambda>c. con_PeerID c \<noteq> p) (cs_contacts cs);
          cs' = cs\<lparr>cs_contacts := kept\<rparr>
      in if length kept = length (cs_contacts cs) then unsaved (Some (NotFound p)) cs f
         else saved cs' (ContactsStore_saveLocked cs' w f))"

text \<open>The loop the three field updates share: find the contact, change it, save.\<close>

definition update_contact ::
  "string \<Rightarrow> (contact \<Rightarrow> contact) \<Rightarrow> contacts_file write_outcome \<Rightarrow> contacts_store \<Rightarrow>
     contacts_file file_content \<Rightarrow> (contacts_store, contacts_file) store_result" where
  "update_contact p g w cs f =
     (if \<exists>c \<in> set (cs_contacts cs). con_PeerID c = p
      then let cs' = cs\<lparr>cs_contacts := update_first (\<lambda>c. con_PeerID c = p) g (cs_contacts cs)\<rparr>
           in saved cs' (ContactsStore_saveLocked cs' w f)
      else unsaved (Some (NotFound p)) cs f)"

definition ContactsStore_UpdateReadEnabled ::
  "string \<Rightarrow> bool \<Rightarrow> contacts_file write_outcome \<Rightarrow> contacts_store \<Rightarrow> contacts_file file_content \<Rightarrow>
     (contacts_store, contacts_file) store_result" where
  "ContactsStore_UpdateReadEnabled p b = update_contact p (\<lambda>c. c\<lparr>con_ReadEnabled := b\<rparr>)"

definition ContactsStore_RenameContact ::
  "string \<Rightarrow> string \<Rightarrow> contacts_file write_outcome \<Rightarrow> contacts_store \<Rightarrow> contacts_file file_content \<Rightarrow>
     (contacts_store, contacts_file) store_result" where
  "ContactsStore_RenameContact p nm = update_contact p (\<lambda>c. c\<lparr>con_Name := nm\<rparr>)"

definition ContactsStore_SetConfirmed ::
  "string \<Rightarrow> contacts_file write_outcome \<Rightarrow> contacts_store \<Rightarrow> contacts_file file_content \<Rightarrow>
     (contacts_store, contacts_file) store_result" where
  "ContactsStore_SetConfirmed p w cs f =
     (case find (\<lambda>c. con_PeerID c = p) (cs_contacts cs) of
        Some c \<Rightarrow> if con_Confirmed c then unsaved None cs f
                  else update_contact p (\<lambda>c. c\<lparr>con_Confirmed := True\<rparr>) w cs f
      | None \<Rightarrow> unsaved (Some (NotFound p)) cs f)"

section \<open>Invariant and contract\<close>

definition contacts_inv :: "contacts_store \<Rightarrow> bool" where
  "contacts_inv cs \<longleftrightarrow> distinct (map con_PeerID (cs_contacts cs)) \<and> [] \<notin> set (map con_PeerID (cs_contacts cs))"

lemma merge_contact_simps [simp]:
  "con_PeerID (merge_contact now c old) = con_PeerID c"
  "con_Confirmed (merge_contact now c old) \<longleftrightarrow> con_Confirmed c \<or> con_Confirmed old"
  "con_ReadEnabled (merge_contact now c old) \<longleftrightarrow> con_ReadEnabled c \<or> con_ReadEnabled old"
  "con_Name (merge_contact now c old) = (if con_Name c = [] then con_Name old else con_Name c)"
  "con_Verified (merge_contact now c old) = con_Verified c"
  "con_X25519Pub (merge_contact now c old) = con_X25519Pub c"
  "con_Ed25519Pub (merge_contact now c old) = con_Ed25519Pub c"
  by (auto simp: merge_contact_def Let_def)

lemma dated_contact_simps [simp]:
  "con_PeerID (dated_contact now c) = con_PeerID c"
  "con_Confirmed (dated_contact now c) = con_Confirmed c"
  "con_ReadEnabled (dated_contact now c) = con_ReadEnabled c"
  "con_Name (dated_contact now c) = con_Name c"
  "con_Verified (dated_contact now c) = con_Verified c"
  "con_X25519Pub (dated_contact now c) = con_X25519Pub c"
  by (simp_all add: dated_contact_def)

definition contacts_put :: "string \<Rightarrow> contact \<Rightarrow> contacts_store \<Rightarrow> contacts_store" where
  "contacts_put now c cs = result_state (ContactsStore_Add now c WriteOk cs NoFile)"

definition contacts_del :: "string \<Rightarrow> contacts_store \<Rightarrow> contacts_store" where
  "contacts_del p cs = result_state (ContactsStore_Remove p WriteOk cs NoFile)"

definition contacts_merge :: "string \<Rightarrow> contact option \<Rightarrow> contact \<Rightarrow> contact option" where
  "contacts_merge now old c = (if con_PeerID c = [] then old
     else case old of None \<Rightarrow> Some (dated_contact now c)
          | Some x \<Rightarrow> Some (merge_contact now (dated_contact now c) x))"

text \<open>The disk has no influence on what happens in memory.\<close>

lemma contacts_state_simps [store_simps]:
  "result_state (ContactsStore_Add now c w cs f) = contacts_put now c cs"
  "result_state (ContactsStore_Remove p w cs f) = contacts_del p cs"
  by (simp_all add: contacts_put_def contacts_del_def ContactsStore_Add_def ContactsStore_Remove_def Let_def)

lemma contacts_put_contacts:
  "con_PeerID c \<noteq> [] \<Longrightarrow> cs_contacts (contacts_put now c cs) =
     put_by con_PeerID (merge_contact now (dated_contact now c)) (dated_contact now c) (cs_contacts cs)"
  by (simp add: contacts_put_def ContactsStore_Add_def Let_def)

lemma contacts_put_empty: "con_PeerID c = [] \<Longrightarrow> contacts_put now c cs = cs"
  by (simp add: contacts_put_def ContactsStore_Add_def)

lemma contacts_del_contacts: "cs_contacts (contacts_del p cs) = filter (\<lambda>c. con_PeerID c \<noteq> p) (cs_contacts cs)"
  by (auto simp: contacts_del_def ContactsStore_Remove_def Let_def length_filter_eq_iff filter_id_conv)

lemma contacts_path [simp]:
  "cs_path (contacts_put now c cs) = cs_path cs" "cs_path (contacts_del p cs) = cs_path cs"
  by (simp_all add: contacts_put_def ContactsStore_Add_def contacts_del_def ContactsStore_Remove_def Let_def)

lemma contacts_inv_put: "contacts_inv cs \<Longrightarrow> contacts_inv (contacts_put now c cs)"
  by (cases "con_PeerID c = []")
    (simp_all add: contacts_inv_def contacts_put_contacts contacts_put_empty keys_put_by del: set_map)

lemma contacts_inv_del: "contacts_inv cs \<Longrightarrow> contacts_inv (contacts_del p cs)"
  by (auto simp: contacts_inv_def contacts_del_contacts distinct_map_filterI)

interpretation contact_list:
  keyed_store ContactsStore_Get "contacts_put now" contacts_del con_PeerID "contacts_merge now" contacts_inv for now
proof unfold_locales
  fix s v k
  show "contacts_inv s \<Longrightarrow> ContactsStore_Get (contacts_put now v s) =
      (ContactsStore_Get s)(con_PeerID v := contacts_merge now (ContactsStore_Get s (con_PeerID v)) v)"
  proof (cases "con_PeerID v = []")
    case True
    then show ?thesis by (auto simp: contacts_put_empty contacts_merge_def fun_eq_iff)
  next
    case False
    then show ?thesis
      using find_put_by[of con_PeerID "dated_contact now v" "merge_contact now (dated_contact now v)" "cs_contacts s"]
      by (simp add: ContactsStore_Get_def contacts_put_contacts contacts_merge_def fun_eq_iff split: option.split)
  qed
  show "ContactsStore_Get (contacts_del k s) = (ContactsStore_Get s)(k := None)"
    using find_key_remove[of con_PeerID k "cs_contacts s"]
    by (simp add: ContactsStore_Get_def contacts_del_contacts fun_eq_iff)
qed (simp_all add: contacts_inv_put contacts_inv_del)

lemma update_contact_inv:
  "(\<And>c. con_PeerID (g c) = con_PeerID c) \<Longrightarrow> contacts_inv cs \<Longrightarrow> contacts_inv (result_state (update_contact p g w cs f))"
  by (simp add: update_contact_def Let_def contacts_inv_def map_update_first del: set_map)

lemma contact_updates_inv:
  "contacts_inv cs \<Longrightarrow> contacts_inv (result_state (ContactsStore_UpdateReadEnabled p b w cs f))"
  "contacts_inv cs \<Longrightarrow> contacts_inv (result_state (ContactsStore_RenameContact p nm w cs f))"
  "contacts_inv cs \<Longrightarrow> contacts_inv (result_state (ContactsStore_SetConfirmed p w cs f))"
  by (simp_all add: ContactsStore_UpdateReadEnabled_def ContactsStore_RenameContact_def
      ContactsStore_SetConfirmed_def update_contact_inv split: option.split)

lemma update_contact_get:
  "(\<And>c. con_PeerID (g c) = con_PeerID c) \<Longrightarrow> ContactsStore_Get (result_state (update_contact p g w cs f)) =
     (ContactsStore_Get cs)(p := map_option g (ContactsStore_Get cs p))"
  using find_key_update[of con_PeerID p g "cs_contacts cs"]
  by (auto simp: ContactsStore_Get_def update_contact_def Let_def fun_eq_iff find_absent)

lemma read_enabled_default_saved: "map read_enabled_default (map (\<lambda>c. (c, True)) xs) = xs"
  by (simp add: comp_def)

interpretation contacts_disk:
  persistent ContactsStore_saveLocked ContactsStore_Load cs_path cs_contacts "\<lambda>_. True"
proof unfold_locales
  fix s s' :: contacts_store and w f
  assume "cs_path s \<noteq> []" "cs_path s' = cs_path s" "fst (ContactsStore_saveLocked s w f) = None"
  moreover from this have "snd (ContactsStore_saveLocked s w f) =
      Document (ContactsFile CONTACTS_VERSION (map (\<lambda>c. (c, True)) (cs_contacts s)))"
    by (simp add: ContactsStore_saveLocked_def save_document_written)
  ultimately show "fst (ContactsStore_Load (snd (ContactsStore_saveLocked s w f)) s') = None \<and>
      cs_contacts (snd (ContactsStore_Load (snd (ContactsStore_saveLocked s w f)) s')) = cs_contacts s"
    using read_enabled_default_saved by simp
next
  fix f s
  show "fst (ContactsStore_Load f s) \<noteq> None \<Longrightarrow> snd (ContactsStore_Load f s) = s"
    by (auto split: file_content.splits contacts_file.splits if_splits)
qed (simp add: ContactsStore_saveLocked_def save_document_def)

section \<open>Properties\<close>

lemma contacts_put_keeps:
  assumes inv: "contacts_inv cs" and c: "ContactsStore_Get cs p = Some c"
  shows "\<exists>c'. ContactsStore_Get (contacts_put now x cs) p = Some c' \<and>
    (con_Confirmed c \<longrightarrow> con_Confirmed c') \<and> (con_ReadEnabled c \<longrightarrow> con_ReadEnabled c') \<and>
    (con_Name c \<noteq> [] \<longrightarrow> con_Name c' \<noteq> [])"
  using c unfolding contact_list.get_put[OF inv] by (auto simp: contacts_merge_def)

text \<open>No sequence of \<open>Add\<close> calls, whatever the network says about a peer, loses a contact,
  takes back its confirmation or its permission to see read receipts, or erases its name.\<close>

theorem contacts_Add_keeps:
  assumes "contacts_inv cs" "ContactsStore_Get cs p = Some c"
  shows "\<exists>c'. ContactsStore_Get (fold (\<lambda>(now, x, w, f) s. result_state (ContactsStore_Add now x w s f)) xs cs) p = Some c' \<and>
    (con_Confirmed c \<longrightarrow> con_Confirmed c') \<and> (con_ReadEnabled c \<longrightarrow> con_ReadEnabled c') \<and>
    (con_Name c \<noteq> [] \<longrightarrow> con_Name c' \<noteq> [])"
  using assms
proof (induction xs arbitrary: cs c)
  case (Cons a xs)
  obtain now x w f where a: "a = (now, x, w, f)" by (cases a)
  from contacts_put_keeps[OF Cons.prems, of now x] obtain c' where c':
    "ContactsStore_Get (contacts_put now x cs) p = Some c'"
    "con_Confirmed c \<longrightarrow> con_Confirmed c'" "con_ReadEnabled c \<longrightarrow> con_ReadEnabled c'"
    "con_Name c \<noteq> [] \<longrightarrow> con_Name c' \<noteq> []" by blast
  from Cons.IH[OF contacts_inv_put[OF Cons.prems(1)] c'(1)] c'(2-) a show ?case
    by (auto simp: store_simps)
qed auto

definition sample_contact :: "string \<Rightarrow> bool \<Rightarrow> contact" where
  "sample_contact p b = \<lparr>con_PeerID = p, con_Ed25519Pub = [], con_X25519Pub = ''k'', con_Signature = [],
     con_Verified = False, con_Confirmed = b, con_Name = ''n'', con_RemoteName = [], con_AddedAt = ''t'',
     con_ReadEnabled = b\<rparr>"

theorem contacts_Add_keeps_witness:
  "let cs = \<lparr>cs_path = ''f'', cs_contacts = [sample_contact ''a'' True]\<rparr>
   in \<exists>c'. ContactsStore_Get (fold (\<lambda>(now, x, w, f) s. result_state (ContactsStore_Add now x w s f))
        [(''t'', sample_contact ''a'' False, WriteOk, NoFile)] cs) ''a'' = Some c' \<and> con_Confirmed c'"
  unfolding Let_def
  using contacts_Add_keeps[of "\<lparr>cs_path = ''f'', cs_contacts = [sample_contact ''a'' True]\<rparr>" "''a''"
      "sample_contact ''a'' True" "[(''t'', sample_contact ''a'' False, WriteOk, NoFile)]"]
  by (auto simp: contacts_inv_def ContactsStore_Get_def sample_contact_def)

text \<open>A save that reports no error is enough for a restart: a store opened on the file holds
  the same contacts, with the read permission each had, also when it was off.\<close>

theorem contacts_survive_restart:
  assumes "fst (ContactsStore_saveLocked cs w f) = None"
  shows "cs_contacts (NewContactsStore (cs_path cs) (snd (ContactsStore_saveLocked cs w f))) = cs_contacts cs"
  unfolding NewContactsStore_def using contacts_disk.restart[OF _ _ assms] by simp

theorem contacts_survive_restart_witness:
  "let cs = \<lparr>cs_path = ''f'', cs_contacts = [sample_contact ''a'' False]\<rparr>
   in cs_contacts (NewContactsStore (cs_path cs) (snd (ContactsStore_saveLocked cs WriteOk NoFile))) = cs_contacts cs"
  unfolding Let_def by (rule contacts_survive_restart)
    (simp add: ContactsStore_saveLocked_def save_document_def)

end
