(* ===== verification/Requests.thy ===== *)
theory Requests
  imports Interfaces
begin

text \<open>
  node/requests.go: the incoming contact requests and their file.  \<open>Add\<close> replaces a request
  with the same ID, else a pending request of the same peer, else appends.  \<open>now\<close> is the
  current time formatted as RFC 3339.
\<close>

section \<open>State\<close>

record contact_request =
  req_ID :: string
  req_PeerID :: string
  req_Name :: string
  req_Ed25519Pub :: string
  req_X25519Pub :: string
  req_Signature :: string
  req_ReadEnabled :: bool
  req_ReceivedAt :: string
  req_Status :: string

record requests_store =
  rs_path :: string
  rs_requests :: "contact_request list"

datatype requests_file = RequestsFile int "contact_request list"

definition REQUESTS_VERSION :: int where "REQUESTS_VERSION = 1"
definition RequestStatusPending :: string where "RequestStatusPending = ''pending''"
definition RequestStatusAccepted :: string where "RequestStatusAccepted = ''accepted''"
definition RequestStatusRejected :: string where "RequestStatusRejected = ''rejected''"

section \<open>Operations\<close>

fun RequestsStore_Load :: "requests_file file_content \<Rightarrow> requests_store \<Rightarrow> store_error option \<times> requests_store" where
  "RequestsStore_Load f rs =
     (if rs_path rs = [] then (None, rs)
      else case f of
        NoFile \<Rightarrow> (None, rs\<lparr>rs_requests := []\<rparr>)
      | Unreadable \<Rightarrow> (Some ReadFailed, rs)
      | Corrupt \<Rightarrow> (Some UnmarshalFailed, rs)
      | Document (RequestsFile v xs) \<Rightarrow> (None, rs\<lparr>rs_requests := xs\<rparr>))"

definition NewRequestsStore :: "string \<Rightarrow> requests_file file_content \<Rightarrow> requests_store" where
  "NewRequestsStore path f = snd (RequestsStore_Load f \<lparr>rs_path = path, rs_requests = []\<rparr>)"

definition RequestsStore_saveLocked ::
  "requests_store \<Rightarrow> requests_file write_outcome \<Rightarrow> requests_file file_content \<Rightarrow>
     store_error option \<times> requests_file file_content" where
  "RequestsStore_saveLocked rs = save_document (rs_path rs) (RequestsFile REQUESTS_VERSION (rs_requests rs))"

definition request_defaults :: "string \<Rightarrow> contact_request \<Rightarrow> contact_request" where
  "request_defaults now r =
     (let r1 = (if req_ReceivedAt r = [] then r\<lparr>req_ReceivedAt := now\<rparr> else r)
      in if req_Status r1 = [] then r1\<lparr>req_Status := RequestStatusPending\<rparr> else r1)"

definition pending_from :: "string \<Rightarrow> contact_request \<Rightarrow> bool" where
  "pending_from p r \<longleftrightarrow> req_PeerID r = p \<and> req_Status r = RequestStatusPending"

definition RequestsStore_Add ::
  "string \<Rightarrow> contact_request \<Rightarrow> requests_file write_outcome \<Rightarrow> requests_store \<Rightarrow> requests_file file_content \<Rightarrow>
     (requests_store, requests_file) store_result" where
  "RequestsStore_Add now req w rs f =
     (if req_ID req = [] then unsaved (Some (Required ''request id'')) rs f
      else if req_PeerID req = [] then unsaved (Some (Required ''peerID'')) rs f
      else let r = request_defaults now req;
               xs = rs_requests rs;
               rs' = rs\<lparr>rs_requests :=
                 (if \<exists>x \<in> set xs. req_ID x = req_ID r
                  then update_first (\<lambda>x. req_ID x = req_ID r) (\<lambda>_. r) xs
                  else if req_Status r = RequestStatusPending \<and> (\<exists>x \<in> set xs. pending_from (req_PeerID r) x)
                  then update_first (pending_from (req_PeerID r)) (\<lambda>_. r) xs
                  else xs @ [r])\<rparr>
           in saved rs' (RequestsStore_saveLocked rs' w f))"

definition RequestsStore_Get :: "requests_store \<Rightarrow> string \<Rightarrow> contact_request option" where
  "RequestsStore_Get rs i = find (\<lambda>r. req_ID r = i) (rs_requests rs)"

definition RequestsStore_GetAll :: "requests_store \<Rightarrow> contact_request list" where
  "RequestsStore_GetAll rs = rs_requests rs"

definition RequestsStore_GetPending :: "requests_store \<Rightarrow> contact_request list" where
  "RequestsStore_GetPending rs = filter (\<lambda>r. req_Status r = RequestStatusPending) (rs_requests rs)"

definition RequestsStore_Count :: "requests_store \<Rightarrow> nat" where
  "RequestsStore_Count rs = length (rs_requests rs)"

definition RequestsStore_CountPending :: "requests_store \<Rightarrow> nat" where
  "RequestsStore_CountPending rs = length (filter (\<lambda>r. req_Status r = RequestStatusPending) (rs_requests rs))"

definition RequestsStore_SetStatus ::
  "string \<Rightarrow> string \<Rightarrow> requests_file write_outcome \<Rightarrow> requests_store \<Rightarrow> requests_file file_content \<Rightarrow>
     (requests_store, requests_file) store_result" where
  "RequestsStore_SetStatus i st w rs f =
     (if \<exists>r \<in> set (rs_requests rs). req_ID r = i
      then let rs' = rs\<lparr>rs_requests := update_first (\<lambda>r. req_ID r = i) (\<lambda>r. r\<lparr>req_Status := st\<rparr>) (rs_requests rs)\<rparr>
           in saved rs' (RequestsStore_saveLocked rs' w f)
      else unsaved (Some (NotFound i)) rs f)"

definition RequestsStore_Remove ::
  "string \<Rightarrow> requests_file write_outcome \<Rightarrow> requests_store \<Rightarrow> requests_file file_content \<Rightarrow>
     (requests_store, requests_file) store_result" where
  "RequestsStore_Remove i w rs f =
     (let kept = filter (\<lambda>r. req_ID r \<noteq> i) (rs_requests rs);
          rs' = rs\<lparr>rs_requests := kept\<rparr>
      in if length kept = length (rs_requests rs) then unsaved (Some (NotFound i)) rs f
         else saved rs' (RequestsStore_saveLocked rs' w f))"

section \<open>Invariants\<close>

definition requests_inv :: "requests_store \<Rightarrow> bool" where
  "requests_inv rs \<longleftrightarrow> distinct (map req_ID (rs_requests rs)) \<and> [] \<notin> set (map req_ID (rs_requests rs))"

text \<open>No peer has two pending requests.\<close>

definition pending_unique :: "requests_store \<Rightarrow> bool" where
  "pending_unique rs \<longleftrightarrow> distinct (map req_PeerID (RequestsStore_GetPending rs))"

lemma request_defaults_simps [simp]:
  "req_ID (request_defaults now r) = req_ID r"
  "req_PeerID (request_defaults now r) = req_PeerID r"
  "req_Status (request_defaults now r) = (if req_Status r = [] then RequestStatusPending else req_Status r)"
  by (simp_all add: request_defaults_def Let_def)

definition requests_put :: "string \<Rightarrow> contact_request \<Rightarrow> requests_store \<Rightarrow> requests_store" where
  "requests_put now r rs = result_state (RequestsStore_Add now r WriteOk rs NoFile)"

definition requests_del :: "string \<Rightarrow> requests_store \<Rightarrow> requests_store" where
  "requests_del i rs = result_state (RequestsStore_Remove i WriteOk rs NoFile)"

lemma requests_state_simps [store_simps]:
  "result_state (RequestsStore_Add now r w rs f) = requests_put now r rs"
  "result_state (RequestsStore_Remove i w rs f) = requests_del i rs"
  by (simp_all add: requests_put_def requests_del_def RequestsStore_Add_def RequestsStore_Remove_def Let_def)

lemma requests_del_requests: "rs_requests (requests_del i rs) = filter (\<lambda>r. req_ID r \<noteq> i) (rs_requests rs)"
  by (auto simp: requests_del_def RequestsStore_Remove_def Let_def length_filter_eq_iff filter_id_conv)

lemma update_first_split:
  "\<exists>x \<in> set xs. P x \<Longrightarrow> \<exists>as x bs. xs = as @ x # bs \<and> P x \<and> (\<forall>a \<in> set as. \<not> P a) \<and>
     update_first P f xs = as @ f x # bs"
proof (induction xs)
  case (Cons a xs)
  show ?case
  proof (cases "P a")
    case True
    then have "a # xs = [] @ a # xs \<and> P a \<and> (\<forall>b \<in> set []. \<not> P b) \<and> update_first P f (a # xs) = [] @ f a # xs"
      by simp
    then show ?thesis by blast
  next
    case False
    with Cons obtain as x bs where "xs = as @ x # bs" "P x" "\<forall>b \<in> set as. \<not> P b"
        "update_first P f xs = as @ f x # bs" by auto
    with False have "a # xs = (a # as) @ x # bs \<and> P x \<and> (\<forall>b \<in> set (a # as). \<not> P b) \<and>
        update_first P f (a # xs) = (a # as) @ f x # bs" by simp
    then show ?thesis by blast
  qed
qed simp

lemma requests_put_cases:
  assumes "req_ID req \<noteq> []" "req_PeerID req \<noteq> []"
  obtains (same_id) as x bs where "rs_requests rs = as @ x # bs" "req_ID x = req_ID req"
      "rs_requests (requests_put now req rs) = as @ request_defaults now req # bs"
  | (same_peer) as x bs where "req_ID req \<notin> set (map req_ID (rs_requests rs))"
      "rs_requests rs = as @ x # bs" "pending_from (req_PeerID req) x"
      "req_Status (request_defaults now req) = RequestStatusPending"
      "rs_requests (requests_put now req rs) = as @ request_defaults now req # bs"
  | (new) "req_ID req \<notin> set (map req_ID (rs_requests rs))"
      "req_Status (request_defaults now req) = RequestStatusPending \<Longrightarrow>
         \<forall>x \<in> set (rs_requests rs). \<not> pending_from (req_PeerID req) x"
      "rs_requests (requests_put now req rs) = rs_requests rs @ [request_defaults now req]"
proof -
  let ?r = "request_defaults now req" and ?xs = "rs_requests rs"
  have put: "rs_requests (requests_put now req rs) =
      (if \<exists>x \<in> set ?xs. req_ID x = req_ID req then update_first (\<lambda>x. req_ID x = req_ID req) (\<lambda>_. ?r) ?xs
       else if req_Status ?r = RequestStatusPending \<and> (\<exists>x \<in> set ?xs. pending_from (req_PeerID req) x)
       then update_first (pending_from (req_PeerID req)) (\<lambda>_. ?r) ?xs else ?xs @ [?r])"
    using assms by (auto simp: requests_put_def RequestsStore_Add_def Let_def simp del: request_defaults_simps(3))
  show thesis
  proof (cases "\<exists>x \<in> set ?xs. req_ID x = req_ID req")
    case True
    from update_first_split[OF True, of "\<lambda>_. ?r"] True put that(1) show thesis by auto
  next
    case no_id: False
    then have nid: "req_ID req \<notin> set (map req_ID ?xs)" by auto
    show thesis
    proof (cases "req_Status ?r = RequestStatusPending \<and> (\<exists>x \<in> set ?xs. pending_from (req_PeerID req) x)")
      case True
      then obtain as x bs where "?xs = as @ x # bs" "pending_from (req_PeerID req) x"
          "update_first (pending_from (req_PeerID req)) (\<lambda>_. ?r) ?xs = as @ ?r # bs"
        using update_first_split[of ?xs "pending_from (req_PeerID req)" "\<lambda>_. ?r"] by blast
      with True no_id put that(2)[OF nid] show thesis by simp
    next
      case False
      with no_id put that(3)[OF nid] show thesis by auto
    qed
  qed
qed

lemma requests_inv_put: assumes "requests_inv rs" shows "requests_inv (requests_put now req rs)"
proof (cases "req_ID req = [] \<or> req_PeerID req = []")
  case True
  then have "requests_put now req rs = rs" by (auto simp: requests_put_def RequestsStore_Add_def)
  with assms show ?thesis by simp
next
  case False
  then have id: "req_ID req \<noteq> []" "req_PeerID req \<noteq> []" by auto
  show ?thesis
    by (rule requests_put_cases[OF id, of rs now]) (use assms id in \<open>auto simp: requests_inv_def\<close>)
qed

lemma requests_inv_del: "requests_inv rs \<Longrightarrow> requests_inv (requests_del i rs)"
  by (auto simp: requests_inv_def requests_del_requests distinct_map_filterI)

lemma requests_inv_SetStatus: "requests_inv rs \<Longrightarrow> requests_inv (result_state (RequestsStore_SetStatus i st w rs f))"
  by (simp add: requests_inv_def RequestsStore_SetStatus_def Let_def map_update_first del: set_map)

interpretation requests_disk:
  persistent RequestsStore_saveLocked RequestsStore_Load rs_path rs_requests "\<lambda>_. True"
proof unfold_locales
  fix s s' :: requests_store and w f
  assume "rs_path s \<noteq> []" "rs_path s' = rs_path s" "fst (RequestsStore_saveLocked s w f) = None"
  moreover from this have "snd (RequestsStore_saveLocked s w f) = Document (RequestsFile REQUESTS_VERSION (rs_requests s))"
    by (simp add: RequestsStore_saveLocked_def save_document_written)
  ultimately show "fst (RequestsStore_Load (snd (RequestsStore_saveLocked s w f)) s') = None \<and>
      rs_requests (snd (RequestsStore_Load (snd (RequestsStore_saveLocked s w f)) s')) = rs_requests s"
    by simp
next
  fix f s
  show "fst (RequestsStore_Load f s) \<noteq> None \<Longrightarrow> snd (RequestsStore_Load f s) = s"
    by (auto split: file_content.splits requests_file.splits if_splits)
qed (simp add: RequestsStore_saveLocked_def save_document_def)

section \<open>Properties\<close>

lemma add_one_pending:
  assumes inv: "requests_inv rs" and uniq: "pending_unique rs"
    and id: "req_ID req \<noteq> []" "req_PeerID req \<noteq> []"
    and own: "\<forall>x \<in> set (RequestsStore_GetAll rs). req_ID x = req_ID req \<longrightarrow>
      req_PeerID x = req_PeerID req \<and> req_Status x = RequestStatusPending"
  shows "pending_unique (result_state (RequestsStore_Add now req w rs f)) \<and>
    RequestsStore_Get (result_state (RequestsStore_Add now req w rs f)) (req_ID req) =
      Some (request_defaults now req)"
  unfolding store_simps
proof
  note defs = pending_unique_def RequestsStore_GetPending_def pending_from_def
  have inv': "requests_inv (requests_put now req rs)" by (rule requests_inv_put[OF inv])
  have mem: "request_defaults now req \<in> set (rs_requests (requests_put now req rs))"
    using id by (cases rule: requests_put_cases[of req rs now]) simp_all
  from find_key_mem[OF _ mem, of req_ID] inv' show "RequestsStore_Get (requests_put now req rs) (req_ID req) = Some (request_defaults now req)"
    by (simp add: RequestsStore_Get_def requests_inv_def)
  show "pending_unique (requests_put now req rs)"
    using id
  proof (cases rule: requests_put_cases[of req rs now])
    case (same_id as x bs)
    then have "req_PeerID x = req_PeerID req" "req_Status x = RequestStatusPending"
      using own by (auto simp: RequestsStore_GetAll_def)
    with same_id uniq show ?thesis by (auto simp: defs)
  next
    case (same_peer as x bs)
    then show ?thesis using uniq by (auto simp: defs)
  next
    case new
    then show ?thesis using uniq
      by (auto simp: defs simp del: request_defaults_simps(3))
  qed
qed

text \<open>Any additions and removals; a write can fail.\<close>

datatype requests_op =
    AddRequest string contact_request "requests_file write_outcome"
  | RemoveRequest string "requests_file write_outcome"

fun requests_step :: "requests_op \<Rightarrow> requests_store \<times> requests_file file_content \<Rightarrow> requests_store \<times> requests_file file_content" where
  "requests_step (AddRequest now req w) (rs, f) = snd (RequestsStore_Add now req w rs f)"
| "requests_step (RemoveRequest i w) (rs, f) = snd (RequestsStore_Remove i w rs f)"

definition requests_run :: "requests_op list \<Rightarrow> requests_store \<Rightarrow> requests_file file_content \<Rightarrow> requests_store" where
  "requests_run ops rs f = fst (fold requests_step ops (rs, f))"

text \<open>The requests added are pending, and those with the same ID come from the same peer.\<close>

definition added_requests :: "requests_op list \<Rightarrow> contact_request set" where
  "added_requests ops = {req. \<exists>now w. AddRequest now req w \<in> set ops}"

definition requests_agree :: "contact_request set \<Rightarrow> bool" where
  "requests_agree R \<longleftrightarrow> (\<forall>r \<in> R. req_Status r = [] \<or> req_Status r = RequestStatusPending) \<and>
     (\<forall>r \<in> R. \<forall>q \<in> R. req_ID r = req_ID q \<longrightarrow> req_PeerID r = req_PeerID q)"

definition requests_from :: "contact_request set \<Rightarrow> requests_store \<Rightarrow> bool" where
  "requests_from R rs \<longleftrightarrow> requests_inv rs \<and> pending_unique rs \<and>
     (\<forall>x \<in> set (rs_requests rs). req_Status x = RequestStatusPending \<and> (\<exists>r \<in> R. req_ID x = req_ID r \<and> req_PeerID x = req_PeerID r))"

lemma put_set:
  assumes "req_ID req \<noteq> []" "req_PeerID req \<noteq> []"
  shows "set (rs_requests (requests_put now req rs)) \<subseteq> insert (request_defaults now req) (set (rs_requests rs))"
  by (cases rule: requests_put_cases[OF assms, of rs now]) auto

lemma add_requests_from:
  assumes R: "requests_agree R" "req \<in> R" and rs: "requests_from R rs"
  shows "requests_from R (requests_put now req rs)"
proof (cases "req_ID req = [] \<or> req_PeerID req = []")
  case True
  then have "requests_put now req rs = rs" by (auto simp: requests_put_def RequestsStore_Add_def unsaved_def result_state_def)
  with rs show ?thesis by simp
next
  case False
  then have id: "req_ID req \<noteq> []" "req_PeerID req \<noteq> []" by simp_all
  have "\<forall>x \<in> set (RequestsStore_GetAll rs). req_ID x = req_ID req \<longrightarrow>
      req_PeerID x = req_PeerID req \<and> req_Status x = RequestStatusPending"
    using R rs unfolding requests_agree_def requests_from_def RequestsStore_GetAll_def by metis
  then have "pending_unique (requests_put now req rs)"
    using add_one_pending[OF _ _ id, of rs now WriteOk NoFile] rs
    by (simp add: requests_from_def requests_state_simps)
  moreover have "requests_inv (requests_put now req rs)" using rs by (simp add: requests_from_def requests_inv_put)
  moreover have "req_Status x = RequestStatusPending \<and> (\<exists>r \<in> R. req_ID x = req_ID r \<and> req_PeerID x = req_PeerID r)"
    if "x \<in> set (rs_requests (requests_put now req rs))" for x
  proof -
    from put_set[OF id, of now rs] that have "x = request_defaults now req \<or> x \<in> set (rs_requests rs)" by blast
    then show ?thesis
    proof
      assume x: "x = request_defaults now req"
      have "req_Status req = [] \<or> req_Status req = RequestStatusPending" using R unfolding requests_agree_def by blast
      then show ?thesis using R(2) by (auto simp: x)
    next
      assume "x \<in> set (rs_requests rs)"
      then show ?thesis using rs unfolding requests_from_def by blast
    qed
  qed
  ultimately show ?thesis by (simp add: requests_from_def)
qed

lemma del_requests_from:
  assumes "requests_from R rs" shows "requests_from R (requests_del i rs)"
proof -
  have "RequestsStore_GetPending (requests_del i rs) = filter (\<lambda>r. req_ID r \<noteq> i) (RequestsStore_GetPending rs)"
    by (simp add: RequestsStore_GetPending_def requests_del_requests conj_commute)
  then have "pending_unique (requests_del i rs)"
    using assms by (simp add: requests_from_def pending_unique_def distinct_map_filterI)
  then show ?thesis using assms by (auto simp: requests_from_def requests_inv_del requests_del_requests)
qed

lemma requests_step_store:
  "fst (requests_step (AddRequest now req w) s) = requests_put now req (fst s)"
  "fst (requests_step (RemoveRequest i w) s) = requests_del i (fst s)"
  using requests_state_simps(1)[of now req w "fst s" "snd s"] requests_state_simps(2)[of i w "fst s" "snd s"]
  by (cases s; simp add: result_state_def)+

lemma requests_run_from:
  "requests_agree R \<Longrightarrow> added_requests ops \<subseteq> R \<Longrightarrow> requests_from R (fst s) \<Longrightarrow> requests_from R (fst (fold requests_step ops s))"
proof (induction ops arbitrary: s)
  case (Cons x ops)
  have "requests_from R (fst (requests_step x s))"
  proof (cases x)
    case (AddRequest now req w)
    then have "req \<in> R" using Cons.prems(2) by (auto simp: added_requests_def)
    then show ?thesis unfolding AddRequest requests_step_store by (rule add_requests_from[OF Cons.prems(1) _ Cons.prems(3)])
  next
    case (RemoveRequest i w)
    show ?thesis unfolding RemoveRequest requests_step_store by (rule del_requests_from[OF Cons.prems(3)])
  qed
  moreover have "added_requests ops \<subseteq> R" using Cons.prems(2) by (auto simp: added_requests_def)
  ultimately show ?case using Cons.IH Cons.prems(1) by simp
qed simp

text \<open>C30.  Contact requests do not pile up.  After any additions and removals, from no requests, in which every
request is added as pending and requests with the same ID come from the same peer, no peer has two
requests that are pending and no ID has two requests; and a request with an ID and a peer that is added then
is found under its ID.\<close>

theorem requests_one_pending:
  assumes "requests_agree (added_requests (ops @ [AddRequest now req w]))" "req_ID req \<noteq> []" "req_PeerID req \<noteq> []"
    and rs: "rs = requests_run (ops @ [AddRequest now req w]) \<lparr>rs_path = p, rs_requests = []\<rparr> f"
  shows "distinct (map req_PeerID (RequestsStore_GetPending rs)) \<and> distinct (map req_ID (RequestsStore_GetAll rs)) \<and>
    RequestsStore_Get rs (req_ID req) = Some (request_defaults now req)"
proof -
  define R where "R = added_requests (ops @ [AddRequest now req w])"
  define s where "s = fold requests_step ops (\<lparr>rs_path = p, rs_requests = []\<rparr>, f)"
  have sub: "added_requests ops \<subseteq> R" "req \<in> R" by (auto simp: R_def added_requests_def)
  have "requests_from R \<lparr>rs_path = p, rs_requests = []\<rparr>"
    by (simp add: requests_from_def requests_inv_def pending_unique_def RequestsStore_GetPending_def)
  then have s: "requests_from R (fst s)"
    using requests_run_from[of R ops "(\<lparr>rs_path = p, rs_requests = []\<rparr>, f)"] assms(1) sub(1) by (simp add: s_def R_def)
  have eq: "rs = requests_put now req (fst s)"
    by (simp only: rs requests_run_def s_def fold_append fold_simps comp_def id_apply requests_step_store)
  have "requests_from R rs" unfolding eq using assms(1) by (intro add_requests_from sub(2) s) (simp add: R_def)
  moreover have "RequestsStore_Get rs (req_ID req) = Some (request_defaults now req)"
  proof -
    have "request_defaults now req \<in> set (rs_requests rs)"
      unfolding eq using assms(2,3) by (cases rule: requests_put_cases[of req "fst s" now]) simp_all
    moreover have "distinct (map req_ID (rs_requests rs))" using \<open>requests_from R rs\<close> by (simp add: requests_from_def requests_inv_def)
    ultimately show ?thesis using find_key_mem[of req_ID "rs_requests rs" "request_defaults now req"]
      by (simp add: RequestsStore_Get_def)
  qed
  ultimately show ?thesis
    by (simp add: requests_from_def requests_inv_def pending_unique_def RequestsStore_GetAll_def)
qed

definition sample_request :: "string \<Rightarrow> string \<Rightarrow> contact_request" where
  "sample_request i p = \<lparr>req_ID = i, req_PeerID = p, req_Name = [], req_Ed25519Pub = [], req_X25519Pub = ''k'',
     req_Signature = [], req_ReadEnabled = True, req_ReceivedAt = ''t'', req_Status = ''pending''\<rparr>"

text \<open>A peer asks again under a new ID after its first request was removed and another peer asked.\<close>

theorem requests_one_pending_witness:
  "let rs = requests_run [AddRequest ''t'' (sample_request ''1'' ''a'') WriteOk, AddRequest ''t'' (sample_request ''2'' ''b'') WriteOk,
       RemoveRequest ''2'' (WriteFails NoFile), AddRequest ''t'' (sample_request ''3'' ''a'') WriteOk]
       \<lparr>rs_path = ''f'', rs_requests = []\<rparr> NoFile
   in distinct (map req_PeerID (RequestsStore_GetPending rs)) \<and>
      RequestsStore_Get rs ''3'' = Some (sample_request ''3'' ''a'')"
proof -
  let ?ops = "[AddRequest ''t'' (sample_request ''1'' ''a'') WriteOk, AddRequest ''t'' (sample_request ''2'' ''b'') WriteOk,
    RemoveRequest ''2'' (WriteFails NoFile)]"
  have "requests_agree (added_requests (?ops @ [AddRequest ''t'' (sample_request ''3'' ''a'') WriteOk]))"
    by (auto simp: requests_agree_def added_requests_def sample_request_def RequestStatusPending_def)
  from requests_one_pending[OF this _ _ refl, of "''f''" NoFile]
  show ?thesis by (simp add: Let_def sample_request_def request_defaults_def)
qed

text \<open>The ID alone decides which request \<open>Add\<close> replaces: a request from another peer that
  reuses an ID, which the sender chooses, erases the request that had it.\<close>

theorem requests_id_overwrites:
  assumes inv: "requests_inv rs" and old: "RequestsStore_Get rs (req_ID req) = Some x"
    and id: "req_ID req \<noteq> []" "req_PeerID req \<noteq> []" and ne: "req_PeerID x \<noteq> req_PeerID req"
  shows "x \<notin> set (RequestsStore_GetAll (result_state (RequestsStore_Add now req w rs f))) \<and>
    RequestsStore_Get (result_state (RequestsStore_Add now req w rs f)) (req_ID req) =
      Some (request_defaults now req)"
  unfolding store_simps RequestsStore_GetAll_def
proof
  have x: "x \<in> set (rs_requests rs)" "req_ID x = req_ID req"
    using old by (auto simp: RequestsStore_Get_def dest: find_SomeD)
  have "requests_inv (requests_put now req rs)" by (rule requests_inv_put[OF inv])
  then have dist: "distinct (map req_ID (rs_requests (requests_put now req rs)))" by (simp add: requests_inv_def)
  have mem: "request_defaults now req \<in> set (rs_requests (requests_put now req rs))"
    using id by (cases rule: requests_put_cases[of req rs now]) simp_all
  show "x \<notin> set (rs_requests (requests_put now req rs))"
  proof
    assume "x \<in> set (rs_requests (requests_put now req rs))"
    with mem dist x(2) have "x = request_defaults now req"
      by (metis distinct_map inj_on_eq_iff request_defaults_simps(1))
    with ne show False by simp
  qed
  from find_key_mem[OF dist mem] show "RequestsStore_Get (requests_put now req rs) (req_ID req) = Some (request_defaults now req)"
    by (simp add: RequestsStore_Get_def)
qed

theorem requests_id_overwrites_witness:
  "let rs = \<lparr>rs_path = ''f'', rs_requests = [sample_request ''1'' ''a'']\<rparr>
   in sample_request ''1'' ''a'' \<notin>
     set (RequestsStore_GetAll (result_state (RequestsStore_Add ''t'' (sample_request ''1'' ''b'') WriteOk rs NoFile)))"
  unfolding Let_def
  by (rule requests_id_overwrites[THEN conjunct1])
    (auto simp: requests_inv_def RequestsStore_Get_def sample_request_def)

end
