(* ===== verification/Deleted.thy ===== *)
theory Deleted
  imports Interfaces
begin

text \<open>
  node/deleted.go and node/aborted.go: the set of deleted peers and the set of aborted
  media, with their files.  Go keeps both in maps; the model keeps them in association
  lists, whose order stands for the unspecified order in which Go ranges over a map (it
  reaches the file and \<open>GetAll\<close>, and nothing depends on it).
\<close>

section \<open>Deleted peers\<close>

record deleted_store =
  ds_path :: string
  ds_deleted :: "(string \<times> bool) list"

datatype deleted_file = DeletedFile int "string list"

definition DELETED_VERSION :: int where "DELETED_VERSION = 1"

fun deleted_from_list :: "string list \<Rightarrow> (string \<times> bool) list \<Rightarrow> (string \<times> bool) list" where
  "deleted_from_list [] al = al"
| "deleted_from_list (i # ids) al = deleted_from_list ids (if i \<noteq> [] then AList.update i True al else al)"

fun DeletedStore_Load :: "deleted_file file_content \<Rightarrow> deleted_store \<Rightarrow> store_error option \<times> deleted_store" where
  "DeletedStore_Load f ds =
     (if ds_path ds = [] then (None, ds)
      else case f of
        NoFile \<Rightarrow> (None, ds\<lparr>ds_deleted := []\<rparr>)
      | Unreadable \<Rightarrow> (Some ReadFailed, ds)
      | Corrupt \<Rightarrow> (Some UnmarshalFailed, ds)
      | Document (DeletedFile v ids) \<Rightarrow> (None, ds\<lparr>ds_deleted := deleted_from_list ids []\<rparr>))"

definition NewDeletedStore :: "string \<Rightarrow> deleted_file file_content \<Rightarrow> deleted_store" where
  "NewDeletedStore path f = snd (DeletedStore_Load f \<lparr>ds_path = path, ds_deleted = []\<rparr>)"

definition DeletedStore_saveLocked ::
  "deleted_store \<Rightarrow> deleted_file write_outcome \<Rightarrow> deleted_file file_content \<Rightarrow>
     store_error option \<times> deleted_file file_content" where
  "DeletedStore_saveLocked ds = save_document (ds_path ds) (DeletedFile DELETED_VERSION (map fst (ds_deleted ds)))"

definition DeletedStore_IsDeleted :: "deleted_store \<Rightarrow> string \<Rightarrow> bool" where
  "DeletedStore_IsDeleted ds p \<longleftrightarrow> map_of (ds_deleted ds) p = Some True"

definition DeletedStore_Add ::
  "string \<Rightarrow> deleted_file write_outcome \<Rightarrow> deleted_store \<Rightarrow> deleted_file file_content \<Rightarrow>
     (deleted_store, deleted_file) store_result" where
  "DeletedStore_Add p w ds f =
     (if p = [] then unsaved (Some (Required ''peerID'')) ds f
      else if DeletedStore_IsDeleted ds p then unsaved None ds f
      else let ds' = ds\<lparr>ds_deleted := AList.update p True (ds_deleted ds)\<rparr>
           in saved ds' (DeletedStore_saveLocked ds' w f))"

definition DeletedStore_RemoveFromDeleted ::
  "string \<Rightarrow> deleted_file write_outcome \<Rightarrow> deleted_store \<Rightarrow> deleted_file file_content \<Rightarrow>
     (deleted_store, deleted_file) store_result" where
  "DeletedStore_RemoveFromDeleted p w ds f =
     (if p = [] then unsaved (Some (Required ''peerID'')) ds f
      else if \<not> DeletedStore_IsDeleted ds p then unsaved None ds f
      else let ds' = ds\<lparr>ds_deleted := AList.delete p (ds_deleted ds)\<rparr>
           in saved ds' (DeletedStore_saveLocked ds' w f))"

definition DeletedStore_GetAll :: "deleted_store \<Rightarrow> string list" where
  "DeletedStore_GetAll ds = map fst (ds_deleted ds)"

text \<open>The map only ever holds \<open>true\<close>, under keys that are not empty.\<close>

definition deleted_inv :: "deleted_store \<Rightarrow> bool" where
  "deleted_inv ds \<longleftrightarrow> distinct (map fst (ds_deleted ds)) \<and> (\<forall>(p, b) \<in> set (ds_deleted ds). p \<noteq> [] \<and> b)"

definition deleted_add :: "string \<Rightarrow> deleted_store \<Rightarrow> deleted_store" where
  "deleted_add p ds = result_state (DeletedStore_Add p WriteOk ds NoFile)"

definition deleted_remove :: "string \<Rightarrow> deleted_store \<Rightarrow> deleted_store" where
  "deleted_remove p ds = result_state (DeletedStore_RemoveFromDeleted p WriteOk ds NoFile)"

lemma deleted_state_simps [store_simps]:
  "result_state (DeletedStore_Add p w ds f) = deleted_add p ds"
  "result_state (DeletedStore_RemoveFromDeleted p w ds f) = deleted_remove p ds"
  by (simp_all add: deleted_add_def deleted_remove_def DeletedStore_Add_def
      DeletedStore_RemoveFromDeleted_def Let_def)

lemma set_AList_update: "set (AList.update k v al) \<subseteq> insert (k, v) (set al)"
  by (induction al) (auto split: if_splits)

lemma set_AList_delete: "set (AList.delete k al) \<subseteq> set al"
  by (auto simp: AList.delete_eq)

interpretation deleted_peers:
  peer_set DeletedStore_IsDeleted deleted_add deleted_remove deleted_inv
proof unfold_locales
  fix s :: deleted_store and x y
  show "deleted_inv s \<Longrightarrow> x \<noteq> [] \<Longrightarrow> DeletedStore_IsDeleted (deleted_add x s) y \<longleftrightarrow> y = x \<or> DeletedStore_IsDeleted s y"
    by (auto simp: deleted_add_def DeletedStore_Add_def Let_def DeletedStore_IsDeleted_def)
  show "\<not> DeletedStore_IsDeleted s []" if "deleted_inv s"
    using that by (auto simp: deleted_inv_def DeletedStore_IsDeleted_def dest: map_of_SomeD)
  then show "deleted_inv s \<Longrightarrow> DeletedStore_IsDeleted (deleted_remove x s) y \<longleftrightarrow> y \<noteq> x \<and> DeletedStore_IsDeleted s y"
    by (auto simp: deleted_remove_def DeletedStore_RemoveFromDeleted_def Let_def DeletedStore_IsDeleted_def)
  show "deleted_add [] s = s" by (simp add: deleted_add_def DeletedStore_Add_def)
  show "deleted_inv s \<Longrightarrow> deleted_inv (deleted_add x s)"
    using set_AList_update[of x True "ds_deleted s"]
    by (auto simp: deleted_inv_def deleted_add_def DeletedStore_Add_def Let_def distinct_update)
  show "deleted_inv s \<Longrightarrow> deleted_inv (deleted_remove x s)"
    using set_AList_delete[of x "ds_deleted s"]
    by (auto simp: deleted_inv_def deleted_remove_def DeletedStore_RemoveFromDeleted_def Let_def distinct_delete)
qed

lemma map_of_deleted_from_list:
  "map_of (deleted_from_list ids al) p = (if p \<in> set ids \<and> p \<noteq> [] then Some True else map_of al p)"
  by (induction ids arbitrary: al) auto

lemma deleted_inv_keys: "deleted_inv ds \<Longrightarrow> p \<in> set (map fst (ds_deleted ds)) \<longleftrightarrow> DeletedStore_IsDeleted ds p"
proof
  assume "deleted_inv ds" "p \<in> set (map fst (ds_deleted ds))"
  then have "(p, True) \<in> set (ds_deleted ds)" "distinct (map fst (ds_deleted ds))"
    by (auto simp: deleted_inv_def)
  then show "DeletedStore_IsDeleted ds p" by (simp add: DeletedStore_IsDeleted_def)
qed (auto simp: DeletedStore_IsDeleted_def dest: map_of_SomeD intro: rev_image_eqI)

interpretation deleted_disk:
  persistent DeletedStore_saveLocked DeletedStore_Load ds_path DeletedStore_IsDeleted deleted_inv
proof unfold_locales
  fix s s' :: deleted_store and w f
  assume inv: "deleted_inv s" and "ds_path s \<noteq> []" "ds_path s' = ds_path s" "fst (DeletedStore_saveLocked s w f) = None"
  moreover from this have "snd (DeletedStore_saveLocked s w f) = Document (DeletedFile DELETED_VERSION (map fst (ds_deleted s)))"
    by (simp add: DeletedStore_saveLocked_def save_document_written)
  ultimately show "fst (DeletedStore_Load (snd (DeletedStore_saveLocked s w f)) s') = None \<and>
      DeletedStore_IsDeleted (snd (DeletedStore_Load (snd (DeletedStore_saveLocked s w f)) s')) = DeletedStore_IsDeleted s"
    using deleted_inv_keys[OF inv] deleted_peers.member_nonempty[OF inv]
    by (auto simp: fun_eq_iff DeletedStore_IsDeleted_def map_of_deleted_from_list simp del: set_map)
next
  fix f s
  show "fst (DeletedStore_Load f s) \<noteq> None \<Longrightarrow> snd (DeletedStore_Load f s) = s"
    by (auto split: file_content.splits deleted_file.splits if_splits)
qed (simp add: DeletedStore_saveLocked_def save_document_def)

section \<open>Aborted media\<close>

record aborted_store =
  as_path :: string
  as_aborted :: "(string \<times> time) list"

datatype aborted_file = AbortedFile int "(string \<times> time) list"

definition ABORTED_VERSION :: int where "ABORTED_VERSION = 1"
definition ABORTED_TTL :: duration where "ABORTED_TTL = 24 * Hour"

fun aborted_from_list :: "(string \<times> time) list \<Rightarrow> (string \<times> time) list \<Rightarrow> (string \<times> time) list" where
  "aborted_from_list [] al = al"
| "aborted_from_list ((i, t) # ids) al = aborted_from_list ids (if i \<noteq> [] then AList.update i t al else al)"

fun AbortedStore_Load :: "aborted_file file_content \<Rightarrow> aborted_store \<Rightarrow> store_error option \<times> aborted_store" where
  "AbortedStore_Load f st =
     (if as_path st = [] then (None, st)
      else case f of
        NoFile \<Rightarrow> (None, st\<lparr>as_aborted := []\<rparr>)
      | Unreadable \<Rightarrow> (Some ReadFailed, st)
      | Corrupt \<Rightarrow> (Some UnmarshalFailed, st)
      | Document (AbortedFile v ids) \<Rightarrow> (None, st\<lparr>as_aborted := aborted_from_list ids []\<rparr>))"

definition NewAbortedStore :: "string \<Rightarrow> aborted_file file_content \<Rightarrow> aborted_store" where
  "NewAbortedStore path f = snd (AbortedStore_Load f \<lparr>as_path = path, as_aborted = []\<rparr>)"

definition AbortedStore_saveLocked ::
  "aborted_store \<Rightarrow> aborted_file write_outcome \<Rightarrow> aborted_file file_content \<Rightarrow>
     store_error option \<times> aborted_file file_content" where
  "AbortedStore_saveLocked st = save_document (as_path st) (AbortedFile ABORTED_VERSION (as_aborted st))"

definition AbortedStore_IsAborted :: "aborted_store \<Rightarrow> string \<Rightarrow> bool" where
  "AbortedStore_IsAborted st i \<longleftrightarrow> map_of (as_aborted st) i \<noteq> None"

definition AbortedStore_Add ::
  "time \<Rightarrow> string \<Rightarrow> aborted_file write_outcome \<Rightarrow> aborted_store \<Rightarrow> aborted_file file_content \<Rightarrow>
     (aborted_store, aborted_file) store_result" where
  "AbortedStore_Add now i w st f =
     (if i = [] then unsaved (Some (Required ''mediaID'')) st f
      else let st' = st\<lparr>as_aborted := AList.update i now (as_aborted st)\<rparr>
           in saved st' (AbortedStore_saveLocked st' w f))"

definition AbortedStore_Remove ::
  "string \<Rightarrow> aborted_file write_outcome \<Rightarrow> aborted_store \<Rightarrow> aborted_file file_content \<Rightarrow>
     (aborted_store, aborted_file) store_result" where
  "AbortedStore_Remove i w st f =
     (if i = [] then unsaved (Some (Required ''mediaID'')) st f
      else if map_of (as_aborted st) i = None then unsaved None st f
      else let st' = st\<lparr>as_aborted := AList.delete i (as_aborted st)\<rparr>
           in saved st' (AbortedStore_saveLocked st' w f))"

definition AbortedStore_GetAll :: "aborted_store \<Rightarrow> string list" where
  "AbortedStore_GetAll st = map fst (as_aborted st)"

definition AbortedStore_CleanupExpired ::
  "time \<Rightarrow> aborted_file write_outcome \<Rightarrow> aborted_store \<Rightarrow> aborted_file file_content \<Rightarrow>
     nat \<times> aborted_store \<times> aborted_file file_content" where
  "AbortedStore_CleanupExpired now w st f =
     (let old = (\<lambda>(i, t). ABORTED_TTL < time_Sub now t);
          removed = length (filter old (as_aborted st));
          st' = st\<lparr>as_aborted := filter (\<lambda>e. \<not> old e) (as_aborted st)\<rparr>
      in if 0 < removed then (removed, st', snd (AbortedStore_saveLocked st' w f))
         else (removed, st', f))"

definition aborted_inv :: "aborted_store \<Rightarrow> bool" where
  "aborted_inv st \<longleftrightarrow> distinct (map fst (as_aborted st)) \<and> [] \<notin> set (map fst (as_aborted st))"

definition aborted_add :: "time \<Rightarrow> string \<Rightarrow> aborted_store \<Rightarrow> aborted_store" where
  "aborted_add now i st = result_state (AbortedStore_Add now i WriteOk st NoFile)"

definition aborted_remove :: "string \<Rightarrow> aborted_store \<Rightarrow> aborted_store" where
  "aborted_remove i st = result_state (AbortedStore_Remove i WriteOk st NoFile)"

lemma aborted_state_simps [store_simps]:
  "result_state (AbortedStore_Add now i w st f) = aborted_add now i st"
  "result_state (AbortedStore_Remove i w st f) = aborted_remove i st"
  by (simp_all add: aborted_add_def aborted_remove_def AbortedStore_Add_def AbortedStore_Remove_def Let_def)

lemma map_of_not_None: "map_of al k \<noteq> None \<longleftrightarrow> k \<in> set (map fst al)"
  by (simp add: map_of_eq_None_iff)

lemma set_map_fst_delete: "set (map fst (AList.delete k al)) = set (map fst al) - {k}"
  by (auto simp: AList.delete_eq)

interpretation aborted_media:
  peer_set AbortedStore_IsAborted "aborted_add now" aborted_remove aborted_inv for now
proof unfold_locales
  fix s :: aborted_store and x y
  show "x \<noteq> [] \<Longrightarrow> AbortedStore_IsAborted (aborted_add now x s) y \<longleftrightarrow> y = x \<or> AbortedStore_IsAborted s y"
    by (auto simp: aborted_add_def AbortedStore_Add_def Let_def AbortedStore_IsAborted_def)
  show "\<not> AbortedStore_IsAborted s []" if "aborted_inv s"
    using that unfolding aborted_inv_def AbortedStore_IsAborted_def map_of_not_None by simp
  then show "aborted_inv s \<Longrightarrow> AbortedStore_IsAborted (aborted_remove x s) y \<longleftrightarrow> y \<noteq> x \<and> AbortedStore_IsAborted s y"
    by (auto simp: aborted_remove_def AbortedStore_Remove_def Let_def AbortedStore_IsAborted_def)
  show "aborted_add now [] s = s" by (simp add: aborted_add_def AbortedStore_Add_def)
  show "aborted_inv s \<Longrightarrow> aborted_inv (aborted_add now x s)"
    by (auto simp: aborted_inv_def aborted_add_def AbortedStore_Add_def Let_def distinct_update
        update_keys simp del: set_map)
  show "aborted_inv s \<Longrightarrow> aborted_inv (aborted_remove x s)"
    by (auto simp: aborted_inv_def aborted_remove_def AbortedStore_Remove_def Let_def distinct_delete
        set_map_fst_delete simp del: set_map)
qed

lemma map_of_aborted_from_list:
  "distinct (map fst ids) \<Longrightarrow> [] \<notin> set (map fst ids) \<Longrightarrow>
     map_of (aborted_from_list ids al) = map_of al ++ map_of ids"
proof (induction ids arbitrary: al)
  case (Cons a ids)
  obtain i t where a: "a = (i, t)" by (cases a)
  with Cons show ?case
    by (auto simp: fun_eq_iff map_add_def split: option.split dest: map_of_SomeD intro: rev_image_eqI)
qed simp

interpretation aborted_disk:
  persistent AbortedStore_saveLocked AbortedStore_Load as_path "\<lambda>s. map_of (as_aborted s)" aborted_inv
proof unfold_locales
  fix s s' :: aborted_store and w f
  assume inv: "aborted_inv s" and "as_path s \<noteq> []" "as_path s' = as_path s" "fst (AbortedStore_saveLocked s w f) = None"
  moreover from this have "snd (AbortedStore_saveLocked s w f) = Document (AbortedFile ABORTED_VERSION (as_aborted s))"
    by (simp add: AbortedStore_saveLocked_def save_document_written)
  ultimately show "fst (AbortedStore_Load (snd (AbortedStore_saveLocked s w f)) s') = None \<and>
      map_of (as_aborted (snd (AbortedStore_Load (snd (AbortedStore_saveLocked s w f)) s'))) = map_of (as_aborted s)"
    using map_of_aborted_from_list[of "as_aborted s" "[]"] by (simp add: aborted_inv_def)
next
  fix f s
  show "fst (AbortedStore_Load f s) \<noteq> None \<Longrightarrow> snd (AbortedStore_Load f s) = s"
    by (auto split: file_content.splits aborted_file.splits if_splits)
qed (simp add: AbortedStore_saveLocked_def save_document_def)

lemma map_of_filter_distinct:
  "distinct (map fst al) \<Longrightarrow> map_of (filter P al) k = Some v \<longleftrightarrow> map_of al k = Some v \<and> P (k, v)"
  by (simp add: map_of_eq_Some_iff distinct_map_filterI)

lemma CleanupExpired_aborted:
  assumes "aborted_inv st"
  shows "AbortedStore_IsAborted (fst (snd (AbortedStore_CleanupExpired now w st f))) i \<longleftrightarrow>
    (\<exists>t. map_of (as_aborted st) i = Some t \<and> time_Sub now t \<le> ABORTED_TTL)"
proof -
  have "as_aborted (fst (snd (AbortedStore_CleanupExpired now w st f))) =
      filter (\<lambda>(i, t). time_Sub now t \<le> ABORTED_TTL) (as_aborted st)"
    by (auto simp: AbortedStore_CleanupExpired_def Let_def intro: filter_cong)
  with assms show ?thesis
    unfolding AbortedStore_IsAborted_def by (simp add: not_None_eq map_of_filter_distinct aborted_inv_def)
qed

section \<open>Properties\<close>

text \<open>A media ID that was aborted is refused for 24 hours and then forgotten: after a cleanup
  it is still aborted if and only if no more than 24 hours have passed since the last abort,
  and the cleanup drops no other ID that is still within its 24 hours.\<close>

theorem aborted_for_24_hours:
  assumes "aborted_inv st" "i \<noteq> []"
  shows "(AbortedStore_IsAborted (fst (snd (AbortedStore_CleanupExpired now w
           (result_state (AbortedStore_Add t i w' st f')) f))) i \<longleftrightarrow> now \<le> t + 24 * Hour) \<and>
    (j \<noteq> i \<longrightarrow> AbortedStore_IsAborted (fst (snd (AbortedStore_CleanupExpired now w
           (result_state (AbortedStore_Add t i w' st f')) f))) j \<longleftrightarrow>
       (\<exists>u. map_of (as_aborted st) j = Some u \<and> now \<le> u + 24 * Hour))"
proof -
  have sub: "time_Sub now u \<le> ABORTED_TTL \<longleftrightarrow> now \<le> u + 24 * Hour" for u
    using time_Sub_gt[of ABORTED_TTL now u]
    by (auto simp: ABORTED_TTL_def Hour_def Minute_def Second_def max_int64_def)
  have "map_of (as_aborted (aborted_add t i st)) = (map_of (as_aborted st))(i \<mapsto> t)"
    using assms(2) by (simp add: aborted_add_def AbortedStore_Add_def Let_def)
  then show ?thesis
    unfolding store_simps CleanupExpired_aborted[OF aborted_media.invar_add[OF assms(1)]] sub by auto
qed

theorem aborted_for_24_hours_witness:
  "let st = \<lparr>as_path = ''f'', as_aborted = []\<rparr>
   in AbortedStore_IsAborted (fst (snd (AbortedStore_CleanupExpired (5 + 24 * Hour) WriteOk
        (result_state (AbortedStore_Add 5 ''m'' WriteOk st NoFile)) NoFile))) ''m''"
  unfolding Let_def
  using aborted_for_24_hours[of "\<lparr>as_path = ''f'', as_aborted = []\<rparr>" "''m''" "5 + 24 * Hour" WriteOk 5 WriteOk NoFile NoFile]
  by (simp add: aborted_inv_def)

end
