(* ===== verification/OffersStore.thy ===== *)
theory OffersStore
  imports Interfaces "HOL-Library.Multiset"
begin

text \<open>
  node/node_offers.go, first part: the store of incoming file offers and its file.  The
  handlers of the offer protocol are in the theory of the node's file protocol.
\<close>

section \<open>State\<close>

record file_offer =
  off_MediaID :: string
  off_OfferMsgID :: string
  off_Sender :: string
  off_FileName :: string
  off_FileSize :: int
  off_ChunkTotal :: int
  off_TtlSeconds :: int
  off_TtlMode :: string
  off_ExpiresAt :: time
  off_CreatedAt :: time
  off_OfferExpiresAt :: time
  off_Cancelled :: bool

record offers_store =
  os_path :: string
  os_offers :: "file_offer list"

datatype offers_file = OffersFile int "file_offer list"

definition OFFERS_VERSION :: int where "OFFERS_VERSION = 1"
definition OFFER_TIMEOUT :: duration where "OFFER_TIMEOUT = 24 * Hour"

section \<open>Operations\<close>

fun OffersStore_Load :: "offers_file file_content \<Rightarrow> offers_store \<Rightarrow> store_error option \<times> offers_store" where
  "OffersStore_Load f st =
     (if os_path st = [] then (None, st)
      else case f of
        NoFile \<Rightarrow> (None, st\<lparr>os_offers := []\<rparr>)
      | Unreadable \<Rightarrow> (Some ReadFailed, st)
      | Corrupt \<Rightarrow> (Some UnmarshalFailed, st)
      | Document (OffersFile v xs) \<Rightarrow> (None, st\<lparr>os_offers := xs\<rparr>))"

definition NewOffersStore :: "string \<Rightarrow> offers_file file_content \<Rightarrow> offers_store" where
  "NewOffersStore path f = snd (OffersStore_Load f \<lparr>os_path = path, os_offers = []\<rparr>)"

definition OffersStore_saveLocked ::
  "offers_store \<Rightarrow> offers_file write_outcome \<Rightarrow> offers_file file_content \<Rightarrow>
     store_error option \<times> offers_file file_content" where
  "OffersStore_saveLocked st = save_document (os_path st) (OffersFile OFFERS_VERSION (os_offers st))"

definition OffersStore_Add ::
  "file_offer \<Rightarrow> offers_file write_outcome \<Rightarrow> offers_store \<Rightarrow> offers_file file_content \<Rightarrow>
     (offers_store, offers_file) store_result" where
  "OffersStore_Add o1 w st f =
     (if off_MediaID o1 = [] then unsaved (Some (Required ''mediaID'')) st f
      else let st' = st\<lparr>os_offers := put_by off_MediaID (\<lambda>_. o1) o1 (os_offers st)\<rparr>
           in saved st' (OffersStore_saveLocked st' w f))"

definition OffersStore_Get :: "offers_store \<Rightarrow> string \<Rightarrow> file_offer option" where
  "OffersStore_Get st i = find (\<lambda>x. off_MediaID x = i) (os_offers st)"

definition OffersStore_Remove ::
  "string \<Rightarrow> offers_file write_outcome \<Rightarrow> offers_store \<Rightarrow> offers_file file_content \<Rightarrow>
     (offers_store, offers_file) store_result" where
  "OffersStore_Remove i w st f =
     (let kept = filter (\<lambda>x. off_MediaID x \<noteq> i) (os_offers st);
          st' = st\<lparr>os_offers := kept\<rparr>
      in if length kept = length (os_offers st) then unsaved (Some (NotFound i)) st f
         else saved st' (OffersStore_saveLocked st' w f))"

definition OffersStore_GetAll :: "offers_store \<Rightarrow> file_offer list" where
  "OffersStore_GetAll st = os_offers st"

definition offer_expired :: "time \<Rightarrow> file_offer \<Rightarrow> bool" where
  "offer_expired now x \<longleftrightarrow> \<not> IsZero (off_OfferExpiresAt x) \<and> After now (off_OfferExpiresAt x)"

definition OffersStore_CleanupExpired ::
  "time \<Rightarrow> offers_file write_outcome \<Rightarrow> offers_store \<Rightarrow> offers_file file_content \<Rightarrow>
     file_offer list \<times> offers_store \<times> offers_file file_content" where
  "OffersStore_CleanupExpired now w st f =
     (let expired = filter (offer_expired now) (os_offers st);
          st' = st\<lparr>os_offers := filter (\<lambda>x. \<not> offer_expired now x) (os_offers st)\<rparr>
      in if 0 < length expired then (expired, st', snd (OffersStore_saveLocked st' w f))
         else (expired, st, f))"

section \<open>Invariant and contract\<close>

definition offers_inv :: "offers_store \<Rightarrow> bool" where
  "offers_inv st \<longleftrightarrow> distinct (map off_MediaID (os_offers st)) \<and> [] \<notin> set (map off_MediaID (os_offers st))"

definition offers_put :: "file_offer \<Rightarrow> offers_store \<Rightarrow> offers_store" where
  "offers_put x st = result_state (OffersStore_Add x WriteOk st NoFile)"

definition offers_del :: "string \<Rightarrow> offers_store \<Rightarrow> offers_store" where
  "offers_del i st = result_state (OffersStore_Remove i WriteOk st NoFile)"

definition offers_merge :: "file_offer option \<Rightarrow> file_offer \<Rightarrow> file_offer option" where
  "offers_merge old x = (if off_MediaID x = [] then old else Some x)"

lemma offers_state_simps [store_simps]:
  "result_state (OffersStore_Add x w st f) = offers_put x st"
  "result_state (OffersStore_Remove i w st f) = offers_del i st"
  by (simp_all add: offers_put_def offers_del_def OffersStore_Add_def OffersStore_Remove_def Let_def)

lemma offers_del_offers: "os_offers (offers_del i st) = filter (\<lambda>x. off_MediaID x \<noteq> i) (os_offers st)"
  by (auto simp: offers_del_def OffersStore_Remove_def Let_def length_filter_eq_iff filter_id_conv)

lemma offers_put_offers:
  "os_offers (offers_put x st) = (if off_MediaID x = [] then os_offers st
     else put_by off_MediaID (\<lambda>_. x) x (os_offers st))"
  by (simp add: offers_put_def OffersStore_Add_def Let_def)

lemma offers_inv_put: "offers_inv st \<Longrightarrow> offers_inv (offers_put x st)"
  by (simp add: offers_inv_def offers_put_offers keys_put_by del: set_map)

lemma offers_inv_del: "offers_inv st \<Longrightarrow> offers_inv (offers_del i st)"
  by (auto simp: offers_inv_def offers_del_offers distinct_map_filterI)

lemma offers_inv_cleanup: "offers_inv st \<Longrightarrow> offers_inv (fst (snd (OffersStore_CleanupExpired now w st f)))"
  by (auto simp: offers_inv_def OffersStore_CleanupExpired_def Let_def distinct_map_filterI)

interpretation offer_list:
  keyed_store OffersStore_Get offers_put offers_del off_MediaID offers_merge offers_inv
proof unfold_locales
  fix s v k
  show "offers_inv s \<Longrightarrow> OffersStore_Get (offers_put v s) =
      (OffersStore_Get s)(off_MediaID v := offers_merge (OffersStore_Get s (off_MediaID v)) v)"
    using find_put_by[of off_MediaID v "\<lambda>_. v" "os_offers s"]
    by (simp add: OffersStore_Get_def offers_put_offers offers_merge_def fun_eq_iff split: option.split)
  show "OffersStore_Get (offers_del k s) = (OffersStore_Get s)(k := None)"
    using find_key_remove[of off_MediaID k "os_offers s"]
    by (simp add: OffersStore_Get_def offers_del_offers fun_eq_iff)
qed (simp_all add: offers_inv_put offers_inv_del)

interpretation offers_disk:
  persistent OffersStore_saveLocked OffersStore_Load os_path os_offers "\<lambda>_. True"
proof unfold_locales
  fix s s' :: offers_store and w f
  assume "os_path s \<noteq> []" "os_path s' = os_path s" "fst (OffersStore_saveLocked s w f) = None"
  moreover from this have "snd (OffersStore_saveLocked s w f) = Document (OffersFile OFFERS_VERSION (os_offers s))"
    by (simp add: OffersStore_saveLocked_def save_document_written)
  ultimately show "fst (OffersStore_Load (snd (OffersStore_saveLocked s w f)) s') = None \<and>
      os_offers (snd (OffersStore_Load (snd (OffersStore_saveLocked s w f)) s')) = os_offers s"
    by simp
next
  fix f s
  show "fst (OffersStore_Load f s) \<noteq> None \<Longrightarrow> snd (OffersStore_Load f s) = s"
    by (auto split: file_content.splits offers_file.splits if_splits)
qed (simp add: OffersStore_saveLocked_def save_document_def)

lemma CleanupExpired_none:
  "\<forall>x \<in> set (os_offers st). \<not> offer_expired now x \<Longrightarrow> OffersStore_CleanupExpired now w st f = ([], st, f)"
  by (simp add: OffersStore_CleanupExpired_def filter_empty_conv)

lemma CleanupExpired_offers:
  "fst (OffersStore_CleanupExpired now w st f) = filter (offer_expired now) (os_offers st)"
  "os_offers (fst (snd (OffersStore_CleanupExpired now w st f))) = filter (\<lambda>x. \<not> offer_expired now x) (os_offers st)"
  by (auto simp: OffersStore_CleanupExpired_def Let_def filter_empty_conv)

section \<open>Properties\<close>

text \<open>The cleanup of file offers splits the list: every offer is either still there or
  reported as expired, never both and never lost, exactly those past their deadline are
  reported, and a second cleanup at the same time reports none, so the user interface is
  told once.\<close>

theorem offers_cleanup_partition:
  "mset (fst (OffersStore_CleanupExpired now w st f)) +
     mset (os_offers (fst (snd (OffersStore_CleanupExpired now w st f)))) = mset (OffersStore_GetAll st) \<and>
   set (fst (OffersStore_CleanupExpired now w st f)) = {x \<in> set (OffersStore_GetAll st). offer_expired now x} \<and>
   fst (OffersStore_CleanupExpired now w' (fst (snd (OffersStore_CleanupExpired now w st f))) f') = []"
  unfolding CleanupExpired_offers OffersStore_GetAll_def
  by (auto simp: multiset_partition[symmetric])

end
