(* ===== verification/SettingsStore.thy ===== *)
theory SettingsStore
  imports Interfaces
begin

text \<open>
  node/settings.go: the user's settings, their file, the migration of old files, and the
  two tables between periods and seconds.  A parsed file is the record \<open>settings_file\<close>,
  with a \<open>json_field\<close> for each key whose presence the code tests; \<open>my_ttl\<close> carries the
  text that \<open>fmt.Sprintf("%v", ...)\<close> makes of the old value.
\<close>

section \<open>State\<close>

record settings =
  set_V :: int
  set_MyReadEnabled :: bool
  set_MyDisplayName :: string
  set_TtlPeriod :: string
  set_TtlMode :: "string option"
  set_ShowNotificationContent :: bool
  set_ShowNotificationCount :: bool
  set_ShowNotificationNames :: bool
  set_ShowNotificationProgress :: bool
  set_SphinxEnabled :: bool
  set_MixingEnabled :: bool
  set_MaskingEnabled :: bool
  set_FileRequestThreshold :: int

record settings_store =
  ss_file :: string
  ss_data :: settings

record settings_file =
  sf_v :: int
  sf_my_read_enabled :: "bool json_field"
  sf_my_display_name :: string
  sf_ttl_period :: "string json_field"
  sf_my_ttl :: "string json_field"
  sf_ttl_mode :: "string option"
  sf_show_notification_content :: "bool json_field"
  sf_show_notification_count :: bool
  sf_show_notification_names :: bool
  sf_show_notification_progress :: bool
  sf_sphinx_enabled :: bool
  sf_mixing_enabled :: bool
  sf_masking_enabled :: bool
  sf_file_request_threshold :: "int json_field"

definition SETTINGS_VERSION :: int where "SETTINGS_VERSION = 1"

section \<open>Periods\<close>

definition secondsToPeriod :: "string \<Rightarrow> string" where
  "secondsToPeriod sec =
     (if sec = '''' \<or> sec = ''0'' then ''never''
      else if sec = ''10'' then ''10s''
      else if sec = ''30'' then ''30s''
      else if sec = ''60'' then ''1m''
      else if sec = ''300'' then ''5m''
      else if sec = ''900'' then ''15m''
      else if sec = ''1800'' then ''30m''
      else if sec = ''3600'' then ''1h''
      else if sec = ''14400'' then ''4h''
      else if sec = ''86400'' then ''24h''
      else ''never'')"

definition parsePeriod :: "string \<Rightarrow> int" where
  "parsePeriod period =
     (if period = ''10s'' then 10
      else if period = ''30s'' then 30
      else if period = ''1m'' then 60
      else if period = ''5m'' then 300
      else if period = ''15m'' then 900
      else if period = ''30m'' then 1800
      else if period = ''1h'' then 3600
      else if period = ''4h'' then 14400
      else if period = ''24h'' then 86400
      else if period = ''never'' \<or> period = ''forever'' then 0
      else 0)"

section \<open>Load and save\<close>

definition default_settings :: settings where
  "default_settings =
     \<lparr>set_V = SETTINGS_VERSION, set_MyReadEnabled = True, set_MyDisplayName = '''', set_TtlPeriod = '''',
      set_TtlMode = None, set_ShowNotificationContent = True, set_ShowNotificationCount = False,
      set_ShowNotificationNames = False, set_ShowNotificationProgress = False, set_SphinxEnabled = False,
      set_MixingEnabled = False, set_MaskingEnabled = False, set_FileRequestThreshold = -1\<rparr>"

text \<open>\<open>json.Unmarshal\<close> into \<open>Settings\<close>: absent and null fields keep the zero value.\<close>

definition unmarshal_settings :: "settings_file \<Rightarrow> settings" where
  "unmarshal_settings d =
     \<lparr>set_V = sf_v d, set_MyReadEnabled = field_value False (sf_my_read_enabled d),
      set_MyDisplayName = sf_my_display_name d, set_TtlPeriod = field_value '''' (sf_ttl_period d),
      set_TtlMode = sf_ttl_mode d,
      set_ShowNotificationContent = field_value False (sf_show_notification_content d),
      set_ShowNotificationCount = sf_show_notification_count d,
      set_ShowNotificationNames = sf_show_notification_names d,
      set_ShowNotificationProgress = sf_show_notification_progress d,
      set_SphinxEnabled = sf_sphinx_enabled d, set_MixingEnabled = sf_mixing_enabled d,
      set_MaskingEnabled = sf_masking_enabled d,
      set_FileRequestThreshold = field_value 0 (sf_file_request_threshold d)\<rparr>"

text \<open>\<open>fmt.Sprintf("%v", oldTtl)\<close>, where a JSON null is Go's nil interface.\<close>

fun sprintf_ttl :: "string json_field \<Rightarrow> string" where
  "sprintf_ttl (Value t) = t"
| "sprintf_ttl Null = ''<nil>''"
| "sprintf_ttl Absent = ''''"

definition migrate_settings :: "settings_file \<Rightarrow> settings" where
  "migrate_settings d =
     (let l0 = unmarshal_settings d;
          l1 = (if set_V l0 = 0 then l0\<lparr>set_V := SETTINGS_VERSION\<rparr> else l0);
          l2 = (if sf_my_read_enabled d = Absent then l1\<lparr>set_MyReadEnabled := True\<rparr> else l1);
          l3 = (if sf_show_notification_content d = Absent then l2\<lparr>set_ShowNotificationContent := True\<rparr> else l2);
          l4 = (if sf_file_request_threshold d = Absent then l3\<lparr>set_FileRequestThreshold := -1\<rparr> else l3);
          l5 = (if sf_ttl_period d = Absent \<and> sf_my_ttl d \<noteq> Absent
                then let period = secondsToPeriod (sprintf_ttl (sf_my_ttl d));
                         l = l4\<lparr>set_TtlPeriod := period\<rparr>
                     in if period \<noteq> ''forever'' then l\<lparr>set_TtlMode := Some ''after_read''\<rparr> else l
                else l4);
          l6 = (if set_TtlPeriod l5 = '''' then l5\<lparr>set_TtlPeriod := ''never''\<rparr> else l5)
      in if set_TtlPeriod l6 = ''forever'' then l6\<lparr>set_TtlPeriod := ''never''\<rparr> else l6)"

fun SettingsStore_Load :: "settings_file file_content \<Rightarrow> settings_store \<Rightarrow> store_error option \<times> settings_store" where
  "SettingsStore_Load f s =
     (if ss_file s = [] then (None, s)
      else case f of
        NoFile \<Rightarrow> (None, s)
      | Unreadable \<Rightarrow> (Some ReadFailed, s)
      | Corrupt \<Rightarrow> (Some UnmarshalFailed, s)
      | Document d \<Rightarrow> (None, s\<lparr>ss_data := migrate_settings d\<rparr>))"

definition NewSettingsStore :: "string \<Rightarrow> settings_file file_content \<Rightarrow> settings_store" where
  "NewSettingsStore path f = snd (SettingsStore_Load f \<lparr>ss_file = path, ss_data = default_settings\<rparr>)"

text \<open>\<open>json.MarshalIndent\<close>: \<open>ttl_period\<close> is written unless it is empty (\<open>omitempty\<close>).\<close>

definition marshal_settings :: "settings \<Rightarrow> settings_file" where
  "marshal_settings d =
     \<lparr>sf_v = set_V d, sf_my_read_enabled = Value (set_MyReadEnabled d),
      sf_my_display_name = set_MyDisplayName d,
      sf_ttl_period = (if set_TtlPeriod d = '''' then Absent else Value (set_TtlPeriod d)),
      sf_my_ttl = Absent, sf_ttl_mode = set_TtlMode d,
      sf_show_notification_content = Value (set_ShowNotificationContent d),
      sf_show_notification_count = set_ShowNotificationCount d,
      sf_show_notification_names = set_ShowNotificationNames d,
      sf_show_notification_progress = set_ShowNotificationProgress d,
      sf_sphinx_enabled = set_SphinxEnabled d, sf_mixing_enabled = set_MixingEnabled d,
      sf_masking_enabled = set_MaskingEnabled d,
      sf_file_request_threshold = Value (set_FileRequestThreshold d)\<rparr>"

definition SettingsStore_saveLocked ::
  "settings_store \<Rightarrow> settings_file write_outcome \<Rightarrow> settings_file file_content \<Rightarrow>
     store_error option \<times> settings_file file_content" where
  "SettingsStore_saveLocked s =
     save_document (ss_file s) (marshal_settings ((ss_data s)\<lparr>set_V := SETTINGS_VERSION\<rparr>))"

text \<open>\<open>Save\<close> also sets the version of the settings in memory, once the path is known to be set.\<close>

definition SettingsStore_Save ::
  "settings_file write_outcome \<Rightarrow> settings_store \<Rightarrow> settings_file file_content \<Rightarrow>
     (settings_store, settings_file) store_result" where
  "SettingsStore_Save w s f =
     (if ss_file s = [] then unsaved (Some PathNotSet) s f
      else saved (s\<lparr>ss_data := (ss_data s)\<lparr>set_V := SETTINGS_VERSION\<rparr>\<rparr>) (SettingsStore_saveLocked s w f))"

section \<open>Setters and getters\<close>

text \<open>Every setter but \<open>SetTtl\<close>: nothing happens when the value is the one that is set.\<close>

definition set_setting ::
  "(settings \<Rightarrow> 'a) \<Rightarrow> ('a \<Rightarrow> settings \<Rightarrow> settings) \<Rightarrow> 'a \<Rightarrow> settings_file write_outcome \<Rightarrow>
     settings_store \<Rightarrow> settings_file file_content \<Rightarrow> (settings_store, settings_file) store_result" where
  "set_setting sel upd x w s f =
     (if sel (ss_data s) = x then unsaved None s f
      else SettingsStore_Save w (s\<lparr>ss_data := upd x (ss_data s)\<rparr>) f)"

type_synonym 'a setter = "'a \<Rightarrow> settings_file write_outcome \<Rightarrow> settings_store \<Rightarrow>
  settings_file file_content \<Rightarrow> (settings_store, settings_file) store_result"

definition SettingsStore_GetMyReadEnabled :: "settings_store \<Rightarrow> bool" where
  "SettingsStore_GetMyReadEnabled s = set_MyReadEnabled (ss_data s)"

definition SettingsStore_SetMyReadEnabled :: "bool setter" where
  "SettingsStore_SetMyReadEnabled = set_setting set_MyReadEnabled (\<lambda>x d. d\<lparr>set_MyReadEnabled := x\<rparr>)"

definition SettingsStore_GetMyDisplayName :: "settings_store \<Rightarrow> string" where
  "SettingsStore_GetMyDisplayName s = set_MyDisplayName (ss_data s)"

definition SettingsStore_SetMyDisplayName :: "string setter" where
  "SettingsStore_SetMyDisplayName = set_setting set_MyDisplayName (\<lambda>x d. d\<lparr>set_MyDisplayName := x\<rparr>)"

definition SettingsStore_GetShowNotificationContent :: "settings_store \<Rightarrow> bool" where
  "SettingsStore_GetShowNotificationContent s = set_ShowNotificationContent (ss_data s)"

definition SettingsStore_SetShowNotificationContent :: "bool setter" where
  "SettingsStore_SetShowNotificationContent =
     set_setting set_ShowNotificationContent (\<lambda>x d. d\<lparr>set_ShowNotificationContent := x\<rparr>)"

definition SettingsStore_GetNotificationCount :: "settings_store \<Rightarrow> bool" where
  "SettingsStore_GetNotificationCount s = set_ShowNotificationCount (ss_data s)"

definition SettingsStore_SetNotificationCount :: "bool setter" where
  "SettingsStore_SetNotificationCount =
     set_setting set_ShowNotificationCount (\<lambda>x d. d\<lparr>set_ShowNotificationCount := x\<rparr>)"

definition SettingsStore_GetNotificationNames :: "settings_store \<Rightarrow> bool" where
  "SettingsStore_GetNotificationNames s = set_ShowNotificationNames (ss_data s)"

definition SettingsStore_SetNotificationNames :: "bool setter" where
  "SettingsStore_SetNotificationNames =
     set_setting set_ShowNotificationNames (\<lambda>x d. d\<lparr>set_ShowNotificationNames := x\<rparr>)"

definition SettingsStore_GetNotificationProgress :: "settings_store \<Rightarrow> bool" where
  "SettingsStore_GetNotificationProgress s = set_ShowNotificationProgress (ss_data s)"

definition SettingsStore_SetNotificationProgress :: "bool setter" where
  "SettingsStore_SetNotificationProgress =
     set_setting set_ShowNotificationProgress (\<lambda>x d. d\<lparr>set_ShowNotificationProgress := x\<rparr>)"

definition SettingsStore_GetSphinxEnabled :: "settings_store \<Rightarrow> bool" where
  "SettingsStore_GetSphinxEnabled s = set_SphinxEnabled (ss_data s)"

definition SettingsStore_SetSphinxEnabled :: "bool setter" where
  "SettingsStore_SetSphinxEnabled = set_setting set_SphinxEnabled (\<lambda>x d. d\<lparr>set_SphinxEnabled := x\<rparr>)"

definition SettingsStore_GetMixingEnabled :: "settings_store \<Rightarrow> bool" where
  "SettingsStore_GetMixingEnabled s = set_MixingEnabled (ss_data s)"

definition SettingsStore_SetMixingEnabled :: "bool setter" where
  "SettingsStore_SetMixingEnabled = set_setting set_MixingEnabled (\<lambda>x d. d\<lparr>set_MixingEnabled := x\<rparr>)"

definition SettingsStore_GetMaskingEnabled :: "settings_store \<Rightarrow> bool" where
  "SettingsStore_GetMaskingEnabled s = set_MaskingEnabled (ss_data s)"

definition SettingsStore_SetMaskingEnabled :: "bool setter" where
  "SettingsStore_SetMaskingEnabled = set_setting set_MaskingEnabled (\<lambda>x d. d\<lparr>set_MaskingEnabled := x\<rparr>)"

definition SettingsStore_GetFileRequestThreshold :: "settings_store \<Rightarrow> int" where
  "SettingsStore_GetFileRequestThreshold s = set_FileRequestThreshold (ss_data s)"

definition SettingsStore_SetFileRequestThreshold :: "int setter" where
  "SettingsStore_SetFileRequestThreshold =
     set_setting set_FileRequestThreshold (\<lambda>x d. d\<lparr>set_FileRequestThreshold := x\<rparr>)"

definition SettingsStore_GetTtl :: "settings_store \<Rightarrow> string \<times> string option" where
  "SettingsStore_GetTtl s =
     (let period = set_TtlPeriod (ss_data s)
      in (if period = '''' \<or> period = ''forever'' then ''never'' else period, set_TtlMode (ss_data s)))"

definition SettingsStore_SetTtl ::
  "string \<Rightarrow> string option \<Rightarrow> settings_file write_outcome \<Rightarrow> settings_store \<Rightarrow>
     settings_file file_content \<Rightarrow> (settings_store, settings_file) store_result" where
  "SettingsStore_SetTtl period md w s f =
     SettingsStore_Save w (s\<lparr>ss_data := (ss_data s)\<lparr>set_TtlPeriod := period, set_TtlMode := md\<rparr>\<rparr>) f"

section \<open>Contract\<close>

text \<open>What the getters can see: the stored version is not among it, and an empty or
  \<open>forever\<close> period reads as \<open>never\<close>.\<close>

definition settings_view :: "settings_store \<Rightarrow> settings" where
  "settings_view s = (ss_data s)\<lparr>set_V := SETTINGS_VERSION, set_TtlPeriod := fst (SettingsStore_GetTtl s)\<rparr>"

lemma secondsToPeriod_not_forever: "secondsToPeriod t \<noteq> ''forever''" "secondsToPeriod t \<noteq> ''''"
  by (simp_all add: secondsToPeriod_def)

lemma migrate_marshal:
  "migrate_settings (marshal_settings (d\<lparr>set_V := SETTINGS_VERSION\<rparr>)) =
     d\<lparr>set_V := SETTINGS_VERSION, set_TtlPeriod :=
        (if set_TtlPeriod d = '''' \<or> set_TtlPeriod d = ''forever'' then ''never'' else set_TtlPeriod d)\<rparr>"
  by (simp add: migrate_settings_def marshal_settings_def unmarshal_settings_def Let_def SETTINGS_VERSION_def)

interpretation settings_disk:
  persistent SettingsStore_saveLocked SettingsStore_Load ss_file settings_view "\<lambda>_. True"
proof unfold_locales
  fix s s' :: settings_store and w f
  assume "ss_file s \<noteq> []" "ss_file s' = ss_file s" "fst (SettingsStore_saveLocked s w f) = None"
  moreover from this have "snd (SettingsStore_saveLocked s w f) =
      Document (marshal_settings ((ss_data s)\<lparr>set_V := SETTINGS_VERSION\<rparr>))"
    by (simp add: SettingsStore_saveLocked_def save_document_written)
  ultimately show "fst (SettingsStore_Load (snd (SettingsStore_saveLocked s w f)) s') = None \<and>
      settings_view (snd (SettingsStore_Load (snd (SettingsStore_saveLocked s w f)) s')) = settings_view s"
    by (simp add: migrate_marshal settings_view_def SettingsStore_GetTtl_def Let_def)
next
  fix f s
  show "fst (SettingsStore_Load f s) \<noteq> None \<Longrightarrow> snd (SettingsStore_Load f s) = s"
    by (auto split: file_content.splits if_splits)
qed (simp add: SettingsStore_saveLocked_def save_document_def)

lemma Save_file:
  "SettingsStore_Save w s f = (None, s', f') \<Longrightarrow>
     ss_file s' = ss_file s \<and> ss_data s' = (ss_data s)\<lparr>set_V := SETTINGS_VERSION\<rparr> \<and>
     SettingsStore_saveLocked s w f = (None, f')"
  by (auto simp: SettingsStore_Save_def split: if_splits)

section \<open>Properties\<close>

text \<open>When setting the TTL reports no error, a settings store opened on the file shows the new
  period and mode and, in every other getter, the settings as they were before.\<close>

theorem SetTtl_survives_restart:
  assumes "SettingsStore_SetTtl period md w s f = (None, s', f')"
  shows "settings_view (NewSettingsStore (ss_file s) f') =
    (settings_view s)\<lparr>set_TtlPeriod := (if period = '''' \<or> period = ''forever'' then ''never'' else period),
                    set_TtlMode := md\<rparr>"
proof -
  let ?s1 = "s\<lparr>ss_data := (ss_data s)\<lparr>set_TtlPeriod := period, set_TtlMode := md\<rparr>\<rparr>"
  from Save_file[OF assms[unfolded SettingsStore_SetTtl_def]] have sv: "SettingsStore_saveLocked ?s1 w f = (None, f')"
    by simp
  have "settings_view (NewSettingsStore (ss_file s) f') = settings_view ?s1"
    using settings_disk.restart[where s = ?s1 and w = w and f = f
        and s' = "\<lparr>ss_file = ss_file s, ss_data = default_settings\<rparr>"] sv
    by (simp add: NewSettingsStore_def del: SettingsStore_Load.simps)
  then show ?thesis by (simp add: settings_view_def SettingsStore_GetTtl_def Let_def)
qed

theorem SetTtl_survives_restart_witness:
  "let s = \<lparr>ss_file = ''f'', ss_data = default_settings\<rparr>;
       f' = result_file (SettingsStore_SetTtl ''1h'' (Some ''hard'') WriteOk s NoFile)
   in set_TtlPeriod (settings_view (NewSettingsStore ''f'' f')) = ''1h'' \<and>
      set_TtlMode (settings_view (NewSettingsStore ''f'' f')) = Some ''hard''"
proof -
  let ?s = "\<lparr>ss_file = ''f'', ss_data = default_settings\<rparr>"
  let ?r = "SettingsStore_SetTtl ''1h'' (Some ''hard'') WriteOk ?s NoFile"
  have "fst ?r = None"
    by (simp add: SettingsStore_SetTtl_def SettingsStore_Save_def SettingsStore_saveLocked_def save_document_def)
  then have r: "?r = (None, result_state ?r, result_file ?r)"
    by (simp add: result_state_def result_file_def prod_eq_iff)
  show ?thesis unfolding Let_def using SetTtl_survives_restart[OF r] by simp
qed

text \<open>The migration of an old settings file: the old TTL in seconds becomes the period of the
  same length when the new table has it and no period otherwise, the absent switches get the
  defaults that a new store has, and the mode becomes \<open>after_read\<close> in every case, also when
  there is no period (the comparison with \<open>forever\<close> never succeeds).\<close>

theorem migrate_old_ttl:
  assumes "sf_ttl_period d = Absent" "sf_my_ttl d = Value t" "sf_my_read_enabled d = Absent"
    "sf_show_notification_content d = Absent" "sf_file_request_threshold d = Absent"
  shows "SettingsStore_GetTtl (NewSettingsStore (c # cs) (Document d)) = (secondsToPeriod t, Some ''after_read'') \<and>
    parsePeriod (secondsToPeriod t) =
      (case map_of [(''10'', 10), (''30'', 30), (''60'', 60), (''300'', 300), (''900'', 900), (''1800'', 1800),
         (''3600'', 3600), (''14400'', 14400), (''86400'', 86400)] t of Some n \<Rightarrow> n | None \<Rightarrow> 0) \<and>
    set_MyReadEnabled (ss_data (NewSettingsStore (c # cs) (Document d))) = set_MyReadEnabled default_settings \<and>
    set_ShowNotificationContent (ss_data (NewSettingsStore (c # cs) (Document d))) =
      set_ShowNotificationContent default_settings \<and>
    set_FileRequestThreshold (ss_data (NewSettingsStore (c # cs) (Document d))) =
      set_FileRequestThreshold default_settings"
proof (intro conjI)
  show "parsePeriod (secondsToPeriod t) =
      (case map_of [(''10'', 10), (''30'', 30), (''60'', 60), (''300'', 300), (''900'', 900), (''1800'', 1800),
         (''3600'', 3600), (''14400'', 14400), (''86400'', 86400)] t of Some n \<Rightarrow> n | None \<Rightarrow> 0)"
    by (simp add: secondsToPeriod_def parsePeriod_def)
qed (use assms secondsToPeriod_not_forever in
    \<open>simp_all add: NewSettingsStore_def migrate_settings_def unmarshal_settings_def Let_def
       SettingsStore_GetTtl_def default_settings_def\<close>)

definition sample_old_settings :: settings_file where
  "sample_old_settings =
     \<lparr>sf_v = 1, sf_my_read_enabled = Absent, sf_my_display_name = '''', sf_ttl_period = Absent,
      sf_my_ttl = Value ''0'', sf_ttl_mode = None, sf_show_notification_content = Absent,
      sf_show_notification_count = False, sf_show_notification_names = False,
      sf_show_notification_progress = False, sf_sphinx_enabled = False, sf_mixing_enabled = False,
      sf_masking_enabled = False, sf_file_request_threshold = Absent\<rparr>"

theorem migrate_old_ttl_witness:
  "SettingsStore_GetTtl (NewSettingsStore ''f'' (Document sample_old_settings)) = (''never'', Some ''after_read'')"
proof -
  have "SettingsStore_GetTtl (NewSettingsStore ''f'' (Document sample_old_settings)) =
      (secondsToPeriod ''0'', Some ''after_read'')"
    by (rule migrate_old_ttl[THEN conjunct1]) (simp_all add: sample_old_settings_def)
  then show ?thesis by (simp add: secondsToPeriod_def)
qed

end
