(* ===== verification/Bytes.thy ===== *)
theory Bytes
  imports Prelude "HOL-Library.Word"
begin

text \<open>
  Byte slices: Go's \<open>[]byte\<close> as a list of 8-bit words, the conversions between strings and
  bytes, slices \<open>b[i:j]\<close>, \<open>copy\<close> into a buffer of fixed size, and the big-endian 32-bit
  length of encoding/binary.
\<close>

type_synonym byte = "8 word"
type_synonym bytes = "byte list"

definition string_bytes :: "string \<Rightarrow> bytes" where
  "string_bytes s = map (\<lambda>c. of_char c) s"

definition bytes_string :: "bytes \<Rightarrow> string" where
  "bytes_string b = map (\<lambda>w. char_of (unat w)) b"

lemma unat_of_char: "unat (of_char c :: byte) = of_char c"
proof -
  have "(of_char c :: byte) = of_nat (of_char c)" by (cases c) (simp add: of_char_def)
  moreover have "(of_char c :: nat) < 2 ^ LENGTH(8)" using nat_of_char_less_256[of c] by simp
  ultimately show ?thesis by (simp add: unat_of_nat)
qed

lemma bytes_string_bytes [simp]: "bytes_string (string_bytes s) = s"
  by (simp add: bytes_string_def string_bytes_def comp_def unat_of_char)

lemma length_string_bytes [simp]: "length (string_bytes s) = length s"
  by (simp add: string_bytes_def)

text \<open>\<open>b[i:j]\<close>, for \<open>i \<le> j \<le> len(b)\<close>\<close>

definition slice :: "nat \<Rightarrow> nat \<Rightarrow> 'a list \<Rightarrow> 'a list" where
  "slice i j b = take (j - i) (drop i b)"

lemma slice_append_left: "j \<le> length a \<Longrightarrow> slice i j (a @ b) = slice i j a"
  by (auto simp: slice_def)

lemma slice_append_right: "length a \<le> i \<Longrightarrow> slice i j (a @ b) = slice (i - length a) (j - length a) b"
  by (simp add: slice_def)

lemma slice_all: "length b = j \<Longrightarrow> slice 0 j b = b"
  by (simp add: slice_def)

text \<open>\<open>buf := make([]byte, n); copy(buf, b)\<close>\<close>

definition padded :: "nat \<Rightarrow> bytes \<Rightarrow> bytes" where
  "padded n b = take n b @ replicate (n - length b) 0"

lemma length_padded [simp]: "length (padded n b) = n"
  by (simp add: padded_def)

lemma take_padded: "length b \<le> n \<Longrightarrow> take (length b) (padded n b) = b"
  by (simp add: padded_def)

text \<open>\<open>binary.BigEndian.PutUint32\<close> and \<open>Uint32\<close>\<close>

definition put_uint32 :: "nat \<Rightarrow> bytes" where
  "put_uint32 n = [of_nat (n div 2 ^ 24), of_nat (n div 2 ^ 16), of_nat (n div 2 ^ 8), of_nat n]"

definition get_uint32 :: "bytes \<Rightarrow> nat" where
  "get_uint32 b = unat (b ! 0) * 2 ^ 24 + unat (b ! 1) * 2 ^ 16 + unat (b ! 2) * 2 ^ 8 + unat (b ! 3)"

lemma length_put_uint32 [simp]: "length (put_uint32 n) = 4"
  by (simp add: put_uint32_def)

lemma get_put_uint32: "n < 2 ^ 32 \<Longrightarrow> get_uint32 (put_uint32 n @ b) = n"
proof -
  assume "n < 2 ^ 32"
  then have a: "n div 2 ^ 24 < 256" by simp
  have u: "unat (of_nat m :: byte) = m mod 256" for m by (simp add: unat_of_nat)
  have d: "n div 65536 = n div 256 div 256" "n div 16777216 = n div 256 div 256 div 256"
    by (simp_all add: div_mult2_eq[symmetric])
  have "n div 256 = n div 65536 * 256 + n div 256 mod 256"
    "n div 65536 = n div 16777216 * 256 + n div 65536 mod 256"
    unfolding d by (rule div_mult_mod_eq[symmetric])+
  moreover have "n = n div 256 * 256 + n mod 256" by (rule div_mult_mod_eq[symmetric])
  ultimately have "n div 16777216 * 16777216 + n div 65536 mod 256 * 65536 +
      n div 256 mod 256 * 256 + n mod 256 = n"
    by linarith
  with a show ?thesis by (simp add: get_uint32_def put_uint32_def u)
qed

end
