(* ===== verification/Sphinx.thy ===== *)
theory Sphinx
  imports Bytes Contacts
begin

text \<open>
  node/sphinx.go: routes of two relays, onion packets of constant size, the step of a relay
  and of the recipient.  The cryptography, base64 and libp2p's peer IDs are not part of
  the repository and are the record \<open>sphinx_crypto\<close>; \<open>crypto_laws\<close> states what the code
  relies on.  Random bytes come from a function of the place of the draw and the number
  of bytes, with \<open>None\<close> when the reader fails.
\<close>

section \<open>Constants, environment and errors\<close>

definition SphinxHops :: nat where "SphinxHops = 3"
definition SphinxNextPeerIDLenSize :: nat where "SphinxNextPeerIDLenSize = 1"
definition SphinxNextPeerIDSize :: nat where "SphinxNextPeerIDSize = 64"
definition SphinxMACSize :: nat where "SphinxMACSize = 32"
definition SphinxFlagsSize :: nat where "SphinxFlagsSize = 1"
definition SphinxRoutingSize :: nat where "SphinxRoutingSize = 152"
definition SphinxHopLayerSize :: nat where
  "SphinxHopLayerSize = SphinxNextPeerIDLenSize + SphinxNextPeerIDSize + SphinxMACSize + SphinxFlagsSize + SphinxRoutingSize"
definition SphinxPayloadLenSize :: nat where "SphinxPayloadLenSize = 4"
definition SphinxPayloadSize :: nat where "SphinxPayloadSize = 65536"
definition SphinxFlagMixing :: byte where "SphinxFlagMixing = 1"
definition SphinxFlagDummy :: byte where "SphinxFlagDummy = 2"

lemmas sphinx_sizes =
  SphinxHops_def SphinxNextPeerIDLenSize_def SphinxNextPeerIDSize_def SphinxMACSize_def SphinxFlagsSize_def
  SphinxRoutingSize_def SphinxHopLayerSize_def SphinxPayloadLenSize_def SphinxPayloadSize_def

type_synonym peer_id = string

record sphinx_crypto =
  cr_seal :: "bytes \<Rightarrow> bytes \<Rightarrow> bytes \<Rightarrow> bytes"
  cr_open :: "bytes \<Rightarrow> bytes \<Rightarrow> bytes \<Rightarrow> bytes option"
  cr_hmac :: "bytes \<Rightarrow> bytes \<Rightarrow> bytes"
  cr_precompute :: "bytes \<Rightarrow> bytes \<Rightarrow> bytes"
  cr_b64_decode :: "string \<Rightarrow> bytes option"
  cr_peer_Decode :: "string \<Rightarrow> peer_id option"
  cr_peer_String :: "peer_id \<Rightarrow> string"

text \<open>
  AES-GCM opens what it sealed and adds a tag of 16 bytes; HMAC-SHA256 has 32 bytes; a
  peer ID is not empty as a string and is decoded from it.
\<close>

definition crypto_laws :: "sphinx_crypto \<Rightarrow> bool" where
  "crypto_laws C \<longleftrightarrow>
     (\<forall>k n p. cr_open C k n (cr_seal C k n p) = Some p) \<and>
     (\<forall>k n p. length (cr_seal C k n p) = length p + 16) \<and>
     (\<forall>k d. length (cr_hmac C k d) = 32) \<and>
     (\<forall>p. cr_peer_Decode C (cr_peer_String C p) = Some p \<and> cr_peer_String C p \<noteq> [])"

datatype draw = InnerRouting | PayloadPadding | FinalNonce | HopRouting nat | HopNonce nat

text \<open>\<open>io.ReadFull\<close> fills the whole buffer or fails.\<close>

definition rand_full :: "(draw \<Rightarrow> nat \<Rightarrow> bytes option) \<Rightarrow> bool" where
  "rand_full rand \<longleftrightarrow> (\<forall>d n b. rand d n = Some b \<longrightarrow> length b = n)"

datatype sphinx_error =
    NotEnoughRelays | KeygenFailed | NoX25519Pub peer_id | InvalidX25519Pub peer_id
  | RouteKeys nat | PayloadTooLarge nat | RandFailed | NextHopTooLong nat | SphinxPanic
  | PacketTooShort nat | InvalidNextHopLen nat | InvalidNextHop string | MacMismatch | DecryptFailed
  | PayloadTooShort nat | InvalidPayloadLength nat

record sphinx_route =
  sr_Relays :: "peer_id list"
  sr_Recipient :: peer_id
  sr_Ephemeral :: bytes
  sr_EphemeralPriv :: bytes
  sr_Keys :: "bytes list"

section \<open>Routes\<close>

text \<open>The contacts that may relay, in the order of the list; \<open>weight\<close> is \<open>getPeerWeight\<close>.\<close>

definition trusted_relay :: "sphinx_crypto \<Rightarrow> (string \<Rightarrow> real) \<Rightarrow> peer_id \<Rightarrow> contact \<Rightarrow> bool" where
  "trusted_relay C weight recipient c \<longleftrightarrow>
     con_Verified c \<and> con_Confirmed c \<and> con_X25519Pub c \<noteq> [] \<and>
     \<not> (recipient \<noteq> [] \<and> con_PeerID c = cr_peer_String C recipient) \<and>
     \<not> weight (con_PeerID c) < 1 / 2"

definition trusted_peers :: "sphinx_crypto \<Rightarrow> (string \<Rightarrow> real) \<Rightarrow> peer_id \<Rightarrow> contact list \<Rightarrow> peer_id list" where
  "trusted_peers C weight recipient cs =
     List.map_filter (\<lambda>c. if trusted_relay C weight recipient c then cr_peer_Decode C (con_PeerID c) else None) cs"

definition Node_selectSphinxRelays ::
  "sphinx_crypto \<Rightarrow> contacts_store option \<Rightarrow> (string \<Rightarrow> real) \<Rightarrow> (nat \<Rightarrow> nat list) \<Rightarrow> peer_id \<Rightarrow> peer_id list" where
  "Node_selectSphinxRelays C contacts weight perm recipient =
     (case contacts of None \<Rightarrow> []
      | Some cs \<Rightarrow>
          let trusted = trusted_peers C weight recipient (ContactsStore_GetAll cs);
              p = perm (length trusted)
          in if length trusted < 2 then [] else [trusted ! (p ! 0), trusted ! (p ! 1)])"

text \<open>DH with the public key a contact announced.\<close>

definition contact_key ::
  "sphinx_crypto \<Rightarrow> contacts_store \<Rightarrow> bytes \<Rightarrow> peer_id \<Rightarrow> sphinx_error + bytes" where
  "contact_key C cs ephPriv p =
     (case ContactsStore_Get cs (cr_peer_String C p) of
        None \<Rightarrow> Inl (NoX25519Pub p)
      | Some c \<Rightarrow>
          if con_X25519Pub c = [] then Inl (NoX25519Pub p)
          else case cr_b64_decode C (con_X25519Pub c) of
            None \<Rightarrow> Inl (InvalidX25519Pub p)
          | Some pub \<Rightarrow> if length pub \<noteq> 32 then Inl (InvalidX25519Pub p)
                         else Inr (cr_precompute C pub ephPriv))"

fun contact_keys ::
  "sphinx_crypto \<Rightarrow> contacts_store \<Rightarrow> bytes \<Rightarrow> peer_id list \<Rightarrow> sphinx_error + bytes list" where
  "contact_keys C cs ephPriv [] = Inr []"
| "contact_keys C cs ephPriv (p # ps) = (case contact_key C cs ephPriv p of
     Inl e \<Rightarrow> Inl e
   | Inr k \<Rightarrow> (case contact_keys C cs ephPriv ps of Inl e \<Rightarrow> Inl e | Inr ks \<Rightarrow> Inr (k # ks)))"

definition Node_buildSphinxRoute ::
  "sphinx_crypto \<Rightarrow> contacts_store option \<Rightarrow> (string \<Rightarrow> real) \<Rightarrow> (nat \<Rightarrow> nat list) \<Rightarrow>
     (bytes \<times> bytes) option \<Rightarrow> peer_id \<Rightarrow> sphinx_error + sphinx_route" where
  "Node_buildSphinxRoute C contacts weight perm keygen recipient =
     (let relays = Node_selectSphinxRelays C contacts weight perm recipient
      in if length relays < 2 then Inl NotEnoughRelays
         else case keygen of None \<Rightarrow> Inl KeygenFailed
         | Some (ephPub, ephPriv) \<Rightarrow>
             (case contact_keys C (the contacts) ephPriv (relays @ [recipient]) of
                Inl e \<Rightarrow> Inl e
              | Inr keys \<Rightarrow> Inr \<lparr>sr_Relays = relays, sr_Recipient = recipient, sr_Ephemeral = ephPub,
                                 sr_EphemeralPriv = ephPriv, sr_Keys = keys\<rparr>))"

section \<open>Building a packet\<close>

definition sphinx_flags :: "bool \<Rightarrow> bool \<Rightarrow> byte" where
  "sphinx_flags mixing dummy =
     (let f = (if mixing then or 0 SphinxFlagMixing else 0)
      in if dummy then or f SphinxFlagDummy else f)"

text \<open>The first 65 bytes of a layer: the length of the next peer's ID and the ID, padded.\<close>

definition next_header :: "string \<Rightarrow> bytes" where
  "next_header nextPeerID =
     of_nat (length nextPeerID) # padded SphinxNextPeerIDSize (string_bytes nextPeerID)"

text \<open>One round of the loop over the relays.\<close>

definition hop_layer ::
  "sphinx_crypto \<Rightarrow> (draw \<Rightarrow> nat \<Rightarrow> bytes option) \<Rightarrow> sphinx_route \<Rightarrow> bool \<Rightarrow> bool \<Rightarrow> nat \<Rightarrow> bytes \<Rightarrow>
     sphinx_error + bytes" where
  "hop_layer C rand route mixing dummy i current =
     (if length (sr_Keys route) \<le> i then Inl SphinxPanic
      else let key = sr_Keys route ! i;
               nextPeer = (if i + 1 < length (sr_Relays route) then sr_Relays route ! (i + 1) else sr_Recipient route);
               nextPeerID = cr_peer_String C nextPeer
           in if SphinxNextPeerIDSize < length nextPeerID then Inl (NextHopTooLong (length nextPeerID))
              else case rand (HopRouting i) (SphinxRoutingSize - 32) of None \<Rightarrow> Inl RandFailed
              | Some fill \<Rightarrow> (case rand (HopNonce i) 12 of None \<Rightarrow> Inl RandFailed
                | Some nonce \<Rightarrow>
                    let routing = sr_Ephemeral route @ fill;
                        ct = cr_seal C key nonce current;
                        flagsBuf = [sphinx_flags mixing dummy];
                        header = next_header nextPeerID;
                        macSum = cr_hmac C key (header @ flagsBuf @ routing @ nonce @ ct)
                    in Inr (header @ macSum @ flagsBuf @ routing @ nonce @ ct)))"

fun wrap_hops ::
  "sphinx_crypto \<Rightarrow> (draw \<Rightarrow> nat \<Rightarrow> bytes option) \<Rightarrow> sphinx_route \<Rightarrow> bool \<Rightarrow> bool \<Rightarrow> nat \<Rightarrow> bytes \<Rightarrow>
     sphinx_error + bytes" where
  "wrap_hops C rand route mixing dummy 0 current = Inr current"
| "wrap_hops C rand route mixing dummy (Suc i) current =
     (case hop_layer C rand route mixing dummy i current of
        Inl e \<Rightarrow> Inl e
      | Inr layer \<Rightarrow> wrap_hops C rand route mixing dummy i layer)"

text \<open>\<open>[length 4][payload][padding]\<close>; the padding is drawn only when there is room for it.\<close>

definition pad_payload :: "(draw \<Rightarrow> nat \<Rightarrow> bytes option) \<Rightarrow> bytes \<Rightarrow> bytes option" where
  "pad_payload rand payload =
     (if length payload + SphinxPayloadLenSize < SphinxPayloadSize
      then map_option (\<lambda>pad. put_uint32 (length payload) @ payload @ pad)
             (rand PayloadPadding (SphinxPayloadSize - (length payload + SphinxPayloadLenSize)))
      else Some (put_uint32 (length payload) @ payload))"

definition Node_buildSphinxPacket ::
  "sphinx_crypto \<Rightarrow> (draw \<Rightarrow> nat \<Rightarrow> bytes option) \<Rightarrow> sphinx_route \<Rightarrow> bytes \<Rightarrow> bool \<Rightarrow> bool \<Rightarrow> sphinx_error + bytes" where
  "Node_buildSphinxPacket C rand route payload mixing dummy =
     (if length (sr_Keys route) \<noteq> SphinxHops then Inl (RouteKeys (length (sr_Keys route)))
      else if SphinxPayloadSize - SphinxPayloadLenSize < length payload then Inl (PayloadTooLarge (length payload))
      else case rand InnerRouting (SphinxRoutingSize - 32) of None \<Rightarrow> Inl RandFailed
      | Some fill \<Rightarrow> (case pad_payload rand payload of None \<Rightarrow> Inl RandFailed
        | Some payloadPadded \<Rightarrow> (case rand FinalNonce 12 of None \<Rightarrow> Inl RandFailed
          | Some nonce \<Rightarrow>
              let ct = cr_seal C (sr_Keys route ! 2) nonce payloadPadded
              in wrap_hops C rand route mixing dummy (length (sr_Relays route))
                   ((sr_Ephemeral route @ fill) @ nonce @ ct))))"

section \<open>Relay and recipient\<close>

definition Node_processSphinxPacket ::
  "sphinx_crypto \<Rightarrow> bytes \<Rightarrow> bytes \<Rightarrow> sphinx_error + peer_id \<times> bool \<times> bool \<times> bytes" where
  "Node_processSphinxPacket C x25519Priv packet =
     (if length packet < SphinxHopLayerSize + 12 then Inl (PacketTooShort (length packet))
      else let nextLen = unat (packet ! 0)
           in if nextLen \<le> 0 \<or> SphinxNextPeerIDSize < nextLen then Inl (InvalidNextHopLen nextLen)
              else let nextStr = bytes_string (slice SphinxNextPeerIDLenSize (SphinxNextPeerIDLenSize + nextLen) packet)
                   in case cr_peer_Decode C nextStr of None \<Rightarrow> Inl (InvalidNextHop nextStr)
                   | Some nextPeer \<Rightarrow>
                       let macOff = SphinxNextPeerIDLenSize + SphinxNextPeerIDSize;
                           macSum = slice macOff (macOff + SphinxMACSize) packet;
                           flagsOff = macOff + SphinxMACSize;
                           flags = packet ! flagsOff;
                           mixing = (and flags SphinxFlagMixing \<noteq> 0);
                           dummy = (and flags SphinxFlagDummy \<noteq> 0);
                           routing = slice (flagsOff + SphinxFlagsSize) SphinxHopLayerSize packet;
                           key = cr_precompute C (slice 0 32 routing) x25519Priv;
                           rest = drop SphinxHopLayerSize packet;
                           nonce = slice 0 12 rest;
                           ct = drop 12 rest
                       in if cr_hmac C key (slice 0 macOff packet @ slice flagsOff (flagsOff + SphinxFlagsSize) packet @
                               routing @ nonce @ ct) \<noteq> macSum
                          then Inl MacMismatch
                          else case cr_open C key nonce ct of None \<Rightarrow> Inl DecryptFailed
                          | Some plain \<Rightarrow> Inr (nextPeer, mixing, dummy, plain))"

definition Node_extractSphinxPayload :: "sphinx_crypto \<Rightarrow> bytes \<Rightarrow> bytes \<Rightarrow> sphinx_error + bytes" where
  "Node_extractSphinxPayload C x25519Priv packet =
     (if length packet < SphinxRoutingSize + 12 then Inl (PacketTooShort (length packet))
      else let routing = slice 0 SphinxRoutingSize packet;
               key = cr_precompute C (slice 0 32 routing) x25519Priv;
               rest = drop SphinxRoutingSize packet;
               nonce = slice 0 12 rest;
               ct = drop 12 rest
           in case cr_open C key nonce ct of None \<Rightarrow> Inl DecryptFailed
              | Some plain \<Rightarrow>
                  if length plain < SphinxPayloadLenSize then Inl (PayloadTooShort (length plain))
                  else let len = get_uint32 (slice 0 4 plain)
                       in if length plain < SphinxPayloadLenSize + len then Inl (InvalidPayloadLength len)
                          else Inr (slice SphinxPayloadLenSize (SphinxPayloadLenSize + len) plain))"

text \<open>
  \<open>sleepExponential\<close>: the delay for the uniform draw \<open>u\<close>; converting a float to a
  duration truncates towards zero.
\<close>

definition trunc_real :: "real \<Rightarrow> int" where
  "trunc_real x = (if 0 \<le> x then \<lfloor>x\<rfloor> else \<lceil>x\<rceil>)"

definition sleepExponential :: "real \<Rightarrow> duration \<Rightarrow> duration \<Rightarrow> duration" where
  "sleepExponential u mean mx =
     (let u1 = (if 1 \<le> u then 999999 / 1000000 else u);
          d0 = trunc_real (real_of_int mean * - ln (1 - u1));
          d1 = (if mx < d0 then mx else d0)
      in if d1 < 0 then 0 else d1)"

section \<open>One layer\<close>

lemma crypto_lawsD:
  assumes "crypto_laws C"
  shows "cr_open C k n (cr_seal C k n p) = Some p" "length (cr_seal C k n p) = length p + 16"
    "length (cr_hmac C k d) = 32" "cr_peer_Decode C (cr_peer_String C q) = Some q" "cr_peer_String C q \<noteq> []"
  using assms by (simp_all add: crypto_laws_def)

lemma rand_fullD: "rand_full rand \<Longrightarrow> rand d n = Some b \<Longrightarrow> length b = n"
  by (simp add: rand_full_def)

lemma length_next_header [simp]: "length (next_header s) = 65"
  by (simp add: next_header_def SphinxNextPeerIDSize_def)

lemma sphinx_flags_bits:
  "and (sphinx_flags mixing dummy) SphinxFlagMixing \<noteq> 0 \<longleftrightarrow> mixing"
  "and (sphinx_flags mixing dummy) SphinxFlagDummy \<noteq> 0 \<longleftrightarrow> dummy"
  by (simp_all add: sphinx_flags_def SphinxFlagMixing_def SphinxFlagDummy_def)

text \<open>The parts of a layer at the offsets that the relay uses.\<close>

lemma layer_parts:
  assumes "L = h @ m @ [fl] @ r @ n @ ct"
    and "length h = 65" "length m = 32" "length r = 152" "length n = 12"
  shows "slice 0 65 L = h" "slice 65 97 L = m" "L ! 97 = fl" "slice 97 98 L = [fl]" "slice 98 250 L = r"
    "slice 0 12 (drop 250 L) = n" "drop 12 (drop 250 L) = ct" "length L = 262 + length ct"
    "L ! 0 = h ! 0" "k \<le> 64 \<Longrightarrow> slice 1 (1 + k) L = slice 1 (1 + k) h"
  using assms by (simp_all add: slice_def nth_append)

lemma next_header_parts:
  assumes "length s \<le> 64" "s \<noteq> []"
  shows "unat (next_header s ! 0) = length s" "bytes_string (slice 1 (1 + length s) (next_header s)) = s"
  using assms take_padded[of "string_bytes s" 64]
  by (simp_all add: next_header_def unat_of_nat slice_def SphinxNextPeerIDSize_def)

lemma hop_layerE:
  assumes "hop_layer C rand route mixing dummy i current = Inr layer"
  obtains fill nonce nextID where
    "i < length (sr_Keys route)"
    "nextID = cr_peer_String C (if i + 1 < length (sr_Relays route) then sr_Relays route ! (i + 1) else sr_Recipient route)"
    "length nextID \<le> 64" "rand (HopRouting i) 120 = Some fill" "rand (HopNonce i) 12 = Some nonce"
    "layer = next_header nextID @
       cr_hmac C (sr_Keys route ! i) (next_header nextID @ [sphinx_flags mixing dummy] @ (sr_Ephemeral route @ fill) @ nonce @
         cr_seal C (sr_Keys route ! i) nonce current) @
       [sphinx_flags mixing dummy] @ (sr_Ephemeral route @ fill) @ nonce @ cr_seal C (sr_Keys route ! i) nonce current"
  using assms
  by (auto simp: hop_layer_def Let_def sphinx_sizes split: if_splits option.splits)

lemma process_hop_layer:
  assumes laws: "crypto_laws C" and full: "rand_full rand" and eph: "length (sr_Ephemeral route) = 32"
    and key: "cr_precompute C (sr_Ephemeral route) priv = sr_Keys route ! i"
    and layer: "hop_layer C rand route mixing dummy i current = Inr layer"
  shows "Node_processSphinxPacket C priv layer =
    Inr (if i + 1 < length (sr_Relays route) then sr_Relays route ! (i + 1) else sr_Recipient route,
         mixing, dummy, current)"
proof -
  note L = crypto_lawsD[OF laws]
  from layer obtain fill nonce nextID where f: "rand (HopRouting i) 120 = Some fill" "rand (HopNonce i) 12 = Some nonce"
    and nid: "nextID = cr_peer_String C (if i + 1 < length (sr_Relays route) then sr_Relays route ! (i + 1) else sr_Recipient route)"
      "length nextID \<le> 64"
    and eq: "layer = next_header nextID @
       cr_hmac C (sr_Keys route ! i) (next_header nextID @ [sphinx_flags mixing dummy] @ (sr_Ephemeral route @ fill) @ nonce @
         cr_seal C (sr_Keys route ! i) nonce current) @
       [sphinx_flags mixing dummy] @ (sr_Ephemeral route @ fill) @ nonce @ cr_seal C (sr_Keys route ! i) nonce current"
    by (rule hop_layerE)
  have len: "length (sr_Ephemeral route @ fill) = 152" "length nonce = 12"
    using rand_fullD[OF full f(1)] rand_fullD[OF full f(2)] eph by simp_all
  have ne: "nextID \<noteq> []" using L(5) nid(1) by simp
  have eph': "slice 0 32 (sr_Ephemeral route @ fill) = sr_Ephemeral route" using eph by (simp add: slice_def)
  note parts = layer_parts[OF eq length_next_header L(3) len] next_header_parts[OF nid(2) ne]
  have nextStr: "bytes_string (slice 1 (1 + length nextID) layer) = nextID"
    using parts(10)[OF nid(2)] parts(12) by simp
  have dec: "cr_peer_Decode C nextID =
      Some (if i + 1 < length (sr_Relays route) then sr_Relays route ! (i + 1) else sr_Recipient route)"
    unfolding nid(1) by (rule L(4))
  have sz: "\<not> length layer < 262" using parts(8) by simp
  have d: "drop 262 layer = cr_seal C (sr_Keys route ! i) nonce current" using parts(7) by simp
  show ?thesis
    unfolding Node_processSphinxPacket_def sphinx_sizes
    using sz nextStr dec ne nid(2)
    by (simp add: Let_def parts(1-9) parts(11) d eph' key L(1) sphinx_flags_bits)
qed

lemma extract_final:
  assumes laws: "crypto_laws C" and full: "rand_full rand" and eph: "length (sr_Ephemeral route) = 32"
    and fill: "rand InnerRouting 120 = Some fill" and nonce: "length nonce = 12"
    and key: "cr_precompute C (sr_Ephemeral route) priv = key"
    and size: "length payload \<le> 65532" and pad: "pad_payload rand payload = Some padded_payload"
  shows "Node_extractSphinxPayload C priv ((sr_Ephemeral route @ fill) @ nonce @ cr_seal C key nonce padded_payload) = Inr payload"
proof -
  note L = crypto_lawsD[OF laws]
  have len: "length (sr_Ephemeral route @ fill) = 152" using rand_fullD[OF full fill] eph by simp
  obtain rest where rest: "padded_payload = put_uint32 (length payload) @ payload @ rest"
    using pad by (auto simp: pad_payload_def split: if_splits)
  have len32: "length payload < 2 ^ 32" using size by simp
  have "slice 0 4 padded_payload = put_uint32 (length payload) @ []" unfolding rest by (simp add: slice_def)
  then have g: "get_uint32 (slice 0 4 padded_payload) = length payload" using get_put_uint32[OF len32, of "[]"] by simp
  have p: "slice 4 (4 + length payload) padded_payload = payload" unfolding rest by (simp add: slice_def)
  have parts: "slice 0 152 ((sr_Ephemeral route @ fill) @ nonce @ c) = sr_Ephemeral route @ fill"
    "drop 152 ((sr_Ephemeral route @ fill) @ nonce @ c) = nonce @ c" "slice 0 12 (nonce @ c) = nonce"
    "drop 12 (nonce @ c) = c" "slice 0 32 (sr_Ephemeral route @ fill) = sr_Ephemeral route" for c
    using len nonce eph by (simp_all add: slice_def)
  have lp: "\<not> length padded_payload < 4 + length payload" "\<not> length padded_payload < 4" unfolding rest by simp_all
  have sz: "\<not> length ((sr_Ephemeral route @ fill) @ nonce @ c) < 164" for c using len nonce by simp
  show ?thesis
    unfolding Node_extractSphinxPayload_def sphinx_sizes Let_def parts key
    using sz g p lp by (simp add: parts key L(1) del: append_assoc)
qed

section \<open>Routes and whole packets\<close>

text \<open>X25519: both ends of an exchange compute the same key.\<close>

definition dh_laws :: "sphinx_crypto \<Rightarrow> (bytes \<Rightarrow> bytes) \<Rightarrow> bool" where
  "dh_laws C pub \<longleftrightarrow> (\<forall>a b. cr_precompute C (pub a) b = cr_precompute C (pub b) a) \<and> (\<forall>a. length (pub a) = 32)"

text \<open>The key a contact announced, if any, is the public key of that peer.\<close>

definition announced_keys ::
  "sphinx_crypto \<Rightarrow> (bytes \<Rightarrow> bytes) \<Rightarrow> (peer_id \<Rightarrow> bytes) \<Rightarrow> contacts_store \<Rightarrow> bool" where
  "announced_keys C pub priv cs \<longleftrightarrow> (\<forall>p c. ContactsStore_Get cs (cr_peer_String C p) = Some c \<longrightarrow>
     con_X25519Pub c \<noteq> [] \<longrightarrow> cr_b64_decode C (con_X25519Pub c) = Some (pub (priv p)))"

lemma contact_key_Inr:
  "announced_keys C pub priv cs \<Longrightarrow> contact_key C cs e p = Inr k \<Longrightarrow> k = cr_precompute C (pub (priv p)) e"
  by (auto simp: contact_key_def announced_keys_def split: option.splits if_splits)

lemma contact_keys_Inr:
  "announced_keys C pub priv cs \<Longrightarrow> contact_keys C cs e ps = Inr ks \<Longrightarrow>
     ks = map (\<lambda>p. cr_precompute C (pub (priv p)) e) ps"
  by (induction ps arbitrary: ks) (auto split: sum.splits dest: contact_key_Inr)

lemma selected_relays:
  "Node_selectSphinxRelays C contacts weight perm r = rs \<Longrightarrow> rs \<noteq> [] \<Longrightarrow>
     \<exists>cs. contacts = Some cs \<and> 2 \<le> length (trusted_peers C weight r (ContactsStore_GetAll cs)) \<and>
       (let trusted = trusted_peers C weight r (ContactsStore_GetAll cs); p = perm (length trusted)
        in rs = [trusted ! (p ! 0), trusted ! (p ! 1)])"
  by (auto simp: Node_selectSphinxRelays_def Let_def split: option.splits if_splits)

lemma built_route:
  assumes ann: "announced_keys C pub priv cs" and dh: "dh_laws C pub"
    and route: "Node_buildSphinxRoute C (Some cs) weight perm (Some (pub e, e)) recipient = Inr route"
  obtains r1 r2 where "sr_Relays route = [r1, r2]" "sr_Recipient route = recipient"
    "sr_Ephemeral route = pub e"
    "sr_Keys route = [cr_precompute C (pub e) (priv r1), cr_precompute C (pub e) (priv r2),
       cr_precompute C (pub e) (priv recipient)]"
proof -
  let ?rs = "Node_selectSphinxRelays C (Some cs) weight perm recipient"
  from route obtain ks where ks: "contact_keys C cs e (?rs @ [recipient]) = Inr ks" "2 \<le> length ?rs"
      "route = \<lparr>sr_Relays = ?rs, sr_Recipient = recipient, sr_Ephemeral = pub e, sr_EphemeralPriv = e, sr_Keys = ks\<rparr>"
    by (auto simp: Node_buildSphinxRoute_def Let_def split: if_splits sum.splits)
  have "?rs \<noteq> []" using ks(2) by auto
  then have "\<exists>r1 r2. ?rs = [r1, r2]"
    using selected_relays[OF refl, of C "Some cs" weight perm recipient] unfolding Let_def by blast
  then obtain r1 r2 where rs: "?rs = [r1, r2]" by blast
  have "cr_precompute C (pub a) e = cr_precompute C (pub e) a" for a using dh by (simp add: dh_laws_def)
  with contact_keys_Inr[OF ann ks(1)] ks(3) rs that[of r1 r2] show thesis by simp
qed

lemma buildSphinxPacketE:
  assumes "Node_buildSphinxPacket C rand route payload mixing dummy = Inr pkt"
  obtains fill padded_payload nonce where "length (sr_Keys route) = 3" "length payload \<le> 65532"
    "rand InnerRouting 120 = Some fill" "pad_payload rand payload = Some padded_payload" "rand FinalNonce 12 = Some nonce"
    "wrap_hops C rand route mixing dummy (length (sr_Relays route))
       ((sr_Ephemeral route @ fill) @ nonce @ cr_seal C (sr_Keys route ! 2) nonce padded_payload) = Inr pkt"
  using assms
  by (auto simp: Node_buildSphinxPacket_def Let_def sphinx_sizes split: if_splits option.splits)

lemma wrap_two:
  assumes "wrap_hops C rand route mixing dummy 2 current = Inr pkt"
  obtains layer where "hop_layer C rand route mixing dummy 1 current = Inr layer"
    "hop_layer C rand route mixing dummy 0 layer = Inr pkt"
  using assms by (auto simp: numeral_2_eq_2 split: sum.splits)

lemma length_hop_layer:
  assumes laws: "crypto_laws C" and full: "rand_full rand" and eph: "length (sr_Ephemeral route) = 32"
    and layer: "hop_layer C rand route mixing dummy i current = Inr layer"
  shows "length layer = length current + 278"
  using layer by (rule hop_layerE)
    (use rand_fullD[OF full] eph in \<open>auto simp: crypto_lawsD[OF laws] dest!: rand_fullD[OF full]\<close>)

lemma length_pad_payload:
  "rand_full rand \<Longrightarrow> length payload \<le> 65532 \<Longrightarrow> pad_payload rand payload = Some p \<Longrightarrow> length p = 65536"
  by (auto simp: pad_payload_def sphinx_sizes split: if_splits dest: rand_fullD)

lemma packet_built_iff:
  assumes rand: "\<And>d n. \<exists>b. rand d n = Some b \<and> length b = n"
    and keys: "length (sr_Keys route) = 3" and relays: "sr_Relays route = [r1, r2]"
  shows "(\<exists>pkt. Node_buildSphinxPacket C rand route payload mixing dummy = Inr pkt) \<longleftrightarrow>
      length payload \<le> 65532 \<and> length (cr_peer_String C r2) \<le> 64 \<and>
      length (cr_peer_String C (sr_Recipient route)) \<le> 64"
proof -
  obtain rnd where rnd: "\<And>d n. rand d n = Some (rnd d n)" using rand by metis
  let ?names = "length (cr_peer_String C r2) \<le> 64 \<and> length (cr_peer_String C (sr_Recipient route)) \<le> 64"
  have hop: "(\<exists>l. hop_layer C rand route mixing dummy i cur = Inr l) \<longleftrightarrow>
      length (cr_peer_String C (if i = 0 then r2 else sr_Recipient route)) \<le> 64" if "i < 2" for i cur
    using that keys relays by (cases i) (auto simp: hop_layer_def Let_def rnd sphinx_sizes)
  have two: "length (sr_Relays route) = 2" using relays by simp
  have wrap: "(\<exists>l. wrap_hops C rand route mixing dummy 2 cur = Inr l) \<longleftrightarrow> ?names" for cur
  proof -
    have "(\<exists>l. wrap_hops C rand route mixing dummy 2 cur = Inr l) \<longleftrightarrow>
        (\<exists>x. hop_layer C rand route mixing dummy 1 cur = Inr x \<and> (\<exists>l. hop_layer C rand route mixing dummy 0 x = Inr l))"
      by (auto simp: numeral_2_eq_2 split: sum.splits)
    then show ?thesis using hop[of 1 cur] hop[of 0] by auto
  qed
  have "\<exists>p. pad_payload rand payload = Some p" by (simp add: pad_payload_def rnd)
  then obtain p where p: "pad_payload rand payload = Some p" by blast
  show ?thesis
  proof (cases "65532 < length payload")
    case True
    with keys show ?thesis by (simp add: Node_buildSphinxPacket_def sphinx_sizes)
  next
    case False
    with keys p have "Node_buildSphinxPacket C rand route payload mixing dummy =
        wrap_hops C rand route mixing dummy (length (sr_Relays route))
          ((sr_Ephemeral route @ rnd InnerRouting 120) @ rnd FinalNonce 12 @
            cr_seal C (sr_Keys route ! 2) (rnd FinalNonce 12) p)"
      by (simp add: Node_buildSphinxPacket_def Let_def rnd sphinx_sizes)
    with False show ?thesis unfolding two wrap by (simp add: wrap)
  qed
qed

lemma length_packet:
  assumes laws: "crypto_laws C" and full: "rand_full rand" and eph: "length (sr_Ephemeral route) = 32"
    and two: "length (sr_Relays route) = 2"
    and pkt: "Node_buildSphinxPacket C rand route payload mixing dummy = Inr pkt"
  shows "length pkt = 66272"
proof -
  from pkt obtain fill pp nonce where b: "length payload \<le> 65532" "rand InnerRouting 120 = Some fill"
      "pad_payload rand payload = Some pp" "rand FinalNonce 12 = Some nonce"
      "wrap_hops C rand route mixing dummy (length (sr_Relays route))
         ((sr_Ephemeral route @ fill) @ nonce @ cr_seal C (sr_Keys route ! 2) nonce pp) = Inr pkt"
    by (rule buildSphinxPacketE)
  from b(5)[unfolded two] show ?thesis
    by (rule wrap_two) (simp add: length_hop_layer[OF laws full eph] crypto_lawsD[OF laws]
        length_pad_payload[OF full b(1,3)] rand_fullD[OF full b(2)] rand_fullD[OF full b(4)] eph)
qed

text \<open>What each of the three peers gets out of a packet, and the sizes on the way.\<close>

lemma packet_peels:
  assumes laws: "crypto_laws C" and dh: "dh_laws C pub" and full: "rand_full rand"
    and ann: "announced_keys C pub priv cs"
    and route: "Node_buildSphinxRoute C (Some cs) weight perm (Some (pub e, e)) recipient = Inr route"
    and pkt: "Node_buildSphinxPacket C rand route payload mixing dummy = Inr pkt"
  obtains r1 r2 p2 p3 where "sr_Relays route = [r1, r2]"
    "Node_processSphinxPacket C (priv r1) pkt = Inr (r2, mixing, dummy, p2)"
    "Node_processSphinxPacket C (priv r2) p2 = Inr (recipient, mixing, dummy, p3)"
    "Node_extractSphinxPayload C (priv recipient) p3 = Inr payload"
    "length pkt = 66272" "length p2 = 65994" "length p3 = 65716" "take 32 p3 = pub e"
proof -
  obtain r1 r2 where r: "sr_Relays route = [r1, r2]" "sr_Recipient route = recipient" "sr_Ephemeral route = pub e"
    "sr_Keys route = [cr_precompute C (pub e) (priv r1), cr_precompute C (pub e) (priv r2),
       cr_precompute C (pub e) (priv recipient)]"
    using built_route[OF ann dh route] .
  have eph: "length (sr_Ephemeral route) = 32" using dh r(3) by (simp add: dh_laws_def)
  from pkt obtain fill pp nonce where b: "length payload \<le> 65532" "rand InnerRouting 120 = Some fill"
      "pad_payload rand payload = Some pp" "rand FinalNonce 12 = Some nonce"
      "wrap_hops C rand route mixing dummy (length (sr_Relays route))
         ((sr_Ephemeral route @ fill) @ nonce @ cr_seal C (sr_Keys route ! 2) nonce pp) = Inr pkt"
    by (rule buildSphinxPacketE)
  let ?inner = "(sr_Ephemeral route @ fill) @ nonce @ cr_seal C (sr_Keys route ! 2) nonce pp"
  have two: "length (sr_Relays route) = 2" using r(1) by simp
  have "wrap_hops C rand route mixing dummy 2 ?inner = Inr pkt" using b(5) unfolding two .
  then obtain layer where l: "hop_layer C rand route mixing dummy 1 ?inner = Inr layer"
      "hop_layer C rand route mixing dummy 0 layer = Inr pkt" by (rule wrap_two)
  have "Node_processSphinxPacket C (priv r1) pkt = Inr (r2, mixing, dummy, layer)"
    using process_hop_layer[OF laws full eph _ l(2), of "priv r1"] r by simp
  moreover have "Node_processSphinxPacket C (priv r2) layer = Inr (recipient, mixing, dummy, ?inner)"
    using process_hop_layer[OF laws full eph _ l(1), of "priv r2"] r by simp
  moreover have "Node_extractSphinxPayload C (priv recipient) ?inner = Inr payload"
    using rand_fullD[OF full b(4)] r by (intro extract_final[OF laws full eph b(2) _ _ b(1,3)]) simp_all
  moreover have "length ?inner = 65716" "take 32 ?inner = pub e"
    using rand_fullD[OF full b(2)] rand_fullD[OF full b(4)] length_pad_payload[OF full b(1,3)] eph r(3)
    by (simp_all add: crypto_lawsD(2)[OF laws])
  moreover have "length layer = length ?inner + 278" "length pkt = length layer + 278"
    using length_hop_layer[OF laws full eph] l by blast+
  ultimately show thesis using that[of r1 r2 layer ?inner] r(1) by simp
qed

section \<open>Properties\<close>

text \<open>C6.  Onion round trip: when a route and a packet are built for a payload, the first relay peels its layer
  with its own key and reads off the second relay as the next hop, the second relay reads off the recipient,
  and the recipient, with its own key, gets exactly the payload back; both relays read off the mixing and
  dummy flags that the sender set.  This is correctness, not secrecy: nothing is said of what else a packet
  shows.  It rests on the documented behaviour of AES-GCM, HMAC, X25519 and peer IDs, and on the contacts
  holding the peers' real keys.\<close>

theorem sphinx_round_trip:
  assumes laws: "crypto_laws C" and dh: "dh_laws C pub" and full: "rand_full rand"
    and ann: "announced_keys C pub priv cs"
    and route: "Node_buildSphinxRoute C (Some cs) weight perm (Some (pub e, e)) recipient = Inr route"
    and pkt: "Node_buildSphinxPacket C rand route payload mixing dummy = Inr pkt"
  shows "\<exists>r1 r2 p2 p3. sr_Relays route = [r1, r2] \<and>
    Node_processSphinxPacket C (priv r1) pkt = Inr (r2, mixing, dummy, p2) \<and>
    Node_processSphinxPacket C (priv r2) p2 = Inr (recipient, mixing, dummy, p3) \<and>
    Node_extractSphinxPayload C (priv recipient) p3 = Inr payload"
  using packet_peels[OF assms] by metis

text \<open>Packets do not betray the size of what they carry: with two relays every packet has the
  same length, and with working randomness a packet is built for exactly the payloads of at
  most 65532 bytes, given peer IDs that fit their field.\<close>

theorem sphinx_packet_size:
  assumes laws: "crypto_laws C" and rand: "\<And>d n. \<exists>b. rand d n = Some b \<and> length b = n"
    and eph: "length (sr_Ephemeral route) = 32" and keys: "length (sr_Keys route) = 3"
    and relays: "sr_Relays route = [r1, r2]"
  shows "((\<exists>pkt. Node_buildSphinxPacket C rand route payload mixing dummy = Inr pkt) \<longleftrightarrow>
      length payload \<le> 65532 \<and> length (cr_peer_String C r2) \<le> 64 \<and>
      length (cr_peer_String C (sr_Recipient route)) \<le> 64) \<and>
    (\<forall>pkt. Node_buildSphinxPacket C rand route payload mixing dummy = Inr pkt \<longrightarrow> length pkt = 66272)"
proof -
  have "rand_full rand" using rand unfolding rand_full_def by (metis option.inject)
  then show ?thesis
    using packet_built_iff[OF rand keys relays] length_packet[OF laws _ eph] relays by simp
qed

section \<open>Concrete environment for the witnesses\<close>

definition demo_crypto :: sphinx_crypto where
  "demo_crypto =
     \<lparr>cr_seal = (\<lambda>k n p. p @ replicate 16 0),
      cr_open = (\<lambda>k n c. if length c < 16 then None else Some (take (length c - 16) c)),
      cr_hmac = (\<lambda>k d. replicate 32 0),
      cr_precompute = (\<lambda>pub priv. map2 xor pub (padded 32 priv)),
      cr_b64_decode = (\<lambda>s. Some (padded 32 (string_bytes s))),
      cr_peer_Decode = (\<lambda>s. case s of [] \<Rightarrow> None | c # cs \<Rightarrow> Some cs),
      cr_peer_String = (\<lambda>p. CHR ''p'' # p)\<rparr>"

definition demo_contacts :: contacts_store where
  "demo_contacts = \<lparr>cs_path = ''f'', cs_contacts =
     [(sample_contact ''pa'' True)\<lparr>con_Verified := True\<rparr>, (sample_contact ''pb'' True)\<lparr>con_Verified := True\<rparr>,
      (sample_contact ''pr'' True)\<lparr>con_Verified := True\<rparr>]\<rparr>"

definition demo_rand :: "draw \<Rightarrow> nat \<Rightarrow> bytes option" where
  "demo_rand d n = Some (replicate n 0)"

lemma map2_xor_commute: "map2 xor a b = map2 xor b (a :: byte list)"
  by (induction a b rule: list_induct2') (simp_all add: xor.commute)

lemma demo_laws: "crypto_laws demo_crypto" "dh_laws demo_crypto (padded 32)" "rand_full demo_rand"
  by (auto simp: crypto_laws_def dh_laws_def rand_full_def demo_crypto_def demo_rand_def intro: map2_xor_commute)

lemma demo_announced: "announced_keys demo_crypto (padded 32) (\<lambda>_. string_bytes ''k'') demo_contacts"
  by (auto simp: announced_keys_def demo_contacts_def ContactsStore_Get_def demo_crypto_def sample_contact_def
      split: if_splits)

lemma demo_selected:
  "Node_selectSphinxRelays demo_crypto (Some demo_contacts) (\<lambda>_. 1) (\<lambda>n. [0..<n]) ''r'' = [''a'', ''b'']"
  by (simp add: Node_selectSphinxRelays_def trusted_peers_def trusted_relay_def Let_def ContactsStore_GetAll_def
      demo_contacts_def sample_contact_def demo_crypto_def List.map_filter_simps)

lemma demo_keys: "p \<in> {''a'', ''b'', ''r''} \<Longrightarrow> \<exists>k. contact_key demo_crypto demo_contacts e p = Inr k"
  by (auto simp: contact_key_def demo_crypto_def demo_contacts_def sample_contact_def ContactsStore_Get_def)

lemma demo_route:
  "\<exists>route. Node_buildSphinxRoute demo_crypto (Some demo_contacts) (\<lambda>_. 1) (\<lambda>n. [0..<n]) (Some (padded 32 [], [])) ''r'' = Inr route \<and>
     sr_Relays route = [''a'', ''b'']"
proof -
  obtain ka kb kr where "contact_key demo_crypto demo_contacts [] ''a'' = Inr ka"
    "contact_key demo_crypto demo_contacts [] ''b'' = Inr kb" "contact_key demo_crypto demo_contacts [] ''r'' = Inr kr"
    using demo_keys by (metis insertI1 insertI2)
  then show ?thesis by (simp add: Node_buildSphinxRoute_def demo_selected)
qed

theorem sphinx_round_trip_witness:
  "\<exists>route pkt r1 r2 p2 p3. sr_Relays route = [r1, r2] \<and>
    Node_buildSphinxPacket demo_crypto demo_rand route [1, 2, 3] True False = Inr pkt \<and>
    Node_processSphinxPacket demo_crypto (string_bytes ''k'') pkt = Inr (r2, True, False, p2) \<and>
    Node_processSphinxPacket demo_crypto (string_bytes ''k'') p2 = Inr (''r'', True, False, p3) \<and>
    Node_extractSphinxPayload demo_crypto (string_bytes ''k'') p3 = Inr [1, 2, 3]"
proof -
  from demo_route obtain route where route: "Node_buildSphinxRoute demo_crypto (Some demo_contacts) (\<lambda>_. 1)
      (\<lambda>n. [0..<n]) (Some (padded 32 [], [])) ''r'' = Inr route" and rel: "sr_Relays route = [''a'', ''b'']" by blast
  have r: "sr_Recipient route = ''r''" "length (sr_Keys route) = 3"
    by (rule built_route[OF demo_announced demo_laws(2) route], simp)+
  have "\<exists>pkt. Node_buildSphinxPacket demo_crypto demo_rand route [1, 2, 3] True False = Inr pkt"
    using packet_built_iff[OF _ r(2) rel, of demo_rand demo_crypto "[1, 2, 3]"] r(1)
    by (simp add: demo_rand_def demo_crypto_def)
  then obtain pkt where pkt: "Node_buildSphinxPacket demo_crypto demo_rand route [1, 2, 3] True False = Inr pkt" by blast
  from sphinx_round_trip[OF demo_laws demo_announced route pkt] pkt show ?thesis by blast
qed

theorem sphinx_packet_size_witness:
  "\<exists>route. sr_Relays route = [''a'', ''b''] \<and>
    (\<exists>pkt. Node_buildSphinxPacket demo_crypto demo_rand route [1, 2, 3] True False = Inr pkt)"
proof -
  let ?route = "\<lparr>sr_Relays = [''a'', ''b''], sr_Recipient = ''r'', sr_Ephemeral = padded 32 [],
      sr_EphemeralPriv = [], sr_Keys = [[], [], []]\<rparr>"
  have "\<exists>pkt. Node_buildSphinxPacket demo_crypto demo_rand ?route [1, 2, 3] True False = Inr pkt"
    using sphinx_packet_size[OF demo_laws(1), of demo_rand ?route "''a''" "''b''" "[1, 2, 3]" True False]
    by (simp add: demo_rand_def demo_crypto_def)
  then show ?thesis by force
qed

end
