(* ===== verification/Stego.thy ===== *)
theory Stego
  imports Bytes
begin

text \<open>
  node/stego.go: data hidden in the lowest bits of the samples of a WAV file.  The order of
  the samples is \<open>rand.Shuffle\<close> with a seed made of the key; it is the argument \<open>shuffle\<close>,
  from the key and the number of samples to a list of indices, and \<open>shuffles\<close> says that it
  is a permutation.  \<open>embedLSB\<close> returns an error or the new file; \<open>extractLSB\<close> can also
  index past the end of a slice, which is \<open>None\<close>.
\<close>

datatype stego_error = WavTooSmall | WavTooSmallForData | InvalidStegoLength

definition wavHeaderSize :: nat where "wavHeaderSize = 44"

definition shuffles :: "(bytes \<Rightarrow> nat \<Rightarrow> nat list) \<Rightarrow> bool" where
  "shuffles shuffle \<longleftrightarrow> (\<forall>key n. distinct (shuffle key n) \<and> set (shuffle key n) = {..<n})"

section \<open>Operations\<close>

definition set_lsb :: "bool \<Rightarrow> byte \<Rightarrow> byte" where
  "set_lsb b w = (if b then or w 1 else and w (not 1))"

text \<open>\<open>(data[bitIdx/8] >> (bitIdx%8)) & 1\<close>\<close>

definition data_bit :: "bytes \<Rightarrow> nat \<Rightarrow> bool" where
  "data_bit data i = bit (data ! (i div 8)) (i mod 8)"

definition embed_bits :: "(nat \<Rightarrow> bool) \<Rightarrow> nat list \<Rightarrow> nat \<Rightarrow> bytes \<Rightarrow> bytes" where
  "embed_bits f indices n audio =
     fold (\<lambda>i aud. let s = indices ! (i mod length indices) in aud[s := set_lsb (f i) (aud ! s)]) [0..<n] audio"

definition embedLSB ::
  "(bytes \<Rightarrow> nat \<Rightarrow> nat list) \<Rightarrow> bytes \<Rightarrow> bytes \<Rightarrow> bytes \<Rightarrow> stego_error + bytes" where
  "embedLSB shuffle wav data key =
     (if length wav < wavHeaderSize then Inl WavTooSmall
      else let audio = drop wavHeaderSize wav;
               dataWithSize = put_uint32 (length data) @ data;
               bitCount = length dataWithSize * 8
           in if length audio < bitCount then Inl WavTooSmallForData
              else Inr (take wavHeaderSize wav @
                        embed_bits (data_bit dataWithSize) (shuffle key (length audio)) bitCount audio))"

definition collect_bits :: "(nat \<Rightarrow> bool) \<Rightarrow> nat \<Rightarrow> bytes \<Rightarrow> bytes" where
  "collect_bits f n acc =
     fold (\<lambda>i acc. if f i then acc[i div 8 := or (acc ! (i div 8)) (push_bit (i mod 8) 1)] else acc) [0..<n] acc"

text \<open>The value of the size field, once the 32 samples that carry it exist.\<close>

definition stego_size :: "nat list \<Rightarrow> bytes \<Rightarrow> nat" where
  "stego_size indices audio =
     get_uint32 (collect_bits (\<lambda>i. bit (audio ! (indices ! i)) 0) 32 (replicate 4 0))"

definition extractLSB ::
  "(bytes \<Rightarrow> nat \<Rightarrow> nat list) \<Rightarrow> bytes \<Rightarrow> bytes \<Rightarrow> (stego_error + bytes) option" where
  "extractLSB shuffle wav key =
     (if length wav < wavHeaderSize then Some (Inl WavTooSmall)
      else let audio = drop wavHeaderSize wav;
               indices = shuffle key (length audio)
           in if length indices < 32 then None
              else let dataLen = stego_size indices audio
                   in if (length audio div 8) mod 2 ^ 32 < dataLen then Some (Inl InvalidStegoLength)
                      else if length indices < 32 + dataLen * 8 then None
                      else Some (Inr (collect_bits (\<lambda>i. bit (audio ! (indices ! (32 + i))) 0) (dataLen * 8)
                             (replicate dataLen 0))))"

definition isWAV :: "bytes \<Rightarrow> bool" where
  "isWAV data \<longleftrightarrow> \<not> length data < 12 \<and> slice 0 4 data = string_bytes ''RIFF'' \<and> slice 8 12 data = string_bytes ''WAVE''"

section \<open>Bits\<close>

lemma shufflesD:
  assumes "shuffles sh"
  shows "distinct (sh key n)" "set (sh key n) = {..<n}" "length (sh key n) = n"
proof -
  show *: "distinct (sh key n)" "set (sh key n) = {..<n}" using assms by (simp_all add: shuffles_def)
  show "length (sh key n) = n" using distinct_card[OF *(1)] *(2) by simp
qed

lemma bit_set_lsb [simp]: "bit (set_lsb b w) 0 = b"
  by (simp add: set_lsb_def bit_or_iff bit_and_iff bit_not_iff)

lemma bit_set_lsb_other: "0 < k \<Longrightarrow> bit (set_lsb b w) k = bit w k"
  by (auto simp: set_lsb_def bit_or_iff bit_and_iff bit_not_iff bit_1_iff dest: bit_imp_le_length)

lemma length_collect_bits [simp]: "length (collect_bits f n acc) = length acc"
  by (induction n) (simp_all add: collect_bits_def)

lemma collect_bits_Suc:
  "collect_bits f (Suc n) acc = (if f n then (collect_bits f n acc)[n div 8 :=
     or (collect_bits f n acc ! (n div 8)) (push_bit (n mod 8) 1)] else collect_bits f n acc)"
  by (simp add: collect_bits_def)

lemma bit_collect_bits:
  "n \<le> 8 * len \<Longrightarrow> i < 8 * len \<Longrightarrow>
     bit (collect_bits f n (replicate len 0) ! (i div 8)) (i mod 8) \<longleftrightarrow> i < n \<and> f i"
proof (induction n)
  case 0
  then show ?case by (simp add: collect_bits_def less_mult_imp_div_less mult.commute)
next
  case (Suc n)
  let ?c = "collect_bits f n (replicate len 0)"
  have len: "n div 8 < length ?c" "i div 8 < length ?c"
    using Suc.prems by (simp_all add: less_mult_imp_div_less mult.commute)
  have old: "bit (?c ! (i div 8)) (i mod 8) \<longleftrightarrow> i < n \<and> f i" using Suc by simp
  have pow: "bit (2 ^ (n mod 8) :: byte) (i mod 8) \<longleftrightarrow> i mod 8 = n mod 8"
    by (auto simp: bit_exp_iff)
  show ?case
  proof (cases "i = n")
    case True
    with old len show ?thesis by (simp add: collect_bits_Suc bit_or_iff pow[unfolded True])
  next
    case False
    then have ne: "i div 8 \<noteq> n div 8 \<or> i mod 8 \<noteq> n mod 8" by (metis div_mult_mod_eq)
    have "bit (collect_bits f (Suc n) (replicate len 0) ! (i div 8)) (i mod 8) \<longleftrightarrow> bit (?c ! (i div 8)) (i mod 8)"
    proof (cases "i div 8 = n div 8")
      case True
      with ne len show ?thesis by (simp add: collect_bits_Suc bit_or_iff pow)
    qed (simp add: collect_bits_Suc)
    with False old show ?thesis by auto
  qed
qed

lemma collect_bits_eq:
  assumes "\<And>i. i < 8 * length data \<Longrightarrow> f i = data_bit data i" "n = 8 * length data"
  shows "collect_bits f n (replicate (length data) 0) = data"
proof (rule nth_equalityI)
  fix j assume "j < length (collect_bits f n (replicate (length data) 0))"
  then have j: "j < length data" by simp
  show "collect_bits f n (replicate (length data) 0) ! j = data ! j"
  proof (rule bit_word_eqI)
    fix k assume "k < LENGTH(8)"
    then have k: "k < 8" by simp
    let ?i = "8 * j + k"
    have i: "?i < 8 * length data" "?i div 8 = j" "?i mod 8 = k" using j k by simp_all
    show "bit (collect_bits f n (replicate (length data) 0) ! j) k = bit (data ! j) k"
      using bit_collect_bits[of n "length data" ?i f] i assms by (simp add: data_bit_def)
  qed
qed simp

lemma embed_bits_Suc:
  "embed_bits f ix (Suc n) aud = (let s = ix ! (n mod length ix); a = embed_bits f ix n aud
     in a[s := set_lsb (f n) (a ! s)])"
  by (simp add: embed_bits_def Let_def)

lemma length_embed_bits [simp]: "length (embed_bits f ix n aud) = length aud"
  by (induction n) (simp_all add: embed_bits_Suc Let_def embed_bits_def[of _ _ 0])

lemma embed_bits_bit:
  assumes "distinct ix" "set ix = {..<length aud}" "n \<le> length ix"
  shows "i < n \<Longrightarrow> bit (embed_bits f ix n aud ! (ix ! i)) 0 = f i"
  using assms(3)
proof (induction n)
  case (Suc n)
  have lt: "ix ! i < length aud" "ix ! n < length aud"
    using assms(1,2) Suc.prems by (metis Suc_le_lessD lessThan_iff nth_mem order_less_le_trans less_Suc_eq_le)+
  have "ix ! i = ix ! n \<longleftrightarrow> i = n" using assms(1) Suc.prems by (simp add: nth_eq_iff_index_eq)
  then show ?case using Suc lt by (auto simp: embed_bits_Suc Let_def nth_list_update less_Suc_eq)
qed simp

lemma embed_bits_high:
  "0 < k \<Longrightarrow> p < length aud \<Longrightarrow> bit (embed_bits f ix n aud ! p) k = bit (aud ! p) k"
proof (induction n)
  case (Suc n)
  let ?s = "ix ! (n mod length ix)"
  from Suc show ?case
    by (cases "p = ?s") (simp_all add: embed_bits_Suc Let_def bit_set_lsb_other)
qed (simp add: embed_bits_def)

section \<open>Properties\<close>

lemma embedLSB_Inr:
  assumes "embedLSB sh wav data key = Inr res"
  shows "44 \<le> length wav" "8 * (4 + length data) \<le> length wav - 44"
    "res = take 44 wav @ embed_bits (data_bit (put_uint32 (length data) @ data)) (sh key (length wav - 44))
       (8 * (4 + length data)) (drop 44 wav)"
  using assms by (auto simp: embedLSB_def Let_def wavHeaderSize_def mult.commute split: if_splits)

text \<open>C20.  What \<open>embedLSB\<close> hides under a key, \<open>extractLSB\<close> finds under the same key, for every
  WAV file below 32 GiB in which it fits.\<close>

theorem stego_round_trip:
  assumes sh: "shuffles shuffle" and emb: "embedLSB shuffle wav data key = Inr res"
    and size: "length wav < 2 ^ 35"
  shows "extractLSB shuffle res key = Some (Inr data)"
proof -
  note e = embedLSB_Inr[OF emb]
  define n ix D where "n = length wav - 44" and "ix = shuffle key n" and "D = put_uint32 (length data) @ data"
  define aud where "aud = embed_bits (data_bit D) ix (8 * (4 + length data)) (drop 44 wav)"
  have ix: "distinct ix" "set ix = {..<length (drop 44 wav)}" "length ix = n"
    using shufflesD[OF sh, of key n] by (simp_all add: ix_def n_def)
  have len: "length D = 4 + length data" "length aud = n" by (simp_all add: D_def aud_def n_def)
  have fits: "32 + 8 * length data \<le> n" using e(2) by (simp add: n_def)
  have bits: "bit (aud ! (ix ! i)) 0 = data_bit D i" if "i < 8 * (4 + length data)" for i
    unfolding aud_def using ix that fits by (intro embed_bits_bit) auto
  have res: "length res = length wav" "drop 44 res = aud"
    using e(1) by (simp_all add: e(3) aud_def ix_def n_def D_def)
  have d32: "length data < 2 ^ 32" using fits size by (simp add: n_def)
  have "collect_bits (\<lambda>i. bit (aud ! (ix ! i)) 0) 32 (replicate 4 0) = put_uint32 (length data)"
  proof -
    let ?P = "put_uint32 (length data)"
    have "collect_bits (\<lambda>i. bit (aud ! (ix ! i)) 0) 32 (replicate (length ?P) 0) = ?P"
    proof (rule collect_bits_eq)
      fix i assume i: "i < 8 * length ?P"
      then have "i < 8 * (4 + length data)" "i div 8 < 4" by simp_all
      with bits[of i] show "bit (aud ! (ix ! i)) 0 = data_bit ?P i"
        by (simp add: data_bit_def D_def nth_append)
    qed simp
    then show ?thesis by (simp only: length_put_uint32)
  qed
  then have ss: "stego_size ix aud = length data"
    using get_put_uint32[OF d32, of "[]"] by (simp add: stego_size_def)
  have "collect_bits (\<lambda>i. bit (aud ! (ix ! (32 + i))) 0) (8 * length data) (replicate (length data) 0) = data"
  proof (rule collect_bits_eq)
    fix i assume i: "i < 8 * length data"
    have "(32 + i) div 8 = 4 + i div 8" "(32 + i) mod 8 = i mod 8" by presburger+
    then show "bit (aud ! (ix ! (32 + i))) 0 = data_bit data i"
      using bits[of "32 + i"] i by (simp add: data_bit_def D_def nth_append)
  qed simp
  moreover have "\<not> n div 8 mod 2 ^ 32 < length data"
  proof -
    have "n div 8 < 2 ^ 32" using size by (simp add: n_def)
    then show ?thesis using fits by simp
  qed
  ultimately show ?thesis
    unfolding extractLSB_def wavHeaderSize_def
    using e(1) fits ix(3) by (simp add: Let_def res len ss ix_def[symmetric] mult.commute)
qed

text \<open>The carrier stays the same file to a player: \<open>embedLSB\<close> keeps the length and the 44 bytes
  of the header and changes no bit of a sample but the lowest.\<close>

theorem stego_carrier_kept:
  assumes emb: "embedLSB shuffle wav data key = Inr res"
  shows "length res = length wav \<and> take 44 res = take 44 wav \<and>
    (\<forall>p < length wav. \<forall>k. 0 < k \<longrightarrow> bit (res ! p) k = bit (wav ! p) k)"
proof (intro conjI allI impI)
  note e = embedLSB_Inr[OF emb]
  show "length res = length wav" "take 44 res = take 44 wav" using e(1) by (simp_all add: e(3))
  fix p k assume p: "p < length wav" and k: "0 < (k :: nat)"
  show "bit (res ! p) k = bit (wav ! p) k"
    using embed_bits_high[OF k, of "p - 44" "drop 44 wav"] p e(1) by (simp add: e(3) nth_append)
qed

text \<open>\<open>extractLSB\<close> fails with a run-time panic, not an error, exactly on the WAV files of at least
  44 bytes that have fewer than 32 samples or whose size field passes the check against an
  eighth of the samples but leaves no room for itself.\<close>

theorem stego_extract_panics:
  assumes sh: "shuffles shuffle"
  shows "extractLSB shuffle wav key = None \<longleftrightarrow>
    44 \<le> length wav \<and> (let n = length wav - 44; d = stego_size (shuffle key n) (drop 44 wav)
      in n < 32 \<or> d \<le> n div 8 mod 2 ^ 32 \<and> n < 32 + 8 * d)"
  by (auto simp: extractLSB_def Let_def wavHeaderSize_def shufflesD[OF sh] mult.commute)

lemma identity_shuffles: "shuffles (\<lambda>key n. [0..<n])"
  by (auto simp: shuffles_def)

theorem stego_round_trip_witness:
  "\<exists>res. embedLSB (\<lambda>key n. [0..<n]) (replicate 100 7) [5, 6] [1] = Inr res \<and>
     extractLSB (\<lambda>key n. [0..<n]) res [1] = Some (Inr [5, 6])"
proof -
  have "\<exists>res. embedLSB (\<lambda>key n. [0..<n]) (replicate 100 7) [5, 6] [1] = Inr res"
    by (simp add: embedLSB_def wavHeaderSize_def Let_def)
  then obtain res where r: "embedLSB (\<lambda>key n. [0..<n]) (replicate 100 7) [5, 6] [1] = Inr res" by blast
  from stego_round_trip[OF identity_shuffles r] r show ?thesis by simp
qed

theorem stego_carrier_kept_witness:
  "\<exists>res. embedLSB (\<lambda>key n. [0..<n]) (replicate 100 7) [5, 6] [1] = Inr res \<and> length res = 100"
proof -
  have "\<exists>res. embedLSB (\<lambda>key n. [0..<n]) (replicate 100 7) [5, 6] [1] = Inr res"
    by (simp add: embedLSB_def wavHeaderSize_def Let_def)
  then obtain res where r: "embedLSB (\<lambda>key n. [0..<n]) (replicate 100 7) [5, 6] [1] = Inr res" by blast
  from stego_carrier_kept[OF r] r show ?thesis by simp
qed

theorem stego_extract_panics_witness:
  "extractLSB (\<lambda>key n. [0..<n]) (replicate 50 0) [1] = None"
  unfolding stego_extract_panics[OF identity_shuffles] by (simp add: Let_def)

end
