(* ===== verification/Layers.thy ===== *)
theory Layers
  imports Prelude
begin

text \<open>
  node/layers.go and node/adapt.go: the weight layers, their training, their gossip, and the
  self-adaptation.  Floating point numbers are exact reals.  Where a remote message or a
  short vector makes the code index out of range, the result is \<open>None\<close> (a Go panic).
  Random choices are arguments: \<open>perm n\<close> is \<open>rand.Perm(n)\<close>.
\<close>

section \<open>Forward pass and training\<close>

type_synonym layers = "real list list"

definition clamp :: "real \<Rightarrow> real" where
  "clamp x = (if 1 < x then 1 else if x < -1 then -1 else x)"

text \<open>The loop over the layers; \<open>raw\<close> is \<open>None\<close> while \<open>rawOutput\<close> is nil.\<close>

fun forward_loop :: "real list \<Rightarrow> real list option \<Rightarrow> layers \<Rightarrow> real list \<times> real list option" where
  "forward_loop current raw [] = (current, raw)"
| "forward_loop current raw (layer # ls) =
     (if length layer \<noteq> length current then forward_loop current raw ls
      else let rawOutput = map2 (\<lambda>c w. clamp (c * w)) current layer
           in forward_loop rawOutput (Some rawOutput) ls)"

definition forward :: "real list \<Rightarrow> layers \<Rightarrow> real list \<times> real list" where
  "forward input ls = (case forward_loop input None ls of
      (current, None) \<Rightarrow> (current, current)
    | (current, Some rawOutput) \<Rightarrow> (rawOutput, current))"

definition train ::
  "layers \<Rightarrow> real list \<Rightarrow> real list \<Rightarrow> real list \<Rightarrow> real \<Rightarrow> layers option" where
  "train ls input output target learningRate =
     (if length input \<noteq> length target \<or> length output \<noteq> length target then Some ls
      else let errors = map2 (\<lambda>t out. t - out) target output
           in if length errors < 5 then None
              else if 0 < length ls \<and> length (last ls) = length errors
              then Some (butlast ls @ [map2 (\<lambda>w e. clamp (w + e * learningRate)) (last ls) errors])
              else Some ls)"

section \<open>Gossip\<close>

definition syncThrottleInterval :: duration where "syncThrottleInterval = 5 * Second"
definition syncChangeThreshold :: real where "syncChangeThreshold = 5 / 1000"
definition gossipDefaultTTL :: int where "gossipDefaultTTL = 3"

datatype delta_layer = DeltaLayer (dl_Index: int) (dl_Data: "real list")
datatype sync_payload = SyncPayload (sp_TTL: int) (sp_Delta: "delta_layer list")

record sync_state =
  sy_layers :: layers
  sy_lastSynced :: layers
  sy_dirty :: bool
  sy_lastSent :: time

definition layer_changed :: "layers \<Rightarrow> nat \<Rightarrow> real list \<Rightarrow> bool" where
  "layer_changed lastSynced i layer \<longleftrightarrow>
     \<not> (i < length lastSynced \<and> length layer = length (lastSynced ! i) \<and>
        list_all2 (\<lambda>x y. \<not> syncChangeThreshold < \<bar>x - y\<bar>) layer (lastSynced ! i))"

definition layers_delta :: "layers \<Rightarrow> layers \<Rightarrow> delta_layer list" where
  "layers_delta ls lastSynced =
     map (\<lambda>(i, l). DeltaLayer (int i) l) (filter (\<lambda>(i, l). layer_changed lastSynced i l) (enumerate 0 ls))"

definition gossip_fanout :: "nat \<Rightarrow> nat" where
  "gossip_fanout n = (let f = nat \<lfloor>sqrt (real n)\<rfloor>; f' = (if f < 2 then 2 else f) in if n < f' then n else f')"

definition selectRandomPeers :: "(nat \<Rightarrow> nat list) \<Rightarrow> 'p list \<Rightarrow> nat \<Rightarrow> 'p list" where
  "selectRandomPeers perm peers k =
     (if length peers \<le> k then peers else map (\<lambda>i. peers ! (perm (length peers) ! i)) [0..<k])"

text \<open>
  The peers that get the payload, and the payload; \<open>host\<close> is \<open>None\<close> for a nil host and the
  connected peers otherwise.
\<close>

definition Node_broadcastLayers ::
  "time \<Rightarrow> (nat \<Rightarrow> nat list) \<Rightarrow> 'p list option \<Rightarrow> sync_state \<Rightarrow> ('p list \<times> sync_payload) option \<times> sync_state" where
  "Node_broadcastLayers now perm host s =
     (case host of None \<Rightarrow> (None, s) | Some peers \<Rightarrow>
      if time_Sub now (sy_lastSent s) < syncThrottleInterval then (None, s)
      else if \<not> sy_dirty s then (None, s)
      else let delta = layers_delta (sy_layers s) (sy_lastSynced s)
           in if length delta = 0 then (None, s\<lparr>sy_dirty := False\<rparr>)
              else let s' = s\<lparr>sy_lastSynced := sy_layers s, sy_dirty := False, sy_lastSent := now\<rparr>
                   in if length peers = 0 then (None, s')
                      else (Some (selectRandomPeers perm peers (gossip_fanout (length peers)),
                              SyncPayload gossipDefaultTTL delta), s'))"

text \<open>A round of \<open>startSyncBackground\<close>.\<close>

definition sync_round ::
  "time \<Rightarrow> (nat \<Rightarrow> nat list) \<Rightarrow> 'p list option \<Rightarrow> sync_state \<Rightarrow> ('p list \<times> sync_payload) option \<times> sync_state" where
  "sync_round now perm host s = (if sy_dirty s then Node_broadcastLayers now perm host s else (None, s))"

definition average_layers :: "real list \<Rightarrow> real list \<Rightarrow> real list" where
  "average_layers = map2 (\<lambda>x y. (x + y) / 2)"

definition apply_delta_layer :: "delta_layer \<Rightarrow> layers \<Rightarrow> layers option" where
  "apply_delta_layer dl ls =
     (if dl_Index dl < int (length ls)
      then if dl_Index dl < 0 then None
           else let i = nat (dl_Index dl)
                in Some (if length (dl_Data dl) = length (ls ! i)
                         then ls[i := average_layers (ls ! i) (dl_Data dl)] else ls)
      else let i = nat (dl_Index dl);
               grown = ls @ replicate (i + 1 - length ls) (replicate VectorDim 0)
           in Some (grown[i := dl_Data dl]))"

text \<open>
  The loop over the delta.  A layer that is new to the node is stored without a copy, so
  later entries of the same delta that average into it change the data of that entry too;
  the flags say which entries were stored in this way.
\<close>

fun apply_delta :: "delta_layer list \<Rightarrow> layers \<Rightarrow> (layers \<times> bool list) option" where
  "apply_delta [] ls = Some (ls, [])"
| "apply_delta (dl # dls) ls = (case apply_delta_layer dl ls of None \<Rightarrow> None
     | Some ls1 \<Rightarrow> map_option (\<lambda>(ls2, fs). (ls2, (int (length ls) \<le> dl_Index dl) # fs)) (apply_delta dls ls1))"

definition forwarded_delta :: "layers \<Rightarrow> bool list \<Rightarrow> delta_layer list \<Rightarrow> delta_layer list" where
  "forwarded_delta ls stored dls =
     map2 (\<lambda>st dl. if st then DeltaLayer (dl_Index dl) (ls ! nat (dl_Index dl)) else dl) stored dls"

fun merge_full :: "nat \<Rightarrow> real list list \<Rightarrow> layers \<Rightarrow> layers" where
  "merge_full i [] ls = ls"
| "merge_full i (p # ps) ls = merge_full (i + 1) ps
     (if i < length ls
      then (if length p = length (ls ! i) then ls[i := average_layers (ls ! i) p] else ls)
      else ls @ [p])"

text \<open>
  What the bytes of a sync stream parse as: the three formats are tried in turn, so the
  record says for each whether \<open>json.Unmarshal\<close> succeeds.
\<close>

record sync_input =
  si_payload :: "sync_payload option"
  si_delta :: "delta_layer list option"
  si_full :: "layers option"

text \<open>The peers the payload is forwarded to and the payload, and the new state.\<close>

definition Node_handleSyncStream ::
  "(nat \<Rightarrow> nat list) \<Rightarrow> 'p list \<Rightarrow> 'p \<Rightarrow> sync_input \<Rightarrow> sync_state \<Rightarrow>
     (('p list \<times> sync_payload) option \<times> sync_state) option" where
  "Node_handleSyncStream perm peers sender d s =
     (case si_payload d of
        Some (SyncPayload ttl0 (dl # dls)) \<Rightarrow>
          map_option (\<lambda>(ls, stored).
            let ttl = wrap64 (ttl0 - 1);
                fanout = gossip_fanout (length peers);
                candidates = filter (\<lambda>p. p \<noteq> sender) peers;
                s' = s\<lparr>sy_layers := ls, sy_dirty := True\<rparr>
            in (if 0 < ttl \<and> 1 < length peers \<and> 0 < length candidates
                then Some (selectRandomPeers perm candidates fanout,
                       SyncPayload ttl (forwarded_delta ls stored (dl # dls)))
                else None, s'))
            (apply_delta (dl # dls) (sy_layers s))
      | _ \<Rightarrow> (case si_delta d of
          Some (dl # dls) \<Rightarrow>
            map_option (\<lambda>(ls, stored). (None, s\<lparr>sy_layers := ls, sy_dirty := True\<rparr>))
              (apply_delta (dl # dls) (sy_layers s))
        | _ \<Rightarrow> (case si_full d of
            None \<Rightarrow> Some (None, s)
          | Some ls \<Rightarrow> Some (None, s\<lparr>sy_layers := merge_full 0 ls (sy_layers s), sy_dirty := True\<rparr>))))"

section \<open>Self-adaptation\<close>

record adaptive_params =
  ad_ArchiveThreshold :: real
  ad_LearningRate :: real
  ad_SyncInterval :: duration
  ad_LastAdapted :: time

definition NewAdaptiveParams :: "time \<Rightarrow> adaptive_params" where
  "NewAdaptiveParams now = \<lparr>ad_ArchiveThreshold = 15 / 100, ad_LearningRate = 1 / 100,
     ad_SyncInterval = 30 * Second, ad_LastAdapted = now\<rparr>"

record metrics =
  mt_avgWeight :: real
  mt_lowWeightRatio :: real
  mt_highWeightRatio :: real

text \<open>The metrics of the weights of all messages.\<close>

definition Node_CollectMetrics :: "real list \<Rightarrow> metrics" where
  "Node_CollectMetrics ws =
     (if length ws = 0 then \<lparr>mt_avgWeight = 1 / 2, mt_lowWeightRatio = 0, mt_highWeightRatio = 0\<rparr>
      else \<lparr>mt_avgWeight = sum_list ws / real (length ws),
            mt_lowWeightRatio = real (length (filter (\<lambda>w. w < 3 / 10) ws)) / real (length ws),
            mt_highWeightRatio = real (length (filter (\<lambda>w. 7 / 10 < w) ws)) / real (length ws)\<rparr>)"

text \<open>The new parameters and whether the state is saved.\<close>

definition Node_Adapt :: "time \<Rightarrow> metrics \<Rightarrow> adaptive_params \<Rightarrow> bool \<times> adaptive_params" where
  "Node_Adapt now mt a0 =
     (let r1 = (mt_avgWeight mt < 3 / 10 \<and> 5 / 100 < ad_ArchiveThreshold a0);
          a1 = (if r1 then a0\<lparr>ad_ArchiveThreshold := ad_ArchiveThreshold a0 - 1 / 100\<rparr> else a0);
          r2 = (7 / 10 < mt_avgWeight mt \<and> ad_ArchiveThreshold a1 < 30 / 100);
          a2 = (if r2 then a1\<lparr>ad_ArchiveThreshold := ad_ArchiveThreshold a1 + 1 / 100\<rparr> else a1);
          r3 = (3 / 10 < mt_lowWeightRatio mt \<and> 5 * Second < ad_SyncInterval a2);
          a3 = (if r3 then a2\<lparr>ad_SyncInterval := ad_SyncInterval a2 - 5 * Second\<rparr> else a2);
          r4 = (mt_lowWeightRatio mt < 1 / 10 \<and> ad_SyncInterval a3 < 300 * Second);
          a4 = (if r4 then a3\<lparr>ad_SyncInterval := ad_SyncInterval a3 + 5 * Second\<rparr> else a3);
          changed = (r1 \<or> r2 \<or> r3 \<or> r4)
      in (changed, if changed then a4\<lparr>ad_LastAdapted := now\<rparr> else a4))"

section \<open>Lemmas\<close>

definition bounded :: "real list \<Rightarrow> bool" where
  "bounded xs \<longleftrightarrow> (\<forall>x \<in> set xs. - 1 \<le> x \<and> x \<le> 1)"

lemma clamp_bounds: "- 1 \<le> clamp x" "clamp x \<le> 1"
  by (simp_all add: clamp_def)

lemma bounded_map2_clamp: "bounded (map2 (\<lambda>c w. clamp (f c w)) xs ys)"
  by (auto simp: bounded_def clamp_bounds)

lemma forward_loop_bounded:
  "(case raw of None \<Rightarrow> True | Some r \<Rightarrow> r = current \<and> bounded current) \<Longrightarrow>
     forward_loop current raw ls = (cur', raw') \<Longrightarrow>
     length cur' = length current \<and> (case raw' of None \<Rightarrow> raw = None \<and> cur' = current \<and> (\<forall>l \<in> set ls. length l \<noteq> length current)
       | Some r \<Rightarrow> r = cur' \<and> bounded cur' \<and> (raw = None \<longrightarrow> (\<exists>l \<in> set ls. length l = length current)))"
proof (induction ls arbitrary: current raw)
  case (Cons l ls)
  show ?case
  proof (cases "length l = length current")
    case False
    with Cons.prems Cons.IH[of current raw] show ?thesis by (auto split: option.splits)
  next
    case True
    let ?r = "map2 (\<lambda>c w. clamp (c * w)) current l"
    from True Cons.prems Cons.IH[of ?r "Some ?r"] show ?thesis
      by (auto simp: Let_def bounded_map2_clamp split: option.splits)
  qed
qed (auto split: option.splits)

lemma apply_delta_layer_grows:
  "apply_delta_layer dl ls = Some ls' \<Longrightarrow> length ls \<le> length ls' \<and> dl_Index dl < int (length ls')"
  by (auto simp: apply_delta_layer_def Let_def split: if_splits)

lemma apply_delta_panics:
  "apply_delta dls ls = None \<longleftrightarrow> (\<exists>dl \<in> set dls. dl_Index dl < 0)"
proof (induction dls arbitrary: ls)
  case (Cons dl dls)
  have "apply_delta_layer dl ls = None \<longleftrightarrow> dl_Index dl < 0"
    by (auto simp: apply_delta_layer_def Let_def)
  with Cons show ?case by (auto split: option.splits)
qed simp

lemma bounded_average: "bounded xs \<Longrightarrow> bounded ys \<Longrightarrow> bounded (average_layers xs ys)"
  unfolding bounded_def average_layers_def
proof
  fix z assume xs: "\<forall>x \<in> set xs. - 1 \<le> x \<and> x \<le> 1" and ys: "\<forall>x \<in> set ys. - 1 \<le> x \<and> x \<le> 1"
    and "z \<in> set (map2 (\<lambda>x y. (x + y) / 2) xs ys)"
  then obtain x y where "(x, y) \<in> set (zip xs ys)" "z = (x + y) / 2" by auto
  moreover from this xs ys have "- 1 \<le> x \<and> x \<le> 1" "- 1 \<le> y \<and> y \<le> 1"
    by (auto dest: set_zip_leftD set_zip_rightD)
  ultimately show "- 1 \<le> z \<and> z \<le> 1" by simp
qed

lemma map_length_last: "ls \<noteq> [] \<Longrightarrow> map length ls = map length (butlast ls) @ [length (last ls)]"
  by (induction ls) auto

lemma dvd_step: "(c::int) dvd c * k - c" "c dvd c * k + c"
  by (simp_all add: dvd_diff)

section \<open>Properties\<close>

text \<open>The network's output has the dimension of its input; when some layer has that dimension
  every component ends within [-1, 1], and when none has it the output is the input.\<close>

theorem forward_bounded:
  "length (fst (forward input ls)) = length input \<and> snd (forward input ls) = fst (forward input ls) \<and>
   (if \<exists>l \<in> set ls. length l = length input then bounded (fst (forward input ls))
    else fst (forward input ls) = input)"
proof -
  obtain cur raw where l: "forward_loop input None ls = (cur, raw)" by fastforce
  from forward_loop_bounded[OF _ l] l show ?thesis
    by (cases raw) (auto simp: forward_def)
qed

text \<open>One training step changes the last layer only, keeps the dimensions, and leaves the
  weights of a last layer of the right dimension within [-1, 1]; it panics exactly on
  matching vectors of fewer than five components (the log line slices \<open>errors[:5]\<close>).\<close>

theorem train_step:
  "(train ls input output target lr = None \<longleftrightarrow>
      length input = length target \<and> length output = length target \<and> length target < 5) \<and>
   (\<forall>ls'. train ls input output target lr = Some ls' \<longrightarrow>
      map length ls' = map length ls \<and> butlast ls' = butlast ls \<and>
      (length input = length target \<and> length output = length target \<and> ls \<noteq> [] \<and>
         length (last ls) = length target \<longrightarrow> bounded (last ls')))"
proof (intro conjI allI impI)
  show "train ls input output target lr = None \<longleftrightarrow>
      length input = length target \<and> length output = length target \<and> length target < 5"
    by (auto simp: train_def Let_def)
  fix ls' assume t: "train ls input output target lr = Some ls'"
  show "map length ls' = map length ls"
    using t by (auto simp: train_def Let_def map_length_last simp del: map_butlast split: if_splits)
  show "butlast ls' = butlast ls" using t by (auto simp: train_def Let_def split: if_splits)
  assume "length input = length target \<and> length output = length target \<and> ls \<noteq> [] \<and> length (last ls) = length target"
  with t show "bounded (last ls')"
    using bounded_map2_clamp[of "\<lambda>w e. w + e * lr"] by (auto simp: train_def Let_def split: if_splits)
qed

theorem train_step_witness:
  "train [[1/2, 0, 0, 0, 0]] [0, 0, 0, 0, 0] [0, 0, 0, 0, 0] [1, 0, 0, 0, 0] (1/10) = Some [[6/10, 0, 0, 0, 0]] \<and>
   bounded [6/10, 0, 0, 0, 0]"
proof -
  have t: "train [[1/2, 0, 0, 0, 0]] [0, 0, 0, 0, 0] [0, 0, 0, 0, 0] [1, 0, 0, 0, 0] (1/10) = Some [[6/10, 0, 0, 0, 0]]"
    by (simp add: train_def clamp_def Let_def)
  with train_step[of "[[1/2, 0, 0, 0, 0]]" "[0, 0, 0, 0, 0]" "[0, 0, 0, 0, 0]" "[1, 0, 0, 0, 0]" "1/10"]
  show ?thesis by simp
qed

lemma wrap64_pred: "min_int64 \<le> i \<Longrightarrow> i \<le> max_int64 \<Longrightarrow> wrap64 (i - 1) = (if i = min_int64 then max_int64 else i - 1)"
  by (simp add: wrap64_id) (simp add: wrap64_def min_int64_def max_int64_def)

lemma selectRandomPeers_length: "length (selectRandomPeers perm ps k) \<le> k"
  by (simp add: selectRandomPeers_def)

lemma selectRandomPeers_set:
  assumes perm: "\<forall>n. distinct (perm n) \<and> set (perm n) = {..<n}"
  shows "set (selectRandomPeers perm ps k) \<subseteq> set ps"
proof (cases "length ps \<le> k")
  case False
  have "perm (length ps) ! i < length ps" if "i < length ps" for i
    using perm that distinct_card[of "perm (length ps)"] by (metis card_lessThan lessThan_iff nth_mem)
  with False show ?thesis by (auto simp: selectRandomPeers_def)
qed (simp add: selectRandomPeers_def)

text \<open>What makes the handler panic: a delta with a negative layer index, in either of the two formats.\<close>

definition bad_sync :: "sync_input \<Rightarrow> bool" where
  "bad_sync d \<longleftrightarrow> (case si_payload d of Some (SyncPayload ttl (x # xs)) \<Rightarrow> \<exists>dl \<in> set (x # xs). dl_Index dl < 0
     | _ \<Rightarrow> (case si_delta d of Some (x # xs) \<Rightarrow> \<exists>dl \<in> set (x # xs). dl_Index dl < 0 | _ \<Rightarrow> False))"

lemma handleSyncStream_panics: "Node_handleSyncStream perm peers sender d s = None \<longleftrightarrow> bad_sync d"
  unfolding Node_handleSyncStream_def bad_sync_def
  by (simp add: apply_delta_panics del: apply_delta.simps split: option.split sync_payload.split list.split)

text \<open>The TTL of a payload is a Go \<open>int\<close>.\<close>

definition int_TTL :: "sync_input \<Rightarrow> bool" where
  "int_TTL d \<longleftrightarrow> (case si_payload d of None \<Rightarrow> True | Some p \<Rightarrow> min_int64 \<le> sp_TTL p \<and> sp_TTL p \<le> max_int64)"

text \<open>C35.  The gossip of the layers, with \<open>rand.Perm\<close> giving permutations.  The handler panics exactly on
  a delta that has a negative layer index.  What it forwards has a positive TTL, one less than the TTL
  received, except that the smallest 64-bit TTL wraps around and is forwarded as the largest; it goes to
  connected peers other than the sender, and to no more of them than the fanout.\<close>

theorem sync_stream_gossip:
  assumes perm: "\<forall>n. distinct (perm n) \<and> set (perm n) = {..<n}" and ttl: "int_TTL d"
  shows "(Node_handleSyncStream perm peers sender d s = None \<longleftrightarrow> bad_sync d) \<and>
    (\<forall>to payload s'. Node_handleSyncStream perm peers sender d s = Some (Some (to, payload), s') \<longrightarrow>
      (\<exists>ttl dls. si_payload d = Some (SyncPayload ttl dls) \<and> 0 < sp_TTL payload \<and>
         sp_TTL payload = (if ttl = min_int64 then max_int64 else ttl - 1)) \<and>
      set to \<subseteq> set peers - {sender} \<and> length to \<le> gossip_fanout (length peers))"
proof (intro conjI allI impI)
  show "Node_handleSyncStream perm peers sender d s = None \<longleftrightarrow> bad_sync d" by (rule handleSyncStream_panics)
  fix to payload s'
  assume r: "Node_handleSyncStream perm peers sender d s = Some (Some (to, payload), s')"
  then obtain ttl0 dl dls where p: "si_payload d = Some (SyncPayload ttl0 (dl # dls))"
    by (auto simp: Node_handleSyncStream_def split: option.splits sync_payload.splits list.splits)
  let ?candidates = "filter (\<lambda>p. p \<noteq> sender) peers"
  from r have out: "0 < wrap64 (ttl0 - 1)" "sp_TTL payload = wrap64 (ttl0 - 1)"
      "to = selectRandomPeers perm ?candidates (gossip_fanout (length peers))"
    by (auto simp: Node_handleSyncStream_def p Let_def simp del: apply_delta.simps split: if_splits)
  with p wrap64_pred[of ttl0] ttl
  show "\<exists>ttl dls. si_payload d = Some (SyncPayload ttl dls) \<and> 0 < sp_TTL payload \<and>
      sp_TTL payload = (if ttl = min_int64 then max_int64 else ttl - 1)"
    by (auto simp: int_TTL_def)
  show "length to \<le> gossip_fanout (length peers)" by (simp add: out selectRandomPeers_length)
  show "set to \<subseteq> set peers - {sender}"
    using selectRandomPeers_set[OF perm, of ?candidates "gossip_fanout (length peers)"] by (auto simp: out)
qed

definition sample_sync :: "int \<Rightarrow> int \<Rightarrow> sync_input" where
  "sample_sync ttl i = \<lparr>si_payload = Some (SyncPayload ttl [DeltaLayer i [0]]), si_delta = None, si_full = None\<rparr>"

definition sample_sync_state :: sync_state where
  "sample_sync_state = \<lparr>sy_layers = [[0]], sy_lastSynced = [], sy_dirty = False, sy_lastSent = 0\<rparr>"

text \<open>A negative index; and a message with the smallest TTL from the first of two peers.\<close>

theorem sync_stream_gossip_witness:
  "Node_handleSyncStream (\<lambda>n. [0..<n]) [1, 2 :: nat] 1 (sample_sync 3 (- 1)) sample_sync_state = None \<and>
   (\<exists>to payload s'. Node_handleSyncStream (\<lambda>n. [0..<n]) [1, 2 :: nat] 1 (sample_sync min_int64 0) sample_sync_state =
      Some (Some (to, payload), s') \<and> to = [2] \<and> sp_TTL payload = max_int64)"
proof
  have perm: "\<forall>n. distinct [0..<n] \<and> set [0..<n] = {..<n}" by (simp add: atLeast0LessThan)
  have ttl: "int_TTL (sample_sync 3 (- 1))" "int_TTL (sample_sync min_int64 0)"
    by (simp_all add: int_TTL_def sample_sync_def min_int64_def max_int64_def)
  show "Node_handleSyncStream (\<lambda>n. [0..<n]) [1, 2 :: nat] 1 (sample_sync 3 (- 1)) sample_sync_state = None"
    using sync_stream_gossip[OF perm ttl(1), THEN conjunct1] by (simp add: bad_sync_def sample_sync_def)
  obtain payload s' where r: "Node_handleSyncStream (\<lambda>n. [0..<n]) [1, 2 :: nat] 1 (sample_sync min_int64 0) sample_sync_state =
      Some (Some ([2], payload), s')"
    by (simp add: Node_handleSyncStream_def sample_sync_def sample_sync_state_def Let_def wrap64_def min_int64_def
        apply_delta_layer_def selectRandomPeers_def gossip_fanout_def)
  have "sp_TTL payload = max_int64"
    using sync_stream_gossip[OF perm ttl(2), THEN conjunct2, rule_format, OF r] by (auto simp: sample_sync_def)
  with r show "\<exists>to payload s'. Node_handleSyncStream (\<lambda>n. [0..<n]) [1, 2 :: nat] 1 (sample_sync min_int64 0) sample_sync_state =
      Some (Some (to, payload), s') \<and> to = [2] \<and> sp_TTL payload = max_int64" by blast
qed

text \<open>Self-adaptation stays within its limits: from the initial parameters, whatever metrics it
  is fed, the archive threshold stays in [0.04, 0.31] and the sync interval is between 5
  and 300 seconds.\<close>

theorem Adapt_bounds:
  "let a = fold (\<lambda>(now, mt) a. snd (Node_Adapt now mt a)) ms (NewAdaptiveParams t0)
   in 4 / 100 \<le> ad_ArchiveThreshold a \<and> ad_ArchiveThreshold a \<le> 31 / 100 \<and>
      5 * Second \<le> ad_SyncInterval a \<and> ad_SyncInterval a \<le> 300 * Second \<and> ad_LearningRate a = 1 / 100"
proof -
  define I :: "adaptive_params \<Rightarrow> bool" where "I a \<longleftrightarrow> 4 / 100 \<le> ad_ArchiveThreshold a \<and> ad_ArchiveThreshold a \<le> 31 / 100 \<and>
      5 * Second \<le> ad_SyncInterval a \<and> ad_SyncInterval a \<le> 300 * Second \<and>
      (5 * Second) dvd ad_SyncInterval a \<and> ad_LearningRate a = 1 / 100" for a
  have step: "I (snd (Node_Adapt now mt a))" if "I a" for now mt a
  proof -
    from that obtain k where k: "ad_SyncInterval a = 5 * Second * k" by (auto simp: I_def)
    with that have kb: "1 \<le> k" "k \<le> 60" by (auto simp: I_def Second_def)
    show ?thesis using that kb unfolding I_def Node_Adapt_def Let_def
      by (auto simp: k Second_def dvd_step)
  qed
  have "I (fold (\<lambda>(now, mt) a. snd (Node_Adapt now mt a)) ms a)" if "I a" for a
    using that by (induction ms arbitrary: a) (auto intro: step)
  moreover have "I (NewAdaptiveParams t0)" by (auto simp: I_def NewAdaptiveParams_def Second_def)
  ultimately show ?thesis by (simp add: I_def Let_def)
qed

end
