(* ===== verification/Vectors.thy ===== *)
theory Vectors
  imports Memory
begin

text \<open>
  node/utils.go and \<open>FindSimilar\<close> of node/memory.go: texts as vectors, their similarity, and the
  Markov chain that turns a vector into a text.  Runes are code points; the transition
  table is transcribed with its probabilities in hundredths.  Strings are byte sequences,
  so lower-casing, ranging over a string (byte offset and rune) and SHA-256 are the record
  \<open>text_lib\<close>.  Floating point numbers are exact reals.
\<close>

type_synonym rune = int

record text_lib =
  tl_ToLower :: "string \<Rightarrow> string"
  tl_range :: "string \<Rightarrow> (nat \<times> rune) list"
  tl_sha256 :: "string \<Rightarrow> nat list"

text \<open>Runes are not negative; a SHA-256 digest has 32 bytes.\<close>

definition text_laws :: "text_lib \<Rightarrow> bool" where
  "text_laws T \<longleftrightarrow> (\<forall>s. \<forall>(i, r) \<in> set (tl_range T s). 0 \<le> r) \<and> (\<forall>s. length (tl_sha256 T s) = 32)"

section \<open>Hashes of texts\<close>

text \<open>The verb \<open>%x\<close> on bytes.\<close>

definition hex_digit :: "nat \<Rightarrow> char" where
  "hex_digit k = (if k < 10 then char_of (48 + k) else char_of (87 + k))"

definition hex_bytes :: "nat list \<Rightarrow> string" where
  "hex_bytes bs = concat (map (\<lambda>b. [hex_digit (b div 16), hex_digit (b mod 16)]) bs)"

definition HashText :: "text_lib \<Rightarrow> string \<Rightarrow> string" where
  "HashText T s = hex_bytes (take 8 (tl_sha256 T s))"

text \<open>\<open>now\<close> is the clock as a text.\<close>

definition generateMsgID :: "text_lib \<Rightarrow> string \<Rightarrow> string \<Rightarrow> string" where
  "generateMsgID T now s = hex_bytes (take 8 (tl_sha256 T (s @ now)))"

lemma length_hex_bytes [simp]: "length (hex_bytes bs) = 2 * length bs"
  by (induction bs) (simp_all add: hex_bytes_def)

lemma message_id_length: "text_laws T \<Longrightarrow> length (HashText T s) = 16 \<and> length (generateMsgID T now s) = 16"
  by (simp add: HashText_def generateMsgID_def text_laws_def)

section \<open>Vectors\<close>


definition add_at :: "nat \<Rightarrow> real \<Rightarrow> real list \<Rightarrow> real list" where
  "add_at i x v = v[i := v ! i + x]"

fun hash_loop :: "(nat \<times> rune) list \<Rightarrow> real list \<Rightarrow> real list" where
  "hash_loop [] v = v"
| "hash_loop ((i, ch) # rs) v = (if VectorDim \<le> i then v else hash_loop rs (v[i := real_of_int ch / 255]))"

definition hashToVector :: "text_lib \<Rightarrow> string \<Rightarrow> real list" where
  "hashToVector T hash = hash_loop (tl_range T hash) (replicate VectorDim 0)"

definition textToVector :: "text_lib \<Rightarrow> string \<Rightarrow> real list" where
  "textToVector T text0 =
     (let text1 = tl_ToLower T text0;
          v1 = fold (\<lambda>(i, ch) v. add_at (i mod VectorDim) (real_of_int ch * (3 / 10)) v)
                 (tl_range T text1) (replicate VectorDim 0);
          v2 = fold (\<lambda>i v. let h = tl_sha256 T (take 2 (drop i text1))
                 in map2 (\<lambda>j x. x + real (h ! (j mod length h)) / 255 * (7 / 10)) [0..<VectorDim] v)
                 [0..<length text1 - 1] v1;
          mx = fold (\<lambda>x m. if m < x then x else m) v2 0
      in if 0 < mx then map (\<lambda>x. let y = x / mx in if 1 < y then 1 else y) v2 else v2)"

text \<open>Twenty rounds of Newton's method.\<close>

fun newton :: "nat \<Rightarrow> real \<Rightarrow> real \<Rightarrow> real" where
  "newton 0 x z = z"
| "newton (Suc n) x z = newton n x (z - (z * z - x) / (2 * z))"

definition go_sqrt :: "real \<Rightarrow> real" where
  "go_sqrt x = (if x \<le> 0 then 0 else newton 20 x x)"

definition cosineSimilarity :: "real list \<Rightarrow> real list \<Rightarrow> real" where
  "cosineSimilarity a b =
     (if length a \<noteq> length b \<or> length a = 0 then 0
      else let dot = sum_list (map2 (*) a b);
               normA = sum_list (map2 (*) a a);
               normB = sum_list (map2 (*) b b)
           in if normA = 0 \<or> normB = 0 then 0 else dot / (go_sqrt normA * go_sqrt normB))"

definition Memory_FindSimilar :: "text_lib \<Rightarrow> time \<Rightarrow> string \<Rightarrow> real \<Rightarrow> memory \<Rightarrow> message list" where
  "Memory_FindSimilar T now text0 threshold m =
     (let inputVec = textToVector T text0
      in map (\<lambda>x. x\<lparr>msg_Weight := aged_weight now x\<rparr>)
           (filter (\<lambda>x. \<not> msg_Archived x \<and> \<not> aged_weight now x < 1 / 2 \<and>
              threshold < cosineSimilarity inputVec (textToVector T (msg_Text x))) (mem_messages m)))"

section \<open>The Markov chain\<close>

definition bigramTransitions_1 :: "(rune \<times> (rune \<times> nat) list) list" where
  "bigramTransitions_1 =
    [(32, [
        (1087, 8), (1085, 7), (1074, 7), (1089, 7), (1086, 6), (1082, 5), (1084, 5), (1076, 4),
        (1090, 4), (1088, 4), (1073, 3), (1079, 3), (1080, 3), (1095, 3), (1091, 2), (1075, 2),
        (1083, 2), (1078, 2), (1072, 2), (1077, 2), (1093, 1), (1096, 1), (1103, 1), (1101, 1),
        (1092, 1), (1094, 1), (1097, 1), (1102, 1), (1099, 1), (1081, 1), (1100, 1)]),
     (1072, [
        (1083, 8), (1085, 7), (1090, 7), (1082, 6), (1088, 6), (1089, 5), (1074, 5), (1084, 5),
        (1076, 4), (1103, 4), (1077, 3), (1080, 3), (1087, 3), (1073, 3), (1075, 2), (1079, 2),
        (1095, 2), (1078, 2), (1093, 2), (1096, 2), (1081, 2), (1102, 1), (1094, 1), (1097, 1),
        (1092, 1), (1101, 1), (1100, 1), (32, 4), (44, 1), (46, 1)]),
     (1073, [
        (1099, 15), (1083, 12), (1088, 10), (1091, 8), (1072, 8), (1077, 7), (1086, 7),
        (1080, 5), (32, 10), (1103, 4), (1100, 3), (1085, 3), (1102, 2), (44, 2), (46, 2)]),
     (1074, [
        (1086, 10), (1072, 9), (1077, 8), (1080, 8), (1099, 7), (1083, 6), (1085, 5),
        (1089, 5), (32, 10), (1088, 4), (1090, 4), (1103, 4), (1091, 3), (1100, 3), (1076, 3),
        (1082, 2), (1084, 2), (1087, 2), (44, 2), (46, 1)]),
     (1075, [
        (1086, 15), (1072, 12), (1083, 10), (1088, 8), (1076, 7), (1080, 7), (1077, 6),
        (1091, 5), (32, 10), (1085, 5), (1074, 4), (1089, 3), (1084, 2), (1103, 2), (44, 2),
        (46, 2)]),
     (1076, [
        (1072, 10), (1077, 9), (1086, 9), (1080, 8), (1091, 7), (1088, 6), (1085, 6),
        (1083, 5), (32, 12), (1099, 4), (1103, 4), (1074, 3), (1089, 3), (1100, 3), (1090, 3),
        (1073, 2), (44, 2), (46, 2)]),
     (1077, [
        (1083, 8), (1085, 8), (1088, 7), (1090, 7), (1089, 6), (1082, 6), (1074, 5), (1084, 5),
        (1076, 4), (1075, 4), (1087, 4), (1073, 3), (1081, 3), (1103, 3), (1080, 3), (1077, 2),
        (1095, 2), (1078, 2), (1093, 2), (1096, 2), (1097, 1), (1094, 1), (1092, 1), (32, 4),
        (44, 1), (46, 1)]),
     (1105, [
        (1083, 15), (1088, 12), (1085, 10), (1090, 8), (1082, 8), (1089, 7), (1074, 6),
        (1084, 6), (32, 10), (1076, 4), (1075, 4), (1073, 3), (1087, 3), (44, 2), (46, 2)]),
     (1078, [
        (1077, 20), (1080, 15), (1072, 12), (1091, 8), (1085, 8), (1076, 7), (32, 12),
        (1086, 5), (1083, 4), (1073, 3), (44, 3), (46, 3)]),
     (1079, [
        (1072, 12), (1086, 10), (1085, 8), (1074, 7), (1080, 7), (1077, 7), (1076, 6),
        (1083, 5), (32, 10), (1088, 5), (1084, 4), (1099, 4), (1091, 3), (1075, 3), (1103, 3),
        (1089, 2), (44, 2), (46, 2)]),
     (1080, [
        (1083, 9), (1090, 9), (1089, 8), (1085, 7), (1088, 7), (1082, 6), (1074, 6), (1084, 6),
        (1076, 5), (1087, 4), (1079, 3), (1075, 3), (1073, 3), (1095, 3), (1081, 3), (1103, 2),
        (1077, 2), (1080, 2), (1093, 1), (1078, 1), (1096, 1), (1094, 1), (1097, 1), (32, 4),
        (44, 1), (46, 1)]),
     (1081, [
        (32, 25), (1089, 12), (1085, 10), (1082, 8), (1090, 7), (1076, 6), (1084, 5),
        (1074, 5), (1083, 4), (1088, 4), (1087, 3), (1073, 3), (44, 3), (46, 3), (1096, 2)]),
     (1082, [
        (1086, 15), (1072, 13), (1088, 9), (1091, 8), (1080, 7), (1083, 7), (1077, 6),
        (1085, 5), (32, 10), (1074, 4), (1090, 4), (1089, 3), (1084, 3), (1103, 2), (44, 2),
        (46, 2)]),
     (1083, [
        (1072, 10), (1086, 9), (1080, 9), (1077, 8), (1091, 7), (1103, 6), (1099, 5),
        (1100, 5), (32, 10), (1089, 4), (1082, 4), (1085, 4), (1102, 3), (1074, 3), (1076, 3),
        (1090, 3), (1084, 2), (1087, 2), (44, 2), (46, 1)]),
     (1084, [
        (1072, 12), (1086, 10), (1077, 9), (1080, 8), (1091, 7), (1099, 6), (1085, 6),
        (1083, 5), (32, 12), (1103, 4), (1074, 4), (1089, 4), (1087, 3), (1082, 3), (1076, 3),
        (44, 2), (46, 2)]),
     (1085, [
        (1072, 10), (1086, 9), (1077, 8), (1080, 7), (1099, 6), (1091, 5), (1085, 5),
        (1089, 5), (32, 12), (1103, 4), (1090, 4), (1088, 4), (1082, 4), (1076, 3), (1074, 3),
        (1083, 3), (1100, 3), (44, 3), (46, 2)]),
     (1086, [
        (1083, 8), (1088, 7), (1074, 7), (1089, 7), (1090, 6), (1085, 6), (1082, 6), (1084, 5),
        (1076, 5), (1087, 4), (1075, 4), (1073, 3), (1081, 3), (1103, 3), (1077, 3), (1080, 3),
        (1095, 2), (1078, 2), (1093, 2), (1096, 2), (1079, 2), (1097, 1), (1094, 1), (1092, 1),
        (32, 4), (44, 1), (46, 1)]),
     (1087, [
        (1088, 15), (1086, 13), (1077, 10), (1072, 9), (1083, 8), (1080, 7), (1091, 6),
        (1099, 5), (32, 10), (1103, 4), (1085, 4), (1089, 3), (1090, 2), (1082, 2), (44, 1),
        (46, 1)])]"

definition bigramTransitions_2 :: "(rune \<times> (rune \<times> nat) list) list" where
  "bigramTransitions_2 =
    [(1088, [
        (1072, 10), (1086, 9), (1077, 8), (1091, 7), (1080, 7), (1099, 6), (1090, 5),
        (1085, 5), (32, 10), (1074, 4), (1089, 4), (1082, 4), (1076, 4), (1084, 3), (1088, 3),
        (1083, 3), (1103, 3), (44, 2), (46, 2), (1100, 1)]),
     (1089, [
        (1090, 12), (1077, 10), (1103, 10), (1082, 9), (1072, 7), (1083, 7), (1074, 6),
        (1080, 6), (1086, 5), (1091, 4), (1085, 4), (1087, 3), (32, 5), (1084, 3), (1100, 3),
        (1089, 2), (44, 2), (46, 2)]),
     (1090, [
        (1086, 15), (1072, 10), (1077, 9), (1080, 8), (1088, 7), (1091, 6), (1074, 5),
        (1099, 5), (32, 10), (1085, 5), (1089, 4), (1083, 4), (1100, 3), (1082, 3), (1103, 2),
        (44, 2), (46, 2)]),
     (1091, [
        (1083, 8), (1089, 8), (1090, 7), (1076, 7), (1095, 7), (1082, 6), (1088, 6), (1078, 6),
        (1084, 5), (1087, 5), (1085, 5), (1074, 4), (32, 10), (1073, 3), (1075, 3), (1079, 3),
        (1081, 2), (1103, 2), (44, 2), (46, 1)]),
     (1092, [
        (1080, 20), (1077, 15), (1072, 12), (1086, 10), (1088, 10), (1083, 8), (1091, 7),
        (32, 8), (1100, 4), (44, 3), (46, 3)]),
     (1093, [
        (1086, 18), (1072, 14), (1091, 10), (1077, 9), (1080, 8), (1083, 7), (1085, 6),
        (32, 10), (1074, 5), (1088, 5), (1089, 3), (44, 3), (46, 2)]),
     (1094, [
        (1077, 20), (1072, 15), (1080, 12), (1086, 10), (1091, 8), (1099, 7), (32, 12),
        (1082, 5), (1074, 4), (44, 4), (46, 3)]),
     (1095, [
        (1090, 20), (1077, 15), (1072, 12), (1080, 10), (1091, 8), (1085, 7), (1082, 6),
        (32, 10), (1086, 5), (1083, 3), (44, 2), (46, 2)]),
     (1096, [
        (1077, 18), (1080, 15), (1072, 12), (1082, 10), (1083, 8), (1085, 7), (32, 12),
        (1086, 6), (1091, 5), (44, 4), (46, 3)]),
     (1097, [
        (1077, 25), (1080, 18), (1072, 15), (1091, 10), (1085, 8), (32, 12), (1105, 5),
        (44, 4), (46, 3)]),
     (1098, [
        (1077, 30), (1103, 25), (1102, 20), (1080, 10), (32, 8), (44, 4), (46, 3)]),
     (1099, [
        (1083, 12), (1090, 10), (1089, 9), (1074, 8), (1084, 8), (1081, 7), (1085, 6),
        (1088, 6), (32, 12), (1082, 5), (1076, 4), (1073, 3), (1087, 3), (1095, 2), (44, 3),
        (46, 2)]),
     (1100, [
        (32, 15), (1085, 12), (1089, 10), (1090, 9), (1082, 8), (1074, 7), (1084, 6),
        (1076, 5), (1073, 4), (1095, 4), (1096, 4), (1087, 4), (1088, 3), (1083, 3), (1079, 2),
        (44, 2), (46, 2)]),
     (1101, [
        (1090, 25), (1083, 15), (1088, 12), (1089, 10), (1085, 8), (1082, 7), (32, 10),
        (1084, 5), (1074, 4), (44, 2), (46, 2)]),
     (1102, [
        (1083, 15), (1090, 12), (1089, 10), (1076, 10), (1095, 8), (1097, 7), (32, 15),
        (1073, 6), (1082, 5), (1088, 4), (44, 4), (46, 4)]),
     (1103, [
        (1083, 12), (1090, 10), (1089, 9), (1085, 8), (1074, 7), (1084, 7), (1076, 6),
        (1088, 6), (32, 12), (1082, 5), (1097, 4), (1095, 4), (1081, 3), (1094, 2), (44, 3),
        (46, 2)]),
     (44, [
        (32, 70), (1072, 5), (1080, 5), (1085, 4), (1087, 4), (1074, 3), (1086, 3), (1082, 2),
        (1089, 2), (1090, 2)]),
     (46, [
        (32, 80), (1053, 5), (1055, 4), (1042, 3), (1057, 3), (1052, 2), (1050, 2), (1054, 1)])]"

definition starters :: "(rune \<times> nat) list" where
  "starters = [
     (1087, 12), (1085, 10), (1074, 9), (1089, 9), (1086, 8), (1082, 7), (1084, 6), (1076, 6),
     (1090, 5), (1088, 5), (1073, 4), (1079, 4), (1080, 4), (1095, 3), (1091, 2), (1075, 2),
     (1083, 2), (1078, 1), (1072, 1)]"

definition bigramTransitions :: "rune \<Rightarrow> (rune \<times> nat) list option" where
  "bigramTransitions = map_of (bigramTransitions_1 @ bigramTransitions_2)"

text \<open>The running sums that \<open>init\<close> fills in, divided by the total.\<close>

fun running_sums :: "nat \<Rightarrow> (rune \<times> nat) list \<Rightarrow> (rune \<times> nat) list" where
  "running_sums s [] = []"
| "running_sums s ((c, p) # ts) = (c, s + p) # running_sums (s + p) ts"

definition cumulate :: "(rune \<times> nat) list \<Rightarrow> (rune \<times> real) list" where
  "cumulate ts = map (\<lambda>(c, s). (c, real s / real (sum_list (map snd ts)))) (running_sums 0 ts)"

definition trunc :: "real \<Rightarrow> int" where
  "trunc x = (if 0 \<le> x then \<lfloor>x\<rfloor> else \<lceil>x\<rceil>)"

definition unit_seed :: "real \<Rightarrow> real" where
  "unit_seed seed =
     (let r = (if 1 < seed then seed - real_of_int (trunc seed) else seed) in if r < 0 then - r else r)"

text \<open>The element of an empty slice does not exist: \<open>None\<close>.\<close>

definition pickFromTransitions :: "(rune \<times> nat) list \<Rightarrow> real \<Rightarrow> rune option" where
  "pickFromTransitions ts seed =
     (case find (\<lambda>(c, cumul). unit_seed seed \<le> cumul) (cumulate ts) of
        Some (c, _) \<Rightarrow> Some c
      | None \<Rightarrow> if ts = [] then None else Some (fst (last ts)))"

definition pickStarter :: "real \<Rightarrow> rune" where
  "pickStarter seed =
     (case find (\<lambda>(c, cumul). unit_seed seed \<le> cumul) (cumulate starters) of
        Some (c, _) \<Rightarrow> c | None \<Rightarrow> 1087)"

definition next_char :: "rune \<Rightarrow> real \<Rightarrow> rune option" where
  "next_char cur s =
     (case bigramTransitions cur of
        None \<Rightarrow> Some (pickStarter s)
      | Some ts \<Rightarrow> if length ts = 0 then Some (pickStarter s) else pickFromTransitions ts s)"

fun chain :: "real list \<Rightarrow> nat \<Rightarrow> nat \<Rightarrow> rune \<Rightarrow> rune list option" where
  "chain vector seedIdx 0 cur = Some []"
| "chain vector seedIdx (Suc n) cur =
     (case next_char cur \<bar>vector ! ((seedIdx + 1) mod length vector)\<bar> of
        None \<Rightarrow> None
      | Some c \<Rightarrow> map_option ((#) c) (chain vector (seedIdx + 1) n c))"

definition is_space :: "rune \<Rightarrow> bool" where
  "is_space r \<longleftrightarrow> r \<in> set [9, 10, 11, 12, 13, 32, 133, 160, 5760, 8232, 8233, 8239, 8287, 12288] \<or> 8192 \<le> r \<and> r \<le> 8202"

definition TrimSpace :: "rune list \<Rightarrow> rune list" where
  "TrimSpace rs = rev (dropWhile is_space (rev (dropWhile is_space rs)))"

text \<open>The runes of the result; \<open>None\<close> would be a panic.\<close>

definition text_length :: "real list \<Rightarrow> nat" where
  "text_length vector =
     (let len = trunc (sum_list vector / real (length vector) * 20) + 3;
          len1 = (if len < 3 then 3 else len);
          len2 = (if 30 < len1 then 30 else len1)
      in nat len2)"

definition vectorToText :: "real list \<Rightarrow> rune list option" where
  "vectorToText vector =
     (if length vector = 0 then Some [46, 46, 46]
      else let currentChar = pickStarter \<bar>vector ! 0\<bar>
           in map_option (\<lambda>cs. TrimSpace (currentChar # cs))
                (chain vector 0 (text_length vector - 1) currentChar))"

section \<open>Square roots and similarity\<close>

lemma newton_step_ge:
  assumes "0 < x" "0 < z" shows "sqrt x \<le> z - (z * z - x) / (2 * z)"
proof -
  have eq: "z - (z * z - x) / (2 * z) = (z + x / z) / 2" using assms by (simp add: field_simps)
  have "2 * sqrt x \<le> z + x / z"
  proof -
    have "(z - sqrt x)\<^sup>2 = z * z + x - 2 * (sqrt x * z)"
      using assms by (simp add: power2_diff) (simp add: power2_eq_square)
    then have "2 * sqrt x * z \<le> z * z + x" using zero_le_power2[of "z - sqrt x"] by linarith
    then show ?thesis using assms by (simp add: field_simps)
  qed
  then show ?thesis unfolding eq by simp
qed

lemma newton_ge: "0 < x \<Longrightarrow> sqrt x \<le> z \<Longrightarrow> sqrt x \<le> newton n x z"
proof (induction n arbitrary: z)
  case (Suc n)
  then have "0 < z" by (meson less_le_trans real_sqrt_gt_zero)
  with Suc newton_step_ge[of x z] show ?case by simp
qed simp

lemma go_sqrt_ge: "0 < x \<Longrightarrow> sqrt x \<le> go_sqrt x"
proof -
  assume x: "0 < x"
  have "newton 20 x x = newton 19 x (x - (x * x - x) / (2 * x))"
    by (metis newton.simps(2) eval_nat_numeral(2,3) BitM.simps)
  then show ?thesis using x newton_ge[OF x newton_step_ge[OF x x]] by (simp add: go_sqrt_def)
qed

lemma cauchy_schwarz_step:
  assumes "0 \<le> A" "0 \<le> B" "d\<^sup>2 \<le> A * B"
  shows "(a * b + d)\<^sup>2 \<le> (a * a + A) * (b * b + B :: real)"
proof -
  have d: "\<bar>d\<bar> \<le> sqrt A * sqrt B"
    using assms real_le_rsqrt[of "\<bar>d\<bar>" "A * B"] by (simp add: real_sqrt_mult)
  have "2 * (a * b * d) \<le> 2 * (\<bar>a\<bar> * \<bar>b\<bar> * \<bar>d\<bar>)" by (metis abs_ge_self abs_mult mult_left_mono zero_le_numeral)
  also have "\<dots> \<le> 2 * (\<bar>a\<bar> * \<bar>b\<bar> * (sqrt A * sqrt B))" using d by (intro mult_left_mono) simp_all
  also have "\<dots> \<le> (\<bar>b\<bar> * sqrt A)\<^sup>2 + (\<bar>a\<bar> * sqrt B)\<^sup>2"
    using sum_squares_bound[of "\<bar>b\<bar> * sqrt A" "\<bar>a\<bar> * sqrt B"] by (simp add: algebra_simps)
  also have "\<dots> = b * b * A + a * a * B" using assms(1,2) by (simp add: power_mult_distrib) (simp add: power2_eq_square)
  finally show ?thesis using assms(3) by (simp add: power2_eq_square algebra_simps)
qed

lemma sum_squares_nonneg: "0 \<le> sum_list (map2 (*) a (a :: real list))"
  by (induction a) auto

lemma cauchy_schwarz_list:
  "length a = length b \<Longrightarrow> (sum_list (map2 (*) a b))\<^sup>2 \<le> sum_list (map2 (*) a a) * sum_list (map2 (*) b (b :: real list))"
proof (induction a b rule: list_induct2)
  case (Cons x xs y ys)
  then show ?case
    using cauchy_schwarz_step[of "sum_list (map2 (*) xs xs)" "sum_list (map2 (*) ys ys)"] sum_squares_nonneg by simp
qed simp

lemma map2_times_commute: "map2 (*) a b = map2 (*) b (a :: real list)"
  by (induction a b rule: list_induct2') (simp_all add: mult.commute)

section \<open>Texts\<close>

definition allowed_next :: "rune \<Rightarrow> rune \<Rightarrow> bool" where
  "allowed_next c d \<longleftrightarrow> d \<in> fst ` set (case bigramTransitions c of None \<Rightarrow> starters | Some ts \<Rightarrow> ts)"

lemma fst_cumulate: "map fst (cumulate ts) = map fst ts"
proof -
  have "map fst (running_sums s ts) = map fst ts" for s by (induction ts arbitrary: s) auto
  then show ?thesis by (simp add: cumulate_def case_prod_unfold comp_def)
qed

lemma find_cumulate: "find P (cumulate ts) = Some (c, x) \<Longrightarrow> c \<in> fst ` set ts"
  by (metis find_SomeD fst_cumulate fst_conv image_eqI image_set)

lemma pickStarter_in: "pickStarter seed \<in> fst ` set starters"
proof (cases "find (\<lambda>(c, cumul). unit_seed seed \<le> cumul) (cumulate starters)")
  case None
  have "(1087 :: rune) \<in> fst ` set starters" by (simp add: starters_def)
  with None show ?thesis by (simp add: pickStarter_def)
qed (auto simp: pickStarter_def dest: find_cumulate)

lemma pickFromTransitions_in: "ts \<noteq> [] \<Longrightarrow> \<exists>c. pickFromTransitions ts seed = Some c \<and> c \<in> fst ` set ts"
  by (cases "find (\<lambda>(c, cumul). unit_seed seed \<le> cumul) (cumulate ts)")
    (auto simp: pickFromTransitions_def dest: find_cumulate)

lemma transitions_nonempty: "bigramTransitions c = Some ts \<Longrightarrow> ts \<noteq> []"
proof -
  assume "bigramTransitions c = Some ts"
  then have "(c, ts) \<in> set (bigramTransitions_1 @ bigramTransitions_2)"
    unfolding bigramTransitions_def by (rule map_of_SomeD)
  moreover have "list_all (\<lambda>(c, ts). ts \<noteq> []) (bigramTransitions_1 @ bigramTransitions_2)"
    by (simp add: bigramTransitions_1_def bigramTransitions_2_def)
  ultimately show "ts \<noteq> []" unfolding list_all_iff by blast
qed

lemma next_char_allowed: "\<exists>d. next_char c s = Some d \<and> allowed_next c d"
proof (cases "bigramTransitions c")
  case None
  then show ?thesis by (simp add: next_char_def allowed_next_def pickStarter_in)
next
  case (Some ts)
  with transitions_nonempty[OF Some] pickFromTransitions_in[of ts s] show ?thesis
    by (simp add: next_char_def allowed_next_def)
qed

lemma chain_allowed:
  "\<exists>cs. chain v i n c = Some cs \<and> length cs = n \<and> successively allowed_next (c # cs)"
proof (induction n arbitrary: i c)
  case (Suc n)
  obtain d where d: "next_char c \<bar>v ! ((i + 1) mod length v)\<bar> = Some d" "allowed_next c d"
    using next_char_allowed by blast
  obtain cs where "chain v (i + 1) n d = Some cs" "length cs = n" "successively allowed_next (d # cs)"
    using Suc.IH by blast
  with d show ?case by simp
qed simp

lemma TrimSpace_prefix:
  assumes "\<not> is_space c" shows "\<exists>ds es. c # cs = (c # ds) @ es \<and> TrimSpace (c # cs) = c # ds"
proof -
  have "TrimSpace (c # cs) = rev (dropWhile is_space (rev cs @ [c]))" using assms by (simp add: TrimSpace_def)
  also have "dropWhile is_space (rev cs @ [c]) = dropWhile is_space (rev cs) @ [c]"
    using assms by (induction "rev cs" arbitrary: cs) (auto simp: dropWhile_append)
  finally have t: "TrimSpace (c # cs) = c # rev (dropWhile is_space (rev cs))" by simp
  have "cs = rev (dropWhile is_space (rev cs)) @ rev (takeWhile is_space (rev cs))"
    by (metis rev_append rev_rev_ident takeWhile_dropWhile_id)
  with t show ?thesis by (metis append_Cons)
qed

lemma text_length_bounds: "3 \<le> text_length v \<and> text_length v \<le> 30"
  by (auto simp: text_length_def Let_def)

lemma successively_prefix: "successively P (xs @ ys) \<Longrightarrow> successively P xs"
  by (auto simp: successively_append_iff)

section \<open>Properties\<close>

text \<open>The similarity of two vectors is symmetric and lies within [-1, 1], although the square
  roots are approximated by Newton's method: the approximation is never too small.\<close>

theorem cosineSimilarity_bounds:
  "\<bar>cosineSimilarity a b\<bar> \<le> 1 \<and> cosineSimilarity a b = cosineSimilarity b a"
proof
  show "cosineSimilarity a b = cosineSimilarity b a"
  proof -
    have d: "sum_list (map2 (*) a b) = sum_list (map2 (*) b a)" by (simp only: map2_times_commute[of a b])
    show ?thesis unfolding cosineSimilarity_def Let_def d by (auto simp: mult.commute)
  qed
  let ?A = "sum_list (map2 (*) a a)" and ?B = "sum_list (map2 (*) b b)" and ?d = "sum_list (map2 (*) a b)"
  show "\<bar>cosineSimilarity a b\<bar> \<le> 1"
  proof (cases "length a \<noteq> length b \<or> length a = 0 \<or> ?A = 0 \<or> ?B = 0")
    case True
    then show ?thesis by (auto simp: cosineSimilarity_def Let_def)
  next
    case False
    then have pos: "0 < ?A" "0 < ?B" "length a = length b"
      using sum_squares_nonneg[of a] sum_squares_nonneg[of b] by linarith+
    have "\<bar>?d\<bar> \<le> sqrt ?A * sqrt ?B"
      using cauchy_schwarz_list[OF pos(3)] real_le_rsqrt[of "\<bar>?d\<bar>" "?A * ?B"] by (simp add: real_sqrt_mult)
    also have "\<dots> \<le> go_sqrt ?A * go_sqrt ?B"
    proof (rule mult_mono)
      show "0 \<le> go_sqrt ?A" using go_sqrt_ge[OF pos(1)] real_sqrt_gt_zero[OF pos(1)] by linarith
      show "0 \<le> sqrt ?B" using pos(2) by simp
    qed (rule go_sqrt_ge[OF pos(1)], rule go_sqrt_ge[OF pos(2)])
    finally have le: "\<bar>?d\<bar> \<le> go_sqrt ?A * go_sqrt ?B" .
    have "0 < go_sqrt ?A * go_sqrt ?B"
      using go_sqrt_ge[OF pos(1)] go_sqrt_ge[OF pos(2)] pos by (meson less_le_trans mult_pos_pos real_sqrt_gt_zero)
    with le False show ?thesis by (simp add: cosineSimilarity_def Let_def abs_divide)
  qed
qed

text \<open>The text generator never panics: for every vector that is not empty it returns a text of 1
  to 30 runes that begins with a starting letter and in which each rune may follow the one
  before it, by the transition table or, after a rune without an entry, as a new start.\<close>

theorem vectorToText_wellformed:
  assumes "v \<noteq> []"
  shows "\<exists>rs. vectorToText v = Some rs \<and> 1 \<le> length rs \<and> length rs \<le> 30 \<and>
    hd rs \<in> fst ` set starters \<and> successively allowed_next rs"
proof -
  let ?c = "pickStarter \<bar>v ! 0\<bar>"
  obtain cs where cs: "chain v 0 (text_length v - 1) ?c = Some cs" "length cs = text_length v - 1"
      "successively allowed_next (?c # cs)" using chain_allowed by blast
  have "list_all (\<lambda>p. \<not> is_space (fst p)) starters" by (simp add: starters_def is_space_def)
  then have ns: "\<not> is_space ?c" using pickStarter_in unfolding list_all_iff by fastforce
  obtain ds es where t: "?c # cs = (?c # ds) @ es" "TrimSpace (?c # cs) = ?c # ds"
    using TrimSpace_prefix[OF ns] by blast
  have "successively allowed_next (?c # ds)" using cs(3) successively_prefix[of _ "?c # ds" es] unfolding t(1) by blast
  moreover have "length (?c # ds) \<le> 30"
    using arg_cong[OF t(1), of length] cs(2) text_length_bounds[of v] by simp
  ultimately show ?thesis using assms cs(1) t(2) pickStarter_in by (simp add: vectorToText_def Let_def)
qed

theorem vectorToText_wellformed_witness:
  "\<exists>rs. vectorToText [1 / 2, 1 / 4] = Some rs \<and> hd rs \<in> fst ` set starters"
  using vectorToText_wellformed[of "[1 / 2, 1 / 4]"] by blast

lemma textToVector_step_nonneg:
  "\<forall>x \<in> set v. (0 :: real) \<le> x \<Longrightarrow> 0 \<le> d \<Longrightarrow> i < length v \<Longrightarrow> \<forall>x \<in> set (add_at i d v). 0 \<le> x"
  by (auto simp: add_at_def dest!: subsetD[OF set_update_subset_insert])

lemma fold_invariant: "I s \<Longrightarrow> (\<And>x s. x \<in> set xs \<Longrightarrow> I s \<Longrightarrow> I (f x s)) \<Longrightarrow> I (fold f xs s)"
  by (induction xs arbitrary: s) auto

text \<open>A text becomes a vector of dimension 100 with every component within [0, 1].\<close>

theorem textToVector_unit:
  assumes laws: "text_laws T"
  shows "length (textToVector T s) = 100 \<and> (\<forall>x \<in> set (textToVector T s). 0 \<le> x \<and> x \<le> 1)"
proof -
  define I where "I v \<longleftrightarrow> length v = 100 \<and> (\<forall>x \<in> set v. (0 :: real) \<le> x)" for v
  let ?t = "tl_ToLower T s"
  define v1 where "v1 = fold (\<lambda>(i, ch) v. add_at (i mod VectorDim) (real_of_int ch * (3 / 10)) v)
      (tl_range T ?t) (replicate VectorDim 0)"
  have I1: "I v1" unfolding v1_def
  proof (rule fold_invariant)
    show "I (replicate VectorDim 0)" by (simp add: I_def VectorDim_def)
    fix x v assume x: "x \<in> set (tl_range T ?t)" and v: "I v"
    obtain i ch where [simp]: "x = (i, ch)" by (cases x)
    have "0 \<le> ch" using laws x by (auto simp: text_laws_def)
    then show "I ((\<lambda>(i, ch) v. add_at (i mod VectorDim) (real_of_int ch * (3 / 10)) v) x v)"
      using v textToVector_step_nonneg[of v "real_of_int ch * (3 / 10)" "i mod VectorDim"]
      by (simp add: I_def VectorDim_def) (simp add: add_at_def)
  qed
  define v2 where "v2 = fold (\<lambda>i v. let h = tl_sha256 T (take 2 (drop i ?t))
      in map2 (\<lambda>j x. x + real (h ! (j mod length h)) / 255 * (7 / 10)) [0..<VectorDim] v) [0..<length ?t - 1] v1"
  have I2: "I v2" unfolding v2_def
  proof (rule fold_invariant)
    show "I v1" by (rule I1)
    fix i v assume "I v"
    then show "I (let h = tl_sha256 T (take 2 (drop i ?t))
        in map2 (\<lambda>j x. x + real (h ! (j mod length h)) / 255 * (7 / 10)) [0..<VectorDim] v)"
      by (auto simp: I_def VectorDim_def Let_def dest!: set_zip_rightD)
  qed
  define mx where "mx = fold (\<lambda>x m. if m < x then x else m) v2 0"
  have ge: "\<forall>m. m \<le> fold (\<lambda>x m. if m < x then x else m) v m \<and>
      (\<forall>x \<in> set v. x \<le> fold (\<lambda>x m. if m < x then x else m) v m)" for v :: "real list"
    by (induction v) (auto, (meson order_trans less_imp_le not_less)+)
  have "textToVector T s = (if 0 < mx then map (\<lambda>x. let y = x / mx in if 1 < y then 1 else y) v2 else v2)"
    by (simp only: textToVector_def Let_def v1_def v2_def mx_def)
  moreover have "\<forall>x \<in> set v2. x \<le> mx" using ge[of v2] by (simp add: mx_def)
  ultimately show ?thesis using I2 by (auto simp: I_def Let_def)
qed

lemma rune_nonneg: "(0 :: int) \<le> of_char c"
  by (cases c) (simp add: of_char_def)

definition demo_text :: text_lib where
  "demo_text = \<lparr>tl_ToLower = (\<lambda>s. s), tl_range = (\<lambda>s. enumerate 0 (map of_char s)), tl_sha256 = (\<lambda>s. replicate 32 7)\<rparr>"

theorem textToVector_unit_witness:
  "length (textToVector demo_text ''ab'') = 100 \<and> list_all (\<lambda>x. 0 \<le> x \<and> x \<le> 1) (textToVector demo_text ''ab'')"
proof -
  have "text_laws demo_text" by (auto simp: text_laws_def demo_text_def in_set_enumerate_eq rune_nonneg)
  from textToVector_unit[OF this] show ?thesis by (simp add: list_all_iff)
qed

end
