(* ===== verification/Channels.thy ===== *)
theory Channels
  imports Messages
begin

text \<open>
  node/channel.go and the associative memory of node/memory.go: channels whose messages are
  shown by the weight of the reader, and the record of who asked whom about what.
\<close>

section \<open>Channels\<close>

record channel =
  ch_ID :: string
  ch_Name :: string
  ch_Owner :: string
  ch_Messages :: "message list"
  ch_CreatedAt :: time
  ch_MinFullWeight :: real
  ch_MinCommentWeight :: real
  ch_MinVoteWeight :: real

definition NewChannel :: "time \<Rightarrow> string \<Rightarrow> string \<Rightarrow> string \<Rightarrow> channel" where
  "NewChannel now i name owner =
     \<lparr>ch_ID = i, ch_Name = name, ch_Owner = owner, ch_Messages = [], ch_CreatedAt = now,
      ch_MinFullWeight = 3 / 10, ch_MinCommentWeight = 5 / 10, ch_MinVoteWeight = 7 / 10\<rparr>"

definition Channel_AddMessage :: "message \<Rightarrow> channel \<Rightarrow> channel" where
  "Channel_AddMessage m c = c\<lparr>ch_Messages := ch_Messages c @ [m]\<rparr>"

definition Channel_GetVisibleMessages :: "real \<Rightarrow> channel \<Rightarrow> message list" where
  "Channel_GetVisibleMessages weight c =
     (if ch_MinFullWeight c \<le> weight then ch_Messages c
      else let n = length (ch_Messages c);
               count0 = n * 3 div 10;
               count1 = (if count0 < 1 then 1 else count0);
               count2 = (if n < count1 then n else count1)
           in drop (n - count2) (ch_Messages c))"

definition Channel_CanComment :: "real \<Rightarrow> channel \<Rightarrow> bool" where
  "Channel_CanComment weight c \<longleftrightarrow> ch_MinCommentWeight c \<le> weight"

definition Channel_CanVote :: "real \<Rightarrow> channel \<Rightarrow> bool" where
  "Channel_CanVote weight c \<longleftrightarrow> ch_MinVoteWeight c \<le> weight"

text \<open>The store: an association list for the map, in the order in which Go may range over it.\<close>

type_synonym channel_store = "(string \<times> channel) list"

definition NewChannelStore :: channel_store where
  "NewChannelStore = []"

definition ChannelStore_Create :: "time \<Rightarrow> string \<Rightarrow> string \<Rightarrow> string \<Rightarrow> channel_store \<Rightarrow> channel \<times> channel_store" where
  "ChannelStore_Create now i name owner cs =
     (let ch = NewChannel now i name owner in (ch, AList.update i ch cs))"

definition ChannelStore_Get :: "channel_store \<Rightarrow> string \<Rightarrow> channel option" where
  "ChannelStore_Get cs i = map_of cs i"

definition ChannelStore_GetAll :: "channel_store \<Rightarrow> channel list" where
  "ChannelStore_GetAll cs = map snd cs"

section \<open>Associations\<close>

record association =
  aso_FromPeerID :: string
  aso_ToPeerID :: string
  aso_Topic :: string
  aso_Count :: int
  aso_LastAsked :: time

type_synonym assoc_memory = "association list"

definition same_assoc :: "string \<Rightarrow> string \<Rightarrow> string \<Rightarrow> association \<Rightarrow> bool" where
  "same_assoc from to topic a \<longleftrightarrow> aso_FromPeerID a = from \<and> aso_ToPeerID a = to \<and> aso_Topic a = topic"

definition AssocMemory_AddAssociation :: "time \<Rightarrow> string \<Rightarrow> string \<Rightarrow> string \<Rightarrow> assoc_memory \<Rightarrow> assoc_memory" where
  "AssocMemory_AddAssociation now from to topic am =
     (if \<exists>a \<in> set am. same_assoc from to topic a
      then update_first (same_assoc from to topic) (\<lambda>a. a\<lparr>aso_Count := aso_Count a + 1, aso_LastAsked := now\<rparr>) am
      else am @ [\<lparr>aso_FromPeerID = from, aso_ToPeerID = to, aso_Topic = topic, aso_Count = 1, aso_LastAsked = now\<rparr>])"

definition AssocMemory_GetRecommendations :: "string \<Rightarrow> int \<Rightarrow> assoc_memory \<Rightarrow> string list" where
  "AssocMemory_GetRecommendations from minCount am =
     (let counts = fold (\<lambda>a m. if aso_FromPeerID a = from \<and> minCount \<le> aso_Count a
                       then AList.update (aso_ToPeerID a)
                              ((case map_of m (aso_ToPeerID a) of None \<Rightarrow> 0 | Some c \<Rightarrow> c) + aso_Count a) m
                       else m) am []
      in map fst (filter (\<lambda>(p, c). 0 < c) counts))"

definition AssocMemory_GetAllAssociations :: "assoc_memory \<Rightarrow> association list" where
  "AssocMemory_GetAllAssociations am = am"

text \<open>\<open>AddDate(0, 0, -days)\<close>, in a zone without daylight saving.\<close>

definition AssocMemory_CleanupOldAssociations :: "time \<Rightarrow> int \<Rightarrow> assoc_memory \<Rightarrow> assoc_memory" where
  "AssocMemory_CleanupOldAssociations now days am =
     filter (\<lambda>a. After (aso_LastAsked a) (now - days * 24 * Hour)) am"

section \<open>Lemmas\<close>

definition assoc_key :: "association \<Rightarrow> string \<times> string \<times> string" where
  "assoc_key a = (aso_FromPeerID a, aso_ToPeerID a, aso_Topic a)"

definition total_asked :: "assoc_memory \<Rightarrow> int" where
  "total_asked am = sum_list (map aso_Count am)"

lemma same_assoc_key: "same_assoc f t p a \<longleftrightarrow> assoc_key a = (f, t, p)"
  by (auto simp: same_assoc_def assoc_key_def)

lemma assoc_key_known:
  "(f, t, p) \<in> set (map assoc_key am) \<longleftrightarrow> (\<exists>a \<in> set am. same_assoc f t p a)"
  by (auto simp: same_assoc_key image_iff) metis

lemma AddAssociation_keys:
  "map assoc_key (AssocMemory_AddAssociation now f t p am) =
     (if (f, t, p) \<in> set (map assoc_key am) then map assoc_key am else map assoc_key am @ [(f, t, p)])"
proof -
  have "map assoc_key (update_first P (\<lambda>a. a\<lparr>aso_Count := aso_Count a + 1, aso_LastAsked := now\<rparr>) am) =
      map assoc_key am" for P by (induction am) (auto simp: assoc_key_def)
  then show ?thesis
    unfolding assoc_key_known AssocMemory_AddAssociation_def by (simp add: assoc_key_def)
qed

lemma total_update_first:
  "\<exists>a \<in> set am. P a \<Longrightarrow> total_asked (update_first P (\<lambda>a. a\<lparr>aso_Count := aso_Count a + 1, aso_LastAsked := now\<rparr>) am) =
     total_asked am + 1"
  by (induction am) (auto simp: total_asked_def)

section \<open>Properties\<close>

text \<open>A reader below the full weight of a channel sees a teaser: the most recent messages, in
  order, never more than three tenths of them except that one is shown when there is one; a
  reader with the full weight sees all, and nobody sees a message that is not in the channel.\<close>

theorem GetVisibleMessages_teaser:
  "\<exists>hidden. ch_Messages c = hidden @ Channel_GetVisibleMessages weight c \<and>
     (ch_MinFullWeight c \<le> weight \<longrightarrow> hidden = []) \<and>
     (\<not> ch_MinFullWeight c \<le> weight \<longrightarrow>
        length (Channel_GetVisibleMessages weight c) =
          min (length (ch_Messages c)) (max 1 (length (ch_Messages c) * 3 div 10)))"
proof (cases "ch_MinFullWeight c \<le> weight")
  case True
  then show ?thesis by (simp add: Channel_GetVisibleMessages_def)
next
  case False
  let ?n = "length (ch_Messages c)"
  let ?k = "min ?n (max 1 (?n * 3 div 10))"
  have v: "Channel_GetVisibleMessages weight c = drop (?n - ?k) (ch_Messages c)"
    using False by (auto simp: Channel_GetVisibleMessages_def Let_def min_def max_def)
  have "ch_Messages c = take (?n - ?k) (ch_Messages c) @ Channel_GetVisibleMessages weight c"
    unfolding v by simp
  moreover have "length (Channel_GetVisibleMessages weight c) = ?k" unfolding v by simp
  ultimately show ?thesis using False by blast
qed

theorem GetVisibleMessages_teaser_witness:
  "\<exists>c weight. \<not> ch_MinFullWeight c \<le> weight \<and> length (ch_Messages c) = 5 \<and>
     length (Channel_GetVisibleMessages weight c) = 1"
proof -
  let ?c = "(NewChannel 0 ''i'' ''n'' ''o'')\<lparr>ch_Messages := replicate 5 zero_message\<rparr>"
  have "\<not> ch_MinFullWeight ?c \<le> 0" "length (ch_Messages ?c) = 5" by (simp_all add: NewChannel_def)
  moreover from this have "length (Channel_GetVisibleMessages 0 ?c) = 1"
    using GetVisibleMessages_teaser[of ?c 0] by auto
  ultimately show ?thesis by blast
qed

text \<open>The associative memory counts: from the empty one, after any sequence of questions it has
  one entry for each triple of asker, asked and topic, and the counts add up to the number of
  questions.\<close>

theorem associations_count:
  "let am = fold (\<lambda>(now, f, t, p) am. AssocMemory_AddAssociation now f t p am) qs []
   in distinct (map assoc_key am) \<and> set (map assoc_key am) = (\<lambda>(now, q). q) ` set qs \<and>
      total_asked am = int (length qs)"
proof -
  have "distinct (map assoc_key (fold (\<lambda>(now, f, t, p) am. AssocMemory_AddAssociation now f t p am) qs am)) \<and>
      set (map assoc_key (fold (\<lambda>(now, f, t, p) am. AssocMemory_AddAssociation now f t p am) qs am)) =
        set (map assoc_key am) \<union> (\<lambda>(now, q). q) ` set qs \<and>
      total_asked (fold (\<lambda>(now, f, t, p) am. AssocMemory_AddAssociation now f t p am) qs am) =
        total_asked am + int (length qs)" if "distinct (map assoc_key am)" for am
    using that
  proof (induction qs arbitrary: am)
    case (Cons q qs)
    obtain now f t p where q: "q = (now, f, t, p)" by (cases q)
    let ?am = "AssocMemory_AddAssociation now f t p am"
    have "distinct (map assoc_key ?am)" using Cons.prems by (auto simp: AddAssociation_keys simp del: set_map)
    moreover have "set (map assoc_key ?am) = set (map assoc_key am) \<union> {(f, t, p)}"
      by (auto simp: AddAssociation_keys simp del: set_map)
    moreover have "total_asked ?am = total_asked am + 1"
      by (simp add: AssocMemory_AddAssociation_def total_update_first) (simp add: total_asked_def)
    ultimately show ?case using Cons.IH[of ?am] q by auto
  qed simp
  from this[of "[]"] show ?thesis by (simp add: total_asked_def Let_def)
qed

end
