(* ===== verification/Delivery.thy ===== *)
theory Delivery
  imports Interfaces "HOL-Library.Multiset"
begin

text \<open>
  The batched delivery receipts of node/node_service.go: \<open>queueDelivered\<close> collects message
  IDs per sender, a two-second timer or the tenth ID starts a flush, a flush takes the IDs
  and sends them as one [DELIVERED] message, and puts them back when the sending fails.

  The data under \<open>pendingDeliveredMu\<close> is the record \<open>delivery\<close>, each region of the mutex a
  definition.  The rest is concurrency: armed timers, timer callbacks that wait for the
  mutex, goroutines that run \<open>flushDelivered\<close>, and batches on their way to the network
  without the mutex.  They are the tasks of \<open>delivery_system\<close>, and the step relation
  \<open>delivery_step\<close> interleaves them in every order.  What was ever queued and what was sent
  is recorded beside them, for the statements.

  Timers have an identity, because \<open>Stop\<close> stops the timer that is in the map, which need
  not be the one whose callback is running.
\<close>

section \<open>The mutex regions\<close>

text \<open>\<open>pendingDelivered\<close>: a missing key reads as the nil slice.\<close>

record delivery =
  dv_pending :: "string \<Rightarrow> string list"
  dv_timers :: "string \<rightharpoonup> nat"

definition empty_delivery :: delivery where
  "empty_delivery = \<lparr>dv_pending = (\<lambda>_. []), dv_timers = Map.empty\<rparr>"

datatype timer_change = KeepTimers | StopTimer "nat option" | ArmTimer nat

text \<open>
  The region of \<open>queueDelivered\<close>: what it does to the timers, whether it starts a flush,
  and the new state; \<open>fresh\<close> is the timer that \<open>time.AfterFunc\<close> creates.
\<close>

definition queueDelivered ::
  "nat \<Rightarrow> string \<Rightarrow> string \<Rightarrow> delivery \<Rightarrow> timer_change \<times> bool \<times> delivery" where
  "queueDelivered fresh sender ref d =
     (if sender = [] \<or> ref = [] then (KeepTimers, False, d)
      else if ref \<in> set (dv_pending d sender) then (KeepTimers, False, d)
      else let refs = dv_pending d sender @ [ref];
               d' = d\<lparr>dv_pending := (dv_pending d)(sender := refs)\<rparr>;
               needFlush = 10 \<le> length refs
           in if needFlush
              then (StopTimer (dv_timers d sender), True, d'\<lparr>dv_timers := (dv_timers d)(sender := None)\<rparr>)
              else if dv_timers d sender = None
              then (ArmTimer fresh, False, d'\<lparr>dv_timers := (dv_timers d)(sender \<mapsto> fresh)\<rparr>)
              else (KeepTimers, False, d'))"

text \<open>The callback of the timer removes whatever timer the map has.\<close>

definition timer_callback :: "string \<Rightarrow> delivery \<Rightarrow> delivery" where
  "timer_callback sender d = d\<lparr>dv_timers := (dv_timers d)(sender := None)\<rparr>"

text \<open>The first region of \<open>flushDelivered\<close>: the stopped timer, and the batch when there is one.\<close>

definition flush_take :: "string \<Rightarrow> delivery \<Rightarrow> nat option \<times> string list option \<times> delivery" where
  "flush_take sender d =
     (let d' = d\<lparr>dv_timers := (dv_timers d)(sender := None)\<rparr>
      in if dv_pending d sender = [] then (dv_timers d sender, None, d')
         else (dv_timers d sender, Some (dv_pending d sender),
               d'\<lparr>dv_pending := (dv_pending d)(sender := [])\<rparr>))"

text \<open>The second region of \<open>flushDelivered\<close>, after a failed send.\<close>

definition flush_requeue :: "string \<Rightarrow> string list \<Rightarrow> delivery \<Rightarrow> delivery" where
  "flush_requeue sender refs d =
     d\<lparr>dv_pending := (dv_pending d)(sender :=
          fold (\<lambda>r ps. if r \<in> set ps then ps else ps @ [r]) refs (dv_pending d sender))\<rparr>"

section \<open>The interleavings\<close>

datatype delivery_task =
    Timer nat string
  | Callback string
  | Flush string
  | Sending string "string list"

record delivery_system =
  ds_data :: delivery
  ds_tasks :: "delivery_task multiset"
  ds_fresh :: nat
  ds_queued :: "(string \<times> string) set"
  ds_sent :: "(string \<times> string list) list"

definition delivery_start :: delivery_system where
  "delivery_start = \<lparr>ds_data = empty_delivery, ds_tasks = {#}, ds_fresh = 0, ds_queued = {}, ds_sent = []\<rparr>"

fun change_timers :: "string \<Rightarrow> timer_change \<Rightarrow> delivery_task multiset \<Rightarrow> delivery_task multiset" where
  "change_timers s KeepTimers T = T"
| "change_timers s (StopTimer None) T = T"
| "change_timers s (StopTimer (Some i)) T = T - {#Timer i s#}"
| "change_timers s (ArmTimer i) T = add_mset (Timer i s) T"

text \<open>A step is \<open>Outside\<close> when somebody calls the node, and \<open>Inside\<close> when one of its tasks goes on.\<close>

datatype delivery_origin = Outside | Inside

inductive delivery_step :: "delivery_origin \<Rightarrow> delivery_system \<Rightarrow> delivery_system \<Rightarrow> bool" where
  Queue: "queueDelivered (ds_fresh S) s r (ds_data S) = (tc, needFlush, d') \<Longrightarrow> s \<noteq> [] \<Longrightarrow> r \<noteq> [] \<Longrightarrow>
    delivery_step Outside S (S\<lparr>ds_data := d', ds_fresh := Suc (ds_fresh S),
      ds_tasks := (let T = change_timers s tc (ds_tasks S) in if needFlush then add_mset (Flush s) T else T),
      ds_queued := insert (s, r) (ds_queued S)\<rparr>)"
| Fire: "Timer i s \<in># ds_tasks S \<Longrightarrow>
    delivery_step Inside S (S\<lparr>ds_tasks := add_mset (Callback s) (ds_tasks S - {#Timer i s#})\<rparr>)"
| Run_callback: "Callback s \<in># ds_tasks S \<Longrightarrow>
    delivery_step Inside S (S\<lparr>ds_data := timer_callback s (ds_data S),
      ds_tasks := add_mset (Flush s) (ds_tasks S - {#Callback s#})\<rparr>)"
| Call_flush: "delivery_step Outside S (S\<lparr>ds_tasks := add_mset (Flush s) (ds_tasks S)\<rparr>)"
| Take: "Flush s \<in># ds_tasks S \<Longrightarrow> flush_take s (ds_data S) = (t, Some refs, d') \<Longrightarrow>
    delivery_step Inside S (S\<lparr>ds_data := d',
      ds_tasks := add_mset (Sending s refs) (change_timers s (StopTimer t) (ds_tasks S - {#Flush s#}))\<rparr>)"
| Take_nothing: "Flush s \<in># ds_tasks S \<Longrightarrow> flush_take s (ds_data S) = (t, None, d') \<Longrightarrow>
    delivery_step Inside S (S\<lparr>ds_data := d',
      ds_tasks := change_timers s (StopTimer t) (ds_tasks S - {#Flush s#})\<rparr>)"
| Send_ok: "Sending s refs \<in># ds_tasks S \<Longrightarrow>
    delivery_step Inside S (S\<lparr>ds_tasks := ds_tasks S - {#Sending s refs#}, ds_sent := ds_sent S @ [(s, refs)]\<rparr>)"
| Send_fails: "Sending s refs \<in># ds_tasks S \<Longrightarrow>
    delivery_step Inside S (S\<lparr>ds_data := flush_requeue s refs (ds_data S),
      ds_tasks := add_mset (Flush s) (ds_tasks S - {#Sending s refs#})\<rparr>)"

inductive_cases Outside_stepE: "delivery_step Outside S S'"
inductive_cases Inside_stepE: "delivery_step Inside S S'"

definition delivery_reachable :: "delivery_system \<Rightarrow> bool" where
  "delivery_reachable S \<longleftrightarrow> (\<lambda>S S'. \<exists>l. delivery_step l S S')\<^sup>*\<^sup>* delivery_start S"

section \<open>Invariants\<close>

lemma fold_requeue:
  "set (fold (\<lambda>r ps. if r \<in> set ps then ps else ps @ [r]) refs ps) = set ps \<union> set refs"
  "distinct ps \<Longrightarrow> distinct (fold (\<lambda>r ps. if r \<in> set ps then ps else ps @ [r]) refs ps)"
  by (induction refs arbitrary: ps) auto

lemma requeue_pending [simp]:
  "set (dv_pending (flush_requeue s refs d) s') =
     (if s' = s then set (dv_pending d s) \<union> set refs else set (dv_pending d s'))"
  "distinct (dv_pending d s') \<Longrightarrow> distinct (dv_pending (flush_requeue s refs d) s')"
  "dv_timers (flush_requeue s refs d) = dv_timers d"
  by (auto simp: flush_requeue_def fold_requeue)

lemma callback_simps [simp]:
  "dv_pending (timer_callback s d) = dv_pending d"
  "dv_timers (timer_callback s d) = (dv_timers d)(s := None)"
  by (simp_all add: timer_callback_def)

text \<open>Where a queued ID can be: waiting, in a batch on its way, or in a batch that was sent.\<close>

definition on_its_way :: "delivery_system \<Rightarrow> string \<Rightarrow> string \<Rightarrow> bool" where
  "on_its_way S s r \<longleftrightarrow> r \<in> set (dv_pending (ds_data S) s) \<or>
     (\<exists>refs. Sending s refs \<in># ds_tasks S \<and> r \<in> set refs) \<or>
     (\<exists>refs. (s, refs) \<in> set (ds_sent S) \<and> r \<in> set refs)"

definition good_batch :: "delivery_system \<Rightarrow> string \<Rightarrow> string list \<Rightarrow> bool" where
  "good_batch S s refs \<longleftrightarrow> refs \<noteq> [] \<and> distinct refs \<and> (\<forall>r \<in> set refs. (s, r) \<in> ds_queued S)"

definition has_runner :: "delivery_system \<Rightarrow> string \<Rightarrow> bool" where
  "has_runner S s \<longleftrightarrow> (\<exists>i. Timer i s \<in># ds_tasks S) \<or> Callback s \<in># ds_tasks S \<or> Flush s \<in># ds_tasks S"

text \<open>
  The last two of the conjuncts of \<open>delivery_inv\<close> say that an ID which waits has a task that will flush it: the timer in the
  map is armed, or has fired and its callback has not run.
\<close>

definition all_on_way :: "delivery_system \<Rightarrow> bool" where
  "all_on_way S \<longleftrightarrow> (\<forall>(s, r) \<in> ds_queued S. on_its_way S s r)"

definition pending_good :: "delivery_system \<Rightarrow> bool" where
  "pending_good S \<longleftrightarrow> (\<forall>s. distinct (dv_pending (ds_data S) s) \<and>
     (\<forall>r \<in> set (dv_pending (ds_data S) s). (s, r) \<in> ds_queued S))"

definition batches_good :: "delivery_system \<Rightarrow> bool" where
  "batches_good S \<longleftrightarrow>
     (\<forall>s refs. Sending s refs \<in># ds_tasks S \<or> (s, refs) \<in> set (ds_sent S) \<longrightarrow> good_batch S s refs)"

definition timers_run :: "delivery_system \<Rightarrow> bool" where
  "timers_run S \<longleftrightarrow>
     (\<forall>s i. dv_timers (ds_data S) s = Some i \<longrightarrow> Timer i s \<in># ds_tasks S \<or> Callback s \<in># ds_tasks S)"

definition waiting_has_runner :: "delivery_system \<Rightarrow> bool" where
  "waiting_has_runner S \<longleftrightarrow> (\<forall>s. dv_pending (ds_data S) s \<noteq> [] \<longrightarrow> has_runner S s)"

definition delivery_inv :: "delivery_system \<Rightarrow> bool" where
  "delivery_inv S \<longleftrightarrow>
     all_on_way S \<and> pending_good S \<and> batches_good S \<and> timers_run S \<and> waiting_has_runner S"

lemmas delivery_inv_defs =
  delivery_inv_def all_on_way_def pending_good_def batches_good_def timers_run_def waiting_has_runner_def

lemma delivery_inv_start: "delivery_inv delivery_start"
  by (simp add: delivery_inv_defs delivery_start_def empty_delivery_def)

lemma in_diff_other: "x \<noteq> y \<Longrightarrow> x \<in># T - {#y#} \<longleftrightarrow> x \<in># T"
  by (metis add_mset_remove_trivial diff_single_trivial in_diffD insert_DiffM insert_noteq_member)

lemma change_timers_keeps:
  "x \<in># change_timers s tc T" if "x \<in># T" "\<And>i. x \<noteq> Timer i s"
  using that by (cases "(s, tc, T)" rule: change_timers.cases) (auto simp: in_diff_other)

lemma in_diff_cases: "x \<in># T \<Longrightarrow> x = y \<or> x \<in># T - {#y#}"
  using in_diff_other by fastforce

lemma change_timers_new: "x \<in># change_timers s tc T \<Longrightarrow> x \<in># T \<or> (\<exists>i. x = Timer i s)"
  by (cases "(s, tc, T)" rule: change_timers.cases) (auto dest: in_diffD)

lemma queue_simps:
  assumes "queueDelivered i s r d = (tc, b, d')" "s \<noteq> []" "r \<noteq> []"
  shows "set (dv_pending d' s') = (if s' = s then insert r (set (dv_pending d s)) else set (dv_pending d s'))"
    "distinct (dv_pending d s') \<Longrightarrow> distinct (dv_pending d' s')"
  using assms by (auto simp: queueDelivered_def Let_def split: if_splits)

lemma step_way: "delivery_step l S S' \<Longrightarrow> all_on_way S \<Longrightarrow> all_on_way S'"
proof (induction rule: delivery_step.induct)
  case (Queue S s r tc needFlush d')
  show ?case
  proof -
    have "on_its_way (S\<lparr>ds_data := d', ds_fresh := Suc (ds_fresh S),
      ds_tasks := (let T = change_timers s tc (ds_tasks S) in if needFlush then add_mset (Flush s) T else T),
      ds_queued := insert (s, r) (ds_queued S)\<rparr>) s' r'" if "(s', r') = (s, r) \<or> on_its_way S s' r'" for s' r'
      using that queue_simps(1)[OF Queue(1-3), of s'] change_timers_keeps[of _ "ds_tasks S" s tc]
      by (fastforce simp: on_its_way_def Let_def)
    then show ?thesis using Queue.prems by (fastforce simp: all_on_way_def)
  qed
next
  case (Fire i s S)
  then show ?case by (fastforce simp: all_on_way_def on_its_way_def in_diff_other)
next
  case (Run_callback s S)
  then show ?case by (fastforce simp: all_on_way_def on_its_way_def in_diff_other)
next
  case (Call_flush S s)
  then show ?case by (fastforce simp: all_on_way_def on_its_way_def)
next
  case (Take s S t refs d')
  then show ?case 
   by (fastforce simp: all_on_way_def on_its_way_def flush_take_def Let_def in_diff_other split: if_splits
     intro!: change_timers_keeps)
next
  case (Take_nothing s S t d')
  then show ?case    by (fastforce simp: all_on_way_def on_its_way_def flush_take_def Let_def in_diff_other split: if_splits
     intro!: change_timers_keeps)
next
  case (Send_ok s refs S)
  then show ?case using in_diff_cases[of _ "ds_tasks S" "Sending s refs"] 
   by (fastforce simp: all_on_way_def on_its_way_def)
next
  case (Send_fails s refs S)
  let ?S = "S\<lparr>ds_data := flush_requeue s refs (ds_data S),
      ds_tasks := add_mset (Flush s) (ds_tasks S - {#Sending s refs#})\<rparr>"
  have "on_its_way ?S s' r" if "on_its_way S s' r" for s' r
    using that in_diff_cases[of "Sending s' _" "ds_tasks S" "Sending s refs"]
    by (auto simp: on_its_way_def split: if_splits)
  then show ?case using Send_fails.prems by (simp add: all_on_way_def) blast
qed

lemma step_pending: "delivery_step l S S' \<Longrightarrow> pending_good S \<Longrightarrow> batches_good S \<Longrightarrow> pending_good S'"
proof (induction rule: delivery_step.induct)
  case (Queue S s r tc needFlush d')
  then show ?case using queue_simps[OF Queue(1-3)] by (auto simp: pending_good_def split: if_splits)
qed (auto simp: pending_good_def batches_good_def good_batch_def flush_take_def Let_def split: if_splits)

lemma step_batches: "delivery_step l S S' \<Longrightarrow> pending_good S \<Longrightarrow> batches_good S \<Longrightarrow> batches_good S'"
proof (induction rule: delivery_step.induct)
  case (Queue S s r tc needFlush d')
  then show ?case 
  by (auto simp: batches_good_def good_batch_def Let_def dest!: change_timers_new split: if_splits)
next
  case (Take s S t refs d')
  then show ?case by (auto simp: batches_good_def pending_good_def good_batch_def flush_take_def Let_def dest!: change_timers_new in_diffD split: if_splits)
qed (auto simp: batches_good_def good_batch_def Let_def dest!: change_timers_new in_diffD split: if_splits)

lemma change_timers_simps [simp]:
  "Callback s' \<in># change_timers s tc T \<longleftrightarrow> Callback s' \<in># T"
  "Flush s' \<in># change_timers s tc T \<longleftrightarrow> Flush s' \<in># T"
  "s' \<noteq> s \<Longrightarrow> Timer i s' \<in># change_timers s tc T \<longleftrightarrow> Timer i s' \<in># T"
  by (cases "(s, tc, T)" rule: change_timers.cases; simp add: in_diff_other)+

lemma queue_timers:
  assumes "queueDelivered i s r d = (tc, b, d')"
  shows "s' \<noteq> s \<Longrightarrow> dv_timers d' s' = dv_timers d s'" "s' \<noteq> s \<Longrightarrow> dv_pending d' s' = dv_pending d s'"
  using assms by (auto simp: queueDelivered_def Let_def split: if_splits)

lemma step_timers: "delivery_step l S S' \<Longrightarrow> timers_run S \<Longrightarrow> timers_run S'"
proof (induction rule: delivery_step.induct)
  case (Queue S s r tc needFlush d')
  have "Timer i s \<in># change_timers s tc (ds_tasks S) \<or> Callback s \<in># ds_tasks S"
    if "dv_timers d' s = Some i" for i
    using that Queue by (fastforce simp: timers_run_def queueDelivered_def Let_def split: if_splits)
  then show ?case using Queue.prems queue_timers(1)[OF Queue(1)]
    unfolding timers_run_def by (auto simp: Let_def) (metis change_timers_simps(3))+
next
  case (Take s S t refs d')
  then show ?case by (fastforce simp: timers_run_def flush_take_def Let_def in_diff_other split: if_splits)
next
  case (Take_nothing s S t d')
  then show ?case by (fastforce simp: timers_run_def flush_take_def Let_def in_diff_other split: if_splits)
next
  case (Fire i s S)
  then show ?case unfolding timers_run_def
    by (simp add: in_diff_other) (metis delivery_task.inject(1) in_diff_other)
qed (fastforce simp: timers_run_def in_diff_other)+

lemma has_runner_other:
  assumes "has_runner S s'" "s' \<noteq> s"
  shows "has_runner (S\<lparr>ds_data := d, ds_tasks := change_timers s tc (ds_tasks S - {#Flush s#})\<rparr>) s'"
    and "has_runner (S\<lparr>ds_data := d, ds_tasks := add_mset (Sending s refs) (change_timers s tc (ds_tasks S - {#Flush s#}))\<rparr>) s'"
  using assms by (auto simp: has_runner_def in_diff_other)

lemma step_runner: "delivery_step l S S' \<Longrightarrow> timers_run S \<Longrightarrow> waiting_has_runner S \<Longrightarrow> waiting_has_runner S'"
proof (induction rule: delivery_step.induct)
  case (Queue S s r tc needFlush d')
  let ?S = "S\<lparr>ds_data := d', ds_fresh := Suc (ds_fresh S),
      ds_tasks := (let T = change_timers s tc (ds_tasks S) in if needFlush then add_mset (Flush s) T else T),
      ds_queued := insert (s, r) (ds_queued S)\<rparr>"
  have "has_runner ?S s"
  proof (cases "tc = KeepTimers \<and> \<not> needFlush")
    case True
    with Queue(1-3) have "dv_pending (ds_data S) s \<noteq> [] \<or> dv_timers (ds_data S) s \<noteq> None"
      by (auto simp: queueDelivered_def Let_def split: if_splits)
    with Queue.prems have "has_runner S s"
      by (auto simp: waiting_has_runner_def has_runner_def timers_run_def)
    with True show ?thesis by (simp add: has_runner_def)
  next
    case False
    with Queue(1) show ?thesis
      by (auto simp: queueDelivered_def has_runner_def Let_def split: if_splits)
  qed
  moreover have "has_runner ?S s'" if "dv_pending d' s' \<noteq> []" "s' \<noteq> s" for s'
    using that queue_timers(2)[OF Queue(1)] Queue.prems
    by (auto simp: waiting_has_runner_def has_runner_def Let_def)
  ultimately show ?case by (fastforce simp: waiting_has_runner_def)
next
  case (Fire i s S)
  have "has_runner (S\<lparr>ds_tasks := add_mset (Callback s) (ds_tasks S - {#Timer i s#})\<rparr>) s'"
    if "has_runner S s'" for s'
    using that by (cases "s' = s") (auto simp: has_runner_def in_diff_other)
  with Fire show ?case by (simp add: waiting_has_runner_def)
next
  case (Take s S t refs d')
  then have "dv_pending d' s = []" "\<And>s'. s' \<noteq> s \<Longrightarrow> dv_pending d' s' = dv_pending (ds_data S) s'"
    by (auto simp: flush_take_def Let_def split: if_splits)
  with Take.prems(2) show ?case unfolding waiting_has_runner_def
    by (simp del: change_timers.simps) (metis has_runner_other(2))
next
  case (Take_nothing s S t d')
  then have "dv_pending d' s = []" "\<And>s'. s' \<noteq> s \<Longrightarrow> dv_pending d' s' = dv_pending (ds_data S) s'"
    by (auto simp: flush_take_def Let_def split: if_splits)
  with Take_nothing.prems(2) show ?case unfolding waiting_has_runner_def
    by (simp del: change_timers.simps) (metis has_runner_other(1))
next
  case (Run_callback s S)
  then show ?case by (fastforce simp: waiting_has_runner_def has_runner_def in_diff_other)
next
  case (Call_flush S s)
  then show ?case by (auto simp: waiting_has_runner_def has_runner_def)
next
  case (Send_ok s refs S)
  then show ?case by (auto simp: waiting_has_runner_def has_runner_def in_diff_other)
next
  case (Send_fails s refs S)
  then show ?case by (auto simp: waiting_has_runner_def has_runner_def in_diff_other flush_requeue_def)
qed

lemma delivery_inv_step: "delivery_step l S S' \<Longrightarrow> delivery_inv S \<Longrightarrow> delivery_inv S'"
  unfolding delivery_inv_def
  using step_way step_pending step_batches step_timers step_runner by blast

interpretation receipts: interleaving "\<lambda>S. S = delivery_start" "\<lambda>S S'. \<exists>l. delivery_step l S S'" delivery_inv
  by unfold_locales (auto simp: delivery_inv_start delivery_inv_step)

lemma delivery_reachable_inv: "delivery_reachable S \<Longrightarrow> delivery_inv S"
  unfolding delivery_reachable_def by (rule receipts.reachable_invar) simp_all

section \<open>Properties\<close>

text \<open>C13.  No receipt is lost, whatever the interleaving of queueing, timers, flushes and failed
  sends: every queued ID waits, is in a batch on its way or was sent; and every batch on its way
  or sent is non-empty, has no ID twice, and has only IDs that were queued for that sender.\<close>

theorem delivery_never_lost:
  assumes "delivery_reachable S"
  shows "(\<forall>s r. (s, r) \<in> ds_queued S \<longrightarrow> on_its_way S s r) \<and>
     (\<forall>s refs. Sending s refs \<in># ds_tasks S \<or> (s, refs) \<in> set (ds_sent S) \<longrightarrow>
        refs \<noteq> [] \<and> distinct refs \<and> (\<forall>r \<in> set refs. (s, r) \<in> ds_queued S))"
  using delivery_reachable_inv[OF assms]
  by (auto simp: delivery_inv_def all_on_way_def batches_good_def good_batch_def)

lemma flush_completes:
  assumes "Flush s \<in># ds_tasks S" "dv_pending (ds_data S) s \<noteq> []"
  shows "\<exists>S'. (delivery_step Inside)\<^sup>*\<^sup>* S S' \<and> (s, dv_pending (ds_data S) s) \<in> set (ds_sent S') \<and>
     dv_pending (ds_data S') s = []"
proof -
  obtain t d' where t: "flush_take s (ds_data S) = (t, Some (dv_pending (ds_data S) s), d')"
    and d': "dv_pending d' s = []" using assms(2) by (simp add: flush_take_def Let_def)
  let ?S1 = "S\<lparr>ds_data := d', ds_tasks := add_mset (Sending s (dv_pending (ds_data S) s))
      (change_timers s (StopTimer t) (ds_tasks S - {#Flush s#}))\<rparr>"
  have s1: "delivery_step Inside S ?S1" using assms(1) t by (rule delivery_step.Take)
  have "delivery_step Inside ?S1 (?S1\<lparr>ds_tasks := ds_tasks ?S1 - {#Sending s (dv_pending (ds_data S) s)#},
      ds_sent := ds_sent ?S1 @ [(s, dv_pending (ds_data S) s)]\<rparr>)" (is "delivery_step _ _ ?S2")
    by (rule delivery_step.Send_ok) simp
  with s1 have "(delivery_step Inside)\<^sup>*\<^sup>* S ?S2" by (meson converse_rtranclp_into_rtranclp r_into_rtranclp)
  with d' show ?thesis by (intro exI[of _ ?S2]) simp
qed

text \<open>C29.  No receipt is stuck: when IDs wait for a sender, the tasks the node has already started are
  enough to send them, all in one batch, without anybody calling the node again.\<close>

theorem delivery_never_stuck:
  assumes "delivery_reachable S" and waits: "dv_pending (ds_data S) s \<noteq> []"
  shows "\<exists>S'. (delivery_step Inside)\<^sup>*\<^sup>* S S' \<and> (s, dv_pending (ds_data S) s) \<in> set (ds_sent S') \<and>
     dv_pending (ds_data S') s = []"
proof -
  have after_callback: ?thesis if c: "Callback s \<in># ds_tasks T" and T: "(delivery_step Inside)\<^sup>*\<^sup>* S T"
    "dv_pending (ds_data T) = dv_pending (ds_data S)" for T
  proof -
    let ?U = "T\<lparr>ds_data := timer_callback s (ds_data T),
      ds_tasks := add_mset (Flush s) (ds_tasks T - {#Callback s#})\<rparr>"
    have "delivery_step Inside T ?U" using c by (rule delivery_step.Run_callback)
    moreover have "Flush s \<in># ds_tasks ?U" "dv_pending (ds_data ?U) = dv_pending (ds_data S)"
      using T(2) by simp_all
    ultimately show ?thesis using flush_completes[of s ?U] T(1) waits
      by (metis (no_types, lifting) rtranclp.rtrancl_into_rtrancl rtranclp_trans)
  qed
  have "has_runner S s"
    using delivery_reachable_inv[OF assms(1)] waits by (simp add: delivery_inv_def waiting_has_runner_def)
  then consider i where "Timer i s \<in># ds_tasks S" | "Callback s \<in># ds_tasks S" | "Flush s \<in># ds_tasks S"
    by (auto simp: has_runner_def)
  then show ?thesis
  proof cases
    case (1 i)
    from delivery_step.Fire[OF this] show ?thesis
      by (intro after_callback[of "S\<lparr>ds_tasks := add_mset (Callback s) (ds_tasks S - {#Timer i s#})\<rparr>"]) auto
  next
    case 2
    then show ?thesis by (intro after_callback[of S]) auto
  next
    case 3
    then show ?thesis using flush_completes waits by blast
  qed
qed

definition delivery_demo :: delivery_system where
  "delivery_demo = \<lparr>ds_data = \<lparr>dv_pending = (\<lambda>_. [])(''s'' := [''r'']), dv_timers = [''s'' \<mapsto> 0]\<rparr>,
     ds_tasks = {#Timer 0 ''s''#}, ds_fresh = 1, ds_queued = {(''s'', ''r'')}, ds_sent = []\<rparr>"

lemma delivery_demo_reachable: "delivery_reachable delivery_demo"
proof -
  have "queueDelivered 0 ''s'' ''r'' empty_delivery =
      (ArmTimer 0, False, \<lparr>dv_pending = (\<lambda>_. [])(''s'' := [''r'']), dv_timers = [''s'' \<mapsto> 0]\<rparr>)"
    by (simp add: queueDelivered_def empty_delivery_def)
  from delivery_step.Queue[of delivery_start, unfolded delivery_start_def, simplified, OF this]
  have "delivery_step Outside delivery_start delivery_demo"
    by (simp add: delivery_demo_def delivery_start_def)
  then show ?thesis unfolding delivery_reachable_def by (intro r_into_rtranclp) blast
qed

theorem delivery_never_lost_witness: "on_its_way delivery_demo ''s'' ''r''"
  using delivery_never_lost[OF delivery_demo_reachable] by (simp add: delivery_demo_def)

theorem delivery_never_stuck_witness: "\<exists>S'. (delivery_step Inside)\<^sup>*\<^sup>* delivery_demo S' \<and> (''s'', [''r'']) \<in> set (ds_sent S')"
  using delivery_never_stuck[OF delivery_demo_reachable, of "''s''"] by (auto simp: delivery_demo_def)

end
