(* ===== verification/Batch.thy ===== *)
theory Batch
  imports Interfaces "HOL-Library.Multiset"
begin

text \<open>
  The text batches of node/node_batch.go: \<open>addToBatch\<close> collects texts per recipient, a batch
  goes out when there are ten texts, when the next text would take the JSON over 60 KB, or
  one second after the first text (\<open>flushAllBatches\<close>, called by a ticker).

  \<open>addToBatch\<close> gives the mutex away once, between taking the full buffer and starting a new
  one; its two regions are the definitions \<open>batch_enter\<close> and \<open>batch_restart\<close>.  Run one after
  the other they are \<open>addToBatch\<close>; the step relation \<open>batch_step\<close> lets other calls in between.
  The batch handed to \<open>go n.flushBatch\<close> is a pair of recipient and texts.
\<close>

section \<open>Buffers\<close>

datatype batch_text = BatchText (bt_ID: string) (bt_Text: string)

record batch_buffer =
  bb_Texts :: "batch_text list"
  bb_FirstAt :: time

text \<open>\<open>n.batchBuffers\<close>, in the order in which Go may range over it.\<close>

type_synonym batch_buffers = "(string \<times> batch_buffer) list"
type_synonym batch = "string \<times> batch_text list"

definition empty_buffer :: batch_buffer where
  "empty_buffer = \<lparr>bb_Texts = [], bb_FirstAt = 0\<rparr>"

definition buffer_of :: "batch_buffers \<Rightarrow> string \<Rightarrow> batch_buffer" where
  "buffer_of bs p = (case map_of bs p of None \<Rightarrow> empty_buffer | Some b \<Rightarrow> b)"

definition estimateBatchJSONSize :: "batch_text list \<Rightarrow> nat" where
  "estimateBatchJSONSize ts = fold (\<lambda>t size. size + (length (bt_ID t) + length (bt_Text t) + 30)) ts 20"

text \<open>
  The first region of \<open>addToBatch\<close>: the new buffers, the batch to flush, and the text with
  which the second region is still to restart the buffer.
\<close>

definition batch_enter ::
  "time \<Rightarrow> string \<Rightarrow> string \<Rightarrow> string \<Rightarrow> batch_buffers \<Rightarrow> batch_buffers \<times> batch option \<times> batch_text option" where
  "batch_enter now p textID text bs =
     (if p = [] \<or> textID = [] then (bs, None, None)
      else let buf = buffer_of bs p
           in if 0 < length (bb_Texts buf) \<and>
                 60 * 1024 < estimateBatchJSONSize (bb_Texts buf) + length textID + length text + 30
              then (AList.update p (buf\<lparr>bb_Texts := []\<rparr>) bs, Some (p, bb_Texts buf), Some (BatchText textID text))
              else let buf1 = (if IsZero (bb_FirstAt buf) then buf\<lparr>bb_FirstAt := now\<rparr> else buf);
                       texts = bb_Texts buf1 @ [BatchText textID text]
                   in if 10 \<le> length texts
                      then (AList.update p (buf1\<lparr>bb_Texts := []\<rparr>) bs, Some (p, texts), None)
                      else (AList.update p (buf1\<lparr>bb_Texts := texts\<rparr>) bs, None, None))"

definition batch_restart :: "string \<Rightarrow> batch_text \<Rightarrow> batch_buffers \<Rightarrow> batch_buffers" where
  "batch_restart p t bs = AList.update p \<lparr>bb_Texts = [t], bb_FirstAt = 0\<rparr> bs"

definition addToBatch ::
  "time \<Rightarrow> string \<Rightarrow> string \<Rightarrow> string \<Rightarrow> batch_buffers \<Rightarrow> batch_buffers \<times> batch list" where
  "addToBatch now p textID text bs =
     (case batch_enter now p textID text bs of
        (bs', flush, None) \<Rightarrow> (bs', case flush of None \<Rightarrow> [] | Some b \<Rightarrow> [b])
      | (bs', flush, Some t) \<Rightarrow> (batch_restart p t bs', case flush of None \<Rightarrow> [] | Some b \<Rightarrow> [b]))"

text \<open>Whether the ticker flushes a buffer, and the whole tick.\<close>

definition batch_due :: "time \<Rightarrow> batch_buffer \<Rightarrow> bool" where
  "batch_due now buf \<longleftrightarrow> bb_Texts buf \<noteq> [] \<and> \<not> time_Sub now (bb_FirstAt buf) < 1 * Second"

definition flushAllBatches :: "time \<Rightarrow> batch_buffers \<Rightarrow> batch_buffers \<times> batch list" where
  "flushAllBatches now bs =
     (map (\<lambda>(p, buf). (p, if batch_due now buf then empty_buffer else buf)) bs,
      map (\<lambda>(p, buf). (p, bb_Texts buf)) (filter (\<lambda>(p, buf). batch_due now buf) bs))"

section \<open>Runs without interleaving\<close>

datatype batch_call = AddText time string string string | Tick time

fun batch_call_step :: "batch_call \<Rightarrow> batch_buffers \<times> batch list \<Rightarrow> batch_buffers \<times> batch list" where
  "batch_call_step (AddText now p i t) (bs, out) = (let (bs', b) = addToBatch now p i t bs in (bs', out @ b))"
| "batch_call_step (Tick now) (bs, out) = (let (bs', b) = flushAllBatches now bs in (bs', out @ b))"

definition batch_run :: "batch_call list \<Rightarrow> batch_buffers \<times> batch list" where
  "batch_run cs = fold batch_call_step cs ([], [])"

fun texts_added :: "string \<Rightarrow> batch_call list \<Rightarrow> batch_text list" where
  "texts_added p [] = []"
| "texts_added p (AddText now q i t # cs) =
     (if q = p \<and> p \<noteq> [] \<and> i \<noteq> [] then BatchText i t # texts_added p cs else texts_added p cs)"
| "texts_added p (Tick now # cs) = texts_added p cs"

definition texts_out :: "string \<Rightarrow> batch list \<Rightarrow> batch_text list" where
  "texts_out p bs = concat (map snd (filter (\<lambda>b. fst b = p) bs))"

text \<open>A batch that fits: between one and ten texts, and within 60 KB unless it is one text.\<close>

definition batch_fits :: "batch_text list \<Rightarrow> bool" where
  "batch_fits ts \<longleftrightarrow> length ts \<le> 10 \<and> (length ts \<le> 1 \<or> estimateBatchJSONSize ts \<le> 60 * 1024)"

lemma estimate_Cons [simp]:
  "estimateBatchJSONSize (ts @ [t]) = estimateBatchJSONSize ts + (length (bt_ID t) + length (bt_Text t) + 30)"
  by (simp add: estimateBatchJSONSize_def)

lemma texts_out_simps [simp]:
  "texts_out p [] = []" "texts_out p (bs @ cs) = texts_out p bs @ texts_out p cs"
  "texts_out p [(q, ts)] = (if q = p then ts else [])"
  by (auto simp: texts_out_def)

lemma texts_added_append: "texts_added p (cs @ ds) = texts_added p cs @ texts_added p ds"
  by (induction p cs rule: texts_added.induct) auto

lemma buffer_of_update [simp]: "buffer_of (AList.update p b bs) q = (if q = p then b else buffer_of bs q)"
  by (simp add: buffer_of_def)

definition batch_inv :: "batch_buffers \<Rightarrow> bool" where
  "batch_inv bs \<longleftrightarrow> distinct (map fst bs) \<and>
     (\<forall>p. batch_fits (bb_Texts (buffer_of bs p)) \<and> length (bb_Texts (buffer_of bs p)) < 10)"

lemma add_conserves:
  assumes "batch_inv bs" "addToBatch now p i t bs = (bs', out)"
  shows "texts_out q out @ bb_Texts (buffer_of bs' q) =
       bb_Texts (buffer_of bs q) @ texts_added q [AddText now p i t]"
    and "batch_inv bs'" and "\<forall>b \<in> set out. snd b \<noteq> [] \<and> batch_fits (snd b)"
proof -
  show "texts_out q out @ bb_Texts (buffer_of bs' q) =
       bb_Texts (buffer_of bs q) @ texts_added q [AddText now p i t]"
    using assms by (auto simp: addToBatch_def batch_enter_def batch_restart_def Let_def split: if_splits)
  show "batch_inv bs'"
    using assms by (auto simp: addToBatch_def batch_enter_def batch_restart_def batch_inv_def batch_fits_def
        distinct_update Let_def split: if_splits)
  have "length (bb_Texts (buffer_of bs p)) < 10" using assms(1) by (simp add: batch_inv_def)
  then have "9 \<le> length (bb_Texts (buffer_of bs p)) \<Longrightarrow> length (bb_Texts (buffer_of bs p)) = 9" by simp
  then show "\<forall>b \<in> set out. snd b \<noteq> [] \<and> batch_fits (snd b)"
    using assms by (auto simp: addToBatch_def batch_enter_def batch_restart_def batch_inv_def batch_fits_def
        Let_def split: if_splits)
qed

lemma tick_buffer:
  assumes "flushAllBatches now bs = (bs', out)"
  shows "buffer_of bs' p = (if batch_due now (buffer_of bs p) then empty_buffer else buffer_of bs p)"
    and "map fst bs' = map fst bs"
proof -
  have bs': "bs' = map (\<lambda>(p, buf). (p, if batch_due now buf then empty_buffer else buf)) bs"
    using assms by (auto simp: flushAllBatches_def)
  show "buffer_of bs' p = (if batch_due now (buffer_of bs p) then empty_buffer else buffer_of bs p)"
    unfolding bs' buffer_of_def by (induction bs) (auto simp: empty_buffer_def batch_due_def)
  show "map fst bs' = map fst bs" unfolding bs' by (simp add: case_prod_unfold comp_def)
qed

lemma buffer_of_Cons: "buffer_of (x # bs) p = (if fst x = p then snd x else buffer_of bs p)"
  by (cases x) (simp add: buffer_of_def)

lemma texts_out_Cons: "texts_out p (b # bs) = (if fst b = p then snd b @ texts_out p bs else texts_out p bs)"
  by (simp add: texts_out_def)

lemma tick_out_list:
  "distinct (map fst bs) \<Longrightarrow>
     texts_out p (map (\<lambda>(p, buf). (p, bb_Texts buf)) (filter (\<lambda>(p, buf). batch_due now buf) bs)) =
     (if batch_due now (buffer_of bs p) then bb_Texts (buffer_of bs p) else [])"
proof (induction bs)
  case Nil
  show ?case by (simp add: texts_out_def buffer_of_def empty_buffer_def batch_due_def)
next
  case (Cons x bs)
  then have "map_of bs (fst x) = None" by (simp add: map_of_eq_None_iff)
  then have e: "buffer_of bs (fst x) = empty_buffer" by (simp add: buffer_of_def)
  have "\<not> batch_due now empty_buffer" by (simp add: batch_due_def empty_buffer_def)
  with Cons e show ?case
    by (cases "fst x = p") (simp_all add: texts_out_Cons buffer_of_Cons case_prod_unfold)
qed

lemma tick_out:
  assumes "distinct (map fst bs)" "flushAllBatches now bs = (bs', out)"
  shows "texts_out p out = (if batch_due now (buffer_of bs p) then bb_Texts (buffer_of bs p) else [])"
  using tick_out_list[OF assms(1)] assms(2) by (auto simp: flushAllBatches_def)

lemma tick_conserves:
  assumes "distinct (map fst bs)" "flushAllBatches now bs = (bs', out)"
  shows "texts_out q out @ bb_Texts (buffer_of bs' q) = bb_Texts (buffer_of bs q)"
  by (simp add: tick_buffer(1)[OF assms(2)] tick_out[OF assms] empty_buffer_def)

lemma tick_inv:
  assumes "batch_inv bs" "flushAllBatches now bs = (bs', out)"
  shows "batch_inv bs'" and "\<forall>b \<in> set out. snd b \<noteq> [] \<and> batch_fits (snd b)"
proof -
  show "batch_inv bs'" using assms(1) tick_buffer[OF assms(2)]
    by (auto simp: batch_inv_def empty_buffer_def batch_fits_def)
  have "buffer_of bs (fst x) = snd x" if "x \<in> set bs" for x
  proof -
    have "map_of bs (fst x) = Some (snd x)" using that assms(1) by (simp add: batch_inv_def)
    then show ?thesis by (simp add: buffer_of_def)
  qed
  then show "\<forall>b \<in> set out. snd b \<noteq> [] \<and> batch_fits (snd b)"
    using assms unfolding flushAllBatches_def batch_inv_def by (fastforce simp: batch_due_def)
qed

lemma batch_run_conserves:
  assumes "batch_run cs = (bs, out)"
  shows "batch_inv bs \<and> texts_out p out @ bb_Texts (buffer_of bs p) = texts_added p cs \<and>
     (\<forall>b \<in> set out. snd b \<noteq> [] \<and> batch_fits (snd b))"
  using assms
proof (induction cs arbitrary: bs out rule: rev_induct)
  case Nil
  then show ?case
    by (auto simp: batch_run_def batch_inv_def buffer_of_def empty_buffer_def batch_fits_def)
next
  case (snoc c cs)
  obtain bs1 out1 where r: "batch_run cs = (bs1, out1)" by fastforce
  note ih = snoc.IH[OF r]
  show ?case
  proof (cases c)
    case (AddText now q i t)
    obtain bs2 out2 where a: "addToBatch now q i t bs1 = (bs2, out2)" by fastforce
    with snoc.prems r AddText have "bs = bs2" "out = out1 @ out2" by (simp_all add: batch_run_def)
    with add_conserves[OF _ a] ih show ?thesis
      unfolding AddText texts_added_append by (auto simp del: texts_added.simps)
  next
    case (Tick now)
    obtain bs2 out2 where a: "flushAllBatches now bs1 = (bs2, out2)" by fastforce
    with snoc.prems r Tick have "bs = bs2" "out = out1 @ out2" by (simp_all add: batch_run_def)
    with tick_conserves[OF _ a] tick_inv[OF _ a] ih show ?thesis
      unfolding Tick texts_added_append by (auto simp: batch_inv_def[of bs1])
  qed
qed

section \<open>Properties of the batches\<close>

text \<open>C28.  Calls that are not interleaved lose no text and keep the order: for every recipient the texts of the batches
  in the order in which they are handed over to be sent, followed by those in the buffer, are the texts added,
  in order.  Every batch has one to ten texts, and the estimate of its JSON is at most 60 KB unless it is a
  single text, which goes out whatever its size.\<close>

theorem batch_keeps_order:
  "let (bs, out) = batch_run cs
   in texts_out p out @ bb_Texts (buffer_of bs p) = texts_added p cs \<and>
      list_all (\<lambda>b. snd b \<noteq> [] \<and> length (snd b) \<le> 10 \<and>
        (length (snd b) = 1 \<or> estimateBatchJSONSize (snd b) \<le> 60 * 1024)) out"
proof -
  obtain bs out where r: "batch_run cs = (bs, out)" by fastforce
  have "length ts = 1" if "ts \<noteq> []" "length ts \<le> Suc 0" for ts :: "batch_text list"
    using that by (cases ts) auto
  with batch_run_conserves[OF r, of p] r show ?thesis
    by (auto simp: list_all_iff batch_fits_def)
qed

section \<open>Interleaved calls\<close>

text \<open>
  A call of \<open>addToBatch\<close> between its two regions is a pair of recipient and text in
  \<open>bs_restarts\<close>; \<open>bs_out\<close> collects the batches handed over.
\<close>

record batch_system =
  bs_buffers :: batch_buffers
  bs_restarts :: "(string \<times> batch_text) multiset"
  bs_out :: "batch list"

inductive batch_step :: "batch_system \<Rightarrow> batch_system \<Rightarrow> bool" where
  Enter: "batch_enter now p i t (bs_buffers S) = (bs', flush, restart) \<Longrightarrow>
    batch_step S (S\<lparr>bs_buffers := bs',
      bs_restarts := (case restart of None \<Rightarrow> bs_restarts S | Some x \<Rightarrow> add_mset (p, x) (bs_restarts S)),
      bs_out := bs_out S @ (case flush of None \<Rightarrow> [] | Some b \<Rightarrow> [b])\<rparr>)"
| Restart: "(p, x) \<in># bs_restarts S \<Longrightarrow>
    batch_step S (S\<lparr>bs_buffers := batch_restart p x (bs_buffers S), bs_restarts := bs_restarts S - {#(p, x)#}\<rparr>)"
| Ticker: "flushAllBatches now (bs_buffers S) = (bs', out) \<Longrightarrow>
    batch_step S (S\<lparr>bs_buffers := bs', bs_out := bs_out S @ out\<rparr>)"

inductive_cases batch_stepE: "batch_step S S'"

definition text_somewhere :: "batch_system \<Rightarrow> string \<Rightarrow> batch_text \<Rightarrow> bool" where
  "text_somewhere S p x \<longleftrightarrow> x \<in> set (bb_Texts (buffer_of (bs_buffers S) p)) \<or>
     (p, x) \<in># bs_restarts S \<or> x \<in> set (texts_out p (bs_out S))"

lemma in_diff_single: "x \<in># T \<Longrightarrow> x \<noteq> y \<Longrightarrow> x \<in># T - {#y#}"
  by (metis insert_DiffM insert_noteq_member diff_single_trivial)

lemma enter_keeps:
  assumes "batch_enter now p i t bs = (bs', flush, restart)"
  shows "set (bb_Texts (buffer_of bs' q)) \<union> (case flush of None \<Rightarrow> {} | Some b \<Rightarrow> set (texts_out q [b])) \<supseteq>
     set (bb_Texts (buffer_of bs q))"
  using assms by (auto simp: batch_enter_def Let_def split: if_splits)

definition batch_start :: batch_system where
  "batch_start = \<lparr>bs_buffers = [], bs_restarts = {#}, bs_out = []\<rparr>"

definition batch_reachable :: "batch_system \<Rightarrow> bool" where
  "batch_reachable S \<longleftrightarrow> batch_step\<^sup>*\<^sup>* batch_start S"

lemma batch_step_distinct: "batch_step S S' \<Longrightarrow> distinct (map fst (bs_buffers S)) \<Longrightarrow> distinct (map fst (bs_buffers S'))"
  by (cases rule: batch_step.cases)
    (auto simp: batch_enter_def batch_restart_def Let_def distinct_update tick_buffer(2) split: if_splits)

interpretation batches: interleaving "\<lambda>S. S = batch_start" batch_step "\<lambda>S. distinct (map fst (bs_buffers S))"
  by unfold_locales (auto simp: batch_start_def intro: batch_step_distinct)

lemma batch_reachable_distinct: "batch_reachable S \<Longrightarrow> distinct (map fst (bs_buffers S))"
  unfolding batch_reachable_def by (erule batches.reachable_invar) simp

text \<open>A text is lost only by the race inside \<open>addToBatch\<close>: the one step after which a text is
  nowhere (in no buffer, no call and no batch) is another call that restarts the buffer of the
  same recipient, and the text was in that buffer.\<close>

theorem batch_loses_only_by_restart:
  assumes "batch_reachable S" "batch_step S S'" "text_somewhere S p x" "\<not> text_somewhere S' p x"
  shows "x \<in> set (bb_Texts (buffer_of (bs_buffers S) p)) \<and>
     (\<exists>y. (p, y) \<in># bs_restarts S \<and> bs_buffers S' = batch_restart p y (bs_buffers S))"
  using assms(2,3,4,1)
proof (induction rule: batch_step.induct)
  case (Enter now q i t S bs' flush restart)
  from enter_keeps[OF this(1), of p] Enter.prems show ?case
    by (auto simp: text_somewhere_def split: option.splits)
next
  case (Restart q y S)
  then have "q = p \<and> x \<in> set (bb_Texts (buffer_of (bs_buffers S) p))"
    by (cases "(q, y) = (p, x)") (auto simp: text_somewhere_def batch_restart_def in_diff_single split: if_splits)
  with Restart show ?case by auto
next
  case (Ticker now S bs' out)
  from tick_conserves[OF batch_reachable_distinct[OF Ticker.prems(3)] Ticker(1), of p]
  have "set (bb_Texts (buffer_of (bs_buffers S) p)) = set (texts_out p out) \<union> set (bb_Texts (buffer_of bs' p))"
    by (metis set_append)
  with Ticker.prems show ?case by (auto simp: text_somewhere_def)
qed

text \<open>The race: a buffer with one large text, a second text that does not fit, a third in between.\<close>

definition large_text :: string where "large_text = replicate 61440 CHR ''a''"

lemma length_large_text [simp]: "length large_text = 61440"
  by (simp add: large_text_def)

definition race_1 :: batch_system where
  "race_1 = \<lparr>bs_buffers = [(''p'', \<lparr>bb_Texts = [BatchText ''1'' large_text], bb_FirstAt = 1\<rparr>)],
     bs_restarts = {#}, bs_out = []\<rparr>"

definition race_2 :: batch_system where
  "race_2 = \<lparr>bs_buffers = [(''p'', \<lparr>bb_Texts = [], bb_FirstAt = 1\<rparr>)],
     bs_restarts = {#(''p'', BatchText ''2'' ''x'')#}, bs_out = [(''p'', [BatchText ''1'' large_text])]\<rparr>"

definition race_3 :: batch_system where
  "race_3 = race_2\<lparr>bs_buffers := [(''p'', \<lparr>bb_Texts = [BatchText ''3'' ''y''], bb_FirstAt = 1\<rparr>)]\<rparr>"

definition race_4 :: batch_system where
  "race_4 = race_2\<lparr>bs_buffers := [(''p'', \<lparr>bb_Texts = [BatchText ''2'' ''x''], bb_FirstAt = 0\<rparr>)], bs_restarts := {#}\<rparr>"

lemmas race_defs = race_1_def race_2_def race_3_def race_4_def batch_start_def

lemma race_steps:
  "batch_step batch_start race_1" "batch_step race_1 race_2" "batch_step race_2 race_3" "batch_step race_3 race_4"
proof -
  have e1: "batch_enter 1 ''p'' ''1'' large_text (bs_buffers batch_start) = (bs_buffers race_1, None, None)"
    by (simp add: batch_enter_def race_defs buffer_of_def empty_buffer_def IsZero_def Let_def)
  from batch_step.Enter[OF e1] show "batch_step batch_start race_1" by (simp add: race_defs)
  have e2: "batch_enter 1 ''p'' ''2'' ''x'' (bs_buffers race_1) =
      (bs_buffers race_2, Some (''p'', [BatchText ''1'' large_text]), Some (BatchText ''2'' ''x''))"
    by (simp add: batch_enter_def race_defs buffer_of_def estimateBatchJSONSize_def Let_def)
  from batch_step.Enter[OF e2] show "batch_step race_1 race_2" by (simp add: race_defs)
  have e3: "batch_enter 1 ''p'' ''3'' ''y'' (bs_buffers race_2) = (bs_buffers race_3, None, None)"
    by (simp add: batch_enter_def race_defs buffer_of_def IsZero_def Let_def)
  from batch_step.Enter[OF e3] show "batch_step race_2 race_3" by (simp add: race_defs)
  from batch_step.Restart[of "''p''" "BatchText ''2'' ''x''" race_3]
  show "batch_step race_3 race_4" by (simp add: race_defs batch_restart_def)
qed

theorem batch_loses_only_by_restart_witness:
  "batch_reachable race_3 \<and> batch_step race_3 race_4 \<and> text_somewhere race_3 ''p'' (BatchText ''3'' ''y'') \<and>
   \<not> text_somewhere race_4 ''p'' (BatchText ''3'' ''y'') \<and>
   bs_buffers race_4 = batch_restart ''p'' (BatchText ''2'' ''x'') (bs_buffers race_3)"
proof -
  have r: "batch_reachable race_3" unfolding batch_reachable_def
    using race_steps(1-3) by (meson rtranclp.rtrancl_into_rtrancl rtranclp.rtrancl_refl)
  have s: "text_somewhere race_3 ''p'' (BatchText ''3'' ''y'')"
    by (simp add: text_somewhere_def race_defs buffer_of_def)
  have n: "\<not> text_somewhere race_4 ''p'' (BatchText ''3'' ''y'')"
    by (simp add: text_somewhere_def race_defs buffer_of_def)
  from batch_loses_only_by_restart[OF r race_steps(4) s n]
  have "\<exists>y. (''p'', y) \<in># bs_restarts race_3 \<and> bs_buffers race_4 = batch_restart ''p'' y (bs_buffers race_3)"
    by blast
  with r s n race_steps(4) show ?thesis by (simp add: race_defs)
qed

end
