(* ===== verification/FileSystem.thy ===== *)
theory FileSystem
  imports Prelude "HOL-Library.Sublist"
begin

text \<open>
  The part of \<open>os\<close> and \<open>path/filepath\<close> that the file transfer uses, and the paths of
  node/state.go and node/media.go.

  A path is absolute, without symbolic links, and is the list of its components; a disk maps
  the paths of its files to their contents, and a directory exists when a file is under it.
  \<open>filepath.Join\<close> cleans what it joins, so a name that contains \<open>/\<close> and \<open>..\<close> leaves the
  directory it is joined to.  \<open>glob_match\<close> is \<open>filepath.Match\<close> on one component, whose
  characters are bytes.
\<close>

section \<open>Paths\<close>

type_synonym path = "string list"
type_synonym disk = "path \<rightharpoonup> string"

fun split_slash :: "string \<Rightarrow> string list" where
  "split_slash [] = [[]]"
| "split_slash (c # cs) =
     (if c = CHR ''/'' then [] # split_slash cs
      else case split_slash cs of [] \<Rightarrow> [[c]] | p # ps \<Rightarrow> (c # p) # ps)"

definition clean_step :: "path \<Rightarrow> string \<Rightarrow> path" where
  "clean_step acc c =
     (if c = [] \<or> c = ''.'' then acc else if c = ''..'' then butlast acc else acc @ [c])"

text \<open>\<open>filepath.Join(dir, name)\<close>, where \<open>dir\<close> is clean.\<close>

definition Join :: "path \<Rightarrow> string \<Rightarrow> path" where
  "Join dir name = foldl clean_step dir (split_slash name)"

section \<open>Patterns\<close>

text \<open>
  A pattern is parsed into items; a malformed one (\<open>ErrBadPattern\<close>) has none.  The parsers get
  the length of the pattern as fuel, and every step takes at least one character.
\<close>

datatype glob_item = Lit char | AnyChar | Star | CharClass bool "(char \<times> char) list"

fun class_char :: "string \<Rightarrow> (char \<times> string) option" where
  "class_char [] = None"
| "class_char (c # cs) =
     (if c = CHR ''-'' \<or> c = CHR '']'' then None
      else if c = CHR 0x5C then (case cs of [] \<Rightarrow> None | d # ds \<Rightarrow> if ds = [] then None else Some (d, ds))
      else if cs = [] then None else Some (c, cs))"

fun class_ranges :: "nat \<Rightarrow> string \<Rightarrow> ((char \<times> char) list \<times> string) option" where
  "class_ranges 0 cs = None"
| "class_ranges (Suc k) cs =
     (case class_char cs of
        None \<Rightarrow> None
      | Some (lo, ds) \<Rightarrow>
          (case (if ds \<noteq> [] \<and> hd ds = CHR ''-'' then class_char (tl ds) else Some (lo, ds)) of
             None \<Rightarrow> None
           | Some (hi, es) \<Rightarrow>
               if es \<noteq> [] \<and> hd es = CHR '']'' then Some ([(lo, hi)], tl es)
               else map_option (\<lambda>(rs, r). ((lo, hi) # rs, r)) (class_ranges k es)))"

fun parse_glob :: "nat \<Rightarrow> string \<Rightarrow> glob_item list option" where
  "parse_glob k [] = Some []"
| "parse_glob 0 (c # cs) = None"
| "parse_glob (Suc k) (c # cs) =
     (if c = CHR ''*'' then map_option (Cons Star) (parse_glob k cs)
      else if c = CHR ''?'' then map_option (Cons AnyChar) (parse_glob k cs)
      else if c = CHR 0x5C
      then (case cs of [] \<Rightarrow> None | d # ds \<Rightarrow> map_option (Cons (Lit d)) (parse_glob k ds))
      else if c = CHR ''[''
      then (let neg = cs \<noteq> [] \<and> hd cs = CHR ''^''
            in case class_ranges k (if neg then tl cs else cs) of
                 None \<Rightarrow> None
               | Some (rs, ds) \<Rightarrow> map_option (Cons (CharClass neg rs)) (parse_glob k ds))
      else map_option (Cons (Lit c)) (parse_glob k cs))"

function glob_items :: "glob_item list \<Rightarrow> string \<Rightarrow> bool" where
  "glob_items [] s \<longleftrightarrow> s = []"
| "glob_items (Lit c # is) s \<longleftrightarrow> s \<noteq> [] \<and> hd s = c \<and> glob_items is (tl s)"
| "glob_items (AnyChar # is) s \<longleftrightarrow> s \<noteq> [] \<and> glob_items is (tl s)"
| "glob_items (CharClass neg rs # is) s \<longleftrightarrow> s \<noteq> [] \<and>
     ((\<exists>(lo, hi) \<in> set rs. (of_char lo :: nat) \<le> of_char (hd s) \<and> (of_char (hd s) :: nat) \<le> of_char hi) \<longleftrightarrow> \<not> neg) \<and>
     glob_items is (tl s)"
| "glob_items (Star # is) s \<longleftrightarrow> glob_items is s \<or> (case s of [] \<Rightarrow> False | c # s' \<Rightarrow> glob_items (Star # is) s')"
  by pat_completeness auto
termination
  by (relation "measures [\<lambda>(is, _). length is, \<lambda>(_, s). length s]") auto

definition glob_match :: "string \<Rightarrow> string \<Rightarrow> bool" where
  "glob_match pat s = (case parse_glob (length pat) pat of None \<Rightarrow> False | Some is \<Rightarrow> glob_items is s)"

text \<open>
  \<open>filepath.Glob\<close>: the files whose path matches the pattern component by component.  A
  malformed pattern is an error, upon which the callers remove nothing.
\<close>

definition glob_path :: "path \<Rightarrow> path \<Rightarrow> bool" where
  "glob_path pat p \<longleftrightarrow> list_all2 glob_match pat p"

section \<open>Disk operations\<close>

definition os_Remove :: "path \<Rightarrow> disk \<Rightarrow> disk" where
  "os_Remove p d = d(p := None)"

definition os_RemoveAll :: "path \<Rightarrow> disk \<Rightarrow> disk" where
  "os_RemoveAll p d = (\<lambda>q. if prefix p q then None else d q)"

definition remove_glob :: "path \<Rightarrow> disk \<Rightarrow> disk" where
  "remove_glob pat d = (\<lambda>q. if glob_path pat q then None else d q)"

section \<open>The paths of the node\<close>

definition Node_sentPath :: "path \<Rightarrow> string \<Rightarrow> path" where
  "Node_sentPath dir mediaID = Join (dir @ [''isotope_media'', ''sent'']) (mediaID @ ''.bin'')"

definition Node_sentDirPath :: "path \<Rightarrow> path" where
  "Node_sentDirPath dir = dir @ [''isotope_media'', ''sent'']"

definition Node_filesDirPath :: "path \<Rightarrow> path" where
  "Node_filesDirPath dir = dir @ [''isotope_media'', ''files'']"

definition Node_metaPath :: "path \<Rightarrow> string \<Rightarrow> path" where
  "Node_metaPath dir mediaID =
     (let p = Node_sentPath dir mediaID in if p = [] then [''.meta''] else butlast p @ [last p @ ''.meta''])"

text \<open>The pattern and the directory of received chunks that \<open>DeleteFile\<close> removes.\<close>

definition files_pattern :: "path \<Rightarrow> string \<Rightarrow> path" where
  "files_pattern dir mediaID = Join (Node_filesDirPath dir) (mediaID @ ''.*'')"

definition chunks_dir :: "path \<Rightarrow> string \<Rightarrow> path" where
  "chunks_dir dir mediaID = Join (Node_filesDirPath dir @ [''chunks'']) mediaID"

section \<open>Plain names\<close>

text \<open>
  The names \<open>generateMsgID\<close> makes, hexadecimal digits, have no separator and no special
  character.
\<close>

definition plain_char :: "char \<Rightarrow> bool" where
  "plain_char c \<longleftrightarrow> c \<in> set ''0123456789abcdef''"

definition plain_name :: "string \<Rightarrow> bool" where
  "plain_name s \<longleftrightarrow> s \<noteq> [] \<and> list_all plain_char s"

lemma split_slash_none: "CHR ''/'' \<notin> set s \<Longrightarrow> split_slash s = [s]"
  by (induction s) auto

lemma plain_no_slash: "plain_name s \<Longrightarrow> CHR ''/'' \<notin> set s"
  by (auto simp: plain_name_def plain_char_def list_all_iff)

lemma plain_not_dots: "plain_name s \<Longrightarrow> s @ t \<noteq> [] \<and> s @ t \<noteq> ''.'' \<and> s @ t \<noteq> ''..''"
  by (cases s) (auto simp: plain_name_def plain_char_def)

lemma Join_plain: "plain_name s \<Longrightarrow> CHR ''/'' \<notin> set t \<Longrightarrow> Join dir (s @ t) = dir @ [s @ t]"
  using plain_no_slash[of s] plain_not_dots[of s t]
  by (simp add: Join_def split_slash_none clean_step_def)

lemma plain_paths:
  assumes "plain_name i"
  shows "Node_sentPath dir i = Node_sentDirPath dir @ [i @ ''.bin'']"
    "Node_metaPath dir i = Node_sentDirPath dir @ [i @ ''.bin.meta'']"
    "files_pattern dir i = Node_filesDirPath dir @ [i @ ''.*'']"
    "chunks_dir dir i = Node_filesDirPath dir @ [''chunks'', i]"
proof -
  show s: "Node_sentPath dir i = Node_sentDirPath dir @ [i @ ''.bin'']"
    unfolding Node_sentPath_def Node_sentDirPath_def using assms by (subst Join_plain) simp_all
  show "Node_metaPath dir i = Node_sentDirPath dir @ [i @ ''.bin.meta'']"
    by (simp add: Node_metaPath_def s)
  show "files_pattern dir i = Node_filesDirPath dir @ [i @ ''.*'']"
    unfolding files_pattern_def using assms by (subst Join_plain) simp_all
  show "chunks_dir dir i = Node_filesDirPath dir @ [''chunks'', i]"
    unfolding chunks_dir_def using Join_plain[OF assms, of "[]"] by simp
qed

lemma parse_glob_plain:
  "list_all plain_char s \<Longrightarrow> parse_glob (length s + k) (s @ t) = map_option (\<lambda>is. map Lit s @ is) (parse_glob k t)"
proof (induction s)
  case (Cons c s)
  then have "c \<noteq> CHR ''*'' \<and> c \<noteq> CHR ''?'' \<and> c \<noteq> CHR 0x5C \<and> c \<noteq> CHR ''[''"
    by (auto simp: plain_char_def)
  with Cons show ?case by (simp add: option.map_comp comp_def)
qed (cases "parse_glob k t", simp_all)

lemma glob_items_lits: "glob_items (map Lit s @ is) x \<longleftrightarrow> (\<exists>y. x = s @ y \<and> glob_items is y)"
proof (induction s arbitrary: x)
  case (Cons c s)
  then show ?case by (cases x) auto
qed simp

lemma glob_items_star: "glob_items [Star] s"
  by (induction s) auto

lemma glob_plain:
  assumes "plain_name i"
  shows "glob_match (i @ ''.*'') x \<longleftrightarrow> prefix (i @ ''.'') x"
proof -
  have "parse_glob (length (i @ ''.*'')) (i @ ''.*'') = Some (map Lit (i @ ''.'') @ [Star])"
    using parse_glob_plain[of i 2 "''.*''"] assms by (simp add: plain_name_def numeral_2_eq_2)
  then have "glob_match (i @ ''.*'') x \<longleftrightarrow> (\<exists>y. x = (i @ ''.'') @ y)"
    unfolding glob_match_def using glob_items_lits[of "i @ ''.''" "[Star]" x] glob_items_star by simp
  then show ?thesis by (simp add: prefix_def)
qed

end
