(* ===== verification/GoStrings.thy ===== *)
theory GoStrings
  imports Prelude "HOL-Library.Sublist"
begin

text \<open>
  The operations of Go's \<open>strings\<close> and \<open>strconv\<close> that the code uses, on strings as lists of
  bytes.  \<open>HasPrefix\<close> is \<open>prefix\<close> and \<open>Contains\<close> is \<open>sublist\<close>.  \<open>strings_TrimSpace\<close> trims the ASCII
  white space; Go also trims the Unicode white space beyond it.
\<close>

section \<open>strings\<close>

definition TrimPrefix :: "string \<Rightarrow> string \<Rightarrow> string" where
  "TrimPrefix s p = (if prefix p s then drop (length p) s else s)"

definition ascii_space :: "char \<Rightarrow> bool" where
  "ascii_space c \<longleftrightarrow> c \<in> {CHR 0x09, CHR 0x0A, CHR 0x0B, CHR 0x0C, CHR 0x0D, CHR '' ''}"

definition strings_TrimSpace :: "string \<Rightarrow> string" where
  "strings_TrimSpace s = rev (dropWhile ascii_space (rev (dropWhile ascii_space s)))"

fun Split :: "char \<Rightarrow> string \<Rightarrow> string list" where
  "Split sep [] = [[]]"
| "Split sep (c # cs) =
     (if c = sep then [] # Split sep cs
      else case Split sep cs of [] \<Rightarrow> [[c]] | p # ps \<Rightarrow> (c # p) # ps)"

text \<open>\<open>strings.SplitN(s, sep, n)\<close> for a positive \<open>n\<close>.\<close>

fun SplitN :: "char \<Rightarrow> nat \<Rightarrow> string \<Rightarrow> string list" where
  "SplitN sep n [] = [[]]"
| "SplitN sep n (c # cs) =
     (if n \<le> 1 then [c # cs]
      else if c = sep then [] # SplitN sep (n - 1) cs
      else case SplitN sep n cs of [] \<Rightarrow> [[c]] | p # ps \<Rightarrow> (c # p) # ps)"

fun string_join :: "string \<Rightarrow> string list \<Rightarrow> string" where
  "string_join sep [] = []"
| "string_join sep [x] = x"
| "string_join sep (x # y # ys) = x @ sep @ string_join sep (y # ys)"

text \<open>\<open>strings.Index\<close>; \<open>None\<close> is -1.\<close>

fun Index :: "string \<Rightarrow> string \<Rightarrow> nat option" where
  "Index s p = (if prefix p s then Some 0 else case s of [] \<Rightarrow> None | c # cs \<Rightarrow> map_option Suc (Index cs p))"

declare Index.simps [simp del]

text \<open>\<open>strings.Replace(s, old, new, 1)\<close>\<close>

definition Replace1 :: "string \<Rightarrow> string \<Rightarrow> string \<Rightarrow> string" where
  "Replace1 s old new = (case Index s old of None \<Rightarrow> s
     | Some i \<Rightarrow> take i s @ new @ drop (i + length old) s)"

lemma strings_TrimSpace_id:
  assumes "s \<noteq> []" "\<not> ascii_space (hd s)" "\<not> ascii_space (last s)"
  shows "strings_TrimSpace s = s"
proof -
  from assms have "dropWhile ascii_space s = s" "dropWhile ascii_space (rev s) = rev s"
    by (simp_all add: dropWhile_eq_self_iff hd_rev)
  then show ?thesis by (simp add: strings_TrimSpace_def)
qed

lemma Split_none: "sep \<notin> set s \<Longrightarrow> Split sep s = [s]"
  by (induction s) auto

lemma Split_append: "sep \<notin> set s \<Longrightarrow> Split sep (s @ sep # t) = s # Split sep t"
  by (induction s) auto

lemma Split_lines:
  "\<forall>a \<in> set as. sep \<notin> set a \<Longrightarrow> Split sep (concat (map (\<lambda>a. a @ [sep]) as) @ t) = as @ Split sep t"
  by (induction as) (auto simp: Split_append)

section \<open>strconv\<close>

text \<open>\<open>strconv.Itoa\<close> and the verb \<open>%d\<close>.\<close>

fun decimal_nat :: "nat \<Rightarrow> string" where
  "decimal_nat k = (if k < 10 then [char_of (48 + k)] else decimal_nat (k div 10) @ [char_of (48 + k mod 10)])"

definition decimal :: "int \<Rightarrow> string" where
  "decimal i = (if i < 0 then CHR ''-'' # decimal_nat (nat (- i)) else decimal_nat (nat i))"

declare decimal_nat.simps [simp del]

text \<open>\<open>strconv.Atoi\<close>: an optional sign and digits, within 64 bits.\<close>

definition is_digit :: "char \<Rightarrow> bool" where
  "is_digit c \<longleftrightarrow> 48 \<le> (of_char c :: nat) \<and> (of_char c :: nat) \<le> 57"

definition digits_value :: "string \<Rightarrow> nat" where
  "digits_value s = foldl (\<lambda>v c. 10 * v + (of_char c - 48)) 0 s"

definition Atoi :: "string \<Rightarrow> int option" where
  "Atoi s =
     (let neg = s \<noteq> [] \<and> hd s = CHR ''-'';
          ds = (if s \<noteq> [] \<and> (hd s = CHR ''-'' \<or> hd s = CHR ''+'') then tl s else s);
          v = (if neg then - int (digits_value ds) else int (digits_value ds))
      in if ds = [] \<or> \<not> list_all is_digit ds \<or> v < min_int64 \<or> max_int64 < v then None else Some v)"

lemma of_char_digit: "k < 10 \<Longrightarrow> of_char (char_of (48 + k) :: char) = (48 + k :: nat)"
  by (simp add: of_char_of take_bit_eq_mod)

lemma decimal_nat_digits: "decimal_nat k \<noteq> [] \<and> list_all is_digit (decimal_nat k) \<and> digits_value (decimal_nat k) = k"
proof (induction k rule: decimal_nat.induct)
  case (1 k)
  have d: "is_digit (char_of (48 + j))" if "j < 10" for j :: nat
    using that by (simp add: is_digit_def of_char_digit)
  show ?case
  proof (cases "k < 10")
    case True
    then show ?thesis by (simp add: decimal_nat.simps[of k] d digits_value_def of_char_digit)
  next
    case False
    with 1 show ?thesis
      by (simp add: decimal_nat.simps[of k] d digits_value_def of_char_digit)
  qed
qed

lemma digits_no_sign: "list_all is_digit s \<Longrightarrow> s \<noteq> [] \<Longrightarrow> hd s \<noteq> CHR ''-'' \<and> hd s \<noteq> CHR ''+''"
  by (cases s) (auto simp: is_digit_def)

lemma Atoi_decimal: "min_int64 \<le> i \<Longrightarrow> i \<le> max_int64 \<Longrightarrow> Atoi (decimal i) = Some i"
  using decimal_nat_digits[of "nat i"] decimal_nat_digits[of "nat (- i)"] digits_no_sign[of "decimal_nat (nat i)"]
  by (auto simp: Atoi_def decimal_def Let_def)

end
