(* ===== verification/Addresses.thy ===== *)
theory Addresses
  imports GoStrings
begin

text \<open>
  The texts peers exchange about addresses: the announcement and its answers
  (node/node_announce.go), the list of bootstrap addresses with their alternative transports
  (node/node_p2p.go), and how a stream is read up to a line.  What libp2p makes of an address
  is a parameter of the theories that use it.
\<close>

section \<open>Prefixes\<close>

definition ANNOUNCE_PREFIX :: string where "ANNOUNCE_PREFIX = ''[ANNOUNCE]''"
definition FIND_PREFIX :: string where "FIND_PREFIX = ''[FIND]''"
definition FOUND_PREFIX :: string where "FOUND_PREFIX = ''[FOUND]''"
definition NOT_FOUND_PREFIX :: string where "NOT_FOUND_PREFIX = ''[NOT_FOUND]''"
definition END_PREFIX :: string where "END_PREFIX = ''[END]''"
definition REPLICA_PREFIX :: string where "REPLICA_PREFIX = ''[REPLICA]''"
definition SPHINX_PREFIX :: string where "SPHINX_PREFIX = ''[SPHINX]''"
definition RESTORE_PREFIX :: string where "RESTORE_PREFIX = ''[RESTORE]''"
definition STEGO_PREFIX :: string where "STEGO_PREFIX = ''[STEGO]''"

lemmas line_prefixes = ANNOUNCE_PREFIX_def FIND_PREFIX_def FOUND_PREFIX_def NOT_FOUND_PREFIX_def END_PREFIX_def
  REPLICA_PREFIX_def SPHINX_PREFIX_def RESTORE_PREFIX_def STEGO_PREFIX_def

abbreviation newline :: char where "newline \<equiv> CHR 0x0A"

section \<open>Lists of addresses\<close>

text \<open>What \<open>SendAnnounce\<close> and the answer to [FIND] write.\<close>

definition address_lines :: "string \<Rightarrow> string list \<Rightarrow> string" where
  "address_lines p addrs =
     p @ [newline] @ concat (map (\<lambda>a. a @ [newline]) addrs) @ END_PREFIX @ [newline]"

definition parseMultiaddrsResponse :: "string \<Rightarrow> string \<Rightarrow> string list" where
  "parseMultiaddrsResponse response p =
     (case Split newline response of
        [] \<Rightarrow> []
      | first # rest \<Rightarrow>
          if strings_TrimSpace first \<noteq> p then []
          else filter (\<lambda>line. line \<noteq> [] \<and> line \<noteq> END_PREFIX) (map strings_TrimSpace rest))"

section \<open>Reading a stream\<close>

text \<open>
  The loop of \<open>handleStream\<close>: \<open>reads\<close> is what the calls of \<open>stream.Read\<close> return before an
  error or the end.
\<close>

fun read_stream :: "string list \<Rightarrow> string \<Rightarrow> string" where
  "read_stream [] full = full"
| "read_stream (r # rs) full =
     (if newline \<in> set r then full @ r
      else if 4 * 1024 * 1024 < length (full @ r) then full @ r
      else read_stream rs (full @ r))"

definition stream_message :: "string list \<Rightarrow> string" where
  "stream_message reads = strings_TrimSpace (read_stream reads [])"

section \<open>Bootstrap addresses\<close>

definition expandTransportAlternatives :: "string \<Rightarrow> string list" where
  "expandTransportAlternatives addr =
     (case Index addr ''/tcp/'' of
        None \<Rightarrow> [addr]
      | Some i \<Rightarrow>
          let portStart = i + length ''/tcp/'';
              digits = takeWhile is_digit (drop portStart addr);
              portEnd = portStart + length digits
          in case Atoi digits of
               None \<Rightarrow> [addr]
             | Some port \<Rightarrow>
                 if sublist ''/ws'' addr
                 then [addr, take portStart addr @ decimal (wrap64 (port - 1)) @ Replace1 (drop portEnd addr) ''/ws'' []]
                 else [addr, take portStart addr @ decimal (wrap64 (port + 1)) @ ''/ws'' @ drop portEnd addr])"

definition trimmed_parts :: "char \<Rightarrow> string \<Rightarrow> string list" where
  "trimmed_parts sep s = filter (\<lambda>p. p \<noteq> []) (map strings_TrimSpace (Split sep s))"

text \<open>\<open>env\<close> is ISOTOPE_BOOTSTRAP_PEERS, empty when unset, \<open>txt\<close> is bootstrap.txt when it can be read.\<close>

definition loadBootstrapPeers :: "string list \<Rightarrow> string \<Rightarrow> string option \<Rightarrow> string list" where
  "loadBootstrapPeers config env txt =
     (let raw = (if 0 < length config then config
            else (if env \<noteq> [] then trimmed_parts (CHR '','') env else []) @
                 (case txt of None \<Rightarrow> [] | Some t \<Rightarrow> trimmed_parts newline t))
      in concat (map expandTransportAlternatives raw))"

section \<open>What is written is read\<close>

text \<open>An address that survives a line: no line break, no surrounding space, not the end mark.\<close>

definition line_address :: "string \<Rightarrow> bool" where
  "line_address a \<longleftrightarrow> a \<noteq> [] \<and> newline \<notin> set a \<and> \<not> ascii_space (hd a) \<and> \<not> ascii_space (last a) \<and> a \<noteq> END_PREFIX"

lemma line_address_trim: "line_address a \<Longrightarrow> strings_TrimSpace a = a"
  by (simp add: line_address_def strings_TrimSpace_id)

lemma parse_lines:
  assumes p: "p \<noteq> []" "newline \<notin> set p" "\<not> ascii_space (hd p)" "\<not> ascii_space (last p)" and "list_all line_address addrs"
    and "newline \<notin> set t" "strings_TrimSpace t = [] \<or> strings_TrimSpace t = END_PREFIX"
  shows "parseMultiaddrsResponse (p @ [newline] @ concat (map (\<lambda>a. a @ [newline]) addrs) @ t) p = addrs"
proof -
  have a: "\<forall>a \<in> set addrs. line_address a" using assms(5) by (simp add: list_all_iff)
  then have n: "\<forall>a \<in> set addrs. newline \<notin> set a" by (simp add: line_address_def)
  have "filter (\<lambda>line. line \<noteq> [] \<and> line \<noteq> END_PREFIX) (map strings_TrimSpace addrs) = addrs"
    using a line_address_trim by (auto simp: line_address_def map_idI intro!: filter_True)
  with assms(6,7) show ?thesis
    using Split_append[OF p(2)] Split_lines[OF n] strings_TrimSpace_id[OF p(1,3,4)]
    by (auto simp: parseMultiaddrsResponse_def Split_none)
qed

lemma strings_TrimSpace_newline:
  assumes "s \<noteq> []" "\<not> ascii_space (hd s)" "\<not> ascii_space (last s)"
  shows "strings_TrimSpace (s @ [newline]) = s"
proof -
  have "dropWhile ascii_space (s @ [newline]) = s @ [newline]" "dropWhile ascii_space (rev s) = rev s"
    using assms by (simp_all add: dropWhile_eq_self_iff hd_rev)
  moreover have "ascii_space newline" by (simp add: ascii_space_def)
  ultimately show ?thesis by (simp add: strings_TrimSpace_def)
qed

text \<open>One line arrives whole, however the network cuts it.\<close>

lemma read_stream_line:
  assumes "newline \<notin> set s" "length full + length s < 4 * 1024 * 1024" "concat rs = s @ [newline]"
  shows "read_stream rs full = full @ s @ [newline]"
  using assms
proof (induction rs arbitrary: s full)
  case (Cons r rs)
  show ?case
  proof (cases "newline \<in> set r")
    case True
    with Cons.prems have "r = s @ [newline]"
      by (auto simp: append_eq_append_conv2 append_eq_Cons_conv)
    with True show ?thesis by simp
  next
    case False
    with Cons.prems(3) obtain s' where s': "s = r @ s'" "concat rs = s' @ [newline]"
      by (auto simp: append_eq_append_conv2 append_eq_Cons_conv)
    with Cons.IH[of s' "full @ r"] Cons.prems False show ?thesis by auto
  qed
qed simp

lemma announce_text:
  assumes "list_all line_address addrs"
  shows "parseMultiaddrsResponse (strings_TrimSpace (address_lines ANNOUNCE_PREFIX addrs)) ANNOUNCE_PREFIX = addrs"
proof -
  let ?s = "ANNOUNCE_PREFIX @ [newline] @ concat (map (\<lambda>a. a @ [newline]) addrs) @ END_PREFIX"
  have "strings_TrimSpace (address_lines ANNOUNCE_PREFIX addrs) = ?s"
    using strings_TrimSpace_newline[of ?s] by (simp add: address_lines_def line_prefixes ascii_space_def)
  also have "parseMultiaddrsResponse ?s ANNOUNCE_PREFIX = addrs"
    using assms by (intro parse_lines) (simp_all add: line_prefixes ascii_space_def strings_TrimSpace_def)
  finally show ?thesis .
qed

text \<open>An announcement that is cut after a line.\<close>

lemma lines_shift: "sep # concat (map (\<lambda>a. a @ [sep]) as) = concat (map (\<lambda>a. sep # a) as) @ [sep]"
  by (induction as) auto

lemma Split_shifted: "sep \<notin> set p \<Longrightarrow> \<forall>a \<in> set as. sep \<notin> set a \<Longrightarrow> Split sep (p @ concat (map (\<lambda>a. sep # a) as)) = p # as"
proof (induction as arbitrary: p)
  case (Cons a as)
  then show ?case using Split_append[of sep p "a @ concat (map (\<lambda>a. sep # a) as)"] by simp
qed (simp add: Split_none)

lemma cut_announcement:
  assumes p: "p \<noteq> []" "newline \<notin> set p" "\<not> ascii_space (hd p)" "\<not> ascii_space (last p)" and a: "list_all line_address addrs"
  shows "parseMultiaddrsResponse (strings_TrimSpace (p @ newline # concat (map (\<lambda>a. a @ [newline]) addrs))) p = addrs"
proof -
  let ?x = "p @ concat (map (\<lambda>a. newline # a) addrs)"
  have l: "\<forall>a \<in> set addrs. line_address a" using a by (simp add: list_all_iff)
  have "\<not> ascii_space (last ?x)"
    using l p(4) by (induction addrs rule: rev_induct) (auto simp: line_address_def)
  with p(1,3) have "strings_TrimSpace (?x @ [newline]) = ?x"
    by (intro strings_TrimSpace_newline) (auto simp: hd_append)
  moreover have "Split newline ?x = p # addrs"
    using l p(2) by (intro Split_shifted) (auto simp: line_address_def)
  moreover have "filter (\<lambda>line. line \<noteq> [] \<and> line \<noteq> END_PREFIX) (map strings_TrimSpace addrs) = addrs"
    using l line_address_trim by (auto simp: line_address_def map_idI intro!: filter_True)
  ultimately show ?thesis
    using strings_TrimSpace_id[OF p(1,3,4)] by (simp add: lines_shift parseMultiaddrsResponse_def)
qed

section \<open>Properties\<close>

text \<open>An announcement that arrives in one read is understood: the addresses the receiver
records for the peer are those the sender wrote, in their order.\<close>

theorem announce_round_trip:
  assumes "list_all line_address addrs"
  shows "parseMultiaddrsResponse (stream_message [address_lines ANNOUNCE_PREFIX addrs]) ANNOUNCE_PREFIX = addrs"
  using announce_text[OF assms] by (simp add: stream_message_def address_lines_def)

theorem announce_round_trip_witness:
  "parseMultiaddrsResponse (stream_message [address_lines ANNOUNCE_PREFIX [''/ip4/10.0.0.1/tcp/9000'', ''/ip4/10.0.0.2'']])
     ANNOUNCE_PREFIX = [''/ip4/10.0.0.1/tcp/9000'', ''/ip4/10.0.0.2'']"
  by (rule announce_round_trip) (simp add: line_address_def ascii_space_def line_prefixes)

text \<open>The reader stops at the first read that holds a line break, so an announcement that
the network cuts after some of its lines is taken for complete: only the addresses of the
first read are understood, and they replace all that was known of the peer.\<close>

theorem announce_split_loses:
  assumes "list_all line_address addrs"
  shows "parseMultiaddrsResponse
     (stream_message ((ANNOUNCE_PREFIX @ [newline] @ concat (map (\<lambda>a. a @ [newline]) addrs)) # rest)) ANNOUNCE_PREFIX = addrs"
  using cut_announcement[OF _ _ _ _ assms, of ANNOUNCE_PREFIX]
  by (simp add: stream_message_def line_prefixes ascii_space_def)

theorem announce_split_loses_witness:
  "address_lines ANNOUNCE_PREFIX [''/ip4/10.0.0.1'', ''/ip4/10.0.0.2''] =
     (ANNOUNCE_PREFIX @ [newline] @ concat (map (\<lambda>a. a @ [newline]) [''/ip4/10.0.0.1''])) @
       (''/ip4/10.0.0.2'' @ [newline] @ END_PREFIX @ [newline]) \<and>
   parseMultiaddrsResponse
     (stream_message ((ANNOUNCE_PREFIX @ [newline] @ concat (map (\<lambda>a. a @ [newline]) [''/ip4/10.0.0.1''])) #
       [''/ip4/10.0.0.2'' @ [newline] @ END_PREFIX @ [newline]])) ANNOUNCE_PREFIX = [''/ip4/10.0.0.1'']"
proof (rule conjI)
  show "address_lines ANNOUNCE_PREFIX [''/ip4/10.0.0.1'', ''/ip4/10.0.0.2''] =
     (ANNOUNCE_PREFIX @ [newline] @ concat (map (\<lambda>a. a @ [newline]) [''/ip4/10.0.0.1''])) @
       (''/ip4/10.0.0.2'' @ [newline] @ END_PREFIX @ [newline])"
    by (simp add: address_lines_def)
qed (rule announce_split_loses, simp add: line_address_def ascii_space_def line_prefixes)

end
