(* ===== verification/Node.thy ===== *)
theory Node
  imports Memory Contacts Requests Deleted OffersStore SettingsStore FileSystem Addresses Delivery Batch Layers Vectors Channels
begin

text \<open>
  node/node.go: the state of the node that the handlers of the other files share, and the small
  operations on it: the message hook, the schedule of a save, sending a service message,
  looking up messages, contacts and names.

  The record \<open>node\<close> holds the stores with the content of their files, the maps of the file
  transfer, the receipts and texts that wait (\<open>nd_delivery\<close>, \<open>nd_batches\<close>), what was handed to the
  message hook (\<open>nd_events\<close>), to the network (\<open>nd_outbox\<close>, with the peer whose stream took it; \<open>nd_lines\<close> for other lines) and
  to new goroutines (\<open>nd_started\<close>).  A store is \<open>None\<close> where Go has a nil pointer.  What a
  handler needs from outside (the clock, the network, cryptography, JSON, base64, the outcomes
  of writes) is the record \<open>env\<close>, an argument of the handler; a handler that saves a store more
  than once reads the outcomes by number.
\<close>

section \<open>State\<close>

record retry_info =
  ri_mediaID :: string
  ri_mediaType :: string
  ri_chunkIndex :: int
  ri_recipient :: string
  ri_msgID :: string
  ri_fileName :: string
  ri_fileSize :: int
  ri_chunkTotal :: int
  ri_ttlSeconds :: int
  ri_ttlMode :: string
  ri_expiresAt :: time
  ri_attempts :: nat
  ri_lastSent :: time

definition zero_retry :: retry_info where
  "zero_retry = \<lparr>ri_mediaID = [], ri_mediaType = [], ri_chunkIndex = 0, ri_recipient = [], ri_msgID = [],
     ri_fileName = [], ri_fileSize = 0, ri_chunkTotal = 0, ri_ttlSeconds = 0, ri_ttlMode = [],
     ri_expiresAt = 0, ri_attempts = 0, ri_lastSent = 0\<rparr>"

record file_meta =
  fm_MediaID :: string
  fm_FileName :: string
  fm_FileSize :: int
  fm_ChunkTotal :: int
  fm_MediaType :: string
  fm_TtlSeconds :: int
  fm_TtlMode :: string
  fm_ExpiresAt :: time
  fm_CreatedAt :: time

text \<open>The JSON objects that the node pushes to the message hook.\<close>

datatype hook_event =
    MessageEvent message
  | FileStatusEvent string int int
  | FileCompleteEvent string
  | FileOfferEvent file_offer string
  | FileAbortEvent string string
  | FileAcceptEvent string string
  | FileDeclineEvent string string
  | FileCancelEvent string string
  | FileOfferExpiredEvent string string

text \<open>
  Goroutines and timers that a handler starts.  A goroutine whose only effect is to write to the
  network is not among them: its writes are entries of \<open>nd_outbox\<close>.
\<close>

datatype started =
    SendFileChunks string file_meta
  | SendHelloAck string
  | DeliveredTimer string timer_change
  | FlushDelivered string
  | FlushBatch batch
  | Replicate message
  | SaveState
  | BroadcastLayers
  | GossipLayers "string list" sync_payload

record announced_peer =
  ap_Multiaddrs :: "string list"
  ap_LastSeen :: time

record node =
  nd_host :: "string option"
  nd_memory :: memory
  nd_contacts :: "contacts_store option"
  nd_contacts_file :: "contacts_file file_content"
  nd_requests :: "requests_store option"
  nd_requests_file :: "requests_file file_content"
  nd_deleted :: "deleted_store option"
  nd_deleted_file :: "deleted_file file_content"
  nd_abortedStore :: "aborted_store option"
  nd_aborted_file :: "aborted_file file_content"
  nd_offers :: "offers_store option"
  nd_offers_file :: "offers_file file_content"
  nd_settings :: "settings_store option"
  nd_tempContacts :: "string \<rightharpoonup> contact"
  nd_myReadEnabled :: bool
  nd_pendingMessages :: "message list"
  nd_unackedChunks :: "(string \<times> retry_info) list"
  nd_aborted :: "string \<Rightarrow> bool"
  nd_fileStatusLastPush :: "string \<rightharpoonup> time"
  nd_completedFiles :: "string \<Rightarrow> bool"
  nd_deliveredCount :: "string \<rightharpoonup> int"
  nd_acceptedCount :: "string \<rightharpoonup> int"
  nd_pendingHookAcks :: "string \<rightharpoonup> (int \<times> time) list"
  nd_saveScheduled :: bool
  nd_useOnion :: bool
  nd_chunkQueue :: "message list"
  nd_dir :: path
  nd_disk :: disk
  nd_hook :: bool
  nd_events :: "hook_event list"
  nd_outbox :: "(string \<times> message) list"
  nd_started :: "started list"
  nd_ed25519Priv :: string
  nd_ed25519Pub :: string
  nd_x25519Priv :: string
  nd_x25519Pub :: string
  nd_ethHash :: string
  nd_preHash :: string
  nd_antiHash :: string
  nd_layers :: layers
  nd_layersDirty :: bool
  nd_msgCount :: int
  nd_adaptive :: "adaptive_params option"
  nd_channels :: channel_store
  nd_isRelay :: bool
  nd_lines :: "(string \<times> string) list"
  nd_configBootstrap :: "string list"
  nd_announced :: "string \<rightharpoonup> announced_peer"
  nd_deadPeers :: "string \<Rightarrow> bool"
  nd_lastPing :: "string \<rightharpoonup> time"
  nd_delivery :: delivery
  nd_fresh :: nat
  nd_batches :: batch_buffers
  nd_lastSyncedLayers :: layers
  nd_lastSyncSent :: time

text \<open>The payloads of the service messages, after \<open>json.Unmarshal\<close>.\<close>

record contact_payload =
  cp_Name :: string
  cp_Ed25519Pub :: string
  cp_X25519Pub :: string
  cp_Signature :: string
  cp_ReadEnabled :: bool

record hello_payload =
  hp_PeerID :: string
  hp_Ed25519Pub :: string
  hp_X25519Pub :: string
  hp_Signature :: string

record offer_payload =
  op_MediaID :: string
  op_FileName :: string
  op_FileSize :: int
  op_ChunkTotal :: int
  op_TtlSeconds :: int
  op_TtlMode :: string

record env =
  ev_now :: time
  ev_date :: string
  ev_rfc3339 :: string
  ev_nano :: string
  ev_generateMsgID :: "string \<Rightarrow> string"
  ev_peers :: "string list"
  ev_Decode :: "string \<Rightarrow> bool"
  ev_AddrInfo :: "string \<Rightarrow> string option"
  ev_Connect :: "string \<Rightarrow> bool"
  ev_direct :: "string \<Rightarrow> message \<Rightarrow> bool"
  ev_stream :: "string \<Rightarrow> message \<Rightarrow> bool"
  ev_Peerstore :: "string \<Rightarrow> string list"
  ev_Multiaddr :: "string \<Rightarrow> bool"
  ev_find_response :: "string \<Rightarrow> string \<Rightarrow> string option"
  ev_sphinx_process :: "string \<Rightarrow> (string \<times> bool \<times> bool \<times> string) option"
  ev_sphinx_extract :: "string \<Rightarrow> string option"
  ev_marshal :: "message \<Rightarrow> string"
  ev_unmarshal :: "string \<Rightarrow> message option"
  ev_batch_payload :: "string \<Rightarrow> (string \<times> string) list option"
  ev_batch_json :: "batch_text list \<Rightarrow> string"
  ev_peers_exchange :: "string \<Rightarrow> string option"
  ev_host_addrs :: "string list"
  ev_gcm_nonce :: "string \<Rightarrow> string"
  ev_gcm_Seal :: "string \<Rightarrow> string \<Rightarrow> string \<Rightarrow> string"
  ev_gcm_Open :: "string \<Rightarrow> string \<Rightarrow> string \<Rightarrow> string option"
  ev_sphinx_packet :: "message \<Rightarrow> (string \<times> string) option"
  ev_line :: "string \<Rightarrow> string \<Rightarrow> bool"
  ev_text :: text_lib
  ev_encode_runes :: "rune list \<Rightarrow> string"
  ev_bootstrap_env :: string
  ev_bootstrap_txt :: "string option"
  ev_base64 :: "string \<Rightarrow> string"
  ev_base64_decode :: "string \<Rightarrow> string option"
  ev_nonce :: "string \<Rightarrow> string option"
  ev_Seal :: "string \<Rightarrow> string \<Rightarrow> string \<Rightarrow> string \<Rightarrow> string"
  ev_Open :: "string \<Rightarrow> string \<Rightarrow> string \<Rightarrow> string \<Rightarrow> string option"
  ev_Sign :: "string \<Rightarrow> string \<Rightarrow> string"
  ev_Verify :: "string \<Rightarrow> string \<Rightarrow> string \<Rightarrow> bool"
  ev_contact_payload :: "string \<Rightarrow> contact_payload option"
  ev_hello_payload :: "string \<Rightarrow> hello_payload option"
  ev_offer_payload :: "string \<Rightarrow> offer_payload option"
  ev_meta :: "string \<Rightarrow> file_meta option"
  ev_queue_room :: "string \<Rightarrow> bool"
  ev_w_contacts :: "nat \<Rightarrow> contacts_file write_outcome"
  ev_w_requests :: "nat \<Rightarrow> requests_file write_outcome"
  ev_w_deleted :: "nat \<Rightarrow> deleted_file write_outcome"
  ev_w_aborted :: "nat \<Rightarrow> aborted_file write_outcome"
  ev_w_offers :: "nat \<Rightarrow> offers_file write_outcome"

section \<open>A new node\<close>

record config =
  cf_EthHash :: string
  cf_Bootstrap :: "string list"
  cf_EnableRelayServer :: bool
  cf_IsRelay :: bool
  cf_UseOnion :: bool

text \<open>Before \<open>InitP2P\<close> there is no host, no store and no state file; \<open>disk\<close> is what the disk holds.\<close>

definition NewNode :: "config \<Rightarrow> disk \<Rightarrow> node" where
  "NewNode cfg disk =
     \<lparr>nd_host = None, nd_memory = empty_memory, nd_contacts = None, nd_contacts_file = NoFile,
      nd_requests = None, nd_requests_file = NoFile, nd_deleted = None, nd_deleted_file = NoFile,
      nd_abortedStore = None, nd_aborted_file = NoFile, nd_offers = None, nd_offers_file = NoFile,
      nd_settings = None, nd_tempContacts = Map.empty, nd_myReadEnabled = True, nd_pendingMessages = [],
      nd_unackedChunks = [], nd_aborted = (\<lambda>_. False), nd_fileStatusLastPush = Map.empty,
      nd_completedFiles = (\<lambda>_. False), nd_deliveredCount = Map.empty, nd_acceptedCount = Map.empty,
      nd_pendingHookAcks = Map.empty, nd_saveScheduled = False, nd_useOnion = cf_UseOnion cfg,
      nd_chunkQueue = [], nd_dir = [], nd_disk = disk, nd_hook = False, nd_events = [], nd_outbox = [],
      nd_started = [], nd_ed25519Priv = [], nd_ed25519Pub = [], nd_x25519Priv = replicate 32 (CHR 0x00),
      nd_x25519Pub = replicate 32 (CHR 0x00), nd_ethHash = cf_EthHash cfg, nd_preHash = [], nd_antiHash = [],
      nd_layers = [], nd_layersDirty = False, nd_msgCount = 0, nd_adaptive = None, nd_channels = [],
      nd_isRelay = cf_IsRelay cfg \<or> cf_EnableRelayServer cfg, nd_lines = [],
      nd_configBootstrap = cf_Bootstrap cfg, nd_announced = Map.empty, nd_deadPeers = (\<lambda>_. False),
      nd_lastPing = Map.empty, nd_delivery = empty_delivery, nd_fresh = 0, nd_batches = [],
      nd_lastSyncedLayers = [], nd_lastSyncSent = 0\<rparr>"

text \<open>
  For the witnesses: an environment at a given time in which no peer answers, every write
  succeeds, and a box is the reversed text.
\<close>

definition quiet_env :: "time \<Rightarrow> env" where
  "quiet_env now =
     \<lparr>ev_now = now, ev_date = ''2026-01-01T00:00:00'', ev_rfc3339 = ''2026-01-01T00:00:00Z'', ev_nano = ''0'',
      ev_generateMsgID = (\<lambda>s. s), ev_peers = [], ev_Decode = (\<lambda>_. True), ev_AddrInfo = (\<lambda>_. None),
      ev_Connect = (\<lambda>_. False), ev_direct = (\<lambda>_ _. False), ev_stream = (\<lambda>_ _. False),
      ev_Peerstore = (\<lambda>_. []), ev_Multiaddr = (\<lambda>_. True), ev_find_response = (\<lambda>_ _. None),
      ev_sphinx_process = (\<lambda>_. None), ev_sphinx_extract = (\<lambda>_. None), ev_marshal = msg_ID, ev_unmarshal = (\<lambda>_. None),
      ev_batch_payload = (\<lambda>_. None), ev_batch_json = (\<lambda>ts. concat (map bt_Text ts)), ev_peers_exchange = (\<lambda>_. None), ev_host_addrs = [],
      ev_gcm_nonce = (\<lambda>_. replicate 12 (CHR ''n'')), ev_gcm_Seal = (\<lambda>key nonce m. rev m),
      ev_gcm_Open = (\<lambda>key nonce c. Some (rev c)),
      ev_sphinx_packet = (\<lambda>_. None), ev_line = (\<lambda>_ _. False),
      ev_text = \<lparr>tl_ToLower = (\<lambda>s. s), tl_range = (\<lambda>_. []), tl_sha256 = (\<lambda>_. replicate 32 0)\<rparr>,
      ev_encode_runes = (\<lambda>_. []), ev_bootstrap_env = [], ev_bootstrap_txt = None, ev_base64 = (\<lambda>s. s),
      ev_base64_decode = Some, ev_nonce = (\<lambda>_. Some (replicate 24 (CHR ''n''))), ev_Seal = (\<lambda>m nonce pub priv. rev m),
      ev_Open = (\<lambda>c nonce pub priv. Some (rev c)), ev_Sign = (\<lambda>k m. replicate 64 (CHR ''s'')),
      ev_Verify = (\<lambda>k m sig. True), ev_contact_payload = (\<lambda>_. None), ev_hello_payload = (\<lambda>_. None),
      ev_offer_payload = (\<lambda>_. None), ev_meta = (\<lambda>_. None), ev_queue_room = (\<lambda>_. True),
      ev_w_contacts = (\<lambda>_. WriteOk), ev_w_requests = (\<lambda>_. WriteOk), ev_w_deleted = (\<lambda>_. WriteOk),
      ev_w_aborted = (\<lambda>_. WriteOk), ev_w_offers = (\<lambda>_. WriteOk)\<rparr>"

lemma NewNode_simps [simp]:
  "nd_host (NewNode cfg disk) = None" "nd_memory (NewNode cfg disk) = empty_memory"
  "nd_contacts (NewNode cfg disk) = None" "nd_contacts_file (NewNode cfg disk) = NoFile"
  "nd_requests (NewNode cfg disk) = None" "nd_requests_file (NewNode cfg disk) = NoFile"
  "nd_deleted (NewNode cfg disk) = None" "nd_deleted_file (NewNode cfg disk) = NoFile"
  "nd_abortedStore (NewNode cfg disk) = None" "nd_aborted_file (NewNode cfg disk) = NoFile"
  "nd_offers (NewNode cfg disk) = None" "nd_offers_file (NewNode cfg disk) = NoFile"
  "nd_settings (NewNode cfg disk) = None" "nd_tempContacts (NewNode cfg disk) = Map.empty"
  "nd_myReadEnabled (NewNode cfg disk) = True" "nd_pendingMessages (NewNode cfg disk) = []"
  "nd_unackedChunks (NewNode cfg disk) = []" "nd_aborted (NewNode cfg disk) = (\<lambda>_. False)"
  "nd_fileStatusLastPush (NewNode cfg disk) = Map.empty"
  "nd_completedFiles (NewNode cfg disk) = (\<lambda>_. False)"
  "nd_deliveredCount (NewNode cfg disk) = Map.empty" "nd_acceptedCount (NewNode cfg disk) = Map.empty"
  "nd_pendingHookAcks (NewNode cfg disk) = Map.empty" "nd_saveScheduled (NewNode cfg disk) = False"
  "nd_useOnion (NewNode cfg disk) = cf_UseOnion cfg" "nd_chunkQueue (NewNode cfg disk) = []"
  "nd_dir (NewNode cfg disk) = []" "nd_disk (NewNode cfg disk) = disk" "nd_hook (NewNode cfg disk) = False"
  "nd_events (NewNode cfg disk) = []" "nd_outbox (NewNode cfg disk) = []" "nd_started (NewNode cfg disk) = []"
  "nd_ed25519Priv (NewNode cfg disk) = []" "nd_ed25519Pub (NewNode cfg disk) = []"
  "nd_x25519Priv (NewNode cfg disk) = replicate 32 (CHR 0x00)"
  "nd_x25519Pub (NewNode cfg disk) = replicate 32 (CHR 0x00)" "nd_ethHash (NewNode cfg disk) = cf_EthHash cfg"
  "nd_preHash (NewNode cfg disk) = []" "nd_antiHash (NewNode cfg disk) = []"
  "nd_layers (NewNode cfg disk) = []" "nd_layersDirty (NewNode cfg disk) = False"
  "nd_msgCount (NewNode cfg disk) = 0" "nd_adaptive (NewNode cfg disk) = None"
  "nd_channels (NewNode cfg disk) = []"
  "nd_isRelay (NewNode cfg disk) = (cf_IsRelay cfg \<or> cf_EnableRelayServer cfg)"
  "nd_lines (NewNode cfg disk) = []" "nd_configBootstrap (NewNode cfg disk) = cf_Bootstrap cfg"
  "nd_announced (NewNode cfg disk) = Map.empty" "nd_deadPeers (NewNode cfg disk) = (\<lambda>_. False)"
  "nd_lastPing (NewNode cfg disk) = Map.empty" "nd_delivery (NewNode cfg disk) = empty_delivery"
  "nd_fresh (NewNode cfg disk) = 0" "nd_batches (NewNode cfg disk) = []"
  "nd_lastSyncedLayers (NewNode cfg disk) = []" "nd_lastSyncSent (NewNode cfg disk) = 0"
  by (simp_all add: NewNode_def)

lemma quiet_env_simps [simp]:
  "ev_now (quiet_env now) = now" "ev_date (quiet_env now) = ''2026-01-01T00:00:00''"
  "ev_rfc3339 (quiet_env now) = ''2026-01-01T00:00:00Z''" "ev_nano (quiet_env now) = ''0''"
  "ev_generateMsgID (quiet_env now) = (\<lambda>s. s)" "ev_peers (quiet_env now) = []"
  "ev_Decode (quiet_env now) = (\<lambda>_. True)" "ev_AddrInfo (quiet_env now) = (\<lambda>_. None)"
  "ev_Connect (quiet_env now) = (\<lambda>_. False)" "ev_direct (quiet_env now) = (\<lambda>_ _. False)"
  "ev_stream (quiet_env now) = (\<lambda>_ _. False)" "ev_Peerstore (quiet_env now) = (\<lambda>_. [])"
  "ev_Multiaddr (quiet_env now) = (\<lambda>_. True)"
  "ev_find_response (quiet_env now) = (\<lambda>_ _. None)"
  "ev_sphinx_packet (quiet_env now) = (\<lambda>_. None)"
  "ev_line (quiet_env now) = (\<lambda>_ _. False)"
  "ev_text (quiet_env now) = \<lparr>tl_ToLower = (\<lambda>s. s), tl_range = (\<lambda>_. []), tl_sha256 = (\<lambda>_. replicate 32 0)\<rparr>"
  "ev_sphinx_process (quiet_env now) = (\<lambda>_. None)" "ev_sphinx_extract (quiet_env now) = (\<lambda>_. None)"
  "ev_batch_json (quiet_env now) = (\<lambda>ts. concat (map bt_Text ts))"
  "ev_marshal (quiet_env now) = msg_ID" "ev_unmarshal (quiet_env now) = (\<lambda>_. None)" "ev_batch_payload (quiet_env now) = (\<lambda>_. None)"
  "ev_peers_exchange (quiet_env now) = (\<lambda>_. None)" "ev_host_addrs (quiet_env now) = []"
  "ev_gcm_nonce (quiet_env now) = (\<lambda>_. replicate 12 (CHR ''n''))"
  "ev_gcm_Seal (quiet_env now) = (\<lambda>key nonce m. rev m)"
  "ev_gcm_Open (quiet_env now) = (\<lambda>key nonce c. Some (rev c))"
  "ev_encode_runes (quiet_env now) = (\<lambda>_. [])" "ev_bootstrap_env (quiet_env now) = []"
  "ev_bootstrap_txt (quiet_env now) = None" "ev_base64 (quiet_env now) = (\<lambda>s. s)"
  "ev_base64_decode (quiet_env now) = Some"
  "ev_nonce (quiet_env now) = (\<lambda>_. Some (replicate 24 (CHR ''n'')))"
  "ev_Seal (quiet_env now) = (\<lambda>m nonce pub priv. rev m)"
  "ev_Open (quiet_env now) = (\<lambda>c nonce pub priv. Some (rev c))"
  "ev_Sign (quiet_env now) = (\<lambda>k m. replicate 64 (CHR ''s''))"
  "ev_Verify (quiet_env now) = (\<lambda>k m sig. True)"
  "ev_contact_payload (quiet_env now) = (\<lambda>_. None)"
  "ev_hello_payload (quiet_env now) = (\<lambda>_. None)"
  "ev_offer_payload (quiet_env now) = (\<lambda>_. None)" "ev_meta (quiet_env now) = (\<lambda>_. None)"
  "ev_queue_room (quiet_env now) = (\<lambda>_. True)" "ev_w_contacts (quiet_env now) = (\<lambda>_. WriteOk)"
  "ev_w_requests (quiet_env now) = (\<lambda>_. WriteOk)"
  "ev_w_deleted (quiet_env now) = (\<lambda>_. WriteOk)"
  "ev_w_aborted (quiet_env now) = (\<lambda>_. WriteOk)" "ev_w_offers (quiet_env now) = (\<lambda>_. WriteOk)"
  by (simp_all add: quiet_env_def)

section \<open>Small operations\<close>

text \<open>\<open>if n.messageHook != nil { n.messageHook(...) }\<close>\<close>

definition push_hook :: "hook_event \<Rightarrow> node \<Rightarrow> node" where
  "push_hook e n = (if nd_hook n then n\<lparr>nd_events := nd_events n @ [e]\<rparr> else n)"

definition Node_scheduleSaveState :: "node \<Rightarrow> node" where
  "Node_scheduleSaveState n = n\<lparr>nd_saveScheduled := True\<rparr>"

definition Node_findMyMessageByID :: "string \<Rightarrow> node \<Rightarrow> message option" where
  "Node_findMyMessageByID i n = (if i = [] then None else Memory_GetByID (nd_memory n) i)"

definition Node_setMessageStatus :: "string \<Rightarrow> message_status \<Rightarrow> node \<Rightarrow> node" where
  "Node_setMessageStatus i s n =
     (if i = [] then n
      else case Memory_SetStatus i s (nd_memory n) of
        (True, m) \<Rightarrow> Node_scheduleSaveState (n\<lparr>nd_memory := m\<rparr>)
      | (False, m) \<Rightarrow> n\<lparr>nd_memory := m\<rparr>)"

definition Node_getMessageStatus :: "string \<Rightarrow> node \<Rightarrow> message_status" where
  "Node_getMessageStatus i n =
     (case Node_findMyMessageByID i n of Some m \<Rightarrow> msg_Status m | None \<Rightarrow> StatusUnknown)"

text \<open>
  \<open>sendServiceViaBootstrap\<close> tries the bootstrap peers in order.  \<open>ev_AddrInfo\<close> is the peer of an
  address, \<open>ev_stream\<close> whether a stream to the peer opens and takes the message.
\<close>

definition Node_loadBootstrapPeers :: "env \<Rightarrow> node \<Rightarrow> string list" where
  "Node_loadBootstrapPeers e n = loadBootstrapPeers (nd_configBootstrap n) (ev_bootstrap_env e) (ev_bootstrap_txt e)"

fun bootstrap_taker :: "env \<Rightarrow> string option \<Rightarrow> message \<Rightarrow> string list \<Rightarrow> string option" where
  "bootstrap_taker e me m [] = None"
| "bootstrap_taker e me m (addr # addrs) =
     (case ev_AddrInfo e addr of
        None \<Rightarrow> bootstrap_taker e me m addrs
      | Some pid \<Rightarrow>
          if me = Some pid then bootstrap_taker e me m addrs
          else if ev_stream e pid m then Some pid
          else bootstrap_taker e me m addrs)"

definition Node_sendServiceViaBootstrap :: "env \<Rightarrow> message \<Rightarrow> node \<Rightarrow> bool \<times> node" where
  "Node_sendServiceViaBootstrap e m n =
     (if nd_host n = None \<or> msg_Recipient m = [] then (False, n)
      else case bootstrap_taker e (nd_host n) m (Node_loadBootstrapPeers e n) of
        None \<Rightarrow> (False, n)
      | Some pid \<Rightarrow> (True, n\<lparr>nd_outbox := nd_outbox n @ [(pid, m)]\<rparr>))"

definition host_id :: "node \<Rightarrow> string" where
  "host_id n = (case nd_host n of Some i \<Rightarrow> i | None \<Rightarrow> [])"

text \<open>The fields that every service message of the node sets.\<close>

definition service_message :: "env \<Rightarrow> node \<Rightarrow> message_type \<Rightarrow> string \<Rightarrow> string \<Rightarrow> string \<Rightarrow> string \<Rightarrow> message" where
  "service_message e n typ idText txt recipient ref =
     zero_message\<lparr>msg_ID := ev_generateMsgID e idText, msg_Text := txt, msg_Sender := host_id n,
       msg_Recipient := recipient, msg_Type := typ, msg_Version := 0, msg_Ref := ref, msg_Time := ev_date e\<rparr>"

definition Node_GetContact :: "string \<Rightarrow> node \<Rightarrow> contact option" where
  "Node_GetContact p n = (case nd_contacts n of None \<Rightarrow> None | Some cs \<Rightarrow> ContactsStore_Get cs p)"

definition Node_GetContacts :: "node \<Rightarrow> contact list" where
  "Node_GetContacts n = (case nd_contacts n of None \<Rightarrow> [] | Some cs \<Rightarrow> ContactsStore_GetAll cs)"

definition Node_getPeerReadEnabled :: "string \<Rightarrow> node \<Rightarrow> bool" where
  "Node_getPeerReadEnabled p n =
     (case nd_contacts n of None \<Rightarrow> True
      | Some cs \<Rightarrow> (case ContactsStore_Get cs p of None \<Rightarrow> True | Some c \<Rightarrow> con_ReadEnabled c))"

definition Node_nameForPeer :: "string \<Rightarrow> node \<Rightarrow> string" where
  "Node_nameForPeer p n =
     (if p = [] then []
      else if nd_host n = Some p
      then case nd_settings n of Some s \<Rightarrow> SettingsStore_GetMyDisplayName s | None \<Rightarrow> []
      else case Node_GetContact p n of
        None \<Rightarrow> []
      | Some c \<Rightarrow> if con_Name c \<noteq> [] then con_Name c else con_RemoteName c)"

text \<open>\<open>GetMessageStatuses\<close>: the statuses of messages that are not file chunks, by ID.\<close>

definition Node_GetMessageStatuses :: "node \<Rightarrow> string \<rightharpoonup> message_status" where
  "Node_GetMessageStatuses n =
     map_of (rev (map (\<lambda>m. (msg_ID m, msg_Status m))
       (filter (\<lambda>m. StatusUnknown < msg_Status m \<and> \<not> is_chunk m) (Memory_GetAll (nd_memory n)))))"

definition Node_GetAborted :: "node \<Rightarrow> string list" where
  "Node_GetAborted n = (case nd_abortedStore n of None \<Rightarrow> [] | Some s \<Rightarrow> AbortedStore_GetAll s)"

definition Node_GetRequests :: "node \<Rightarrow> contact_request list" where
  "Node_GetRequests n = (case nd_requests n of None \<Rightarrow> [] | Some s \<Rightarrow> RequestsStore_GetPending s)"

text \<open>The offline queue.\<close>

definition Node_enqueuePending :: "message \<Rightarrow> node \<Rightarrow> node" where
  "Node_enqueuePending m n =
     n\<lparr>nd_pendingMessages := nd_pendingMessages n @ [if is_chunk m then clear_text m else m]\<rparr>"

definition Node_hasPending :: "node \<Rightarrow> bool" where
  "Node_hasPending n \<longleftrightarrow> 0 < length (nd_pendingMessages n)"

definition Node_removePendingByRef :: "string \<Rightarrow> node \<Rightarrow> node" where
  "Node_removePendingByRef ref n =
     (if ref = [] then n
      else n\<lparr>nd_pendingMessages := filter (\<lambda>m. msg_ID m \<noteq> ref) (nd_pendingMessages n)\<rparr>)"

section \<open>Announced peers\<close>

definition ANNOUNCE_TTL :: duration where "ANNOUNCE_TTL = 8 * Minute"

definition Node_announcePeer :: "time \<Rightarrow> string \<Rightarrow> string list \<Rightarrow> node \<Rightarrow> node" where
  "Node_announcePeer now p addrs n =
     (if length addrs = 0 then n
      else n\<lparr>nd_announced := (nd_announced n)(p \<mapsto> \<lparr>ap_Multiaddrs = addrs, ap_LastSeen = now\<rparr>)\<rparr>)"

definition Node_lookupPeer :: "time \<Rightarrow> string \<Rightarrow> node \<Rightarrow> string list option \<times> node" where
  "Node_lookupPeer now p n =
     (case nd_announced n p of
        None \<Rightarrow> (None, n)
      | Some a \<Rightarrow>
          if ANNOUNCE_TTL < time_Sub now (ap_LastSeen a)
          then (None, n\<lparr>nd_announced := (nd_announced n)(p := None)\<rparr>)
          else (Some (ap_Multiaddrs a), n))"

definition Node_cleanupAnnounced :: "env \<Rightarrow> node \<Rightarrow> node" where
  "Node_cleanupAnnounced e n =
     n\<lparr>nd_announced := drop_where (\<lambda>p a. \<not> (nd_host n \<noteq> None \<and> p \<in> set (ev_peers e)) \<or>
         ANNOUNCE_TTL < time_Sub (ev_now e) (ap_LastSeen a)) (nd_announced n)\<rparr>"

section \<open>Routes\<close>

definition Node_isPeerDead :: "env \<Rightarrow> string \<Rightarrow> node \<Rightarrow> bool" where
  "Node_isPeerDead e p n \<longleftrightarrow> nd_host n \<noteq> None \<and> p \<in> set (ev_peers e) \<and> nd_deadPeers n p"

definition Node_sendReplicaToPeer :: "env \<Rightarrow> string \<Rightarrow> message \<Rightarrow> node \<Rightarrow> node" where
  "Node_sendReplicaToPeer e pid m n =
     (if ev_stream e pid m then n\<lparr>nd_outbox := nd_outbox n @ [(pid, m)]\<rparr> else n)"

text \<open>The goroutine of the relay: the first announced address of the recipient that connects.\<close>

fun announced_taker :: "env \<Rightarrow> string \<Rightarrow> string list \<Rightarrow> bool" where
  "announced_taker e pid [] \<longleftrightarrow> False"
| "announced_taker e pid (addr # addrs) \<longleftrightarrow>
     (case ev_AddrInfo e addr of
        None \<Rightarrow> announced_taker e pid addrs
      | Some q \<Rightarrow> if q \<noteq> pid then announced_taker e pid addrs
                  else if ev_Connect e addr then True else announced_taker e pid addrs)"

fun first_bootstrap :: "env \<Rightarrow> string option \<Rightarrow> string list \<Rightarrow> string option" where
  "first_bootstrap e me [] = None"
| "first_bootstrap e me (addr # addrs) =
     (case ev_AddrInfo e addr of
        None \<Rightarrow> first_bootstrap e me addrs
      | Some pid \<Rightarrow> if me = Some pid then first_bootstrap e me addrs else Some pid)"

definition Node_fallbackSend :: "env \<Rightarrow> string \<Rightarrow> message \<Rightarrow> node \<Rightarrow> bool \<times> node" where
  "Node_fallbackSend e recipient m n =
     (if nd_isRelay n
      then case Node_lookupPeer (ev_now e) recipient n of
             (None, n1) \<Rightarrow> (False, n1)
           | (Some addrs, n1) \<Rightarrow>
               if length addrs = 0 then (False, n1)
               else (True, if announced_taker e recipient addrs then Node_sendReplicaToPeer e recipient m n1 else n1)
      else case first_bootstrap e (nd_host n) (Node_loadBootstrapPeers e n) of
             None \<Rightarrow> (False, n)
           | Some pid \<Rightarrow> (True, Node_sendReplicaToPeer e pid m n))"

text \<open>\<open>tryDirectSend\<close> within \<open>sendWithFallback\<close>; \<open>ev_direct\<close> is the direct stream.\<close>

definition Node_sendWithFallback :: "env \<Rightarrow> string \<Rightarrow> message \<Rightarrow> node \<Rightarrow> node" where
  "Node_sendWithFallback e recipient m n =
     (if ev_direct e recipient m then n\<lparr>nd_outbox := nd_outbox n @ [(recipient, m)]\<rparr>
      else snd (Node_fallbackSend e recipient m n))"

definition Node_sendToRecipient :: "env \<Rightarrow> message \<Rightarrow> node \<Rightarrow> bool \<times> node" where
  "Node_sendToRecipient e m n =
     (if \<not> ev_Decode e (msg_Recipient m) then (False, n)
      else if Node_isPeerDead e (msg_Recipient m) n then Node_fallbackSend e (msg_Recipient m) m n
      else if msg_Recipient m \<in> set (ev_peers e) then (True, Node_sendWithFallback e (msg_Recipient m) m n)
      else Node_fallbackSend e (msg_Recipient m) m n)"

section \<open>Receipts and texts that wait\<close>

definition Node_queueDelivered :: "string \<Rightarrow> string \<Rightarrow> node \<Rightarrow> node" where
  "Node_queueDelivered sender ref n =
     (case queueDelivered (nd_fresh n) sender ref (nd_delivery n) of
        (tc, needFlush, d) \<Rightarrow>
          n\<lparr>nd_delivery := d, nd_fresh := Suc (nd_fresh n),
            nd_started := nd_started n @ (if tc = KeepTimers then [] else [DeliveredTimer sender tc]) @
              (if needFlush then [FlushDelivered sender] else [])\<rparr>)"

definition Node_addToBatch :: "time \<Rightarrow> string \<Rightarrow> string \<Rightarrow> string \<Rightarrow> node \<Rightarrow> node" where
  "Node_addToBatch now p textID txt n =
     (case addToBatch now p textID txt (nd_batches n) of
        (bs, out) \<Rightarrow> n\<lparr>nd_batches := bs, nd_started := nd_started n @ map FlushBatch out\<rparr>)"

section \<open>The invariant of the node\<close>

definition store_ok :: "('s \<Rightarrow> bool) \<Rightarrow> 's option \<Rightarrow> bool" where
  "store_ok I s \<longleftrightarrow> (case s of None \<Rightarrow> True | Some x \<Rightarrow> I x)"

lemma store_ok_simps [simp]: "store_ok I None" "store_ok I (Some x) \<longleftrightarrow> I x"
  by (simp_all add: store_ok_def)

text \<open>
  The indexes of the memory and the keys of the stores are sound, and the node is not its
  own contact.
\<close>

definition node_inv :: "node \<Rightarrow> bool" where
  "node_inv n \<longleftrightarrow> mem_inv (nd_memory n) \<and> store_ok contacts_inv (nd_contacts n) \<and>
     store_ok requests_inv (nd_requests n) \<and> store_ok deleted_inv (nd_deleted n) \<and>
     store_ok aborted_inv (nd_abortedStore n) \<and> store_ok offers_inv (nd_offers n) \<and>
     distinct (map fst (nd_unackedChunks n)) \<and>
     (\<forall>i. nd_host n = Some i \<longrightarrow> Node_GetContact i n = None)"

named_theorems node_inv_intros \<open>the operations that preserve the invariant of the node\<close>

text \<open>The invariant depends on these fields only.\<close>

definition same_core :: "node \<Rightarrow> node \<Rightarrow> bool" where
  "same_core n n' \<longleftrightarrow> nd_memory n' = nd_memory n \<and> nd_contacts n' = nd_contacts n \<and> nd_requests n' = nd_requests n \<and>
     nd_deleted n' = nd_deleted n \<and> nd_abortedStore n' = nd_abortedStore n \<and> nd_offers n' = nd_offers n \<and>
     nd_unackedChunks n' = nd_unackedChunks n \<and> nd_host n' = nd_host n"

lemma node_inv_core: "same_core n n' \<Longrightarrow> node_inv n' \<longleftrightarrow> node_inv n"
  by (simp add: same_core_def node_inv_def Node_GetContact_def)

lemma push_hook_core [simp]: "same_core n (push_hook e n)"
  by (simp add: same_core_def push_hook_def)

lemma scheduleSaveState_core [simp]: "same_core n (Node_scheduleSaveState n)"
  by (simp add: same_core_def Node_scheduleSaveState_def)

lemma sendService_core: "Node_sendServiceViaBootstrap e m n = (ok, n') \<Longrightarrow> same_core n n'"
  by (auto simp: same_core_def Node_sendServiceViaBootstrap_def split: if_splits option.splits)

lemma lookupPeer_core: "same_core n (snd (Node_lookupPeer now p n))"
  by (simp add: same_core_def Node_lookupPeer_def split: option.split)

lemma fallbackSend_core: "same_core n (snd (Node_fallbackSend e p m n))"
  using lookupPeer_core[of n "ev_now e" p]
  by (auto simp: same_core_def Node_fallbackSend_def Node_sendReplicaToPeer_def split: prod.split option.split)

lemma sendToRecipient_core: "same_core n (snd (Node_sendToRecipient e m n))"
  using fallbackSend_core[of n e "msg_Recipient m" m]
  by (simp add: Node_sendToRecipient_def Node_sendWithFallback_def) (simp add: same_core_def)

lemma queueDelivered_core [simp]: "same_core n (Node_queueDelivered s r n)"
  by (simp add: same_core_def Node_queueDelivered_def split: prod.split)

lemma addToBatch_core [simp]: "same_core n (Node_addToBatch now p i t n)"
  by (simp add: same_core_def Node_addToBatch_def split: prod.split)

lemma removePending_core [simp]: "same_core n (Node_removePendingByRef r n)"
  by (simp add: same_core_def Node_removePendingByRef_def)

lemma push_hook_inv [node_inv_intros]: "node_inv n \<Longrightarrow> node_inv (push_hook e n)"
  by (simp add: node_inv_core[of n])

lemma scheduleSaveState_inv [node_inv_intros]: "node_inv n \<Longrightarrow> node_inv (Node_scheduleSaveState n)"
  by (simp add: node_inv_core[of n])

lemma removePending_inv [node_inv_intros]: "node_inv n \<Longrightarrow> node_inv (Node_removePendingByRef r n)"
  by (simp add: node_inv_core[of n])

lemma sendService_inv [node_inv_intros]: "node_inv n \<Longrightarrow> node_inv (snd (Node_sendServiceViaBootstrap e m n))"
  using sendService_core[of e m n] node_inv_core by (metis prod.collapse)

lemma fallbackSend_inv [node_inv_intros]: "node_inv n \<Longrightarrow> node_inv (snd (Node_fallbackSend e p m n))"
  using node_inv_core[OF fallbackSend_core] by blast

lemma sendToRecipient_inv [node_inv_intros]: "node_inv n \<Longrightarrow> node_inv (snd (Node_sendToRecipient e m n))"
  using node_inv_core[OF sendToRecipient_core] by blast

lemma queueDelivered_inv [node_inv_intros]: "node_inv n \<Longrightarrow> node_inv (Node_queueDelivered s r n)"
  by (simp add: node_inv_core[of n])

lemma addToBatch_inv [node_inv_intros]: "node_inv n \<Longrightarrow> node_inv (Node_addToBatch now p i t n)"
  by (simp add: node_inv_core[of n])

lemma node_inv_memory: "node_inv n \<Longrightarrow> mem_inv m \<Longrightarrow> node_inv (n\<lparr>nd_memory := m\<rparr>)"
  by (simp add: node_inv_def Node_GetContact_def)

lemma setMessageStatus_inv [node_inv_intros]: "node_inv n \<Longrightarrow> node_inv (Node_setMessageStatus i s n)"
  using SetStatus_inv[of "nd_memory n" i s]
  by (auto simp: Node_setMessageStatus_def node_inv_def Node_GetContact_def Node_scheduleSaveState_def
      split: prod.split bool.split)

end
