(* ===== verification/E2E.thy ===== *)
theory E2E
  imports Node
begin

text \<open>
  node/node_e2e.go: the end-to-end keys of the node, encryption for a contact, decryption of
  what a contact or temporary contact sent, the signature that binds a peer to its X25519 key,
  and the key files.

  NaCl's box, Ed25519 and base64 are parameters of the environment: \<open>ev_Seal\<close> takes the text,
  the nonce, the public key of the other side and the own private key, \<open>ev_Open\<close> likewise.
  Byte sequences are strings.
\<close>

section \<open>Contacts and their keys\<close>

definition Node_GetContactTemp :: "string \<Rightarrow> node \<Rightarrow> contact option" where
  "Node_GetContactTemp p n =
     (case Node_GetContact p n of Some c \<Rightarrow> Some c | None \<Rightarrow> nd_tempContacts n p)"

text \<open>The checks that every operation makes of the contact's key.\<close>

definition contact_box_key :: "env \<Rightarrow> contact option \<Rightarrow> string option" where
  "contact_box_key e c =
     (case c of
        None \<Rightarrow> None
      | Some c \<Rightarrow>
          if con_X25519Pub c = [] then None
          else case ev_base64_decode e (con_X25519Pub c) of
                 None \<Rightarrow> None
               | Some k \<Rightarrow> if length k \<noteq> 32 then None else Some k)"

section \<open>Encryption and decryption\<close>

definition Node_encryptForRecipient :: "env \<Rightarrow> node \<Rightarrow> string \<Rightarrow> string \<Rightarrow> string option" where
  "Node_encryptForRecipient e n recipient txt =
     (if nd_contacts n = None then None
      else case contact_box_key e (Node_GetContact recipient n) of
        None \<Rightarrow> None
      | Some pub \<Rightarrow>
          (case ev_nonce e txt of
             None \<Rightarrow> None
           | Some nonce \<Rightarrow> Some (ev_base64 e (nonce @ ev_Seal e txt nonce pub (nd_x25519Priv n)))))"

definition Node_encryptBytesForRecipient :: "env \<Rightarrow> node \<Rightarrow> string \<Rightarrow> string \<Rightarrow> string option" where
  "Node_encryptBytesForRecipient e n recipient data =
     (if nd_contacts n = None \<or> length data = 0 then None
      else case contact_box_key e (Node_GetContact recipient n) of
        None \<Rightarrow> None
      | Some pub \<Rightarrow>
          (case ev_nonce e data of
             None \<Rightarrow> None
           | Some nonce \<Rightarrow> Some (ev_base64 e (nonce @ ev_Seal e data nonce pub (nd_x25519Priv n)))))"

definition open_payload :: "env \<Rightarrow> node \<Rightarrow> string \<Rightarrow> string \<Rightarrow> string option" where
  "open_payload e n pub payload =
     (case ev_base64_decode e payload of
        None \<Rightarrow> None
      | Some raw \<Rightarrow>
          if length raw < 24 then None
          else ev_Open e (drop 24 raw) (take 24 raw) pub (nd_x25519Priv n))"

definition Node_decryptBytesFromSender :: "env \<Rightarrow> node \<Rightarrow> string \<Rightarrow> string \<Rightarrow> string option" where
  "Node_decryptBytesFromSender e n sender payload =
     (if nd_contacts n = None \<or> payload = [] then None
      else case contact_box_key e (Node_GetContactTemp sender n) of
        None \<Rightarrow> None
      | Some pub \<Rightarrow> open_payload e n pub payload)"

definition Node_decryptFromSender :: "env \<Rightarrow> node \<Rightarrow> string \<Rightarrow> string \<Rightarrow> string option" where
  "Node_decryptFromSender e n sender payload =
     (if nd_contacts n = None then None
      else case contact_box_key e (Node_GetContactTemp sender n) of
        None \<Rightarrow> None
      | Some pub \<Rightarrow> open_payload e n pub payload)"

section \<open>Signatures\<close>

definition Node_GetEd25519PublicKey :: "env \<Rightarrow> node \<Rightarrow> string" where
  "Node_GetEd25519PublicKey e n = (if length (nd_ed25519Pub n) = 0 then [] else ev_base64 e (nd_ed25519Pub n))"

definition Node_GetX25519PublicKey :: "env \<Rightarrow> node \<Rightarrow> string" where
  "Node_GetX25519PublicKey e n = ev_base64 e (nd_x25519Pub n)"

definition Node_signMyX25519 :: "env \<Rightarrow> node \<Rightarrow> string" where
  "Node_signMyX25519 e n =
     (case nd_host n of
        None \<Rightarrow> []
      | Some peerID \<Rightarrow>
          if length (nd_ed25519Priv n) = 0 then []
          else ev_base64 e (ev_Sign e (nd_ed25519Priv n) (peerID @ nd_x25519Pub n)))"

definition verifyContactSignature :: "env \<Rightarrow> string \<Rightarrow> string \<Rightarrow> string \<Rightarrow> string \<Rightarrow> bool" where
  "verifyContactSignature e peerID ed25519PubB64 x25519PubB64 signatureB64 =
     (if peerID = [] \<or> ed25519PubB64 = [] \<or> x25519PubB64 = [] \<or> signatureB64 = [] then False
      else case (ev_base64_decode e ed25519PubB64, ev_base64_decode e x25519PubB64, ev_base64_decode e signatureB64) of
        (Some edPub, Some xPub, Some sig) \<Rightarrow>
          length edPub = 32 \<and> length xPub = 32 \<and> length sig = 64 \<and> ev_Verify e edPub (peerID @ xPub) sig
      | _ \<Rightarrow> False)"

text \<open>The fields of the QR code, before JSON.\<close>

record qrDataV1 =
  qr_V :: int
  qr_PeerID :: string
  qr_Ed25519Pub :: string
  qr_X25519Pub :: string
  qr_Signature :: string
  qr_DisplayName :: string
  qr_ReadEnabled :: bool

definition E2E_VERSION :: int where "E2E_VERSION = 1"

definition Node_GetMyDisplayName :: "node \<Rightarrow> string" where
  "Node_GetMyDisplayName n = (case nd_settings n of None \<Rightarrow> [] | Some s \<Rightarrow> SettingsStore_GetMyDisplayName s)"

definition Node_GetMyQRData :: "env \<Rightarrow> node \<Rightarrow> qrDataV1 option" where
  "Node_GetMyQRData e n =
     (case nd_host n of
        None \<Rightarrow> None
      | Some i \<Rightarrow> Some \<lparr>qr_V = E2E_VERSION, qr_PeerID = i, qr_Ed25519Pub = ev_base64 e (nd_ed25519Pub n),
          qr_X25519Pub = ev_base64 e (nd_x25519Pub n), qr_Signature = Node_signMyX25519 e n,
          qr_DisplayName = Node_GetMyDisplayName n, qr_ReadEnabled = nd_myReadEnabled n\<rparr>)"

section \<open>Key files\<close>

text \<open>
  \<open>file\<close> is the content of the key file when it can be read, \<open>gen\<close> the fresh pair (public,
  private) or a failure of the generator, \<open>w\<close> whether the file can be written.  The result
  is the error, the keys of the node and the file afterwards.
\<close>

definition loadOrGenerateEd25519Key ::
  "(string \<Rightarrow> string) \<Rightarrow> string option \<Rightarrow> (string \<times> string) option \<Rightarrow> bool \<Rightarrow> string \<times> string
     \<Rightarrow> bool \<times> (string \<times> string) \<times> string option" where
  "loadOrGenerateEd25519Key public file gen w old =
     (case file of
        Some data \<Rightarrow>
          if length data = 64 then (True, (public data, data), file)
          else (case gen of None \<Rightarrow> (False, old, file)
                | Some (pub, priv) \<Rightarrow> if w then (True, (pub, priv), Some priv) else (False, (pub, priv), file))
      | None \<Rightarrow>
          (case gen of None \<Rightarrow> (False, old, file)
           | Some (pub, priv) \<Rightarrow> if w then (True, (pub, priv), Some priv) else (False, (pub, priv), file)))"

text \<open>\<open>derive\<close> is \<open>deriveX25519Public\<close>; the curve refuses some private keys.\<close>

definition loadOrGenerateX25519Key ::
  "(string \<Rightarrow> string option) \<Rightarrow> string option \<Rightarrow> (string \<times> string) option \<Rightarrow> bool \<Rightarrow> string \<times> string
     \<Rightarrow> bool \<times> (string \<times> string) \<times> string option" where
  "loadOrGenerateX25519Key derive file gen w old =
     (case file of
        Some data \<Rightarrow>
          if length data = 32
          then (True, (case derive data of None \<Rightarrow> fst old | Some pub \<Rightarrow> pub, data), file)
          else (case gen of None \<Rightarrow> (False, old, file)
                | Some (pub, priv) \<Rightarrow> if w then (True, (pub, priv), Some priv) else (False, (pub, priv), file))
      | None \<Rightarrow>
          (case gen of None \<Rightarrow> (False, old, file)
           | Some (pub, priv) \<Rightarrow> if w then (True, (pub, priv), Some priv) else (False, (pub, priv), file)))"

section \<open>Laws of the cryptography\<close>

text \<open>
  What the code relies on: base64 decodes what it encodes, a box sealed for a public key opens
  with the private key that belongs to it, and a signature verifies with the public key.
  \<open>pub_of\<close> is the public key of a private key.
\<close>

definition base64_law :: "env \<Rightarrow> bool" where
  "base64_law e \<longleftrightarrow> (\<forall>x. ev_base64_decode e (ev_base64 e x) = Some x)"

definition box_law :: "env \<Rightarrow> (string \<Rightarrow> string) \<Rightarrow> bool" where
  "box_law e pub_of \<longleftrightarrow> (\<forall>m nonce a b. ev_Open e (ev_Seal e m nonce (pub_of b) a) nonce (pub_of a) b = Some m)"

definition sign_law :: "env \<Rightarrow> (string \<Rightarrow> string) \<Rightarrow> bool" where
  "sign_law e pub_of \<longleftrightarrow> (\<forall>k m. length (ev_Sign e k m) = 64 \<and> ev_Verify e (pub_of k) m (ev_Sign e k m))"

definition nonce_law :: "env \<Rightarrow> bool" where
  "nonce_law e \<longleftrightarrow> (\<forall>m nonce. ev_nonce e m = Some nonce \<longrightarrow> length nonce = 24)"

lemma contact_box_key_Some: "contact_box_key e c = Some k \<Longrightarrow> length k = 32 \<and> c \<noteq> None"
  by (auto simp: contact_box_key_def split: option.splits if_splits)

lemma open_sealed:
  assumes "base64_law e" "box_law e pub_of" "length nonce = 24" "nd_x25519Priv n = b"
  shows "open_payload e n (pub_of a) (ev_base64 e (nonce @ ev_Seal e txt nonce (pub_of b) a)) = Some txt"
  using assms by (simp add: open_payload_def base64_law_def box_law_def)

text \<open>C4.  End-to-end round trip: what a node encrypts for a contact, the contact decrypts to
the same text, when each has the other's public key, the receiver in its contacts or among
the temporary ones.\<close>

theorem e2e_round_trip:
  assumes "base64_law e" "box_law e pub_of" "nonce_law e"
    and "contact_box_key e (Node_GetContact bob alice) = Some (pub_of (nd_x25519Priv bobNode))"
    and "contact_box_key e (Node_GetContactTemp ali bobNode) = Some (pub_of (nd_x25519Priv alice))"
    and "nd_contacts bobNode \<noteq> None"
    and "Node_encryptForRecipient e alice bob txt = Some payload"
  shows "Node_decryptFromSender e bobNode ali payload = Some txt"
  using assms(3-) open_sealed[OF assms(1,2)]
  by (auto simp: Node_encryptForRecipient_def Node_decryptFromSender_def nonce_law_def split: if_splits option.splits)

definition sample_peer :: "string \<Rightarrow> node" where
  "sample_peer other = (NewNode \<lparr>cf_EthHash = [], cf_Bootstrap = [], cf_EnableRelayServer = False, cf_IsRelay = False,
       cf_UseOnion = False\<rparr> Map.empty)
     \<lparr>nd_contacts := Some \<lparr>cs_path = ''c'', cs_contacts = [(sample_contact other True)
         \<lparr>con_X25519Pub := replicate 32 (CHR 0x00)\<rparr>]\<rparr>\<rparr>"

theorem e2e_round_trip_witness:
  "Node_decryptFromSender (quiet_env 0) (sample_peer ''ali'') ''ali''
     (the (Node_encryptForRecipient (quiet_env 0) (sample_peer ''bob'') ''bob'' ''hi'')) = Some ''hi''"
proof (rule e2e_round_trip[where pub_of = "\<lambda>x. x" and alice = "sample_peer ''bob''" and bob = "''bob''"])
  show "base64_law (quiet_env 0)" by (simp add: base64_law_def)
  show "box_law (quiet_env 0) (\<lambda>x. x)" by (simp add: box_law_def)
  show "nonce_law (quiet_env 0)" by (simp add: nonce_law_def)
qed (simp_all add: contact_box_key_def Node_GetContactTemp_def Node_GetContact_def ContactsStore_Get_def
    sample_peer_def sample_contact_def Node_encryptForRecipient_def)

end
