(* ===== verification/Files.thy ===== *)
theory Files
  imports E2E
begin

text \<open>
  node/node_files.go and the file half of node/media.go: progress of a transfer
  (\<open>pushFileStatus\<close>, \<open>GetFileStatuses\<close>), cutting a file into chunks and queueing them
  (\<open>sendFileChunksAsync\<close>), remembering the chunks without a receipt and sending them again
  (\<open>chunkWorker\<close>, \<open>retryUnacked\<close>), resuming after a restart (\<open>resumeFile\<close>), acknowledging and
  deleting what was received (\<open>FileAck\<close>, \<open>DeleteFile\<close>).

  An operation that removes messages can panic in \<open>Memory_Remove\<close> and returns an option;
  under the invariant of the node it is never \<open>None\<close>.
\<close>

section \<open>Progress\<close>

definition Node_pushFileStatus :: "env \<Rightarrow> string \<Rightarrow> int \<Rightarrow> int \<Rightarrow> node \<Rightarrow> node" where
  "Node_pushFileStatus e mediaID delivered tot n =
     (if mediaID = [] \<or> tot \<le> 0 then n
      else if (case nd_abortedStore n of None \<Rightarrow> False | Some s \<Rightarrow> AbortedStore_IsAborted s mediaID) then n
      else let last = (case nd_fileStatusLastPush n mediaID of None \<Rightarrow> 0 | Some t \<Rightarrow> t);
               complete = tot \<le> delivered
           in if complete \<and> nd_completedFiles n mediaID \<and> \<not> IsZero last \<and> time_Sub (ev_now e) last < 5 * Second then n
              else if \<not> complete \<and> time_Sub (ev_now e) last < Second then n
              else let n1 = n\<lparr>nd_fileStatusLastPush := (nd_fileStatusLastPush n)(mediaID \<mapsto> ev_now e)\<rparr>;
                       n2 = (if complete then n1\<lparr>nd_completedFiles := (nd_completedFiles n1)(mediaID := True)\<rparr> else n1);
                       n3 = push_hook (FileStatusEvent mediaID delivered tot) n2
                   in if complete then push_hook (FileCompleteEvent mediaID) n3 else n3)"

record file_status_entry =
  fs_MediaID :: string
  fs_Delivered :: int
  fs_Total :: int
  fs_Status :: message_status

text \<open>The accumulator of \<open>GetFileStatuses\<close> and its loop.\<close>

record file_acc =
  fa_total :: int
  fa_delivered :: int
  fa_status :: message_status
  fa_isOwn :: bool

definition acc_message :: "message \<Rightarrow> (string \<times> file_acc) list \<Rightarrow> (string \<times> file_acc) list" where
  "acc_message m accs =
     (if \<not> isChunkedMediaType (msg_MediaType m) \<or> msg_ChunkTotal m \<le> 0 \<or> msg_MediaID m = [] then accs
      else let a = (case map_of accs (msg_MediaID m) of
                 None \<Rightarrow> \<lparr>fa_total = msg_ChunkTotal m, fa_delivered = 0, fa_status = StatusUnknown, fa_isOwn = msg_IsOwn m\<rparr>
               | Some a \<Rightarrow> a);
               a1 = (if StatusDelivered \<le> msg_Status m then a\<lparr>fa_delivered := fa_delivered a + 1\<rparr> else a);
               a2 = (if fa_status a1 < msg_Status m then a1\<lparr>fa_status := msg_Status m\<rparr> else a1)
           in AList.update (msg_MediaID m) a2 accs)"

definition has_files :: "node \<Rightarrow> string \<Rightarrow> bool" where
  "has_files n mediaID \<longleftrightarrow> (\<exists>p. glob_path (files_pattern (nd_dir n) mediaID) p \<and> nd_disk n p \<noteq> None)"

definition file_entry :: "node \<Rightarrow> string \<times> file_acc \<Rightarrow> file_status_entry" where
  "file_entry n = (\<lambda>(i, a).
     if \<not> fa_isOwn a \<and> has_files n i
     then \<lparr>fs_MediaID = i, fs_Delivered = fa_total a, fs_Total = fa_total a,
           fs_Status = (if fa_status a < StatusDelivered then StatusDelivered else fa_status a)\<rparr>
     else \<lparr>fs_MediaID = i, fs_Delivered = fa_delivered a, fs_Total = fa_total a, fs_Status = fa_status a\<rparr>)"

definition Node_GetFileStatuses :: "node \<Rightarrow> file_status_entry list" where
  "Node_GetFileStatuses n = map (file_entry n) (fold acc_message (Memory_GetAll (nd_memory n)) [])"

section \<open>Chunks of a file\<close>

definition ChunkSize :: nat where "ChunkSize = 47 * 1024"

definition chunk_count :: "int \<Rightarrow> int" where
  "chunk_count fileSize = (fileSize + int ChunkSize - 1) div int ChunkSize"

text \<open>\<open>f.ReadAt(buf, i * ChunkSize)\<close>\<close>

definition read_chunk :: "string \<Rightarrow> int \<Rightarrow> string" where
  "read_chunk content i = take ChunkSize (drop (nat (i * int ChunkSize)) content)"

definition fillFileChunkFromSent :: "env \<Rightarrow> node \<Rightarrow> message \<Rightarrow> message option" where
  "fillFileChunkFromSent e n m =
     (case nd_disk n (Node_sentPath (nd_dir n) (msg_MediaID m)) of
        None \<Rightarrow> None
      | Some content \<Rightarrow>
          if msg_ChunkIndex m < 0 then None
          else let buf = read_chunk content (msg_ChunkIndex m)
               in if buf = [] then None
                  else case Node_encryptBytesForRecipient e n (msg_Recipient m) buf of
                         None \<Rightarrow> None
                       | Some c \<Rightarrow> Some (m\<lparr>msg_PlainText := ev_base64 e buf, msg_Text := c\<rparr>))"

section \<open>Receipts and retries\<close>

definition retryBackoff :: "duration list" where
  "retryBackoff = [30 * Second, 1 * Minute, 2 * Minute, 5 * Minute, 10 * Minute,
     10 * Minute, 10 * Minute, 10 * Minute, 10 * Minute, 10 * Minute]"

text \<open>What \<open>chunkWorker\<close> does with a message before it sends it; \<open>None\<close> is \<open>continue\<close>.\<close>

definition chunkWorker_register :: "env \<Rightarrow> message \<Rightarrow> node \<Rightarrow> (message \<times> node) option" where
  "chunkWorker_register e m n =
     (if nd_aborted n (msg_MediaID m) then None
      else let info = (case map_of (nd_unackedChunks n) (msg_ID m) of None \<Rightarrow> zero_retry | Some i \<Rightarrow> i);
               info1 = info\<lparr>ri_mediaID := msg_MediaID m, ri_mediaType := msg_MediaType m,
                 ri_chunkIndex := msg_ChunkIndex m, ri_recipient := msg_Recipient m, ri_msgID := msg_ID m,
                 ri_fileName := msg_FileName m, ri_fileSize := msg_FileSize m, ri_chunkTotal := msg_ChunkTotal m,
                 ri_ttlSeconds := msg_TtlPeriodSeconds m, ri_ttlMode := msg_TtlMode m,
                 ri_expiresAt := msg_ExpiresAt m\<rparr>;
               info2 = (if IsZero (ri_lastSent info1) then info1\<lparr>ri_attempts := 0\<rparr> else info1);
               info3 = info2\<lparr>ri_lastSent := ev_now e\<rparr>
           in Some (m\<lparr>msg_PlainText := []\<rparr>, n\<lparr>nd_unackedChunks := AList.update (msg_ID m) info3 (nd_unackedChunks n)\<rparr>))"

definition restoreChunkMessage :: "env \<Rightarrow> node \<Rightarrow> retry_info \<Rightarrow> message option" where
  "restoreChunkMessage e n info =
     (if ri_mediaID info = [] \<or> ri_recipient info = [] then None
      else fillFileChunkFromSent e n
        (zero_message\<lparr>msg_ID := ri_msgID info, msg_Sender := host_id n, msg_Recipient := ri_recipient info,
           msg_Version := 2, msg_Type := TypeMessage, msg_MediaType := ri_mediaType info,
           msg_MediaID := ri_mediaID info, msg_ChunkIndex := ri_chunkIndex info,
           msg_ChunkTotal := ri_chunkTotal info, msg_FileName := ri_fileName info,
           msg_FileSize := ri_fileSize info, msg_TtlPeriodSeconds := ri_ttlSeconds info,
           msg_TtlMode := ri_ttlMode info, msg_ExpiresAt := ri_expiresAt info, msg_Time := ev_date e,
           msg_IsOwn := True, msg_Weight := 1 / 2, msg_ReadEnabled := Some (nd_myReadEnabled n)\<rparr>))"

text \<open>The first region of \<open>retryUnacked\<close>: what is given up, and what is due.\<close>

definition given_up :: "retry_info \<Rightarrow> bool" where
  "given_up info \<longleftrightarrow> length retryBackoff \<le> ri_attempts info"

definition retry_due :: "time \<Rightarrow> retry_info \<Rightarrow> bool" where
  "retry_due now info \<longleftrightarrow> \<not> given_up info \<and>
     \<not> time_Sub now (ri_lastSent info) < retryBackoff ! ri_attempts info"

definition retry_collect :: "time \<Rightarrow> node \<Rightarrow> (string \<times> retry_info) list \<times> node" where
  "retry_collect now n =
     (filter (\<lambda>(i, info). retry_due now info) (nd_unackedChunks n),
      n\<lparr>nd_unackedChunks := filter (\<lambda>(i, info). \<not> given_up info) (nd_unackedChunks n)\<rparr>)"

text \<open>The body of its second loop, for one item.\<close>

definition retry_item :: "env \<Rightarrow> string \<times> retry_info \<Rightarrow> node \<Rightarrow> node" where
  "retry_item e item n =
     (case restoreChunkMessage e n (snd item) of
        None \<Rightarrow>
          let info = (case map_of (nd_unackedChunks n) (fst item) of None \<Rightarrow> zero_retry | Some i \<Rightarrow> i);
              info1 = info\<lparr>ri_attempts := ri_attempts info + 1\<rparr>
          in if 3 \<le> ri_attempts info1
             then n\<lparr>nd_unackedChunks := AList.delete (fst item) (nd_unackedChunks n)\<rparr>
             else n\<lparr>nd_unackedChunks := AList.update (fst item) (info1\<lparr>ri_lastSent := ev_now e\<rparr>) (nd_unackedChunks n)\<rparr>
      | Some m \<Rightarrow>
          if ev_queue_room e (fst item)
          then let n1 = n\<lparr>nd_chunkQueue := nd_chunkQueue n @ [m]\<rparr>
               in case map_of (nd_unackedChunks n1) (fst item) of
                    None \<Rightarrow> n1
                  | Some info \<Rightarrow> n1\<lparr>nd_unackedChunks := AList.update (fst item)
                      (info\<lparr>ri_attempts := ri_attempts info + 1, ri_lastSent := ev_now e\<rparr>) (nd_unackedChunks n1)\<rparr>
          else n)"

definition Node_retryUnacked :: "env \<Rightarrow> node \<Rightarrow> node" where
  "Node_retryUnacked e n = (let (items, n1) = retry_collect (ev_now e) n in fold (retry_item e) items n1)"

section \<open>Sending a file\<close>

text \<open>
  One round of the loop of \<open>sendFileChunksAsync\<close> over the copy \<open>content\<close>, and whether the
  sending was aborted.  Another goroutine can change the node between two rounds.
\<close>

definition chunk_message :: "env \<Rightarrow> node \<Rightarrow> string \<Rightarrow> string \<Rightarrow> file_meta \<Rightarrow> int \<Rightarrow> string \<Rightarrow> message" where
  "chunk_message e n peer mediaID fm i encrypted =
     zero_message\<lparr>msg_ID := ev_generateMsgID e (''file:'' @ mediaID @ '':'' @ decimal i @ '':'' @ ev_nano e),
       msg_Text := encrypted, msg_Sender := host_id n, msg_Recipient := peer, msg_Version := 2,
       msg_Type := TypeMessage, msg_MediaType := fm_MediaType fm, msg_MediaID := mediaID, msg_ChunkIndex := i,
       msg_ChunkTotal := chunk_count (fm_FileSize fm), msg_FileName := fm_FileName fm,
       msg_FileSize := fm_FileSize fm, msg_TtlPeriodSeconds := fm_TtlSeconds fm, msg_TtlMode := fm_TtlMode fm,
       msg_ReadEnabled := Some (nd_myReadEnabled n), msg_Time := ev_date e, msg_IsOwn := True,
       msg_Weight := 1 / 2, msg_ExpiresAt := fm_ExpiresAt fm,
       msg_MixingEnabled := (case nd_settings n of None \<Rightarrow> False
         | Some s \<Rightarrow> SettingsStore_GetMixingEnabled s \<and> nd_useOnion n)\<rparr>"

definition send_chunk ::
  "env \<Rightarrow> string \<Rightarrow> string \<Rightarrow> file_meta \<Rightarrow> string \<Rightarrow> int \<Rightarrow> node \<Rightarrow> bool \<times> node" where
  "send_chunk e peer mediaID fm content i n =
     (if nd_aborted n mediaID
      then (True, n\<lparr>nd_disk := os_Remove (Node_metaPath (nd_dir n) mediaID)
                                (os_Remove (Node_sentPath (nd_dir n) mediaID) (nd_disk n)),
                    nd_aborted := (nd_aborted n)(mediaID := False)\<rparr>)
      else let buf = read_chunk content i
           in if buf = [] then (False, n)
              else case Node_encryptBytesForRecipient e n peer buf of
                     None \<Rightarrow> (False, n)
                   | Some c \<Rightarrow>
                       let m = chunk_message e n peer mediaID fm i c;
                           n1 = n\<lparr>nd_chunkQueue := nd_chunkQueue n @ [m]\<rparr>
                       in case Memory_Add (ev_now e) (clear_text m) (nd_memory n1) of
                            (True, mem) \<Rightarrow> (False, push_hook (MessageEvent (clear_text m)) (n1\<lparr>nd_memory := mem\<rparr>))
                          | (False, mem) \<Rightarrow> (False, n1\<lparr>nd_memory := mem\<rparr>))"

fun send_chunks :: "env \<Rightarrow> string \<Rightarrow> string \<Rightarrow> file_meta \<Rightarrow> string \<Rightarrow> int list \<Rightarrow> node \<Rightarrow> node" where
  "send_chunks e peer mediaID fm content [] n = n"
| "send_chunks e peer mediaID fm content (i # is) n =
     (case send_chunk e peer mediaID fm content i n of
        (True, n') \<Rightarrow> n'
      | (False, n') \<Rightarrow> send_chunks e peer mediaID fm content is n')"

text \<open>
  The goroutine without interruptions, once it is its turn (\<open>activeMediaID\<close>); its name,
  size, type and expiry are those of the metadata.
\<close>

definition Node_sendFileChunksAsync :: "env \<Rightarrow> string \<Rightarrow> string \<Rightarrow> file_meta \<Rightarrow> node \<Rightarrow> node" where
  "Node_sendFileChunksAsync e peer mediaID fm n =
     (let tot = chunk_count (fm_FileSize fm);
          n1 = Node_pushFileStatus e mediaID 0 tot n
      in case nd_disk n1 (Node_sentPath (nd_dir n1) mediaID) of
           None \<Rightarrow> n1
         | Some content \<Rightarrow> send_chunks e peer mediaID fm content [0..tot - 1] n1)"

section \<open>After a restart\<close>

definition resumed_chunk :: "time \<Rightarrow> message \<Rightarrow> retry_info" where
  "resumed_chunk now c =
     \<lparr>ri_mediaID = msg_MediaID c, ri_mediaType = msg_MediaType c, ri_chunkIndex = msg_ChunkIndex c,
      ri_recipient = msg_Recipient c, ri_msgID = msg_ID c, ri_fileName = msg_FileName c,
      ri_fileSize = msg_FileSize c, ri_chunkTotal = msg_ChunkTotal c, ri_ttlSeconds = msg_TtlPeriodSeconds c,
      ri_ttlMode = msg_TtlMode c, ri_expiresAt = msg_ExpiresAt c, ri_attempts = 0, ri_lastSent = now\<rparr>"

definition Node_resumeFile :: "env \<Rightarrow> string \<Rightarrow> node \<Rightarrow> node" where
  "Node_resumeFile e mediaID n =
     (if mediaID = [] then n
      else if (case nd_abortedStore n of None \<Rightarrow> False | Some s \<Rightarrow> AbortedStore_IsAborted s mediaID) then n
      else case filter (\<lambda>m. msg_MediaID m = mediaID \<and> isChunkedMediaType (msg_MediaType m)) (Memory_GetAll (nd_memory n)) of
             [] \<Rightarrow> n
           | first # rest \<Rightarrow>
               let chunks = first # rest; tot = msg_ChunkTotal first
               in if tot \<le> 0 \<or> msg_Recipient first = [] then n
                  else let delivered = int (length (filter (\<lambda>c. StatusDelivered \<le> msg_Status c) chunks));
                           n1 = n\<lparr>nd_deliveredCount := (nd_deliveredCount n)(mediaID \<mapsto> delivered)\<rparr>
                       in if tot \<le> delivered then n1
                          else n1\<lparr>nd_unackedChunks :=
                            fold (\<lambda>c u. AList.update (msg_ID c) (resumed_chunk (ev_now e) c) u)
                              (filter (\<lambda>c. \<not> StatusDelivered \<le> msg_Status c) chunks) (nd_unackedChunks n1)\<rparr>)"

text \<open>\<open>entries\<close> is what \<open>os.ReadDir\<close> returns for the directory of sent files, without directories.\<close>

definition Node_resumeIncompleteFiles :: "env \<Rightarrow> string list \<Rightarrow> node \<Rightarrow> node" where
  "Node_resumeIncompleteFiles e entries n =
     fold (\<lambda>x. if suffix ''.bin'' x then Node_resumeFile e (take (length x - 4) x) else id) entries n"

section \<open>Acknowledging and deleting\<close>

definition Node_GetChunk :: "string \<Rightarrow> int \<Rightarrow> node \<Rightarrow> string option" where
  "Node_GetChunk mediaID i n =
     (if mediaID = [] then None
      else map_option (\<lambda>m. if msg_IsOwn m then msg_PlainText m else msg_Text m)
             (Memory_GetFileChunk mediaID i (nd_memory n)))"

definition Node_ClearChunkData :: "string \<Rightarrow> int \<Rightarrow> node \<Rightarrow> bool \<times> node" where
  "Node_ClearChunkData mediaID i n =
     (if mediaID = [] then (False, n)
      else case Memory_ClearFileChunk mediaID i (nd_memory n) of (b, m) \<Rightarrow> (b, n\<lparr>nd_memory := m\<rparr>))"

definition Node_FileAck :: "string \<Rightarrow> int list \<Rightarrow> node \<Rightarrow> node" where
  "Node_FileAck mediaID indices n =
     (if mediaID = [] \<or> indices = [] then n
      else let n1 = n\<lparr>nd_memory := fold (\<lambda>i m. snd (Memory_ClearFileChunk mediaID i m)) indices (nd_memory n)\<rparr>
           in case nd_pendingHookAcks n1 mediaID of
                None \<Rightarrow> n1
              | Some w \<Rightarrow>
                  let w' = fold AList.delete indices w
                  in n1\<lparr>nd_pendingHookAcks := (nd_pendingHookAcks n1)(mediaID := if w' = [] then None else Some w')\<rparr>)"

text \<open>The loop that removes messages by ID and counts them.\<close>

fun remove_messages :: "string list \<Rightarrow> memory \<Rightarrow> (nat \<times> memory) option" where
  "remove_messages [] m = Some (0, m)"
| "remove_messages (i # is) m =
     (case Memory_Remove i m of
        None \<Rightarrow> None
      | Some (b, m') \<Rightarrow> map_option (\<lambda>(k, m''). (if b then Suc k else k, m'')) (remove_messages is m'))"

definition media_ids :: "string \<Rightarrow> memory \<Rightarrow> string list" where
  "media_ids mediaID m = map msg_ID (filter (\<lambda>x. msg_MediaID x = mediaID) (Memory_GetAll m))"

definition forget_file_status :: "string \<Rightarrow> node \<Rightarrow> node" where
  "forget_file_status mediaID n =
     n\<lparr>nd_deliveredCount := (nd_deliveredCount n)(mediaID := None),
       nd_acceptedCount := (nd_acceptedCount n)(mediaID := None),
       nd_completedFiles := (nd_completedFiles n)(mediaID := False),
       nd_fileStatusLastPush := (nd_fileStatusLastPush n)(mediaID := None)\<rparr>"

definition Node_DeleteFile :: "string \<Rightarrow> node \<Rightarrow> (nat \<times> node) option" where
  "Node_DeleteFile mediaID n =
     (if mediaID = [] then Some (0, n)
      else case remove_messages (media_ids mediaID (nd_memory n)) (nd_memory n) of
             None \<Rightarrow> None
           | Some (removed, mem) \<Rightarrow>
               let dir = nd_dir n;
                   n1 = n\<lparr>nd_memory := mem,
                     nd_disk := remove_glob (files_pattern dir mediaID)
                       (os_RemoveAll (chunks_dir dir mediaID)
                         (os_Remove (Node_metaPath dir mediaID) (os_Remove (Node_sentPath dir mediaID) (nd_disk n))))\<rparr>;
                   n2 = forget_file_status mediaID n1;
                   n3 = n2\<lparr>nd_pendingHookAcks := (nd_pendingHookAcks n2)(mediaID := None)\<rparr>
               in Some (removed, if 0 < removed then Node_scheduleSaveState n3 else n3))"

end
