(* ===== verification/Protocol.thy ===== *)
theory Protocol
  imports Files
begin

text \<open>
  The handlers of the service messages: file offers (node/node_offers.go), contacts
  (node/node_contacts.go), receipts, expiry and completion (node/node_service.go), and the
  dispatch \<open>handleServiceMessage\<close>.  A handler that deletes messages returns an option,
  \<open>None\<close> being a panic of \<open>Memory.Remove\<close>.
\<close>

section \<open>File offers\<close>

definition Node_SendFileAccept :: "env \<Rightarrow> string \<Rightarrow> string \<Rightarrow> string \<Rightarrow> node \<Rightarrow> bool \<times> node" where
  "Node_SendFileAccept e offerMsgID mediaID recipient n =
     (if nd_host n = None \<or> offerMsgID = [] \<or> mediaID = [] \<or> recipient = [] then (False, n)
      else Node_sendServiceViaBootstrap e
        (service_message e n TypeFileAccept (''accept:'' @ mediaID @ '':'' @ ev_nano e) mediaID recipient offerMsgID) n)"

definition Node_SendFileDecline :: "env \<Rightarrow> string \<Rightarrow> string \<Rightarrow> string \<Rightarrow> node \<Rightarrow> bool \<times> node" where
  "Node_SendFileDecline e offerMsgID mediaID recipient n =
     (if nd_host n = None \<or> offerMsgID = [] \<or> mediaID = [] \<or> recipient = [] then (False, n)
      else Node_sendServiceViaBootstrap e
        (service_message e n TypeFileDecline (''decline:'' @ mediaID @ '':'' @ ev_nano e) mediaID recipient offerMsgID) n)"

definition Node_SendFileCancel :: "env \<Rightarrow> string \<Rightarrow> string \<Rightarrow> string \<Rightarrow> node \<Rightarrow> bool \<times> node" where
  "Node_SendFileCancel e offerMsgID mediaID recipient n =
     (if nd_host n = None \<or> offerMsgID = [] \<or> mediaID = [] \<or> recipient = [] then (False, n)
      else Node_sendServiceViaBootstrap e
        (service_message e n TypeFileCancel (''cancel:'' @ mediaID @ '':'' @ ev_nano e) mediaID recipient offerMsgID) n)"

definition Node_SendFileAbort :: "env \<Rightarrow> string \<Rightarrow> string \<Rightarrow> node \<Rightarrow> bool \<times> node" where
  "Node_SendFileAbort e peer mediaID n =
     (if nd_host n = None \<or> peer = [] \<or> mediaID = [] then (False, n)
      else let n1 = n\<lparr>nd_aborted := (nd_aborted n)(mediaID := True)\<rparr>
           in Node_sendServiceViaBootstrap e
             (service_message e n1 TypeFileAbort (''abort:'' @ mediaID @ '':'' @ ev_nano e) mediaID peer mediaID) n1)"

text \<open>Whether the user is asked: a negative threshold always asks, 0 never, N from N megabytes.\<close>

definition offer_needs_ask :: "int \<Rightarrow> int \<Rightarrow> bool" where
  "offer_needs_ask thresholdMB fileSize =
     (if thresholdMB < 0 then True else if thresholdMB = 0 then False
      else wrap64 (thresholdMB * 1024 * 1024) \<le> fileSize)"

definition Node_handleFileOffer :: "env \<Rightarrow> message \<Rightarrow> node \<Rightarrow> node" where
  "Node_handleFileOffer e m n =
     (if msg_Sender m = [] \<or> msg_Text m = [] then n
      else case ev_offer_payload e (msg_Text m) of
        None \<Rightarrow> n
      | Some p \<Rightarrow>
          if op_MediaID p = [] then n
          else case nd_offers n of
            None \<Rightarrow> n
          | Some os \<Rightarrow>
              let offer = \<lparr>off_MediaID = op_MediaID p, off_OfferMsgID = msg_Ref m, off_Sender = msg_Sender m,
                    off_FileName = op_FileName p, off_FileSize = op_FileSize p, off_ChunkTotal = op_ChunkTotal p,
                    off_TtlSeconds = op_TtlSeconds p, off_TtlMode = op_TtlMode p, off_ExpiresAt = 0,
                    off_CreatedAt = ev_now e, off_OfferExpiresAt = ev_now e + OFFER_TIMEOUT, off_Cancelled = False\<rparr>
              in case OffersStore_Add offer (ev_w_offers e 0) os (nd_offers_file n) of
                   (err, os', f') \<Rightarrow>
                     let n1 = n\<lparr>nd_offers := Some os', nd_offers_file := f'\<rparr>;
                         thresholdMB = (case nd_settings n1 of None \<Rightarrow> -1
                           | Some s \<Rightarrow> SettingsStore_GetFileRequestThreshold s)
                     in if err \<noteq> None then n1
                        else if \<not> offer_needs_ask thresholdMB (op_FileSize p)
                        then snd (Node_SendFileAccept e (msg_Ref m) (op_MediaID p) (msg_Sender m) n1)
                        else push_hook (FileOfferEvent offer (Node_nameForPeer (msg_Sender m) n1)) n1)"

definition Node_handleFileAbort :: "env \<Rightarrow> message \<Rightarrow> node \<Rightarrow> node option" where
  "Node_handleFileAbort e m n =
     (let mediaID = msg_Text m
      in if mediaID = [] then Some n
         else case Node_DeleteFile mediaID n of
           None \<Rightarrow> None
         | Some (removed, n1) \<Rightarrow>
             let n2 = (case nd_abortedStore n1 of None \<Rightarrow> n1
                | Some s \<Rightarrow> (case AbortedStore_Add (ev_now e) mediaID (ev_w_aborted e 0) s (nd_aborted_file n1) of
                    (err, s', f') \<Rightarrow> n1\<lparr>nd_abortedStore := Some s', nd_aborted_file := f'\<rparr>))
             in Some (push_hook (FileAbortEvent mediaID (msg_Sender m)) n2))"

definition Node_readFileMeta :: "env \<Rightarrow> string \<Rightarrow> node \<Rightarrow> file_meta option" where
  "Node_readFileMeta e mediaID n =
     (case nd_disk n (Node_metaPath (nd_dir n) mediaID) of None \<Rightarrow> None | Some d \<Rightarrow> ev_meta e d)"

definition Node_handleFileAccept :: "env \<Rightarrow> message \<Rightarrow> node \<Rightarrow> node" where
  "Node_handleFileAccept e m n =
     (let mediaID = msg_Text m
      in if mediaID = [] then n
         else case Node_readFileMeta e mediaID n of
           None \<Rightarrow> n
         | Some fm \<Rightarrow>
             if fm_FileName fm = [] \<or> fm_FileSize fm \<le> 0 \<or> fm_ChunkTotal fm \<le> 0 then n
             else let n1 = push_hook (FileAcceptEvent mediaID (msg_Sender m)) n;
                      fm1 = (if fm_MediaType fm = [] then fm\<lparr>fm_MediaType := ''file''\<rparr> else fm)
                  in n1\<lparr>nd_started := nd_started n1 @ [SendFileChunks (msg_Sender m) (fm1\<lparr>fm_MediaID := mediaID\<rparr>)]\<rparr>)"

definition Node_handleFileDecline :: "env \<Rightarrow> message \<Rightarrow> node \<Rightarrow> node" where
  "Node_handleFileDecline e m n =
     (let mediaID = msg_Text m; dir = nd_dir n
      in if mediaID = [] then n
         else let n1 = n\<lparr>nd_disk := remove_glob (files_pattern dir mediaID)
                     (os_Remove (Node_metaPath dir mediaID) (os_Remove (Node_sentPath dir mediaID) (nd_disk n)))\<rparr>;
                  n2 = forget_file_status mediaID n1;
                  n3 = n2\<lparr>nd_unackedChunks := filter (\<lambda>(i, info). ri_mediaID info \<noteq> mediaID) (nd_unackedChunks n2)\<rparr>
              in push_hook (FileDeclineEvent mediaID (msg_Sender m)) n3)"

definition Node_handleFileCancel :: "env \<Rightarrow> message \<Rightarrow> node \<Rightarrow> node" where
  "Node_handleFileCancel e m n =
     (let mediaID = msg_Text m
      in if mediaID = [] then n
         else let n1 = (case nd_offers n of None \<Rightarrow> n
                | Some os \<Rightarrow> (case OffersStore_Get os mediaID of None \<Rightarrow> n
                    | Some offer \<Rightarrow> (case OffersStore_Add (offer\<lparr>off_Cancelled := True\<rparr>) (ev_w_offers e 0) os (nd_offers_file n) of
                        (err, os', f') \<Rightarrow> n\<lparr>nd_offers := Some os', nd_offers_file := f'\<rparr>)))
              in push_hook (FileCancelEvent mediaID (msg_Sender m)) n1)"

section \<open>Contacts\<close>

definition Node_AddTempContact :: "contact \<Rightarrow> node \<Rightarrow> node" where
  "Node_AddTempContact c n =
     (if con_PeerID c = [] then n else n\<lparr>nd_tempContacts := (nd_tempContacts n)(con_PeerID c \<mapsto> c)\<rparr>)"

definition Node_RemoveTempContact :: "string \<Rightarrow> node \<Rightarrow> node" where
  "Node_RemoveTempContact p n = n\<lparr>nd_tempContacts := (nd_tempContacts n)(p := None)\<rparr>"

text \<open>\<open>n.contacts.SetConfirmed(p)\<close> and \<open>UpdateReadEnabled\<close>, errors dropped by the callers.\<close>

definition Node_SetContactReadEnabled :: "env \<Rightarrow> string \<Rightarrow> bool \<Rightarrow> node \<Rightarrow> store_error option \<times> node" where
  "Node_SetContactReadEnabled e p enabled n =
     (case nd_contacts n of None \<Rightarrow> (Some (Required ''contacts store''), n)
      | Some cs \<Rightarrow> (case ContactsStore_UpdateReadEnabled p enabled (ev_w_contacts e 0) cs (nd_contacts_file n) of
          (err, cs', f') \<Rightarrow> (err, n\<lparr>nd_contacts := Some cs', nd_contacts_file := f'\<rparr>)))"

definition Node_RenameContact :: "env \<Rightarrow> string \<Rightarrow> string \<Rightarrow> node \<Rightarrow> store_error option \<times> node" where
  "Node_RenameContact e p localName n =
     (case nd_contacts n of None \<Rightarrow> (Some (Required ''contacts store''), n)
      | Some cs \<Rightarrow> (case ContactsStore_RenameContact p localName (ev_w_contacts e 0) cs (nd_contacts_file n) of
          (err, cs', f') \<Rightarrow> (err, n\<lparr>nd_contacts := Some cs', nd_contacts_file := f'\<rparr>)))"

definition set_confirmed :: "env \<Rightarrow> string \<Rightarrow> node \<Rightarrow> node" where
  "set_confirmed e p n =
     (case nd_contacts n of None \<Rightarrow> n
      | Some cs \<Rightarrow> (case ContactsStore_SetConfirmed p (ev_w_contacts e 1) cs (nd_contacts_file n) of
          (err, cs', f') \<Rightarrow> n\<lparr>nd_contacts := Some cs', nd_contacts_file := f'\<rparr>))"

text \<open>\<open>n.deletedStore.RemoveFromDeleted(p)\<close> and \<open>n.deletedStore.Add(p)\<close>, behind the nil check.\<close>

definition undelete_peer :: "env \<Rightarrow> string \<Rightarrow> node \<Rightarrow> node" where
  "undelete_peer e p n =
     (case nd_deleted n of None \<Rightarrow> n
      | Some ds \<Rightarrow> (case DeletedStore_RemoveFromDeleted p (ev_w_deleted e 0) ds (nd_deleted_file n) of
          (err, ds', f') \<Rightarrow> n\<lparr>nd_deleted := Some ds', nd_deleted_file := f'\<rparr>))"

definition mark_deleted :: "env \<Rightarrow> string \<Rightarrow> node \<Rightarrow> node" where
  "mark_deleted e p n =
     (case nd_deleted n of None \<Rightarrow> n
      | Some ds \<Rightarrow> (case DeletedStore_Add p (ev_w_deleted e 0) ds (nd_deleted_file n) of
          (err, ds', f') \<Rightarrow> n\<lparr>nd_deleted := Some ds', nd_deleted_file := f'\<rparr>))"

text \<open>The result is whether the contact was added and saved; its errors only end a handler.\<close>

definition Node_AddContact ::
  "env \<Rightarrow> string \<Rightarrow> string \<Rightarrow> string \<Rightarrow> string \<Rightarrow> string \<Rightarrow> string \<Rightarrow> bool \<Rightarrow> node \<Rightarrow> bool \<times> node" where
  "Node_AddContact e p ed25519Pub x25519Pub signature localName remoteName readEnabled n =
     (case nd_contacts n of
        None \<Rightarrow> (False, n)
      | Some cs \<Rightarrow>
          if nd_host n = Some p then (False, n)
          else let n1 = undelete_peer e p n;
                   verified = (signature \<noteq> [] \<and> ed25519Pub \<noteq> [] \<and> x25519Pub \<noteq> [] \<and>
                     verifyContactSignature e p ed25519Pub x25519Pub signature);
                   c = \<lparr>con_PeerID = p, con_Ed25519Pub = ed25519Pub, con_X25519Pub = x25519Pub,
                     con_Signature = signature, con_Verified = verified, con_Confirmed = False,
                     con_Name = localName, con_RemoteName = remoteName,
                     con_AddedAt = [], con_ReadEnabled = readEnabled\<rparr>
               in case ContactsStore_Add (ev_rfc3339 e) c (ev_w_contacts e 0) cs (nd_contacts_file n1) of
                    (err, cs', f') \<Rightarrow> (err = None, n1\<lparr>nd_contacts := Some cs', nd_contacts_file := f'\<rparr>))"

definition peer_messages :: "string \<Rightarrow> memory \<Rightarrow> string list" where
  "peer_messages p m = map msg_ID (filter (\<lambda>x. msg_Sender x = p \<or> msg_Recipient x = p) (Memory_GetAll m))"

text \<open>\<open>None\<close> is a panic; the flag is whether it returned nil.\<close>

definition Node_RemoveContact :: "env \<Rightarrow> string \<Rightarrow> node \<Rightarrow> (bool \<times> node) option" where
  "Node_RemoveContact e p n =
     (case nd_contacts n of
        None \<Rightarrow> Some (False, n)
      | Some cs \<Rightarrow>
          (case ContactsStore_Remove p (ev_w_contacts e 0) cs (nd_contacts_file n) of
             (err, cs', f') \<Rightarrow>
               let n1 = n\<lparr>nd_contacts := Some cs', nd_contacts_file := f'\<rparr>;
                   n2 = mark_deleted e p n1
               in case remove_messages (peer_messages p (nd_memory n2)) (nd_memory n2) of
                    None \<Rightarrow> None
                  | Some (removed, mem) \<Rightarrow> Some (True, Node_scheduleSaveState (n2\<lparr>nd_memory := mem\<rparr>))))"

definition MESSAGE_VERSION_E2E :: int where "MESSAGE_VERSION_E2E = 2"

definition Node_handleContactRequest :: "env \<Rightarrow> message \<Rightarrow> node \<Rightarrow> node" where
  "Node_handleContactRequest e m n =
     (if msg_Version m \<noteq> MESSAGE_VERSION_E2E then n
      else case Option.bind (Node_decryptFromSender e n (msg_Sender m) (msg_Text m)) (ev_contact_payload e) of
        None \<Rightarrow> n
      | Some p \<Rightarrow>
          (case nd_requests n of None \<Rightarrow> n
           | Some rs \<Rightarrow>
               let req = \<lparr>req_ID = msg_ID m, req_PeerID = msg_Sender m, req_Name = cp_Name p,
                     req_Ed25519Pub = cp_Ed25519Pub p, req_X25519Pub = cp_X25519Pub p,
                     req_Signature = cp_Signature p, req_ReadEnabled = cp_ReadEnabled p,
                     req_ReceivedAt = [], req_Status = RequestStatusPending\<rparr>
               in case RequestsStore_Add (ev_rfc3339 e) req (ev_w_requests e 0) rs (nd_requests_file n) of
                    (err, rs', f') \<Rightarrow>
                      let n1 = n\<lparr>nd_requests := Some rs', nd_requests_file := f'\<rparr>
                      in if err \<noteq> None then n1
                         else push_hook (MessageEvent m) (Node_RemoveTempContact (msg_Sender m) n1)))"

definition Node_handleContactAccept :: "env \<Rightarrow> message \<Rightarrow> node \<Rightarrow> node" where
  "Node_handleContactAccept e m n =
     (if msg_Version m \<noteq> MESSAGE_VERSION_E2E then n
      else case Option.bind (Node_decryptFromSender e n (msg_Sender m) (msg_Text m)) (ev_contact_payload e) of
        None \<Rightarrow> n
      | Some p \<Rightarrow>
          (case Node_AddContact e (msg_Sender m) (cp_Ed25519Pub p) (cp_X25519Pub p) (cp_Signature p) []
                  (cp_Name p) (cp_ReadEnabled p) n of
             (False, n1) \<Rightarrow> n1
           | (True, n1) \<Rightarrow> push_hook (MessageEvent m) (set_confirmed e (msg_Sender m) n1)))"

definition Node_handleContactReject :: "message \<Rightarrow> node \<Rightarrow> node" where
  "Node_handleContactReject m n = n"

definition Node_handleContactHello :: "env \<Rightarrow> message \<Rightarrow> node \<Rightarrow> node" where
  "Node_handleContactHello e m n =
     (if msg_Sender m = [] \<or> nd_host n = None \<or> nd_host n = Some (msg_Sender m) \<or> msg_Text m = [] then n
      else case ev_hello_payload e (msg_Text m) of
        None \<Rightarrow> n
      | Some p \<Rightarrow>
          if hp_PeerID p \<noteq> msg_Sender m \<or> hp_Ed25519Pub p = [] \<or> hp_X25519Pub p = [] then n
          else let verified = (hp_Signature p \<noteq> [] \<and>
                     verifyContactSignature e (hp_PeerID p) (hp_Ed25519Pub p) (hp_X25519Pub p) (hp_Signature p));
                   c = \<lparr>con_PeerID = hp_PeerID p, con_Ed25519Pub = hp_Ed25519Pub p,
                     con_X25519Pub = hp_X25519Pub p, con_Signature = hp_Signature p, con_Verified = verified,
                     con_Confirmed = False, con_Name = [], con_RemoteName = [],
                     con_AddedAt = [], con_ReadEnabled = True\<rparr>;
                   n1 = (if Node_GetContact (msg_Sender m) n = None then Node_AddTempContact c n else n)
               in n1\<lparr>nd_started := nd_started n1 @ [SendHelloAck (msg_Sender m)]\<rparr>)"

definition Node_handleContactHelloAck :: "env \<Rightarrow> message \<Rightarrow> node \<Rightarrow> node" where
  "Node_handleContactHelloAck e m n =
     (if msg_Sender m = [] \<or> msg_Version m \<noteq> 0 \<or> msg_Text m = [] then n
      else case ev_hello_payload e (msg_Text m) of
        None \<Rightarrow> n
      | Some p \<Rightarrow> if hp_PeerID p \<noteq> msg_Sender m then n else push_hook (MessageEvent m) n)"

end
