(* ===== verification/Service.thy ===== *)
theory Service
  imports Protocol
begin

text \<open>
  node/node_service.go: receipts, read marks, deletion periods that start with the reading, the
  completion of a file, the messages the node sends for them, and \<open>handleServiceMessage\<close>, which
  gives every service message to its handler.  \<open>queueDelivered\<close> and \<open>flushDelivered\<close> are in the
  theory of the batched receipts.
\<close>

section \<open>Periods that start with the reading\<close>

text \<open>
  The block that the handlers repeat: when the message is to be deleted after reading and has
  no expiry yet, set it, tell the hook.  The flag is whether it was set.
\<close>

definition start_after_read :: "env \<Rightarrow> string \<Rightarrow> node \<Rightarrow> bool \<times> node" where
  "start_after_read e ref n =
     (case Node_findMyMessageByID ref n of
        None \<Rightarrow> (False, n)
      | Some m \<Rightarrow>
          if msg_TtlMode m = ''after_read'' \<and> IsZero (msg_ExpiresAt m) \<and> 0 < msg_TtlPeriodSeconds m
          then (case Memory_SetExpiresAt ref (ev_now e + seconds (msg_TtlPeriodSeconds m)) (nd_memory n) of
                  (True, mem) \<Rightarrow>
                    let n1 = Node_scheduleSaveState (n\<lparr>nd_memory := mem\<rparr>)
                    in (True, case Node_findMyMessageByID ref n1 of None \<Rightarrow> n1 | Some u \<Rightarrow> push_hook (MessageEvent u) n1)
                | (False, mem) \<Rightarrow> (False, n\<lparr>nd_memory := mem\<rparr>))
          else (False, n))"

definition Node_sendTtlUpdate :: "env \<Rightarrow> string \<Rightarrow> string \<Rightarrow> string \<Rightarrow> node \<Rightarrow> bool \<times> node" where
  "Node_sendTtlUpdate e ref txt recipient n =
     (if nd_host n = None then (False, n)
      else Node_sendServiceViaBootstrap e
        ((service_message e n TypeTtlUpdate (ref @ '':'' @ recipient) txt recipient ref)
           \<lparr>msg_IsOwn := True, msg_Weight := 1 / 2\<rparr>) n)"

definition Node_SendTtlUpdate :: "env \<Rightarrow> string \<Rightarrow> int \<Rightarrow> string \<Rightarrow> node \<Rightarrow> bool \<times> node" where
  "Node_SendTtlUpdate e ref secs recipient n =
     (if nd_host n = None \<or> ref = [] \<or> recipient = [] \<or> secs \<le> 0 then (False, n)
      else Node_sendTtlUpdate e ref (decimal secs) recipient n)"

definition Node_handleTtlUpdate :: "env \<Rightarrow> message \<Rightarrow> node \<Rightarrow> node" where
  "Node_handleTtlUpdate e m n =
     (if msg_Ref m = [] then n
      else case Atoi (msg_Text m) of
        None \<Rightarrow> n
      | Some secs \<Rightarrow>
          if secs \<le> 0 then n
          else case Memory_SetExpiresAt (msg_Ref m) (ev_now e + seconds secs) (nd_memory n) of
                 (True, mem) \<Rightarrow>
                   let n1 = Node_scheduleSaveState (n\<lparr>nd_memory := mem\<rparr>)
                   in (case Node_findMyMessageByID (msg_Ref m) n1 of None \<Rightarrow> n1
                       | Some u \<Rightarrow> push_hook (MessageEvent u) n1)
               | (False, mem) \<Rightarrow> n\<lparr>nd_memory := mem\<rparr>)"

section \<open>Receipts\<close>

definition own_chunk :: "string \<Rightarrow> node \<Rightarrow> bool" where
  "own_chunk ref n = (case Node_findMyMessageByID ref n of None \<Rightarrow> False | Some m \<Rightarrow> is_chunk m)"

text \<open>The last block of \<open>handleDeliveredRef\<close>: counting the chunks of a file.\<close>

definition count_delivered :: "env \<Rightarrow> string \<Rightarrow> node \<Rightarrow> node" where
  "count_delivered e ref n =
     (case Node_findMyMessageByID ref n of
        None \<Rightarrow> n
      | Some m \<Rightarrow>
          if is_chunk m \<and> msg_MediaID m \<noteq> []
          then let mediaID = msg_MediaID m; tot = msg_ChunkTotal m;
                   cur0 = (case nd_deliveredCount n mediaID of None \<Rightarrow> 0 | Some c \<Rightarrow> c);
                   cur = (if cur0 < tot then cur0 + 1 else cur0);
                   n1 = (if cur0 < tot then n\<lparr>nd_deliveredCount := (nd_deliveredCount n)(mediaID \<mapsto> cur)\<rparr> else n);
                   n2 = Node_pushFileStatus e mediaID cur tot n1
               in if tot \<le> cur
                  then n2\<lparr>nd_unackedChunks := filter (\<lambda>(i, info). ri_mediaID info \<noteq> mediaID) (nd_unackedChunks n2)\<rparr>
                  else n2
          else n)"

definition Node_handleDeliveredRef :: "env \<Rightarrow> string \<Rightarrow> string \<Rightarrow> node \<Rightarrow> node" where
  "Node_handleDeliveredRef e sender ref n =
     (if ref = [] then n
      else let n1 = Node_removePendingByRef ref n;
               n2 = n1\<lparr>nd_unackedChunks := AList.delete ref (nd_unackedChunks n1)\<rparr>;
               n3 = (if \<not> nd_myReadEnabled n2 \<or> \<not> Node_getPeerReadEnabled sender n2
                     then let n4 = (if own_chunk ref n2 then n2 else Node_setMessageStatus ref StatusHidden n2)
                          in (case start_after_read e ref n4 of
                                (False, n5) \<Rightarrow> n5
                              | (True, n5) \<Rightarrow>
                                  (case Node_findMyMessageByID ref n4 of None \<Rightarrow> n5
                                   | Some m \<Rightarrow> snd (Node_SendTtlUpdate e ref (msg_TtlPeriodSeconds m) sender n5)))
                     else if own_chunk ref n2 then n2 else Node_setMessageStatus ref StatusDelivered n2)
           in count_delivered e ref n3)"

text \<open>The references of a receipt: the list, or the single one.\<close>

definition message_refs :: "message \<Rightarrow> string list" where
  "message_refs m = (if length (msg_Refs m) = 0 \<and> msg_Ref m \<noteq> [] then [msg_Ref m] else msg_Refs m)"

definition Node_handleDelivered :: "env \<Rightarrow> message \<Rightarrow> node \<Rightarrow> node" where
  "Node_handleDelivered e m n =
     (let n1 = (case msg_ReadEnabled m of None \<Rightarrow> n
        | Some b \<Rightarrow> (case Node_GetContact (msg_Sender m) n of None \<Rightarrow> n
            | Some c \<Rightarrow> if con_ReadEnabled c \<noteq> b then snd (Node_SetContactReadEnabled e (msg_Sender m) b n) else n))
      in fold (Node_handleDeliveredRef e (msg_Sender m)) (message_refs m) n1)"

text \<open>\<open>setMessageStatus\<close> for every message of a file.\<close>

definition set_media_status :: "string \<Rightarrow> message_status \<Rightarrow> node \<Rightarrow> node" where
  "set_media_status mediaID s n =
     fold (\<lambda>i. Node_setMessageStatus i s) (media_ids mediaID (nd_memory n)) n"

definition Node_handleReadRef :: "env \<Rightarrow> string \<Rightarrow> node \<Rightarrow> node" where
  "Node_handleReadRef e ref n =
     (let s = (if nd_myReadEnabled n then StatusRead else StatusHidden);
          n1 = (case Node_findMyMessageByID ref n of
                  Some m \<Rightarrow> if is_chunk m then set_media_status (msg_MediaID m) s n else Node_setMessageStatus ref s n
                | None \<Rightarrow> if media_ids ref (nd_memory n) \<noteq> [] then set_media_status ref s n
                          else Node_setMessageStatus ref s n)
      in snd (start_after_read e ref n1))"

definition Node_handleRead :: "env \<Rightarrow> message \<Rightarrow> node \<Rightarrow> node" where
  "Node_handleRead e m n = fold (Node_handleReadRef e) (message_refs m) n"

section \<open>Completion of a file\<close>

definition Node_handleFileComplete :: "env \<Rightarrow> message \<Rightarrow> node \<Rightarrow> node" where
  "Node_handleFileComplete e m n =
     (let mediaID = msg_Ref m
      in if mediaID = [] then n
         else let n1 = (case nd_abortedStore n of None \<Rightarrow> n
                | Some s \<Rightarrow> (case AbortedStore_Remove mediaID (ev_w_aborted e 0) s (nd_aborted_file n) of
                    (err, s', f') \<Rightarrow> n\<lparr>nd_abortedStore := Some s', nd_aborted_file := f'\<rparr>));
                  s = (if \<not> nd_myReadEnabled n1 \<or> \<not> Node_getPeerReadEnabled (msg_Sender m) n1
                       then StatusHidden else StatusDelivered);
                  tot = fold (\<lambda>c t. if t = 0 then msg_ChunkTotal c else t)
                    (filter (\<lambda>c. msg_MediaID c = mediaID) (Memory_GetAll (nd_memory n1))) 0;
                  n2 = set_media_status mediaID s n1;
                  n3 = (if 0 < tot
                        then Node_pushFileStatus e mediaID tot tot
                          (n2\<lparr>nd_deliveredCount := (nd_deliveredCount n2)(mediaID \<mapsto> tot)\<rparr>)
                        else n2)
              in n3\<lparr>nd_disk := os_Remove (Node_sentPath (nd_dir n3) mediaID) (nd_disk n3)\<rparr>)"

text \<open>The flush of waiting receipts that comes first is in the theory of the batched receipts.\<close>

definition Node_SendFileComplete :: "env \<Rightarrow> string \<Rightarrow> string \<Rightarrow> node \<Rightarrow> bool \<times> node" where
  "Node_SendFileComplete e mediaID recipient n =
     (if nd_host n = None \<or> mediaID = [] \<or> recipient = [] then (False, n)
      else Node_sendServiceViaBootstrap e
        ((service_message e n TypeFileComplete (''file_complete:'' @ mediaID @ '':'' @ ev_nano e) [] recipient mediaID)
           \<lparr>msg_ReadEnabled := Some (nd_myReadEnabled n)\<rparr>) n)"

section \<open>Receipts the node sends\<close>

definition Node_SendDeliveredBatch :: "env \<Rightarrow> string list \<Rightarrow> string \<Rightarrow> node \<Rightarrow> bool \<times> node" where
  "Node_SendDeliveredBatch e refs recipient n =
     (if nd_host n = None \<or> recipient = [] then (False, n)
      else if length refs = 0 then (True, n)
      else Node_sendServiceViaBootstrap e
        ((service_message e n TypeDelivered (''delivered-batch:'' @ decimal (int (length refs))) [] recipient [])
           \<lparr>msg_Refs := refs, msg_ReadEnabled := Some (nd_myReadEnabled n)\<rparr>) n)"

definition msgTypeString :: "message_type \<Rightarrow> string" where
  "msgTypeString t =
     (if t = TypeDelivered then ''delivered'' else if t = TypeRead then ''read''
      else if t = TypeContactRequest then ''contact_request'' else if t = TypeContactAccept then ''contact_accept''
      else if t = TypeContactReject then ''contact_reject'' else if t = TypeContactHello then ''contact_hello''
      else if t = TypeContactHelloAck then ''contact_hello_ack'' else if t = TypeTtlUpdate then ''ttl_update''
      else ''message'')"

definition Node_sendConfirmation :: "env \<Rightarrow> message_type \<Rightarrow> string \<Rightarrow> string \<Rightarrow> node \<Rightarrow> bool \<times> node" where
  "Node_sendConfirmation e t ref recipient n =
     (if nd_host n = None \<or> ref = [] \<or> recipient = [] then (False, n)
      else if t = TypeRead \<and> \<not> nd_myReadEnabled n then (True, n)
      else Node_fallbackSend e recipient
        ((service_message e n t (ref @ '':'' @ msgTypeString t) [] recipient ref)
           \<lparr>msg_ReadEnabled := Some (nd_myReadEnabled n)\<rparr>) n)"

definition Node_SendDelivered :: "env \<Rightarrow> string \<Rightarrow> string \<Rightarrow> node \<Rightarrow> bool \<times> node" where
  "Node_SendDelivered e ref recipient n = Node_sendConfirmation e TypeDelivered ref recipient n"

definition Node_SendRead :: "env \<Rightarrow> string \<Rightarrow> string \<Rightarrow> node \<Rightarrow> bool \<times> node" where
  "Node_SendRead e ref recipient n =
     (if (case Node_findMyMessageByID ref n of None \<Rightarrow> False
          | Some m \<Rightarrow> is_chunk m \<and> msg_ChunkIndex m \<noteq> msg_ChunkTotal m - 1)
      then (True, n)
      else Node_sendConfirmation e TypeRead ref recipient (snd (start_after_read e ref n)))"

text \<open>One reference per file: the chunks of a file are replaced by its media ID.\<close>

fun read_refs :: "node \<Rightarrow> string list \<Rightarrow> string set \<Rightarrow> string list" where
  "read_refs n [] seen = []"
| "read_refs n (ref # refs) seen =
     (case Node_findMyMessageByID ref n of
        Some m \<Rightarrow>
          if is_chunk m
          then if msg_MediaID m \<in> seen then read_refs n refs seen
               else msg_MediaID m # read_refs n refs (insert (msg_MediaID m) seen)
          else ref # read_refs n refs seen
      | None \<Rightarrow> ref # read_refs n refs seen)"

definition Node_SendReadBatch :: "env \<Rightarrow> string list \<Rightarrow> string \<Rightarrow> node \<Rightarrow> bool \<times> node" where
  "Node_SendReadBatch e refs0 recipient n =
     (if nd_host n = None \<or> recipient = [] then (False, n)
      else if length refs0 = 0 then (True, n)
      else if \<not> nd_myReadEnabled n then (True, n)
      else let refs = read_refs n refs0 {}
           in if length refs = 0 then (True, n)
              else let n1 = fold (\<lambda>ref n. snd (start_after_read e ref n)) refs n
                   in Node_sendToRecipient e
                     ((service_message e n1 TypeRead (''read-batch:'' @ decimal (int (length refs))) [] recipient [])
                        \<lparr>msg_Refs := refs, msg_ReadEnabled := Some (nd_myReadEnabled n1)\<rparr>) n1)"

definition Node_MarkReadLocally :: "string list \<Rightarrow> node \<Rightarrow> nat \<times> node" where
  "Node_MarkReadLocally refs n =
     (if length refs = 0 then (0, n)
      else case Memory_MarkReadLocally refs (nd_memory n) of (k, mem) \<Rightarrow> (k, n\<lparr>nd_memory := mem\<rparr>))"

section \<open>Dispatch\<close>

definition Node_handleServiceMessage :: "env \<Rightarrow> message \<Rightarrow> node \<Rightarrow> node option" where
  "Node_handleServiceMessage e m n =
     (let t = msg_Type m
      in if t = TypeDelivered then Some (Node_handleDelivered e m n)
         else if t = TypeRead then Some (Node_handleRead e m n)
         else if t = TypeContactRequest then Some (Node_handleContactRequest e m n)
         else if t = TypeContactAccept then Some (Node_handleContactAccept e m n)
         else if t = TypeContactReject then Some (Node_handleContactReject m n)
         else if t = TypeContactHello then Some (Node_handleContactHello e m n)
         else if t = TypeContactHelloAck then Some (Node_handleContactHelloAck e m n)
         else if t = TypeTtlUpdate then Some (Node_handleTtlUpdate e m n)
         else if t = TypeFileComplete then Some (Node_handleFileComplete e m n)
         else if t = TypeFileOffer then Some (Node_handleFileOffer e m n)
         else if t = TypeFileAccept then Some (Node_handleFileAccept e m n)
         else if t = TypeFileDecline then Some (Node_handleFileDecline e m n)
         else if t = TypeFileCancel then Some (Node_handleFileCancel e m n)
         else if t = TypeFileAbort then Node_handleFileAbort e m n
         else Some n)"

end
