(* ===== verification/NodeInv.thy ===== *)
theory NodeInv
  imports Service
begin

text \<open>
  The invariant of the node, \<open>node_inv\<close>, is preserved by every operation of the theories of the
  files, the protocols and the service messages (\<open>node_inv_intros\<close>), and no removal of
  messages panics under it.  A run of the node is a sequence of calls and incoming messages.
\<close>

section \<open>Replacing one component\<close>

lemma store_resultD: "r = (err, s, f) \<Longrightarrow> s = result_state r"
  by (simp add: result_state_def)

lemma node_invD:
  assumes "node_inv n"
  shows "mem_inv (nd_memory n)" "nd_contacts n = Some cs \<Longrightarrow> contacts_inv cs"
    "nd_requests n = Some rs \<Longrightarrow> requests_inv rs" "nd_deleted n = Some ds \<Longrightarrow> deleted_inv ds"
    "nd_abortedStore n = Some ab \<Longrightarrow> aborted_inv ab" "nd_offers n = Some os \<Longrightarrow> offers_inv os"
    "distinct (map fst (nd_unackedChunks n))" "nd_host n = Some i \<Longrightarrow> Node_GetContact i n = None"
  using assms by (auto simp: node_inv_def)

lemma node_inv_contacts:
  assumes "node_inv n" "contacts_inv cs" "\<And>i. nd_host n = Some i \<Longrightarrow> ContactsStore_Get cs i = None"
  shows "node_inv (n\<lparr>nd_contacts := Some cs, nd_contacts_file := f\<rparr>)"
  using assms by (simp add: node_inv_def Node_GetContact_def)

lemma node_inv_updates:
  assumes "node_inv n"
  shows "requests_inv rs \<Longrightarrow> node_inv (n\<lparr>nd_requests := Some rs, nd_requests_file := fr\<rparr>)"
    "deleted_inv ds \<Longrightarrow> node_inv (n\<lparr>nd_deleted := Some ds, nd_deleted_file := fd\<rparr>)"
    "aborted_inv ab \<Longrightarrow> node_inv (n\<lparr>nd_abortedStore := Some ab, nd_aborted_file := fa\<rparr>)"
    "offers_inv os \<Longrightarrow> node_inv (n\<lparr>nd_offers := Some os, nd_offers_file := fo\<rparr>)"
    "distinct (map fst u) \<Longrightarrow> node_inv (n\<lparr>nd_unackedChunks := u\<rparr>)"
  using assms by (simp_all add: node_inv_def Node_GetContact_def)

lemma node_inv_frame [simp]:
  "node_inv (n\<lparr>nd_tempContacts := a\<rparr>) \<longleftrightarrow> node_inv n" "node_inv (n\<lparr>nd_pendingMessages := b\<rparr>) \<longleftrightarrow> node_inv n"
  "node_inv (n\<lparr>nd_aborted := c\<rparr>) \<longleftrightarrow> node_inv n" "node_inv (n\<lparr>nd_fileStatusLastPush := d\<rparr>) \<longleftrightarrow> node_inv n"
  "node_inv (n\<lparr>nd_completedFiles := g\<rparr>) \<longleftrightarrow> node_inv n" "node_inv (n\<lparr>nd_deliveredCount := h\<rparr>) \<longleftrightarrow> node_inv n"
  "node_inv (n\<lparr>nd_acceptedCount := h\<rparr>) \<longleftrightarrow> node_inv n" "node_inv (n\<lparr>nd_pendingHookAcks := k\<rparr>) \<longleftrightarrow> node_inv n"
  "node_inv (n\<lparr>nd_chunkQueue := q\<rparr>) \<longleftrightarrow> node_inv n" "node_inv (n\<lparr>nd_disk := dk\<rparr>) \<longleftrightarrow> node_inv n"
  "node_inv (n\<lparr>nd_outbox := ob\<rparr>) \<longleftrightarrow> node_inv n" "node_inv (n\<lparr>nd_started := st\<rparr>) \<longleftrightarrow> node_inv n"
  "node_inv (n\<lparr>nd_announced := an\<rparr>) \<longleftrightarrow> node_inv n" "node_inv (n\<lparr>nd_deadPeers := dp\<rparr>) \<longleftrightarrow> node_inv n"
  "node_inv (n\<lparr>nd_lastPing := lp\<rparr>) \<longleftrightarrow> node_inv n" "node_inv (n\<lparr>nd_delivery := dv\<rparr>) \<longleftrightarrow> node_inv n"
  "node_inv (n\<lparr>nd_batches := bb\<rparr>) \<longleftrightarrow> node_inv n" "node_inv (n\<lparr>nd_fresh := fr\<rparr>) \<longleftrightarrow> node_inv n"
  "node_inv (n\<lparr>nd_lines := pk\<rparr>) \<longleftrightarrow> node_inv n" "node_inv (n\<lparr>nd_layers := la\<rparr>) \<longleftrightarrow> node_inv n"
  "node_inv (n\<lparr>nd_layersDirty := ld\<rparr>) \<longleftrightarrow> node_inv n" "node_inv (n\<lparr>nd_channels := ch\<rparr>) \<longleftrightarrow> node_inv n"
  "node_inv (n\<lparr>nd_lastSyncedLayers := la\<rparr>) \<longleftrightarrow> node_inv n" "node_inv (n\<lparr>nd_lastSyncSent := lt\<rparr>) \<longleftrightarrow> node_inv n"
  by (simp_all add: node_inv_def Node_GetContact_def)

lemma NewNode_inv [simp]: "node_inv (NewNode cfg disk)"
  by (simp add: node_inv_def Node_GetContact_def)

lemma fold_node_inv:
  "(\<And>x n. node_inv n \<Longrightarrow> node_inv (f x n)) \<Longrightarrow> node_inv n \<Longrightarrow> node_inv (fold f xs n)"
  by (induction xs arbitrary: n) auto

lemma distinct_AList:
  "distinct (map fst u) \<Longrightarrow> distinct (map fst (AList.update k v u))"
  "distinct (map fst u) \<Longrightarrow> distinct (map fst (AList.delete k u))"
  by (rule distinct_update, assumption) (rule distinct_delete, assumption)

section \<open>Files\<close>

lemma pushFileStatus_core: "same_core n (Node_pushFileStatus e i d t n)"
  by (simp add: Node_pushFileStatus_def same_core_def push_hook_def Let_def)

lemma pushFileStatus_inv [node_inv_intros]: "node_inv n \<Longrightarrow> node_inv (Node_pushFileStatus e i d t n)"
  using node_inv_core[OF pushFileStatus_core] by blast

lemma register_inv [node_inv_intros]:
  "node_inv n \<Longrightarrow> chunkWorker_register e m n = Some (m', n') \<Longrightarrow> node_inv n'"
  by (auto simp: chunkWorker_register_def Let_def node_inv_updates(5) distinct_AList node_invD(7) split: if_splits)

lemma retry_item_inv: "node_inv n \<Longrightarrow> node_inv (retry_item e x n)"
  by (auto simp: retry_item_def Let_def node_inv_updates(5) distinct_AList node_invD(7) split: option.split)

lemma retryUnacked_inv [node_inv_intros]: "node_inv n \<Longrightarrow> node_inv (Node_retryUnacked e n)"
  unfolding Node_retryUnacked_def retry_collect_def
  by (simp add: fold_node_inv retry_item_inv node_inv_updates(5) distinct_map_filterI node_invD(7))

lemma send_chunk_inv: "node_inv n \<Longrightarrow> send_chunk e p i fm c k n = (b, n') \<Longrightarrow> node_inv n'"
  using Add_inv[of "nd_memory n"] node_invD(1)[of n]
  by (auto simp: send_chunk_def Let_def push_hook_inv node_inv_memory split: if_splits option.splits prod.splits bool.splits
      dest!: arg_cong[where f = snd])

lemma send_chunks_inv: "node_inv n \<Longrightarrow> node_inv (send_chunks e p i fm c ks n)"
  by (induction e p i fm c ks n rule: send_chunks.induct) (auto split: prod.split bool.split dest: send_chunk_inv)

lemma sendFileChunksAsync_inv [node_inv_intros]: "node_inv n \<Longrightarrow> node_inv (Node_sendFileChunksAsync e p i fm n)"
  by (simp add: Node_sendFileChunksAsync_def Let_def send_chunks_inv pushFileStatus_inv split: option.split)

lemma resumeFile_inv [node_inv_intros]: "node_inv n \<Longrightarrow> node_inv (Node_resumeFile e i n)"
proof -
  have d: "distinct (map fst u) \<Longrightarrow> distinct (map fst (fold (\<lambda>c u. AList.update (msg_ID c) (resumed_chunk now c) u) cs u))"
    for cs now and u :: "(string \<times> retry_info) list"
    by (induction cs arbitrary: u) (auto simp: distinct_AList)
  assume "node_inv n"
  then show ?thesis
    by (auto simp: Node_resumeFile_def Let_def node_inv_updates(5) d node_invD(7) split: list.split option.split)
qed

lemma resumeIncompleteFiles_inv [node_inv_intros]: "node_inv n \<Longrightarrow> node_inv (Node_resumeIncompleteFiles e es n)"
  unfolding Node_resumeIncompleteFiles_def by (rule fold_node_inv) (auto simp: resumeFile_inv)

lemma fold_clear_inv: "mem_inv m \<Longrightarrow> mem_inv (fold (\<lambda>i m. snd (Memory_ClearFileChunk mid i m)) is m)"
  by (induction "is" arbitrary: m) (auto simp: mem_inv_intros)

lemma FileAck_inv [node_inv_intros]: "node_inv n \<Longrightarrow> node_inv (Node_FileAck i is n)"
  by (auto simp: Node_FileAck_def Let_def node_inv_memory fold_clear_inv node_invD(1) split: option.split)

lemma ClearChunkData_node_inv [node_inv_intros]: "node_inv n \<Longrightarrow> node_inv (snd (Node_ClearChunkData i k n))"
  using ClearFileChunk_inv(1)[OF node_invD(1), of n i k]
  by (auto simp: Node_ClearChunkData_def node_inv_memory split: prod.split)

lemma remove_messages_inv:
  "mem_inv m \<Longrightarrow> \<exists>k m'. remove_messages is m = Some (k, m') \<and> mem_inv m'"
proof (induction "is" arbitrary: m)
  case (Cons i "is")
  from Remove_inv[OF Cons.prems, of i] obtain b m1 where "Memory_Remove i m = Some (b, m1)" "mem_inv m1" by blast
  with Cons.IH[of m1] obtain k m' where "remove_messages is m1 = Some (k, m')" "mem_inv m'" by blast
  with \<open>Memory_Remove i m = Some (b, m1)\<close> show ?case
    by (intro exI[of _ "if b then Suc k else k"] exI[of _ m']) simp
qed simp

lemma forget_file_status_inv: "node_inv n \<Longrightarrow> node_inv (forget_file_status i n)"
  by (simp add: forget_file_status_def)

lemma DeleteFile_inv [node_inv_intros]:
  assumes "node_inv n"
  shows "\<exists>k n'. Node_DeleteFile i n = Some (k, n') \<and> node_inv n'"
proof (cases "i = []")
  case False
  from remove_messages_inv[OF node_invD(1)[OF assms]] obtain k m where
    r: "remove_messages (media_ids i (nd_memory n)) (nd_memory n) = Some (k, m)" and m: "mem_inv m" by blast
  have "node_inv (forget_file_status i (n\<lparr>nd_memory := m, nd_disk := d\<rparr>))" for d
    using node_inv_memory[OF assms m] by (simp add: forget_file_status_inv)
  with r False show ?thesis by (simp add: Node_DeleteFile_def Let_def scheduleSaveState_inv)
qed (simp add: Node_DeleteFile_def assms)

section \<open>Protocols\<close>

lemma SendFileAccept_inv [node_inv_intros]: "node_inv n \<Longrightarrow> node_inv (snd (Node_SendFileAccept e a b c n))"
  by (simp add: Node_SendFileAccept_def sendService_inv)

lemma SendFileDecline_inv [node_inv_intros]: "node_inv n \<Longrightarrow> node_inv (snd (Node_SendFileDecline e a b c n))"
  by (simp add: Node_SendFileDecline_def sendService_inv)

lemma SendFileCancel_inv [node_inv_intros]: "node_inv n \<Longrightarrow> node_inv (snd (Node_SendFileCancel e a b c n))"
  by (simp add: Node_SendFileCancel_def sendService_inv)

lemma SendFileAbort_inv [node_inv_intros]: "node_inv n \<Longrightarrow> node_inv (snd (Node_SendFileAbort e a b n))"
  by (simp add: Node_SendFileAbort_def sendService_inv Let_def)

lemma offers_put_node_inv:
  assumes "node_inv n" "nd_offers n = Some os" "OffersStore_Add x w os f = (err, os', f')"
  shows "node_inv (n\<lparr>nd_offers := Some os', nd_offers_file := f'\<rparr>)"
  using store_resultD[OF assms(3)] offers_inv_put node_invD(6)[OF assms(1,2)]
  by (intro node_inv_updates(4) assms(1)) (simp add: store_simps)

lemma handleFileOffer_inv [node_inv_intros]: "node_inv n \<Longrightarrow> node_inv (Node_handleFileOffer e m n)"
  unfolding Node_handleFileOffer_def
  by (auto simp: Let_def SendFileAccept_inv push_hook_inv offers_put_node_inv split: option.split prod.split)

lemma handleFileAbort_inv [node_inv_intros]:
  assumes "node_inv n"
  shows "\<exists>n'. Node_handleFileAbort e m n = Some n' \<and> node_inv n'"
proof (cases "msg_Text m = []")
  case False
  from DeleteFile_inv[OF assms] obtain k n1 where d: "Node_DeleteFile (msg_Text m) n = Some (k, n1)" "node_inv n1"
    by blast
  have "node_inv (n1\<lparr>nd_abortedStore := Some s', nd_aborted_file := f'\<rparr>)"
    if "nd_abortedStore n1 = Some s" "AbortedStore_Add (ev_now e) (msg_Text m) w s f = (err, s', f')" for s w f err s' f'
    using store_resultD[OF that(2)] node_invD(5)[OF d(2) that(1)] aborted_media.invar_add
    by (intro node_inv_updates(3) d(2)) (simp add: store_simps)
  with d False show ?thesis
    by (auto simp: Node_handleFileAbort_def Let_def push_hook_inv split: option.split prod.split)
qed (simp add: Node_handleFileAbort_def assms)

lemma handleFileAccept_inv [node_inv_intros]: "node_inv n \<Longrightarrow> node_inv (Node_handleFileAccept e m n)"
  by (simp add: Node_handleFileAccept_def Let_def push_hook_inv split: option.split)

lemma handleFileDecline_inv [node_inv_intros]: "node_inv n \<Longrightarrow> node_inv (Node_handleFileDecline e m n)"
  using node_inv_updates(5)[of "forget_file_status (msg_Text m) (n\<lparr>nd_disk := d\<rparr>)" for d]
  by (simp add: Node_handleFileDecline_def Let_def push_hook_inv forget_file_status_inv node_invD(7)
      distinct_map_filterI forget_file_status_def)

lemma handleFileCancel_inv [node_inv_intros]: "node_inv n \<Longrightarrow> node_inv (Node_handleFileCancel e m n)"
  by (auto simp: Node_handleFileCancel_def Let_def push_hook_inv offers_put_node_inv split: option.split prod.split)

section \<open>Contacts\<close>

lemma AddTempContact_inv [node_inv_intros]: "node_inv n \<Longrightarrow> node_inv (Node_AddTempContact c n)"
  by (simp add: Node_AddTempContact_def)

lemma RemoveTempContact_inv [node_inv_intros]: "node_inv n \<Longrightarrow> node_inv (Node_RemoveTempContact p n)"
  by (simp add: Node_RemoveTempContact_def)

lemma host_not_contact:
  "node_inv n \<Longrightarrow> nd_contacts n = Some cs \<Longrightarrow> nd_host n = Some i \<Longrightarrow> ContactsStore_Get cs i = None"
  using node_invD(8)[of n i] by (simp add: Node_GetContact_def)

lemma contact_updates_get:
  assumes "ContactsStore_Get cs i = None"
  shows "ContactsStore_Get (result_state (ContactsStore_UpdateReadEnabled p b w cs f)) i = None"
    "ContactsStore_Get (result_state (ContactsStore_RenameContact p nm w cs f)) i = None"
    "ContactsStore_Get (result_state (ContactsStore_SetConfirmed p w cs f)) i = None"
  using assms
  by (auto simp: ContactsStore_UpdateReadEnabled_def ContactsStore_RenameContact_def
      ContactsStore_SetConfirmed_def update_contact_get split: option.split)

lemma contacts_update_inv:
  assumes "node_inv n" "nd_contacts n = Some cs" "r = (err, cs', f')"
    "contacts_inv (result_state r)" "\<And>i. ContactsStore_Get cs i = None \<Longrightarrow> ContactsStore_Get (result_state r) i = None"
  shows "node_inv (n\<lparr>nd_contacts := Some cs', nd_contacts_file := f'\<rparr>)"
  using assms host_not_contact by (intro node_inv_contacts) (auto simp: result_state_def)

lemma SetContactReadEnabled_inv [node_inv_intros]:
  "node_inv n \<Longrightarrow> node_inv (snd (Node_SetContactReadEnabled e p b n))"
  by (auto simp: Node_SetContactReadEnabled_def split: option.split prod.split
      intro!: contacts_update_inv contact_updates_inv contact_updates_get dest: node_invD(2))

lemma RenameContact_inv [node_inv_intros]:
  "node_inv n \<Longrightarrow> node_inv (snd (Node_RenameContact e p nm n))"
  by (auto simp: Node_RenameContact_def split: option.split prod.split
      intro!: contacts_update_inv contact_updates_inv contact_updates_get dest: node_invD(2))

lemma set_confirmed_inv [node_inv_intros]: "node_inv n \<Longrightarrow> node_inv (set_confirmed e p n)"
  by (auto simp: set_confirmed_def split: option.split prod.split
      intro!: contacts_update_inv contact_updates_inv contact_updates_get dest: node_invD(2))

lemma deleted_update_inv:
  assumes "node_inv n" "nd_deleted n = Some ds" "r = (err, ds', f')" "deleted_inv (result_state r)"
  shows "node_inv (n\<lparr>nd_deleted := Some ds', nd_deleted_file := f'\<rparr>)"
  using assms by (intro node_inv_updates(2)) (auto simp: result_state_def)
lemma RemoveFromDeleted_inv: "deleted_inv ds \<Longrightarrow> deleted_inv (result_state (DeletedStore_RemoveFromDeleted p w ds f))"
  unfolding store_simps by (rule deleted_peers.invar_remove)

lemma deleted_Add_inv: "deleted_inv ds \<Longrightarrow> deleted_inv (result_state (DeletedStore_Add p w ds f))"
  unfolding store_simps by (rule deleted_peers.invar_add)

lemma undelete_peer_inv: "node_inv n \<Longrightarrow> node_inv (undelete_peer e p n)"
  by (auto simp: undelete_peer_def split: option.split prod.split
      intro!: deleted_update_inv RemoveFromDeleted_inv dest: node_invD(4))

lemma undelete_peer_frame [simp]:
  "nd_contacts (undelete_peer e p n) = nd_contacts n" "nd_host (undelete_peer e p n) = nd_host n"
  "nd_contacts_file (undelete_peer e p n) = nd_contacts_file n"
  by (simp_all add: undelete_peer_def split: option.split prod.split)

lemma mark_deleted_inv: "node_inv n \<Longrightarrow> node_inv (mark_deleted e p n)"
  by (auto simp: mark_deleted_def split: option.split prod.split
      intro!: deleted_update_inv deleted_Add_inv dest: node_invD(4))

lemma AddContact_inv [node_inv_intros]: "node_inv n \<Longrightarrow> node_inv (snd (Node_AddContact e p ed x sg nm rn re n))"
proof (cases "nd_contacts n")
  case (Some cs)
  assume n: "node_inv n"
  have step: "node_inv ((undelete_peer e p n)\<lparr>nd_contacts := Some cs', nd_contacts_file := f'\<rparr>)"
    if "nd_host n \<noteq> Some p" "con_PeerID c = p" "ContactsStore_Add now c w cs f = (err, cs', f')" for c now w f err cs' f'
  proof (rule node_inv_contacts[OF undelete_peer_inv[OF n]])
    have s: "cs' = contacts_put now c cs" using store_resultD[OF that(3)] by (simp add: store_simps)
    show "contacts_inv cs'" unfolding s by (rule contacts_inv_put) (rule node_invD(2)[OF n Some])
    show "ContactsStore_Get cs' i = None" if "nd_host (undelete_peer e p n) = Some i" for i
      unfolding s contact_list.get_put[OF node_invD(2)[OF n Some]]
      using that \<open>nd_host n \<noteq> Some p\<close> \<open>con_PeerID c = p\<close> host_not_contact[OF n Some] by auto
  qed
  with n Some show ?thesis
    by (auto simp: Node_AddContact_def Let_def split: prod.split elim!: step[rotated 2])
qed (simp add: Node_AddContact_def)

lemma RemoveContact_inv:
  assumes n: "node_inv n"
  shows "\<exists>b n'. Node_RemoveContact e p n = Some (b, n') \<and> node_inv n'"
proof (cases "nd_contacts n")
  case (Some cs)
  obtain err cs' f' where r: "ContactsStore_Remove p (ev_w_contacts e 0) cs (nd_contacts_file n) = (err, cs', f')"
    by (metis prod_cases3)
  have s: "cs' = contacts_del p cs" using store_resultD[OF r] by (simp add: store_simps)
  define n2 where "n2 = mark_deleted e p (n\<lparr>nd_contacts := Some cs', nd_contacts_file := f'\<rparr>)"
  have n2: "node_inv n2"
    unfolding n2_def s using n node_invD(2)[OF n Some] host_not_contact[OF n Some]
    by (intro mark_deleted_inv node_inv_contacts contacts_inv_del) (auto simp: contact_list.get_del)
  from remove_messages_inv[OF node_invD(1)[OF n2]] obtain k m where
    "remove_messages (peer_messages p (nd_memory n2)) (nd_memory n2) = Some (k, m)" "mem_inv m" by blast
  moreover from n2 \<open>mem_inv m\<close> have "node_inv (Node_scheduleSaveState (n2\<lparr>nd_memory := m\<rparr>))"
    by (intro scheduleSaveState_inv node_inv_memory)
  ultimately show ?thesis
    unfolding Node_RemoveContact_def using Some r by (intro exI[of _ True]) (simp add: n2_def Let_def)
qed (use n in \<open>auto simp: Node_RemoveContact_def\<close>)

lemma requests_update_inv:
  assumes "node_inv n" "nd_requests n = Some rs" "RequestsStore_Add now r w rs f = (err, rs', f')"
  shows "node_inv (n\<lparr>nd_requests := Some rs', nd_requests_file := f'\<rparr>)"
  using store_resultD[OF assms(3)] requests_inv_put node_invD(3)[OF assms(1,2)]
  by (intro node_inv_updates(1) assms(1)) (simp add: store_simps)

lemma handleContactRequest_inv [node_inv_intros]: "node_inv n \<Longrightarrow> node_inv (Node_handleContactRequest e m n)"
  by (auto simp: Node_handleContactRequest_def Let_def
      intro!: push_hook_inv RemoveTempContact_inv requests_update_inv split: option.split prod.split)

lemma handleContactAccept_inv [node_inv_intros]: "node_inv n \<Longrightarrow> node_inv (Node_handleContactAccept e m n)"
  using AddContact_inv[of n]
  by (auto simp: Node_handleContactAccept_def Let_def split: option.split prod.split bool.split
      intro!: push_hook_inv set_confirmed_inv dest!: arg_cong[where f = snd])

lemma handleContactHello_inv [node_inv_intros]: "node_inv n \<Longrightarrow> node_inv (Node_handleContactHello e m n)"
  by (simp add: Node_handleContactHello_def Let_def AddTempContact_inv split: option.split)

lemma handleContactHelloAck_inv [node_inv_intros]: "node_inv n \<Longrightarrow> node_inv (Node_handleContactHelloAck e m n)"
  by (simp add: Node_handleContactHelloAck_def push_hook_inv split: option.split)


section \<open>Service messages\<close>

lemma SetExpiresAt_node_inv: "node_inv n \<Longrightarrow> Memory_SetExpiresAt i t (nd_memory n) = (b, m) \<Longrightarrow> node_inv (n\<lparr>nd_memory := m\<rparr>)"
  using SetExpiresAt_inv(1)[OF node_invD(1), of n i t] by (simp add: node_inv_memory)

lemma start_after_read_inv [node_inv_intros]: "node_inv n \<Longrightarrow> node_inv (snd (start_after_read e ref n))"
  by (auto simp: start_after_read_def Let_def push_hook_inv scheduleSaveState_inv SetExpiresAt_node_inv
      split: option.split prod.split bool.split)

lemma sendTtlUpdate_inv [node_inv_intros]: "node_inv n \<Longrightarrow> node_inv (snd (Node_sendTtlUpdate e r t p n))"
  by (simp add: Node_sendTtlUpdate_def sendService_inv)

lemma SendTtlUpdate_inv [node_inv_intros]: "node_inv n \<Longrightarrow> node_inv (snd (Node_SendTtlUpdate e r s p n))"
  by (simp add: Node_SendTtlUpdate_def sendTtlUpdate_inv)

lemma handleTtlUpdate_inv [node_inv_intros]: "node_inv n \<Longrightarrow> node_inv (Node_handleTtlUpdate e m n)"
  by (auto simp: Node_handleTtlUpdate_def Let_def push_hook_inv scheduleSaveState_inv SetExpiresAt_node_inv
      split: option.split prod.split bool.split)

lemma count_delivered_inv [node_inv_intros]: "node_inv n \<Longrightarrow> node_inv (count_delivered e ref n)"
  by (auto simp: count_delivered_def Let_def pushFileStatus_inv node_invD(7)
      intro!: node_inv_updates(5) distinct_map_filterI split: option.split)

lemma receipt_removed_inv: "node_inv n \<Longrightarrow> node_inv (n\<lparr>nd_unackedChunks := AList.delete r (nd_unackedChunks n)\<rparr>)"
  by (simp add: node_inv_updates(5) distinct_AList node_invD(7))

lemma handleDeliveredRef_inv [node_inv_intros]:
  assumes "node_inv n"
  shows "node_inv (Node_handleDeliveredRef e p r n)"
proof -
  note sa = start_after_read_inv[where e = e and ref = r]
  have "node_inv (case start_after_read e r n4 of (False, n5) \<Rightarrow> n5
      | (True, n5) \<Rightarrow> (case Node_findMyMessageByID r n4 of None \<Rightarrow> n5
         | Some m \<Rightarrow> snd (Node_SendTtlUpdate e r (msg_TtlPeriodSeconds m) p n5)))" if "node_inv n4" for n4
    using sa[OF that] by (auto split: prod.split bool.split option.split intro: SendTtlUpdate_inv)
  with receipt_removed_inv[OF removePending_inv[OF assms, of r], of r] show ?thesis
    by (simp add: Node_handleDeliveredRef_def Let_def assms count_delivered_inv setMessageStatus_inv)
qed

lemma handleDelivered_inv [node_inv_intros]: "node_inv n \<Longrightarrow> node_inv (Node_handleDelivered e m n)"
  by (auto simp: Node_handleDelivered_def Let_def
      intro!: fold_node_inv handleDeliveredRef_inv SetContactReadEnabled_inv split: option.split)

lemma set_media_status_inv [node_inv_intros]: "node_inv n \<Longrightarrow> node_inv (set_media_status i s n)"
  unfolding set_media_status_def by (rule fold_node_inv) (rule setMessageStatus_inv)

lemma handleReadRef_inv [node_inv_intros]: "node_inv n \<Longrightarrow> node_inv (Node_handleReadRef e r n)"
  by (auto simp: Node_handleReadRef_def Let_def
      intro!: start_after_read_inv set_media_status_inv setMessageStatus_inv split: option.split)

lemma handleRead_inv [node_inv_intros]: "node_inv n \<Longrightarrow> node_inv (Node_handleRead e m n)"
  unfolding Node_handleRead_def by (rule fold_node_inv) (rule handleReadRef_inv)

lemma aborted_update_inv:
  assumes "node_inv n" "nd_abortedStore n = Some s" "AbortedStore_Remove i w s f = (err, s', f')"
  shows "node_inv (n\<lparr>nd_abortedStore := Some s', nd_aborted_file := f'\<rparr>)"
  using store_resultD[OF assms(3)] aborted_media.invar_remove node_invD(5)[OF assms(1,2)]
  by (intro node_inv_updates(3) assms(1)) (simp add: store_simps)

lemma handleFileComplete_inv [node_inv_intros]: "node_inv n \<Longrightarrow> node_inv (Node_handleFileComplete e m n)"
  by (auto simp: Node_handleFileComplete_def Let_def set_media_status_inv aborted_update_inv
      intro!: pushFileStatus_inv split: option.split prod.split)

lemma SendFileComplete_inv [node_inv_intros]: "node_inv n \<Longrightarrow> node_inv (snd (Node_SendFileComplete e a b n))"
  by (simp add: Node_SendFileComplete_def sendService_inv)

lemma SendDeliveredBatch_inv [node_inv_intros]: "node_inv n \<Longrightarrow> node_inv (snd (Node_SendDeliveredBatch e rs p n))"
  by (simp add: Node_SendDeliveredBatch_def sendService_inv)

lemma sendConfirmation_inv [node_inv_intros]: "node_inv n \<Longrightarrow> node_inv (snd (Node_sendConfirmation e t r p n))"
  by (simp add: Node_sendConfirmation_def fallbackSend_inv)

lemma SendRead_inv [node_inv_intros]: "node_inv n \<Longrightarrow> node_inv (snd (Node_SendRead e r p n))"
  by (simp add: Node_SendRead_def sendConfirmation_inv start_after_read_inv)

lemma SendReadBatch_inv [node_inv_intros]: "node_inv n \<Longrightarrow> node_inv (snd (Node_SendReadBatch e rs p n))"
  by (simp add: Node_SendReadBatch_def Let_def sendToRecipient_inv fold_node_inv start_after_read_inv)

lemma MarkReadLocally_node_inv [node_inv_intros]: "node_inv n \<Longrightarrow> node_inv (snd (Node_MarkReadLocally rs n))"
  using MarkReadLocally_inv(1)[OF node_invD(1), of n rs]
  by (auto simp: Node_MarkReadLocally_def node_inv_memory split: prod.split)

lemma handleServiceMessage_inv:
  assumes "node_inv n"
  shows "\<exists>n'. Node_handleServiceMessage e m n = Some n' \<and> node_inv n'"
  using assms handleFileAbort_inv[OF assms]
  by (simp add: Node_handleServiceMessage_def Let_def node_inv_intros Node_handleContactReject_def)

end
