(* ===== verification/Routing.thy ===== *)
theory Routing
  imports NodeInv
begin

text \<open>
  node/node_p2p.go and the rest of node/node.go: how a message is sent on (\<open>replicateMessage\<close>,
  \<open>tryReplicate\<close>, \<open>flushPending\<close>, \<open>sendViaSphinx\<close>), how a peer's addresses are found
  (\<open>FindPeerByID\<close>), which peers are alive, the back-off of the reconnection, and the periodic
  clean-ups.  The Sphinx packet itself is in its own theory; here \<open>ev_sphinx_packet\<close> is the first
  relay and the packet, when a route exists.
\<close>

section \<open>Finding a peer\<close>

text \<open>The loop over the bootstrap peers; \<open>ev_find_response\<close> is the trimmed answer of one of them.\<close>

fun find_remote :: "env \<Rightarrow> string \<Rightarrow> string list \<Rightarrow> string list option" where
  "find_remote e target [] = None"
| "find_remote e target (addr # addrs) =
     (case ev_AddrInfo e addr of
        None \<Rightarrow> find_remote e target addrs
      | Some pid \<Rightarrow>
          (case ev_find_response e pid target of
             None \<Rightarrow> find_remote e target addrs
           | Some response \<Rightarrow>
               let found = parseMultiaddrsResponse response FOUND_PREFIX
               in if 0 < length found then Some found else find_remote e target addrs))"

definition Node_FindPeerByID :: "env \<Rightarrow> string \<Rightarrow> node \<Rightarrow> string list option \<times> node" where
  "Node_FindPeerByID e target n =
     (if nd_host n = None then (None, n)
      else case Node_lookupPeer (ev_now e) target n of
        (Some addrs, n1) \<Rightarrow> (Some addrs, n1)
      | (None, n1) \<Rightarrow> (find_remote e target (Node_loadBootstrapPeers e n1), n1))"

text \<open>The addresses that are no circuit through the relay server.\<close>

definition not_circuit :: "string \<Rightarrow> bool" where
  "not_circuit a \<longleftrightarrow> \<not> sublist ''/p2p-circuit'' a"

definition direct_reachable :: "env \<Rightarrow> string \<Rightarrow> node \<Rightarrow> bool \<times> node" where
  "direct_reachable e p n =
     (if length (ev_Peerstore e p) = 0
      then case Node_FindPeerByID e p n of
             (None, n1) \<Rightarrow> (False, n1)
           | (Some addrs, n1) \<Rightarrow> (0 < length (filter not_circuit (filter (ev_Multiaddr e) addrs)), n1)
      else (0 < length (filter not_circuit (ev_Peerstore e p)), n))"

definition Node_sendViaSphinx :: "env \<Rightarrow> message \<Rightarrow> node \<Rightarrow> bool \<times> node" where
  "Node_sendViaSphinx e m n =
     (if \<not> ev_Decode e (msg_Recipient m) then (False, n)
      else case ev_sphinx_packet e m of
        None \<Rightarrow> (False, n)
      | Some (relay1, packet) \<Rightarrow>
          (case direct_reachable e relay1 n of
             (False, n1) \<Rightarrow> (False, n1)
           | (True, n1) \<Rightarrow>
               let line = SPHINX_PREFIX @ ev_base64 e packet
               in if ev_line e relay1 line
                  then (True, n1\<lparr>nd_lines := nd_lines n1 @ [(relay1, line)]\<rparr>)
                  else (False, n1)))"

section \<open>Sending on\<close>

definition batchable :: "message \<Rightarrow> bool" where
  "batchable m \<longleftrightarrow> (msg_MediaType m = [] \<or> msg_MediaType m = ''text'') \<and> msg_Recipient m \<noteq> [] \<and>
     \<not> isServiceType (msg_Type m)"

definition sent_form :: "message \<Rightarrow> message" where
  "sent_form m = m\<lparr>msg_ReplicatedFrom := msg_Sender m, msg_IsOwn := False, msg_PlainText := []\<rparr>"

text \<open>The two halves of \<open>replicateMessage\<close>: to the recipient, and to two peers.\<close>

definition replicate_addressed :: "env \<Rightarrow> message \<Rightarrow> node \<Rightarrow> node" where
  "replicate_addressed e m n =
     (if is_chunk m \<and> \<not> nd_isRelay n then n\<lparr>nd_chunkQueue := nd_chunkQueue n @ [m]\<rparr>
      else let n1 = snd (Node_sendToRecipient e m n)
        in if \<not> nd_isRelay n1 \<and> \<not> isServiceType (msg_Type m) \<and> \<not> is_chunk m then Node_enqueuePending m n1 else n1)"

definition replicate_broadcast :: "env \<Rightarrow> message \<Rightarrow> node \<Rightarrow> node" where
  "replicate_broadcast e m n =
     (let alive = filter (\<lambda>p. p \<noteq> msg_Sender m) (ev_peers e)
      in if length alive = 0
         then if nd_isRelay n \<or> is_chunk m then n else Node_enqueuePending m n
         else fold (\<lambda>p. Node_sendReplicaToPeer e p m) (take 2 alive) n)"

definition Node_replicateMessage :: "env \<Rightarrow> message \<Rightarrow> node \<Rightarrow> node" where
  "Node_replicateMessage e m0 n =
     (if nd_host n = None then n
      else if batchable m0 \<and> nd_useOnion n \<and> \<not> nd_isRelay n
      then Node_addToBatch (ev_now e) (msg_Recipient m0) (msg_ID m0) (msg_PlainText m0) n
      else let m = sent_form m0
        in if msg_Recipient m = [] then replicate_broadcast e m n
           else if nd_useOnion n \<and> \<not> nd_isRelay n \<and> \<not> is_chunk m
           then (case Node_sendViaSphinx e m n of
                   (True, n1) \<Rightarrow> n1
                 | (False, n1) \<Rightarrow> replicate_addressed e m n1)
           else replicate_addressed e m n)"

text \<open>For the queue; \<open>PlainText\<close> is kept.\<close>

definition Node_tryReplicate :: "env \<Rightarrow> message \<Rightarrow> node \<Rightarrow> bool \<times> node" where
  "Node_tryReplicate e m0 n =
     (if nd_host n = None then (False, n)
      else case (if is_chunk m0 \<and> msg_Text m0 = [] \<and> msg_PlainText m0 = [] \<and> msg_MediaID m0 \<noteq> []
                 then fillFileChunkFromSent e n m0 else Some m0) of
        None \<Rightarrow> (False, n)
      | Some m1 \<Rightarrow>
          let m = m1\<lparr>msg_ReplicatedFrom := msg_Sender m1, msg_IsOwn := False\<rparr>
          in if msg_Recipient m \<noteq> [] then Node_sendToRecipient e m n
             else let alive = filter (\<lambda>p. p \<noteq> msg_Sender m) (ev_peers e)
               in if length alive = 0 then (False, n)
                  else let takers = filter (\<lambda>p. ev_stream e p m) (take 2 alive)
                    in (takers \<noteq> [], n\<lparr>nd_outbox := nd_outbox n @ map (\<lambda>p. (p, m)) takers\<rparr>))"

definition Node_flushPending :: "env \<Rightarrow> node \<Rightarrow> node" where
  "Node_flushPending e n = fold (\<lambda>m n. snd (Node_tryReplicate e m n)) (nd_pendingMessages n) n"

text \<open>
  What a worker does with a message from the queue of chunks: it is dropped when its file was
  aborted, noted for the retries, and goes through an onion route or to the recipient.
\<close>

definition Node_chunkWorker :: "env \<Rightarrow> message \<Rightarrow> node \<Rightarrow> node" where
  "Node_chunkWorker e m n =
     (if nd_isRelay n then n
      else case chunkWorker_register e m n of
        None \<Rightarrow> n
      | Some (m1, n1) \<Rightarrow>
          if msg_MixingEnabled m1
          then case Node_sendViaSphinx e m1 n1 of
                 (True, n2) \<Rightarrow> n2
               | (False, n2) \<Rightarrow> snd (Node_sendToRecipient e m1 n2)
          else snd (Node_sendToRecipient e m1 n1))"

section \<open>Batches\<close>

definition unacked_text :: "time \<Rightarrow> string \<Rightarrow> batch_text \<Rightarrow> retry_info" where
  "unacked_text now p t = zero_retry\<lparr>ri_msgID := bt_ID t, ri_recipient := p, ri_lastSent := now\<rparr>"

definition batch_message :: "env \<Rightarrow> node \<Rightarrow> string \<Rightarrow> string \<Rightarrow> message" where
  "batch_message e n p encrypted =
     zero_message\<lparr>msg_ID := ev_generateMsgID e (''batch:'' @ p @ '':'' @ ev_nano e), msg_Text := encrypted,
       msg_Sender := host_id n, msg_Recipient := p, msg_Version := 2, msg_Type := TypeMessage,
       msg_MediaType := ''batch'', msg_Time := ev_date e, msg_IsOwn := True, msg_Weight := 1 / 2,
       msg_ReadEnabled := Some (nd_myReadEnabled n)\<rparr>"

definition Node_flushBatch :: "env \<Rightarrow> string \<Rightarrow> batch_text list \<Rightarrow> node \<Rightarrow> node" where
  "Node_flushBatch e p texts n =
     (if p = [] \<or> length texts = 0 then n
      else case Node_encryptForRecipient e n p (ev_batch_json e texts) of
        None \<Rightarrow> n
      | Some encrypted \<Rightarrow>
          let m = batch_message e n p encrypted;
              n1 = n\<lparr>nd_unackedChunks :=
                fold (\<lambda>t u. AList.update (bt_ID t) (unacked_text (ev_now e) p t) u) texts (nd_unackedChunks n)\<rparr>
          in case Node_sendViaSphinx e m n1 of
               (True, n2) \<Rightarrow> n2
             | (False, n2) \<Rightarrow> snd (Node_sendToRecipient e m n2))"

section \<open>Which peers are alive\<close>

definition Node_markPeerAlive :: "time \<Rightarrow> string \<Rightarrow> node \<Rightarrow> bool \<times> node" where
  "Node_markPeerAlive now p n =
     (nd_deadPeers n p,
      n\<lparr>nd_lastPing := (nd_lastPing n)(p \<mapsto> now), nd_deadPeers := (nd_deadPeers n)(p := False)\<rparr>)"

definition Node_markPeerDead :: "string \<Rightarrow> node \<Rightarrow> node" where
  "Node_markPeerDead p n = n\<lparr>nd_deadPeers := (nd_deadPeers n)(p := True)\<rparr>"

definition nodeNotifiee_Disconnected :: "string \<Rightarrow> node \<Rightarrow> node" where
  "nodeNotifiee_Disconnected p n = n\<lparr>nd_deadPeers := (nd_deadPeers n)(p := False)\<rparr>"

text \<open>One ping of \<open>pingPeers\<close>: \<open>answer\<close> is what came back, when the stream opened and was read.\<close>

definition ping_peer :: "env \<Rightarrow> string \<Rightarrow> string option \<Rightarrow> node \<Rightarrow> node" where
  "ping_peer e p answer n =
     (case answer of
        None \<Rightarrow> Node_markPeerDead p n
      | Some s \<Rightarrow>
          if strings_TrimSpace s \<noteq> ''PONG'' then Node_markPeerDead p n
          else case Node_markPeerAlive (ev_now e) p n of
            (True, n1) \<Rightarrow> if Node_hasPending n1 then Node_flushPending e n1 else n1
          | (False, n1) \<Rightarrow> n1)"

text \<open>A round of \<open>pingPeers\<close>: \<open>answers\<close> is what came back from each connected peer.\<close>

definition ping_round :: "env \<Rightarrow> (string \<Rightarrow> string option) \<Rightarrow> node \<Rightarrow> node" where
  "ping_round e answers n =
     (if nd_host n = None then n else fold (\<lambda>p. ping_peer e p (answers p)) (ev_peers e) n)"

text \<open>The back-off of \<open>reconnectLoop\<close> and \<open>relayLoop\<close> after a failure.\<close>

definition next_backoff :: "duration \<Rightarrow> duration" where
  "next_backoff backoff = (let b = backoff * 2 in if 30 * Second < b then 30 * Second else b)"

text \<open>\<open>reconnectLoop\<close>, one round: whether it dials, and the new back-off given whether a dial succeeds.\<close>

definition reconnect_round :: "nat \<Rightarrow> bool \<Rightarrow> duration \<Rightarrow> bool \<times> duration" where
  "reconnect_round peers dialed backoff =
     (if 0 < peers then (False, Second)
      else (True, if dialed then Second else next_backoff backoff))"

definition Node_getPeerWeight :: "string \<Rightarrow> node \<Rightarrow> real" where
  "Node_getPeerWeight p n =
     (let msgs = Memory_GetMessagesFrom p (nd_memory n)
      in if length msgs = 0 then 1 / 2 else sum_list (map msg_Weight msgs) / real (length msgs))"

text \<open>\<open>perm k\<close> is \<open>rand.Perm(k)\<close>.\<close>

definition Node_selectRelays :: "(nat \<Rightarrow> nat list) \<Rightarrow> env \<Rightarrow> nat \<Rightarrow> node \<Rightarrow> string list" where
  "Node_selectRelays perm e k n =
     (let trusted = filter (\<lambda>p. 7 / 10 < Node_getPeerWeight p n) (ev_peers e);
          fallback = filter (\<lambda>p. \<not> 7 / 10 < Node_getPeerWeight p n) (ev_peers e)
      in if k \<le> length trusted
         then map (\<lambda>i. trusted ! (perm (length trusted) ! i)) [0..<k]
         else trusted @ take (k - length trusted) (map (\<lambda>i. fallback ! i) (perm (length fallback))))"

section \<open>Clean-ups\<close>

definition Node_cleanupPendingAcks :: "time \<Rightarrow> node \<Rightarrow> node" where
  "Node_cleanupPendingAcks now n =
     n\<lparr>nd_pendingHookAcks := (\<lambda>i. case nd_pendingHookAcks n i of
         None \<Rightarrow> None
       | Some w \<Rightarrow> let w' = filter (\<lambda>(idx, addedAt). \<not> 120 * Second < time_Sub now addedAt) w
                  in if length w' = 0 then None else Some w')\<rparr>"

text \<open>
  \<open>cleanupSentOnce\<close>: \<open>entries\<close> are the files of the directory of sent files with their
  modification times, and every removal succeeds.
\<close>

definition all_delivered :: "memory \<Rightarrow> string \<Rightarrow> bool" where
  "all_delivered mem i =
     (case filter (\<lambda>m. is_chunk m \<and> msg_MediaID m \<noteq> [] \<and> msg_MediaID m = i) (Memory_GetAll mem) of
        [] \<Rightarrow> False
      | first # rest \<Rightarrow>
          msg_ChunkTotal first \<le> int (length (filter (\<lambda>m. StatusDelivered \<le> msg_Status m) (first # rest))))"

definition cleanup_sent_entry :: "time \<Rightarrow> string \<times> time \<Rightarrow> node \<Rightarrow> node" where
  "cleanup_sent_entry now entry n =
     (if \<not> suffix ''.bin'' (fst entry) then n
      else let i = take (length (fst entry) - 4) (fst entry); p = Node_sentPath (nd_dir n) i
        in if snd entry < now - 24 * Hour \<or> all_delivered (nd_memory n) i
           then n\<lparr>nd_disk := os_Remove (Node_metaPath (nd_dir n) i) (os_Remove p (nd_disk n))\<rparr>
           else n)"

definition Node_cleanupSentOnce :: "time \<Rightarrow> (string \<times> time) list \<Rightarrow> node \<Rightarrow> node" where
  "Node_cleanupSentOnce now entries n = fold (cleanup_sent_entry now) entries n"

text \<open>A tick of \<open>cleanupLoop\<close>: announced peers, expired messages, offers, aborted files.\<close>

definition expire_messages :: "env \<Rightarrow> node \<Rightarrow> node" where
  "expire_messages e n =
     (case Memory_DeleteExpired (ev_now e) (nd_memory n) of
        (removed, mem) \<Rightarrow>
          let n1 = n\<lparr>nd_memory := mem\<rparr> in if 0 < removed then Node_scheduleSaveState n1 else n1)"

definition expire_offers :: "env \<Rightarrow> node \<Rightarrow> node" where
  "expire_offers e n =
     (case nd_offers n of None \<Rightarrow> n
      | Some os \<Rightarrow> (case OffersStore_CleanupExpired (ev_now e) (ev_w_offers e 0) os (nd_offers_file n) of
          (expired, os', f') \<Rightarrow>
            let n1 = n\<lparr>nd_offers := Some os', nd_offers_file := f'\<rparr>
            in if nd_isRelay n1 then n1
               else fold (\<lambda>x. push_hook (FileOfferExpiredEvent (off_MediaID x) (off_Sender x))) expired n1))"

definition expire_aborted :: "env \<Rightarrow> node \<Rightarrow> node" where
  "expire_aborted e n =
     (case nd_abortedStore n of None \<Rightarrow> n
      | Some s \<Rightarrow> (case AbortedStore_CleanupExpired (ev_now e) (ev_w_aborted e 0) s (nd_aborted_file n) of
          (k, s', f') \<Rightarrow> n\<lparr>nd_abortedStore := Some s', nd_aborted_file := f'\<rparr>))"

definition cleanup_tick :: "env \<Rightarrow> node \<Rightarrow> node" where
  "cleanup_tick e n = expire_aborted e (expire_offers e (expire_messages e (Node_cleanupAnnounced e n)))"

section \<open>The invariant\<close>

lemma FindPeerByID_core: "same_core n (snd (Node_FindPeerByID e p n))"
  using lookupPeer_core[of n "ev_now e" p]
  by (auto simp: Node_FindPeerByID_def same_core_def split: prod.split option.split)

lemma FindPeerByID_inv: "node_inv n \<Longrightarrow> Node_FindPeerByID e p n = (r, n') \<Longrightarrow> node_inv n'"
  by (metis FindPeerByID_core node_inv_core snd_conv)

lemma direct_reachable_inv: "node_inv n \<Longrightarrow> direct_reachable e p n = (b, n') \<Longrightarrow> node_inv n'"
  by (auto simp: direct_reachable_def dest: FindPeerByID_inv split: if_splits prod.splits option.splits)

lemma sendViaSphinx_inv: "node_inv n \<Longrightarrow> Node_sendViaSphinx e m n = (b, n') \<Longrightarrow> node_inv n'"
  by (auto simp: Node_sendViaSphinx_def Let_def dest: direct_reachable_inv split: if_splits prod.splits option.splits bool.splits)

lemma sendReplicaToPeer_inv: "node_inv n \<Longrightarrow> node_inv (Node_sendReplicaToPeer e p m n)"
  by (simp add: Node_sendReplicaToPeer_def)

lemma enqueuePending_inv: "node_inv n \<Longrightarrow> node_inv (Node_enqueuePending m n)"
  by (simp add: Node_enqueuePending_def)

lemma replicate_addressed_inv: "node_inv n \<Longrightarrow> node_inv (replicate_addressed e m n)"
  by (simp add: replicate_addressed_def Let_def enqueuePending_inv sendToRecipient_inv)

lemma replicate_broadcast_inv: "node_inv n \<Longrightarrow> node_inv (replicate_broadcast e m n)"
  by (simp add: replicate_broadcast_def Let_def enqueuePending_inv fold_node_inv sendReplicaToPeer_inv)

lemma replicateMessage_inv [node_inv_intros]: "node_inv n \<Longrightarrow> node_inv (Node_replicateMessage e m n)"
  by (auto simp: Node_replicateMessage_def Let_def addToBatch_inv replicate_broadcast_inv replicate_addressed_inv
      dest: sendViaSphinx_inv split: prod.split bool.split)

lemma tryReplicate_inv [node_inv_intros]: "node_inv n \<Longrightarrow> node_inv (snd (Node_tryReplicate e m n))"
  by (auto simp: Node_tryReplicate_def Let_def intro!: sendToRecipient_inv split: option.split)

lemma flushPending_inv [node_inv_intros]: "node_inv n \<Longrightarrow> node_inv (Node_flushPending e n)"
  unfolding Node_flushPending_def by (rule fold_node_inv) (rule tryReplicate_inv)

lemma flushBatch_inv [node_inv_intros]:
  assumes "node_inv n"
  shows "node_inv (Node_flushBatch e p ts n)"
proof -
  have d: "distinct (map fst u) \<Longrightarrow> distinct (map fst (fold (\<lambda>t u. AList.update (bt_ID t) (unacked_text now p t) u) ts u))"
    for now and u :: "(string \<times> retry_info) list"
    by (induction ts arbitrary: u) (auto simp: distinct_AList)
  from node_inv_updates(5)[OF assms d[OF node_invD(7)[OF assms]]] assms show ?thesis
    by (auto simp: Node_flushBatch_def Let_def dest: sendViaSphinx_inv intro!: sendToRecipient_inv
        split: option.split prod.split bool.split)
qed

lemma ping_peer_inv [node_inv_intros]: "node_inv n \<Longrightarrow> node_inv (ping_peer e p a n)"
  by (auto simp: ping_peer_def Node_markPeerDead_def Node_markPeerAlive_def intro!: flushPending_inv
      split: option.split prod.split bool.split)

lemma ping_round_inv [node_inv_intros]: "node_inv n \<Longrightarrow> node_inv (ping_round e answers n)"
  by (simp add: ping_round_def fold_node_inv ping_peer_inv)

lemma chunkWorker_inv [node_inv_intros]: "node_inv n \<Longrightarrow> node_inv (Node_chunkWorker e m n)"
  by (auto simp: Node_chunkWorker_def intro!: sendToRecipient_inv dest: register_inv sendViaSphinx_inv
      split: option.split prod.split bool.split)

lemma cleanupSentOnce_inv [node_inv_intros]: "node_inv n \<Longrightarrow> node_inv (Node_cleanupSentOnce now es n)"
  unfolding Node_cleanupSentOnce_def by (rule fold_node_inv) (simp_all add: cleanup_sent_entry_def Let_def)

lemma expire_messages_inv: "node_inv n \<Longrightarrow> node_inv (expire_messages e n)"
  using DeleteExpired_inv(1)[OF node_invD(1), of n "ev_now e"]
  by (auto simp: expire_messages_def Let_def scheduleSaveState_inv node_inv_memory split: prod.split)

lemma expire_offers_inv: "node_inv n \<Longrightarrow> node_inv (expire_offers e n)"
proof (cases "nd_offers n")
  case (Some os)
  assume n: "node_inv n"
  have "offers_inv os'" if "OffersStore_CleanupExpired t w os f = (x, os', f')" for t w f x os' f'
    using that node_invD(6)[OF n Some]
    by (auto simp: OffersStore_CleanupExpired_def Let_def offers_inv_def distinct_map_filterI split: if_splits)
  with n Some show ?thesis
    by (auto simp: expire_offers_def Let_def intro!: fold_node_inv push_hook_inv node_inv_updates(4) split: prod.split)
qed (simp add: expire_offers_def)

lemma expire_aborted_inv: "node_inv n \<Longrightarrow> node_inv (expire_aborted e n)"
proof (cases "nd_abortedStore n")
  case (Some s)
  assume n: "node_inv n"
  have "aborted_inv s'" if "AbortedStore_CleanupExpired t w s f = (x, s', f')" for t w f x s' f'
    using that node_invD(5)[OF n Some]
    by (auto simp: AbortedStore_CleanupExpired_def Let_def aborted_inv_def distinct_map_filterI split: if_splits)
  with n Some show ?thesis
    by (auto simp: expire_aborted_def intro!: node_inv_updates(3) split: prod.split)
qed (simp add: expire_aborted_def)

lemma cleanup_tick_inv [node_inv_intros]: "node_inv n \<Longrightarrow> node_inv (cleanup_tick e n)"
  by (simp add: cleanup_tick_def expire_aborted_inv expire_offers_inv expire_messages_inv Node_cleanupAnnounced_def)

end
