(* ===== verification/Processing.thy ===== *)
theory Processing
  imports Routing
begin

text \<open>
  The end of node/node_batch.go (obfuscation) and the processing of messages in
  node/node_p2p.go: \<open>processMessageInternal\<close> learns from a text, gives it a weight, stores it,
  sends it on and lets the network answer; relay chains carry a text over several peers.
  Reals stand for floats.  \<open>None\<close> is a panic.
\<close>

section \<open>Obfuscation\<close>

definition OBFUSCATION_PREFIX :: string where "OBFUSCATION_PREFIX = ''[SHUF]''"

text \<open>\<open>ev_gcm_Seal\<close> and \<open>ev_gcm_Open\<close> are AES-GCM under the SHA-256 of the ethics hash.\<close>

definition Node_obfuscate :: "env \<Rightarrow> node \<Rightarrow> string \<Rightarrow> string" where
  "Node_obfuscate e n msg =
     OBFUSCATION_PREFIX @ ev_base64 e (ev_gcm_nonce e msg @ ev_gcm_Seal e (nd_ethHash n) (ev_gcm_nonce e msg) msg)"

definition Node_deobfuscate :: "env \<Rightarrow> node \<Rightarrow> string \<Rightarrow> string option" where
  "Node_deobfuscate e n data =
     (if \<not> prefix OBFUSCATION_PREFIX data then None
      else case ev_base64_decode e (TrimPrefix data OBFUSCATION_PREFIX) of
        None \<Rightarrow> None
      | Some ciphertext \<Rightarrow>
          if length ciphertext < 12 then None
          else ev_gcm_Open e (nd_ethHash n) (take 12 ciphertext) (drop 12 ciphertext))"

definition gcm_law :: "env \<Rightarrow> bool" where
  "gcm_law e \<longleftrightarrow> (\<forall>k m. length (ev_gcm_nonce e m) = 12 \<and>
     ev_gcm_Open e k (ev_gcm_nonce e m) (ev_gcm_Seal e k (ev_gcm_nonce e m) m) = Some m)"

lemma obfuscate_round_trip:
  assumes "base64_law e" "gcm_law e" "nd_ethHash n' = nd_ethHash n"
  shows "Node_deobfuscate e n' (Node_obfuscate e n msg) = Some msg"
  using assms by (simp add: Node_deobfuscate_def Node_obfuscate_def TrimPrefix_def base64_law_def gcm_law_def)

section \<open>Storing and showing a message\<close>

text \<open>\<open>if n.memory.Add(m) { if n.messageHook != nil { n.messageHook(m) } }\<close>\<close>

definition add_and_push :: "env \<Rightarrow> message \<Rightarrow> node \<Rightarrow> bool \<times> node" where
  "add_and_push e m n =
     (case Memory_Add (ev_now e) m (nd_memory n) of
        (True, mem) \<Rightarrow> (True, push_hook (MessageEvent m) (n\<lparr>nd_memory := mem\<rparr>))
      | (False, mem) \<Rightarrow> (False, n\<lparr>nd_memory := mem\<rparr>))"

section \<open>Learning from a text\<close>

text \<open>The mean of the similar texts, by weight, and the input mixed with it.\<close>

definition context_vector :: "text_lib \<Rightarrow> message list \<Rightarrow> real list" where
  "context_vector T similar =
     map (\<lambda>x. x / sum_list (map msg_Weight similar))
       (fold (\<lambda>s v. map2 (\<lambda>x y. x + y * msg_Weight s) v (textToVector T (msg_Text s))) similar
         (replicate VectorDim 0))"

definition mixed_input :: "text_lib \<Rightarrow> message list \<Rightarrow> real list \<Rightarrow> real list" where
  "mixed_input T similar input =
     (if length similar = 0 then input
      else map2 (\<lambda>x c. x * (7 / 10) + c * (3 / 10)) input (context_vector T similar))"

text \<open>The weight of a new message, from the ethics hash and the hashes the user has set.\<close>

definition initial_weight :: "text_lib \<Rightarrow> string \<Rightarrow> string \<Rightarrow> string \<Rightarrow> string \<Rightarrow> real" where
  "initial_weight T ethHash preHash antiHash msg =
     (let v = textToVector T msg;
          w0 = 3 / 10 + cosineSimilarity (hashToVector T ethHash) v * (5 / 10);
          w1 = (if preHash = [] then w0
                else w0 * (4 / 10) + (2 / 10 + cosineSimilarity (hashToVector T preHash) v * (6 / 10)) * (6 / 10))
      in if antiHash = [] then w1
         else let w2 = w1 * (1 - (3 / 10 + cosineSimilarity (hashToVector T antiHash) v * (5 / 10)) * (8 / 10))
              in if w2 < 1 / 10 then 1 / 10 else w2)"

definition own_priority :: "time \<Rightarrow> memory \<Rightarrow> int" where
  "own_priority now mem =
     (let active = Memory_GetActiveMessages now (5 / 10) mem;
          nodeWeight = (if length active = 0 then 5 / 10
                        else sum_list (map msg_Weight active) / real (length active))
      in if 7 / 10 < nodeWeight then 100 else 0)"

section \<open>Processing\<close>

text \<open>The arguments of \<open>processMessageInternal\<close> after the text, the sender and whose it is.\<close>

record process_args =
  pa_expiresAt :: time
  pa_providedID :: string
  pa_recipient :: string
  pa_version :: int
  pa_plainText :: string
  pa_type :: message_type
  pa_viaBootstrap :: bool
  pa_ttlPeriodSeconds :: int
  pa_ttlMode :: string

definition plain_args :: process_args where
  "plain_args = \<lparr>pa_expiresAt = 0, pa_providedID = [], pa_recipient = [], pa_version = 0, pa_plainText = [],
     pa_type = TypeMessage, pa_viaBootstrap = False, pa_ttlPeriodSeconds = 0, pa_ttlMode = []\<rparr>"

definition new_message :: "env \<Rightarrow> node \<Rightarrow> string \<Rightarrow> string \<Rightarrow> bool \<Rightarrow> process_args \<Rightarrow> message" where
  "new_message e n msg sender isOwn a =
     zero_message\<lparr>
       msg_ID := (if pa_providedID a = [] then ev_generateMsgID e msg else pa_providedID a),
       msg_Text := msg, msg_PlainText := pa_plainText a, msg_Sender := sender,
       msg_Recipient := pa_recipient a, msg_Version := pa_version a, msg_Type := pa_type a,
       msg_Time := ev_date e, msg_IsOwn := isOwn,
       msg_Weight := initial_weight (ev_text e) (nd_ethHash n) (nd_preHash n) (nd_antiHash n) msg,
       msg_Priority := (if isOwn then own_priority (ev_now e) (nd_memory n) else 0),
       msg_ExpiresAt := pa_expiresAt a, msg_ReadEnabled := Some (nd_myReadEnabled n),
       msg_TtlPeriodSeconds := pa_ttlPeriodSeconds a, msg_TtlMode := pa_ttlMode a,
       msg_MixingEnabled := (case nd_settings n of None \<Rightarrow> False
         | Some s \<Rightarrow> SettingsStore_GetMixingEnabled s \<and> nd_useOnion n)\<rparr>"

text \<open>The learning under the mutex, and the text that the vectors answer with.\<close>

definition learn :: "env \<Rightarrow> string \<Rightarrow> node \<Rightarrow> node option" where
  "learn e msg n =
     (let T = ev_text e; input = textToVector T msg; output = fst (forward input (nd_layers n));
          mixed = mixed_input T (Memory_FindSimilar T (ev_now e) msg (7 / 10) (nd_memory n)) input;
          lr = (case nd_adaptive n of None \<Rightarrow> 1 / 100 | Some a \<Rightarrow> ad_LearningRate a)
      in map_option (\<lambda>ls. n\<lparr>nd_layers := ls, nd_layersDirty := True,
                             nd_started := nd_started n @ [BroadcastLayers]\<rparr>)
           (train (nd_layers n) mixed output mixed lr))"

definition answer_text :: "env \<Rightarrow> string \<Rightarrow> node \<Rightarrow> string option" where
  "answer_text e msg n =
     map_option (ev_encode_runes e) (vectorToText (fst (forward (textToVector (ev_text e) msg) (nd_layers n))))"

definition NETWORK_SENDER :: string where
  "NETWORK_SENDER = map char_of [0xF0 :: nat, 0x9F, 0x8C, 0x90, 0x20, 0xD0, 0xA1, 0xD0, 0xB5, 0xD1, 0x82, 0xD1, 0x8C]"

definition answer_message :: "env \<Rightarrow> string \<Rightarrow> message" where
  "answer_message e answer =
     zero_message\<lparr>msg_ID := ev_generateMsgID e answer, msg_Text := answer, msg_Sender := NETWORK_SENDER,
       msg_Time := ev_date e, msg_Weight := 5 / 10\<rparr>"

definition network_answer :: "env \<Rightarrow> string \<Rightarrow> node \<Rightarrow> node" where
  "network_answer e answer n =
     (let m = answer_message e answer
      in case Memory_Add (ev_now e) m (nd_memory n) of
           (True, mem) \<Rightarrow> Node_replicateMessage e m (n\<lparr>nd_memory := mem\<rparr>)
         | (False, mem) \<Rightarrow> n\<lparr>nd_memory := mem\<rparr>)"

definition store_and_send :: "env \<Rightarrow> message \<Rightarrow> bool \<Rightarrow> node \<Rightarrow> node" where
  "store_and_send e m viaBootstrap n =
     (case Memory_Add (ev_now e) m (nd_memory n) of
        (False, mem) \<Rightarrow> n\<lparr>nd_memory := mem\<rparr>
      | (True, mem) \<Rightarrow>
          let n1 = n\<lparr>nd_memory := mem\<rparr>;
              n2 = (if msg_IsOwn m \<and> msg_Version m = 2 \<and> msg_Type m = TypeMessage
                    then Node_setMessageStatus (msg_ID m) StatusSent n1 else n1);
              n3 = (if viaBootstrap then snd (Node_sendServiceViaBootstrap e m n2)
                    else Node_replicateMessage e m n2)
          in push_hook (MessageEvent m) n3)"

definition Node_processMessageInternal ::
  "env \<Rightarrow> string \<Rightarrow> string \<Rightarrow> bool \<Rightarrow> process_args \<Rightarrow> node \<Rightarrow> node option" where
  "Node_processMessageInternal e msg sender isOwn a n =
     (case (answer_text e msg n, learn e msg n) of
        (Some answer, Some n1) \<Rightarrow>
          let n2 = store_and_send e (new_message e n1 msg sender isOwn a) (pa_viaBootstrap a) n1;
              n3 = (if answer \<noteq> [] \<and> pa_recipient a = [] then network_answer e answer n2 else n2)
          in Some (n3\<lparr>nd_started := nd_started n3 @ [SaveState]\<rparr>)
      | _ \<Rightarrow> None)"

definition Node_processMessage :: "env \<Rightarrow> string \<Rightarrow> string \<Rightarrow> bool \<Rightarrow> node \<Rightarrow> node option" where
  "Node_processMessage e msg sender isOwn n = Node_processMessageInternal e msg sender isOwn plain_args n"

definition Node_processMessageWithTTL :: "env \<Rightarrow> string \<Rightarrow> string \<Rightarrow> bool \<Rightarrow> time \<Rightarrow> node \<Rightarrow> node option" where
  "Node_processMessageWithTTL e msg sender isOwn expiresAt n =
     Node_processMessageInternal e msg sender isOwn (plain_args\<lparr>pa_expiresAt := expiresAt\<rparr>) n"

definition Node_processMessageWithID ::
  "env \<Rightarrow> string \<Rightarrow> string \<Rightarrow> bool \<Rightarrow> time \<Rightarrow> string \<Rightarrow> node \<Rightarrow> node option" where
  "Node_processMessageWithID e msg sender isOwn expiresAt i n =
     Node_processMessageInternal e msg sender isOwn (plain_args\<lparr>pa_expiresAt := expiresAt, pa_providedID := i\<rparr>) n"

definition Node_processMessageWithRecipient ::
  "env \<Rightarrow> string \<Rightarrow> string \<Rightarrow> bool \<Rightarrow> time \<Rightarrow> string \<Rightarrow> string \<Rightarrow> int \<Rightarrow> node \<Rightarrow> node option" where
  "Node_processMessageWithRecipient e msg sender isOwn expiresAt i recipient version n =
     Node_processMessageInternal e msg sender isOwn
       (plain_args\<lparr>pa_expiresAt := expiresAt, pa_providedID := i, pa_recipient := recipient, pa_version := version\<rparr>) n"

section \<open>Relay chains\<close>

definition Node_sendViaRelayChain :: "env \<Rightarrow> string list \<Rightarrow> string \<Rightarrow> node \<Rightarrow> node" where
  "Node_sendViaRelayChain e relays msg n =
     (case relays of
        [] \<Rightarrow> n
      | relay # rest \<Rightarrow>
          let line = ''CHAIN:'' @ string_join '','' rest @ '':'' @ Node_obfuscate e n msg
          in if ev_Decode e relay \<and> ev_line e relay line
             then n\<lparr>nd_lines := nd_lines n @ [(relay, line)]\<rparr> else n)"

definition relayed_message :: "env \<Rightarrow> node \<Rightarrow> string \<Rightarrow> string \<Rightarrow> message" where
  "relayed_message e n msg sender =
     zero_message\<lparr>msg_ID := ev_generateMsgID e msg, msg_Text := msg, msg_Sender := sender, msg_Time := ev_date e,
       msg_Weight := 5 / 10, msg_Mode := 1, msg_Relayed := True, msg_SenderName := Node_nameForPeer sender n\<rparr>"

definition Node_processMessageRelayed :: "env \<Rightarrow> string \<Rightarrow> string \<Rightarrow> node \<Rightarrow> node" where
  "Node_processMessageRelayed e msg sender n =
     (let m = relayed_message e n msg sender
      in case Memory_Add (ev_now e) m (nd_memory n) of
           (True, mem) \<Rightarrow> push_hook (MessageEvent m) (Node_replicateMessage e m (n\<lparr>nd_memory := mem\<rparr>))
         | (False, mem) \<Rightarrow> n\<lparr>nd_memory := mem\<rparr>)"

definition Node_processMessageWithModeAndTTL ::
  "(nat \<Rightarrow> nat list) \<Rightarrow> env \<Rightarrow> string \<Rightarrow> string \<Rightarrow> bool \<Rightarrow> int \<Rightarrow> time \<Rightarrow> node \<Rightarrow> node option" where
  "Node_processMessageWithModeAndTTL perm e msg sender isOwn mode expiresAt n =
     (if mode = 0 \<or> nd_host n = None then Node_processMessageWithTTL e msg sender isOwn expiresAt n
      else let relayCount = (if mode = 2 then 5 else 4); relays = Node_selectRelays perm e relayCount n
        in if length relays < relayCount then Node_processMessageWithTTL e msg sender isOwn expiresAt n
           else Some (Node_sendViaRelayChain e relays msg n))"

section \<open>The invariant\<close>

lemma Add_node_inv: "node_inv n \<Longrightarrow> Memory_Add t m (nd_memory n) = (b, mem) \<Longrightarrow> node_inv (n\<lparr>nd_memory := mem\<rparr>)"
  using Add_inv(1)[OF node_invD(1), of n t m] by (simp add: node_inv_memory)

lemma add_and_push_inv [node_inv_intros]: "node_inv n \<Longrightarrow> node_inv (snd (add_and_push e m n))"
  by (auto simp: add_and_push_def push_hook_inv Add_node_inv split: prod.split bool.split)

lemma learn_inv: "node_inv n \<Longrightarrow> learn e msg n = Some n' \<Longrightarrow> node_inv n'"
  by (auto simp: learn_def Let_def)

lemma network_answer_inv: "node_inv n \<Longrightarrow> node_inv (network_answer e a n)"
  by (auto simp: network_answer_def Let_def Add_node_inv replicateMessage_inv split: prod.split bool.split)

lemma store_and_send_inv: "node_inv n \<Longrightarrow> node_inv (store_and_send e m v n)"
  by (auto simp: store_and_send_def Let_def push_hook_inv Add_node_inv replicateMessage_inv sendService_inv
      setMessageStatus_inv split: prod.split bool.split)

lemma sendViaRelayChain_inv [node_inv_intros]: "node_inv n \<Longrightarrow> node_inv (Node_sendViaRelayChain e rs msg n)"
  by (simp add: Node_sendViaRelayChain_def Let_def split: list.split)

lemma processMessageRelayed_inv [node_inv_intros]: "node_inv n \<Longrightarrow> node_inv (Node_processMessageRelayed e msg s n)"
  by (auto simp: Node_processMessageRelayed_def Let_def push_hook_inv replicateMessage_inv Add_node_inv
      split: prod.split bool.split)

text \<open>Processing a text never panics: its vectors have the dimension that the training indexes.\<close>

lemma length_fold_dim: "length v = k \<Longrightarrow> (\<And>x v. length v = k \<Longrightarrow> length (f x v) = k) \<Longrightarrow> length (fold f xs v) = k"
  by (rule fold_invariant[where I = "\<lambda>v. length v = k"]) auto

lemma length_textToVector [simp]: "length (textToVector T s) = VectorDim"
proof -
  define step where "step = (\<lambda>(i, ch) v. add_at (i mod VectorDim) (real_of_int ch * (3 / 10)) v)"
  define v1 where "v1 = fold step (tl_range T (tl_ToLower T s)) (replicate VectorDim 0)"
  define h where "h = (\<lambda>i. tl_sha256 T (take 2 (drop i (tl_ToLower T s))))"
  define v2 where "v2 = fold (\<lambda>i v. map2 (\<lambda>j x. x + real (h i ! (j mod length (h i))) / 255 * (7 / 10)) [0..<VectorDim] v)
      [0..<length (tl_ToLower T s) - 1] v1"
  have "length v1 = VectorDim"
    unfolding v1_def by (rule length_fold_dim) (simp_all add: step_def add_at_def split: prod.split)
  then have "length v2 = VectorDim" unfolding v2_def by (rule length_fold_dim) simp
  then show ?thesis unfolding textToVector_def Let_def v2_def v1_def h_def step_def by simp
qed

lemma length_forward_loop:
  "forward_loop c r ls = (c', r') \<Longrightarrow> (case r of None \<Rightarrow> True | Some x \<Rightarrow> length x = length c) \<Longrightarrow>
     length c' = length c \<and> (case r' of None \<Rightarrow> True | Some x \<Rightarrow> length x = length c)"
proof (induction c r ls arbitrary: c' r' rule: forward_loop.induct)
  case (2 c r l ls)
  show ?case
  proof (cases "length l = length c")
    case True
    with 2(2)[OF _ refl, of c' r'] 2(3) show ?thesis by (simp add: Let_def split: option.splits)
  next
    case False
    with 2(1)[OF _ _ 2(4)] 2(3) show ?thesis by simp
  qed
qed simp

lemma length_forward: "length (fst (forward v ls)) = length v"
proof -
  obtain c r where l: "forward_loop v None ls = (c, r)" by fastforce
  from length_forward_loop[OF l] show ?thesis by (cases r) (simp_all add: forward_def l)
qed

lemma length_mixed_input: "length (mixed_input T similar (textToVector T s)) = VectorDim"
proof -
  have "length (context_vector T similar) = VectorDim"
    by (auto simp: context_vector_def intro!: length_fold_dim)
  then show ?thesis by (simp add: mixed_input_def)
qed

lemma learn_returns: "\<exists>n'. learn e msg n = Some n'"
  by (simp add: learn_def Let_def train_def length_mixed_input length_forward VectorDim_def)

lemma vectorToText_returns: "\<exists>rs. vectorToText v = Some rs"
  using chain_allowed[of v 0 "text_length v - 1" "pickStarter \<bar>v ! 0\<bar>"] by (auto simp: vectorToText_def Let_def)

lemma processMessageInternal_inv:
  assumes "node_inv n"
  shows "\<exists>n'. Node_processMessageInternal e msg s own a n = Some n' \<and> node_inv n'"
proof -
  from learn_returns obtain n1 where n1: "learn e msg n = Some n1" by blast
  obtain answer where "answer_text e msg n = Some answer"
    using vectorToText_returns[of "fst (forward (textToVector (ev_text e) msg) (nd_layers n))"]
    by (auto simp: answer_text_def)
  with n1 learn_inv[OF assms n1] show ?thesis
    by (simp add: Node_processMessageInternal_def Let_def network_answer_inv store_and_send_inv)
qed

end
