(* ===== verification/Receive.thy ===== *)
theory Receive
  imports Processing
begin

text \<open>
  node/node_p2p.go: what the node does with an incoming stream.  \<open>Node_handleStream\<close> is the
  whole handler: it reads a line, tells the kinds of message apart by their prefix, and
  returns what it writes back and the new node; \<open>None\<close> is a panic.  An end-to-end message
  for the node is decrypted, stored once, shown, and acknowledged through
  \<open>queueDelivered\<close>.
\<close>

section \<open>Messages for this node\<close>

definition received_text :: "env \<Rightarrow> node \<Rightarrow> message \<Rightarrow> string \<times> string \<Rightarrow> message" where
  "received_text e n m t =
     zero_message\<lparr>msg_ID := fst t, msg_Text := snd t, msg_Sender := msg_Sender m,
       msg_SenderName := Node_nameForPeer (msg_Sender m) n, msg_Recipient := msg_Recipient m,
       msg_Type := TypeMessage, msg_MediaType := ''text'', msg_Version := 2, msg_Time := ev_date e,
       msg_Weight := 5 / 10, msg_ReplicatedAt := ev_now e\<rparr>"

definition receive_batch :: "env \<Rightarrow> message \<Rightarrow> node \<Rightarrow> node" where
  "receive_batch e m n =
     (case Option.bind (Node_decryptFromSender e n (msg_Sender m) (msg_Text m)) (ev_batch_payload e) of
        None \<Rightarrow> n
      | Some texts \<Rightarrow>
          fold (\<lambda>t n'. Node_queueDelivered (msg_Sender m) (fst t) (snd (add_and_push e (received_text e n m t) n'))) texts n)"

definition decrypt_message :: "env \<Rightarrow> node \<Rightarrow> message \<Rightarrow> message option" where
  "decrypt_message e n m =
     (if is_chunk m
      then map_option (\<lambda>raw. m\<lparr>msg_Text := ev_base64 e raw\<rparr>) (Node_decryptBytesFromSender e n (msg_Sender m) (msg_Text m))
      else map_option (\<lambda>plain. m\<lparr>msg_Text := plain\<rparr>) (Node_decryptFromSender e n (msg_Sender m) (msg_Text m)))"

definition aborted_chunk :: "message \<Rightarrow> node \<Rightarrow> bool" where
  "aborted_chunk m n \<longleftrightarrow> is_chunk m \<and> msg_MediaID m \<noteq> [] \<and>
     (case nd_abortedStore n of None \<Rightarrow> False | Some s \<Rightarrow> AbortedStore_IsAborted s (msg_MediaID m))"

text \<open>The count of accepted chunks, and the progress that is shown.\<close>

definition count_accepted :: "env \<Rightarrow> message \<Rightarrow> node \<Rightarrow> node" where
  "count_accepted e m n =
     (if is_chunk m \<and> msg_MediaID m \<noteq> []
      then let accepted = (case nd_acceptedCount n (msg_MediaID m) of None \<Rightarrow> 0 | Some k \<Rightarrow> k) + 1
        in Node_pushFileStatus e (msg_MediaID m) accepted (msg_ChunkTotal m)
             (n\<lparr>nd_acceptedCount := (nd_acceptedCount n)(msg_MediaID m \<mapsto> accepted)\<rparr>)
      else n)"

text \<open>\<open>track\<close>: the direct path also remembers which chunks the user interface has not acknowledged.\<close>

definition show_message :: "bool \<Rightarrow> env \<Rightarrow> message \<Rightarrow> node \<Rightarrow> node" where
  "show_message track e m n =
     (if \<not> nd_hook n then n
      else if is_chunk m
      then let w = (case nd_pendingHookAcks n (msg_MediaID m) of None \<Rightarrow> [] | Some w \<Rightarrow> w);
               n1 = (if track
                     then n\<lparr>nd_pendingHookAcks :=
                       (nd_pendingHookAcks n)(msg_MediaID m \<mapsto> AList.update (msg_ChunkIndex m) (ev_now e) w)\<rparr>
                     else n)
        in push_hook (MessageEvent (clear_text m)) n1
      else push_hook (MessageEvent m) n)"

definition accept_message :: "bool \<Rightarrow> env \<Rightarrow> message \<Rightarrow> node \<Rightarrow> node" where
  "accept_message track e m n =
     (case Memory_Add (ev_now e) m (nd_memory n) of
        (added, mem) \<Rightarrow>
          let n1 = n\<lparr>nd_memory := mem\<rparr>;
              n2 = (if added then show_message track e m (count_accepted e m n1) else n1)
          in Node_queueDelivered (msg_Sender m) (msg_ID m) n2)"

text \<open>The end-to-end branch of \<open>handleStream\<close>, for this node.\<close>

definition receive_e2e :: "env \<Rightarrow> message \<Rightarrow> node \<Rightarrow> node" where
  "receive_e2e e m n =
     (if msg_MediaType m = ''batch'' then receive_batch e m n
      else case decrypt_message e n m of
        None \<Rightarrow> n
      | Some m1 \<Rightarrow>
          if aborted_chunk m1 n then n
          else accept_message True e (m1\<lparr>msg_SenderName := Node_nameForPeer (msg_Sender m1) n\<rparr>) n)"

definition Node_handleSphinxReplicaMsg :: "env \<Rightarrow> message \<Rightarrow> node \<Rightarrow> node" where
  "Node_handleSphinxReplicaMsg e m n =
     (if msg_MediaType m = ''dummy'' then n
      else if msg_Version m = 2 \<and> msg_MediaType m = ''batch'' then receive_batch e m n
      else case (if msg_Version m = 2 then decrypt_message e n m else Some m) of
        None \<Rightarrow> n
      | Some m1 \<Rightarrow>
          if aborted_chunk m1 n then n
          else accept_message False e (m1\<lparr>msg_SenderName := Node_nameForPeer (msg_Sender m1) n,
                 msg_ReplicatedAt := ev_now e, msg_IsOwn := False\<rparr>) n)"

section \<open>Replicas\<close>

definition start :: "started \<Rightarrow> node \<Rightarrow> node" where
  "start s n = n\<lparr>nd_started := nd_started n @ [s]\<rparr>"

definition deobfuscated_replica :: "env \<Rightarrow> node \<Rightarrow> message \<Rightarrow> message" where
  "deobfuscated_replica e n m =
     (if msg_Version m < 2
      then case Node_deobfuscate e n (msg_Text m) of Some plain \<Rightarrow> m\<lparr>msg_Text := plain\<rparr> | None \<Rightarrow> m
      else m)"

definition receive_replica :: "env \<Rightarrow> message \<Rightarrow> node \<Rightarrow> node option" where
  "receive_replica e m0 n =
     (if isServiceType (msg_Type m0)
      then if nd_host n = Some (msg_Recipient m0) then Node_handleServiceMessage e m0 n
           else Some (if nd_isRelay n then start (Replicate m0) n else n)
      else let m = (deobfuscated_replica e n m0)\<lparr>msg_ReplicatedAt := ev_now e, msg_IsOwn := False\<rparr>
        in Some (
          if msg_Version m = 2
          then if nd_host n = Some (msg_Recipient m) then receive_e2e e m n
               else if nd_isRelay n then start (Replicate m) n else n
          else if msg_Recipient m \<noteq> [] \<and> nd_host n \<noteq> None
          then if nd_host n \<noteq> Some (msg_Recipient m)
               then if nd_isRelay n then start (Replicate m) n else n
               else snd (add_and_push e (m\<lparr>msg_SenderName := Node_nameForPeer (msg_Sender m) n\<rparr>) n)
          else case Memory_Add (ev_now e) m (nd_memory n) of
                 (True, mem) \<Rightarrow> push_hook (MessageEvent m) (start (Replicate m) (n\<lparr>nd_memory := mem\<rparr>))
               | (False, mem) \<Rightarrow> n\<lparr>nd_memory := mem\<rparr>))"

text \<open>What comes back after [RESTORE].\<close>

definition restore_replica :: "env \<Rightarrow> message \<Rightarrow> node \<Rightarrow> node" where
  "restore_replica e m0 n =
     (let m = (deobfuscated_replica e n m0)\<lparr>msg_ReplicatedAt := ev_now e, msg_IsOwn := False,
            msg_SenderName := Node_nameForPeer (msg_Sender m0) n\<rparr>
      in case Memory_Add (ev_now e) m (nd_memory n) of
           (True, mem) \<Rightarrow> push_hook (MessageEvent m) (start (Replicate m) (n\<lparr>nd_memory := mem\<rparr>))
         | (False, mem) \<Rightarrow> n\<lparr>nd_memory := mem\<rparr>)"

definition Node_handleReplicaData :: "env \<Rightarrow> string \<Rightarrow> node \<Rightarrow> node" where
  "Node_handleReplicaData e data n =
     fold (\<lambda>line n. if prefix REPLICA_PREFIX line
            then case ev_unmarshal e (TrimPrefix line REPLICA_PREFIX) of Some m \<Rightarrow> restore_replica e m n | None \<Rightarrow> n
            else n) (Split newline data) n"

section \<open>Streams\<close>

definition Node_buildRelayAddrFor :: "env \<Rightarrow> string \<Rightarrow> node \<Rightarrow> string" where
  "Node_buildRelayAddrFor e target n =
     (case nd_host n of
        None \<Rightarrow> []
      | Some me \<Rightarrow>
          let outer = filter (\<lambda>a. \<not> sublist ''127.0.0.1'' a) (ev_host_addrs e);
              full = (\<lambda>a. a @ ''/p2p/'' @ me @ ''/p2p-circuit/p2p/'' @ target)
          in case find (\<lambda>a. sublist ''/ws'' a) outer of
               Some a \<Rightarrow> full a
             | None \<Rightarrow> (case outer of [] \<Rightarrow> [] | a # _ \<Rightarrow> full a))"

definition answer_find :: "env \<Rightarrow> string \<Rightarrow> node \<Rightarrow> string \<times> node" where
  "answer_find e target n =
     (case Node_lookupPeer (ev_now e) target n of
        (found, n1) \<Rightarrow>
          let relayAddr = Node_buildRelayAddrFor e target n1;
              addrs = (case found of
                  Some as \<Rightarrow> as
                | None \<Rightarrow> if nd_host n1 \<noteq> None \<and> ev_Decode e target \<and> target \<in> set (ev_peers e) \<and> relayAddr \<noteq> []
                          then [relayAddr] else [])
          in (if 0 < length addrs then address_lines FOUND_PREFIX addrs else NOT_FOUND_PREFIX @ [newline], n1))"

definition receive_sphinx :: "env \<Rightarrow> string \<Rightarrow> node \<Rightarrow> node" where
  "receive_sphinx e payload n =
     (case ev_base64_decode e (strings_TrimSpace payload) of
        None \<Rightarrow> n
      | Some raw \<Rightarrow>
          (case ev_sphinx_process e raw of
             Some (nextPeer, mixing, dummy, remainder) \<Rightarrow>
               (case direct_reachable e nextPeer n of
                  (False, n1) \<Rightarrow> n1
                | (True, n1) \<Rightarrow>
                    let line = SPHINX_PREFIX @ ev_base64 e remainder
                    in if ev_line e nextPeer line then n1\<lparr>nd_lines := nd_lines n1 @ [(nextPeer, line)]\<rparr> else n1)
           | None \<Rightarrow>
               (case Option.bind (ev_sphinx_extract e raw) (ev_unmarshal e) of
                  None \<Rightarrow> n
                | Some m \<Rightarrow> if nd_host n \<noteq> Some (msg_Recipient m) then n else Node_handleSphinxReplicaMsg e m n)))"

definition receive_relay :: "env \<Rightarrow> string \<Rightarrow> node \<Rightarrow> node" where
  "receive_relay e rest n =
     (case SplitN (CHR '':'') 2 rest of
        [target, text] \<Rightarrow>
          let actual = (case Node_deobfuscate e n text of Some plain \<Rightarrow> plain | None \<Rightarrow> text);
              line = Node_obfuscate e n actual
          in if ev_Decode e target \<and> ev_line e target line
             then n\<lparr>nd_lines := nd_lines n @ [(target, line)]\<rparr> else n
      | _ \<Rightarrow> n)"

text \<open>A line without one of the prefixes.\<close>

definition receive_text :: "env \<Rightarrow> string \<Rightarrow> string \<Rightarrow> node \<Rightarrow> (string list \<times> node) option" where
  "receive_text e remote msg0 n =
     (let msg = (case Node_deobfuscate e n msg0 of Some plain \<Rightarrow> plain | None \<Rightarrow> msg0)
      in if msg = nd_ethHash n then Some ([''ACCEPTED'' @ [newline]], n)
         else case (if prefix ''CHAIN:'' msg then SplitN (CHR '':'') 3 msg else []) of
           [_, nextRelays, actual] \<Rightarrow>
             Some ([], if nextRelays \<noteq> [] then Node_sendViaRelayChain e (Split (CHR '','') nextRelays) actual n
                       else Node_processMessageRelayed e actual remote n)
         | _ \<Rightarrow> map_option (Pair []) (Node_processMessage e msg remote False n))"

text \<open>
  The handler: \<open>reads\<close> is what the reads of the stream return, \<open>remote\<close> the peer at the other
  end, which libp2p has authenticated.
\<close>

definition Node_handleStream :: "env \<Rightarrow> string list \<Rightarrow> string \<Rightarrow> node \<Rightarrow> (string list \<times> node) option" where
  "Node_handleStream e reads remote n =
     (let msg = stream_message reads
      in if prefix ANNOUNCE_PREFIX msg
         then Some ([], Node_announcePeer (ev_now e) remote (parseMultiaddrsResponse msg ANNOUNCE_PREFIX) n)
         else if prefix FIND_PREFIX msg
         then let (answer, n1) = answer_find e (strings_TrimSpace (TrimPrefix msg FIND_PREFIX)) n in Some ([answer], n1)
         else if prefix SPHINX_PREFIX msg then Some ([], receive_sphinx e (TrimPrefix msg SPHINX_PREFIX) n)
         else if prefix REPLICA_PREFIX msg
         then (case ev_unmarshal e (TrimPrefix msg REPLICA_PREFIX) of
                 None \<Rightarrow> Some ([], n)
               | Some m \<Rightarrow> map_option (Pair []) (receive_replica e m n))
         else if prefix RESTORE_PREFIX msg
         then Some (map (\<lambda>m. REPLICA_PREFIX @ ev_marshal e m @ [newline])
                (Memory_GetReplicasFor (TrimPrefix msg RESTORE_PREFIX) (nd_memory n)), n)
         else if prefix ''PEERS:'' msg
         then (case ev_peers_exchange e (TrimPrefix msg ''PEERS:'') of
                 None \<Rightarrow> Some ([], n)
               | Some addrs \<Rightarrow> Some ([''PEERS:'' @ addrs @ [newline]], n))
         else if prefix ''RELAY:'' msg then Some ([], receive_relay e (TrimPrefix msg ''RELAY:'') n)
         else if prefix STEGO_PREFIX msg then Some ([], n)
         else receive_text e remote msg n)"

definition Node_handlePingStream :: "string \<Rightarrow> string list" where
  "Node_handlePingStream r = (if strings_TrimSpace r = ''PING'' then [''PONG'' @ [newline]] else [])"


section \<open>The invariant\<close>

lemma fold_receive_inv: "node_inv n \<Longrightarrow> node_inv (receive_batch e m n)"
  by (auto simp: receive_batch_def intro!: fold_node_inv queueDelivered_inv add_and_push_inv split: option.split)

lemma count_accepted_inv: "node_inv n \<Longrightarrow> node_inv (count_accepted e m n)"
  by (simp add: count_accepted_def Let_def pushFileStatus_inv)

lemma show_message_inv: "node_inv n \<Longrightarrow> node_inv (show_message track e m n)"
  by (simp add: show_message_def Let_def push_hook_inv)

lemma accept_message_inv: "node_inv n \<Longrightarrow> node_inv (accept_message track e m n)"
  by (auto simp: accept_message_def Let_def Add_node_inv show_message_inv count_accepted_inv
      intro!: queueDelivered_inv split: prod.split)

lemma receive_e2e_inv [node_inv_intros]: "node_inv n \<Longrightarrow> node_inv (receive_e2e e m n)"
  by (simp add: receive_e2e_def fold_receive_inv accept_message_inv split: option.split)

lemma handleSphinxReplicaMsg_inv [node_inv_intros]: "node_inv n \<Longrightarrow> node_inv (Node_handleSphinxReplicaMsg e m n)"
  by (simp add: Node_handleSphinxReplicaMsg_def fold_receive_inv accept_message_inv split: option.split)

lemma start_inv [simp]: "node_inv (start s n) \<longleftrightarrow> node_inv n"
  by (simp add: start_def)

lemma receive_replica_inv:
  assumes "node_inv n"
  shows "\<exists>n'. receive_replica e m n = Some n' \<and> node_inv n'"
  using assms handleServiceMessage_inv[OF assms, of e m]
  by (simp add: receive_replica_def Let_def push_hook_inv receive_e2e_inv add_and_push_inv Add_node_inv
      split: prod.split bool.split)

lemma restore_replica_inv: "node_inv n \<Longrightarrow> node_inv (restore_replica e m n)"
  by (simp add: restore_replica_def Let_def push_hook_inv Add_node_inv split: prod.split bool.split)

lemma handleReplicaData_inv [node_inv_intros]: "node_inv n \<Longrightarrow> node_inv (Node_handleReplicaData e data n)"
  unfolding Node_handleReplicaData_def
  by (rule fold_node_inv) (simp_all add: restore_replica_inv split: option.split)

lemma lookupPeer_inv: "node_inv n \<Longrightarrow> Node_lookupPeer now p n = (r, n') \<Longrightarrow> node_inv n'"
  by (metis lookupPeer_core node_inv_core snd_conv)

lemma answer_find_inv: "node_inv n \<Longrightarrow> answer_find e p n = (a, n') \<Longrightarrow> node_inv n'"
  by (auto simp: answer_find_def Let_def dest: lookupPeer_inv split: prod.splits)

lemma receive_sphinx_inv [node_inv_intros]: "node_inv n \<Longrightarrow> node_inv (receive_sphinx e p n)"
  by (auto simp: receive_sphinx_def Let_def handleSphinxReplicaMsg_inv dest: direct_reachable_inv
      split: option.split prod.split bool.split)

lemma receive_relay_inv [node_inv_intros]: "node_inv n \<Longrightarrow> node_inv (receive_relay e r n)"
  by (simp add: receive_relay_def Let_def split: list.split)

lemma receive_text_inv:
  assumes "node_inv n"
  shows "\<exists>out n'. receive_text e r m n = Some (out, n') \<and> node_inv n'"
  using assms processMessageInternal_inv[OF assms, of e _ r False plain_args]
  by (auto simp: receive_text_def Let_def Node_processMessage_def sendViaRelayChain_inv processMessageRelayed_inv
      split: list.split)

lemma handleStream_inv:
  assumes "node_inv n"
  shows "\<exists>out n'. Node_handleStream e reads remote n = Some (out, n') \<and> node_inv n'"
proof -
  have f: "\<exists>out n'. (case answer_find e p n of (a, n1) \<Rightarrow> Some ([a], n1)) = Some (out, n') \<and> node_inv n'" for p
    using answer_find_inv[OF assms] by (auto split: prod.split)
  show ?thesis
    unfolding Node_handleStream_def Let_def
    using assms f receive_replica_inv[OF assms] receive_text_inv[OF assms]
    by (simp add: Node_announcePeer_def receive_sphinx_inv receive_relay_inv split: option.split)
qed

end
