(* ===== verification/Senders.thy ===== *)
theory Senders
  imports Receive
begin

text \<open>
  What the user sends: texts and the settings they depend on (node/node_settings.go), media and
  files (node/media.go), offers (node/node_offers.go), contact requests and their answers
  (node/node_contacts.go), and dummy packets (node/node_batch.go).  JSON encoders, the file that
  is sent and the disk are the record \<open>send_lib\<close>.

  An operation that returns an error has \<open>None\<close> for its result; the outer \<open>None\<close> is a panic.
\<close>

section \<open>Parameters\<close>

text \<open>\<open>os.Create\<close> and \<open>io.Copy\<close>: a copy that fails leaves the bytes written so far.\<close>

datatype copy_outcome = Copied | CreateFails | CopyFails nat

record send_lib =
  sd_contact_json :: "contact_payload \<Rightarrow> string"
  sd_control_json :: "string \<Rightarrow> contact_payload \<Rightarrow> string"
  sd_hello_json :: "hello_payload \<Rightarrow> string"
  sd_offer_json :: "offer_payload \<Rightarrow> string"
  sd_meta_json :: "file_meta \<Rightarrow> string"
  sd_open :: "string \<Rightarrow> string option"
  sd_sent_dir :: bool
  sd_files_dir :: bool
  sd_copy :: "path \<Rightarrow> copy_outcome"
  sd_write_meta :: bool
  sd_dummy :: "string \<Rightarrow> (string \<times> string) option"

section \<open>Texts\<close>

definition hard_expiry :: "env \<Rightarrow> string \<Rightarrow> string \<Rightarrow> time" where
  "hard_expiry e period mode =
     (if 0 < parsePeriod period \<and> mode = ''hard'' then ev_now e + parsePeriod period * Second else 0)"

definition Node_SendMessage :: "env \<Rightarrow> string \<Rightarrow> string \<Rightarrow> string \<Rightarrow> node \<Rightarrow> (string option \<times> node) option" where
  "Node_SendMessage e txt period mode n =
     (case nd_host n of
        None \<Rightarrow> Some (None, n)
      | Some me \<Rightarrow>
          let i = ev_generateMsgID e txt
          in map_option (Pair (Some i))
               (Node_processMessageInternal e txt me True
                  (plain_args\<lparr>pa_expiresAt := hard_expiry e period mode, pa_providedID := i,
                     pa_ttlPeriodSeconds := parsePeriod period, pa_ttlMode := mode\<rparr>) n))"

definition Node_SendToPeer :: "env \<Rightarrow> string \<Rightarrow> string \<Rightarrow> string \<Rightarrow> string \<Rightarrow> node \<Rightarrow> (string option \<times> node) option" where
  "Node_SendToPeer e peer txt period mode n =
     (case nd_host n of
        None \<Rightarrow> Some (None, n)
      | Some me \<Rightarrow>
          if peer = [] then Some (None, n)
          else case Node_encryptForRecipient e n peer txt of
            None \<Rightarrow> Some (None, n)
          | Some encrypted \<Rightarrow>
              let i = ev_generateMsgID e txt
              in map_option (Pair (Some i))
                   (Node_processMessageInternal e encrypted me True
                      \<lparr>pa_expiresAt = hard_expiry e period mode, pa_providedID = i, pa_recipient = peer,
                       pa_version = MESSAGE_VERSION_E2E, pa_plainText = txt, pa_type = TypeMessage,
                       pa_viaBootstrap = False, pa_ttlPeriodSeconds = parsePeriod period, pa_ttlMode = mode\<rparr> n))"

text \<open>\<open>isChunkedMediaType\<close> is modelled with the memory.\<close>

definition shown_message :: "message \<Rightarrow> message" where
  "shown_message m = (if isChunkedMediaType (msg_MediaType m) \<and> 0 < msg_ChunkTotal m then clear_text m else m)"

definition Node_GetMessages :: "time \<Rightarrow> node \<Rightarrow> message list" where
  "Node_GetMessages now n = map shown_message (filter (\<lambda>m. \<not> is_expired now m) (Memory_GetAll (nd_memory n)))"

definition Node_GetPeers :: "env \<Rightarrow> node \<Rightarrow> string list" where
  "Node_GetPeers e n = (if nd_host n = None then [] else ev_peers e)"

definition Node_GetWeight :: "env \<Rightarrow> node \<Rightarrow> real" where
  "Node_GetWeight e n =
     (let msgs = Memory_GetActiveMessages (ev_now e) (1 / 2) (nd_memory n)
      in if length msgs = 0 then 1 / 2 else sum_list (map msg_Weight msgs) / real (length msgs))"

section \<open>Media in one message\<close>

definition media_message :: "env \<Rightarrow> string \<Rightarrow> string \<Rightarrow> string \<Rightarrow> string \<Rightarrow> int \<Rightarrow> string \<Rightarrow> string \<Rightarrow> node \<Rightarrow> message" where
  "media_message e peer mediaType encrypted mediaData duration period mode n =
     zero_message\<lparr>msg_ID := ev_generateMsgID e (mediaType @ '':'' @ peer @ '':'' @ ev_nano e),
       msg_Text := encrypted, msg_PlainText := mediaData, msg_Sender := host_id n, msg_Recipient := peer,
       msg_Version := MESSAGE_VERSION_E2E, msg_Type := TypeMessage, msg_MediaType := mediaType,
       msg_Duration := duration, msg_TtlPeriodSeconds := parsePeriod period, msg_TtlMode := mode,
       msg_ReadEnabled := Some (nd_myReadEnabled n), msg_Time := ev_date e, msg_IsOwn := True,
       msg_Weight := 1 / 2, msg_ExpiresAt := hard_expiry e period mode\<rparr>"

definition Node_sendMedia ::
  "env \<Rightarrow> string \<Rightarrow> string \<Rightarrow> string \<Rightarrow> int \<Rightarrow> string \<Rightarrow> string \<Rightarrow> node \<Rightarrow> string option \<times> node" where
  "Node_sendMedia e peer mediaType mediaData duration period mode n =
     (if nd_host n = None \<or> peer = [] \<or> mediaData = [] \<or> mediaType = [] then (None, n)
      else case Node_encryptForRecipient e n peer mediaData of
        None \<Rightarrow> (None, n)
      | Some encrypted \<Rightarrow>
          let m = media_message e peer mediaType encrypted mediaData duration period mode n;
              n1 = (case Memory_Add (ev_now e) m (nd_memory n) of
                  (False, mem) \<Rightarrow> n\<lparr>nd_memory := mem\<rparr>
                | (True, mem) \<Rightarrow> push_hook (MessageEvent m) (Node_replicateMessage e m
                    (Node_setMessageStatus (msg_ID m) StatusSent (n\<lparr>nd_memory := mem\<rparr>))))
          in (Some (msg_ID m), n1\<lparr>nd_started := nd_started n1 @ [SaveState]\<rparr>))"

definition Node_SendVoice :: "env \<Rightarrow> string \<Rightarrow> string \<Rightarrow> int \<Rightarrow> string \<Rightarrow> string \<Rightarrow> node \<Rightarrow> string option \<times> node" where
  "Node_SendVoice e peer mediaData duration period mode n =
     Node_sendMedia e peer ''voice'' mediaData duration period mode n"

definition Node_SendPhoto :: "env \<Rightarrow> string \<Rightarrow> string \<Rightarrow> string \<Rightarrow> string \<Rightarrow> node \<Rightarrow> string option \<times> node" where
  "Node_SendPhoto e peer photoBase64 period mode n = Node_sendMedia e peer ''photo'' photoBase64 0 period mode n"

section \<open>Files\<close>

text \<open>\<open>filepath.Ext\<close>: from the last dot of the last element.\<close>

definition path_Ext :: "string \<Rightarrow> string" where
  "path_Ext p =
     (let tail = takeWhile (\<lambda>c. c \<noteq> CHR ''/'' \<and> c \<noteq> CHR ''.'') (rev p)
      in case drop (length tail) (rev p) of
           [] \<Rightarrow> []
         | c # _ \<Rightarrow> if c = CHR ''.'' then CHR ''.'' # rev tail else [])"

text \<open>The copy for the chunks; \<open>False\<close> is an error.  Then the permanent copy, whose errors are only logged.\<close>

definition sent_copy :: "send_lib \<Rightarrow> string \<Rightarrow> string \<Rightarrow> node \<Rightarrow> bool \<times> node" where
  "sent_copy L mediaID content n =
     (let p = Node_sentPath (nd_dir n) mediaID
      in if \<not> sd_sent_dir L then (False, n)
         else case sd_copy L p of
           Copied \<Rightarrow> (True, n\<lparr>nd_disk := (nd_disk n)(p \<mapsto> content)\<rparr>)
         | CreateFails \<Rightarrow> (False, n)
         | CopyFails k \<Rightarrow> (False, n\<lparr>nd_disk := os_Remove p (nd_disk n)\<rparr>))"

definition permanent_path :: "string \<Rightarrow> string \<Rightarrow> string \<Rightarrow> node \<Rightarrow> path" where
  "permanent_path mediaID fileName dflt n =
     Join (Node_filesDirPath (nd_dir n)) (mediaID @ (if path_Ext fileName = [] then dflt else path_Ext fileName))"

definition permanent_copy :: "send_lib \<Rightarrow> path \<Rightarrow> string \<Rightarrow> node \<Rightarrow> node" where
  "permanent_copy L p content n =
     (if \<not> sd_files_dir L then n
      else case sd_copy L p of
        Copied \<Rightarrow> n\<lparr>nd_disk := (nd_disk n)(p \<mapsto> content)\<rparr>
      | CreateFails \<Rightarrow> n
      | CopyFails k \<Rightarrow> n\<lparr>nd_disk := (nd_disk n)(p \<mapsto> take k content)\<rparr>)"

definition path_meta :: "env \<Rightarrow> string \<Rightarrow> string \<Rightarrow> string \<Rightarrow> string \<Rightarrow> string \<Rightarrow> string \<Rightarrow> file_meta" where
  "path_meta e mediaID mediaType fileName content period mode =
     \<lparr>fm_MediaID = mediaID, fm_FileName = fileName, fm_FileSize = int (length content),
      fm_ChunkTotal = chunk_count (int (length content)), fm_MediaType = mediaType,
      fm_TtlSeconds = parsePeriod period, fm_TtlMode = mode, fm_ExpiresAt = hard_expiry e period mode,
      fm_CreatedAt = ev_now e\<rparr>"

text \<open>
  \<open>SendVoiceByPath\<close> and \<open>SendPhotoByPath\<close> are the same code but for the type and the default
  extension; the chunks are sent by a new goroutine.
\<close>

definition send_media_by_path ::
  "env \<Rightarrow> send_lib \<Rightarrow> string \<Rightarrow> string \<Rightarrow> string \<Rightarrow> string \<Rightarrow> string \<Rightarrow> string \<Rightarrow> string \<Rightarrow> node \<Rightarrow> string option \<times> node" where
  "send_media_by_path e L mediaType dflt peer filePath fileName period mode n =
     (if nd_host n = None \<or> peer = [] \<or> filePath = [] then (None, n)
      else case sd_open L filePath of
        None \<Rightarrow> (None, n)
      | Some content \<Rightarrow>
          if length content = 0 then (None, n)
          else let mediaID = ev_generateMsgID e (mediaType @ '':'' @ peer @ '':'' @ fileName @ '':'' @ ev_nano e)
            in case sent_copy L mediaID content n of
                 (False, n1) \<Rightarrow> (None, n1)
               | (True, n1) \<Rightarrow>
                   let n2 = permanent_copy L (permanent_path mediaID fileName dflt n1) content n1
                   in (Some mediaID, n2\<lparr>nd_started := nd_started n2 @
                        [SendFileChunks peer (path_meta e mediaID mediaType fileName content period mode)]\<rparr>))"

definition Node_SendVoiceByPath ::
  "env \<Rightarrow> send_lib \<Rightarrow> string \<Rightarrow> string \<Rightarrow> string \<Rightarrow> int \<Rightarrow> string \<Rightarrow> string \<Rightarrow> node \<Rightarrow> string option \<times> node" where
  "Node_SendVoiceByPath e L peer filePath fileName duration period mode n =
     send_media_by_path e L ''voice'' ''.opus'' peer filePath fileName period mode n"

definition Node_SendPhotoByPath ::
  "env \<Rightarrow> send_lib \<Rightarrow> string \<Rightarrow> string \<Rightarrow> string \<Rightarrow> string \<Rightarrow> string \<Rightarrow> node \<Rightarrow> string option \<times> node" where
  "Node_SendPhotoByPath e L peer filePath fileName period mode n =
     send_media_by_path e L ''photo'' ''.jpg'' peer filePath fileName period mode n"

definition offer_payload_of :: "file_meta \<Rightarrow> offer_payload" where
  "offer_payload_of fm = \<lparr>op_MediaID = fm_MediaID fm, op_FileName = fm_FileName fm, op_FileSize = fm_FileSize fm,
     op_ChunkTotal = fm_ChunkTotal fm, op_TtlSeconds = fm_TtlSeconds fm, op_TtlMode = fm_TtlMode fm\<rparr>"

definition Node_SendFileOffer :: "env \<Rightarrow> send_lib \<Rightarrow> string \<Rightarrow> file_meta \<Rightarrow> node \<Rightarrow> bool \<times> node" where
  "Node_SendFileOffer e L peer fm n =
     (if nd_host n = None \<or> peer = [] \<or> fm_MediaID fm = [] then (False, n)
      else let idText = ''offer:'' @ fm_MediaID fm @ '':'' @ ev_nano e
           in Node_sendServiceViaBootstrap e
                (service_message e n TypeFileOffer idText (sd_offer_json L (offer_payload_of fm)) peer
                   (ev_generateMsgID e idText)) n)"

text \<open>The media ID, whether an offer was sent, the size and the number of chunks; and whether it returned nil.\<close>

definition Node_SendFileByPath ::
  "env \<Rightarrow> send_lib \<Rightarrow> string \<Rightarrow> string \<Rightarrow> string \<Rightarrow> string \<Rightarrow> string \<Rightarrow> node \<Rightarrow>
     (string \<times> bool \<times> int \<times> int \<times> bool) \<times> node" where
  "Node_SendFileByPath e L peer filePath fileName period mode n =
     (if nd_host n = None \<or> peer = [] \<or> filePath = [] then (([], False, 0, 0, False), n)
      else case sd_open L filePath of
        None \<Rightarrow> (([], False, 0, 0, False), n)
      | Some content \<Rightarrow>
          if length content = 0 then (([], False, 0, 0, False), n)
          else let mediaID = ev_generateMsgID e (''file:'' @ peer @ '':'' @ fileName @ '':'' @ ev_nano e)
            in case sent_copy L mediaID content n of
                 (False, n1) \<Rightarrow> (([], False, 0, 0, False), n1)
               | (True, n1) \<Rightarrow>
                   let perm = permanent_path mediaID fileName ''.bin'' n1;
                       n2 = permanent_copy L perm content n1;
                       fm = path_meta e mediaID ''file'' fileName content period mode
                   in if \<not> sd_write_meta L
                      then (([], False, 0, 0, False),
                            n2\<lparr>nd_disk := os_Remove perm (os_Remove (Node_sentPath (nd_dir n2) mediaID) (nd_disk n2))\<rparr>)
                      else let n3 = n2\<lparr>nd_disk := (nd_disk n2)(Node_metaPath (nd_dir n2) mediaID \<mapsto> sd_meta_json L fm)\<rparr>
                        in case Node_SendFileOffer e L peer fm n3 of
                             (sent, n4) \<Rightarrow> ((mediaID, sent, fm_FileSize fm, fm_ChunkTotal fm, sent), n4))"

section \<open>Contacts\<close>

definition own_payload :: "env \<Rightarrow> string \<Rightarrow> node \<Rightarrow> contact_payload" where
  "own_payload e name n =
     \<lparr>cp_Name = name, cp_Ed25519Pub = ev_base64 e (nd_ed25519Pub n), cp_X25519Pub = ev_base64 e (nd_x25519Pub n),
      cp_Signature = Node_signMyX25519 e n, cp_ReadEnabled = nd_myReadEnabled n\<rparr>"

definition own_hello :: "env \<Rightarrow> node \<Rightarrow> hello_payload" where
  "own_hello e n =
     \<lparr>hp_PeerID = host_id n, hp_Ed25519Pub = ev_base64 e (nd_ed25519Pub n), hp_X25519Pub = ev_base64 e (nd_x25519Pub n),
      hp_Signature = Node_signMyX25519 e n\<rparr>"

text \<open>What the requests and their answers share: an encrypted service message, through the bootstrap servers.\<close>

definition control_args :: "string \<Rightarrow> string \<Rightarrow> message_type \<Rightarrow> process_args" where
  "control_args i recipient typ =
     \<lparr>pa_expiresAt = 0, pa_providedID = i, pa_recipient = recipient, pa_version = MESSAGE_VERSION_E2E,
      pa_plainText = [], pa_type = typ, pa_viaBootstrap = True, pa_ttlPeriodSeconds = 0, pa_ttlMode = []\<rparr>"

definition Node_SendContactRequest ::
  "env \<Rightarrow> send_lib \<Rightarrow> string \<Rightarrow> string \<Rightarrow> node \<Rightarrow> (string option \<times> node) option" where
  "Node_SendContactRequest e L recipient displayName n =
     (case nd_host n of
        None \<Rightarrow> Some (None, n)
      | Some me \<Rightarrow>
          if recipient = [] then Some (None, n)
          else let name = (if displayName = [] then Node_GetMyDisplayName n else displayName)
            in case Node_encryptForRecipient e n recipient (sd_contact_json L (own_payload e name n)) of
                 None \<Rightarrow> Some (None, n)
               | Some encrypted \<Rightarrow>
                   let i = ev_generateMsgID e (''req:'' @ recipient @ '':'' @ ev_nano e)
                   in map_option (Pair (Some i))
                        (Node_processMessageInternal e encrypted me True (control_args i recipient TypeContactRequest) n))"

definition send_hello :: "env \<Rightarrow> send_lib \<Rightarrow> message_type \<Rightarrow> string \<Rightarrow> string \<Rightarrow> node \<Rightarrow> bool \<times> node" where
  "send_hello e L typ kind recipient n =
     (if nd_host n = None \<or> recipient = [] then (False, n)
      else Node_sendServiceViaBootstrap e
        (service_message e n typ (kind @ '':'' @ recipient @ '':'' @ ev_nano e) (sd_hello_json L (own_hello e n)) recipient []) n)"

definition Node_SendContactHello :: "env \<Rightarrow> send_lib \<Rightarrow> string \<Rightarrow> node \<Rightarrow> bool \<times> node" where
  "Node_SendContactHello e L recipient n = send_hello e L TypeContactHello ''hello'' recipient n"

definition Node_SendContactHelloAck :: "env \<Rightarrow> send_lib \<Rightarrow> string \<Rightarrow> node \<Rightarrow> bool \<times> node" where
  "Node_SendContactHelloAck e L recipient n = send_hello e L TypeContactHelloAck ''hello_ack'' recipient n"

definition Node_sendContactControl ::
  "env \<Rightarrow> send_lib \<Rightarrow> message_type \<Rightarrow> string \<Rightarrow> string \<Rightarrow> node \<Rightarrow> (bool \<times> node) option" where
  "Node_sendContactControl e L typ requestID recipient n =
     (case nd_host n of
        None \<Rightarrow> Some (False, n)
      | Some me \<Rightarrow>
          if requestID = [] \<or> recipient = [] then Some (False, n)
          else case Node_encryptForRecipient e n recipient
                 (sd_control_json L requestID (own_payload e (Node_GetMyDisplayName n) n)) of
                 None \<Rightarrow> Some (False, n)
               | Some encrypted \<Rightarrow>
                   let i = ev_generateMsgID e (msgTypeString typ @ '':'' @ requestID @ '':'' @ ev_nano e)
                   in map_option (Pair True)
                        (Node_processMessageInternal e encrypted me True (control_args i recipient typ) n))"

definition Node_SendContactAccept :: "env \<Rightarrow> send_lib \<Rightarrow> string \<Rightarrow> string \<Rightarrow> node \<Rightarrow> (bool \<times> node) option" where
  "Node_SendContactAccept e L = Node_sendContactControl e L TypeContactAccept"

definition Node_SendContactReject :: "env \<Rightarrow> send_lib \<Rightarrow> string \<Rightarrow> string \<Rightarrow> node \<Rightarrow> (bool \<times> node) option" where
  "Node_SendContactReject e L = Node_sendContactControl e L TypeContactReject"

definition drop_request :: "env \<Rightarrow> string \<Rightarrow> node \<Rightarrow> node" where
  "drop_request e i n =
     (case nd_requests n of None \<Rightarrow> n
      | Some rs \<Rightarrow> (case RequestsStore_Remove i (ev_w_requests e 0) rs (nd_requests_file n) of
          (err, rs', f') \<Rightarrow> n\<lparr>nd_requests := Some rs', nd_requests_file := f'\<rparr>))"

definition Node_AcceptRequestByID :: "env \<Rightarrow> send_lib \<Rightarrow> string \<Rightarrow> node \<Rightarrow> (bool \<times> node) option" where
  "Node_AcceptRequestByID e L i n =
     (case nd_requests n of None \<Rightarrow> Some (False, n)
      | Some rs \<Rightarrow> (case RequestsStore_Get rs i of None \<Rightarrow> Some (False, n)
          | Some req \<Rightarrow>
              (case Node_AddContact e (req_PeerID req) (req_Ed25519Pub req) (req_X25519Pub req) (req_Signature req) []
                      (req_Name req) (req_ReadEnabled req) n of
                 (False, n1) \<Rightarrow> Some (False, n1)
               | (True, n1) \<Rightarrow>
                   map_option (\<lambda>(sent, n2). (True, drop_request e i n2))
                     (Node_SendContactAccept e L i (req_PeerID req) (set_confirmed e (req_PeerID req) n1)))))"

definition Node_RejectRequestByID :: "env \<Rightarrow> send_lib \<Rightarrow> string \<Rightarrow> node \<Rightarrow> (bool \<times> node) option" where
  "Node_RejectRequestByID e L i n =
     (case nd_requests n of None \<Rightarrow> Some (False, n)
      | Some rs \<Rightarrow> (case RequestsStore_Get rs i of None \<Rightarrow> Some (False, n)
          | Some req \<Rightarrow>
              map_option (\<lambda>(sent, n1). (True, drop_request e i n1)) (Node_SendContactReject e L i (req_PeerID req) n)))"

section \<open>Dummy packets\<close>

definition Node_sendSphinxPacketToRelay1 :: "env \<Rightarrow> string \<Rightarrow> string \<Rightarrow> node \<Rightarrow> node" where
  "Node_sendSphinxPacketToRelay1 e relay1 packet n =
     (if nd_host n = None then n
      else case direct_reachable e relay1 n of
        (False, n1) \<Rightarrow> n1
      | (True, n1) \<Rightarrow>
          let line = SPHINX_PREFIX @ ev_base64 e packet
          in if ev_line e relay1 line then n1\<lparr>nd_lines := nd_lines n1 @ [(relay1, line)]\<rparr> else n1)"

text \<open>\<open>pick\<close> is the random index, \<open>sd_dummy\<close> the first relay and the packet of a route to the contact.\<close>

definition Node_sendDummy :: "env \<Rightarrow> send_lib \<Rightarrow> nat \<Rightarrow> node \<Rightarrow> node" where
  "Node_sendDummy e L pick n =
     (case nd_settings n of None \<Rightarrow> n
      | Some s \<Rightarrow>
          if \<not> SettingsStore_GetMaskingEnabled s then n
          else if \<not> nd_useOnion n \<or> nd_isRelay n \<or> nd_host n = None then n
          else case nd_contacts n of None \<Rightarrow> n
          | Some cs \<Rightarrow>
              let all = ContactsStore_GetAll cs
              in if length all = 0 then n
                 else let c = all ! (pick mod length all)
                   in if con_X25519Pub c = [] \<or> con_PeerID c = [] then n
                      else if \<not> ev_Decode e (con_PeerID c) then n
                      else case sd_dummy L (con_PeerID c) of None \<Rightarrow> n
                      | Some (relay1, packet) \<Rightarrow> Node_sendSphinxPacketToRelay1 e relay1 packet n)"

text \<open>\<open>r\<close> is \<open>rand.Intn(111)\<close>.\<close>

definition dummyInterval :: "nat \<Rightarrow> bool \<Rightarrow> duration" where
  "dummyInterval r screenOn =
     (let base = 10 + int r in (if screenOn then base else base * 5) * Second)"

lemma dummyInterval_bounds:
  "r < 111 \<Longrightarrow> 10 * Second \<le> dummyInterval r on \<and> dummyInterval r on \<le> 600 * Second"
  by (auto simp: dummyInterval_def Let_def Second_def)


section \<open>The invariant\<close>

text \<open>The operation does not panic and keeps the invariant.\<close>

definition returns_inv :: "('a \<times> node) option \<Rightarrow> bool" where
  "returns_inv x \<longleftrightarrow> (\<exists>r n'. x = Some (r, n') \<and> node_inv n')"

lemma returns_inv_simps [simp]:
  "returns_inv (Some (r, n)) \<longleftrightarrow> node_inv n" "\<not> returns_inv None"
  by (simp_all add: returns_inv_def)

lemma returns_processed [simp]:
  "node_inv n \<Longrightarrow> returns_inv (map_option (Pair r) (Node_processMessageInternal e msg s own a n))"
  using processMessageInternal_inv[of n e msg s own a] by (auto simp: returns_inv_def)

lemma returns_map: "returns_inv x \<Longrightarrow> (\<And>n. node_inv n \<Longrightarrow> node_inv (g n)) \<Longrightarrow> returns_inv (map_option (\<lambda>(r, n). (f r, g n)) x)"
  by (auto simp: returns_inv_def)

lemma SendMessage_inv: "node_inv n \<Longrightarrow> returns_inv (Node_SendMessage e txt period mode n)"
  by (simp add: Node_SendMessage_def Let_def split: option.split)

lemma SendToPeer_inv: "node_inv n \<Longrightarrow> returns_inv (Node_SendToPeer e peer txt period mode n)"
  by (simp add: Node_SendToPeer_def Let_def split: option.split)

lemma SendContactRequest_inv: "node_inv n \<Longrightarrow> returns_inv (Node_SendContactRequest e L p name n)"
  by (simp add: Node_SendContactRequest_def Let_def split: option.split)

lemma sendContactControl_inv: "node_inv n \<Longrightarrow> returns_inv (Node_sendContactControl e L typ i p n)"
  by (simp add: Node_sendContactControl_def Let_def split: option.split)

lemma drop_request_inv: "node_inv n \<Longrightarrow> node_inv (drop_request e i n)"
  using requests_inv_del[of _ i]
  by (auto simp: drop_request_def node_inv_updates(1) node_invD(3) store_simps dest: store_resultD
      split: option.split prod.split)

lemma AcceptRequestByID_inv:
  assumes "node_inv n"
  shows "returns_inv (Node_AcceptRequestByID e L i n)"
proof -
  have answer: "returns_inv (map_option (\<lambda>(sent, n2). (True, drop_request e i n2)) (Node_SendContactAccept e L i p (set_confirmed e p n1)))"
    if "node_inv n1" for n1 p
    unfolding Node_SendContactAccept_def
    by (intro returns_map sendContactControl_inv set_confirmed_inv that drop_request_inv)
  have "node_inv n1" if "Node_AddContact e p ed x sg nm rn re n = (b, n1)" for p ed x sg nm rn re b n1
    using AddContact_inv[OF assms, of e p ed x sg nm rn re] that by simp
  then show ?thesis
    by (simp add: Node_AcceptRequestByID_def assms answer split: option.split prod.split bool.split)
qed

lemma RejectRequestByID_inv: "node_inv n \<Longrightarrow> returns_inv (Node_RejectRequestByID e L i n)"
  by (auto simp: Node_RejectRequestByID_def Node_SendContactReject_def returns_map sendContactControl_inv drop_request_inv
      split: option.split)

lemma send_hello_inv [node_inv_intros]: "node_inv n \<Longrightarrow> node_inv (snd (send_hello e L typ k p n))"
  by (simp add: send_hello_def sendService_inv)

lemma sendMedia_inv [node_inv_intros]: "node_inv n \<Longrightarrow> node_inv (snd (Node_sendMedia e p t d k period mode n))"
  by (auto simp: Node_sendMedia_def Let_def Add_node_inv push_hook_inv replicateMessage_inv setMessageStatus_inv
      split: option.split prod.split bool.split)

lemma copies_inv:
  "node_inv n \<Longrightarrow> node_inv (snd (sent_copy L i c n))" "node_inv n \<Longrightarrow> node_inv (permanent_copy L p c n)"
  by (simp_all add: sent_copy_def permanent_copy_def Let_def split: copy_outcome.split)

lemma send_media_by_path_inv [node_inv_intros]:
  "node_inv n \<Longrightarrow> node_inv (snd (send_media_by_path e L t x p f name period mode n))"
  using copies_inv(1)[of n L]
  by (auto simp: send_media_by_path_def Let_def copies_inv(2) split: option.split prod.split bool.split dest!: arg_cong[where f = snd])

lemma SendFileOffer_inv: "node_inv n \<Longrightarrow> node_inv (snd (Node_SendFileOffer e L p fm n))"
  by (simp add: Node_SendFileOffer_def Let_def sendService_inv)

lemma SendFileByPath_inv [node_inv_intros]:
  assumes "node_inv n"
  shows "node_inv (snd (Node_SendFileByPath e L p f name period mode n))"
proof -
  show ?thesis
    using copies_inv(1)[OF assms, of L] assms
    by (auto simp: Node_SendFileByPath_def Let_def copies_inv(2) SendFileOffer_inv split: option.split prod.split bool.split dest!: arg_cong[where f = snd])
qed

lemma sendDummy_inv [node_inv_intros]: "node_inv n \<Longrightarrow> node_inv (Node_sendDummy e L k n)"
  by (auto simp: Node_sendDummy_def Node_sendSphinxPacketToRelay1_def Let_def direct_reachable_inv
      split: option.split prod.split bool.split)

end
