(* ===== verification/NodeRun.thy ===== *)
theory NodeRun
  imports Senders
begin

text \<open>
  Runs of the node: every stream a peer opens, every call of the user interface, every round of
  the background loops and goroutines is an event, each with its own environment.  The
  operations are atomic here; the interleavings of the batched receipts and of the text
  batches are in their own theories.
\<close>

section \<open>Gossip of the layers\<close>

text \<open>
  The handler of a sync stream and the broadcast (theory Layers) on the fields of the node.  The
  payload goes to the peers in goroutines that only write to the network.
\<close>

definition sync_part :: "node \<Rightarrow> sync_state" where
  "sync_part n = \<lparr>sy_layers = nd_layers n, sy_lastSynced = nd_lastSyncedLayers n, sy_dirty = nd_layersDirty n,
     sy_lastSent = nd_lastSyncSent n\<rparr>"

definition with_sync :: "(string list \<times> sync_payload) option \<times> sync_state \<Rightarrow> node \<Rightarrow> node" where
  "with_sync r n = n\<lparr>nd_layers := sy_layers (snd r), nd_lastSyncedLayers := sy_lastSynced (snd r),
     nd_layersDirty := sy_dirty (snd r), nd_lastSyncSent := sy_lastSent (snd r),
     nd_started := nd_started n @ (case fst r of None \<Rightarrow> [] | Some (to, payload) \<Rightarrow> [GossipLayers to payload])\<rparr>"

definition sync_stream :: "env \<Rightarrow> (nat \<Rightarrow> nat list) \<Rightarrow> string \<Rightarrow> sync_input \<Rightarrow> node \<Rightarrow> node option" where
  "sync_stream e perm sender d n =
     map_option (\<lambda>r. with_sync r n) (Node_handleSyncStream perm (ev_peers e) sender d (sync_part n))"

definition connected :: "env \<Rightarrow> node \<Rightarrow> string list option" where
  "connected e n = map_option (\<lambda>_. ev_peers e) (nd_host n)"

lemma with_sync_inv: "node_inv (with_sync r n) \<longleftrightarrow> node_inv n"
  by (simp add: with_sync_def)

lemma sync_stream_panics: "sync_stream e perm sender d n = None \<longleftrightarrow> bad_sync d"
  by (simp add: sync_stream_def handleSyncStream_panics)

lemma sync_stream_inv: "node_inv n \<Longrightarrow> \<not> bad_sync d \<Longrightarrow> \<exists>n'. sync_stream e perm sender d n = Some n' \<and> node_inv n'"
  using handleSyncStream_panics[of perm "ev_peers e" sender d "sync_part n"]
  by (auto simp: sync_stream_def with_sync_inv)

section \<open>Events\<close>

datatype node_event =
    Stream "string list" string
  | Restored string
  | OwnText string process_args
  | DeleteFileCall string
  | RemoveContactCall string
  | AddContactCall string string string string string string bool
  | RenameCall string string
  | ReadEnabledCall string bool
  | ReadCall string string
  | ReadBatchCall "string list" string
  | MarkReadCall "string list"
  | FileAckCall string "int list"
  | AcceptCall string string string
  | DeclineCall string string string
  | CancelCall string string string
  | AbortCall string string
  | CompleteCall string string
  | ChunksRound string string file_meta
  | WorkerRound message
  | RetryRound
  | PendingRound
  | BatchRound string "batch_text list"
  | ResumeRound "string list"
  | CleanupRound
  | SentRound "(string \<times> time) list"
  | PingRound string "string option"
  | PingsRound "string \<Rightarrow> string option"
  | ReplicateRound message
  | SendMessageCall string string string
  | SendToPeerCall string string string string
  | MediaCall string string string int string string
  | MediaPathCall send_lib string string string string string string string
  | SendFileCall send_lib string string string string string
  | RequestCall send_lib string string
  | HelloCall send_lib string
  | HelloAckCall send_lib string
  | AcceptRequestCall send_lib string
  | RejectRequestCall send_lib string
  | DummyRound send_lib nat
  | SyncStream "nat \<Rightarrow> nat list" string sync_input
  | BroadcastRound "nat \<Rightarrow> nat list"
  | SyncRound "nat \<Rightarrow> nat list"

fun node_step :: "env \<Rightarrow> node_event \<Rightarrow> node \<Rightarrow> node option" where
  "node_step e (Stream reads remote) n = map_option snd (Node_handleStream e reads remote n)"
| "node_step e (Restored d) n = Some (Node_handleReplicaData e d n)"
| "node_step e (OwnText msg a) n = Node_processMessageInternal e msg (host_id n) True a n"
| "node_step e (DeleteFileCall i) n = map_option snd (Node_DeleteFile i n)"
| "node_step e (RemoveContactCall p) n = map_option snd (Node_RemoveContact e p n)"
| "node_step e (AddContactCall p ed x sg nm rn re) n = Some (snd (Node_AddContact e p ed x sg nm rn re n))"
| "node_step e (RenameCall p nm) n = Some (snd (Node_RenameContact e p nm n))"
| "node_step e (ReadEnabledCall p b) n = Some (snd (Node_SetContactReadEnabled e p b n))"
| "node_step e (ReadCall r p) n = Some (snd (Node_SendRead e r p n))"
| "node_step e (ReadBatchCall rs p) n = Some (snd (Node_SendReadBatch e rs p n))"
| "node_step e (MarkReadCall rs) n = Some (snd (Node_MarkReadLocally rs n))"
| "node_step e (FileAckCall i is) n = Some (Node_FileAck i is n)"
| "node_step e (AcceptCall a b c) n = Some (snd (Node_SendFileAccept e a b c n))"
| "node_step e (DeclineCall a b c) n = Some (snd (Node_SendFileDecline e a b c n))"
| "node_step e (CancelCall a b c) n = Some (snd (Node_SendFileCancel e a b c n))"
| "node_step e (AbortCall p i) n = Some (snd (Node_SendFileAbort e p i n))"
| "node_step e (CompleteCall i p) n = Some (snd (Node_SendFileComplete e i p n))"
| "node_step e (ChunksRound p i fm) n = Some (Node_sendFileChunksAsync e p i fm n)"
| "node_step e (WorkerRound m) n = Some (Node_chunkWorker e m n)"
| "node_step e RetryRound n = Some (Node_retryUnacked e n)"
| "node_step e PendingRound n = Some (Node_flushPending e n)"
| "node_step e (BatchRound p ts) n = Some (Node_flushBatch e p ts n)"
| "node_step e (ResumeRound es) n = Some (Node_resumeIncompleteFiles e es n)"
| "node_step e CleanupRound n = Some (cleanup_tick e n)"
| "node_step e (SentRound es) n = Some (Node_cleanupSentOnce (ev_now e) es n)"
| "node_step e (PingRound p a) n = Some (ping_peer e p a n)"
| "node_step e (PingsRound answers) n = Some (ping_round e answers n)"
| "node_step e (ReplicateRound m) n = Some (Node_replicateMessage e m n)"
| "node_step e (SendMessageCall txt period mode) n = map_option snd (Node_SendMessage e txt period mode n)"
| "node_step e (SendToPeerCall p txt period mode) n = map_option snd (Node_SendToPeer e p txt period mode n)"
| "node_step e (MediaCall p t d k period mode) n = Some (snd (Node_sendMedia e p t d k period mode n))"
| "node_step e (MediaPathCall L t ext p f name period mode) n = Some (snd (send_media_by_path e L t ext p f name period mode n))"
| "node_step e (SendFileCall L p f name period mode) n = Some (snd (Node_SendFileByPath e L p f name period mode n))"
| "node_step e (RequestCall L p name) n = map_option snd (Node_SendContactRequest e L p name n)"
| "node_step e (HelloCall L p) n = Some (snd (Node_SendContactHello e L p n))"
| "node_step e (HelloAckCall L p) n = Some (snd (Node_SendContactHelloAck e L p n))"
| "node_step e (AcceptRequestCall L i) n = map_option snd (Node_AcceptRequestByID e L i n)"
| "node_step e (RejectRequestCall L i) n = map_option snd (Node_RejectRequestByID e L i n)"
| "node_step e (DummyRound L k) n = Some (Node_sendDummy e L k n)"
| "node_step e (SyncStream perm sender d) n = sync_stream e perm sender d n"
| "node_step e (BroadcastRound perm) n = Some (with_sync (Node_broadcastLayers (ev_now e) perm (connected e n) (sync_part n)) n)"
| "node_step e (SyncRound perm) n = Some (with_sync (sync_round (ev_now e) perm (connected e n) (sync_part n)) n)"

fun node_run :: "(env \<times> node_event) list \<Rightarrow> node \<Rightarrow> node option" where
  "node_run [] n = Some n"
| "node_run ((e, x) # xs) n = Option.bind (node_step e x n) (node_run xs)"

lemma returns_step: "returns_inv x \<Longrightarrow> \<exists>n'. (\<exists>r. x = Some (r, n')) \<and> node_inv n'"
  by (auto simp: returns_inv_def)

text \<open>The one event that makes the node panic.\<close>

fun panics :: "node_event \<Rightarrow> bool" where
  "panics (SyncStream perm sender d) \<longleftrightarrow> bad_sync d"
| "panics x \<longleftrightarrow> False"

lemma panics_iff: "panics x \<longleftrightarrow> (\<exists>perm sender d. x = SyncStream perm sender d \<and> bad_sync d)"
  by (cases x) simp_all

lemma node_step_panics: "panics x \<Longrightarrow> node_step e x n = None"
  by (auto simp: panics_iff sync_stream_panics)

lemma node_step_inv:
  assumes "node_inv n" and calm: "\<not> panics x"
  shows "\<exists>n'. node_step e x n = Some n' \<and> node_inv n'"
proof (cases x)
  case (Stream reads remote)
  with handleStream_inv[OF assms(1), of e reads remote] show ?thesis by auto
next
  case (OwnText msg a)
  with processMessageInternal_inv[OF assms(1), of e msg "host_id n" True a] show ?thesis by simp
next
  case (DeleteFileCall i)
  with DeleteFile_inv[OF assms(1), of i] show ?thesis by auto
next
  case (RemoveContactCall p)
  with RemoveContact_inv[OF assms(1), of e p] show ?thesis by auto
next
  case (SyncStream perm sender d)
  then show ?thesis using sync_stream_inv[OF assms(1), of d] calm by simp
qed (use assms(1) in \<open>simp_all add: with_sync_inv node_inv_intros returns_step SendMessage_inv SendToPeer_inv SendContactRequest_inv
    AcceptRequestByID_inv RejectRequestByID_inv Node_SendContactHello_def Node_SendContactHelloAck_def\<close>)

lemma node_run_inv:
  "node_inv n \<Longrightarrow> (node_run xs n = None \<longleftrightarrow> list_ex (\<lambda>(e, x). panics x) xs) \<and> (\<forall>n'. node_run xs n = Some n' \<longrightarrow> node_inv n')"
proof (induction xs arbitrary: n)
  case (Cons a xs)
  obtain e x where a: "a = (e, x)" by (cases a)
  show ?case
  proof (cases "panics x")
    case True
    then show ?thesis by (simp add: a node_step_panics)
  next
    case False
    from node_step_inv[OF Cons.prems this, of e] Cons.IH False show ?thesis by (auto simp: a)
  qed
qed simp

lemma node_run_returns:
  "node_inv n \<Longrightarrow> \<not> list_ex (\<lambda>(e, x). panics x) xs \<Longrightarrow> \<exists>n'. node_run xs n = Some n' \<and> node_inv n'"
  using node_run_inv by (metis not_None_eq)

section \<open>A node for the examples\<close>

definition demo_node :: node where
  "demo_node = (NewNode \<lparr>cf_EthHash = ''eth'', cf_Bootstrap = [''/ip4/10.0.0.9''], cf_EnableRelayServer = False,
       cf_IsRelay = False, cf_UseOnion = False\<rparr> Map.empty)
     \<lparr>nd_host := Some ''me'', nd_hook := True,
      nd_contacts := Some \<lparr>cs_path = ''c'', cs_contacts = [sample_contact ''ali'' True, sample_contact ''bob'' True]\<rparr>,
      nd_deleted := Some \<lparr>ds_path = ''d'', ds_deleted = []\<rparr>\<rparr>"

lemma demo_node_inv: "node_inv demo_node"
  by (simp add: demo_node_def node_inv_def Node_GetContact_def ContactsStore_Get_def contacts_inv_def
      sample_contact_def deleted_inv_def)

section \<open>When the node panics\<close>

text \<open>C1.  A run of the node over the events above (streams of both protocols, calls of the user
interface, rounds of the loops, in any order) panics exactly when one of them is a sync stream with a
negative layer index.  Every other run keeps the indexes of the memory, the keys of the stores and the
map of unacknowledged chunks sound, and the node never becomes its own contact.\<close>

theorem node_run_safe:
  assumes "node_inv n"
  shows "(node_run xs n = None \<longleftrightarrow> list_ex (\<lambda>(e, x). panics x) xs) \<and> (\<forall>n'. node_run xs n = Some n' \<longrightarrow> node_inv n')"
  by (rule node_run_inv[OF assms])

theorem node_run_safe_witness:
  "(\<exists>n'. node_run [(quiet_env 10, Stream [''[FILE_ABORT]'', [newline]] ''ali''), (quiet_env 11, DeleteFileCall ''0a''),
       (quiet_env 12, SyncStream (\<lambda>n. [0..<n]) ''ali'' (sample_sync 3 0))] demo_node = Some n' \<and> node_inv n') \<and>
   node_run [(quiet_env 10, DeleteFileCall ''0a''), (quiet_env 12, SyncStream (\<lambda>n. [0..<n]) ''ali'' (sample_sync 3 (- 1)))]
     demo_node = None"
proof
  let ?xs = "[(quiet_env 10, Stream [''[FILE_ABORT]'', [newline]] ''ali''), (quiet_env 11, DeleteFileCall ''0a''),
       (quiet_env 12, SyncStream (\<lambda>n. [0..<n]) ''ali'' (sample_sync 3 0))]"
  have "\<not> list_ex (\<lambda>(e, x). panics x) ?xs" by (simp add: bad_sync_def sample_sync_def)
  then show "\<exists>n'. node_run ?xs demo_node = Some n' \<and> node_inv n'"
    using node_run_safe[OF demo_node_inv, of ?xs] by (metis not_None_eq)
  show "node_run [(quiet_env 10, DeleteFileCall ''0a''), (quiet_env 12, SyncStream (\<lambda>n. [0..<n]) ''ali'' (sample_sync 3 (- 1)))]
     demo_node = None"
    by (rule iffD2[OF node_run_safe[OF demo_node_inv, THEN conjunct1]]) (simp add: bad_sync_def sample_sync_def)
qed

end
