(* ===== verification/NodeSpec.thy ===== *)
theory NodeSpec
  imports NodeRun
begin

text \<open>
  What the node promises, and where it does not keep it: receiving, receipts, contacts, files.
\<close>

section \<open>Receiving\<close>

lemma queueDelivered_frame [simp]:
  "nd_memory (Node_queueDelivered s r n) = nd_memory n" "nd_events (Node_queueDelivered s r n) = nd_events n"
  "nd_acceptedCount (Node_queueDelivered s r n) = nd_acceptedCount n"
  "nd_abortedStore (Node_queueDelivered s r n) = nd_abortedStore n"
  by (simp_all add: Node_queueDelivered_def split: prod.split)

lemma queueDelivered_waits:
  "s \<noteq> [] \<Longrightarrow> r \<noteq> [] \<Longrightarrow> r \<in> set (dv_pending (nd_delivery (Node_queueDelivered s r n)) s)"
  by (auto simp: Node_queueDelivered_def queueDelivered_def Let_def split: prod.split)

lemma pushFileStatus_frame [simp]:
  "nd_memory (Node_pushFileStatus e i a b n) = nd_memory n"
  by (simp add: Node_pushFileStatus_def push_hook_def Let_def)

lemma shown_frame [simp]:
  "nd_memory (show_message t e m n) = nd_memory n" "nd_memory (count_accepted e m n) = nd_memory n"
  by (simp_all add: show_message_def push_hook_def count_accepted_def Let_def)

lemma Add_again:
  assumes "Memory_Add t m mem = (b, mem1)" "msg_ID m' = msg_ID m" "msg_ExpiresAt m' = msg_ExpiresAt m" "t \<le> t'"
  shows "Memory_Add t' m' mem1 = (False, mem1)"
proof (cases "is_expired t m")
  case True
  then have "is_expired t' m'" using assms(3,4) by (auto simp: is_expired_def After_def)
  then show ?thesis by (simp add: Memory_Add_def)
next
  case False
  then have "mem_seen mem1 (msg_ID m) = Some True" using assms(1) by (auto simp: Memory_Add_def Let_def split: if_splits)
  then show ?thesis using assms(2) by (simp add: Memory_Add_def)
qed

lemma accept_memory: "nd_memory (accept_message t e m n) = snd (Memory_Add (ev_now e) m (nd_memory n))"
  by (simp add: accept_message_def Let_def split: prod.split)

lemma accept_not_added:
  assumes "fst (Memory_Add (ev_now e) m (nd_memory n)) = False"
  shows "nd_events (accept_message t e m n) = nd_events n" "nd_acceptedCount (accept_message t e m n) = nd_acceptedCount n"
  using assms by (auto simp: accept_message_def Let_def split: prod.split)

lemma decrypt_message_keeps:
  "decrypt_message e n m = Some m1 \<Longrightarrow> msg_ID m1 = msg_ID m \<and> msg_ExpiresAt m1 = msg_ExpiresAt m \<and> msg_Sender m1 = msg_Sender m"
  by (auto simp: decrypt_message_def split: if_splits)

text \<open>The messages handed to the hook, and the form in which one is handed over.\<close>

definition shown_messages :: "node \<Rightarrow> message list" where
  "shown_messages n = concat (map (\<lambda>x. case x of MessageEvent m \<Rightarrow> [m] | _ \<Rightarrow> []) (nd_events n))"

definition shown_form :: "message \<Rightarrow> message" where
  "shown_form m = (if is_chunk m then clear_text m else m)"

lemma count_accepted_shown:
  "shown_messages (count_accepted e m n) = shown_messages n" "nd_hook (count_accepted e m n) = nd_hook n"
  by (simp_all add: count_accepted_def Node_pushFileStatus_def push_hook_def shown_messages_def Let_def)

lemma show_message_shown:
  "shown_messages (show_message t e m n) = shown_messages n @ (if nd_hook n then [shown_form m] else [])"
  "nd_acceptedCount (show_message t e m n) = nd_acceptedCount n"
  by (simp_all add: show_message_def push_hook_def shown_messages_def shown_form_def Let_def)

lemma count_accepted_counts:
  "is_chunk m \<Longrightarrow> msg_MediaID m \<noteq> [] \<Longrightarrow> nd_acceptedCount (count_accepted e m n) =
     (nd_acceptedCount n)(msg_MediaID m \<mapsto> (case nd_acceptedCount n (msg_MediaID m) of None \<Rightarrow> 0 | Some k \<Rightarrow> k) + 1)"
  by (simp add: count_accepted_def Node_pushFileStatus_def push_hook_def Let_def)

lemma accept_added:
  assumes "mem_seen (nd_memory n) (msg_ID x) \<noteq> Some True" "\<not> is_expired (ev_now e) x" and n1: "n1 = accept_message t e x n"
  shows "mem_messages (nd_memory n1) = mem_messages (nd_memory n) @ [with_defaults (ev_now e) x]"
    "shown_messages n1 = shown_messages n @ (if nd_hook n then [shown_form x] else [])"
    "is_chunk x \<Longrightarrow> msg_MediaID x \<noteq> [] \<Longrightarrow> nd_acceptedCount n1 =
       (nd_acceptedCount n)(msg_MediaID x \<mapsto> (case nd_acceptedCount n (msg_MediaID x) of None \<Rightarrow> 0 | Some k \<Rightarrow> k) + 1)"
proof -
  obtain mem where add: "Memory_Add (ev_now e) x (nd_memory n) = (True, mem)"
      "mem_messages mem = mem_messages (nd_memory n) @ [with_defaults (ev_now e) x]"
    using assms(1,2) by (auto simp: Memory_Add_def Let_def)
  then have n1_eq: "n1 = Node_queueDelivered (msg_Sender x) (msg_ID x) (show_message t e x (count_accepted e x (n\<lparr>nd_memory := mem\<rparr>)))"
    by (simp add: n1 accept_message_def)
  have frame: "shown_messages (n\<lparr>nd_memory := mem\<rparr>) = shown_messages n" "shown_messages (Node_queueDelivered s r k) = shown_messages k" for s r k
    by (simp_all add: shown_messages_def)
  show "mem_messages (nd_memory n1) = mem_messages (nd_memory n) @ [with_defaults (ev_now e) x]" by (simp add: n1_eq add(2))
  show "shown_messages n1 = shown_messages n @ (if nd_hook n then [shown_form x] else [])"
    by (simp add: n1_eq frame show_message_shown count_accepted_shown)
  show "nd_acceptedCount n1 =
      (nd_acceptedCount n)(msg_MediaID x \<mapsto> (case nd_acceptedCount n (msg_MediaID x) of None \<Rightarrow> 0 | Some k \<Rightarrow> k) + 1)"
    if "is_chunk x" "msg_MediaID x \<noteq> []"
    using that by (simp add: n1_eq show_message_shown count_accepted_counts)
qed

text \<open>C8.  A message that the network delivers twice is stored, shown and counted once.  The first delivery, when
the ID is new and the message has not expired, stores the opened message, hands it to the hook once, and
counts it if it is a chunk of a file; the second changes nothing of this.  The receipt waits to be sent
after the first delivery, new or not.  (\<open>m\<close> opens, and is neither a batch nor a chunk of an aborted file.)\<close>

theorem received_once:
  assumes first: "decrypt_message e n m = Some m1" "\<not> aborted_chunk m1 n" "msg_MediaType m \<noteq> ''batch''"
    and n1: "n1 = receive_e2e e m n" and n2: "n2 = receive_e2e e' m n1" and later: "ev_now e \<le> ev_now e'"
    and "msg_Sender m \<noteq> []" "msg_ID m \<noteq> []"
    and x: "x = m1\<lparr>msg_SenderName := Node_nameForPeer (msg_Sender m1) n\<rparr>"
  shows "(mem_seen (nd_memory n) (msg_ID m) \<noteq> Some True \<and> \<not> is_expired (ev_now e) m \<longrightarrow>
      Memory_GetAll (nd_memory n1) = Memory_GetAll (nd_memory n) @ [with_defaults (ev_now e) x] \<and>
      shown_messages n1 = shown_messages n @ (if nd_hook n then [shown_form x] else []) \<and>
      (is_chunk x \<and> msg_MediaID x \<noteq> [] \<longrightarrow> nd_acceptedCount n1 =
        (nd_acceptedCount n)(msg_MediaID x \<mapsto> (case nd_acceptedCount n (msg_MediaID x) of None \<Rightarrow> 0 | Some k \<Rightarrow> k) + 1))) \<and>
    nd_memory n2 = nd_memory n1 \<and> nd_events n2 = nd_events n1 \<and> nd_acceptedCount n2 = nd_acceptedCount n1 \<and>
    msg_ID m \<in> set (dv_pending (nd_delivery n1) (msg_Sender m))"
proof (rule conjI, rule impI)
  have n1': "n1 = accept_message True e x n" using first n1 by (simp add: receive_e2e_def x)
  note k = decrypt_message_keeps[OF first(1)]
  assume "mem_seen (nd_memory n) (msg_ID m) \<noteq> Some True \<and> \<not> is_expired (ev_now e) m"
  then have "mem_seen (nd_memory n) (msg_ID x) \<noteq> Some True" "\<not> is_expired (ev_now e) x" using k by (simp_all add: x is_expired_def)
  from accept_added[OF this n1']
  show "Memory_GetAll (nd_memory n1) = Memory_GetAll (nd_memory n) @ [with_defaults (ev_now e) x] \<and>
      shown_messages n1 = shown_messages n @ (if nd_hook n then [shown_form x] else []) \<and>
      (is_chunk x \<and> msg_MediaID x \<noteq> [] \<longrightarrow> nd_acceptedCount n1 =
        (nd_acceptedCount n)(msg_MediaID x \<mapsto> (case nd_acceptedCount n (msg_MediaID x) of None \<Rightarrow> 0 | Some k \<Rightarrow> k) + 1))"
    by (simp add: Memory_GetAll_def)
next
  have n1': "n1 = accept_message True e x n" using first n1 by (simp add: receive_e2e_def x)
  note k = decrypt_message_keeps[OF first(1)]
  show "nd_memory n2 = nd_memory n1 \<and> nd_events n2 = nd_events n1 \<and> nd_acceptedCount n2 = nd_acceptedCount n1 \<and>
      msg_ID m \<in> set (dv_pending (nd_delivery n1) (msg_Sender m))"
  proof (intro conjI)
  show "msg_ID m \<in> set (dv_pending (nd_delivery n1) (msg_Sender m))"
    using k assms(7,8) queueDelivered_waits unfolding n1' by (simp add: accept_message_def Let_def x split: prod.split)
  obtain b where add: "Memory_Add (ev_now e) x (nd_memory n) = (b, nd_memory n1)"
    unfolding n1' accept_memory by (metis prod.collapse)
  have again: "Memory_Add (ev_now e') y (nd_memory n1) = (False, nd_memory n1)"
    if "msg_ID y = msg_ID m" "msg_ExpiresAt y = msg_ExpiresAt m" for y
    using Add_again[OF add _ _ later, of y] that k by (simp add: x)
  have "nd_memory n2 = nd_memory n1 \<and> nd_events n2 = nd_events n1 \<and> nd_acceptedCount n2 = nd_acceptedCount n1"
  proof (cases "decrypt_message e' n1 m")
    case None
    then show ?thesis using first(3) n2 by (simp add: receive_e2e_def)
  next
    case (Some m2)
    note k2 = decrypt_message_keeps[OF Some]
    from again[of "m2\<lparr>msg_SenderName := Node_nameForPeer (msg_Sender m2) n1\<rparr>"] k2 show ?thesis
      using first(3) Some n2 by (simp add: receive_e2e_def accept_memory accept_not_added)
  qed
  then show "nd_memory n2 = nd_memory n1" "nd_events n2 = nd_events n1" "nd_acceptedCount n2 = nd_acceptedCount n1"
    by auto
qed
qed

definition sealed_text :: "string \<Rightarrow> string \<Rightarrow> message" where
  "sealed_text i txt = zero_message\<lparr>msg_ID := i, msg_Text := replicate 24 (CHR ''n'') @ rev txt, msg_Sender := ''ali'',
     msg_Recipient := ''me'', msg_Version := 2\<rparr>"

definition keyed_node :: node where
  "keyed_node = demo_node\<lparr>nd_contacts := Some \<lparr>cs_path = ''c'',
     cs_contacts = [(sample_contact ''ali'' True)\<lparr>con_X25519Pub := replicate 32 (CHR ''k'')\<rparr>]\<rparr>\<rparr>"

lemma sealed_text_simps [simp]:
  "msg_ID (sealed_text i t) = i" "msg_Text (sealed_text i t) = replicate 24 (CHR ''n'') @ rev t"
  "msg_Sender (sealed_text i t) = ''ali''" "msg_MediaType (sealed_text i t) = []"
  by (simp_all add: sealed_text_def zero_message_def)

lemma keyed_node_key:
  "nd_contacts keyed_node \<noteq> None"
  "contact_box_key (quiet_env t) (Node_GetContactTemp ''ali'' keyed_node) = Some (replicate 32 (CHR ''k''))"
  by (simp_all add: keyed_node_def contact_box_key_def Node_GetContactTemp_def Node_GetContact_def
      ContactsStore_Get_def sample_contact_def)

lemma sealed_text_opens:
  "decrypt_message (quiet_env t) keyed_node (sealed_text i txt) = Some (sealed_text i txt\<lparr>msg_Text := txt\<rparr>)"
  "\<not> aborted_chunk (sealed_text i txt\<lparr>msg_Text := x\<rparr>) n"
  using keyed_node_key
  by (simp_all add: decrypt_message_def is_chunk_def isChunkedMediaType_def Node_decryptFromSender_def
      open_payload_def aborted_chunk_def)

theorem received_once_witness:
  "let n1 = receive_e2e (quiet_env 1) (sealed_text ''i'' ''hi'') keyed_node;
       n2 = receive_e2e (quiet_env 2) (sealed_text ''i'' ''hi'') n1
   in map msg_Text (Memory_GetAll (nd_memory n2)) = [''hi''] \<and> map msg_Text (shown_messages n2) = [''hi'']"
proof -
  define n1 where "n1 = receive_e2e (quiet_env 1) (sealed_text ''i'' ''hi'') keyed_node"
  define n2 where "n2 = receive_e2e (quiet_env 2) (sealed_text ''i'' ''hi'') n1"
  define x where "x = (sealed_text ''i'' ''hi''\<lparr>msg_Text := ''hi''\<rparr>)\<lparr>msg_SenderName := Node_nameForPeer
    (msg_Sender (sealed_text ''i'' ''hi''\<lparr>msg_Text := ''hi''\<rparr>)) keyed_node\<rparr>"
  have new: "mem_seen (nd_memory keyed_node) ''i'' \<noteq> Some True" "\<not> is_expired 1 (sealed_text ''i'' ''hi'')"
      "Memory_GetAll (nd_memory keyed_node) = []" "shown_messages keyed_node = []" "nd_hook keyed_node"
    by (simp_all add: keyed_node_def demo_node_def NewNode_def empty_memory_def is_expired_def sealed_text_def zero_message_def
        IsZero_def Memory_GetAll_def shown_messages_def)
  have "\<not> is_chunk x" by (simp add: x_def is_chunk_def isChunkedMediaType_def)
  then have "msg_Text (with_defaults 1 x) = ''hi''" "msg_Text (shown_form x) = ''hi''"
    by (simp_all add: x_def with_defaults_def Let_def shown_form_def)
  with received_once[OF sealed_text_opens(1)[of 1 "''i''" "''hi''"] sealed_text_opens(2) _ n1_def n2_def _ _ _ x_def] new
  have "map msg_Text (Memory_GetAll (nd_memory n2)) = [''hi'']" "map msg_Text (shown_messages n2) = [''hi'']"
    by (simp_all add: shown_messages_def[of n2]) (simp_all add: shown_messages_def)
  then show ?thesis by (simp add: n1_def n2_def Let_def)
qed

text \<open>C40.  Encryption can be left out: an addressed message with another version than 2 is stored
and shown as it is, with the sender it claims, though nothing authenticates that sender and
though the claimed sender is a contact with a key.\<close>

theorem plaintext_accepted:
  assumes "nd_host n = Some me" "msg_Recipient m = me" "me \<noteq> []" "msg_Version m \<noteq> 2" "\<not> isServiceType (msg_Type m)"
    and "deobfuscated_replica e n m = m"
    and "mem_seen (nd_memory n) (msg_ID m) \<noteq> Some True" "msg_ExpiresAt m = 0" "nd_hook n"
  shows "\<exists>n' x. receive_replica e m n = Some n' \<and> x \<in> set (mem_messages (nd_memory n')) \<and>
    msg_ID x = msg_ID m \<and> msg_Sender x = msg_Sender m \<and> msg_Text x = msg_Text m \<and>
    (\<exists>y. last (nd_events n') = MessageEvent y \<and> msg_Sender y = msg_Sender m \<and> msg_Text y = msg_Text m)"
proof -
  define y where "y = m\<lparr>msg_ReplicatedAt := ev_now e, msg_IsOwn := False, msg_SenderName := Node_nameForPeer (msg_Sender m) n\<rparr>"
  have ne: "\<not> is_expired (ev_now e) y" using assms(8) by (simp add: is_expired_def IsZero_def y_def)
  obtain mem where add: "Memory_Add (ev_now e) y (nd_memory n) = (True, mem)"
      "mem_messages mem = mem_messages (nd_memory n) @ [with_defaults (ev_now e) y]"
    using assms(7) ne by (auto simp: Memory_Add_def Let_def y_def)
  have "receive_replica e m n = Some (push_hook (MessageEvent y) (n\<lparr>nd_memory := mem\<rparr>))"
    using assms add(1) by (simp add: receive_replica_def y_def add_and_push_def Let_def)
  moreover have "msg_Text (with_defaults t y) = msg_Text m" "msg_Sender (with_defaults t y) = msg_Sender m"
      "msg_ID (with_defaults t y) = msg_ID m" for t
    by (simp_all add: with_defaults_def Let_def y_def)
  moreover have "msg_Text y = msg_Text m" "msg_Sender y = msg_Sender m" by (simp_all add: y_def)
  ultimately show ?thesis using add(2) assms(9) by (auto simp: push_hook_def)
qed


definition forged_text :: message where
  "forged_text = zero_message\<lparr>msg_ID := ''f'', msg_Text := ''send money'', msg_Sender := ''ali'', msg_Recipient := ''me''\<rparr>"

theorem plaintext_accepted_witness:
  "\<exists>n' x. receive_replica (quiet_env 1) forged_text keyed_node = Some n' \<and> x \<in> set (mem_messages (nd_memory n')) \<and>
    msg_Sender x = ''ali'' \<and> msg_Text x = ''send money''"
proof -
  have "nd_host keyed_node = Some ''me''" "nd_hook keyed_node" "mem_seen (nd_memory keyed_node) ''f'' \<noteq> Some True"
    by (simp_all add: keyed_node_def demo_node_def empty_memory_def)
  moreover have "deobfuscated_replica (quiet_env 1) keyed_node forged_text = forged_text"
    by (simp add: deobfuscated_replica_def forged_text_def zero_message_def Node_deobfuscate_def OBFUSCATION_PREFIX_def)
  moreover have "msg_ID forged_text = ''f''" "msg_Recipient forged_text = ''me''" "msg_Version forged_text \<noteq> 2"
    "\<not> isServiceType (msg_Type forged_text)" "msg_ExpiresAt forged_text = 0" "msg_Sender forged_text = ''ali''"
    "msg_Text forged_text = ''send money''"
    by (simp_all add: forged_text_def zero_message_def isServiceType_def message_type_defs)
  ultimately show ?thesis
    using plaintext_accepted[of keyed_node "''me''" forged_text "quiet_env 1"] by auto
qed

end
