(* ===== verification/FileSpec.thy ===== *)
theory FileSpec
  imports NodeSpec MemorySpec
begin

text \<open>
  What the file transfer promises: the chunks of a file arrive as the file, whatever the order
  and the repetitions of the network; deleting a file touches no other file, when its ID is
  one the node made; retries end.
\<close>

section \<open>Cutting and joining\<close>

lemma take_drop_chunks:
  assumes "0 < k"
  shows "concat (map (\<lambda>i. take k (drop (i * k) xs)) [0..<j]) = take (j * k) xs"
proof (induction j)
  case (Suc j)
  have "take (j * k) xs @ take k (drop (j * k) xs) = take (j * k + k) xs" by (metis take_add)
  with Suc show ?case by (simp add: add.commute)
qed simp

lemma upto_upt: "[0..int k - 1] = map int [0..<k]"
proof (induction k)
  case (Suc k)
  have "[0..int (Suc k) - 1] = [0..int k - 1] @ [int k]" by (subst upto_rec2) simp_all
  with Suc show ?case by simp
qed simp

lemma ChunkSize_pos [simp]: "0 < ChunkSize" "ChunkSize \<noteq> 0"
  by (simp_all add: ChunkSize_def)

lemma chunk_count_nat: "chunk_count (int l) = int ((l + ChunkSize - 1) div ChunkSize)"
proof -
  have "int l + int ChunkSize - 1 = int (l + ChunkSize - 1)" using ChunkSize_pos(1) by linarith
  then show ?thesis unfolding chunk_count_def by (simp only: zdiv_int)
qed

lemma chunks_enough: "l \<le> (l + ChunkSize - 1) div ChunkSize * ChunkSize"
proof -
  have "(l + ChunkSize - 1) div ChunkSize * ChunkSize + (l + ChunkSize - 1) mod ChunkSize = l + ChunkSize - 1"
    by (rule div_mult_mod_eq)
  moreover have "(l + ChunkSize - 1) mod ChunkSize < ChunkSize" by (rule mod_less_divisor) simp
  ultimately show ?thesis by linarith
qed

lemma chunks_join:
  "concat (map (read_chunk content) [0..chunk_count (int (length content)) - 1]) = content"
proof -
  have "concat (map (read_chunk content) [0..chunk_count (int (length content)) - 1])
      = concat (map (\<lambda>i. take ChunkSize (drop (i * ChunkSize) content)) [0..<(length content + ChunkSize - 1) div ChunkSize])"
    unfolding chunk_count_nat upto_upt read_chunk_def
    by (simp add: comp_def nat_mult_distrib)
  also have "\<dots> = content" using take_drop_chunks[of ChunkSize content] chunks_enough[of "length content"] by simp
  finally show ?thesis .
qed

lemma chunk_nonempty:
  assumes "0 \<le> i" "i < chunk_count (int (length content))"
  shows "read_chunk content i \<noteq> []"
proof -
  have "nat i < (length content + ChunkSize - 1) div ChunkSize" using assms unfolding chunk_count_nat by linarith
  then have "Suc (nat i) \<le> (length content + ChunkSize - 1) div ChunkSize" by simp
  then have "Suc (nat i) * ChunkSize \<le> length content + ChunkSize - 1"
    by (simp only: less_eq_div_iff_mult_less_eq[OF ChunkSize_pos(1)])
  then have "nat i * ChunkSize < length content" unfolding mult_Suc using ChunkSize_pos(1) by linarith
  then show ?thesis using assms(1) by (simp add: read_chunk_def nat_mult_distrib)
qed

section \<open>The sender\<close>

text \<open>What the sender makes of a part of the file; it depends on the fields that \<open>same_sender\<close> lists.\<close>

definition sent_chunk :: "env \<Rightarrow> node \<Rightarrow> string \<Rightarrow> string \<Rightarrow> file_meta \<Rightarrow> string \<Rightarrow> int \<Rightarrow> message" where
  "sent_chunk e n peer mediaID fm content i =
     chunk_message e n peer mediaID fm i (the (Node_encryptBytesForRecipient e n peer (read_chunk content i)))"

definition same_sender :: "node \<Rightarrow> node \<Rightarrow> bool" where
  "same_sender n n' \<longleftrightarrow> nd_host n' = nd_host n \<and> nd_contacts n' = nd_contacts n \<and> nd_x25519Priv n' = nd_x25519Priv n \<and>
     nd_myReadEnabled n' = nd_myReadEnabled n \<and> nd_settings n' = nd_settings n \<and> nd_useOnion n' = nd_useOnion n \<and>
     nd_aborted n' = nd_aborted n \<and> nd_dir n' = nd_dir n \<and> nd_disk n' = nd_disk n"

lemma same_sender_refl [simp]: "same_sender n n"
  by (simp add: same_sender_def)

lemma same_sender_encrypt:
  "same_sender n n' \<Longrightarrow> Node_encryptBytesForRecipient e n' p b = Node_encryptBytesForRecipient e n p b"
  by (simp add: same_sender_def Node_encryptBytesForRecipient_def Node_GetContact_def cong: option.case_cong)

lemma same_sender_chunk:
  "same_sender n n' \<Longrightarrow> sent_chunk e n' p i fm c k = sent_chunk e n p i fm c k"
  by (simp add: sent_chunk_def same_sender_encrypt) (simp add: same_sender_def chunk_message_def host_id_def cong: option.case_cong)

lemma pushFileStatus_same_sender [simp]: "same_sender n (Node_pushFileStatus e i a b n)"
  by (simp add: Node_pushFileStatus_def push_hook_def Let_def same_sender_def)

lemma pushFileStatus_queue [simp]: "nd_chunkQueue (Node_pushFileStatus e i a b n) = nd_chunkQueue n"
  by (simp add: Node_pushFileStatus_def push_hook_def Let_def)

lemma send_chunk_queue:
  assumes "\<not> nd_aborted n mediaID" "read_chunk content i \<noteq> []"
    "Node_encryptBytesForRecipient e n peer (read_chunk content i) \<noteq> None"
  obtains n' where "send_chunk e peer mediaID fm content i n = (False, n')" "same_sender n n'"
    "nd_chunkQueue n' = nd_chunkQueue n @ [sent_chunk e n peer mediaID fm content i]"
proof -
  from assms(3) obtain c where c: "Node_encryptBytesForRecipient e n peer (read_chunk content i) = Some c" by auto
  show ?thesis
    by (rule that[of "snd (send_chunk e peer mediaID fm content i n)"])
      (use assms(1,2) c in \<open>simp_all add: send_chunk_def sent_chunk_def same_sender_def push_hook_def Let_def
        split: prod.split bool.split\<close>)
qed

lemma send_chunks_queue:
  assumes "\<not> nd_aborted n mediaID"
    and "\<forall>i \<in> set is. read_chunk content i \<noteq> [] \<and>
      Node_encryptBytesForRecipient e n peer (read_chunk content i) \<noteq> None"
  shows "nd_chunkQueue (send_chunks e peer mediaID fm content is n) =
    nd_chunkQueue n @ map (sent_chunk e n peer mediaID fm content) is"
  using assms
proof (induction "is" arbitrary: n)
  case (Cons i "is")
  obtain n' where n': "send_chunk e peer mediaID fm content i n = (False, n')" "same_sender n n'"
      "nd_chunkQueue n' = nd_chunkQueue n @ [sent_chunk e n peer mediaID fm content i]"
    using send_chunk_queue[of n mediaID content i e peer fm] Cons.prems by auto
  have "\<not> nd_aborted n' mediaID" using n'(2) Cons.prems(1) by (simp add: same_sender_def)
  with Cons n' same_sender_encrypt[OF n'(2)] same_sender_chunk[OF n'(2)] show ?case by simp
qed simp

lemma sendFileChunks_queue:
  assumes "\<not> nd_aborted n mediaID" "nd_disk n (Node_sentPath (nd_dir n) mediaID) = Some content"
    "fm_FileSize fm = int (length content)"
    "\<And>b. b \<noteq> [] \<Longrightarrow> Node_encryptBytesForRecipient e n peer b \<noteq> None"
  shows "nd_chunkQueue (Node_sendFileChunksAsync e peer mediaID fm n) =
    nd_chunkQueue n @ map (sent_chunk e n peer mediaID fm content) [0..chunk_count (fm_FileSize fm) - 1]"
proof -
  define n1 where "n1 = Node_pushFileStatus e mediaID 0 (chunk_count (fm_FileSize fm)) n"
  have s: "same_sender n n1" by (simp add: n1_def)
  then have "\<not> nd_aborted n1 mediaID" "nd_disk n1 (Node_sentPath (nd_dir n1) mediaID) = Some content"
    using assms(1,2) by (simp_all add: same_sender_def)
  moreover have "\<forall>i \<in> set [0..chunk_count (fm_FileSize fm) - 1]. read_chunk content i \<noteq> [] \<and>
      Node_encryptBytesForRecipient e n1 peer (read_chunk content i) \<noteq> None"
    using chunk_nonempty[of _ content] assms(3,4) same_sender_encrypt[OF s] by simp
  moreover have "nd_chunkQueue n1 = nd_chunkQueue n" by (simp add: n1_def)
  moreover have "sent_chunk e n1 peer mediaID fm content = sent_chunk e n peer mediaID fm content"
    using same_sender_chunk[OF s] by blast
  ultimately show ?thesis
    by (simp add: Node_sendFileChunksAsync_def Let_def flip: n1_def) (simp add: send_chunks_queue)
qed

section \<open>The receiver\<close>

lemma receive_chunk:
  assumes "is_chunk m" "msg_Version m = 2" "\<not> isServiceType (msg_Type m)" "nd_host n = Some (msg_Recipient m)"
    and raw: "Node_decryptBytesFromSender r n (msg_Sender m) (msg_Text m) = Some raw"
    and ab: "\<not> (case nd_abortedStore n of None \<Rightarrow> False | Some a \<Rightarrow> AbortedStore_IsAborted a (msg_MediaID m))"
  obtains x where "receive_replica r m n = Some (accept_message True r x n)" "msg_ID x = msg_ID m"
    "msg_Text x = ev_base64 r raw" "\<not> msg_IsOwn x" "chunk_key x = chunk_key m" "msg_ExpiresAt x = msg_ExpiresAt m"
proof -
  define y where "y = m\<lparr>msg_ReplicatedAt := ev_now r, msg_IsOwn := False\<rparr>"
  define x where "x = y\<lparr>msg_Text := ev_base64 r raw, msg_SenderName := Node_nameForPeer (msg_Sender m) n\<rparr>"
  have c: "is_chunk y" "msg_MediaType m \<noteq> ''batch''"
    using assms(1) by (auto simp: y_def is_chunk_def isChunkedMediaType_def)
  have "decrypt_message r n y = Some (y\<lparr>msg_Text := ev_base64 r raw\<rparr>)"
    using raw c(1) by (simp add: decrypt_message_def y_def)
  moreover have "\<not> aborted_chunk (y\<lparr>msg_Text := ev_base64 r raw\<rparr>) n"
    using ab by (auto simp: aborted_chunk_def y_def split: option.splits)
  ultimately have "receive_e2e r y n = accept_message True r x n"
    using c(2) by (simp add: receive_e2e_def x_def) (simp add: y_def)
  moreover have "receive_replica r m n = Some (receive_e2e r y n)"
    using assms(2-4) by (simp add: receive_replica_def deobfuscated_replica_def y_def)
  ultimately show ?thesis
    by (rule_tac that[of x]) (simp_all add: x_def y_def chunk_key_def indexed_def is_chunk_def)
qed

text \<open>What the reception of chunks leaves alone.\<close>

definition same_receiver :: "node \<Rightarrow> node \<Rightarrow> bool" where
  "same_receiver n n' \<longleftrightarrow> nd_host n' = nd_host n \<and> nd_contacts n' = nd_contacts n \<and>
     nd_tempContacts n' = nd_tempContacts n \<and> nd_x25519Priv n' = nd_x25519Priv n \<and> nd_abortedStore n' = nd_abortedStore n"

lemma same_receiver_steps:
  "same_receiver n (n\<lparr>nd_memory := mem\<rparr>)" "same_receiver n (Node_queueDelivered p i n)"
  "same_receiver n (show_message t r x n)" "same_receiver n (count_accepted r x n)"
  by (simp_all add: same_receiver_def Node_queueDelivered_def show_message_def push_hook_def Let_def
      count_accepted_def Node_pushFileStatus_def split: prod.split)

lemma same_receiver_trans: "same_receiver n n1 \<Longrightarrow> same_receiver n1 n2 \<Longrightarrow> same_receiver n n2"
  by (simp add: same_receiver_def)

lemma accept_same_receiver: "same_receiver n (accept_message t r x n)"
proof -
  obtain b mem where add: "Memory_Add (ev_now r) x (nd_memory n) = (b, mem)" by fastforce
  define n2 where "n2 = (if b then show_message t r x (count_accepted r x (n\<lparr>nd_memory := mem\<rparr>)) else n\<lparr>nd_memory := mem\<rparr>)"
  have "same_receiver n n2"
    using same_receiver_trans[OF same_receiver_trans[OF same_receiver_steps(1) same_receiver_steps(4)] same_receiver_steps(3)]
      same_receiver_steps(1) by (simp add: n2_def)
  then show ?thesis
    using same_receiver_trans[OF _ same_receiver_steps(2)] by (simp add: accept_message_def add n2_def Let_def)
qed

lemma GetFileChunk_Add:
  assumes inv: "mem_inv mem" and add: "Memory_Add t x mem = (True, mem')" and "chunk_key x = Some (mid, j)"
  shows "Memory_GetFileChunk mid i mem' = (if i = j then Some (with_defaults t x) else Memory_GetFileChunk mid i mem)"
proof -
  have key: "chunk_key (with_defaults t x) = Some (mid, j)"
    using assms(3) by (auto simp: with_defaults_def Let_def chunk_key_def indexed_def is_chunk_def split: if_splits)
  have m: "mem_messages mem' = mem_messages mem @ [with_defaults t x]"
      "mem_fileChunks mem' = index_chunk (with_defaults t x) (length (mem_messages mem)) (mem_fileChunks mem)"
    using add by (auto simp: Memory_Add_def Let_def split: if_splits)
  have "chunk_lookup mem' mid i = (if i = j then Some (length (mem_messages mem)) else chunk_lookup mem mid i)"
    using key mem_inv_chunk[OF inv, of "(mid, i)"]
    by (auto simp: chunk_lookup_def m chunk_pos_index simp del: chunk_key_Some split: option.split)
  moreover have "chunk_lookup mem mid i = Some p \<Longrightarrow> p < length (mem_messages mem)" for p by (rule chunk_lookup_less)
  ultimately show ?thesis
    by (cases "chunk_lookup mem mid i") (simp_all add: Memory_GetFileChunk_def m nth_append)
qed

lemma GetChunk_accept:
  assumes "node_inv n" "chunk_key x = Some (mid, j)" "mid \<noteq> []" "\<not> msg_IsOwn x"
    and "mem_seen (nd_memory n) (msg_ID x) \<noteq> Some True" "\<not> is_expired (ev_now r) x"
  shows "Node_GetChunk mid i (accept_message t r x n) = (if i = j then Some (msg_Text x) else Node_GetChunk mid i n)"
    and "mem_seen (nd_memory (accept_message t r x n)) = (mem_seen (nd_memory n))(msg_ID x \<mapsto> True)"
proof -
  obtain mem where add: "Memory_Add (ev_now r) x (nd_memory n) = (True, mem)"
      "mem_seen mem = (mem_seen (nd_memory n))(msg_ID x \<mapsto> True)"
    using assms(5,6) by (simp add: Memory_Add_def Let_def)
  note get = GetFileChunk_Add[OF node_invD(1)[OF assms(1)] add(1) assms(2)]
  have "msg_Text (with_defaults u x) = msg_Text x" "msg_IsOwn (with_defaults u x) = msg_IsOwn x" for u
    by (simp_all add: with_defaults_def Let_def)
  then show "Node_GetChunk mid i (accept_message t r x n) = (if i = j then Some (msg_Text x) else Node_GetChunk mid i n)"
    using assms(3,4) by (simp add: Node_GetChunk_def accept_memory add get)
  show "mem_seen (nd_memory (accept_message t r x n)) = (mem_seen (nd_memory n))(msg_ID x \<mapsto> True)"
    by (simp add: accept_memory add)
qed

lemma accept_seen:
  assumes "mem_seen (nd_memory n) (msg_ID x) = Some True"
  shows "nd_memory (accept_message t r x n) = nd_memory n"
  using assms by (simp add: accept_memory Memory_Add_def)

section \<open>A file arrives\<close>

text \<open>The messages are received one after the other; \<open>None\<close> is a panic.\<close>

fun receive_all :: "env \<Rightarrow> message list \<Rightarrow> node \<Rightarrow> node option" where
  "receive_all r [] n = Some n"
| "receive_all r (m # ms) n = Option.bind (receive_replica r m n) (receive_all r ms)"

text \<open>Sender and receiver have each other's public keys, and the receiver has not aborted the file.\<close>

definition paired :: "(string \<Rightarrow> string) \<Rightarrow> env \<Rightarrow> env \<Rightarrow> node \<Rightarrow> node \<Rightarrow> string \<Rightarrow> bool" where
  "paired pub_of e r s n mediaID \<longleftrightarrow>
     base64_law r \<and> ev_base64 r [] = [] \<and> box_law r pub_of \<and> nonce_law e \<and> (\<forall>b. ev_nonce e b \<noteq> None) \<and>
     ev_base64 e = ev_base64 r \<and> ev_Seal e = ev_Seal r \<and>
     nd_contacts s \<noteq> None \<and> nd_contacts n \<noteq> None \<and>
     contact_box_key e (Node_GetContact (host_id n) s) = Some (pub_of (nd_x25519Priv n)) \<and>
     contact_box_key r (Node_GetContactTemp (host_id s) n) = Some (pub_of (nd_x25519Priv s)) \<and>
     nd_host n \<noteq> None \<and>
     \<not> (case nd_abortedStore n of None \<Rightarrow> False | Some a \<Rightarrow> AbortedStore_IsAborted a mediaID)"

lemma paired_receiver: "same_receiver n n' \<Longrightarrow> paired pub_of e r s n i \<Longrightarrow> paired pub_of e r s n' i"
  by (simp add: same_receiver_def paired_def host_id_def Node_GetContactTemp_def Node_GetContact_def
      cong: option.case_cong)

lemma paired_encrypt:
  assumes "paired pub_of e r s n i" "b \<noteq> []"
  obtains c where "Node_encryptBytesForRecipient e s (host_id n) b = Some c"
    "Node_decryptBytesFromSender r n (host_id s) c = Some b"
proof -
  have nonces: "\<forall>b. ev_nonce e b \<noteq> None" "nonce_law e" using assms(1) by (simp_all add: paired_def)
  then obtain nonce where nonce: "ev_nonce e b = Some nonce" "length nonce = 24"
    unfolding nonce_law_def by (metis not_None_eq)
  define c where "c = ev_base64 r (nonce @ ev_Seal r b nonce (pub_of (nd_x25519Priv n)) (nd_x25519Priv s))"
  have law: "ev_base64_decode r (ev_base64 r y) = Some y" "ev_base64 r [] = []" for y
    using assms(1) by (simp_all add: paired_def base64_law_def)
  have "c \<noteq> []"
  proof
    assume "c = []"
    then have "Some (nonce @ ev_Seal r b nonce (pub_of (nd_x25519Priv n)) (nd_x25519Priv s)) = Some []"
      using law unfolding c_def by metis
    then show False using nonce(2) by simp
  qed
  moreover have "open_payload r n (pub_of (nd_x25519Priv s)) c = Some b"
    using assms(1) nonce(2) by (simp add: c_def open_sealed paired_def)
  ultimately show ?thesis
    using that[of c] assms nonce
    by (simp add: Node_encryptBytesForRecipient_def Node_decryptBytesFromSender_def paired_def c_def)
qed

lemma sent_chunk_fields [simp]:
  "msg_Version (sent_chunk e s p mid fm c i) = 2" "msg_Type (sent_chunk e s p mid fm c i) = TypeMessage"
  "msg_Recipient (sent_chunk e s p mid fm c i) = p" "msg_Sender (sent_chunk e s p mid fm c i) = host_id s"
  "msg_MediaType (sent_chunk e s p mid fm c i) = fm_MediaType fm" "msg_MediaID (sent_chunk e s p mid fm c i) = mid"
  "msg_ChunkIndex (sent_chunk e s p mid fm c i) = i" "msg_ExpiresAt (sent_chunk e s p mid fm c i) = fm_ExpiresAt fm"
  "msg_ChunkTotal (sent_chunk e s p mid fm c i) = chunk_count (fm_FileSize fm)"
  "msg_Text (sent_chunk e s p mid fm c i) = the (Node_encryptBytesForRecipient e s p (read_chunk c i))"
  "msg_ID (sent_chunk e s p mid fm c i) = ev_generateMsgID e (''file:'' @ mid @ '':'' @ decimal i @ '':'' @ ev_nano e)"
  by (simp_all add: sent_chunk_def chunk_message_def)

lemma receive_sent_chunk:
  assumes p: "paired pub_of e r s n mid" and "mid \<noteq> []" "isChunkedMediaType (fm_MediaType fm)"
    and i: "0 \<le> i" "i < chunk_count (int (length content))" and size: "fm_FileSize fm = int (length content)"
  defines "m \<equiv> sent_chunk e s (host_id n) mid fm content i"
  obtains x where "receive_replica r m n = Some (accept_message True r x n)" "msg_ID x = msg_ID m"
    "msg_Text x = ev_base64 r (read_chunk content i)" "\<not> msg_IsOwn x" "chunk_key x = Some (mid, i)"
    "msg_ExpiresAt x = fm_ExpiresAt fm"
proof -
  have c: "is_chunk m" "chunk_key m = Some (mid, i)"
    using assms(2-6) by (simp_all add: m_def is_chunk_def chunk_key_def indexed_def)
  obtain ct where "Node_encryptBytesForRecipient e s (host_id n) (read_chunk content i) = Some ct"
      "Node_decryptBytesFromSender r n (host_id s) ct = Some (read_chunk content i)"
    using paired_encrypt[OF p chunk_nonempty[OF i]] by blast
  then have d: "Node_decryptBytesFromSender r n (msg_Sender m) (msg_Text m) = Some (read_chunk content i)"
    by (simp add: m_def)
  have h: "nd_host n = Some (msg_Recipient m)" using p by (auto simp: m_def paired_def host_id_def)
  have v: "msg_Version m = 2" "\<not> isServiceType (msg_Type m)" "msg_ExpiresAt m = fm_ExpiresAt fm"
    by (simp_all add: m_def isServiceType_def message_type_defs)
  have ab: "\<not> (case nd_abortedStore n of None \<Rightarrow> False | Some a \<Rightarrow> AbortedStore_IsAborted a (msg_MediaID m))"
    using p by (simp add: m_def paired_def cong: option.case_cong)
  show ?thesis using receive_chunk[OF c(1) v(1,2) h d ab] c(2) v(3) that by metis
qed

text \<open>Every chunk that was seen can be read.\<close>

definition chunks_readable :: "env \<Rightarrow> env \<Rightarrow> string \<Rightarrow> string \<Rightarrow> int \<Rightarrow> node \<Rightarrow> bool" where
  "chunks_readable e r mid content k n \<longleftrightarrow> (\<forall>i \<in> {0..<k}.
     mem_seen (nd_memory n) (ev_generateMsgID e (''file:'' @ mid @ '':'' @ decimal i @ '':'' @ ev_nano e)) = Some True \<longrightarrow>
       Node_GetChunk mid i n = Some (ev_base64 r (read_chunk content i)))"

lemma receive_all_chunks:
  assumes "mid \<noteq> []" "isChunkedMediaType (fm_MediaType fm)" "fm_FileSize fm = int (length content)"
    and fresh: "inj_on (\<lambda>i. ev_generateMsgID e (''file:'' @ mid @ '':'' @ decimal i @ '':'' @ ev_nano e)) {0..<k}"
    and k: "k = chunk_count (int (length content))" and t: "fm_ExpiresAt fm = 0 \<or> ev_now r \<le> fm_ExpiresAt fm"
    and "set ms \<subseteq> sent_chunk e s me mid fm content ` {0..<k}"
    and "node_inv n" "paired pub_of e r s n mid" "host_id n = me" "chunks_readable e r mid content k n"
  shows "\<exists>n'. receive_all r ms n = Some n' \<and> chunks_readable e r mid content k n' \<and>
    (\<forall>i. mem_seen (nd_memory n) i = Some True \<or> i \<in> msg_ID ` set ms \<longrightarrow> mem_seen (nd_memory n') i = Some True)"
  using assms(7-)
proof (induction ms arbitrary: n)
  case (Cons m ms)
  note P = Cons.prems
  let ?id = "\<lambda>i. ev_generateMsgID e (''file:'' @ mid @ '':'' @ decimal i @ '':'' @ ev_nano e)"
  obtain j where j: "0 \<le> j" "j < k" "m = sent_chunk e s (host_id n) mid fm content j" using P(1,4) by auto
  obtain x where x: "receive_replica r m n = Some (accept_message True r x n)" "msg_ID x = ?id j"
      "msg_Text x = ev_base64 r (read_chunk content j)" "\<not> msg_IsOwn x" "chunk_key x = Some (mid, j)"
      "msg_ExpiresAt x = fm_ExpiresAt fm"
    using receive_sent_chunk[OF P(3) assms(1,2) j(1) _ assms(3)] j(2,3) k by auto
  define n1 where "n1 = accept_message True r x n"
  have inv1: "node_inv n1" by (simp add: n1_def accept_message_inv P(2))
  have same: "same_receiver n n1" by (simp add: n1_def accept_same_receiver)
  have p1: "paired pub_of e r s n1 mid" "host_id n1 = me"
    using paired_receiver[OF same P(3)] same P(4) by (simp_all add: same_receiver_def host_id_def)
  have read1: "chunks_readable e r mid content k n1 \<and> mem_seen (nd_memory n1) = (mem_seen (nd_memory n))(?id j \<mapsto> True)"
  proof (cases "mem_seen (nd_memory n) (?id j) = Some True")
    case True
    then have "nd_memory n1 = nd_memory n" using accept_seen x(2) by (simp add: n1_def)
    moreover from this have "Node_GetChunk mid i n1 = Node_GetChunk mid i n" for i by (simp add: Node_GetChunk_def)
    ultimately show ?thesis using P(5) True by (auto simp: chunks_readable_def)
  next
    case False
    then have "mem_seen (nd_memory n) (msg_ID x) \<noteq> Some True" "\<not> is_expired (ev_now r) x"
      using x(2,6) t by (auto simp: is_expired_def IsZero_def After_def)
    note get = GetChunk_accept[OF P(2) x(5) assms(1) x(4) this, where t = True]
    have "?id i \<noteq> ?id j" if "i \<in> {0..<k}" "i \<noteq> j" for i using inj_onD[OF fresh, of i j] that j(1,2) by auto
    then show ?thesis using P(5) get x(2,3) unfolding chunks_readable_def n1_def by auto
  qed
  obtain n' where "receive_all r ms n1 = Some n'" "chunks_readable e r mid content k n'"
      "\<forall>i. mem_seen (nd_memory n1) i = Some True \<or> i \<in> msg_ID ` set ms \<longrightarrow> mem_seen (nd_memory n') i = Some True"
    using Cons.IH[OF _ inv1 p1] P(1) read1 by auto
  then show ?case using x(1,2) read1 j(3) by (auto simp: n1_def)
qed simp

text \<open>C3.  A file arrives whole: when sender and receiver have each other's keys and the
receiver gets the queued chunks, each at least once, in any order and with any repetitions, its
chunks, decoded and put together by index, are the file.\<close>

theorem file_arrives:
  assumes copy: "nd_disk s (Node_sentPath (nd_dir s) mid) = Some content" "fm_FileSize fm = int (length content)"
      "isChunkedMediaType (fm_MediaType fm)" "mid \<noteq> []" "\<not> nd_aborted s mid"
    and keys: "paired pub_of e r s n mid" "node_inv n"
    and ids: "inj_on (\<lambda>i. ev_generateMsgID e (''file:'' @ mid @ '':'' @ decimal i @ '':'' @ ev_nano e))
        {0..<chunk_count (int (length content))}"
      "\<And>i. mem_seen (nd_memory n) (ev_generateMsgID e (''file:'' @ mid @ '':'' @ decimal i @ '':'' @ ev_nano e)) = None"
    and time: "fm_ExpiresAt fm = 0 \<or> ev_now r \<le> fm_ExpiresAt fm"
    and sent: "nd_chunkQueue (Node_sendFileChunksAsync e (host_id n) mid fm s) = nd_chunkQueue s @ queued" "set ms = set queued"
  shows "\<exists>n'. receive_all r ms n = Some n' \<and>
    concat (map (\<lambda>i. the (ev_base64_decode r (the (Node_GetChunk mid i n')))) [0..chunk_count (int (length content)) - 1])
      = content"
proof -
  define k where "k = chunk_count (int (length content))"
  have q: "queued = map (sent_chunk e s (host_id n) mid fm content) [0..k - 1]"
    using sendFileChunks_queue[OF copy(5,1,2), of e "host_id n"] paired_encrypt[OF keys(1)] sent(1) copy(2)
    by (metis k_def option.distinct(1) same_append_eq)
  have "chunks_readable e r mid content k n" using ids(2) by (simp add: chunks_readable_def)
  then obtain n' where n': "receive_all r ms n = Some n'" "chunks_readable e r mid content k n'"
      "\<forall>i. i \<in> msg_ID ` set ms \<longrightarrow> mem_seen (nd_memory n') i = Some True"
    using receive_all_chunks[OF copy(4,3,2) _ k_def time _ keys(2,1) refl, of ms] ids(1) sent(2) q
    unfolding k_def[symmetric] by fastforce
  have "Node_GetChunk mid i n' = Some (ev_base64 r (read_chunk content i))" if "i \<in> {0..<k}" for i
    using n'(2,3) that sent(2) q unfolding chunks_readable_def by (force simp: image_iff)
  moreover have "ev_base64_decode r (ev_base64 r y) = Some y" for y using keys(1) by (simp add: paired_def base64_law_def)
  ultimately have "map (\<lambda>i. the (ev_base64_decode r (the (Node_GetChunk mid i n')))) [0..k - 1] = map (read_chunk content) [0..k - 1]"
    by simp
  then show ?thesis using n'(1) chunks_join[of content] unfolding k_def by metis
qed

definition transfer_meta :: file_meta where
  "transfer_meta = \<lparr>fm_MediaID = ''0a'', fm_FileName = ''f'', fm_FileSize = 50000, fm_ChunkTotal = 2, fm_MediaType = ''file'',
     fm_TtlSeconds = 0, fm_TtlMode = [], fm_ExpiresAt = 0, fm_CreatedAt = 0\<rparr>"

definition transfer_content :: string where
  "transfer_content = replicate 50000 (CHR ''x'')"

definition transfer_sender :: node where
  "transfer_sender = (sample_peer ''me'')\<lparr>nd_host := Some ''ali'',
     nd_disk := [Node_sentPath [] ''0a'' \<mapsto> transfer_content]\<rparr>"

definition transfer_receiver :: node where
  "transfer_receiver = (sample_peer ''ali'')\<lparr>nd_host := Some ''me''\<rparr>"

lemma transfer_paired:
  "paired (\<lambda>x. x) (quiet_env 1) (quiet_env 2) transfer_sender transfer_receiver ''0a''" "node_inv transfer_receiver"
  by (simp_all add: paired_def base64_law_def box_law_def nonce_law_def transfer_sender_def transfer_receiver_def
      sample_peer_def sample_contact_def contact_box_key_def Node_GetContactTemp_def Node_GetContact_def
      ContactsStore_Get_def host_id_def node_inv_def contacts_inv_def)

lemma transfer_two: "chunk_count (int (length transfer_content)) = 2"
  by (simp add: transfer_content_def chunk_count_def ChunkSize_def)

lemma transfer_ids:
  "inj_on (\<lambda>i. ev_generateMsgID (quiet_env 1) (''file:'' @ ''0a'' @ '':'' @ decimal i @ '':'' @ ev_nano (quiet_env 1)))
     {0..<chunk_count (int (length transfer_content))}"
proof -
  have "{0..<2} = {0, 1 :: int}" by auto
  moreover have "decimal 0 \<noteq> decimal 1" using Atoi_decimal[of 0] Atoi_decimal[of 1] by (auto simp: min_int64_def max_int64_def)
  ultimately show ?thesis unfolding transfer_two by (simp add: inj_on_def)
qed

theorem file_arrives_witness:
  "\<exists>n'. receive_all (quiet_env 2)
      (rev (nd_chunkQueue (Node_sendFileChunksAsync (quiet_env 1) ''me'' ''0a'' transfer_meta transfer_sender)))
      transfer_receiver = Some n' \<and>
    concat (map (\<lambda>i. the (ev_base64_decode (quiet_env 2) (the (Node_GetChunk ''0a'' i n')))) [0..1]) = transfer_content"
proof -
  have me: "host_id transfer_receiver = ''me''" by (simp add: transfer_receiver_def host_id_def)
  have two: "(2 :: int) - 1 = 1" by simp
  have disk: "nd_disk transfer_sender (Node_sentPath (nd_dir transfer_sender) ''0a'') = Some transfer_content"
    by (simp add: transfer_sender_def sample_peer_def)
  have size: "fm_FileSize transfer_meta = int (length transfer_content)"
    by (simp add: transfer_meta_def transfer_content_def)
  have kind: "isChunkedMediaType (fm_MediaType transfer_meta)" "''0a'' \<noteq> []" "\<not> nd_aborted transfer_sender ''0a''"
    by (simp_all add: transfer_meta_def isChunkedMediaType_def transfer_sender_def sample_peer_def)
  have unseen: "mem_seen (nd_memory transfer_receiver) i = None" for i
    by (simp add: transfer_receiver_def sample_peer_def empty_memory_def)
  have never: "fm_ExpiresAt transfer_meta = 0 \<or> ev_now (quiet_env 2) \<le> fm_ExpiresAt transfer_meta"
    by (simp add: transfer_meta_def)
  have queue: "nd_chunkQueue (Node_sendFileChunksAsync (quiet_env 1) (host_id transfer_receiver) ''0a'' transfer_meta transfer_sender)
      = nd_chunkQueue transfer_sender @
        nd_chunkQueue (Node_sendFileChunksAsync (quiet_env 1) ''me'' ''0a'' transfer_meta transfer_sender)"
    by (simp add: me) (simp add: transfer_sender_def sample_peer_def)
  show ?thesis
    by (rule file_arrives[OF disk size kind transfer_paired transfer_ids unseen never queue set_rev,
          unfolded transfer_two two])
qed

section \<open>Deleting a file\<close>

definition ordinary_char :: "char \<Rightarrow> bool" where
  "ordinary_char c \<longleftrightarrow> c \<noteq> CHR ''*'' \<and> c \<noteq> CHR ''?'' \<and> c \<noteq> CHR ''['' \<and> c \<noteq> CHR 0x5C"

lemma parse_glob_ordinary: "list_all ordinary_char s \<Longrightarrow> parse_glob (length s) s = Some (map Lit s)"
  by (induction s) (auto simp: ordinary_char_def)

lemma glob_ordinary: "list_all ordinary_char s \<Longrightarrow> glob_match s x \<longleftrightarrow> x = s"
  using glob_items_lits[of s "[]" x] by (auto simp: glob_match_def parse_glob_ordinary)

lemma glob_path_ordinary: "list_all (list_all ordinary_char) ps \<Longrightarrow> glob_path ps qs \<longleftrightarrow> qs = ps"
proof (induction ps arbitrary: qs)
  case (Cons p ps)
  then show ?case by (cases qs) (auto simp: glob_path_def glob_ordinary)
qed (simp add: glob_path_def)

lemma glob_path_snoc: "glob_path (ps @ [y]) q \<longleftrightarrow> (\<exists>qs x. q = qs @ [x] \<and> glob_path ps qs \<and> glob_match y x)"
proof
  assume "glob_path (ps @ [y]) q"
  then show "\<exists>qs x. q = qs @ [x] \<and> glob_path ps qs \<and> glob_match y x"
    by (auto simp: glob_path_def list_all2_append1 list_all2_Cons1)
qed (auto simp: glob_path_def intro: list_all2_appendI)

lemma glob_files:
  assumes "list_all (list_all ordinary_char) dir" "plain_name i"
  shows "glob_path (files_pattern dir i) q \<longleftrightarrow> (\<exists>ext. q = Node_filesDirPath dir @ [i @ ''.'' @ ext])"
proof -
  have d: "list_all (list_all ordinary_char) (Node_filesDirPath dir)"
    using assms(1) by (simp add: Node_filesDirPath_def ordinary_char_def)
  have "glob_path (files_pattern dir i) q \<longleftrightarrow>
      (\<exists>qs x. q = qs @ [x] \<and> glob_path (Node_filesDirPath dir) qs \<and> glob_match (i @ ''.*'') x)"
    unfolding plain_paths[OF assms(2)] by (rule glob_path_snoc)
  also have "\<dots> \<longleftrightarrow> (\<exists>x. q = Node_filesDirPath dir @ [x] \<and> prefix (i @ ''.'') x)"
    using glob_path_ordinary[OF d] glob_plain[OF assms(2)] by auto
  finally show ?thesis by (auto simp: prefix_def)
qed

lemma remove_messages_exact:
  assumes "mem_inv m"
  obtains k m' where "remove_messages is m = Some (k, m')" "mem_inv m'"
    "set (mem_messages m') = {x \<in> set (mem_messages m). msg_ID x \<notin> set is}"
  using assms
proof (induction "is" arbitrary: m thesis)
  case (Cons i "is")
  obtain b m1 where m1: "Memory_Remove i m = Some (b, m1)" "mem_inv m1"
      "set (mem_messages m1) = {x \<in> set (mem_messages m). msg_ID x \<noteq> i}"
    by (rule Remove_messages[OF Cons.prems(2)])
  obtain k m2 where "remove_messages is m1 = Some (k, m2)" "mem_inv m2"
      "set (mem_messages m2) = {x \<in> set (mem_messages m1). msg_ID x \<notin> set is}"
    by (rule Cons.IH[OF _ m1(2)])
  with m1 Cons.prems(1) show ?case by (auto split: if_splits)
qed simp

lemma same_ID_same:
  assumes "mem_inv m" "x \<in> set (mem_messages m)" "y \<in> set (mem_messages m)" "msg_ID x = msg_ID y"
  shows "x = y"
  using GetByID_Some[OF assms(1)] assms(2-) by (metis option.inject)

text \<open>C22.  Deleting a received or sent file whose ID is a plain name, as the IDs that the node makes are (a
directory without characters of patterns assumed), removes its messages, its files and what the node
remembers of its progress, and nothing else: every other message, every other path of the disk and every
other field of the node is kept, save that a write of the state is scheduled when a message went.\<close>

theorem DeleteFile_exact:
  assumes "node_inv n" "plain_name i" "list_all (list_all ordinary_char) (nd_dir n)"
  shows "\<exists>k n'. Node_DeleteFile i n = Some (k, n') \<and>
    set (Memory_GetAll (nd_memory n')) = {x \<in> set (Memory_GetAll (nd_memory n)). msg_MediaID x \<noteq> i} \<and>
    (\<forall>p. nd_disk n' p =
      (if p = Node_sentDirPath (nd_dir n) @ [i @ ''.bin''] \<or> p = Node_sentDirPath (nd_dir n) @ [i @ ''.bin.meta''] \<or>
          prefix (Node_filesDirPath (nd_dir n) @ [''chunks'', i]) p \<or>
          (\<exists>ext. p = Node_filesDirPath (nd_dir n) @ [i @ ''.'' @ ext])
       then None else nd_disk n p)) \<and>
    n' = n\<lparr>nd_memory := nd_memory n', nd_disk := nd_disk n',
      nd_deliveredCount := (nd_deliveredCount n)(i := None), nd_acceptedCount := (nd_acceptedCount n)(i := None),
      nd_completedFiles := (nd_completedFiles n)(i := False), nd_fileStatusLastPush := (nd_fileStatusLastPush n)(i := None),
      nd_pendingHookAcks := (nd_pendingHookAcks n)(i := None), nd_saveScheduled := nd_saveScheduled n \<or> 0 < k\<rparr>"
proof -
  have inv: "mem_inv (nd_memory n)" by (rule node_invD(1)[OF assms(1)])
  obtain k m' where m': "remove_messages (media_ids i (nd_memory n)) (nd_memory n) = Some (k, m')"
      "set (mem_messages m') = {x \<in> set (mem_messages (nd_memory n)). msg_ID x \<notin> set (media_ids i (nd_memory n))}"
    by (rule remove_messages_exact[OF inv])
  have "set (mem_messages m') = {x \<in> set (mem_messages (nd_memory n)). msg_MediaID x \<noteq> i}"
    using same_ID_same[OF inv] unfolding m'(2) by (auto simp: media_ids_def Memory_GetAll_def)
  moreover have "i \<noteq> []" using assms(2) by (simp add: plain_name_def)
  ultimately show ?thesis
    using glob_files[OF assms(3,2)] m'(1)
    by (simp add: Node_DeleteFile_def Let_def Memory_GetAll_def forget_file_status_def Node_scheduleSaveState_def
        remove_glob_def os_RemoveAll_def os_Remove_def plain_paths[OF assms(2)])
qed

theorem DeleteFile_exact_witness:
  "\<exists>k n'. Node_DeleteFile ''0a'' transfer_sender = Some (k, n') \<and>
    nd_disk n' (Node_sentDirPath [] @ [''0a.bin'']) = None"
proof -
  have "node_inv transfer_sender"
    by (simp add: transfer_sender_def sample_peer_def node_inv_def Node_GetContact_def ContactsStore_Get_def
        contacts_inv_def sample_contact_def)
  moreover have "plain_name ''0a''" by (simp add: plain_name_def plain_char_def)
  moreover have "nd_dir transfer_sender = []" by (simp add: transfer_sender_def sample_peer_def)
  ultimately show ?thesis using DeleteFile_exact[of transfer_sender "''0a''"] by auto
qed

text \<open>C39.  An ID that the node did not make is not checked: any peer can empty the directory of
the node's state with one unencrypted [FILE_ABORT] whose text is a relative path.\<close>

theorem abort_leaves_directory:
  assumes "node_inv n" "nd_host n = Some (msg_Recipient m)" "msg_Type m = TypeFileAbort" "msg_Text m = ''../../..''"
  shows "\<exists>n'. receive_replica e m n = Some n' \<and> (\<forall>p. prefix (nd_dir n) p \<longrightarrow> nd_disk n' p = None)"
proof -
  obtain k m' where "remove_messages (media_ids ''../../..'' (nd_memory n)) (nd_memory n) = Some (k, m')"
    by (rule remove_messages_exact[OF node_invD(1)[OF assms(1)]])
  moreover have "chunks_dir dir ''../../..'' = dir" for dir
    by (simp add: chunks_dir_def Join_def clean_step_def Node_filesDirPath_def butlast_append)
  ultimately obtain n1 where n1: "Node_DeleteFile ''../../..'' n = Some (k, n1)" "\<forall>p. prefix (nd_dir n) p \<longrightarrow> nd_disk n1 p = None"
    by (simp add: Node_DeleteFile_def Let_def forget_file_status_def Node_scheduleSaveState_def remove_glob_def
        os_RemoveAll_def)
  have "isServiceType (msg_Type m)" using assms(3) by (simp add: isServiceType_def message_type_defs)
  moreover have "Node_handleServiceMessage e m n = Node_handleFileAbort e m n"
    using assms(3) by (simp add: Node_handleServiceMessage_def message_type_defs)
  ultimately show ?thesis
    using assms n1 by (simp add: receive_replica_def Node_handleFileAbort_def push_hook_def Let_def split: option.split prod.split)
qed

definition abort_message :: message where
  "abort_message = zero_message\<lparr>msg_ID := ''a'', msg_Type := TypeFileAbort, msg_Text := ''../../..'',
     msg_Sender := ''anyone'', msg_Recipient := ''ali''\<rparr>"

theorem abort_leaves_directory_witness:
  "\<exists>n'. receive_replica (quiet_env 1) abort_message transfer_sender = Some n' \<and> nd_disk n' (Node_sentPath [] ''0a'') = None"
proof -
  have "node_inv transfer_sender" "nd_host transfer_sender = Some (msg_Recipient abort_message)" "nd_dir transfer_sender = []"
    by (simp_all add: transfer_sender_def sample_peer_def node_inv_def Node_GetContact_def ContactsStore_Get_def
        contacts_inv_def sample_contact_def abort_message_def)
  then show ?thesis
    using abort_leaves_directory[of transfer_sender abort_message "quiet_env 1"] by (auto simp: abort_message_def)
qed

end
