(* ===== verification/ServiceSpec.thy ===== *)
theory ServiceSpec
  imports FileSpec
begin

text \<open>
  Receipts, read marks, contacts and relay chains: what they promise and where the code falls
  short of it.
\<close>

section \<open>Read marks\<close>

lemma GetByID_setMessageStatus:
  assumes "mem_inv (nd_memory n)" "i \<noteq> []"
  shows "Memory_GetByID (nd_memory (Node_setMessageStatus i s n)) = (Memory_GetByID (nd_memory n))(i :=
    map_option (\<lambda>x. x\<lparr>msg_Status := status_step s (msg_Status x)\<rparr>) (Memory_GetByID (nd_memory n) i))"
  using GetByID_SetStatus[OF assms(1), of i s] assms(2)
  by (auto simp: Node_setMessageStatus_def Node_scheduleSaveState_def split: prod.split bool.split)

lemma status_step_idem [simp]: "status_step s (status_step s c) = status_step s c"
  by (simp add: status_step_def)

text \<open>\<open>setMessageStatus\<close> for a list of IDs.\<close>

lemma set_all_statuses:
  assumes "mem_inv (nd_memory n)"
  shows "Memory_GetByID (nd_memory (fold (\<lambda>i. Node_setMessageStatus i s) is n)) j =
    map_option (\<lambda>x. if j \<in> set is \<and> j \<noteq> [] then x\<lparr>msg_Status := status_step s (msg_Status x)\<rparr> else x)
      (Memory_GetByID (nd_memory n) j)"
  using assms
proof (induction "is" arbitrary: n)
  case (Cons i "is")
  have inv: "mem_inv (nd_memory (Node_setMessageStatus i s n))"
    using SetStatus_inv(1)[OF Cons.prems, of i s]
    by (auto simp: Node_setMessageStatus_def Node_scheduleSaveState_def Cons.prems split: prod.split bool.split)
  show ?case
  proof (cases "i = []")
    case True
    then have "Node_setMessageStatus i s n = n" by (simp add: Node_setMessageStatus_def)
    then show ?thesis using Cons.IH[OF Cons.prems] True by (cases "j = []") simp_all
  next
    case False
    then show ?thesis
      using Cons.IH[OF inv] GetByID_setMessageStatus[OF Cons.prems False, of s]
      by (cases "Memory_GetByID (nd_memory n) j"; cases "j = i"; cases "i \<in> set is") simp_all
  qed
qed (simp add: option.map_ident)

text \<open>A read mark with an empty reference, from any peer, marks every message that is not part
of a file as read, also those of other conversations.\<close>

theorem empty_reference_reads_all:
  assumes "node_inv n" "nd_host n = Some (msg_Recipient m)" "msg_Type m = TypeRead" "msg_Refs m = [[]]"
    and "x \<in> set (Memory_GetAll (nd_memory n))" "msg_MediaID x = []" "msg_ID x \<noteq> []"
    and "nd_myReadEnabled n" "msg_Status x \<le> StatusDelivered"
  shows "\<exists>n' y. receive_replica e m n = Some n' \<and> Memory_GetByID (nd_memory n') (msg_ID x) = Some y \<and> msg_Status y = StatusRead"
proof -
  note inv = node_invD(1)[OF assms(1)]
  have x: "Memory_GetByID (nd_memory n) (msg_ID x) = Some x"
    using GetByID_Some[OF inv] assms(5) by (simp add: Memory_GetAll_def)
  have id: "msg_ID x \<in> set (media_ids [] (nd_memory n))" using assms(5,6) by (auto simp: media_ids_def)
  define n' where "n' = set_media_status [] StatusRead n"
  have "Node_handleReadRef e [] n = n'"
    using id assms(8) by (auto simp: Node_handleReadRef_def Let_def Node_findMyMessageByID_def start_after_read_def n'_def)
  then have "receive_replica e m n = Some n'"
    using assms(2,3,4) by (simp add: receive_replica_def Node_handleServiceMessage_def Node_handleRead_def message_refs_def
        isServiceType_def message_type_defs)
  moreover have "Memory_GetByID (nd_memory n') (msg_ID x) = Some (x\<lparr>msg_Status := status_step StatusRead (msg_Status x)\<rparr>)"
    using x id assms(7) set_all_statuses[OF inv, of StatusRead "media_ids [] (nd_memory n)" "msg_ID x"]
    by (simp add: n'_def set_media_status_def)
  moreover have "status_step StatusRead (msg_Status x) = StatusRead"
    using assms(9) by (cases "msg_Status x") (auto simp: status_step_def message_status_defs message_status_order)
  ultimately show ?thesis by simp
qed


definition read_all_node :: node where
  "read_all_node = demo_node\<lparr>nd_memory :=
     snd (Memory_Add 1 (zero_message\<lparr>msg_ID := ''x'', msg_Sender := ''bob'', msg_Recipient := ''me''\<rparr>) empty_memory)\<rparr>"

definition empty_read :: message where
  "empty_read = zero_message\<lparr>msg_ID := ''r'', msg_Type := TypeRead, msg_Refs := [[]], msg_Sender := ''ali'', msg_Recipient := ''me''\<rparr>"

theorem empty_reference_reads_all_witness:
  "\<exists>n' y. receive_replica (quiet_env 2) empty_read read_all_node = Some n' \<and>
    Memory_GetByID (nd_memory n') ''x'' = Some y \<and> msg_Status y = StatusRead"
proof -
  define x where "x = with_defaults 1 (zero_message\<lparr>msg_ID := ''x'', msg_Sender := ''bob'', msg_Recipient := ''me''\<rparr>)"
  have "node_inv read_all_node"
    using node_inv_memory[OF demo_node_inv Add_inv(1)[OF mem_inv_empty]] by (simp add: read_all_node_def)
  moreover have "x \<in> set (Memory_GetAll (nd_memory read_all_node))"
    by (simp add: read_all_node_def Memory_Add_def is_expired_def IsZero_def Memory_GetAll_def x_def empty_memory_def
        zero_message_def Let_def)
  moreover have "msg_MediaID x = []" "msg_ID x = ''x''" "msg_Status x \<le> StatusDelivered"
    by (simp_all add: x_def with_defaults_def Let_def zero_message_def message_status_defs message_status_order)
  moreover have "nd_host read_all_node = Some (msg_Recipient empty_read)" "nd_myReadEnabled read_all_node"
      "msg_Type empty_read = TypeRead" "msg_Refs empty_read = [[]]"
    by (simp_all add: read_all_node_def demo_node_def empty_read_def)
  ultimately show ?thesis using empty_reference_reads_all[of read_all_node empty_read x "quiet_env 2"] by simp
qed

section \<open>Receipts of chunks\<close>

lemma handleDelivered_chunk:
  assumes "Node_findMyMessageByID ref n = Some c" "is_chunk c" "msg_MediaID c \<noteq> []"
    and "nd_myReadEnabled n" "Node_getPeerReadEnabled p n"
    and "nd_deliveredCount n (msg_MediaID c) = Some k" "k < msg_ChunkTotal c"
    and n': "n' = Node_handleDeliveredRef e p ref n"
  shows "nd_deliveredCount n' (msg_MediaID c) = Some (k + 1) \<and> nd_memory n' = nd_memory n \<and>
    nd_myReadEnabled n' = nd_myReadEnabled n \<and> nd_contacts n' = nd_contacts n \<and>
    (msg_ChunkTotal c \<le> k + 1 \<longrightarrow> (\<forall>(i, info) \<in> set (nd_unackedChunks n'). ri_mediaID info \<noteq> msg_MediaID c))"
proof -
  have "ref \<noteq> []" using assms(1) by (auto simp: Node_findMyMessageByID_def)
  then show ?thesis
    using assms(1-7)
    by (auto simp: n' Node_handleDeliveredRef_def Let_def own_chunk_def count_delivered_def Node_removePendingByRef_def
        Node_getPeerReadEnabled_def Node_findMyMessageByID_def Node_pushFileStatus_def push_hook_def)
qed

text \<open>A receipt is counted as often as it comes: when the last but one chunk of a file is
acknowledged twice, the file counts as delivered, and the chunk that never arrived is not sent
again.\<close>

theorem repeated_receipt_completes:
  assumes "Node_findMyMessageByID ref n = Some c" "is_chunk c" "msg_MediaID c \<noteq> []"
    and "nd_myReadEnabled n" "Node_getPeerReadEnabled p n"
    and "nd_deliveredCount n (msg_MediaID c) = Some (msg_ChunkTotal c - 2)"
    and n': "n' = Node_handleDeliveredRef e' p ref (Node_handleDeliveredRef e p ref n)"
  shows "nd_deliveredCount n' (msg_MediaID c) = Some (msg_ChunkTotal c) \<and>
    (\<forall>(i, info) \<in> set (nd_unackedChunks n'). ri_mediaID info \<noteq> msg_MediaID c)"
proof -
  define n1 where "n1 = Node_handleDeliveredRef e p ref n"
  have 1: "nd_deliveredCount n1 (msg_MediaID c) = Some (msg_ChunkTotal c - 1)" "nd_memory n1 = nd_memory n"
      "nd_myReadEnabled n1 = nd_myReadEnabled n" "nd_contacts n1 = nd_contacts n"
    using handleDelivered_chunk[OF assms(1-6) _ n1_def] by simp_all
  have "Node_findMyMessageByID ref n1 = Some c" "Node_getPeerReadEnabled p n1" "nd_myReadEnabled n1"
    using 1 assms(1,4,5) by (simp_all add: Node_findMyMessageByID_def Node_getPeerReadEnabled_def split: if_splits)
  from handleDelivered_chunk[OF this(1) assms(2,3) this(3,2) 1(1) _ n'[folded n1_def]] show ?thesis by simp
qed

definition two_chunk_node :: node where
  "two_chunk_node = demo_node\<lparr>nd_deliveredCount := [''m'' \<mapsto> 0],
     nd_memory := snd (Memory_Add 1 (sample_chunk ''a'' 0) empty_memory)\<rparr>"

theorem repeated_receipt_completes_witness:
  "nd_deliveredCount (Node_handleDeliveredRef (quiet_env 3) ''ali'' ''a''
     (Node_handleDeliveredRef (quiet_env 2) ''ali'' ''a'' two_chunk_node)) ''m'' = Some 2"
proof -
  define c where "c = with_defaults 1 (sample_chunk ''a'' 0)"
  have c: "is_chunk c" "msg_MediaID c = ''m''" "msg_ChunkTotal c = 2"
    by (simp_all add: c_def sample_chunk_def with_defaults_def Let_def is_chunk_def isChunkedMediaType_def zero_message_def)
  have "mem_inv (nd_memory two_chunk_node)"
    using Add_inv(1)[OF mem_inv_empty] by (simp add: two_chunk_node_def)
  moreover have "c \<in> set (mem_messages (nd_memory two_chunk_node))" "msg_ID c = ''a''"
    by (simp_all add: two_chunk_node_def Memory_Add_def is_expired_def IsZero_def c_def empty_memory_def
        sample_chunk_def zero_message_def Let_def with_defaults_def)
  ultimately have "Node_findMyMessageByID ''a'' two_chunk_node = Some c"
    by (simp add: Node_findMyMessageByID_def GetByID_Some)
  moreover have "nd_myReadEnabled two_chunk_node" "Node_getPeerReadEnabled ''ali'' two_chunk_node"
      "nd_deliveredCount two_chunk_node ''m'' = Some 0"
    by (simp_all add: two_chunk_node_def demo_node_def Node_getPeerReadEnabled_def ContactsStore_Get_def sample_contact_def)
  ultimately show ?thesis
    using repeated_receipt_completes[of "''a''" two_chunk_node c "''ali''", OF _ _ _ _ _ _ refl, of "quiet_env 3" "quiet_env 2"] c
    by simp
qed

section \<open>Removing a contact\<close>

lemma filter_all_length: "length (filter P xs) = length xs \<Longrightarrow> filter P xs = xs"
  by (metis filter_True length_filter_less less_irrefl)

lemma find_filter: "find P (filter Q xs) = find (\<lambda>x. P x \<and> Q x) xs"
  by (induction xs) auto

text \<open>C24.  Removing a contact forgets it and exactly the messages from and to it, whether the
files can be written or not.\<close>

theorem RemoveContact_purges:
  assumes "node_inv n" "nd_contacts n \<noteq> None"
  shows "\<exists>n'. Node_RemoveContact e p n = Some (True, n') \<and> Node_GetContact p n' = None \<and>
    (\<forall>q. q = p \<or> Node_GetContact q n' = Node_GetContact q n) \<and>
    set (Memory_GetAll (nd_memory n')) =
      {x \<in> set (Memory_GetAll (nd_memory n)). msg_Sender x \<noteq> p \<and> msg_Recipient x \<noteq> p}"
proof -
  obtain cs where cs: "nd_contacts n = Some cs" using assms(2) by blast
  obtain err cs' f' where r: "ContactsStore_Remove p (ev_w_contacts e 0) cs (nd_contacts_file n) = (err, cs', f')"
    by (metis prod_cases3)
  have kept: "cs_contacts cs' = filter (\<lambda>c. con_PeerID c \<noteq> p) (cs_contacts cs)"
    using r filter_all_length[of "\<lambda>c. con_PeerID c \<noteq> p" "cs_contacts cs"]
    by (auto simp: ContactsStore_Remove_def unsaved_def saved_def Let_def split: if_splits)
  define n2 where "n2 = mark_deleted e p (n\<lparr>nd_contacts := Some cs', nd_contacts_file := f'\<rparr>)"
  have n2: "nd_memory n2 = nd_memory n" "nd_contacts n2 = Some cs'"
    by (simp_all add: n2_def mark_deleted_def split: option.split prod.split)
  note inv = node_invD(1)[OF assms(1)]
  obtain k m' where m': "remove_messages (peer_messages p (nd_memory n)) (nd_memory n) = Some (k, m')"
      "set (mem_messages m') = {x \<in> set (mem_messages (nd_memory n)). msg_ID x \<notin> set (peer_messages p (nd_memory n))}"
    by (rule remove_messages_exact[OF inv])
  have "set (mem_messages m') = {x \<in> set (mem_messages (nd_memory n)). msg_Sender x \<noteq> p \<and> msg_Recipient x \<noteq> p}"
    using same_ID_same[OF inv] unfolding m'(2) by (auto simp: peer_messages_def Memory_GetAll_def)
  moreover have "find (\<lambda>c. con_PeerID c = q) (cs_contacts cs') = (if q = p then None else find (\<lambda>c. con_PeerID c = q) (cs_contacts cs))" for q
    by (simp add: kept find_filter) (auto simp: find_None_iff intro!: arg_cong[where f = "\<lambda>P. find P (cs_contacts cs)"])
  ultimately show ?thesis
    using r m'(1) n2
    by (simp add: Node_RemoveContact_def cs Let_def n2_def[symmetric] Node_scheduleSaveState_def Memory_GetAll_def
        Node_GetContact_def ContactsStore_Get_def)
qed

theorem RemoveContact_purges_witness:
  "\<exists>n'. Node_RemoveContact (quiet_env 1) ''ali'' demo_node = Some (True, n') \<and> Node_GetContact ''ali'' n' = None"
proof -
  have "nd_contacts demo_node \<noteq> None" by (simp add: demo_node_def)
  from RemoveContact_purges[OF demo_node_inv this, of "quiet_env 1" "''ali''"] show ?thesis by blast
qed

section \<open>Sending on\<close>

definition only_sends :: "(message \<Rightarrow> bool) \<Rightarrow> node \<Rightarrow> node \<Rightarrow> bool" where
  "only_sends P n n' \<longleftrightarrow> nd_memory n' = nd_memory n \<and> nd_useOnion n' = nd_useOnion n \<and> nd_isRelay n' = nd_isRelay n \<and>
     (\<exists>out. nd_outbox n' = nd_outbox n @ out \<and> list_all (P \<circ> snd) out) \<and>
     (\<exists>q. nd_chunkQueue n' = nd_chunkQueue n @ q \<and> list_all P q) \<and>
     (\<exists>q. nd_pendingMessages n' = nd_pendingMessages n @ q \<and> list_all P q)"

lemma only_sends_trans:
  assumes "only_sends P n n1" "only_sends P n1 n2"
  shows "only_sends P n n2"
proof -
  obtain o1 q1 r1 o2 q2 r2 where
      "nd_outbox n1 = nd_outbox n @ o1" "list_all (P \<circ> snd) o1" "nd_chunkQueue n1 = nd_chunkQueue n @ q1" "list_all P q1"
      "nd_pendingMessages n1 = nd_pendingMessages n @ r1" "list_all P r1"
      "nd_outbox n2 = nd_outbox n1 @ o2" "list_all (P \<circ> snd) o2" "nd_chunkQueue n2 = nd_chunkQueue n1 @ q2" "list_all P q2"
      "nd_pendingMessages n2 = nd_pendingMessages n1 @ r2" "list_all P r2"
    using assms unfolding only_sends_def by blast
  then show ?thesis
    using assms unfolding only_sends_def
    by (intro conjI exI[of _ "o1 @ o2"] exI[of _ "q1 @ q2"] exI[of _ "r1 @ r2"]) simp_all
qed

lemma only_sends_refl [simp]: "only_sends P n n"
  by (simp add: only_sends_def)

lemma only_sends_lookup: "only_sends P n (snd (Node_lookupPeer t p n))"
  by (simp add: Node_lookupPeer_def only_sends_def split: option.split)

lemma only_sends_replica: "P m \<Longrightarrow> only_sends P n (Node_sendReplicaToPeer e p m n)"
  by (simp add: Node_sendReplicaToPeer_def only_sends_def)

lemma only_sends_fallback: "P m \<Longrightarrow> only_sends P n (snd (Node_fallbackSend e p m n))"
  using only_sends_lookup[of P n "ev_now e" p] only_sends_replica[of P m] only_sends_trans
  by (simp add: Node_fallbackSend_def split: prod.split option.split)

lemma only_sends_recipient: "P m \<Longrightarrow> only_sends P n (snd (Node_sendToRecipient e m n))"
  using only_sends_fallback[of P m n e]
  by (simp add: Node_sendToRecipient_def Node_sendWithFallback_def) (simp add: only_sends_def)

lemma only_sends_enqueue: "P m \<Longrightarrow> P (clear_text m) \<Longrightarrow> only_sends P n (Node_enqueuePending m n)"
  by (simp add: Node_enqueuePending_def only_sends_def)

lemma only_sends_find: "only_sends P n (snd (Node_FindPeerByID e p n))"
  using only_sends_lookup[of P n "ev_now e" p]
  by (auto simp: Node_FindPeerByID_def split: prod.split option.split)

lemma only_sends_reachable: "only_sends P n (snd (direct_reachable e p n))"
  using only_sends_find[of P n e p] by (auto simp: direct_reachable_def split: prod.split option.split)

lemma only_sends_sphinx: "only_sends P n (snd (Node_sendViaSphinx e m n))"
proof -
  have "only_sends P n (n1\<lparr>nd_lines := l\<rparr>)" if "only_sends P n n1" for n1 l
    using that by (simp add: only_sends_def)
  then show ?thesis
    using only_sends_reachable[of P n e] by (auto simp: Node_sendViaSphinx_def Let_def split: option.split prod.split bool.split) (metis snd_conv)+
qed

lemma only_sends_addressed: "P m \<Longrightarrow> P (clear_text m) \<Longrightarrow> only_sends P n (replicate_addressed e m n)"
  using only_sends_trans[OF only_sends_recipient only_sends_enqueue] only_sends_recipient
  by (simp add: replicate_addressed_def Let_def) (simp add: only_sends_def)

lemma only_sends_fold: "(\<And>x n. only_sends P n (f x n)) \<Longrightarrow> only_sends P n (fold f xs n)"
proof (induction xs arbitrary: n)
  case (Cons x xs)
  from only_sends_trans[OF Cons.prems Cons.IH[OF Cons.prems]] show ?case by simp
qed simp

lemma only_sends_broadcast: "P m \<Longrightarrow> P (clear_text m) \<Longrightarrow> only_sends P n (replicate_broadcast e m n)"
  by (simp add: replicate_broadcast_def Let_def only_sends_enqueue only_sends_fold only_sends_replica)

lemma only_sends_batch: "only_sends P n (Node_addToBatch t p i x n)"
  by (simp add: Node_addToBatch_def only_sends_def split: prod.split)

lemma only_sends_replicate:
  assumes "P (sent_form m)" "P (clear_text (sent_form m))"
  shows "only_sends P n (Node_replicateMessage e m n)"
proof -
  have "only_sends P n (replicate_addressed e (sent_form m) n1)" if "Node_sendViaSphinx e (sent_form m) n = (b, n1)" for b n1
    using only_sends_trans[OF _ only_sends_addressed[OF assms]] only_sends_sphinx[of P n e "sent_form m"] that by simp
  then show ?thesis
    using only_sends_sphinx[of P n e "sent_form m"]
    by (auto simp: Node_replicateMessage_def Let_def only_sends_batch only_sends_addressed only_sends_broadcast assms
        split: prod.split bool.split)
qed

text \<open>The lines that a step writes: only packets of the message \<open>m\<close>.\<close>

definition only_packets :: "env \<Rightarrow> message \<Rightarrow> node \<Rightarrow> node \<Rightarrow> bool" where
  "only_packets e m n n' \<longleftrightarrow> (\<exists>ls. nd_lines n' = nd_lines n @ ls \<and>
     (\<forall>(p, l) \<in> set ls. \<exists>packet. ev_sphinx_packet e m = Some (p, packet) \<and> l = SPHINX_PREFIX @ ev_base64 e packet))"

lemma only_packets_same: "nd_lines n' = nd_lines n \<Longrightarrow> only_packets e m n n'"
  by (simp add: only_packets_def)

lemma only_packets_then: "only_packets e m n n1 \<Longrightarrow> nd_lines n2 = nd_lines n1 \<Longrightarrow> only_packets e m n n2"
  by (simp add: only_packets_def)

lemma lookupPeer_lines: "Node_lookupPeer t p n = (x, n1) \<Longrightarrow> nd_lines n1 = nd_lines n"
  by (auto simp: Node_lookupPeer_def split: option.splits if_splits)

lemma sendToRecipient_lines: "nd_lines (snd (Node_sendToRecipient e m n)) = nd_lines n"
proof -
  have "nd_lines (snd (Node_fallbackSend e p m n)) = nd_lines n" for p
    by (auto simp: Node_fallbackSend_def Node_sendReplicaToPeer_def dest: lookupPeer_lines split: option.split prod.split)
  then show ?thesis by (simp add: Node_sendToRecipient_def Node_sendWithFallback_def)
qed

lemma addressed_lines: "nd_lines (replicate_addressed e m n) = nd_lines n"
  by (simp add: replicate_addressed_def Let_def sendToRecipient_lines Node_enqueuePending_def)

lemma broadcast_lines: "nd_lines (replicate_broadcast e m n) = nd_lines n"
proof -
  have "nd_lines (fold (\<lambda>p. Node_sendReplicaToPeer e p m) ps n) = nd_lines n" for ps n
    by (induction ps arbitrary: n) (simp_all add: Node_sendReplicaToPeer_def)
  then show ?thesis by (simp add: replicate_broadcast_def Let_def Node_enqueuePending_def)
qed

lemma sphinx_lines: "Node_sendViaSphinx e m n = (b, n1) \<Longrightarrow> only_packets e m n n1"
proof -
  have "nd_lines n1 = nd_lines n" if "direct_reachable e r n = (b, n1)" for r b n1
    using that by (auto simp: direct_reachable_def Node_FindPeerByID_def dest!: lookupPeer_lines
        split: option.splits prod.splits if_splits)
  then show "Node_sendViaSphinx e m n = (b, n1) \<Longrightarrow> only_packets e m n n1"
    by (auto simp: Node_sendViaSphinx_def Let_def only_packets_def split: option.splits prod.splits bool.splits if_splits)
qed

lemma replicate_lines: "only_packets e (sent_form m) n (Node_replicateMessage e m n)"
proof -
  have "only_packets e (sent_form m) n (replicate_addressed e (sent_form m) n1)"
    if "Node_sendViaSphinx e (sent_form m) n = (b, n1)" for b n1
    using only_packets_then[OF sphinx_lines[OF that]] by (simp add: addressed_lines)
  moreover have "nd_lines (Node_addToBatch t p i x n) = nd_lines n" for t p i x
    by (simp add: Node_addToBatch_def split: prod.split)
  ultimately show ?thesis
    using sphinx_lines[of e "sent_form m" n]
    by (auto simp: Node_replicateMessage_def Let_def only_packets_same addressed_lines broadcast_lines split: prod.split bool.split)
qed

text \<open>C23.  \<open>replicateMessage\<close> blanks the field \<open>PlainText\<close> of what leaves it: in every message that it puts
into the outbox, the queue of the chunks or the list of waiting messages the field is empty, and every line
that it writes is a Sphinx packet of a message with the empty field.  (The field \<open>Text\<close> goes out as the caller
made it, and a text that goes into a batch waits open in the buffer.)\<close>

theorem replicate_hides_text:
  "\<exists>out queued later ls. nd_outbox (Node_replicateMessage e m n) = nd_outbox n @ out \<and>
    nd_chunkQueue (Node_replicateMessage e m n) = nd_chunkQueue n @ queued \<and>
    nd_pendingMessages (Node_replicateMessage e m n) = nd_pendingMessages n @ later \<and>
    nd_lines (Node_replicateMessage e m n) = nd_lines n @ ls \<and>
    list_all (\<lambda>x. msg_PlainText x = []) (map snd out @ queued @ later) \<and>
    (\<forall>(p, l) \<in> set ls. \<exists>x packet. msg_PlainText x = [] \<and> ev_sphinx_packet e x = Some (p, packet) \<and>
       l = SPHINX_PREFIX @ ev_base64 e packet)"
proof -
  have "only_sends (\<lambda>x. msg_PlainText x = []) n (Node_replicateMessage e m n)"
    by (rule only_sends_replicate) (simp_all add: sent_form_def clear_text_def)
  then obtain out queued later where "nd_outbox (Node_replicateMessage e m n) = nd_outbox n @ out"
      "nd_chunkQueue (Node_replicateMessage e m n) = nd_chunkQueue n @ queued"
      "nd_pendingMessages (Node_replicateMessage e m n) = nd_pendingMessages n @ later"
      "list_all (\<lambda>x. msg_PlainText x = []) (map snd out @ queued @ later)"
    unfolding only_sends_def by (auto simp: list.pred_map comp_def)
  moreover obtain ls where "nd_lines (Node_replicateMessage e m n) = nd_lines n @ ls"
      "\<forall>(p, l) \<in> set ls. \<exists>packet. ev_sphinx_packet e (sent_form m) = Some (p, packet) \<and> l = SPHINX_PREFIX @ ev_base64 e packet"
    using replicate_lines[of e m n] by (auto simp: only_packets_def)
  moreover have "msg_PlainText (sent_form m) = []" by (simp add: sent_form_def)
  ultimately show ?thesis by blast
qed

text \<open>An own text to a peer that is not connected: it is kept for later, without the open text.\<close>

theorem replicate_hides_text_witness:
  "list_all (\<lambda>x. msg_PlainText x = []) (nd_pendingMessages (Node_replicateMessage (quiet_env 1)
     (zero_message\<lparr>msg_ID := ''i'', msg_Text := ''sealed'', msg_PlainText := ''open'', msg_Recipient := ''bob''\<rparr>) demo_node))"
proof -
  have "nd_pendingMessages demo_node = []" by (simp add: demo_node_def)
  with replicate_hides_text[of "quiet_env 1" "zero_message\<lparr>msg_ID := ''i'', msg_Text := ''sealed'',
    msg_PlainText := ''open'', msg_Recipient := ''bob''\<rparr>" demo_node]
  show ?thesis by auto
qed

section \<open>Relay chains\<close>

lemma SplitN_last: "sep \<notin> set s \<Longrightarrow> 1 < k \<Longrightarrow> SplitN sep k (s @ sep # t) = s # SplitN sep (k - 1) t"
  by (induction s) auto

lemma SplitN_one: "SplitN sep (Suc 0) s = [s]"
  by (cases s) auto

lemma handleStream_line:
  assumes "newline \<notin> set l" "l \<noteq> []" "\<not> ascii_space (hd l)" "\<not> ascii_space (last l)" "length l < 4 * 1024 * 1024"
  shows "stream_message [l @ [newline]] = l"
  using assms by (simp add: stream_message_def strings_TrimSpace_newline)

lemma replicate_memory: "nd_memory (Node_replicateMessage e m n) = nd_memory n"
  using only_sends_replicate[of "\<lambda>_. True" m n e] by (simp add: only_sends_def)

text \<open>The text at the end of a relay chain is not taken out of its obfuscation: the last relay
stores and shows the line it got, although it could read it.\<close>

theorem chain_text_stays_obfuscated:
  assumes laws: "base64_law r" "gcm_law r" "ev_base64 e = ev_base64 r" "ev_gcm_Seal e = ev_gcm_Seal r"
      "ev_gcm_nonce e = ev_gcm_nonce r" "nd_ethHash n = nd_ethHash s"
    and sent: "nd_lines (Node_sendViaRelayChain e [relay] msg s) = nd_lines s @ [(relay, l)]"
    and wire: "newline \<notin> set l" "\<not> ascii_space (last l)" "length l < 4 * 1024 * 1024" "l \<noteq> nd_ethHash n"
    and new: "mem_seen (nd_memory n) (ev_generateMsgID r (Node_obfuscate e s msg)) = None"
  shows "\<exists>n' x. Node_handleStream r [l @ [newline]] peer n = Some ([], n') \<and>
    x \<in> set (Memory_GetAll (nd_memory n')) \<and> msg_Text x = Node_obfuscate e s msg \<and>
    Node_deobfuscate r n (msg_Text x) = Some msg"
proof -
  let ?obf = "Node_obfuscate e s msg"
  have l: "l = ''CHAIN:'' @ '':'' @ ?obf"
    using sent by (simp add: Node_sendViaRelayChain_def Let_def split: if_splits)
  have parts: "SplitN (CHR '':'') 3 l = [''CHAIN'', [], ?obf]"
    using SplitN_last[of "CHR '':''" "''CHAIN''" 3 "'':'' @ ?obf"] SplitN_last[of "CHR '':''" "[]" 2 ?obf]
    by (simp add: l SplitN_one)
  have line: "stream_message [l @ [newline]] = l"
    using wire(1-3) by (intro handleStream_line) (simp_all add: l ascii_space_def)
  define x where "x = relayed_message r n ?obf peer"
  obtain mem where add: "Memory_Add (ev_now r) x (nd_memory n) = (True, mem)"
      "with_defaults (ev_now r) x \<in> set (mem_messages mem)"
    using new by (auto simp: Memory_Add_def Let_def x_def relayed_message_def is_expired_def IsZero_def zero_message_def)
  define n' where "n' = Node_processMessageRelayed r ?obf peer n"
  have "Node_deobfuscate r n l = None"
    by (simp add: Node_deobfuscate_def l OBFUSCATION_PREFIX_def)
  then have "receive_text r peer l n = Some ([], n')"
    using wire(4) parts by (simp add: receive_text_def n'_def l)
  then have "Node_handleStream r [l @ [newline]] peer n = Some ([], n')"
    unfolding Node_handleStream_def Let_def line by (simp add: l line_prefixes)
  moreover have "nd_memory n' = mem"
    using add(1) by (simp add: n'_def Node_processMessageRelayed_def Let_def x_def[symmetric] push_hook_def replicate_memory)
  moreover have "msg_Text (with_defaults (ev_now r) x) = ?obf"
    by (simp add: with_defaults_def Let_def x_def relayed_message_def)
  moreover have "Node_deobfuscate r n ?obf = Some msg"
    using obfuscate_round_trip[OF laws(1,2), of n n msg] laws by (simp add: Node_obfuscate_def)
  ultimately show ?thesis using add(2) by (auto simp: Memory_GetAll_def)
qed

theorem chain_text_stays_obfuscated_witness:
  "\<exists>n' x. Node_handleStream (quiet_env 2) [''CHAIN::[SHUF]nnnnnnnnnnnnih'' @ [newline]] ''ali'' demo_node = Some ([], n') \<and>
    x \<in> set (Memory_GetAll (nd_memory n')) \<and> msg_Text x = ''[SHUF]nnnnnnnnnnnnih''"
proof -
  define e where "e = (quiet_env 1)\<lparr>ev_line := \<lambda>_ _. True\<rparr>"
  have obf: "Node_obfuscate e demo_node ''hi'' = ''[SHUF]nnnnnnnnnnnnih''"
    by (simp add: e_def Node_obfuscate_def OBFUSCATION_PREFIX_def numeral_eq_Suc)
  show ?thesis
    using chain_text_stays_obfuscated[of "quiet_env 2" e demo_node demo_node "''r''" "''hi''"
        "''CHAIN::[SHUF]nnnnnnnnnnnnih''" "''ali''"] obf
    by (simp add: base64_law_def gcm_law_def e_def Node_sendViaRelayChain_def ascii_space_def demo_node_def empty_memory_def)
      blast
qed

end
