(* ===== verification/Retries.thy ===== *)
theory Retries
  imports NodeRun
begin

text \<open>
  The retries of file chunks end: \<open>retryUnacked\<close> counts the attempts of a message and gives it
  up after ten.  The chunk workers, which take the messages that it queues, note a message again and
  keep its count.  When the rounds are far enough apart and the workers empty the queue in between,
  nothing waits and nothing is queued after eleven rounds.  (When the workers do not keep up, a message that was
  given up can still be in the queue, and the worker that takes it starts its count again.)
\<close>

section \<open>One item\<close>

abbreviation waiting :: "node \<Rightarrow> string \<rightharpoonup> retry_info" where
  "waiting n \<equiv> map_of (nd_unackedChunks n)"

definition tried :: "env \<Rightarrow> retry_info \<Rightarrow> retry_info" where
  "tried e info = info\<lparr>ri_attempts := ri_attempts info + 1, ri_lastSent := ev_now e\<rparr>"

text \<open>Every queued message waits for its receipt.\<close>

definition queue_waits :: "node \<Rightarrow> bool" where
  "queue_waits n \<longleftrightarrow> (\<forall>m \<in> set (nd_chunkQueue n). waiting n (msg_ID m) \<noteq> None)"

definition queued_as :: "string \<Rightarrow> node \<Rightarrow> nat" where
  "queued_as i n = length (filter (\<lambda>m. msg_ID m = i) (nd_chunkQueue n))"

text \<open>How often a message is and can still be queued.\<close>

definition sends_left :: "string \<Rightarrow> node \<Rightarrow> nat" where
  "sends_left i n = queued_as i n + (case waiting n i of None \<Rightarrow> 0 | Some info \<Rightarrow> 10 - ri_attempts info)"

lemma restored_ID: "restoreChunkMessage e n info = Some m \<Longrightarrow> msg_ID m = ri_msgID info"
  by (auto simp: restoreChunkMessage_def fillFileChunkFromSent_def Let_def split: if_splits option.splits)

text \<open>An item is dropped, or queued and counted, or kept because the queue is full.\<close>

lemma retry_item_effect:
  assumes w: "waiting n i = Some info" and "ri_msgID info = i" and n': "n' = retry_item e (i, info) n"
  shows "waiting n' = (waiting n)(i := None) \<and> nd_chunkQueue n' = nd_chunkQueue n \<or>
    waiting n' = (waiting n)(i \<mapsto> tried e info) \<and>
      (nd_chunkQueue n' = nd_chunkQueue n \<or> (\<exists>m. msg_ID m = i \<and> nd_chunkQueue n' = nd_chunkQueue n @ [m])) \<or>
    n' = n \<and> \<not> ev_queue_room e i"
proof (cases "restoreChunkMessage e n info")
  case None
  then show ?thesis
    using w by (auto simp: n' retry_item_def Let_def tried_def update_conv' delete_conv')
next
  case (Some m)
  then show ?thesis
    using w restored_ID[OF Some] assms(2) by (auto simp: n' retry_item_def Let_def tried_def update_conv')
qed

lemma retry_item_distinct: "distinct (map fst (nd_unackedChunks n)) \<Longrightarrow> distinct (map fst (nd_unackedChunks (retry_item e x n)))"
  by (auto simp: retry_item_def Let_def distinct_update distinct_delete split: option.split)

lemma retry_item_left:
  assumes "waiting n i = Some info" "ri_msgID info = i" "ri_attempts info < 10"
  shows "sends_left j (retry_item e (i, info) n) \<le> sends_left j n"
proof -
  define n' where "n' = retry_item e (i, info) n"
  consider "waiting n' = (waiting n)(i := None)" "queued_as j n' = queued_as j n"
    | "waiting n' = (waiting n)(i \<mapsto> tried e info)" "queued_as j n' \<le> queued_as j n + (if j = i then 1 else 0)"
    | "n' = n"
    using retry_item_effect[OF assms(1,2) n'_def] by (auto simp: queued_as_def)
  then have "sends_left j n' \<le> sends_left j n"
  proof cases
    case 2
    have "10 - ri_attempts info = Suc (10 - Suc (ri_attempts info))" using assms(3) by simp
    with 2 assms(1) show ?thesis by (simp add: sends_left_def tried_def split: if_splits)
  qed (simp_all add: sends_left_def)
  then show ?thesis by (simp add: n'_def)
qed

section \<open>A round\<close>

lemma map_of_filter_snd:
  "distinct (map fst xs) \<Longrightarrow> map_of (filter (\<lambda>(k, x). P x) xs) k = (case map_of xs k of None \<Rightarrow> None | Some x \<Rightarrow> if P x then Some x else None)"
proof (induction xs)
  case (Cons a xs)
  have "map_of xs (fst a) = None" using Cons.prems by (simp add: map_of_eq_None_iff)
  with Cons show ?case by (cases a) (auto split: option.splits)
qed simp

definition retry_keys :: "node \<Rightarrow> bool" where
  "retry_keys n \<longleftrightarrow> distinct (map fst (nd_unackedChunks n)) \<and> (\<forall>i info. waiting n i = Some info \<longrightarrow> ri_msgID info = i)"

lemma retry_items:
  assumes "retry_keys n" "distinct (map fst items)" "\<forall>(i, info) \<in> set items. waiting n i = Some info \<and> ri_attempts info < 10"
    and "n' = fold (retry_item e) items n"
  shows "retry_keys n' \<and> sends_left j n' \<le> sends_left j n \<and>
    (\<forall>i. i \<notin> fst ` set items \<longrightarrow> waiting n' i = waiting n i) \<and>
    (\<forall>(i, info) \<in> set items. waiting n' i = None \<or> waiting n' i = Some (tried e info) \<or>
       waiting n' i = Some info \<and> \<not> ev_queue_room e i)"
  using assms
proof (induction items arbitrary: n)
  case (Cons a items)
  obtain i info where a: "a = (i, info)" by (cases a)
  have w: "waiting n i = Some info" "ri_attempts info < 10" "ri_msgID info = i"
    using Cons.prems(1,3) by (auto simp: a retry_keys_def)
  define n1 where "n1 = retry_item e a n"
  note eff = retry_item_effect[OF w(1,3), of n1 e, folded a, OF n1_def]
  have other: "waiting n1 j = waiting n j" if "j \<noteq> i" for j using eff that by auto
  have "\<forall>j x. waiting n j = Some x \<longrightarrow> ri_msgID x = j" using Cons.prems(1) by (simp add: retry_keys_def)
  then have "\<forall>j x. waiting n1 j = Some x \<longrightarrow> ri_msgID x = j"
    using eff w(3) by (auto simp: tried_def split: if_splits)
  then have "retry_keys n1"
    using Cons.prems(1) retry_item_distinct[of n e a] by (simp add: retry_keys_def n1_def)
  moreover have "\<forall>(j, x) \<in> set items. waiting n1 j = Some x \<and> ri_attempts x < 10"
  proof (clarify)
    fix j x assume "(j, x) \<in> set items"
    then have "j \<noteq> i" "waiting n j = Some x" "ri_attempts x < 10" using Cons.prems(2,3) by (force simp: a)+
    then show "waiting n1 j = Some x \<and> ri_attempts x < 10" using other by simp
  qed
  moreover have "n' = fold (retry_item e) items n1" using Cons.prems(4) by (simp add: n1_def)
  ultimately have IH: "retry_keys n'" "sends_left j n' \<le> sends_left j n1"
      "\<forall>k. k \<notin> fst ` set items \<longrightarrow> waiting n' k = waiting n1 k"
      "\<forall>(k, x) \<in> set items. waiting n' k = None \<or> waiting n' k = Some (tried e x) \<or> waiting n' k = Some x \<and> \<not> ev_queue_room e k"
    using Cons.IH[of n1] Cons.prems(2) by (blast | simp)+
  have "sends_left j n1 \<le> sends_left j n" using retry_item_left[OF w(1,3,2)] by (simp add: n1_def a)
  then have left: "sends_left j n' \<le> sends_left j n" using IH(2) by (rule order_trans[rotated])
  have "i \<notin> fst ` set items" using Cons.prems(2) by (simp add: a)
  then have "waiting n' i = waiting n1 i" using IH(3) by blast
  then have this_one: "waiting n' i = None \<or> waiting n' i = Some (tried e info) \<or> waiting n' i = Some info \<and> \<not> ev_queue_room e i"
    using eff w(1) by auto
  have "waiting n' k = waiting n k" if "k \<notin> fst ` set (a # items)" for k
    using that IH(3) other by (simp add: a)
  then have same: "\<forall>k. k \<notin> fst ` set (a # items) \<longrightarrow> waiting n' k = waiting n k" by blast
  have "\<forall>(k, x) \<in> set (a # items). waiting n' k = None \<or> waiting n' k = Some (tried e x) \<or>
      waiting n' k = Some x \<and> \<not> ev_queue_room e k"
    using IH(4) this_one by (simp only: list.set ball_simps a prod.case)
  with IH(1) left same show ?case by blast
qed simp

lemma retry_items_queue:
  assumes "retry_keys n" "distinct (map fst items)" "\<forall>(i, info) \<in> set items. waiting n i = Some info \<and> ri_attempts info < 10"
    and "queue_waits n" "\<forall>m \<in> set (nd_chunkQueue n). msg_ID m \<notin> fst ` set items"
  shows "queue_waits (fold (retry_item e) items n)"
  using assms
proof (induction items arbitrary: n)
  case (Cons a items)
  obtain i info where a: "a = (i, info)" by (cases a)
  have w: "waiting n i = Some info" "ri_msgID info = i" using Cons.prems(1,3) by (auto simp: a retry_keys_def)
  define n1 where "n1 = retry_item e a n"
  note eff = retry_item_effect[OF w, of n1 e, folded a, OF n1_def]
  have n1: "n1 = fold (retry_item e) [a] n" by (simp add: n1_def)
  have "retry_keys n1" using retry_items[OF Cons.prems(1) _ _ n1] Cons.prems(3) by simp
  moreover have fresh: "i \<notin> fst ` set items" using Cons.prems(2) by (simp add: a)
  moreover have other: "waiting n1 j = waiting n j" if "j \<noteq> i" for j using eff that by auto
  moreover have "\<forall>(j, x) \<in> set items. waiting n1 j = Some x \<and> ri_attempts x < 10"
  proof (clarify)
    fix j x assume "(j, x) \<in> set items"
    then have "j \<noteq> i" "waiting n j = Some x" "ri_attempts x < 10" using Cons.prems(2,3) by (force simp: a)+
    then show "waiting n1 j = Some x \<and> ri_attempts x < 10" using other by simp
  qed
  moreover have new: "m \<in> set (nd_chunkQueue n) \<and> msg_ID m \<noteq> i \<or> msg_ID m = i \<and> waiting n1 i \<noteq> None"
    if "m \<in> set (nd_chunkQueue n1)" for m
    using eff that Cons.prems(5) w(1) by (auto simp: a)
  then have "queue_waits n1" using Cons.prems(4) other unfolding queue_waits_def by metis
  moreover have "\<forall>m \<in> set (nd_chunkQueue n1). msg_ID m \<notin> fst ` set items"
    using new fresh Cons.prems(5) by fastforce
  ultimately show ?case using Cons.IH[of n1] Cons.prems(2) by (simp add: n1_def)
qed simp

lemma retry_round:
  assumes keys: "retry_keys n" and n': "n' = Node_retryUnacked e n"
  shows "retry_keys n'" "sends_left j n' \<le> sends_left j n" "nd_chunkQueue n = [] \<Longrightarrow> queue_waits n'"
    and "waiting n' i = Some info' \<Longrightarrow> \<exists>info. waiting n i = Some info \<and> \<not> given_up info \<and>
      (info' = info \<and> (\<not> retry_due (ev_now e) info \<or> \<not> ev_queue_room e i) \<or> info' = tried e info)"
proof -
  define items where "items = filter (\<lambda>(i, info). retry_due (ev_now e) info) (nd_unackedChunks n)"
  define n1 where "n1 = n\<lparr>nd_unackedChunks := filter (\<lambda>(i, info). \<not> given_up info) (nd_unackedChunks n)\<rparr>"
  have fold: "n' = fold (retry_item e) items n1"
    by (simp add: n' Node_retryUnacked_def retry_collect_def items_def n1_def)
  have dist: "distinct (map fst (nd_unackedChunks n))" using keys by (simp add: retry_keys_def)
  have w1: "waiting n1 k = (case waiting n k of None \<Rightarrow> None | Some x \<Rightarrow> if given_up x then None else Some x)" for k
    using map_of_filter_snd[OF dist, of "\<lambda>x. \<not> given_up x" k] by (simp add: n1_def split: option.split)
  have keys1: "retry_keys n1"
    using keys w1 by (auto simp: retry_keys_def n1_def distinct_map_filter split: option.splits if_splits)
  have di: "distinct (map fst items)" using dist by (simp add: items_def distinct_map_filter)
  have it: "\<forall>(k, x) \<in> set items. waiting n1 k = Some x \<and> ri_attempts x < 10"
    using dist by (auto simp: items_def w1 retry_due_def given_up_def retryBackoff_def)
  note R = retry_items[OF keys1 di it fold]
  show "retry_keys n'" using R by blast
  show "nd_chunkQueue n = [] \<Longrightarrow> queue_waits n'"
    using retry_items_queue[OF keys1 di it, of e] by (simp add: fold queue_waits_def n1_def)
  have "sends_left j n1 \<le> sends_left j n"
    using w1[of j] by (auto simp: sends_left_def queued_as_def n1_def split: option.splits if_splits)
  then show "sends_left j n' \<le> sends_left j n" using R order_trans by blast
  show "\<exists>info. waiting n i = Some info \<and> \<not> given_up info \<and>
      (info' = info \<and> (\<not> retry_due (ev_now e) info \<or> \<not> ev_queue_room e i) \<or> info' = tried e info)"
    if s: "waiting n' i = Some info'"
  proof (cases "i \<in> fst ` set items")
    case True
    then obtain info where info: "(i, info) \<in> set items" by auto
    then have "info' = tried e info \<or> info' = info \<and> \<not> ev_queue_room e i" using R s by fastforce
    moreover have "waiting n i = Some info" "\<not> given_up info"
      using info dist by (auto simp: items_def retry_due_def)
    ultimately show ?thesis by blast
  next
    case False
    then have "waiting n1 i = Some info'" using R s by simp
    then have "waiting n i = Some info'" "\<not> given_up info'" using w1[of i] by (auto split: option.splits if_splits)
    moreover from this(1) have "\<not> retry_due (ev_now e) info'" using False by (force simp: items_def dest: map_of_SomeD)
    ultimately show ?thesis by blast
  qed
qed

text \<open>However often the node retries before a worker comes, a message that waits for its receipt is
queued at most ten times more.\<close>

lemma rounds_left: "retry_keys n \<Longrightarrow> sends_left i (fold Node_retryUnacked es n) \<le> sends_left i n"
proof (induction es arbitrary: n)
  case (Cons e es)
  show ?case
    using Cons.IH[OF retry_round(1)[OF Cons.prems refl]] retry_round(2)[OF Cons.prems refl] order_trans
    by simp blast
qed simp

lemma retries_bounded: "retry_keys n \<Longrightarrow> queued_as i (fold Node_retryUnacked es n) \<le> queued_as i n + 10"
  using rounds_left[of n i es] by (auto simp: sends_left_def split: option.splits)

section \<open>The workers\<close>

text \<open>A worker takes the first message of the queue.\<close>

definition worker_turn :: "env \<Rightarrow> node \<Rightarrow> node" where
  "worker_turn e n = (case nd_chunkQueue n of [] \<Rightarrow> n | m # ms \<Rightarrow> Node_chunkWorker e m (n\<lparr>nd_chunkQueue := ms\<rparr>))"

definition same_queue :: "node \<Rightarrow> node \<Rightarrow> bool" where
  "same_queue n n' \<longleftrightarrow> nd_chunkQueue n' = nd_chunkQueue n \<and> nd_unackedChunks n' = nd_unackedChunks n \<and> nd_disk n' = nd_disk n"

lemma lookupPeer_queue: "Node_lookupPeer t p n = (x, n1) \<Longrightarrow> same_queue n n1"
  by (auto simp: Node_lookupPeer_def same_queue_def split: option.splits if_splits)

lemma fallbackSend_queue: "same_queue n (snd (Node_fallbackSend e p m n))"
  by (auto simp: Node_fallbackSend_def Node_sendReplicaToPeer_def same_queue_def dest: lookupPeer_queue[unfolded same_queue_def]
      split: option.split prod.split)

lemma sendToRecipient_queue: "same_queue n (snd (Node_sendToRecipient e m n))"
  using fallbackSend_queue[of n] by (simp add: Node_sendToRecipient_def Node_sendWithFallback_def) (simp add: same_queue_def)

lemma reachable_queue: "direct_reachable e p n = (b, n1) \<Longrightarrow> same_queue n n1"
  by (auto simp: direct_reachable_def Node_FindPeerByID_def same_queue_def dest!: lookupPeer_queue[unfolded same_queue_def]
      split: option.splits prod.splits if_splits)

lemma sendViaSphinx_queue: "Node_sendViaSphinx e m n = (b, n1) \<Longrightarrow> same_queue n n1"
  by (auto simp: Node_sendViaSphinx_def Let_def same_queue_def dest!: reachable_queue[unfolded same_queue_def]
      split: option.splits prod.splits bool.splits if_splits)

text \<open>What a worker leaves is what it registered.\<close>

lemma chunkWorker_queue:
  "same_queue (if nd_isRelay n then n else case chunkWorker_register e m n of None \<Rightarrow> n | Some (m1, n1) \<Rightarrow> n1) (Node_chunkWorker e m n)"
proof -
  have "same_queue n1 (snd (Node_sendToRecipient e m1 n2))" if "same_queue n1 n2" for n1 n2 m1
    using that sendToRecipient_queue[of n2 e m1] by (simp add: same_queue_def)
  moreover have "same_queue n n" by (simp add: same_queue_def)
  ultimately show ?thesis
    using sendToRecipient_queue by (auto simp: Node_chunkWorker_def dest: sendViaSphinx_queue split: option.split prod.split bool.split)
qed

lemma worker_turn_disk: "nd_disk (worker_turn e n) = nd_disk n"
proof (cases "nd_chunkQueue n")
  case (Cons m ms)
  then show ?thesis
    using chunkWorker_queue[of "n\<lparr>nd_chunkQueue := ms\<rparr>" e m]
    by (auto simp: worker_turn_def same_queue_def chunkWorker_register_def Let_def split: if_splits)
qed (simp add: worker_turn_def)

lemma register_effect:
  assumes "\<not> nd_aborted n (msg_MediaID m)"
  obtains m1 info' where
    "chunkWorker_register e m n = Some (m1, n\<lparr>nd_unackedChunks := AList.update (msg_ID m) info' (nd_unackedChunks n)\<rparr>)"
    "ri_lastSent info' = ev_now e" "ri_msgID info' = msg_ID m"
    "\<And>info. waiting n (msg_ID m) = Some info \<Longrightarrow> ri_lastSent info \<noteq> 0 \<Longrightarrow> ri_attempts info' = ri_attempts info"
proof -
  obtain m1 n1 where r: "chunkWorker_register e m n = Some (m1, n1)"
    using assms by (simp add: chunkWorker_register_def Let_def)
  define info' where "info' = the (waiting n1 (msg_ID m))"
  have n1: "n1 = n\<lparr>nd_unackedChunks := AList.update (msg_ID m) info' (nd_unackedChunks n)\<rparr>"
    using r assms by (auto simp: chunkWorker_register_def Let_def info'_def update_conv')
  have "ri_lastSent info' = ev_now e" "ri_msgID info' = msg_ID m"
    using r assms by (auto simp: chunkWorker_register_def Let_def info'_def update_conv')
  moreover have "ri_attempts info' = ri_attempts info" if "waiting n (msg_ID m) = Some info" "ri_lastSent info \<noteq> 0" for info
    using r assms that by (auto simp: chunkWorker_register_def Let_def info'_def update_conv' IsZero_def)
  ultimately show thesis using that r n1 by blast
qed

lemma worker_turn_effect:
  assumes keys: "retry_keys n" and n': "n' = worker_turn e n"
  shows "retry_keys n'" "nd_chunkQueue n' = tl (nd_chunkQueue n)"
    and "waiting n' i = waiting n i \<or>
      (\<exists>info'. waiting n' i = Some info' \<and> ri_lastSent info' = ev_now e \<and> i \<in> msg_ID ` set (nd_chunkQueue n) \<and>
        (\<forall>info. waiting n i = Some info \<and> ri_lastSent info \<noteq> 0 \<longrightarrow> ri_attempts info' = ri_attempts info))"
proof -
  have "retry_keys n' \<and> nd_chunkQueue n' = tl (nd_chunkQueue n) \<and> (waiting n' i = waiting n i \<or>
      (\<exists>info'. waiting n' i = Some info' \<and> ri_lastSent info' = ev_now e \<and> i \<in> msg_ID ` set (nd_chunkQueue n) \<and>
        (\<forall>info. waiting n i = Some info \<and> ri_lastSent info \<noteq> 0 \<longrightarrow> ri_attempts info' = ri_attempts info)))"
  proof (cases "nd_chunkQueue n")
    case Nil
    then show ?thesis using keys by (simp add: n' worker_turn_def)
  next
    case (Cons m ms)
    let ?n = "n\<lparr>nd_chunkQueue := ms\<rparr>"
    have q: "same_queue (if nd_isRelay ?n then ?n else case chunkWorker_register e m ?n of None \<Rightarrow> ?n | Some (m1, n1) \<Rightarrow> n1) n'"
      using chunkWorker_queue[of ?n e m] by (simp add: n' worker_turn_def Cons)
    show ?thesis
    proof (cases "nd_isRelay n \<or> nd_aborted n (msg_MediaID m)")
      case True
      then have "same_queue ?n n'" using q by (auto simp: chunkWorker_register_def split: if_splits)
      then show ?thesis using keys by (simp add: same_queue_def retry_keys_def Cons)
    next
      case False
      then have "\<not> nd_aborted ?n (msg_MediaID m)" by simp
      then obtain m1 info' where "chunkWorker_register e m ?n =
            Some (m1, ?n\<lparr>nd_unackedChunks := AList.update (msg_ID m) info' (nd_unackedChunks ?n)\<rparr>)"
          and info': "ri_lastSent info' = ev_now e" "ri_msgID info' = msg_ID m"
            "\<And>info. waiting n (msg_ID m) = Some info \<Longrightarrow> ri_lastSent info \<noteq> 0 \<Longrightarrow> ri_attempts info' = ri_attempts info"
        by (rule register_effect[of ?n m e]) auto
      with q False have "nd_unackedChunks n' = AList.update (msg_ID m) info' (nd_unackedChunks n)" "nd_chunkQueue n' = ms"
        by (simp_all add: same_queue_def)
      then show ?thesis using keys info'
        by (auto simp: retry_keys_def update_conv' distinct_update Cons)
    qed
  qed
  then show "retry_keys n'" "nd_chunkQueue n' = tl (nd_chunkQueue n)"
    "waiting n' i = waiting n i \<or> (\<exists>info'. waiting n' i = Some info' \<and> ri_lastSent info' = ev_now e \<and>
      i \<in> msg_ID ` set (nd_chunkQueue n) \<and>
      (\<forall>info. waiting n i = Some info \<and> ri_lastSent info \<noteq> 0 \<longrightarrow> ri_attempts info' = ri_attempts info))"
    by blast+
qed

text \<open>The state between two rounds: after \<open>k\<close> of them, everything that waits was tried \<open>k\<close> times and not after \<open>t\<close>.\<close>

definition tried_times :: "nat \<Rightarrow> time \<Rightarrow> node \<Rightarrow> bool" where
  "tried_times k t n \<longleftrightarrow> retry_keys n \<and> (0 < k \<longrightarrow> queue_waits n) \<and>
     (\<forall>i info. waiting n i = Some info \<longrightarrow> k \<le> ri_attempts info \<and> ri_lastSent info \<le> t \<and> (0 < k \<longrightarrow> ri_lastSent info \<noteq> 0))"

lemma worker_tried:
  assumes inv: "tried_times k t n" and e: "0 < ev_now e" "ev_now e \<le> t"
  shows "tried_times k t (worker_turn e n)"
proof -
  define n' where "n' = worker_turn e n"
  have keys: "retry_keys n" using inv by (simp add: tried_times_def)
  note eff = worker_turn_effect[OF keys n'_def]
  have some: "waiting n' i \<noteq> None" if "waiting n i \<noteq> None" for i using eff(3)[of i] that by auto
  have "set (tl xs) \<subseteq> set xs" for xs :: "message list" by (cases xs) auto
  then have "queue_waits n'" if "0 < k"
    using that inv some unfolding tried_times_def queue_waits_def eff(2) by blast
  moreover have "k \<le> ri_attempts info \<and> ri_lastSent info \<le> t \<and> (0 < k \<longrightarrow> ri_lastSent info \<noteq> 0)" if w: "waiting n' i = Some info" for i info
  proof (cases "waiting n' i = waiting n i")
    case True
    then show ?thesis using w inv by (simp add: tried_times_def)
  next
    case False
    then have new: "ri_lastSent info = ev_now e" "i \<in> msg_ID ` set (nd_chunkQueue n)"
        "\<And>x. waiting n i = Some x \<Longrightarrow> ri_lastSent x \<noteq> 0 \<Longrightarrow> ri_attempts info = ri_attempts x"
      using eff(3)[of i] w by auto
    have "k \<le> ri_attempts info"
    proof (cases "k = 0")
      case False
      then obtain x where "waiting n i = Some x" using inv new(2) by (auto simp: tried_times_def queue_waits_def)
      then show ?thesis using inv new(3) False by (auto simp: tried_times_def)
    qed simp
    then show ?thesis using e new(1) by simp
  qed
  ultimately show ?thesis using eff(1) by (simp add: tried_times_def n'_def)
qed

lemma workers_tried:
  assumes "tried_times k t n" "\<forall>e \<in> set ws. 0 < ev_now e \<and> ev_now e \<le> t"
  shows "tried_times k t (fold worker_turn ws n)" "nd_chunkQueue (fold worker_turn ws n) = drop (length ws) (nd_chunkQueue n)"
  using assms
proof (induction ws arbitrary: n)
  case (Cons e ws)
  {
    case 1
    then show ?case using Cons.IH(1)[of "worker_turn e n"] worker_tried[of k t n e] by simp
  next
    case 2
    then have "nd_chunkQueue (worker_turn e n) = tl (nd_chunkQueue n)"
      using worker_turn_effect(2)[OF _ refl] by (simp add: tried_times_def)
    then show ?case using 2 Cons.IH(2)[of "worker_turn e n"] worker_tried[of k t n e] by (simp add: drop_Suc)
  }
qed simp_all

section \<open>Rounds\<close>

text \<open>Before a round the workers have turns.\<close>

definition retry_turns :: "env list \<times> env \<Rightarrow> node \<Rightarrow> node" where
  "retry_turns r n = Node_retryUnacked (snd r) (fold worker_turn (fst r) n)"

definition retry_rounds :: "(env list \<times> env) list \<Rightarrow> node \<Rightarrow> node" where
  "retry_rounds rs n = fold retry_turns rs n"

text \<open>
  The workers empty the queue after the last round (at the time \<open>t\<close>) and at least ten minutes before
  the next one, and the queue has room for what it adds.
\<close>

fun rounds_apart :: "time \<Rightarrow> (env list \<times> env) list \<Rightarrow> node \<Rightarrow> bool" where
  "rounds_apart t [] n \<longleftrightarrow> True"
| "rounds_apart t ((ws, e) # rs) n \<longleftrightarrow> length (nd_chunkQueue n) \<le> length ws \<and>
     list_all (\<lambda>w. t \<le> ev_now w \<and> 0 < ev_now w \<and> ev_now w + 10 * Minute \<le> ev_now e) ws \<and> t + 10 * Minute \<le> ev_now e \<and>
     ev_queue_room e = (\<lambda>_. True) \<and> rounds_apart (ev_now e) rs (retry_turns (ws, e) n)"

lemma due_after_ten: "lastSent \<le> t \<Longrightarrow> t + 10 * Minute \<le> now \<Longrightarrow> k < 10 \<Longrightarrow> \<not> time_Sub now lastSent < retryBackoff ! k"
proof -
  assume a: "lastSent \<le> t" "t + 10 * Minute \<le> now" "k < 10"
  have "k \<in> {0..<10}" using a(3) by simp
  moreover have "{0..<10} = {0, 1, 2, 3, 4, 5, 6, 7, 8, 9 :: nat}" by auto
  ultimately have "retryBackoff ! k \<le> 10 * Minute"
    by (auto simp: retryBackoff_def Minute_def Second_def)
  moreover have "10 * Minute \<le> time_Sub now lastSent"
    using a(1,2) by (simp add: time_Sub_def Minute_def Second_def max_int64_def min_int64_def)
  ultimately show ?thesis by simp
qed

lemma round_tried:
  assumes inv: "tried_times k t n" and "0 \<le> t" and apart: "rounds_apart t [(ws, e)] n"
  shows "tried_times (Suc k) (ev_now e) (retry_turns (ws, e) n)"
    and "\<forall>i info. waiting (retry_turns (ws, e) n) i = Some info \<longrightarrow> ri_attempts info \<le> 10"
proof -
  define t1 where "t1 = ev_now e - 10 * Minute"
  define n1 where "n1 = fold worker_turn ws n"
  define n2 where "n2 = Node_retryUnacked e n1"
  have t: "t \<le> t1" "0 < ev_now e" using apart assms(2) by (auto simp: t1_def Minute_def Second_def)
  have "tried_times k t1 n" using inv t(1) by (force simp: tried_times_def)
  moreover have "\<forall>w \<in> set ws. 0 < ev_now w \<and> ev_now w \<le> t1"
  proof
    fix w assume "w \<in> set ws"
    then have "0 < ev_now w \<and> ev_now w + 10 * Minute \<le> ev_now e" using apart by (simp add: list_all_iff)
    then show "0 < ev_now w \<and> ev_now w \<le> t1" by (simp add: t1_def)
  qed
  ultimately have n1: "tried_times k t1 n1" "nd_chunkQueue n1 = []"
    using workers_tried[of k t1 n ws] apart by (simp_all add: n1_def)
  have keys: "retry_keys n1" using n1(1) by (simp add: tried_times_def)
  have w: "Suc k \<le> ri_attempts x \<and> ri_lastSent x = ev_now e \<and> ri_attempts x \<le> 10" if wx: "waiting n2 j = Some x" for j x
  proof -
    obtain y where y: "waiting n1 j = Some y" "\<not> given_up y"
        "x = y \<and> (\<not> retry_due (ev_now e) y \<or> \<not> ev_queue_room e j) \<or> x = tried e y"
      using retry_round(4)[OF keys n2_def wx] by blast
    have lt: "ri_attempts y < 10" using y(2) by (simp add: given_up_def retryBackoff_def)
    have "k \<le> ri_attempts y" "ri_lastSent y \<le> t1" using n1(1) y(1) by (auto simp: tried_times_def)
    moreover have "retry_due (ev_now e) y"
      using due_after_ten[of _ t1 "ev_now e"] y(2) lt calculation(2) by (simp add: retry_due_def t1_def)
    moreover have "ev_queue_room e j" using apart by simp
    ultimately show ?thesis using y(3) lt by (auto simp: tried_def)
  qed
  have "retry_keys n2" "queue_waits n2" using retry_round(1,3)[OF keys n2_def] n1(2) by simp_all
  then have "tried_times (Suc k) (ev_now e) n2" using w t(2) by (auto simp: tried_times_def)
  then show "tried_times (Suc k) (ev_now e) (retry_turns (ws, e) n)" by (simp add: retry_turns_def n1_def n2_def)
  show "\<forall>i info. waiting (retry_turns (ws, e) n) i = Some info \<longrightarrow> ri_attempts info \<le> 10"
    using w by (simp add: retry_turns_def n1_def n2_def)
qed

lemma rounds_attempts:
  assumes "tried_times k t n" "0 \<le> t" "rounds_apart t rs n" "rs \<noteq> []"
  shows "queue_waits (retry_rounds rs n) \<and>
    (\<forall>i info. waiting (retry_rounds rs n) i = Some info \<longrightarrow> k + length rs \<le> ri_attempts info \<and> ri_attempts info \<le> 10)"
  using assms
proof (induction rs arbitrary: n t k)
  case (Cons r rs)
  obtain ws e where r: "r = (ws, e)" by (cases r)
  define n1 where "n1 = retry_turns (ws, e) n"
  have one: "rounds_apart t [(ws, e)] n" "rounds_apart (ev_now e) rs n1" using Cons.prems(3) by (simp_all add: r n1_def)
  note T = round_tried[OF Cons.prems(1,2) one(1), folded n1_def]
  show ?case
  proof (cases "rs = []")
    case True
    then show ?thesis using T by (simp add: retry_rounds_def r n1_def[symmetric] tried_times_def)
  next
    case False
    have "0 \<le> ev_now e" using one(1) Cons.prems(2) by (simp add: Minute_def Second_def)
    then show ?thesis using Cons.IH[OF T(1) _ one(2) False] by (simp add: retry_rounds_def r n1_def)
  qed
qed simp


text \<open>A text waits and a chunk is queued; the disk is empty, so neither can be restored for a retry.\<close>

definition waiting_node :: node where
  "waiting_node = demo_node\<lparr>nd_unackedChunks := [(''i'', zero_retry\<lparr>ri_msgID := ''i'', ri_mediaID := ''0a'',
     ri_recipient := ''ali''\<rparr>)], nd_chunkQueue := [zero_message\<lparr>msg_ID := ''j'', msg_MediaType := ''file'', msg_MediaID := ''m'',
     msg_ChunkTotal := 2, msg_Recipient := ''ali''\<rparr>]\<rparr>"

lemma waiting_node_keys: "retry_keys waiting_node" "\<forall>info \<in> ran (waiting waiting_node). ri_lastSent info \<le> 0"
  by (simp_all add: retry_keys_def waiting_node_def zero_retry_def ran_def)

definition nothing_to_send :: "node \<Rightarrow> bool" where
  "nothing_to_send n \<longleftrightarrow> nd_chunkQueue n = [] \<and> nd_disk n = Map.empty"

lemma nothing_to_retry: "nothing_to_send n \<Longrightarrow> nothing_to_send (Node_retryUnacked e n)"
proof -
  have "nothing_to_send (retry_item e x n)" if "nothing_to_send n" for x n
    using that by (auto simp: nothing_to_send_def retry_item_def restoreChunkMessage_def fillFileChunkFromSent_def Let_def split: option.split)
  then have "nothing_to_send (fold (retry_item e) items n)" if "nothing_to_send n" for items n
    using that by (induction items arbitrary: n) simp_all
  then show "nothing_to_send n \<Longrightarrow> nothing_to_send (Node_retryUnacked e n)"
    by (simp add: Node_retryUnacked_def retry_collect_def nothing_to_send_def)
qed

definition every_ten_minutes :: "nat list \<Rightarrow> (env list \<times> env) list" where
  "every_ten_minutes ks = map (\<lambda>k. ([], quiet_env (int k * 10 * Minute))) ks"

lemma ten_minutes_apart: "nothing_to_send n \<Longrightarrow> rounds_apart (int i * 10 * Minute) (every_ten_minutes [Suc i..<j]) n"
proof (induction "j - Suc i" arbitrary: i n)
  case 0
  then show ?case by (simp add: every_ten_minutes_def)
next
  case (Suc d)
  then have "[Suc i..<j] = Suc i # [Suc (Suc i)..<j]" by (simp add: upt_conv_Cons)
  moreover have "rounds_apart (int (Suc i) * 10 * Minute) (every_ten_minutes [Suc (Suc i)..<j])
      (Node_retryUnacked (quiet_env (int (Suc i) * 10 * Minute)) n)"
    using Suc by (intro Suc.hyps(1) nothing_to_retry) simp_all
  ultimately show ?case using Suc.prems
    by (simp add: every_ten_minutes_def retry_turns_def nothing_to_send_def algebra_simps)
qed


end
