(* ===== verification/State.thy ===== *)
theory State
  imports NodeRun
begin

text \<open>
  node/state.go and the start and stop of the node in node/node.go: what is saved and loaded
  (\<open>saveState\<close>, \<open>loadState\<close>, the queue of waiting messages), the cleanup of the first start, the
  key files, and \<open>InitP2P\<close>, which puts them together.

  The files are those of the disk of the node, in the directory of the state file.  JSON, gzip,
  the key generators and libp2p are the record \<open>state_lib\<close>; AES-GCM is the one of the
  environment.
\<close>

section \<open>Parameters\<close>

record State =
  st_Layers :: layers
  st_MsgCount :: int
  st_Messages :: "message list"
  st_Seen :: "string \<rightharpoonup> bool"
  st_PreHash :: string
  st_AntiHash :: string
  st_RoutingTable :: "string list"

text \<open>The anonymous struct that \<open>loadState\<close> parses: no \<open>Seen\<close>, but the statuses of an older version.\<close>

record loaded_state =
  ld_Messages :: "message list"
  ld_Layers :: layers
  ld_MsgCount :: int
  ld_PreHash :: string
  ld_AntiHash :: string
  ld_RoutingTable :: "string list"
  ld_MessageStatus :: "string \<rightharpoonup> message_status"

text \<open>
  \<open>sl_write\<close> says whether a file can be written; a failing write leaves the old content.
  \<open>sl_gen_ed25519\<close>, \<open>sl_gen_x25519\<close> and \<open>sl_rsa\<close> are what the key generators return, and
  \<open>sl_host\<close> is the peer ID of the host that \<open>libp2p.New\<close> makes of an identity key.
\<close>

record state_lib =
  sl_name :: string
  sl_password :: string
  sl_json :: "State \<Rightarrow> string"
  sl_parse :: "string \<Rightarrow> loaded_state option"
  sl_gzip :: "string \<Rightarrow> string"
  sl_gunzip :: "string \<Rightarrow> string option"
  sl_queue_json :: "message list \<Rightarrow> string"
  sl_queue_parse :: "string \<Rightarrow> message list option"
  sl_write :: "path \<Rightarrow> bool"
  sl_routing :: "string list"
  sl_local_date :: string
  sl_local_now :: string
  sl_seed_ed25519 :: "(string \<times> string) option"
  sl_seed_x25519 :: "(string \<times> string) option"
  sl_seedPhrase :: string
  sl_gen_ed25519 :: "(string \<times> string) option"
  sl_gen_x25519 :: "(string \<times> string) option"
  sl_public :: "string \<Rightarrow> string"
  sl_derive :: "string \<Rightarrow> string option"
  sl_settings_file :: "settings_file file_content"
  sl_rsa :: string
  sl_host :: "string \<Rightarrow> string option"

definition state_path :: "state_lib \<Rightarrow> node \<Rightarrow> string \<Rightarrow> path" where
  "state_path L n ext = nd_dir n @ [sl_name L @ ext]"

text \<open>\<open>os.WriteFile\<close>\<close>

definition write_file :: "state_lib \<Rightarrow> path \<Rightarrow> string \<Rightarrow> node \<Rightarrow> bool \<times> node" where
  "write_file L p data n =
     (if sl_write L p then (True, n\<lparr>nd_disk := (nd_disk n)(p \<mapsto> data)\<rparr>) else (False, n))"

section \<open>Encryption of the file\<close>

definition encryptData :: "env \<Rightarrow> string \<Rightarrow> string \<Rightarrow> string" where
  "encryptData e data password = ev_gcm_nonce e data @ ev_gcm_Seal e password (ev_gcm_nonce e data) data"

definition decryptData :: "env \<Rightarrow> string \<Rightarrow> string \<Rightarrow> string option" where
  "decryptData e data password =
     (if length data < 12 then None else ev_gcm_Open e password (take 12 data) (drop 12 data))"

section \<open>Saving\<close>

definition kept_message :: "message \<Rightarrow> message" where
  "kept_message m = (if msg_MediaType m = ''file'' \<and> 0 < msg_ChunkTotal m then clear_text m else m)"

definition state_of :: "env \<Rightarrow> state_lib \<Rightarrow> node \<Rightarrow> State" where
  "state_of e L n =
     \<lparr>st_Layers = nd_layers n, st_MsgCount = nd_msgCount n,
      st_Messages = map kept_message (filter (\<lambda>m. \<not> is_expired (ev_now e) m) (Memory_GetAll (nd_memory n))),
      st_Seen = Memory_GetSeenCopy (nd_memory n), st_PreHash = nd_preHash n, st_AntiHash = nd_antiHash n,
      st_RoutingTable = sl_routing L\<rparr>"

definition Node_saveState :: "env \<Rightarrow> state_lib \<Rightarrow> node \<Rightarrow> bool \<times> node" where
  "Node_saveState e L n =
     (if sl_name L = [] then (True, n)
      else let data = sl_gzip L (sl_json L (state_of e L n));
               data1 = (if sl_password L \<noteq> [] then encryptData e data (sl_password L) else data)
           in write_file L (state_path L n []) data1 n)"

section \<open>Loading\<close>

definition gzip_magic :: string where "gzip_magic = [CHR 0x1F, CHR 0x8B]"

definition Node_loadStateData :: "env \<Rightarrow> state_lib \<Rightarrow> node \<Rightarrow> string option" where
  "Node_loadStateData e L n =
     (case nd_disk n (state_path L n []) of
        None \<Rightarrow> None
      | Some data \<Rightarrow>
          (case (if sl_password L \<noteq> [] then decryptData e data (sl_password L) else Some data) of
             None \<Rightarrow> None
           | Some d \<Rightarrow> if prefix gzip_magic d then sl_gunzip L d else Some d))"

definition migrateTime :: "state_lib \<Rightarrow> string \<Rightarrow> string" where
  "migrateTime L t =
     (if CHR ''T'' \<in> set t then t
      else if length t = 8 \<and> t ! 2 = CHR '':'' then sl_local_date L @ ''T'' @ t
      else sl_local_now L)"

definition migrated :: "state_lib \<Rightarrow> (string \<rightharpoonup> message_status) \<Rightarrow> message \<Rightarrow> message" where
  "migrated L statuses m =
     (let m1 = (case statuses (msg_ID m) of Some s \<Rightarrow> m\<lparr>msg_Status := s\<rparr> | None \<Rightarrow> m)
      in m1\<lparr>msg_Time := migrateTime L (msg_Time m1)\<rparr>)"

text \<open>\<open>for _, msg := range state.Messages { n.memory.Add(msg) }\<close>\<close>

definition add_all :: "time \<Rightarrow> message list \<Rightarrow> memory \<Rightarrow> memory" where
  "add_all now ms mem = fold (\<lambda>m mem. snd (Memory_Add now m mem)) ms mem"

text \<open>The flag is whether it returned nil; the routing table goes to the DHT.\<close>

definition Node_loadState :: "env \<Rightarrow> state_lib \<Rightarrow> node \<Rightarrow> bool \<times> node" where
  "Node_loadState e L n =
     (case Option.bind (Node_loadStateData e L n) (sl_parse L) of
        None \<Rightarrow> (False, n)
      | Some s \<Rightarrow>
          (True, n\<lparr>nd_memory := add_all (ev_now e) (map (migrated L (ld_MessageStatus s)) (ld_Messages s)) (nd_memory n),
             nd_layers := ld_Layers s, nd_msgCount := ld_MsgCount s, nd_preHash := ld_PreHash s,
             nd_antiHash := ld_AntiHash s, nd_layersDirty := True\<rparr>))"

section \<open>The queue\<close>

definition Node_savePendingQueue :: "state_lib \<Rightarrow> node \<Rightarrow> node" where
  "Node_savePendingQueue L n =
     (if sl_name L = [] then n
      else snd (write_file L (state_path L n ''.queue'') (sl_queue_json L (nd_pendingMessages n)) n))"

definition Node_loadPendingQueue :: "state_lib \<Rightarrow> node \<Rightarrow> node" where
  "Node_loadPendingQueue L n =
     (if sl_name L = [] then n
      else case Option.bind (nd_disk n (state_path L n ''.queue'')) (sl_queue_parse L) of
        None \<Rightarrow> n
      | Some q \<Rightarrow> n\<lparr>nd_pendingMessages := q\<rparr>)"

section \<open>The first start\<close>

definition unreadable_own :: "message \<Rightarrow> bool" where
  "unreadable_own m \<longleftrightarrow> msg_IsOwn m \<and> msg_Version m = MESSAGE_VERSION_E2E \<and> msg_PlainText m = []"

text \<open>\<open>None\<close> is a panic.\<close>

definition Node_runE2ECleanupOnce :: "state_lib \<Rightarrow> node \<Rightarrow> node option" where
  "Node_runE2ECleanupOnce L n =
     (if sl_name L = [] \<or> nd_disk n (state_path L n ''.e2e_cleanup'') \<noteq> None then Some n
      else case remove_messages (map msg_ID (filter unreadable_own (Memory_GetAll (nd_memory n)))) (nd_memory n) of
        None \<Rightarrow> None
      | Some (removed, mem) \<Rightarrow>
          let n1 = snd (write_file L (state_path L n ''.e2e_cleanup'') ''true'' (n\<lparr>nd_memory := mem\<rparr>))
          in Some (if 0 < removed then n1\<lparr>nd_started := nd_started n1 @ [SaveState]\<rparr> else n1))"

section \<open>Keys\<close>

definition put_file :: "path \<Rightarrow> string option \<Rightarrow> node \<Rightarrow> node" where
  "put_file p content n = n\<lparr>nd_disk := (nd_disk n)(p := content)\<rparr>"

definition Node_loadOrGenerateE2EKeys :: "state_lib \<Rightarrow> node \<Rightarrow> node" where
  "Node_loadOrGenerateE2EKeys L n =
     (if sl_name L = [] then n
      else let p = state_path L n ''.ed25519.key''; q = state_path L n ''.x25519.key''
           in case loadOrGenerateEd25519Key (sl_public L) (nd_disk n p) (sl_gen_ed25519 L) (sl_write L p)
                     (nd_ed25519Pub n, nd_ed25519Priv n) of
                (ok, (pub, priv), content) \<Rightarrow>
                  let n1 = put_file p content (n\<lparr>nd_ed25519Pub := pub, nd_ed25519Priv := priv\<rparr>)
                  in case loadOrGenerateX25519Key (sl_derive L) (nd_disk n1 q) (sl_gen_x25519 L) (sl_write L q)
                            (nd_x25519Pub n1, nd_x25519Priv n1) of
                       (ok', (pub', priv'), content') \<Rightarrow>
                         put_file q content' (n1\<lparr>nd_x25519Pub := pub', nd_x25519Priv := priv'\<rparr>))"

text \<open>With a seed phrase both pairs come from it, and a failure ends \<open>InitP2P\<close>.\<close>

definition init_keys :: "state_lib \<Rightarrow> node \<Rightarrow> bool \<times> node" where
  "init_keys L n =
     (if sl_seedPhrase L = [] then (True, Node_loadOrGenerateE2EKeys L n)
      else case sl_seed_ed25519 L of
        None \<Rightarrow> (False, n)
      | Some (edPub, edPriv) \<Rightarrow>
          if length edPriv \<noteq> 64 then (False, n)
          else let n1 = n\<lparr>nd_ed25519Pub := edPub, nd_ed25519Priv := edPriv\<rparr>
               in case sl_seed_x25519 L of
                    None \<Rightarrow> (False, n1)
                  | Some (xPub, xPriv) \<Rightarrow> (True, n1\<lparr>nd_x25519Pub := xPub, nd_x25519Priv := xPriv\<rparr>))"

text \<open>The identity of the host: of the seed, of the key file, or a new RSA key, which is saved.\<close>

definition init_identity :: "state_lib \<Rightarrow> node \<Rightarrow> string \<times> node" where
  "init_identity L n =
     (if sl_seedPhrase L \<noteq> [] then (nd_ed25519Priv n, n)
      else case nd_disk n (state_path L n ''.key'') of
        Some key \<Rightarrow> (key, n)
      | None \<Rightarrow> (sl_rsa L, snd (write_file L (state_path L n ''.key'') (sl_rsa L) n)))"

section \<open>Start and stop\<close>

definition path_text :: "path \<Rightarrow> string" where
  "path_text p = concat (map (\<lambda>c. ''/'' @ c) p)"

definition open_stores :: "state_lib \<Rightarrow> node \<Rightarrow> node" where
  "open_stores L n =
     (let file = (\<lambda>name. path_text (nd_dir n @ [name]));
          s = NewSettingsStore (file ''isotope_settings.json'') (sl_settings_file L)
      in n\<lparr>nd_contacts := Some (NewContactsStore (file ''isotope_contacts.json'') (nd_contacts_file n)),
           nd_requests := Some (NewRequestsStore (file ''isotope_requests.json'') (nd_requests_file n)),
           nd_deleted := Some (NewDeletedStore (file ''isotope_deleted.json'') (nd_deleted_file n)),
           nd_abortedStore := Some (NewAbortedStore (file ''isotope_aborted.json'') (nd_aborted_file n)),
           nd_offers := Some (NewOffersStore (file ''isotope_offers.json'') (nd_offers_file n)),
           nd_settings := Some s, nd_myReadEnabled := SettingsStore_GetMyReadEnabled s\<rparr>)"

text \<open>A contact with the own ID is removed from the contacts.\<close>

definition remove_self :: "env \<Rightarrow> string \<Rightarrow> node \<Rightarrow> node" where
  "remove_self e me n =
     (case nd_contacts n of None \<Rightarrow> n
      | Some cs \<Rightarrow>
          if ContactsStore_Get cs me = None then n
          else case ContactsStore_Remove me (ev_w_contacts e 0) cs (nd_contacts_file n) of
            (err, cs', f') \<Rightarrow> n\<lparr>nd_contacts := Some cs', nd_contacts_file := f'\<rparr>)"

definition initial_layers :: "env \<Rightarrow> node \<Rightarrow> node" where
  "initial_layers e n =
     (if length (nd_layers n) = 0
      then n\<lparr>nd_layers := [map (\<lambda>h. h * (1 / 10)) (hashToVector (ev_text e) (nd_ethHash n))]\<rparr> else n)"

text \<open>
  \<open>InitP2P\<close> up to the loops it starts, which are the events of the runs.  The flag is whether it
  returned nil, \<open>None\<close> is a panic.
\<close>

definition Node_InitP2P :: "env \<Rightarrow> state_lib \<Rightarrow> node \<Rightarrow> (bool \<times> node) option" where
  "Node_InitP2P e L n0 =
     (let n1 = n0\<lparr>nd_adaptive := Some (NewAdaptiveParams (ev_now e)), nd_channels := NewChannelStore\<rparr>;
          n2 = snd (Node_loadState e L n1)
      in case Node_runE2ECleanupOnce L n2 of
           None \<Rightarrow> None
         | Some n3 \<Rightarrow>
             let n4 = Node_loadPendingQueue L n3
             in case init_keys L n4 of
                  (False, n5) \<Rightarrow> Some (False, n5)
                | (True, n5) \<Rightarrow>
                    (case init_identity L (open_stores L n5) of
                       (key, n6) \<Rightarrow>
                         (case sl_host L key of
                            None \<Rightarrow> Some (False, n6)
                          | Some me \<Rightarrow>
                              let n7 = initial_layers e (remove_self e me (n6\<lparr>nd_host := Some me\<rparr>))
                              in Some (True, n7\<lparr>nd_useOnion := (case nd_settings n7 of None \<Rightarrow> nd_useOnion n7
                                   | Some s \<Rightarrow> SettingsStore_GetSphinxEnabled s)\<rparr>))))"

definition Node_StartMobile :: "env \<Rightarrow> state_lib \<Rightarrow> node \<Rightarrow> (bool \<times> node) option" where
  "Node_StartMobile e L n =
     (if sl_name L = [] then Some (False, n)
      else Node_InitP2P e L (n\<lparr>nd_adaptive := Some (NewAdaptiveParams (ev_now e)), nd_channels := NewChannelStore\<rparr>))"

definition Node_Stop :: "env \<Rightarrow> state_lib \<Rightarrow> node \<Rightarrow> node" where
  "Node_Stop e L n = Node_savePendingQueue L (snd (Node_saveState e L n))"

section \<open>A restart\<close>

lemma with_defaults_ID [simp]: "msg_ID (with_defaults t m) = msg_ID m"
  by (simp add: with_defaults_def Let_def)

lemma add_all_messages:
  assumes "distinct (map msg_ID ms)" "\<forall>m \<in> set ms. mem_seen mem (msg_ID m) \<noteq> Some True"
  shows "mem_messages (add_all now ms mem) =
    mem_messages mem @ map (with_defaults now) (filter (\<lambda>m. \<not> is_expired now m) ms)"
  using assms
proof (induction ms arbitrary: mem)
  case (Cons m ms)
  define mem1 where "mem1 = snd (Memory_Add now m mem)"
  have m1: "mem_messages mem1 = mem_messages mem @ (if is_expired now m then [] else [with_defaults now m])"
    using Cons.prems(2) by (simp add: mem1_def Memory_Add_def Let_def)
  have "mem_seen mem1 i = mem_seen mem i" if "i \<noteq> msg_ID m" for i
    using that by (simp add: mem1_def Memory_Add_def Let_def)
  moreover have "msg_ID x \<noteq> msg_ID m" if "x \<in> set ms" for x
    using Cons.prems(1) that by (metis distinct.simps(2) image_eqI list.map(2) list.set_map)
  ultimately have "\<forall>x \<in> set ms. mem_seen mem1 (msg_ID x) \<noteq> Some True" using Cons.prems(2) by simp
  then have "mem_messages (add_all now ms mem1) = mem_messages mem1 @ map (with_defaults now) (filter (\<lambda>m. \<not> is_expired now m) ms)"
    using Cons.IH[of mem1] Cons.prems(1) by simp
  then show ?case by (simp add: add_all_def mem1_def[symmetric] m1)
qed (simp add: add_all_def)

lemma add_all_inv: "mem_inv mem \<Longrightarrow> mem_inv (add_all now ms mem)"
  by (induction ms arbitrary: mem) (simp_all add: add_all_def Add_inv(1))

text \<open>What gzip, JSON and the operating system promise, and the node relies on.\<close>

definition state_laws :: "env \<Rightarrow> env \<Rightarrow> state_lib \<Rightarrow> State \<Rightarrow> bool" where
  "state_laws e r L s \<longleftrightarrow> gcm_law r \<and> ev_gcm_nonce e = ev_gcm_nonce r \<and> ev_gcm_Seal e = ev_gcm_Seal r \<and>
     (\<forall>x. prefix gzip_magic (sl_gzip L x) \<and> sl_gunzip L (sl_gzip L x) = Some x) \<and>
     sl_parse L (sl_json L s) = Some \<lparr>ld_Messages = st_Messages s, ld_Layers = st_Layers s,
        ld_MsgCount = st_MsgCount s, ld_PreHash = st_PreHash s, ld_AntiHash = st_AntiHash s,
        ld_RoutingTable = st_RoutingTable s, ld_MessageStatus = Map.empty\<rparr>"

lemma loadStateData_saved:
  assumes "state_laws e r L (state_of e L n)" "Node_saveState e L n = (True, n1)" "sl_name L \<noteq> []"
    and "nd_disk m (state_path L m []) = nd_disk n1 (state_path L n [])"
  shows "Option.bind (Node_loadStateData r L m) (sl_parse L) = sl_parse L (sl_json L (state_of e L n))"
proof -
  define d where "d = sl_gzip L (sl_json L (state_of e L n))"
  have laws: "gcm_law r" "ev_gcm_nonce e = ev_gcm_nonce r" "ev_gcm_Seal e = ev_gcm_Seal r"
      "prefix gzip_magic d" "sl_gunzip L d = Some (sl_json L (state_of e L n))"
    using assms(1) by (simp_all add: state_laws_def d_def)
  have "nd_disk m (state_path L m []) = Some (if sl_password L \<noteq> [] then encryptData e d (sl_password L) else d)"
    using assms(2-4) by (auto simp: Node_saveState_def write_file_def d_def Let_def split: if_splits)
  moreover have "decryptData r (encryptData e d p) p = Some d" for p
    using laws(1-3) by (simp add: decryptData_def encryptData_def gcm_law_def)
  ultimately show ?thesis using laws(4,5) by (simp add: Node_loadStateData_def)
qed

text \<open>A message that the defaults of \<open>Add\<close> and the migration of times leave alone.\<close>

definition settled :: "message \<Rightarrow> bool" where
  "settled m \<longleftrightarrow> msg_Weight m \<noteq> 0 \<and> msg_Created m \<noteq> 0 \<and> CHR ''T'' \<in> set (msg_Time m)"

lemma kept_message_simps [simp]:
  "msg_ID (kept_message m) = msg_ID m" "msg_Time (kept_message m) = msg_Time m"
  "msg_Weight (kept_message m) = msg_Weight m" "msg_Created (kept_message m) = msg_Created m"
  "msg_ExpiresAt (kept_message m) = msg_ExpiresAt m"
  by (simp_all add: kept_message_def clear_text_def)

lemma migrated_simps:
  "msg_ID (migrated L st m) = msg_ID m" "msg_ExpiresAt (migrated L st m) = msg_ExpiresAt m"
  by (simp_all add: migrated_def Let_def split: option.split)

lemma settled_migrated: "settled m \<Longrightarrow> migrated L Map.empty m = m"
  by (simp add: settled_def migrated_def migrateTime_def)

text \<open>What a message becomes when it is loaded: an old time is migrated, a weight or creation time of zero gets its default.\<close>

definition restored :: "env \<Rightarrow> state_lib \<Rightarrow> message \<Rightarrow> message" where
  "restored r L m = with_defaults (ev_now r) (migrated L Map.empty m)"

lemma restored_settled: "settled m \<Longrightarrow> restored r L (kept_message m) = kept_message m"
proof -
  assume "settled m"
  then have "settled (kept_message m)" by (simp add: settled_def)
  then show ?thesis by (simp add: restored_def settled_migrated) (simp add: settled_def with_defaults_def IsZero_def)
qed

lemma migrated_kept:
  "is_expired t (migrated L st (kept_message m)) = is_expired t m"
  "msg_ID (migrated L st (kept_message m)) = msg_ID m"
  by (simp_all add: is_expired_def migrated_simps)

lemma saved_state_restores:
  assumes laws: "state_laws e r L (state_of e L n)" and saved: "Node_saveState e L n = (True, n1)" "sl_name L \<noteq> []"
    and fresh: "nd_memory m = empty_memory" "nd_dir m = nd_dir n1" "nd_disk m = nd_disk n1"
    and msgs: "mem_inv (nd_memory n)" and later: "ev_now e \<le> ev_now r"
  shows "\<exists>m'. Node_loadState r L m = (True, m') \<and>
    Memory_GetAll (nd_memory m') =
      map (\<lambda>x. restored r L (kept_message x)) (filter (\<lambda>x. \<not> is_expired (ev_now r) x) (Memory_GetAll (nd_memory n))) \<and>
    nd_layers m' = nd_layers n \<and> nd_msgCount m' = nd_msgCount n \<and> nd_preHash m' = nd_preHash n \<and> nd_antiHash m' = nd_antiHash n"
proof -
  let ?all = "Memory_GetAll (nd_memory n)"
  define ms where "ms = map (migrated L Map.empty) (map kept_message (filter (\<lambda>x. \<not> is_expired (ev_now e) x) ?all))"
  have "nd_dir n1 = nd_dir n" using saved by (auto simp: Node_saveState_def write_file_def Let_def split: if_splits)
  then have "Option.bind (Node_loadStateData r L m) (sl_parse L) = sl_parse L (sl_json L (state_of e L n))"
    using fresh by (intro loadStateData_saved[OF laws saved]) (simp add: state_path_def)
  then have load: "Node_loadState r L m = (True, m\<lparr>nd_memory := add_all (ev_now r) ms (nd_memory m), nd_layers := nd_layers n,
      nd_msgCount := nd_msgCount n, nd_preHash := nd_preHash n, nd_antiHash := nd_antiHash n, nd_layersDirty := True\<rparr>)"
    using laws by (simp add: Node_loadState_def state_laws_def state_of_def ms_def)
  have "distinct (map msg_ID ms)"
    using mem_inv_distinct[OF msgs] by (simp add: ms_def comp_def migrated_kept Memory_GetAll_def distinct_map_filter)
  then have "mem_messages (add_all (ev_now r) ms (nd_memory m)) = map (with_defaults (ev_now r)) (filter (\<lambda>x. \<not> is_expired (ev_now r) x) ms)"
    using add_all_messages[of ms "nd_memory m"] fresh(1) by (simp add: empty_memory_def)
  also have "filter (\<lambda>x. \<not> is_expired (ev_now r) x) ms = map (migrated L Map.empty \<circ> kept_message) (filter (\<lambda>x. \<not> is_expired (ev_now r) x) ?all)"
  proof -
    have "is_expired (ev_now e) x \<Longrightarrow> is_expired (ev_now r) x" for x using later by (auto simp: is_expired_def After_def)
    then have "filter (\<lambda>x. \<not> is_expired (ev_now r) x) (filter (\<lambda>x. \<not> is_expired (ev_now e) x) ?all) = filter (\<lambda>x. \<not> is_expired (ev_now r) x) ?all"
      by (auto intro!: filter_cong)
    then show ?thesis by (simp add: ms_def filter_map comp_def migrated_kept)
  qed
  finally show ?thesis using load by (simp add: Memory_GetAll_def restored_def)
qed

lemma saved_state_loads:
  assumes "state_laws e r L (state_of e L n)" "Node_saveState e L n = (True, n1)" "sl_name L \<noteq> []"
    and "nd_memory m = empty_memory" "nd_dir m = nd_dir n1" "nd_disk m = nd_disk n1"
    and "mem_inv (nd_memory n)" and msgs: "\<forall>x \<in> set (Memory_GetAll (nd_memory n)). settled x" and "ev_now e \<le> ev_now r"
  shows "\<exists>m'. Node_loadState r L m = (True, m') \<and>
    Memory_GetAll (nd_memory m') = map kept_message (filter (\<lambda>x. \<not> is_expired (ev_now r) x) (Memory_GetAll (nd_memory n))) \<and>
    nd_layers m' = nd_layers n \<and> nd_msgCount m' = nd_msgCount n \<and> nd_preHash m' = nd_preHash n \<and> nd_antiHash m' = nd_antiHash n"
proof -
  have "map (\<lambda>x. restored r L (kept_message x)) (filter (\<lambda>x. \<not> is_expired (ev_now r) x) (Memory_GetAll (nd_memory n))) =
      map kept_message (filter (\<lambda>x. \<not> is_expired (ev_now r) x) (Memory_GetAll (nd_memory n)))"
    using msgs by (simp add: restored_settled)
  with saved_state_restores[OF assms(1-7,9)] show ?thesis by simp
qed


section \<open>The invariant\<close>

lemma loadState_mem: "mem_inv (nd_memory n) \<Longrightarrow> mem_inv (nd_memory (snd (Node_loadState e L n)))"
  by (simp add: Node_loadState_def add_all_inv split: option.split)

lemma write_file_memory [simp]: "nd_memory (snd (write_file L p d n)) = nd_memory n"
  by (simp add: write_file_def)

text \<open>Before the stores are opened, the steps of \<open>InitP2P\<close> leave their files and the chunks alone.\<close>

definition start_frame :: "node \<Rightarrow> node \<Rightarrow> bool" where
  "start_frame n n' \<longleftrightarrow> nd_unackedChunks n' = nd_unackedChunks n \<and> nd_contacts_file n' = nd_contacts_file n \<and>
     nd_requests_file n' = nd_requests_file n \<and> nd_offers_file n' = nd_offers_file n"

lemma start_frame_trans: "start_frame n m \<Longrightarrow> start_frame m k \<Longrightarrow> start_frame n k"
  by (simp add: start_frame_def)

lemma write_file_frame [simp]: "start_frame n (snd (write_file L p d m)) \<longleftrightarrow> start_frame n m"
  by (simp add: write_file_def start_frame_def)

lemma cleanupOnce_frame:
  assumes "mem_inv (nd_memory n)"
  shows "\<exists>n'. Node_runE2ECleanupOnce L n = Some n' \<and> mem_inv (nd_memory n') \<and> start_frame n n'"
proof -
  obtain k mem where "remove_messages (map msg_ID (filter unreadable_own (Memory_GetAll (nd_memory n)))) (nd_memory n) = Some (k, mem)"
      and "mem_inv mem"
    using remove_messages_inv[OF assms] by blast
  with assms show ?thesis by (cases k) (simp_all add: Node_runE2ECleanupOnce_def Let_def start_frame_def write_file_def)
qed

lemma start_frames:
  "start_frame n (snd (Node_loadState e L n))" "start_frame n (Node_loadPendingQueue L n)"
  "start_frame n (snd (init_keys L n))"
  by (simp_all add: start_frame_def Node_loadState_def Node_loadPendingQueue_def init_keys_def
      Node_loadOrGenerateE2EKeys_def put_file_def Let_def split: option.split prod.split)

lemma start_memory:
  "nd_memory (Node_loadPendingQueue L n) = nd_memory n" "nd_memory (snd (init_keys L n)) = nd_memory n"
  by (simp_all add: Node_loadPendingQueue_def init_keys_def
      Node_loadOrGenerateE2EKeys_def put_file_def Let_def split: option.split prod.split)

lemma init_identity_frame:
  "init_identity L n = (key, n') \<Longrightarrow> \<exists>d. n' = n\<lparr>nd_disk := d\<rparr>"
  by (auto simp: init_identity_def write_file_def split: if_splits option.splits intro: exI[of _ "nd_disk n"])

text \<open>The files of the stores are sound: no key is empty, and no key occurs twice.\<close>

fun readable_document :: "('f \<Rightarrow> bool) \<Rightarrow> 'f file_content \<Rightarrow> bool" where
  "readable_document P (Document x) \<longleftrightarrow> P x"
| "readable_document P f \<longleftrightarrow> True"

definition sound_keys :: "string list \<Rightarrow> bool" where
  "sound_keys ks \<longleftrightarrow> distinct ks \<and> [] \<notin> set ks"

definition sound_files :: "node \<Rightarrow> bool" where
  "sound_files n \<longleftrightarrow>
     readable_document (\<lambda>f. case f of ContactsFile v xs \<Rightarrow> sound_keys (map (con_PeerID \<circ> fst) xs)) (nd_contacts_file n) \<and>
     readable_document (\<lambda>f. case f of RequestsFile v xs \<Rightarrow> sound_keys (map req_ID xs)) (nd_requests_file n) \<and>
     readable_document (\<lambda>f. case f of OffersFile v xs \<Rightarrow> sound_keys (map off_MediaID xs)) (nd_offers_file n)"

lemma read_enabled_default_ID: "con_PeerID (read_enabled_default x) = con_PeerID (fst x)"
  by (cases x) simp

lemma distinct_deleted_from_list: "distinct (map fst al) \<Longrightarrow> distinct (map fst (deleted_from_list ids al))"
  by (induction ids arbitrary: al) (simp_all add: distinct_update)

lemma deleted_from_list_member: "(i, b) \<in> set (deleted_from_list ids []) \<Longrightarrow> i \<noteq> [] \<and> b"
  using map_of_is_SomeI[OF distinct_deleted_from_list[of "[]" ids], of i b]
  by (auto simp: map_of_deleted_from_list split: if_splits)

lemma aborted_from_list_inv:
  "distinct (map fst al) \<Longrightarrow> [] \<notin> fst ` set al \<Longrightarrow>
     distinct (map fst (aborted_from_list ids al)) \<and> [] \<notin> fst ` set (aborted_from_list ids al)"
  by (induction ids al rule: aborted_from_list.induct) (auto simp: distinct_update dom_update)

lemma read_enabled_IDs: "map con_PeerID (map read_enabled_default xs) = map (con_PeerID \<circ> fst) xs"
  by (simp add: comp_def read_enabled_default_ID)

lemma new_stores_inv:
  "sound_files n \<Longrightarrow> contacts_inv (NewContactsStore p (nd_contacts_file n))"
  "sound_files n \<Longrightarrow> requests_inv (NewRequestsStore p (nd_requests_file n))"
  "sound_files n \<Longrightarrow> offers_inv (NewOffersStore p (nd_offers_file n))"
  "deleted_inv (NewDeletedStore p (nd_deleted_file n))"
  "aborted_inv (NewAbortedStore p (nd_aborted_file n))"
proof -
  assume S: "sound_files n"
  show "contacts_inv (NewContactsStore p (nd_contacts_file n))"
    using S by (auto simp: sound_files_def sound_keys_def NewContactsStore_def contacts_inv_def read_enabled_IDs
        simp del: map_map set_map split: file_content.split contacts_file.split)
  show "requests_inv (NewRequestsStore p (nd_requests_file n))"
    using S by (auto simp: sound_files_def sound_keys_def NewRequestsStore_def requests_inv_def
        split: file_content.split requests_file.split)
  show "offers_inv (NewOffersStore p (nd_offers_file n))"
    using S by (auto simp: sound_files_def sound_keys_def NewOffersStore_def offers_inv_def
        split: file_content.split offers_file.split)
next
  show "deleted_inv (NewDeletedStore p (nd_deleted_file n))"
    by (auto simp: NewDeletedStore_def deleted_inv_def distinct_deleted_from_list dest: deleted_from_list_member
        split: file_content.split deleted_file.split)
  show "aborted_inv (NewAbortedStore p (nd_aborted_file n))"
    by (auto simp: NewAbortedStore_def aborted_inv_def aborted_from_list_inv
        split: file_content.split aborted_file.split)
qed

lemma remove_self_inv:
  assumes "contacts_inv cs" "nd_contacts n = Some cs" "nd_host n = Some me"
  shows "\<exists>cs' f. remove_self e me n = n\<lparr>nd_contacts := Some cs', nd_contacts_file := f\<rparr> \<and> contacts_inv cs' \<and>
    ContactsStore_Get cs' me = None"
proof (cases "ContactsStore_Get cs me")
  case None
  then show ?thesis using assms by (intro exI[of _ cs] exI[of _ "nd_contacts_file n"]) (simp add: remove_self_def)
next
  case (Some c)
  obtain err cs' f where r: "ContactsStore_Remove me (ev_w_contacts e 0) cs (nd_contacts_file n) = (err, cs', f)"
    by (cases "ContactsStore_Remove me (ev_w_contacts e 0) cs (nd_contacts_file n)")
  then have "cs' = contacts_del me cs"
    using contacts_state_simps(2)[of me "ev_w_contacts e 0" cs "nd_contacts_file n"] by (simp add: result_state_def)
  moreover have "ContactsStore_Get (contacts_del me cs) me = None"
    by (simp add: ContactsStore_Get_def contacts_del_contacts find_None_iff)
  ultimately show ?thesis using assms Some r
    by (intro exI[of _ cs'] exI[of _ f]) (simp add: remove_self_def contacts_inv_del)
qed

lemma initial_layers_inv: "node_inv (initial_layers e n) \<longleftrightarrow> node_inv n"
  by (simp add: initial_layers_def)

lemma onion_inv [simp]: "node_inv (n\<lparr>nd_useOnion := b\<rparr>) \<longleftrightarrow> node_inv n"
  by (simp add: node_inv_def Node_GetContact_def)

lemma open_stores_inv:
  assumes "sound_files n" "mem_inv (nd_memory n)" "nd_unackedChunks n = []"
    and "n' = (open_stores L n)\<lparr>nd_disk := d, nd_host := Some me\<rparr>"
  shows "node_inv (remove_self e me n')"
proof -
  let ?cs = "NewContactsStore (path_text (nd_dir n @ [''isotope_contacts.json''])) (nd_contacts_file n)"
  have "nd_contacts n' = Some ?cs" "nd_host n' = Some me" by (simp_all add: assms(4) open_stores_def Let_def)
  then obtain cs' f where r: "remove_self e me n' = n'\<lparr>nd_contacts := Some cs', nd_contacts_file := f\<rparr>"
      "contacts_inv cs'" "ContactsStore_Get cs' me = None"
    using remove_self_inv new_stores_inv(1)[OF assms(1)] by blast
  moreover have "mem_inv (nd_memory n')" "nd_unackedChunks n' = []"
    using assms(2,3) by (simp_all add: assms(4) open_stores_def Let_def)
  moreover have "store_ok requests_inv (nd_requests n')" "store_ok deleted_inv (nd_deleted n')"
      "store_ok aborted_inv (nd_abortedStore n')" "store_ok offers_inv (nd_offers n')"
    by (simp_all add: assms(4) open_stores_def Let_def new_stores_inv assms(1))
  ultimately show ?thesis using \<open>nd_host n' = Some me\<close> by (simp add: node_inv_def Node_GetContact_def)
qed

lemma sound_files_frame: "start_frame n n' \<Longrightarrow> sound_files n' \<longleftrightarrow> sound_files n"
  by (simp add: start_frame_def sound_files_def)

lemma InitP2P_inv:
  assumes "sound_files n" "mem_inv (nd_memory n)" "nd_unackedChunks n = []"
  shows "\<exists>ok n'. Node_InitP2P e L n = Some (ok, n') \<and> (ok \<longrightarrow> node_inv n')"
proof -
  define n1 where "n1 = n\<lparr>nd_adaptive := Some (NewAdaptiveParams (ev_now e)), nd_channels := NewChannelStore\<rparr>"
  define n2 where "n2 = snd (Node_loadState e L n1)"
  have "mem_inv (nd_memory n2)" using assms(2) by (simp add: n1_def n2_def loadState_mem)
  then obtain n3 where n3: "Node_runE2ECleanupOnce L n2 = Some n3" "mem_inv (nd_memory n3)" "start_frame n2 n3"
    using cleanupOnce_frame by blast
  obtain ok n5 where n5: "init_keys L (Node_loadPendingQueue L n3) = (ok, n5)" by fastforce
  have "start_frame n n1" by (simp add: n1_def start_frame_def)
  then have frame: "start_frame n n5"
    using start_frames(1)[of n1 e L] n3(3) start_frames(2)[of n3 L] start_frames(3)[of "Node_loadPendingQueue L n3" L] n5
    by (simp add: start_frame_def n2_def)
  have mem: "mem_inv (nd_memory n5)" using n3(2) start_memory[of L n3] start_memory(2)[of L "Node_loadPendingQueue L n3"] n5 by simp
  obtain key n6 where n6: "init_identity L (open_stores L n5) = (key, n6)" by fastforce
  then obtain d where d: "n6 = (open_stores L n5)\<lparr>nd_disk := d\<rparr>" using init_identity_frame by blast
  have "node_inv (remove_self e me (n6\<lparr>nd_host := Some me\<rparr>))" for me
    using sound_files_frame[OF frame] frame assms(1,3) mem
    by (intro open_stores_inv[of n5]) (simp_all add: d start_frame_def)
  then show ?thesis
    by (cases ok; cases "sl_host L key")
      (auto simp: Node_InitP2P_def Let_def n1_def[symmetric] n2_def[symmetric] n3(1) n5 n6 initial_layers_inv)
qed

text \<open>C11.  A node that starts is safe: when the files of the contacts, requests and offers are sound (no key
is empty, none occurs twice) or cannot be read, \<open>InitP2P\<close> does not panic whatever the other files hold, and
when it succeeds, a run from there over the events of the node panics exactly on a sync stream with a
negative layer index and otherwise keeps the invariant.\<close>

theorem started_node_safe:
  assumes "sound_files n" "mem_inv (nd_memory n)" "nd_unackedChunks n = []"
  shows "\<exists>ok n1. Node_InitP2P e L n = Some (ok, n1) \<and> (ok \<longrightarrow> (\<forall>xs.
    (node_run xs n1 = None \<longleftrightarrow> list_ex (\<lambda>(e, x). panics x) xs) \<and> (\<forall>n2. node_run xs n1 = Some n2 \<longrightarrow> node_inv n2)))"
  using InitP2P_inv[OF assms, of e L] node_run_inv by blast

section \<open>An example\<close>

text \<open>A node that has a text, a chunk of a file and a message that has expired.\<close>

definition kept_example :: "string \<Rightarrow> string \<Rightarrow> int \<Rightarrow> time \<Rightarrow> message" where
  "kept_example i text chunks expires = zero_message\<lparr>msg_ID := i, msg_Text := text, msg_Weight := 1, msg_Created := 1,
     msg_Time := ''2026-01-01T00:00:00'', msg_MediaType := (if 0 < chunks then ''file'' else []),
     msg_ChunkTotal := chunks, msg_ExpiresAt := expires\<rparr>"

definition saved_example :: node where
  "saved_example = (NewNode \<lparr>cf_EthHash = ''eth'', cf_Bootstrap = [], cf_EnableRelayServer = False,
       cf_IsRelay = False, cf_UseOnion = False\<rparr> Map.empty)
     \<lparr>nd_memory := add_all 10 [kept_example ''a1'' ''hello'' 0 0, kept_example ''b2'' ''data'' 3 0,
        kept_example ''c3'' ''gone'' 0 12] empty_memory,
      nd_layers := [[1 / 2]], nd_msgCount := 7, nd_preHash := ''p''\<rparr>"

definition example_lib :: state_lib where
  "example_lib = \<lparr>sl_name = ''state.json'', sl_password = ''secret'', sl_json = (\<lambda>_. ''json''),
     sl_parse = (\<lambda>_. Some \<lparr>ld_Messages = map kept_message (Memory_GetAll (nd_memory saved_example)),
        ld_Layers = [[1 / 2]], ld_MsgCount = 7, ld_PreHash = ''p'', ld_AntiHash = [], ld_RoutingTable = [],
        ld_MessageStatus = Map.empty\<rparr>),
     sl_gzip = (\<lambda>x. gzip_magic @ x), sl_gunzip = (\<lambda>x. Some (drop 2 x)), sl_queue_json = (\<lambda>_. ''[]''),
     sl_queue_parse = (\<lambda>_. Some []), sl_write = (\<lambda>_. True), sl_routing = [], sl_local_date = ''2026-01-01'',
     sl_local_now = ''2026-01-01T00:00:00'', sl_seed_ed25519 = None, sl_seed_x25519 = None, sl_seedPhrase = [],
     sl_gen_ed25519 = None, sl_gen_x25519 = None, sl_public = (\<lambda>x. x), sl_derive = Some,
     sl_settings_file = NoFile, sl_rsa = ''key'', sl_host = (\<lambda>k. Some ''me'')\<rparr>"

definition restarted_example :: node where
  "restarted_example = (NewNode \<lparr>cf_EthHash = ''eth'', cf_Bootstrap = [], cf_EnableRelayServer = False,
       cf_IsRelay = False, cf_UseOnion = False\<rparr> Map.empty)
     \<lparr>nd_disk := nd_disk (snd (Node_saveState (quiet_env 11) example_lib saved_example))\<rparr>"

lemma saved_example_messages:
  "Memory_GetAll (nd_memory saved_example) = [kept_example ''a1'' ''hello'' 0 0, kept_example ''b2'' ''data'' 3 0,
     kept_example ''c3'' ''gone'' 0 12]"
  using add_all_messages[of "[kept_example ''a1'' ''hello'' 0 0, kept_example ''b2'' ''data'' 3 0, kept_example ''c3'' ''gone'' 0 12]"
    empty_memory 10]
  by (simp add: saved_example_def Memory_GetAll_def kept_example_def empty_memory_def is_expired_def IsZero_def After_def
      with_defaults_def)


text \<open>A first start with a contacts file that holds the own ID.\<close>

lemma InitP2P_ok:
  "Node_InitP2P e L n = Some (ok, n') \<Longrightarrow> sl_seedPhrase L = [] \<Longrightarrow> sl_host L = (\<lambda>k. Some me) \<Longrightarrow> ok"
  by (auto simp: Node_InitP2P_def Let_def init_keys_def split: option.splits prod.splits)

theorem started_node_safe_witness:
  "\<exists>n1 n2. Node_InitP2P (quiet_env 10) example_lib (saved_example\<lparr>nd_contacts_file :=
      Document (ContactsFile 1 [(sample_contact ''me'' True, True), (sample_contact ''ali'' True, True)])\<rparr>) = Some (True, n1) \<and>
    node_run [(quiet_env 11, DeleteFileCall ''0a'')] n1 = Some n2 \<and> node_inv n2"
proof -
  let ?n = "saved_example\<lparr>nd_contacts_file :=
      Document (ContactsFile 1 [(sample_contact ''me'' True, True), (sample_contact ''ali'' True, True)])\<rparr>"
  have "mem_inv (nd_memory ?n)" unfolding saved_example_def using add_all_inv[OF mem_inv_empty] by simp
  moreover have "sound_files ?n" "nd_unackedChunks ?n = []"
    by (simp_all add: sound_files_def sound_keys_def sample_contact_def saved_example_def)
  ultimately obtain ok n1 where start: "Node_InitP2P (quiet_env 10) example_lib ?n = Some (ok, n1)"
      "ok \<longrightarrow> (\<forall>xs. (node_run xs n1 = None \<longleftrightarrow> list_ex (\<lambda>(e, x). panics x) xs) \<and> (\<forall>n2. node_run xs n1 = Some n2 \<longrightarrow> node_inv n2))"
    using started_node_safe[of ?n "quiet_env 10" example_lib] by blast
  have ok using InitP2P_ok[OF start(1)] by (simp add: example_lib_def)
  with start(2) have "node_run [(quiet_env 11, DeleteFileCall ''0a'')] n1 \<noteq> None \<and>
      (\<forall>n2. node_run [(quiet_env 11, DeleteFileCall ''0a'')] n1 = Some n2 \<longrightarrow> node_inv n2)"
    by (simp del: node_run.simps)
  then obtain n2 where "node_run [(quiet_env 11, DeleteFileCall ''0a'')] n1 = Some n2" "node_inv n2" by blast
  with start(1) \<open>ok\<close> show ?thesis by (intro exI[of _ n1] exI[of _ n2]) simp
qed

end
