(* ===== verification/Relay.thy ===== *)
theory Relay
  imports NodeRun
begin

text \<open>
  The rest of node/node_announce.go: the node announces itself to the bootstrap servers and its
  peers, reserves a slot on a relay and keeps it fresh, lists its addresses, dials and exchanges
  addresses.  What happens on the network is in the environment; \<open>reserve\<close> is \<open>client.Reserve\<close>:
  the expiry of the slot, or \<open>None\<close> for an error.
\<close>

section \<open>State\<close>

text \<open>
  The fields of the node that only this file uses; \<open>rp_peer\<close> is \<open>relayPeerInfo.ID\<close>, empty until a
  reservation succeeds, and \<open>rp_lastErr\<close> says that \<open>lastReservationErr\<close> is not nil.
\<close>

record relay_part =
  rp_reservation :: "time option"
  rp_peer :: string
  rp_lastErr :: bool
  rp_lastRefresh :: time
  rp_announce :: "string list"

definition new_relay_part :: relay_part where
  "new_relay_part = \<lparr>rp_reservation = None, rp_peer = [], rp_lastErr = False, rp_lastRefresh = 0, rp_announce = []\<rparr>"

section \<open>Announcing\<close>

definition Node_GetRelayAddrs :: "env \<Rightarrow> node \<Rightarrow> relay_part \<Rightarrow> string list" where
  "Node_GetRelayAddrs e n r =
     (if rp_reservation r = None then []
      else if rp_peer r = [] then []
      else map (\<lambda>addr. addr @ ''/p2p-circuit/p2p/'' @ host_id n)
             (filter (\<lambda>addr. ev_AddrInfo e addr = Some (rp_peer r)) (Node_loadBootstrapPeers e n)))"

text \<open>The peers that get the announcement: the bootstrap servers, and the connected peers that are none.\<close>

definition bootstrap_ids :: "env \<Rightarrow> node \<Rightarrow> string list" where
  "bootstrap_ids e n = List.map_filter (ev_AddrInfo e) (Node_loadBootstrapPeers e n)"

definition announce_targets :: "env \<Rightarrow> node \<Rightarrow> string list" where
  "announce_targets e n = bootstrap_ids e n @ filter (\<lambda>p. p \<notin> set (bootstrap_ids e n)) (ev_peers e)"

definition announce_payload :: "env \<Rightarrow> string list \<Rightarrow> node \<Rightarrow> relay_part \<Rightarrow> string" where
  "announce_payload e multiaddrs n r = address_lines ANNOUNCE_PREFIX (multiaddrs @ Node_GetRelayAddrs e n r)"

definition Node_SendAnnounce :: "env \<Rightarrow> string list \<Rightarrow> node \<Rightarrow> relay_part \<Rightarrow> node \<times> relay_part" where
  "Node_SendAnnounce e multiaddrs n r =
     (if nd_host n = None \<or> length multiaddrs = 0 then (n, r)
      else let r1 = r\<lparr>rp_announce := multiaddrs\<rparr>;
               payload = announce_payload e multiaddrs n r1
           in (n\<lparr>nd_lines := nd_lines n @ map (\<lambda>p. (p, payload)) (filter (\<lambda>p. ev_line e p payload) (announce_targets e n))\<rparr>, r1))"

section \<open>The slot on the relay\<close>

definition Node_ReserveRelaySlot ::
  "(string \<Rightarrow> time option) \<Rightarrow> string \<Rightarrow> node \<Rightarrow> relay_part \<Rightarrow> bool \<times> relay_part" where
  "Node_ReserveRelaySlot reserve pid n r =
     (if nd_host n = None then (False, r)
      else case reserve pid of
        None \<Rightarrow> (False, r\<lparr>rp_lastErr := True\<rparr>)
      | Some expires \<Rightarrow> (True, r\<lparr>rp_reservation := Some expires, rp_peer := pid, rp_lastErr := False\<rparr>))"

text \<open>One round of \<open>relayLoop\<close>, after its sleep; \<open>time.Until(t)\<close> is \<open>t.Sub(now)\<close>.\<close>

definition need_reserve :: "time \<Rightarrow> relay_part \<Rightarrow> bool" where
  "need_reserve now r \<longleftrightarrow>
     (case rp_reservation r of None \<Rightarrow> True | Some expires \<Rightarrow> time_Sub expires now < 5 * Minute)"

definition relay_round ::
  "env \<Rightarrow> (string \<Rightarrow> time option) \<Rightarrow> node \<Rightarrow> duration \<times> relay_part \<Rightarrow> duration \<times> relay_part" where
  "relay_round e reserve n s =
     (case s of (backoff, r) \<Rightarrow>
        if rp_peer r = [] then (backoff, r)
        else if \<not> need_reserve (ev_now e) r then (2 * Second, r)
        else (case Node_ReserveRelaySlot reserve (rp_peer r) n r of
                (False, r1) \<Rightarrow> (next_backoff backoff, r1)
              | (True, r1) \<Rightarrow> (2 * Second, r1)))"

definition Node_isRelayAddr :: "env \<Rightarrow> string \<Rightarrow> node \<Rightarrow> bool" where
  "Node_isRelayAddr e remote n \<longleftrightarrow> list_ex (\<lambda>addr. ev_AddrInfo e addr = Some remote) (Node_loadBootstrapPeers e n)"

definition Node_refreshRelayAndAnnounce ::
  "env \<Rightarrow> (string \<Rightarrow> time option) \<Rightarrow> node \<Rightarrow> relay_part \<Rightarrow> node \<times> relay_part" where
  "Node_refreshRelayAndAnnounce e reserve n r =
     (if time_Sub (ev_now e) (rp_lastRefresh r) < 10 * Second \<and> \<not> rp_lastErr r then (n, r)
      else let r1 = r\<lparr>rp_lastRefresh := ev_now e\<rparr>
        in if rp_peer r1 = [] then (n, r1)
           else (case Node_ReserveRelaySlot reserve (rp_peer r1) n r1 of
                   (False, r2) \<Rightarrow> (n, r2)
                 | (True, r2) \<Rightarrow> if 0 < length (rp_announce r2) then Node_SendAnnounce e (rp_announce r2) n r2 else (n, r2)))"

text \<open>node_p2p.go: a peer has connected, and the round of \<open>announceLoop\<close>.\<close>

definition nodeNotifiee_Connected ::
  "env \<Rightarrow> (string \<Rightarrow> time option) \<Rightarrow> string \<Rightarrow> node \<Rightarrow> relay_part \<Rightarrow> node \<times> relay_part" where
  "nodeNotifiee_Connected e reserve remote n r =
     (let n1 = (if Node_hasPending n then Node_flushPending e n else n)
      in if Node_isRelayAddr e remote n1 then Node_refreshRelayAndAnnounce e reserve n1 r else (n1, r))"

definition announce_round :: "env \<Rightarrow> node \<Rightarrow> relay_part \<Rightarrow> node \<times> relay_part" where
  "announce_round e n r =
     (case (if 0 < length (rp_announce r) then Node_SendAnnounce e (rp_announce r) n r else (n, r)) of
        (n1, r1) \<Rightarrow> (Node_flushPending e n1, r1))"

text \<open>node.go, \<open>InitP2P\<close>: what a client starts for each bootstrap address; only the reservation matters here.\<close>

definition start_bootstrap ::
  "env \<Rightarrow> (string \<Rightarrow> time option) \<Rightarrow> bool \<Rightarrow> string \<Rightarrow> node \<Rightarrow> relay_part \<Rightarrow> relay_part" where
  "start_bootstrap e reserve enableRelayServer addr n r =
     (case ev_AddrInfo e addr of
        None \<Rightarrow> r
      | Some pid \<Rightarrow> if enableRelayServer then r else snd (Node_ReserveRelaySlot reserve pid n r))"

section \<open>Addresses and dialling\<close>

definition outer_address :: "string \<Rightarrow> bool" where
  "outer_address a \<longleftrightarrow> \<not> sublist ''127.0.0.1'' a"

definition add_once :: "string \<Rightarrow> string list \<Rightarrow> string list" where
  "add_once a as = (if a \<in> set as then as else as @ [a])"

text \<open>\<open>ifaces\<close> is \<open>InterfaceListenAddresses\<close>, \<open>None\<close> for an error.\<close>

definition Node_GetMultiaddrs :: "env \<Rightarrow> string list option \<Rightarrow> node \<Rightarrow> string list" where
  "Node_GetMultiaddrs e ifaces n =
     (if nd_host n = None then []
      else map (\<lambda>a. a @ ''/p2p/'' @ host_id n)
             (fold add_once (filter outer_address (case ifaces of None \<Rightarrow> [] | Some as \<Rightarrow> as) @
                             filter outer_address (ev_host_addrs e)) []))"

text \<open>\<open>stored\<close> is the peer store: the peers in its order, each with its addresses.\<close>

definition Node_GetKnownPeers :: "(string \<times> string list) list \<Rightarrow> node \<Rightarrow> string list" where
  "Node_GetKnownPeers stored n =
     (if nd_host n = None then []
      else filter outer_address (concat (map (\<lambda>(p, as). map (\<lambda>a. a @ ''/p2p/'' @ p) as) stored)))"

text \<open>The list that \<open>ExchangePeers\<close> sends.\<close>

definition exchanged_addresses :: "env \<Rightarrow> string list option \<Rightarrow> (string \<times> string list) list \<Rightarrow> node \<Rightarrow> string list" where
  "exchanged_addresses e ifaces stored n =
     fold (\<lambda>addr known. if outer_address addr then add_once addr known else known)
       (Node_GetMultiaddrs e ifaces n) (Node_GetKnownPeers stored n)"

text \<open>
  \<open>answer\<close> is what the peer sends back, \<open>None\<close> when the stream does not open.  The result is the
  line that is written and the addresses that go to the peer store.
\<close>

definition Node_ExchangePeers ::
  "env \<Rightarrow> (string list \<Rightarrow> string) \<Rightarrow> (string \<Rightarrow> string list option) \<Rightarrow> string list option \<Rightarrow> (string \<times> string list) list \<Rightarrow>
     string \<Rightarrow> string option \<Rightarrow> node \<Rightarrow> (string \<times> string list) option" where
  "Node_ExchangePeers e json parse ifaces stored p answer n =
     (if nd_host n = None \<or> \<not> ev_Decode e p then None
      else case answer of
        None \<Rightarrow> None
      | Some a \<Rightarrow>
          let response = strings_TrimSpace a;
              line = ''PEERS:'' @ json (exchanged_addresses e ifaces stored n) @ [newline]
          in Some (line, if prefix ''PEERS:'' response
               then (case parse (TrimPrefix response ''PEERS:'') of
                       None \<Rightarrow> []
                     | Some addrs \<Rightarrow> filter (\<lambda>a. ev_AddrInfo e a \<noteq> None) addrs)
               else []))"

definition Node_ConnectToPeer :: "env \<Rightarrow> string \<Rightarrow> node \<Rightarrow> bool" where
  "Node_ConnectToPeer e multiaddr n \<longleftrightarrow>
     nd_host n \<noteq> None \<and> ev_AddrInfo e multiaddr \<noteq> None \<and> ev_Connect e multiaddr"

text \<open>The dials run in parallel; \<open>arrivals\<close> is the order in which their results arrive.\<close>

definition dial_works :: "env \<Rightarrow> string \<Rightarrow> bool" where
  "dial_works e addr \<longleftrightarrow> ev_AddrInfo e addr \<noteq> None \<and> ev_Connect e addr"

definition Node_ConnectToPeerWithFallback :: "env \<Rightarrow> string list \<Rightarrow> string list \<Rightarrow> node \<Rightarrow> string option" where
  "Node_ConnectToPeerWithFallback e multiaddrs arrivals n =
     (if length multiaddrs = 0 then None
      else if nd_host n = None then None
      else find (dial_works e) arrivals)"

section \<open>Addresses are listed once\<close>

lemma fold_add_once: "distinct as \<Longrightarrow> distinct (fold add_once xs as) \<and> set (fold add_once xs as) = set as \<union> set xs"
  by (induction xs arbitrary: as) (auto simp: add_once_def)

lemma GetMultiaddrs_distinct: "distinct (Node_GetMultiaddrs e ifaces n)"
  by (simp add: Node_GetMultiaddrs_def fold_add_once distinct_map inj_on_def)

lemma GetMultiaddrs_set:
  "nd_host n = Some me \<Longrightarrow> set (Node_GetMultiaddrs e ifaces n) =
     (\<lambda>a. a @ ''/p2p/'' @ me) ` {a \<in> set (ev_host_addrs e) \<union> (case ifaces of None \<Rightarrow> {} | Some as \<Rightarrow> set as). outer_address a}"
  by (auto simp: Node_GetMultiaddrs_def fold_add_once host_id_def split: option.splits)

text \<open>The dial reports an address that works, whatever the order of the results, and fails only when none does.\<close>

lemma ConnectToPeerWithFallback_works:
  assumes "mset arrivals = mset multiaddrs" "nd_host n \<noteq> None"
  shows "Node_ConnectToPeerWithFallback e multiaddrs arrivals n = Some a \<Longrightarrow> a \<in> set multiaddrs \<and> dial_works e a"
    "Node_ConnectToPeerWithFallback e multiaddrs arrivals n = None \<longleftrightarrow> (\<forall>a \<in> set multiaddrs. \<not> dial_works e a)"
  using assms(2) mset_eq_setD[OF assms(1)] assms(1)
  by (auto simp: Node_ConnectToPeerWithFallback_def find_Some_iff find_None_iff split: if_splits)

section \<open>The back-off\<close>

lemma relay_backoff_bounds:
  assumes "2 * Second \<le> b" "b \<le> 30 * Second"
  shows "2 * Second \<le> fst (relay_round e reserve n (b, r))" "fst (relay_round e reserve n (b, r)) \<le> 30 * Second"
  using assms by (simp_all add: relay_round_def next_backoff_def Let_def Second_def split: prod.split bool.split)

section \<open>Runs\<close>

datatype relay_event =
    StartBootstrap string
  | RelayRound
  | Connected string
  | AnnounceRound
  | AnnounceCall "string list"

type_synonym relay_state = "node \<times> duration \<times> relay_part"

fun relay_step :: "env \<Rightarrow> (string \<Rightarrow> time option) \<Rightarrow> relay_event \<Rightarrow> relay_state \<Rightarrow> relay_state" where
  "relay_step e reserve (StartBootstrap addr) (n, b, r) = (n, b, start_bootstrap e reserve False addr n r)"
| "relay_step e reserve RelayRound (n, b, r) = (n, relay_round e reserve n (b, r))"
| "relay_step e reserve (Connected p) (n, b, r) = (case nodeNotifiee_Connected e reserve p n r of (n1, r1) \<Rightarrow> (n1, b, r1))"
| "relay_step e reserve AnnounceRound (n, b, r) = (case announce_round e n r of (n1, r1) \<Rightarrow> (n1, b, r1))"
| "relay_step e reserve (AnnounceCall addrs) (n, b, r) = (case Node_SendAnnounce e addrs n r of (n1, r1) \<Rightarrow> (n1, b, r1))"

fun relay_run :: "(env \<times> (string \<Rightarrow> time option) \<times> relay_event) list \<Rightarrow> relay_state \<Rightarrow> relay_state" where
  "relay_run [] s = s"
| "relay_run ((e, reserve, x) # xs) s = relay_run xs (relay_step e reserve x s)"

text \<open>The attempts of the start fail; every other event may find a relay that would accept.\<close>

fun failed_start :: "env \<times> (string \<Rightarrow> time option) \<times> relay_event \<Rightarrow> bool" where
  "failed_start (e, reserve, StartBootstrap addr) \<longleftrightarrow> (case ev_AddrInfo e addr of None \<Rightarrow> True | Some pid \<Rightarrow> reserve pid = None)"
| "failed_start _ \<longleftrightarrow> True"

lemma SendAnnounce_relay:
  "snd (Node_SendAnnounce e as n r) = r \<or> snd (Node_SendAnnounce e as n r) = r\<lparr>rp_announce := as\<rparr>"
  by (simp add: Node_SendAnnounce_def Let_def)

lemma no_relay_step:
  assumes "rp_peer r = []" "rp_reservation r = None" "failed_start (e, reserve, x)" "relay_step e reserve x (n, b, r) = (n', b', r')"
  shows "rp_peer r' = [] \<and> rp_reservation r' = None"
proof (cases x)
  case (StartBootstrap addr)
  with assms show ?thesis by (auto simp: start_bootstrap_def Node_ReserveRelaySlot_def split: option.splits)
next
  case RelayRound
  with assms show ?thesis by (auto simp: relay_round_def)
next
  case (Connected p)
  with assms show ?thesis
    by (auto simp: nodeNotifiee_Connected_def Node_refreshRelayAndAnnounce_def Let_def split: prod.splits if_splits)
next
  case AnnounceRound
  with assms SendAnnounce_relay[of e "rp_announce r" n r] show ?thesis by (auto simp: announce_round_def split: prod.splits if_splits)
next
  case (AnnounceCall addrs)
  with assms SendAnnounce_relay[of e addrs n r] show ?thesis by (auto split: prod.splits)
qed

text \<open>C37.  A client whose first reservations all fail is never reachable through a relay until it is
started again: neither the relay loop nor a reconnection to the relay tries again, however willing
the relay is, so no announcement carries a relay address.\<close>

theorem relay_never_recovers:
  assumes "rp_peer r = []" "rp_reservation r = None" "list_all failed_start xs" "relay_run xs (n, b, r) = (n', b', r')"
  shows "rp_reservation r' = None \<and> Node_GetRelayAddrs e n' r' = [] \<and>
    announce_payload e addrs n' r' = address_lines ANNOUNCE_PREFIX addrs"
proof -
  have "rp_peer r' = [] \<and> rp_reservation r' = None"
    using assms
  proof (induction xs arbitrary: n b r)
    case (Cons y xs)
    obtain e reserve x where y: "y = (e, reserve, x)" by (cases y)
    obtain n1 b1 r1 where s: "relay_step e reserve x (n, b, r) = (n1, b1, r1)" by (cases "relay_step e reserve x (n, b, r)")
    with no_relay_step[OF Cons.prems(1,2) _ s] Cons.prems(3) y have "rp_peer r1 = [] \<and> rp_reservation r1 = None" by simp
    with Cons.IH[of r1 n1 b1] Cons.prems(3,4) y s show ?case by simp
  qed simp
  then show ?thesis by (simp add: Node_GetRelayAddrs_def announce_payload_def)
qed

text \<open>After one success the relay is remembered for good, and the loop reserves again before the slot expires.\<close>

lemma relay_remembered:
  assumes "rp_peer r \<noteq> []" "relay_step e reserve x (n, b, r) = (n', b', r')" "ev_AddrInfo e = (\<lambda>a. if a \<in> B then Some p else None)" "p \<noteq> []"
  shows "rp_peer r' \<noteq> []"
proof -
  have S: "rp_peer (snd (Node_SendAnnounce e as m q)) = rp_peer q" for as m q
    using SendAnnounce_relay[of e as m q] by auto
  have R: "pid \<noteq> [] \<Longrightarrow> rp_peer q \<noteq> [] \<Longrightarrow> rp_peer (snd (Node_ReserveRelaySlot reserve pid m q)) \<noteq> []" for pid m q
    by (simp add: Node_ReserveRelaySlot_def split: option.split)
  have F: "rp_peer q \<noteq> [] \<Longrightarrow> rp_peer (snd (Node_refreshRelayAndAnnounce e reserve m q)) \<noteq> []" for m q
    using R[of "rp_peer q" "q\<lparr>rp_lastRefresh := ev_now e\<rparr>" m]
    by (auto simp: Node_refreshRelayAndAnnounce_def Let_def S split: prod.split bool.split)
  show ?thesis
  proof (cases x)
    case (StartBootstrap addr)
    with assms R[of p r n] show ?thesis by (auto simp: start_bootstrap_def split: if_splits)
  next
    case RelayRound
    with assms R[of "rp_peer r" r n] show ?thesis by (auto simp: relay_round_def split: prod.splits bool.splits if_splits)
  next
    case (Connected q)
    with assms F[of r] show ?thesis
      by (auto simp: nodeNotifiee_Connected_def Let_def split: prod.splits if_splits) (metis snd_conv)+
  next
    case AnnounceRound
    with assms S[of "rp_announce r" n r] show ?thesis by (auto simp: announce_round_def split: prod.splits if_splits)
  next
    case (AnnounceCall as)
    with assms S[of as n r] show ?thesis by (auto split: prod.splits)
  qed
qed


text \<open>A node with one bootstrap server, whose first reservation fails; later the server would accept.\<close>

definition bootstrap_env :: "time \<Rightarrow> env" where
  "bootstrap_env now = (quiet_env now)\<lparr>ev_AddrInfo := (\<lambda>a. if a = ''/ip4/10.0.0.9'' then Some ''srv'' else None),
     ev_line := (\<lambda>_ _. True), ev_peers := [''srv'']\<rparr>"

theorem relay_never_recovers_witness:
  "\<exists>n b r. relay_run [(bootstrap_env 10, \<lambda>_. None, StartBootstrap ''/ip4/10.0.0.9''), (bootstrap_env 20, \<lambda>_. Some 9, RelayRound),
      (bootstrap_env 30, \<lambda>_. Some 9, Connected ''srv''), (bootstrap_env 40, \<lambda>_. Some 9, AnnounceCall [''/ip4/10.0.0.1''])]
      (demo_node, 2 * Second, new_relay_part) = (n, b, r) \<and>
    rp_reservation r = None \<and> Node_GetRelayAddrs (bootstrap_env 50) n r = []"
proof -
  let ?xs = "[(bootstrap_env 10, \<lambda>_. None, StartBootstrap ''/ip4/10.0.0.9''), (bootstrap_env 20, \<lambda>_. Some 9, RelayRound),
      (bootstrap_env 30, \<lambda>_. Some 9, Connected ''srv''), (bootstrap_env 40, \<lambda>_. Some 9, AnnounceCall [''/ip4/10.0.0.1''])]"
  obtain n b r where run: "relay_run ?xs (demo_node, 2 * Second, new_relay_part) = (n, b, r)" by (metis prod_cases3)
  have "list_all failed_start ?xs" by (simp add: bootstrap_env_def)
  then show ?thesis
    using relay_never_recovers[OF _ _ _ run, of "bootstrap_env 50"] run by (simp add: new_relay_part_def)
qed

section \<open>An announced peer is found\<close>

text \<open>A peer ID as libp2p prints it: no spaces.\<close>

definition plain_id :: "string \<Rightarrow> bool" where
  "plain_id p \<longleftrightarrow> p \<noteq> [] \<and> list_all (\<lambda>c. \<not> ascii_space c) p"

lemma plain_id_line:
  assumes "plain_id p"
  shows "stream_message [FIND_PREFIX @ p @ [newline]] = FIND_PREFIX @ p" "strings_TrimSpace p = p"
proof -
  have p: "p \<noteq> []" "\<not> ascii_space (hd p)" "\<not> ascii_space (last p)"
    using assms by (auto simp: plain_id_def list_all_iff)
  then show "strings_TrimSpace p = p" by (rule strings_TrimSpace_id)
  have "strings_TrimSpace ((FIND_PREFIX @ p) @ [newline]) = FIND_PREFIX @ p"
    using p by (intro strings_TrimSpace_newline) (auto simp: FIND_PREFIX_def ascii_space_def)
  then show "stream_message [FIND_PREFIX @ p @ [newline]] = FIND_PREFIX @ p"
    by (simp add: stream_message_def FIND_PREFIX_def)
qed

lemma found_text:
  assumes "list_all line_address addrs"
  shows "parseMultiaddrsResponse (strings_TrimSpace (address_lines FOUND_PREFIX addrs)) FOUND_PREFIX = addrs"
proof -
  let ?s = "FOUND_PREFIX @ [newline] @ concat (map (\<lambda>a. a @ [newline]) addrs) @ END_PREFIX"
  have "strings_TrimSpace (address_lines FOUND_PREFIX addrs) = ?s"
    using strings_TrimSpace_newline[of ?s] by (simp add: address_lines_def line_prefixes ascii_space_def)
  also have "parseMultiaddrsResponse ?s FOUND_PREFIX = addrs"
    using assms by (intro parse_lines) (simp_all add: line_prefixes ascii_space_def strings_TrimSpace_def)
  finally show ?thesis .
qed

lemma announcement_recorded:
  assumes "list_all line_address addrs" "addrs \<noteq> []"
  shows "Node_handleStream e [address_lines ANNOUNCE_PREFIX addrs] p n =
    Some ([], n\<lparr>nd_announced := (nd_announced n)(p \<mapsto> \<lparr>ap_Multiaddrs = addrs, ap_LastSeen = ev_now e\<rparr>)\<rparr>)"
proof -
  have "stream_message [address_lines ANNOUNCE_PREFIX addrs] = strings_TrimSpace (address_lines ANNOUNCE_PREFIX addrs)"
    by (simp add: stream_message_def address_lines_def)
  moreover have "prefix ANNOUNCE_PREFIX (strings_TrimSpace (address_lines ANNOUNCE_PREFIX addrs))"
    using strings_TrimSpace_newline[of "ANNOUNCE_PREFIX @ [newline] @ concat (map (\<lambda>a. a @ [newline]) addrs) @ END_PREFIX"]
    by (simp add: address_lines_def line_prefixes ascii_space_def)
  ultimately show ?thesis
    using announce_text[OF assms(1)] assms(2) by (simp add: Node_handleStream_def Node_announcePeer_def)
qed

lemma find_answered:
  assumes "plain_id p" "nd_announced n p = Some a" "\<not> ANNOUNCE_TTL < time_Sub (ev_now e) (ap_LastSeen a)" "ap_Multiaddrs a \<noteq> []"
  shows "Node_handleStream e [FIND_PREFIX @ p @ [newline]] q n = Some ([address_lines FOUND_PREFIX (ap_Multiaddrs a)], n)"
proof -
  have "answer_find e p n = (address_lines FOUND_PREFIX (ap_Multiaddrs a), n)"
    using assms(2-4) by (simp add: answer_find_def Node_lookupPeer_def Let_def)
  then show ?thesis
    using plain_id_line[OF assms(1)] by (simp add: Node_handleStream_def line_prefixes TrimPrefix_def)
qed

text \<open>C31.  Discovery works: when the announcement of a node, directly reachable addresses first and then its
addresses on the relay, reaches a server in one read, and the server is asked for the node next, at most
eight minutes later, it answers with these addresses.  A third node that has no announcement of its own and
whose first bootstrap address leads to that server then finds them, whole and in order.  (Addresses and IDs
are without spaces, and no address contains the end mark.)\<close>

theorem announced_node_is_found:
  assumes sender: "nd_host s = Some me" "addrs \<noteq> []" "nd_lines (fst (Node_SendAnnounce e addrs s r)) = nd_lines s @ ls"
      "(server, line) \<in> set ls"
    and plain: "list_all line_address (addrs @ Node_GetRelayAddrs e s r)" "plain_id me"
    and server: "Node_handleStream e1 [line] me v = Some (out, v1)" "\<not> ANNOUNCE_TTL < time_Sub (ev_now e2) (ev_now e1)"
  shows "\<exists>answer. Node_handleStream e2 [FIND_PREFIX @ me @ [newline]] asker v1 = Some ([answer], v1) \<and>
    parseMultiaddrsResponse (strings_TrimSpace answer) FOUND_PREFIX = addrs @ Node_GetRelayAddrs e s r \<and>
    (\<forall>e3 a boot rest. nd_host a \<noteq> None \<and> nd_announced a me = None \<and> Node_loadBootstrapPeers e3 a = boot # rest \<and>
       ev_AddrInfo e3 boot = Some server \<and> ev_find_response e3 server me = Some (strings_TrimSpace answer) \<longrightarrow>
       Node_FindPeerByID e3 me a = (Some (addrs @ Node_GetRelayAddrs e s r), a))"
proof -
  let ?all = "addrs @ Node_GetRelayAddrs e s r"
  have "Node_GetRelayAddrs e s (r\<lparr>rp_announce := addrs\<rparr>) = Node_GetRelayAddrs e s r" by (simp add: Node_GetRelayAddrs_def)
  then have "line = address_lines ANNOUNCE_PREFIX ?all"
    using sender by (auto simp: Node_SendAnnounce_def Let_def announce_payload_def)
  then have "v1 = v\<lparr>nd_announced := (nd_announced v)(me \<mapsto> \<lparr>ap_Multiaddrs = ?all, ap_LastSeen = ev_now e1\<rparr>)\<rparr>"
    using server(1) announcement_recorded[OF plain(1), of e1 me v] sender(2) by simp
  then have "Node_handleStream e2 [FIND_PREFIX @ me @ [newline]] asker v1 = Some ([address_lines FOUND_PREFIX ?all], v1)"
    using find_answered[OF plain(2), of v1 _ e2 asker] server(2) sender(2) by simp
  moreover have "parseMultiaddrsResponse (strings_TrimSpace (address_lines FOUND_PREFIX ?all)) FOUND_PREFIX = ?all"
    by (rule found_text[OF plain(1)])
  moreover from this have "Node_FindPeerByID e3 me a = (Some ?all, a)"
    if "nd_host a \<noteq> None" "nd_announced a me = None" "Node_loadBootstrapPeers e3 a = boot # rest"
      "ev_AddrInfo e3 boot = Some server" "ev_find_response e3 server me = Some (strings_TrimSpace (address_lines FOUND_PREFIX ?all))"
    for e3 a boot rest
    using that sender(2) by (simp add: Node_FindPeerByID_def Node_lookupPeer_def Let_def)
  ultimately show ?thesis by blast
qed

text \<open>The third node: its only bootstrap address leads to \<open>srv\<close>, which gives the answer.\<close>

definition asking_env :: "string \<Rightarrow> env" where
  "asking_env answer = (quiet_env 31)\<lparr>ev_AddrInfo := \<lambda>_. Some ''srv'',
     ev_find_response := \<lambda>p t. Some (strings_TrimSpace answer)\<rparr>"

theorem announced_node_is_found_witness:
  "\<exists>line v1 answer. Node_handleStream (quiet_env 20) [line] ''me'' demo_node = Some ([], v1) \<and>
    Node_handleStream (quiet_env 30) [FIND_PREFIX @ ''me'' @ [newline]] ''bob'' v1 = Some ([answer], v1) \<and>
    fst (Node_FindPeerByID (asking_env answer) ''me'' (demo_node\<lparr>nd_host := Some ''bob''\<rparr>)) =
      Some [''/ip4/10.0.0.1'', ''/ip4/10.0.0.9/p2p-circuit/p2p/me'']"
proof -
  let ?r = "new_relay_part\<lparr>rp_reservation := Some 99, rp_peer := ''srv''\<rparr>"
  let ?line = "announce_payload (bootstrap_env 10) [''/ip4/10.0.0.1''] demo_node (?r\<lparr>rp_announce := [''/ip4/10.0.0.1'']\<rparr>)"
  have boot: "Node_loadBootstrapPeers (bootstrap_env 10) demo_node = [''/ip4/10.0.0.9'']"
    by (simp add: Node_loadBootstrapPeers_def demo_node_def loadBootstrapPeers_def expandTransportAlternatives_def Index.simps)
  then have relay: "Node_GetRelayAddrs (bootstrap_env 10) demo_node ?r = [''/ip4/10.0.0.9/p2p-circuit/p2p/me'']"
    by (simp add: Node_GetRelayAddrs_def bootstrap_env_def host_id_def demo_node_def)
  have sent: "nd_lines (fst (Node_SendAnnounce (bootstrap_env 10) [''/ip4/10.0.0.1''] demo_node ?r)) = nd_lines demo_node @ [(''srv'', ?line)]"
    using boot by (simp add: Node_SendAnnounce_def Let_def announce_targets_def bootstrap_ids_def List.map_filter_def bootstrap_env_def)
      (simp add: demo_node_def)
  have line: "list_all line_address ([''/ip4/10.0.0.1''] @ Node_GetRelayAddrs (bootstrap_env 10) demo_node ?r)" "plain_id ''me''"
    by (simp_all add: relay line_address_def ascii_space_def END_PREFIX_def plain_id_def)
  have "?line = address_lines ANNOUNCE_PREFIX ([''/ip4/10.0.0.1''] @ Node_GetRelayAddrs (bootstrap_env 10) demo_node ?r)"
    by (simp add: announce_payload_def Node_GetRelayAddrs_def)
  then obtain v1 where v1: "Node_handleStream (quiet_env 20) [?line] ''me'' demo_node = Some ([], v1)"
    using announcement_recorded[OF line(1), of "quiet_env 20" "''me''" demo_node] by simp
  have "nd_host demo_node = Some ''me''" by (simp add: demo_node_def)
  then obtain answer where answer: "Node_handleStream (quiet_env 30) [FIND_PREFIX @ ''me'' @ [newline]] ''bob'' v1 = Some ([answer], v1)"
      "\<And>e3 a boot rest. nd_host a \<noteq> None \<and> nd_announced a ''me'' = None \<and> Node_loadBootstrapPeers e3 a = boot # rest \<and>
       ev_AddrInfo e3 boot = Some ''srv'' \<and> ev_find_response e3 ''srv'' ''me'' = Some (strings_TrimSpace answer) \<Longrightarrow>
       Node_FindPeerByID e3 ''me'' a = (Some [''/ip4/10.0.0.1'', ''/ip4/10.0.0.9/p2p-circuit/p2p/me''], a)"
    using announced_node_is_found[OF _ _ sent _ line v1, where server = "''srv''" and ?e2.0 = "quiet_env 30" and asker = "''bob''"] relay
    by (auto simp: ANNOUNCE_TTL_def time_Sub_def Minute_def Second_def min_int64_def max_int64_def)
  let ?a = "demo_node\<lparr>nd_host := Some ''bob''\<rparr>"
  have "Node_loadBootstrapPeers (asking_env answer) ?a = [''/ip4/10.0.0.9'']"
    by (simp add: Node_loadBootstrapPeers_def demo_node_def loadBootstrapPeers_def expandTransportAlternatives_def Index.simps
        asking_env_def quiet_env_def)
  then have "Node_FindPeerByID (asking_env answer) ''me'' ?a = (Some [''/ip4/10.0.0.1'', ''/ip4/10.0.0.9/p2p-circuit/p2p/me''], ?a)"
    by (intro answer(2)) (simp add: asking_env_def demo_node_def)
  with v1 answer(1) show ?thesis by (metis fst_conv)
qed

end
