(* ===== verification/Handshake.thy ===== *)
theory Handshake
  imports NodeRun
begin

text \<open>
  How two peers become contacts: the request, its acceptance, and what each side knows at the end;
  and how a stranger becomes a contact without any request.
\<close>

section \<open>Adding and confirming\<close>

lemma undelete_peer_parts [simp]:
  "nd_requests (undelete_peer e p n) = nd_requests n" "nd_requests_file (undelete_peer e p n) = nd_requests_file n"
  "nd_settings (undelete_peer e p n) = nd_settings n" "nd_outbox (undelete_peer e p n) = nd_outbox n"
  "nd_x25519Pub (undelete_peer e p n) = nd_x25519Pub n" "nd_x25519Priv (undelete_peer e p n) = nd_x25519Priv n"
  "nd_ed25519Pub (undelete_peer e p n) = nd_ed25519Pub n" "nd_ed25519Priv (undelete_peer e p n) = nd_ed25519Priv n"
  "nd_memory (undelete_peer e p n) = nd_memory n" "nd_configBootstrap (undelete_peer e p n) = nd_configBootstrap n"
  "nd_tempContacts (undelete_peer e p n) = nd_tempContacts n" "nd_myReadEnabled (undelete_peer e p n) = nd_myReadEnabled n"
  by (simp_all add: undelete_peer_def split: option.split prod.split)

text \<open>The parts of a node that a contact operation leaves alone.\<close>

definition contact_frame :: "node \<Rightarrow> node \<Rightarrow> bool" where
  "contact_frame n n' \<longleftrightarrow> nd_host n' = nd_host n \<and> nd_requests n' = nd_requests n \<and> nd_requests_file n' = nd_requests_file n \<and>
     nd_settings n' = nd_settings n \<and> nd_outbox n' = nd_outbox n \<and> nd_myReadEnabled n' = nd_myReadEnabled n \<and>
     nd_memory n' = nd_memory n \<and> nd_configBootstrap n' = nd_configBootstrap n \<and>
     nd_x25519Pub n' = nd_x25519Pub n \<and> nd_x25519Priv n' = nd_x25519Priv n \<and>
     nd_ed25519Pub n' = nd_ed25519Pub n \<and> nd_ed25519Priv n' = nd_ed25519Priv n"

definition writable_contacts :: "env \<Rightarrow> node \<Rightarrow> bool" where
  "writable_contacts e n \<longleftrightarrow> (case nd_contacts n of None \<Rightarrow> False | Some cs \<Rightarrow> contacts_inv cs \<and> cs_path cs \<noteq> []) \<and>
     ev_w_contacts e 0 = WriteOk"

lemma AddContact_added:
  assumes "writable_contacts e n" "nd_host n \<noteq> Some p" "p \<noteq> []"
  shows "\<exists>n' c. Node_AddContact e p ed x sg nm rn re n = (True, n') \<and> contact_frame n n' \<and> writable_contacts e n' \<and>
    Node_GetContact p n' = Some c \<and> con_Ed25519Pub c = ed \<and> con_X25519Pub c = x \<and>
    con_Verified c = (sg \<noteq> [] \<and> ed \<noteq> [] \<and> x \<noteq> [] \<and> verifyContactSignature e p ed x sg)"
proof -
  obtain cs where cs: "nd_contacts n = Some cs" "contacts_inv cs" "cs_path cs \<noteq> []" and w: "ev_w_contacts e 0 = WriteOk"
    using assms(1) by (auto simp: writable_contacts_def split: option.splits)
  define v where "v = (sg \<noteq> [] \<and> ed \<noteq> [] \<and> x \<noteq> [] \<and> verifyContactSignature e p ed x sg)"
  define c where "c = \<lparr>con_PeerID = p, con_Ed25519Pub = ed, con_X25519Pub = x, con_Signature = sg, con_Verified = v,
    con_Confirmed = False, con_Name = nm, con_RemoteName = rn, con_AddedAt = [], con_ReadEnabled = re\<rparr>"
  let ?n1 = "undelete_peer e p n"
  obtain err cs' f' where add: "ContactsStore_Add (ev_rfc3339 e) c (ev_w_contacts e 0) cs (nd_contacts_file ?n1) = (err, cs', f')"
    by (cases "ContactsStore_Add (ev_rfc3339 e) c (ev_w_contacts e 0) cs (nd_contacts_file ?n1)")
  have "cs' = contacts_put (ev_rfc3339 e) c cs" using store_resultD[OF add] by (simp add: store_simps)
  moreover have "err = None" using add assms(3) cs(3) w
    by (auto simp: ContactsStore_Add_def Let_def c_def ContactsStore_saveLocked_def save_document_def)
  moreover have "Node_AddContact e p ed x sg nm rn re n = (err = None, ?n1\<lparr>nd_contacts := Some cs', nd_contacts_file := f'\<rparr>)"
    using add assms(2) cs(1) unfolding v_def c_def by (simp add: Node_AddContact_def Let_def)
  moreover obtain d where "ContactsStore_Get (contacts_put (ev_rfc3339 e) c cs) p = Some d" "con_Ed25519Pub d = ed"
      "con_X25519Pub d = x" "con_Verified d = v"
    using contact_list.get_put[OF cs(2), of "ev_rfc3339 e" c] assms(3)
    by (auto simp: contacts_merge_def c_def merge_contact_def dated_contact_def Let_def split: option.splits)
  ultimately show ?thesis
    using w cs by (simp add: contact_frame_def writable_contacts_def contacts_inv_put Node_GetContact_def v_def)
qed

lemma set_confirmed_get:
  assumes "writable_contacts e n"
  shows "contact_frame n (set_confirmed e p n)" "writable_contacts e (set_confirmed e p n)"
    "Node_GetContact q (set_confirmed e p n) =
       (if q = p then map_option (\<lambda>c. c\<lparr>con_Confirmed := True\<rparr>) (Node_GetContact p n) else Node_GetContact q n)"
proof -
  obtain cs where cs: "nd_contacts n = Some cs" "contacts_inv cs" "cs_path cs \<noteq> []"
    using assms by (auto simp: writable_contacts_def split: option.splits)
  obtain err cs' f' where u: "ContactsStore_SetConfirmed p (ev_w_contacts e 1) cs (nd_contacts_file n) = (err, cs', f')"
    by (cases "ContactsStore_SetConfirmed p (ev_w_contacts e 1) cs (nd_contacts_file n)")
  then have n': "set_confirmed e p n = n\<lparr>nd_contacts := Some cs', nd_contacts_file := f'\<rparr>"
    by (simp add: set_confirmed_def cs(1))
  have s: "cs' = result_state (ContactsStore_SetConfirmed p (ev_w_contacts e 1) cs (nd_contacts_file n))" using store_resultD[OF u] by simp
  have path: "cs_path cs' = cs_path cs"
    unfolding s by (simp add: ContactsStore_SetConfirmed_def update_contact_def Let_def split: option.split)
  have get: "ContactsStore_Get cs' = (ContactsStore_Get cs)(p := map_option (\<lambda>c. c\<lparr>con_Confirmed := True\<rparr>) (ContactsStore_Get cs p))"
  proof (cases "ContactsStore_Get cs p")
    case None
    then show ?thesis unfolding s by (auto simp: ContactsStore_SetConfirmed_def ContactsStore_Get_def fun_eq_iff)
  next
    case (Some c)
    then show ?thesis
      using update_contact_get[of "\<lambda>c. c\<lparr>con_Confirmed := True\<rparr>" p "ev_w_contacts e 1" cs "nd_contacts_file n"]
      unfolding s by (auto simp: ContactsStore_SetConfirmed_def ContactsStore_Get_def fun_eq_iff)
  qed
  show "contact_frame n (set_confirmed e p n)" by (simp add: n' contact_frame_def)
  show "writable_contacts e (set_confirmed e p n)"
    using assms cs path contact_updates_inv(3)[OF cs(2), of p "ev_w_contacts e 1" "nd_contacts_file n"]
    by (simp add: n' writable_contacts_def s)
  show "Node_GetContact q (set_confirmed e p n) =
       (if q = p then map_option (\<lambda>c. c\<lparr>con_Confirmed := True\<rparr>) (Node_GetContact p n) else Node_GetContact q n)"
    by (simp add: n' Node_GetContact_def get cs(1))
qed

lemma contact_frame_trans: "contact_frame n m \<Longrightarrow> contact_frame m k \<Longrightarrow> contact_frame n k"
  by (simp add: contact_frame_def)

text \<open>Both sides end with this: the peer is added with the keys of its payload, and confirmed.\<close>

lemma add_and_confirm:
  assumes "writable_contacts e n" "nd_host n \<noteq> Some p" "p \<noteq> []"
  shows "\<exists>n1 c. Node_AddContact e p ed x sg nm rn re n = (True, n1) \<and> contact_frame n (set_confirmed e p n1) \<and>
    writable_contacts e (set_confirmed e p n1) \<and> Node_GetContact p (set_confirmed e p n1) = Some c \<and> con_Confirmed c \<and>
    con_Ed25519Pub c = ed \<and> con_X25519Pub c = x \<and>
    con_Verified c = (sg \<noteq> [] \<and> ed \<noteq> [] \<and> x \<noteq> [] \<and> verifyContactSignature e p ed x sg)"
proof -
  obtain n1 c where n1: "Node_AddContact e p ed x sg nm rn re n = (True, n1)" "contact_frame n n1" "writable_contacts e n1"
    and c: "Node_GetContact p n1 = Some c" "con_Ed25519Pub c = ed" "con_X25519Pub c = x"
      "con_Verified c = (sg \<noteq> [] \<and> ed \<noteq> [] \<and> x \<noteq> [] \<and> verifyContactSignature e p ed x sg)"
    using AddContact_added[OF assms, of ed x sg nm rn re] by blast
  have "Node_GetContact p (set_confirmed e p n1) = Some (c\<lparr>con_Confirmed := True\<rparr>)"
    using set_confirmed_get(3)[OF n1(3)] c(1) by simp
  then show ?thesis
    using n1(1) c(2-) set_confirmed_get(1,2)[OF n1(3), of p] contact_frame_trans[OF n1(2)]
    by (intro exI[of _ n1] exI[of _ "c\<lparr>con_Confirmed := True\<rparr>"]) simp
qed

section \<open>A stranger\<close>

lemma decrypt_sealed:
  assumes "base64_law e" "box_law e pub_of" "length nonce = 24" "nd_contacts n \<noteq> None"
    and "contact_box_key e (Node_GetContactTemp p n) = Some (pub_of k)"
  shows "Node_decryptFromSender e n p (ev_base64 e (nonce @ ev_Seal e txt nonce (pub_of (nd_x25519Priv n)) k)) = Some txt"
  using open_sealed[OF assms(1-3) refl, of n k "txt"] assms(4,5) by (simp add: Node_decryptFromSender_def)

lemma accepted_contact:
  assumes "msg_Type m = TypeContactAccept" "nd_host n = Some (msg_Recipient m)" "msg_Version m = 2"
    and "Node_decryptFromSender e n (msg_Sender m) (msg_Text m) = Some txt" "ev_contact_payload e txt = Some q"
    and "writable_contacts e n" "msg_Sender m \<noteq> msg_Recipient m" "msg_Sender m \<noteq> []"
  shows "\<exists>n' c. receive_replica e m n = Some n' \<and> Node_GetContact (msg_Sender m) n' = Some c \<and> con_Confirmed c \<and>
    con_Ed25519Pub c = cp_Ed25519Pub q \<and> con_X25519Pub c = cp_X25519Pub q \<and>
    con_Verified c = (cp_Signature q \<noteq> [] \<and> cp_Ed25519Pub q \<noteq> [] \<and> cp_X25519Pub q \<noteq> [] \<and>
      verifyContactSignature e (msg_Sender m) (cp_Ed25519Pub q) (cp_X25519Pub q) (cp_Signature q))"
proof -
  have "nd_host n \<noteq> Some (msg_Sender m)" using assms(2,7) by auto
  from add_and_confirm[OF assms(6) this assms(8), of "cp_Ed25519Pub q" "cp_X25519Pub q" "cp_Signature q" "[]" "cp_Name q" "cp_ReadEnabled q"]
  obtain n1 c where n1: "Node_AddContact e (msg_Sender m) (cp_Ed25519Pub q) (cp_X25519Pub q) (cp_Signature q) [] (cp_Name q)
        (cp_ReadEnabled q) n = (True, n1)" "Node_GetContact (msg_Sender m) (set_confirmed e (msg_Sender m) n1) = Some c" "con_Confirmed c"
      "con_Ed25519Pub c = cp_Ed25519Pub q" "con_X25519Pub c = cp_X25519Pub q"
      "con_Verified c = (cp_Signature q \<noteq> [] \<and> cp_Ed25519Pub q \<noteq> [] \<and> cp_X25519Pub q \<noteq> [] \<and>
        verifyContactSignature e (msg_Sender m) (cp_Ed25519Pub q) (cp_X25519Pub q) (cp_Signature q))"
    by blast
  have "receive_replica e m n = Some (push_hook (MessageEvent m) (set_confirmed e (msg_Sender m) n1))"
    using assms(1-5) n1(1)
    by (simp add: receive_replica_def isServiceType_def Node_handleServiceMessage_def message_type_defs
        Node_handleContactAccept_def MESSAGE_VERSION_E2E_def)
  moreover have "Node_GetContact p (push_hook x n') = Node_GetContact p n'" for p x n'
    by (simp add: Node_GetContact_def push_hook_def)
  ultimately show ?thesis using n1(2-) by simp
qed

text \<open>C36.  A stranger becomes a confirmed contact without asking: an unencrypted hello under any ID that
is no contact yet, followed by an acceptance of a request that nobody made, leaves the victim with
that ID as a confirmed contact under the key of the stranger.  Nothing on the victim's side, no
pending request and no decision of the user, is required.\<close>

theorem stranger_confirms_itself:
  assumes laws: "base64_law e" "box_law e pub_of" "length nonce = 24"
    and victim: "nd_host n = Some me" "nd_x25519Pub n = pub_of (nd_x25519Priv n)" "writable_contacts e n"
      "Node_GetContact p n = None" "p \<noteq> me" "p \<noteq> []"
    and hello: "msg_Type h = TypeContactHello" "msg_Recipient h = me" "msg_Sender h = p" "msg_Text h \<noteq> []"
      "ev_hello_payload e (msg_Text h) = Some \<lparr>hp_PeerID = p, hp_Ed25519Pub = ed, hp_X25519Pub = ev_base64 e (pub_of k), hp_Signature = sg\<rparr>"
      "ed \<noteq> []" "ev_base64 e (pub_of k) \<noteq> []" "length (pub_of k) = 32"
    and accept: "msg_Type a = TypeContactAccept" "msg_Recipient a = me" "msg_Sender a = p" "msg_Version a = 2"
      "msg_Text a = ev_base64 e (nonce @ ev_Seal e txt nonce (nd_x25519Pub n) k)" "ev_contact_payload e txt = Some q"
  shows "\<exists>n1 n2 c. receive_replica e h n = Some n1 \<and> receive_replica e a n1 = Some n2 \<and>
    Node_GetContact p n2 = Some c \<and> con_Confirmed c \<and> con_X25519Pub c = cp_X25519Pub q"
proof -
  define c where "c = \<lparr>con_PeerID = p, con_Ed25519Pub = ed, con_X25519Pub = ev_base64 e (pub_of k), con_Signature = sg,
    con_Verified = (sg \<noteq> [] \<and> verifyContactSignature e p ed (ev_base64 e (pub_of k)) sg), con_Confirmed = False,
    con_Name = [], con_RemoteName = [], con_AddedAt = [], con_ReadEnabled = True\<rparr>"
  let ?n1 = "n\<lparr>nd_tempContacts := (nd_tempContacts n)(p \<mapsto> c), nd_started := nd_started n @ [SendHelloAck p]\<rparr>"
  have n1: "receive_replica e h n = Some ?n1"
    using hello victim
    by (simp add: receive_replica_def isServiceType_def Node_handleServiceMessage_def message_type_defs
        Node_handleContactHello_def Node_AddTempContact_def c_def)
  have "contact_box_key e (Node_GetContactTemp p ?n1) = Some (pub_of k)"
    using victim(4) hello(7,8) laws(1)
    by (simp add: Node_GetContactTemp_def Node_GetContact_def contact_box_key_def base64_law_def c_def split: option.splits)
  then have "Node_decryptFromSender e ?n1 p (msg_Text a) = Some txt"
    using decrypt_sealed[OF laws(1,2,3), of ?n1 p k "txt"] victim(2,3) accept(5) by (auto simp: writable_contacts_def split: option.splits)
  then obtain n2 d where "receive_replica e a ?n1 = Some n2" "Node_GetContact p n2 = Some d" "con_Confirmed d" "con_X25519Pub d = cp_X25519Pub q"
    using accepted_contact[of a ?n1 e "txt" q] accept victim by (auto simp: writable_contacts_def)
  with n1 show ?thesis by blast
qed


section \<open>A request and its acceptance\<close>

text \<open>The parts of a node that sending a control message leaves alone.\<close>

definition control_frame :: "node \<Rightarrow> node \<Rightarrow> bool" where
  "control_frame n n' \<longleftrightarrow> nd_host n' = nd_host n \<and> nd_contacts n' = nd_contacts n \<and> nd_contacts_file n' = nd_contacts_file n \<and>
     nd_requests n' = nd_requests n \<and> nd_requests_file n' = nd_requests_file n \<and> nd_tempContacts n' = nd_tempContacts n \<and>
     nd_x25519Pub n' = nd_x25519Pub n \<and> nd_x25519Priv n' = nd_x25519Priv n"

definition control_message :: "string \<Rightarrow> string \<Rightarrow> string \<Rightarrow> string \<Rightarrow> message_type \<Rightarrow> message \<Rightarrow> bool" where
  "control_message i c me p typ m \<longleftrightarrow> msg_ID m = i \<and> msg_Text m = c \<and> msg_Sender m = me \<and> msg_Recipient m = p \<and>
     msg_Version m = 2 \<and> msg_Type m = typ"

lemma learn_frame: "learn e msg n = Some n1 \<Longrightarrow> control_frame n n1 \<and> nd_outbox n1 = nd_outbox n"
  by (auto simp: learn_def Let_def control_frame_def)

lemma processed_control:
  assumes "p \<noteq> []" "typ \<noteq> TypeMessage" "i \<noteq> []"
  shows "\<exists>n' ob. Node_processMessageInternal e c me True (control_args i p typ) n = Some n' \<and> control_frame n n' \<and>
    nd_outbox n' = nd_outbox n @ ob \<and> list_all (control_message i c me p typ \<circ> snd) ob"
proof -
  obtain n1 where n1: "learn e c n = Some n1" using learn_returns by blast
  obtain answer where answer: "answer_text e c n = Some answer"
    using vectorToText_returns[of "fst (forward (textToVector (ev_text e) c) (nd_layers n))"]
    by (auto simp: answer_text_def)
  let ?m = "new_message e n1 c me True (control_args i p typ)"
  have m: "control_message i c me p typ ?m"
    using assms(3) by (simp add: control_message_def new_message_def control_args_def MESSAGE_VERSION_E2E_def)
  have "\<exists>ob. control_frame n1 (store_and_send e ?m True n1) \<and> nd_outbox (store_and_send e ?m True n1) = nd_outbox n1 @ ob \<and>
      list_all (control_message i c me p typ \<circ> snd) ob"
    using m assms(2) by (auto simp: store_and_send_def Let_def Node_sendServiceViaBootstrap_def push_hook_def control_frame_def
        control_message_def split: prod.split bool.split option.split)
  then show ?thesis
    using n1 answer learn_frame[OF n1] assms(1)
    by (auto simp: Node_processMessageInternal_def Let_def control_args_def control_frame_def)
qed


text \<open>The keys of a node: each public key belongs to the private key, and the lengths are right.\<close>

definition own_keys :: "(string \<Rightarrow> string) \<Rightarrow> (string \<Rightarrow> string) \<Rightarrow> node \<Rightarrow> bool" where
  "own_keys pub_of ed_pub n \<longleftrightarrow> nd_x25519Pub n = pub_of (nd_x25519Priv n) \<and> length (nd_x25519Pub n) = 32 \<and>
     nd_ed25519Pub n = ed_pub (nd_ed25519Priv n) \<and> length (nd_ed25519Pub n) = 32 \<and> nd_ed25519Priv n \<noteq> []"

lemma base64_nonempty: "base64_law e \<Longrightarrow> ev_base64 e [] = [] \<Longrightarrow> x \<noteq> [] \<Longrightarrow> ev_base64 e x \<noteq> []"
  by (metis base64_law_def option.inject)

lemma own_payload_verified:
  assumes "base64_law e" "ev_base64 e [] = []" "sign_law e ed_pub" "own_keys pub_of ed_pub n" "nd_host n = Some i" "i \<noteq> []"
    and q: "q = own_payload e name n"
  shows "cp_Signature q \<noteq> [] \<and> cp_Ed25519Pub q \<noteq> [] \<and> cp_X25519Pub q \<noteq> [] \<and>
    verifyContactSignature e i (cp_Ed25519Pub q) (cp_X25519Pub q) (cp_Signature q)"
    "contact_box_key e (Some (c\<lparr>con_X25519Pub := cp_X25519Pub q\<rparr>)) = Some (nd_x25519Pub n)"
proof -
  let ?sg = "ev_Sign e (nd_ed25519Priv n) (i @ nd_x25519Pub n)"
  have "length ?sg = 64" "ev_Verify e (nd_ed25519Pub n) (i @ nd_x25519Pub n) ?sg"
    using assms(3,4) by (simp_all add: sign_law_def own_keys_def)
  moreover have len: "length (nd_x25519Pub n) = 32" "length (nd_ed25519Pub n) = 32" using assms(4) unfolding own_keys_def by blast+
  moreover have ne: "ev_base64 e x \<noteq> []" if "length x = Suc k" for x k
    using base64_nonempty[OF assms(1,2), of x] that by (cases x) auto
  have ne: "ev_base64 e (nd_x25519Pub n) \<noteq> []" "ev_base64 e (nd_ed25519Pub n) \<noteq> []" "ev_base64 e ?sg \<noteq> []"
    using ne[of "nd_x25519Pub n" 31] ne[of "nd_ed25519Pub n" 31] ne[of ?sg 63] len \<open>length ?sg = 64\<close> by simp_all
  moreover have "Node_signMyX25519 e n = ev_base64 e ?sg" using assms(4,5) by (simp add: Node_signMyX25519_def own_keys_def)
  ultimately show "cp_Signature q \<noteq> [] \<and> cp_Ed25519Pub q \<noteq> [] \<and> cp_X25519Pub q \<noteq> [] \<and>
    verifyContactSignature e i (cp_Ed25519Pub q) (cp_X25519Pub q) (cp_Signature q)"
    using assms(1,6) by (simp add: q own_payload_def verifyContactSignature_def base64_law_def)
  show "contact_box_key e (Some (c\<lparr>con_X25519Pub := cp_X25519Pub q\<rparr>)) = Some (nd_x25519Pub n)"
    using assms(1) ne(1) len by (simp add: q own_payload_def contact_box_key_def base64_law_def)
qed

lemma box_key_same: "con_X25519Pub c = con_X25519Pub d \<Longrightarrow> contact_box_key e (Some c) = contact_box_key e (Some d)"
  by (simp add: contact_box_key_def)

lemma encrypted_payload:
  assumes "Node_encryptForRecipient e n p t = Some c" "contact_box_key e (Node_GetContact p n) = Some pub" "nonce_law e"
  shows "\<exists>nonce. length nonce = 24 \<and> c = ev_base64 e (nonce @ ev_Seal e t nonce pub (nd_x25519Priv n))"
  using assms by (auto simp: Node_encryptForRecipient_def nonce_law_def split: if_splits option.splits)

definition writable_requests :: "env \<Rightarrow> node \<Rightarrow> bool" where
  "writable_requests e n \<longleftrightarrow> (case nd_requests n of None \<Rightarrow> False | Some rs \<Rightarrow> requests_inv rs \<and> rs_path rs \<noteq> []) \<and>
     ev_w_requests e 0 = WriteOk"

text \<open>The request arrives: it is kept under its ID, with the keys of its payload.\<close>

lemma request_arrives:
  assumes "control_message i c a b TypeContactRequest m" "nd_host n = Some b" "i \<noteq> []" "a \<noteq> []"
    and "Node_decryptFromSender e n a c = Some t" "ev_contact_payload e t = Some q" "writable_requests e n" "writable_contacts e n"
  shows "\<exists>n' rs r. receive_replica e m n = Some n' \<and> writable_contacts e n' \<and> nd_host n' = nd_host n \<and>
    nd_x25519Priv n' = nd_x25519Priv n \<and> nd_requests n' = Some rs \<and> requests_inv rs \<and> RequestsStore_Get rs i = Some r \<and>
    req_PeerID r = a \<and> req_Ed25519Pub r = cp_Ed25519Pub q \<and> req_X25519Pub r = cp_X25519Pub q \<and> req_Signature r = cp_Signature q \<and>
    nd_x25519Pub n' = nd_x25519Pub n \<and> nd_ed25519Pub n' = nd_ed25519Pub n \<and> nd_ed25519Priv n' = nd_ed25519Priv n \<and>
    nd_memory n' = nd_memory n \<and> nd_configBootstrap n' = nd_configBootstrap n"
proof -
  obtain rs where rs: "nd_requests n = Some rs" "requests_inv rs" "rs_path rs \<noteq> []" and w: "ev_w_requests e 0 = WriteOk"
    using assms(7) by (auto simp: writable_requests_def split: option.splits)
  define req where "req = \<lparr>req_ID = i, req_PeerID = a, req_Name = cp_Name q, req_Ed25519Pub = cp_Ed25519Pub q,
    req_X25519Pub = cp_X25519Pub q, req_Signature = cp_Signature q, req_ReadEnabled = cp_ReadEnabled q,
    req_ReceivedAt = [], req_Status = RequestStatusPending\<rparr>"
  obtain err rs' f' where add: "RequestsStore_Add (ev_rfc3339 e) req (ev_w_requests e 0) rs (nd_requests_file n) = (err, rs', f')"
    by (cases "RequestsStore_Add (ev_rfc3339 e) req (ev_w_requests e 0) rs (nd_requests_file n)")
  have rs': "rs' = requests_put (ev_rfc3339 e) req rs" using store_resultD[OF add] by (simp add: store_simps)
  have "err = None" using add assms(3,4) rs(3) w
    by (auto simp: RequestsStore_Add_def Let_def req_def RequestsStore_saveLocked_def save_document_def)
  then have step: "receive_replica e m n =
      Some (push_hook (MessageEvent m) (Node_RemoveTempContact a (n\<lparr>nd_requests := Some rs', nd_requests_file := f'\<rparr>)))"
    using assms(1,2,5,6) add rs(1) unfolding req_def
    by (simp add: control_message_def receive_replica_def isServiceType_def Node_handleServiceMessage_def message_type_defs
        Node_handleContactRequest_def MESSAGE_VERSION_E2E_def Let_def)
  have "request_defaults (ev_rfc3339 e) req \<in> set (rs_requests rs')"
    unfolding rs' by (rule requests_put_cases[of req rs "ev_rfc3339 e"]) (use assms(3,4) in \<open>auto simp: req_def\<close>)
  then have "RequestsStore_Get rs' i = Some (request_defaults (ev_rfc3339 e) req)"
    using find_key_mem[of req_ID "rs_requests rs'" "request_defaults (ev_rfc3339 e) req"]
      requests_inv_put[OF rs(2), of "ev_rfc3339 e" req]
    by (simp add: rs' RequestsStore_Get_def requests_inv_def req_def)
  moreover have "requests_inv rs'" using requests_inv_put[OF rs(2)] by (simp add: rs')
  ultimately show ?thesis
    using assms(8) step
    by (simp add: push_hook_def Node_RemoveTempContact_def writable_contacts_def request_defaults_def req_def Let_def)
qed


text \<open>The user accepts: the peer is confirmed, the request is gone, and the answer is encrypted for the peer.\<close>

lemma drop_request_parts:
  "nd_requests n = Some rs \<Longrightarrow> requests_inv rs \<Longrightarrow> \<exists>rs'. nd_requests (drop_request e i n) = Some rs' \<and> RequestsStore_Get rs' i = None"
  "nd_contacts (drop_request e i n) = nd_contacts n" "nd_outbox (drop_request e i n) = nd_outbox n"
proof -
  show "nd_contacts (drop_request e i n) = nd_contacts n" "nd_outbox (drop_request e i n) = nd_outbox n"
    by (simp_all add: drop_request_def split: option.split prod.split)
  assume rs: "nd_requests n = Some rs" "requests_inv rs"
  obtain err rs' f' where r: "RequestsStore_Remove i (ev_w_requests e 0) rs (nd_requests_file n) = (err, rs', f')"
    by (cases "RequestsStore_Remove i (ev_w_requests e 0) rs (nd_requests_file n)")
  then have "rs' = requests_del i rs"
    using requests_state_simps(2)[of i "ev_w_requests e 0" rs "nd_requests_file n"] by (simp add: result_state_def)
  then have "RequestsStore_Get rs' i = None" by (simp add: RequestsStore_Get_def requests_del_requests find_None_iff)
  with r rs(1) show "\<exists>rs'. nd_requests (drop_request e i n) = Some rs' \<and> RequestsStore_Get rs' i = None"
    by (simp add: drop_request_def)
qed

lemma GetContact_contacts: "nd_contacts n' = nd_contacts n \<Longrightarrow> Node_GetContact p n' = Node_GetContact p n"
  by (simp add: Node_GetContact_def)

lemma request_accepted:
  assumes n: "nd_host n = Some b" "nd_requests n = Some rs" "requests_inv rs" "RequestsStore_Get rs i = Some r" "writable_contacts e n"
    and r: "req_PeerID r = a" "a \<noteq> b" "a \<noteq> []" "i \<noteq> []" "\<And>s. ev_generateMsgID e s \<noteq> []"
    and key: "contact_box_key e (Some (c0\<lparr>con_X25519Pub := req_X25519Pub r\<rparr>)) = Some pubA"
    and accept: "Node_AcceptRequestByID e L i n = Some (ok, n')" "nd_outbox n' = nd_outbox n @ ob" "(srv, m) \<in> set ob"
  shows "ok \<and> (\<exists>rs'. nd_requests n' = Some rs' \<and> RequestsStore_Get rs' i = None) \<and>
    (\<exists>c. Node_GetContact a n' = Some c \<and> con_Confirmed c \<and> con_Ed25519Pub c = req_Ed25519Pub r \<and> con_X25519Pub c = req_X25519Pub r \<and>
      con_Verified c = (req_Signature r \<noteq> [] \<and> req_Ed25519Pub r \<noteq> [] \<and> req_X25519Pub r \<noteq> [] \<and>
        verifyContactSignature e a (req_Ed25519Pub r) (req_X25519Pub r) (req_Signature r))) \<and>
    (\<exists>c j n2 name. control_message j c b a TypeContactAccept m \<and> contact_frame n n2 \<and>
       contact_box_key e (Node_GetContact a n2) = Some pubA \<and>
       Node_encryptForRecipient e n2 a (sd_control_json L i (own_payload e name n2)) = Some c)"
proof -
  have "nd_host n \<noteq> Some a" using n(1) r(2) by simp
  from add_and_confirm[OF n(5) this r(3), of "req_Ed25519Pub r" "req_X25519Pub r" "req_Signature r" "[]" "req_Name r" "req_ReadEnabled r"]
  obtain n1 c where n1: "Node_AddContact e a (req_Ed25519Pub r) (req_X25519Pub r) (req_Signature r) [] (req_Name r) (req_ReadEnabled r) n = (True, n1)"
      "contact_frame n (set_confirmed e a n1)" "Node_GetContact a (set_confirmed e a n1) = Some c"
    and c: "con_Confirmed c" "con_Ed25519Pub c = req_Ed25519Pub r" "con_X25519Pub c = req_X25519Pub r"
      "con_Verified c = (req_Signature r \<noteq> [] \<and> req_Ed25519Pub r \<noteq> [] \<and> req_X25519Pub r \<noteq> [] \<and>
        verifyContactSignature e a (req_Ed25519Pub r) (req_X25519Pub r) (req_Signature r))"
    by blast
  let ?n2 = "set_confirmed e a n1"
  obtain sent n3 where n3: "Node_SendContactAccept e L i a ?n2 = Some (sent, n3)" "ok" "n' = drop_request e i n3"
    using accept(1) n(2,4) r(1) n1(1) by (auto simp: Node_AcceptRequestByID_def)
  have host: "nd_host ?n2 = Some b" "nd_requests ?n2 = Some rs" "nd_outbox ?n2 = nd_outbox n"
    using n1(2) n(1,2) by (simp_all add: contact_frame_def)
  have "contact_box_key e (Node_GetContact a ?n2) = Some pubA"
    using key n1(3) c(3) box_key_same[of c "c0\<lparr>con_X25519Pub := req_X25519Pub r\<rparr>" e] by simp
  moreover
  let ?name = "Node_GetMyDisplayName ?n2"
  have "\<exists>enc. Node_encryptForRecipient e ?n2 a (sd_control_json L i (own_payload e ?name ?n2)) = Some enc"
  proof (rule ccontr)
    assume "\<not> ?thesis"
    then have "n3 = ?n2" using n3(1) host(1) r(3,4)
      by (auto simp: Node_SendContactAccept_def Node_sendContactControl_def Let_def split: option.splits)
    then show False using accept(2,3) n3(3) host(3) drop_request_parts(3)[of e i n3] by simp
  qed
  then obtain enc where enc: "Node_encryptForRecipient e ?n2 a (sd_control_json L i (own_payload e ?name ?n2)) = Some enc" by blast
  define j where "j = ev_generateMsgID e (msgTypeString TypeContactAccept @ '':'' @ i @ '':'' @ ev_nano e)"
  obtain n4 ob' where n4: "Node_processMessageInternal e enc b True (control_args j a TypeContactAccept) ?n2 = Some n4"
      "control_frame ?n2 n4" "nd_outbox n4 = nd_outbox ?n2 @ ob'" "list_all (control_message j enc b a TypeContactAccept \<circ> snd) ob'"
    using processed_control[of a TypeContactAccept j e enc b ?n2] r(3,5) by (auto simp: j_def message_type_defs)
  then have "n3 = n4" using n3(1) host(1) r(3,4) enc
    by (simp add: Node_SendContactAccept_def Node_sendContactControl_def j_def)
  then have "ob = ob'" "nd_requests n3 = Some rs" "nd_contacts n3 = nd_contacts ?n2"
    using accept(2) n3(3) n4(2,3) host drop_request_parts(3)[of e i n3] by (simp_all add: control_frame_def)
  then have "control_message j enc b a TypeContactAccept m" using accept(3) n4(4) by (auto simp: list_all_iff)
  moreover obtain rs' where "nd_requests n' = Some rs'" "RequestsStore_Get rs' i = None"
    using drop_request_parts(1)[OF \<open>nd_requests n3 = Some rs\<close> n(3), of e i] n3(3) by auto
  moreover have "Node_GetContact a n' = Some c"
    using GetContact_contacts[of n' ?n2 a] \<open>nd_contacts n3 = nd_contacts ?n2\<close> drop_request_parts(2)[of e i n3] n3(3) n1(3) by simp
  ultimately show ?thesis using n3(2) c n1(2) enc by blast
qed


lemma request_delivered:
  assumes crypto: "base64_law e" "box_law e pub_of" "nonce_law e" "\<And>s. ev_generateMsgID e s \<noteq> []"
    and json: "\<And>q. ev_contact_payload e (sd_contact_json L q) = Some q"
    and alice: "nd_host A = Some a" "a \<noteq> []" "nd_x25519Pub A = pub_of (nd_x25519Priv A)"
      "contact_box_key e (Node_GetContact b A) = Some (nd_x25519Pub B)"
    and bob: "nd_host B = Some b" "b \<noteq> []" "nd_x25519Pub B = pub_of (nd_x25519Priv B)" "writable_contacts e B" "writable_requests e B"
      "contact_box_key e (Node_GetContactTemp a B) = Some (nd_x25519Pub A)"
    and ask: "Node_SendContactRequest e L b name A = Some (Some i, A1)" "nd_outbox A1 = nd_outbox A @ obA" "(srv, m) \<in> set obA"
    and q: "q = own_payload e (if name = [] then Node_GetMyDisplayName A else name) A"
  shows "i \<noteq> [] \<and> control_frame A A1 \<and> (\<exists>B1 rs r. receive_replica e m B = Some B1 \<and> writable_contacts e B1 \<and> nd_host B1 = Some b \<and>
    nd_x25519Priv B1 = nd_x25519Priv B \<and> nd_requests B1 = Some rs \<and> requests_inv rs \<and> RequestsStore_Get rs i = Some r \<and>
    req_PeerID r = a \<and> req_Ed25519Pub r = cp_Ed25519Pub q \<and> req_X25519Pub r = cp_X25519Pub q \<and> req_Signature r = cp_Signature q \<and>
    nd_x25519Pub B1 = nd_x25519Pub B \<and> nd_ed25519Pub B1 = nd_ed25519Pub B \<and> nd_ed25519Priv B1 = nd_ed25519Priv B \<and>
    nd_memory B1 = nd_memory B \<and> nd_configBootstrap B1 = nd_configBootstrap B)"
proof -
  obtain enc where enc: "Node_encryptForRecipient e A b (sd_contact_json L q) = Some enc"
    and proc: "Node_processMessageInternal e enc a True (control_args i b TypeContactRequest) A = Some A1" and i: "i \<noteq> []"
    using ask(1) alice(1) bob(2) crypto(4) unfolding q
    by (auto simp: Node_SendContactRequest_def Let_def split: option.splits if_splits)
  from processed_control[of b TypeContactRequest i e enc a A] bob(2) i proc ask(2,3)
  have A1: "control_frame A A1" and m: "control_message i enc a b TypeContactRequest m"
    by (auto simp: message_type_defs list_all_iff)
  obtain nonce where "length nonce = 24" "enc = ev_base64 e (nonce @ ev_Seal e (sd_contact_json L q) nonce (pub_of (nd_x25519Priv B)) (nd_x25519Priv A))"
    using encrypted_payload[OF enc alice(4) crypto(3)] bob(3) by auto
  then have "Node_decryptFromSender e B a enc = Some (sd_contact_json L q)"
    using decrypt_sealed[OF crypto(1,2), of nonce B a "nd_x25519Priv A" "sd_contact_json L q"] bob(4,6) alice(3)
    by (auto simp: writable_contacts_def split: option.splits)
  from request_arrives[OF m bob(1) i alice(2) this json bob(5,4)] show ?thesis using bob(1) i A1 by auto
qed


text \<open>C9.  The handshake works: when two nodes hold each other's keys, one asks, the user of the other
accepts, and the messages arrive, then each side has the other as a confirmed and verified contact
under the other's own keys, and the request is no longer pending.\<close>

theorem handshake_confirms_both:
  assumes crypto: "base64_law e" "ev_base64 e [] = []" "box_law e pub_of" "nonce_law e" "sign_law e ed_pub"
      "\<And>s. ev_generateMsgID e s \<noteq> []"
    and json: "\<And>q. ev_contact_payload e (sd_contact_json L q) = Some q" "\<And>i q. ev_contact_payload e (sd_control_json L i q) = Some q"
    and alice: "nd_host A = Some a" "a \<noteq> []" "own_keys pub_of ed_pub A" "writable_contacts e A"
      "contact_box_key e (Node_GetContact b A) = Some (nd_x25519Pub B)"
    and bob: "nd_host B = Some b" "b \<noteq> []" "own_keys pub_of ed_pub B" "writable_contacts e B" "writable_requests e B"
      "contact_box_key e (Node_GetContactTemp a B) = Some (nd_x25519Pub A)" and "a \<noteq> b"
    and ask: "Node_SendContactRequest e L b name A = Some (Some i, A1)" "nd_outbox A1 = nd_outbox A @ obA" "(srv, m) \<in> set obA"
    and arrive: "receive_replica e m B = Some B1"
    and accept: "Node_AcceptRequestByID e L i B1 = Some (ok, B2)" "nd_outbox B2 = nd_outbox B1 @ obB" "(srv', m') \<in> set obB"
    and answer: "receive_replica e m' A1 = Some A2"
  shows "(\<exists>c. Node_GetContact a B2 = Some c \<and> con_Confirmed c \<and> con_Verified c \<and> con_X25519Pub c = ev_base64 e (nd_x25519Pub A)) \<and>
    (\<exists>c. Node_GetContact b A2 = Some c \<and> con_Confirmed c \<and> con_Verified c \<and> con_X25519Pub c = ev_base64 e (nd_x25519Pub B)) \<and>
    (\<exists>rs. nd_requests B2 = Some rs \<and> RequestsStore_Get rs i = None)"
proof -
  define qA where "qA = own_payload e (if name = [] then Node_GetMyDisplayName A else name) A"
  have pubs: "nd_x25519Pub A = pub_of (nd_x25519Priv A)" "nd_x25519Pub B = pub_of (nd_x25519Priv B)"
    using alice(3) bob(3) by (simp_all add: own_keys_def)
  note payA = own_payload_verified[OF crypto(1,2,5) alice(3) alice(1,2) qA_def]
  from request_delivered[OF crypto(1,3,4,6) json(1) alice(1,2) pubs(1) alice(5) bob(1,2) pubs(2) bob(4,5,6) ask qA_def] arrive
  obtain rs r where i: "i \<noteq> []" and A1: "control_frame A A1"
    and B1: "writable_contacts e B1" "nd_host B1 = Some b" "nd_x25519Priv B1 = nd_x25519Priv B" "nd_requests B1 = Some rs"
      "requests_inv rs" "RequestsStore_Get rs i = Some r" "req_PeerID r = a" "nd_x25519Pub B1 = nd_x25519Pub B"
      "nd_ed25519Pub B1 = nd_ed25519Pub B" "nd_ed25519Priv B1 = nd_ed25519Priv B"
    and r: "req_Ed25519Pub r = cp_Ed25519Pub qA" "req_X25519Pub r = cp_X25519Pub qA" "req_Signature r = cp_Signature qA"
    by auto
  have key: "contact_box_key e (Some (c0\<lparr>con_X25519Pub := req_X25519Pub r\<rparr>)) = Some (nd_x25519Pub A)" for c0
    using payA(2) r(2) by simp
  from request_accepted[OF B1(2,4,5,6,1,7) \<open>a \<noteq> b\<close> alice(2) i crypto(6) key accept]
  obtain rs' c enc' j B' name' where B2: "nd_requests B2 = Some rs'" "RequestsStore_Get rs' i = None" "Node_GetContact a B2 = Some c"
      "con_Confirmed c" "con_X25519Pub c = req_X25519Pub r" "con_Verified c"
    and m': "control_message j enc' b a TypeContactAccept m'" "contact_frame B1 B'"
      "contact_box_key e (Node_GetContact a B') = Some (nd_x25519Pub A)"
      "Node_encryptForRecipient e B' a (sd_control_json L i (own_payload e name' B')) = Some enc'"
    using payA(1) r by auto
  define qB where "qB = own_payload e name' B'"
  have B': "own_keys pub_of ed_pub B'" "nd_host B' = Some b" "nd_x25519Priv B' = nd_x25519Priv B" "nd_x25519Pub B' = nd_x25519Pub B"
  proof -
    show "own_keys pub_of ed_pub B'" using m'(2) B1(3,8,9,10) bob(3) unfolding contact_frame_def own_keys_def by argo
  qed (use m'(2) B1 in \<open>simp_all add: contact_frame_def\<close>)
  note payB = own_payload_verified[OF crypto(1,2,5) B'(1,2) bob(2) qB_def]
  obtain nonce' where "length nonce' = 24"
      "enc' = ev_base64 e (nonce' @ ev_Seal e (sd_control_json L i qB) nonce' (pub_of (nd_x25519Priv A)) (nd_x25519Priv B))"
    using encrypted_payload[OF m'(4,3) crypto(4)] pubs B'(3) by (auto simp: qB_def)
  moreover have "contact_box_key e (Node_GetContactTemp b A1) = Some (pub_of (nd_x25519Priv B))"
    using alice(5) A1 pubs(2) by (auto simp: Node_GetContactTemp_def Node_GetContact_def control_frame_def contact_box_key_def split: option.splits if_splits)
  moreover have A1w: "writable_contacts e A1" using alice(4) A1 by (simp add: writable_contacts_def control_frame_def)
  ultimately have "Node_decryptFromSender e A1 b enc' = Some (sd_control_json L i qB)"
    using decrypt_sealed[OF crypto(1,3), of nonce' A1 b "nd_x25519Priv B" "sd_control_json L i qB"] A1
    by (auto simp: control_frame_def writable_contacts_def split: option.splits)
  then obtain d where "Node_GetContact b A2 = Some d" "con_Confirmed d" "con_X25519Pub d = cp_X25519Pub qB" "con_Verified d"
    using accepted_contact[of m' A1 e "sd_control_json L i qB" qB] m'(1) A1 A1w alice(1) json(2) \<open>a \<noteq> b\<close> bob(2) answer payB(1)
    by (auto simp: control_message_def control_frame_def)
  then show ?thesis using B2 r(2) B'(4) by (auto simp: qA_def qB_def own_payload_def)
qed


section \<open>Two peers and a stranger\<close>

text \<open>A stand-in for the JSON of a payload, which the parser of the environment reads back: fields with every
character marked.\<close>

primrec mark_field :: "string \<Rightarrow> string \<Rightarrow> string" where
  "mark_field [] rest = CHR ''.'' # rest"
| "mark_field (c # s) rest = CHR ''+'' # c # mark_field s rest"

fun read_field :: "string \<Rightarrow> (string \<times> string) option" where
  "read_field (h # t) =
     (if h = CHR ''+'' then (case t of c # u \<Rightarrow> map_option (apfst ((#) c)) (read_field u) | [] \<Rightarrow> None) else Some ([], t))"
| "read_field [] = None"

lemma read_mark [simp]: "read_field (mark_field s rest) = Some (s, rest)"
  by (induction s) simp_all

definition mark_payload :: "contact_payload \<Rightarrow> string" where
  "mark_payload q = mark_field (cp_Name q) (mark_field (cp_Ed25519Pub q) (mark_field (cp_X25519Pub q)
     (mark_field (cp_Signature q) (if cp_ReadEnabled q then ''t'' else ''f''))))"

definition read_payload :: "string \<Rightarrow> contact_payload option" where
  "read_payload t = Option.bind (read_field t) (\<lambda>(nm, t1). Option.bind (read_field t1) (\<lambda>(ed, t2).
     Option.bind (read_field t2) (\<lambda>(x, t3). Option.bind (read_field t3) (\<lambda>(sg, t4).
       Some \<lparr>cp_Name = nm, cp_Ed25519Pub = ed, cp_X25519Pub = x, cp_Signature = sg, cp_ReadEnabled = (t4 = ''t'')\<rparr>))))"

lemma read_mark_payload [simp]: "read_payload (mark_payload q) = Some q"
  by (simp add: read_payload_def mark_payload_def)

definition handshake_env :: env where
  "handshake_env = (quiet_env 5)\<lparr>ev_generateMsgID := (#) (CHR ''m''), ev_AddrInfo := (\<lambda>_. Some ''srv''), ev_stream := (\<lambda>_ _. True),
     ev_contact_payload := read_payload, ev_hello_payload := (\<lambda>_. Some \<lparr>hp_PeerID = ''eve'',
       hp_Ed25519Pub = replicate 32 (CHR ''e''), hp_X25519Pub = replicate 32 (CHR ''k''), hp_Signature = []\<rparr>)\<rparr>"

definition handshake_lib :: send_lib where
  "handshake_lib = \<lparr>sd_contact_json = mark_payload, sd_control_json = (\<lambda>i. mark_payload), sd_hello_json = (\<lambda>_. []),
     sd_offer_json = (\<lambda>_. []), sd_meta_json = (\<lambda>_. []), sd_open = (\<lambda>_. None), sd_sent_dir = True, sd_files_dir = True,
     sd_copy = (\<lambda>_. Copied), sd_write_meta = True, sd_dummy = (\<lambda>_. None)\<rparr>"

definition handshake_node :: "string \<Rightarrow> string \<Rightarrow> node" where
  "handshake_node me other = (sample_peer other)\<lparr>nd_host := Some me, nd_configBootstrap := [''srv''],
     nd_requests := Some \<lparr>rs_path = ''r'', rs_requests = []\<rparr>, nd_ed25519Priv := ''s'', nd_ed25519Pub := replicate 32 (CHR ''e'')\<rparr>"

lemma handshake_laws:
  "base64_law handshake_env" "ev_base64 handshake_env [] = []" "box_law handshake_env (\<lambda>x. x)" "nonce_law handshake_env"
  "sign_law handshake_env (\<lambda>_. replicate 32 (CHR ''e''))" "ev_generateMsgID handshake_env s \<noteq> []"
  by (simp_all add: handshake_env_def base64_law_def box_law_def nonce_law_def sign_law_def)

lemma handshake_json:
  "ev_contact_payload handshake_env (sd_contact_json handshake_lib q) = Some q"
  "ev_contact_payload handshake_env (sd_control_json handshake_lib i q) = Some q"
  by (simp_all add: handshake_env_def handshake_lib_def)

lemma handshake_node_ok:
  assumes "other \<noteq> []"
  shows "nd_host (handshake_node me other) = Some me"
    "own_keys (\<lambda>x. x) (\<lambda>_. replicate 32 (CHR ''e'')) (handshake_node me other)"
    "writable_contacts handshake_env (handshake_node me other)" "writable_requests handshake_env (handshake_node me other)"
    "contact_box_key handshake_env (Node_GetContact other (handshake_node me other)) = Some (nd_x25519Pub (handshake_node b c))"
    "contact_box_key handshake_env (Node_GetContactTemp other (handshake_node me other)) = Some (nd_x25519Pub (handshake_node b c))"
  using assms
  by (simp_all add: handshake_node_def own_keys_def writable_contacts_def writable_requests_def handshake_env_def sample_peer_def
      sample_contact_def contact_box_key_def Node_GetContactTemp_def Node_GetContact_def ContactsStore_Get_def contacts_inv_def
      requests_inv_def)


text \<open>With a bootstrap server that takes everything, a control message goes out.\<close>

lemma control_goes_out:
  assumes "nd_host n = Some me" "p \<noteq> []" "typ \<noteq> TypeMessage" "i \<noteq> []" "mem_seen (nd_memory n) i \<noteq> Some True"
    and "\<And>x. bootstrap_taker e (Some me) x (Node_loadBootstrapPeers e n) = Some srv"
  shows "\<exists>n' x. Node_processMessageInternal e c me True (control_args i p typ) n = Some n' \<and> nd_outbox n' = nd_outbox n @ [(srv, x)]"
proof -
  obtain n1 where n1: "learn e c n = Some n1" using learn_returns by blast
  obtain answer where answer: "answer_text e c n = Some answer"
    using vectorToText_returns[of "fst (forward (textToVector (ev_text e) c) (nd_layers n))"]
    by (auto simp: answer_text_def)
  let ?m = "new_message e n1 c me True (control_args i p typ)"
  have frame: "nd_memory n1 = nd_memory n" "nd_host n1 = Some me" "nd_configBootstrap n1 = nd_configBootstrap n" "nd_outbox n1 = nd_outbox n"
    using n1 assms(1) by (auto simp: learn_def Let_def)
  obtain mem where "Memory_Add (ev_now e) ?m (nd_memory n1) = (True, mem)"
    using assms(4,5) frame(1)
    by (simp add: Memory_Add_def new_message_def control_args_def is_expired_def IsZero_def Let_def)
  then have "\<exists>x. nd_outbox (store_and_send e ?m True n1) = nd_outbox n @ [(srv, x)]"
    using assms(2,3,4,6) frame
    by (simp add: store_and_send_def Let_def Node_sendServiceViaBootstrap_def Node_loadBootstrapPeers_def push_hook_def
        new_message_def control_args_def)
  then show ?thesis
    using n1 answer assms(2) by (auto simp: Node_processMessageInternal_def Let_def control_args_def)
qed

lemma handshake_server:
  "nd_configBootstrap n = [''srv''] \<Longrightarrow> me \<noteq> ''srv'' \<Longrightarrow>
     bootstrap_taker handshake_env (Some me) x (Node_loadBootstrapPeers handshake_env n) = Some ''srv''"
  by (simp add: Node_loadBootstrapPeers_def loadBootstrapPeers_def expandTransportAlternatives_def handshake_env_def Index.simps)

theorem stranger_confirms_itself_witness:
  "\<exists>n1 n2 c. receive_replica handshake_env (zero_message\<lparr>msg_Type := TypeContactHello, msg_Text := ''h'', msg_Sender := ''eve'',
      msg_Recipient := ''me''\<rparr>) (handshake_node ''me'' ''bob'') = Some n1 \<and>
    receive_replica handshake_env (zero_message\<lparr>msg_Type := TypeContactAccept, msg_Version := 2, msg_Sender := ''eve'',
      msg_Recipient := ''me'', msg_Text := replicate 24 (CHR ''n'') @
        rev (mark_payload \<lparr>cp_Name = [], cp_Ed25519Pub = [], cp_X25519Pub = ''evil'', cp_Signature = [], cp_ReadEnabled = True\<rparr>)\<rparr>) n1 = Some n2 \<and>
    Node_GetContact ''eve'' n2 = Some c \<and> con_Confirmed c \<and> con_X25519Pub c = ''evil''"
proof -
  let ?q = "\<lparr>cp_Name = [], cp_Ed25519Pub = [], cp_X25519Pub = ''evil'', cp_Signature = [], cp_ReadEnabled = True\<rparr>"
  have "nd_x25519Pub (handshake_node ''me'' ''bob'') = nd_x25519Priv (handshake_node ''me'' ''bob'')"
      "Node_GetContact ''eve'' (handshake_node ''me'' ''bob'') = None"
    by (simp_all add: handshake_node_def sample_peer_def Node_GetContact_def ContactsStore_Get_def sample_contact_def)
  then show ?thesis
    using stranger_confirms_itself[OF handshake_laws(1,3), of "replicate 24 (CHR ''n'')" "handshake_node ''me'' ''bob''" "''me''" "''eve''"
        "zero_message\<lparr>msg_Type := TypeContactHello, msg_Text := ''h'', msg_Sender := ''eve'', msg_Recipient := ''me''\<rparr>"
        "replicate 32 (CHR ''e'')" "replicate 32 (CHR ''k'')" "[]"
        "zero_message\<lparr>msg_Type := TypeContactAccept, msg_Version := 2, msg_Sender := ''eve'', msg_Recipient := ''me'',
           msg_Text := replicate 24 (CHR ''n'') @ rev (mark_payload ?q)\<rparr>" "mark_payload ?q" ?q]
      handshake_node_ok[of "''bob''" "''me''"]
    by (simp add: handshake_env_def zero_message_def)
qed

lemma accept_goes_out:
  assumes n: "nd_host n = Some b" "nd_requests n = Some rs" "RequestsStore_Get rs i = Some r" "writable_contacts e n"
    and r: "req_PeerID r = a" "a \<noteq> b" "a \<noteq> []" "i \<noteq> []"
    and env: "\<And>s. ev_generateMsgID e s \<noteq> []" "\<And>s. mem_seen (nd_memory n) (ev_generateMsgID e s) \<noteq> Some True"
      "\<And>x. bootstrap_taker e (Some b) x (Node_loadBootstrapPeers e n) = Some srv"
      "\<And>n2 t. Node_GetContact a n2 \<noteq> None \<Longrightarrow> contact_box_key e (Node_GetContact a n2) = Some pubA \<Longrightarrow>
         Node_encryptForRecipient e n2 a t \<noteq> None"
    and key: "contact_box_key e (Some (c0\<lparr>con_X25519Pub := req_X25519Pub r\<rparr>)) = Some pubA"
  shows "\<exists>n' x. Node_AcceptRequestByID e L i n = Some (True, n') \<and> nd_outbox n' = nd_outbox n @ [(srv, x)]"
proof -
  have "nd_host n \<noteq> Some a" using n(1) r(2) by simp
  from add_and_confirm[OF n(4) this r(3), of "req_Ed25519Pub r" "req_X25519Pub r" "req_Signature r" "[]" "req_Name r" "req_ReadEnabled r"]
  obtain n1 c where n1: "Node_AddContact e a (req_Ed25519Pub r) (req_X25519Pub r) (req_Signature r) [] (req_Name r) (req_ReadEnabled r) n = (True, n1)"
      "contact_frame n (set_confirmed e a n1)" "Node_GetContact a (set_confirmed e a n1) = Some c" "con_X25519Pub c = req_X25519Pub r"
    by blast
  let ?n2 = "set_confirmed e a n1"
  have n2: "nd_host ?n2 = Some b" "nd_memory ?n2 = nd_memory n" "nd_configBootstrap ?n2 = nd_configBootstrap n" "nd_outbox ?n2 = nd_outbox n"
    using n1(2) n(1) by (simp_all add: contact_frame_def)
  obtain enc where enc: "Node_encryptForRecipient e ?n2 a (sd_control_json L i (own_payload e (Node_GetMyDisplayName ?n2) ?n2)) = Some enc"
    using env(4)[of ?n2] key n1(3,4) box_key_same[of c "c0\<lparr>con_X25519Pub := req_X25519Pub r\<rparr>" e] by auto
  define j where "j = ev_generateMsgID e (msgTypeString TypeContactAccept @ '':'' @ i @ '':'' @ ev_nano e)"
  obtain n3 x where "Node_processMessageInternal e enc b True (control_args j a TypeContactAccept) ?n2 = Some n3"
      "nd_outbox n3 = nd_outbox ?n2 @ [(srv, x)]"
    using control_goes_out[of ?n2 b a TypeContactAccept j e srv enc] n2 r(3) env(1-3)
    by (auto simp: j_def message_type_defs Node_loadBootstrapPeers_def)
  then have "Node_AcceptRequestByID e L i n = Some (True, drop_request e i n3)" "nd_outbox (drop_request e i n3) = nd_outbox n @ [(srv, x)]"
    using n(2,3) r n1(1) n2 enc drop_request_parts(3)[of e i n3]
    by (simp_all add: Node_AcceptRequestByID_def Node_SendContactAccept_def Node_sendContactControl_def j_def)
  then show ?thesis by blast
qed

lemma handshake_seals:
  "contact_box_key handshake_env (Node_GetContact p n) = Some k \<Longrightarrow> nd_contacts n \<noteq> None \<Longrightarrow> Node_encryptForRecipient handshake_env n p t \<noteq> None"
  by (auto simp: Node_encryptForRecipient_def handshake_env_def contact_box_key_def split: option.splits if_splits)

lemma handshake_node_inv: "other \<noteq> me \<Longrightarrow> other \<noteq> [] \<Longrightarrow> node_inv (handshake_node me other)"
  by (simp add: handshake_node_def sample_peer_def node_inv_def Node_GetContact_def ContactsStore_Get_def contacts_inv_def
      sample_contact_def requests_inv_def)

theorem handshake_confirms_both_witness:
  "\<exists>i A1 m B1 B2 m' A2 c d.
    Node_SendContactRequest handshake_env handshake_lib ''bob'' ''Ali'' (handshake_node ''ali'' ''bob'') = Some (Some i, A1) \<and>
    nd_outbox A1 = [(''srv'', m)] \<and> receive_replica handshake_env m (handshake_node ''bob'' ''ali'') = Some B1 \<and>
    Node_AcceptRequestByID handshake_env handshake_lib i B1 = Some (True, B2) \<and> nd_outbox B2 = nd_outbox B1 @ [(''srv'', m')] \<and>
    receive_replica handshake_env m' A1 = Some A2 \<and>
    Node_GetContact ''ali'' B2 = Some c \<and> con_Confirmed c \<and> Node_GetContact ''bob'' A2 = Some d \<and> con_Confirmed d"
proof -
  let ?e = handshake_env and ?L = handshake_lib and ?A = "handshake_node ''ali'' ''bob''" and ?B = "handshake_node ''bob'' ''ali''"
  define q where "q = own_payload ?e (if ''Ali'' = [] then Node_GetMyDisplayName ?A else ''Ali'') ?A"
  have parts: "nd_outbox ?A = []" "nd_configBootstrap ?A = [''srv'']" "nd_configBootstrap ?B = [''srv'']" "nd_memory ?A = empty_memory"
      "nd_memory ?B = empty_memory" "nd_x25519Pub ?A = nd_x25519Priv ?A" "nd_x25519Pub ?B = nd_x25519Priv ?B" "nd_contacts ?A \<noteq> None"
    by (simp_all add: handshake_node_def sample_peer_def)
  note A = handshake_node_ok[of "''bob''" "''ali''"] and B = handshake_node_ok[of "''ali''" "''bob''"]
  have bobKey: "contact_box_key ?e (Node_GetContact ''bob'' ?A) = Some (nd_x25519Pub ?B)"
    and aliKey: "contact_box_key ?e (Node_GetContactTemp ''ali'' ?B) = Some (nd_x25519Pub ?A)"
    by (rule A(5), simp, rule B(6), simp)
  define i where "i = ev_generateMsgID ?e (''req:'' @ ''bob'' @ '':'' @ ev_nano ?e)"
  have fresh: "mem_seen empty_memory j \<noteq> Some True" for j by (simp add: empty_memory_def)
  obtain enc where enc: "Node_encryptForRecipient ?e ?A ''bob'' (sd_contact_json ?L q) = Some enc"
    using handshake_seals[OF bobKey parts(8)] by blast
  obtain A1 m where A1: "Node_processMessageInternal ?e enc ''ali'' True (control_args i ''bob'' TypeContactRequest) ?A = Some A1"
      "nd_outbox A1 = nd_outbox ?A @ [(''srv'', m)]"
    using control_goes_out[of ?A "''ali''" "''bob''" TypeContactRequest i ?e "''srv''" enc] A(1) handshake_laws(6) parts(2,4)
    by (auto simp: i_def message_type_defs handshake_server fresh)
  have ask: "Node_SendContactRequest ?e ?L ''bob'' ''Ali'' ?A = Some (Some i, A1)"
    using A(1) enc A1(1) by (simp add: Node_SendContactRequest_def q_def i_def Let_def)
  from request_delivered[OF handshake_laws(1,3,4,6) handshake_json(1) A(1) _ parts(6) bobKey B(1) _ parts(7) B(3,4) aliKey ask A1(2) _ q_def]
  obtain B1 rs r where i: "i \<noteq> []" and B1: "receive_replica ?e m ?B = Some B1" "writable_contacts ?e B1" "nd_host B1 = Some ''bob''"
      "nd_requests B1 = Some rs" "RequestsStore_Get rs i = Some r" "req_PeerID r = ''ali''" "req_X25519Pub r = cp_X25519Pub q"
      "nd_memory B1 = nd_memory ?B" "nd_configBootstrap B1 = nd_configBootstrap ?B"
    by auto
  have key: "contact_box_key ?e (Some (c0\<lparr>con_X25519Pub := req_X25519Pub r\<rparr>)) = Some (nd_x25519Pub ?A)" for c0
    using own_payload_verified(2)[OF handshake_laws(1,2,5) A(2) A(1) _ q_def] B1(7) by simp
  have seal: "Node_encryptForRecipient ?e n2 ''ali'' t \<noteq> None"
    if "Node_GetContact ''ali'' n2 \<noteq> None" "contact_box_key ?e (Node_GetContact ''ali'' n2) = Some (nd_x25519Pub ?A)" for n2 t
    using handshake_seals[of "''ali''" n2 "nd_x25519Pub ?A" t] that by (auto simp: Node_GetContact_def split: option.splits)
  have server: "bootstrap_taker ?e (Some ''bob'') x (Node_loadBootstrapPeers ?e B1) = Some ''srv''" for x
    using B1(9) parts(3) by (intro handshake_server) simp_all
  have fresh1: "mem_seen (nd_memory B1) j \<noteq> Some True" for j using fresh B1(8) parts(5) by simp
  have "\<exists>B2 m'. Node_AcceptRequestByID ?e ?L i B1 = Some (True, B2) \<and> nd_outbox B2 = nd_outbox B1 @ [(''srv'', m')]"
    by (rule accept_goes_out[OF B1(3,4,5,2,6) _ _ i handshake_laws(6) fresh1 server seal key[of "sample_contact ''ali'' True"]]) simp_all
  then obtain B2 m' where B2: "Node_AcceptRequestByID ?e ?L i B1 = Some (True, B2)" "nd_outbox B2 = nd_outbox B1 @ [(''srv'', m')]"
    by blast
  have "node_inv A1"
    using SendContactRequest_inv[OF handshake_node_inv[of "''bob''" "''ali''"], of ?e ?L "''bob''" "''Ali''"] ask by simp
  then obtain A2 where A2: "receive_replica ?e m' A1 = Some A2" using receive_replica_inv by blast
  obtain c d where "Node_GetContact ''ali'' B2 = Some c" "con_Confirmed c" "Node_GetContact ''bob'' A2 = Some d" "con_Confirmed d"
    using handshake_confirms_both[OF handshake_laws(1-6) handshake_json A(1) _ A(2,3) bobKey B(1) _ B(2,3,4) aliKey _ ask A1(2) _
        B1(1) B2 _ A2, where srv = "''srv''" and srv' = "''srv''"] by auto
  then show ?thesis using ask A1(2) parts(1) B1(1) B2 A2
    by (intro exI[of _ i] exI[of _ A1] exI[of _ m] exI[of _ B1] exI[of _ B2] exI[of _ m'] exI[of _ A2] exI[of _ c] exI[of _ d]) simp
qed

end
