(* ===== verification/UserSettings.thy ===== *)
theory UserSettings
  imports State
begin

text \<open>
  node/node_settings.go: the settings as the user reaches them through the node.  Beside the node,
  \<open>settings_part\<close> holds the file of the settings and \<open>n.mixingEnabled\<close>, which no other code
  reads.  The flag of a result is whether the call returned nil; \<open>w\<close> is the outcome of the write.
\<close>

record settings_part =
  sp_file :: "settings_file file_content"
  sp_mixing :: bool

type_synonym settings_state = "node \<times> settings_part"

section \<open>Setters\<close>

text \<open>What the setters share: without a store they fail, with one they call its setter.\<close>

definition node_setter ::
  "(settings_store \<Rightarrow> settings_file file_content \<Rightarrow> (settings_store, settings_file) store_result) \<Rightarrow>
     settings_state \<Rightarrow> bool \<times> settings_state" where
  "node_setter op s =
     (case s of (n, sp) \<Rightarrow>
        (case nd_settings n of None \<Rightarrow> (False, s)
         | Some st \<Rightarrow> (case op st (sp_file sp) of
             (err, st', f') \<Rightarrow> (err = None, n\<lparr>nd_settings := Some st'\<rparr>, sp\<lparr>sp_file := f'\<rparr>))))"

definition Node_SetMyReadEnabled ::
  "settings_file write_outcome \<Rightarrow> bool \<Rightarrow> settings_state \<Rightarrow> settings_state" where
  "Node_SetMyReadEnabled w enabled s =
     (case s of (n, sp) \<Rightarrow>
        snd (node_setter (SettingsStore_SetMyReadEnabled enabled w) (n\<lparr>nd_myReadEnabled := enabled\<rparr>, sp)))"

definition Node_SetMyDisplayName ::
  "settings_file write_outcome \<Rightarrow> string \<Rightarrow> settings_state \<Rightarrow> bool \<times> settings_state" where
  "Node_SetMyDisplayName w name = node_setter (SettingsStore_SetMyDisplayName name w)"

definition Node_SetShowNotificationContent ::
  "settings_file write_outcome \<Rightarrow> bool \<Rightarrow> settings_state \<Rightarrow> bool \<times> settings_state" where
  "Node_SetShowNotificationContent w enabled = node_setter (SettingsStore_SetShowNotificationContent enabled w)"

definition Node_SetNotificationCount ::
  "settings_file write_outcome \<Rightarrow> bool \<Rightarrow> settings_state \<Rightarrow> bool \<times> settings_state" where
  "Node_SetNotificationCount w enabled = node_setter (SettingsStore_SetNotificationCount enabled w)"

definition Node_SetNotificationNames ::
  "settings_file write_outcome \<Rightarrow> bool \<Rightarrow> settings_state \<Rightarrow> bool \<times> settings_state" where
  "Node_SetNotificationNames w enabled = node_setter (SettingsStore_SetNotificationNames enabled w)"

definition Node_SetNotificationProgress ::
  "settings_file write_outcome \<Rightarrow> bool \<Rightarrow> settings_state \<Rightarrow> bool \<times> settings_state" where
  "Node_SetNotificationProgress w enabled = node_setter (SettingsStore_SetNotificationProgress enabled w)"

definition Node_SetMaskingEnabled ::
  "settings_file write_outcome \<Rightarrow> bool \<Rightarrow> settings_state \<Rightarrow> bool \<times> settings_state" where
  "Node_SetMaskingEnabled w enabled = node_setter (SettingsStore_SetMaskingEnabled enabled w)"

definition Node_SetFileRequestThreshold ::
  "settings_file write_outcome \<Rightarrow> int \<Rightarrow> settings_state \<Rightarrow> bool \<times> settings_state" where
  "Node_SetFileRequestThreshold w mb = node_setter (SettingsStore_SetFileRequestThreshold mb w)"

definition Node_SetTtl ::
  "settings_file write_outcome \<Rightarrow> string \<Rightarrow> string \<Rightarrow> settings_state \<Rightarrow> bool \<times> settings_state" where
  "Node_SetTtl w period mode =
     node_setter (SettingsStore_SetTtl period
       (if mode \<noteq> [] \<and> period \<noteq> ''never'' \<and> period \<noteq> ''forever'' then Some mode else None) w)"

text \<open>Sphinx and mixing work without a store, and do nothing when the store fails.\<close>

definition Node_SetSphinxEnabled ::
  "settings_file write_outcome \<Rightarrow> bool \<Rightarrow> settings_state \<Rightarrow> bool \<times> settings_state" where
  "Node_SetSphinxEnabled w enabled s =
     (case (if nd_settings (fst s) \<noteq> None then node_setter (SettingsStore_SetSphinxEnabled enabled w) s else (True, s)) of
        (False, s1) \<Rightarrow> (False, s1)
      | (True, n1, sp1) \<Rightarrow> (True, n1\<lparr>nd_useOnion := enabled\<rparr>, sp1))"

definition Node_SetMixingEnabled ::
  "settings_file write_outcome \<Rightarrow> bool \<Rightarrow> settings_state \<Rightarrow> bool \<times> settings_state" where
  "Node_SetMixingEnabled w enabled s =
     (case (if nd_settings (fst s) \<noteq> None then node_setter (SettingsStore_SetMixingEnabled enabled w) s else (True, s)) of
        (False, s1) \<Rightarrow> (False, s1)
      | (True, n1, sp1) \<Rightarrow> (True, n1, sp1\<lparr>sp_mixing := enabled\<rparr>))"

section \<open>Getters\<close>

definition node_getter :: "'a \<Rightarrow> (settings_store \<Rightarrow> 'a) \<Rightarrow> node \<Rightarrow> 'a" where
  "node_getter dflt get n = (case nd_settings n of None \<Rightarrow> dflt | Some st \<Rightarrow> get st)"

definition Node_GetMyReadEnabled :: "node \<Rightarrow> bool" where
  "Node_GetMyReadEnabled n = nd_myReadEnabled n"

definition Node_GetShowNotificationContent :: "node \<Rightarrow> bool" where
  "Node_GetShowNotificationContent = node_getter True SettingsStore_GetShowNotificationContent"

definition Node_GetNotificationCount :: "node \<Rightarrow> bool" where
  "Node_GetNotificationCount = node_getter False SettingsStore_GetNotificationCount"

definition Node_GetNotificationNames :: "node \<Rightarrow> bool" where
  "Node_GetNotificationNames = node_getter False SettingsStore_GetNotificationNames"

definition Node_GetNotificationProgress :: "node \<Rightarrow> bool" where
  "Node_GetNotificationProgress = node_getter False SettingsStore_GetNotificationProgress"

definition Node_GetMaskingEnabled :: "node \<Rightarrow> bool" where
  "Node_GetMaskingEnabled = node_getter False SettingsStore_GetMaskingEnabled"

definition Node_GetFileRequestThreshold :: "node \<Rightarrow> int" where
  "Node_GetFileRequestThreshold = node_getter (-1) SettingsStore_GetFileRequestThreshold"

definition Node_GetTtl :: "node \<Rightarrow> string \<times> string" where
  "Node_GetTtl = node_getter (''never'', [])
     (\<lambda>st. case SettingsStore_GetTtl st of (period, md) \<Rightarrow> (period, case md of None \<Rightarrow> [] | Some x \<Rightarrow> x))"

definition Node_GetSphinxEnabled :: "node \<Rightarrow> bool" where
  "Node_GetSphinxEnabled n = nd_useOnion n"

definition Node_GetMixingEnabled :: "settings_state \<Rightarrow> bool" where
  "Node_GetMixingEnabled s = sp_mixing (snd s)"

section \<open>The list of removed contacts\<close>

definition Node_GetDeletedPeers :: "node \<Rightarrow> string list" where
  "Node_GetDeletedPeers n = (case nd_deleted n of None \<Rightarrow> [] | Some ds \<Rightarrow> DeletedStore_GetAll ds)"

definition Node_RemoveFromDeleted :: "env \<Rightarrow> string \<Rightarrow> node \<Rightarrow> bool \<times> node" where
  "Node_RemoveFromDeleted e p n =
     (case nd_deleted n of None \<Rightarrow> (False, n)
      | Some ds \<Rightarrow> (case DeletedStore_RemoveFromDeleted p (ev_w_deleted e 0) ds (nd_deleted_file n) of
          (err, ds', f') \<Rightarrow> (err = None, n\<lparr>nd_deleted := Some ds', nd_deleted_file := f'\<rparr>)))"

definition Node_IsDeleted :: "string \<Rightarrow> node \<Rightarrow> bool" where
  "Node_IsDeleted p n = (case nd_deleted n of None \<Rightarrow> False | Some ds \<Rightarrow> DeletedStore_IsDeleted ds p)"

section \<open>Runs\<close>

datatype setting_call =
    SetRead bool | SetName string | SetContent bool | SetCount bool | SetNames bool | SetProgress bool
  | SetTtlTo string string | SetSphinx bool | SetMixing bool | SetMasking bool | SetThreshold int

fun setting_step :: "settings_file write_outcome \<Rightarrow> setting_call \<Rightarrow> settings_state \<Rightarrow> settings_state" where
  "setting_step w (SetRead b) s = Node_SetMyReadEnabled w b s"
| "setting_step w (SetName name) s = snd (Node_SetMyDisplayName w name s)"
| "setting_step w (SetContent b) s = snd (Node_SetShowNotificationContent w b s)"
| "setting_step w (SetCount b) s = snd (Node_SetNotificationCount w b s)"
| "setting_step w (SetNames b) s = snd (Node_SetNotificationNames w b s)"
| "setting_step w (SetProgress b) s = snd (Node_SetNotificationProgress w b s)"
| "setting_step w (SetTtlTo period mode) s = snd (Node_SetTtl w period mode s)"
| "setting_step w (SetSphinx b) s = snd (Node_SetSphinxEnabled w b s)"
| "setting_step w (SetMixing b) s = snd (Node_SetMixingEnabled w b s)"
| "setting_step w (SetMasking b) s = snd (Node_SetMaskingEnabled w b s)"
| "setting_step w (SetThreshold mb) s = snd (Node_SetFileRequestThreshold w mb s)"

definition setting_run :: "setting_call list \<Rightarrow> settings_state \<Rightarrow> settings_state" where
  "setting_run cs s = fold (setting_step WriteOk) cs s"

text \<open>
  A start as \<open>InitP2P\<close> makes it: the stores are opened on the file, Sphinx is set from the store,
  and \<open>mixingEnabled\<close> has the zero value of a new node.
\<close>

definition settings_start :: "state_lib \<Rightarrow> node \<Rightarrow> settings_file file_content \<Rightarrow> settings_state" where
  "settings_start L n f =
     (let n1 = open_stores (L\<lparr>sl_settings_file := f\<rparr>) n
      in (n1\<lparr>nd_useOnion := (case nd_settings n1 of None \<Rightarrow> nd_useOnion n1 | Some s \<Rightarrow> SettingsStore_GetSphinxEnabled s)\<rparr>,
          \<lparr>sp_file = f, sp_mixing = False\<rparr>))"

text \<open>What the getters show, all but the one for mixing.\<close>

definition settings_shown ::
  "node \<Rightarrow> bool \<times> string \<times> bool \<times> bool \<times> bool \<times> bool \<times> (string \<times> string) \<times> bool \<times> bool \<times> int" where
  "settings_shown n = (Node_GetMyReadEnabled n, Node_GetMyDisplayName n, Node_GetShowNotificationContent n,
     Node_GetNotificationCount n, Node_GetNotificationNames n, Node_GetNotificationProgress n, Node_GetTtl n,
     Node_GetSphinxEnabled n, Node_GetMaskingEnabled n, Node_GetFileRequestThreshold n)"

section \<open>The file and the caches follow the store\<close>

text \<open>A setter of the store whose writes succeed: it changes the settings to \<open>st1\<close>, and the file shows them.\<close>

definition writes_to :: "(settings_store \<Rightarrow> settings_file file_content \<Rightarrow> (settings_store, settings_file) store_result) \<Rightarrow>
    (settings \<Rightarrow> settings) \<Rightarrow> bool" where
  "writes_to op upd \<longleftrightarrow> (\<forall>st f. ss_file st \<noteq> [] \<longrightarrow> (\<forall>p. p \<noteq> [] \<longrightarrow> settings_view (NewSettingsStore p f) = settings_view st) \<longrightarrow>
     (\<exists>st' f'. op st f = (None, st', f') \<and> ss_file st' = ss_file st \<and> settings_view st' = upd (settings_view st) \<and>
        (\<forall>p. p \<noteq> [] \<longrightarrow> settings_view (NewSettingsStore p f') = upd (settings_view st))))"

lemma Save_written:
  assumes "ss_file st \<noteq> []"
  shows "\<exists>st' f'. SettingsStore_Save WriteOk st f = (None, st', f') \<and> ss_file st' = ss_file st \<and>
    settings_view st' = settings_view st \<and> (\<forall>p. p \<noteq> [] \<longrightarrow> settings_view (NewSettingsStore p f') = settings_view st)"
proof -
  let ?d = "(ss_data st)\<lparr>set_V := SETTINGS_VERSION\<rparr>"
  have "SettingsStore_Save WriteOk st f = (None, st\<lparr>ss_data := ?d\<rparr>, Document (marshal_settings ?d))"
    using assms by (simp add: SettingsStore_Save_def SettingsStore_saveLocked_def save_document_def saved_def)
  moreover have "settings_view (NewSettingsStore p (Document (marshal_settings ?d))) = settings_view st" if "p \<noteq> []" for p
    using that by (simp add: NewSettingsStore_def migrate_marshal settings_view_def SettingsStore_GetTtl_def Let_def)
  moreover have "settings_view (st\<lparr>ss_data := ?d\<rparr>) = settings_view st"
    by (simp add: settings_view_def SettingsStore_GetTtl_def Let_def)
  ultimately show ?thesis by simp
qed

lemma set_setting_writes:
  assumes "\<And>st. settings_view (st\<lparr>ss_data := upd x (ss_data st)\<rparr>) = upd x (settings_view st)"
    and "\<And>st. sel (ss_data st) = x \<Longrightarrow> upd x (settings_view st) = settings_view st"
  shows "writes_to (set_setting sel upd x WriteOk) (upd x)"
  unfolding writes_to_def
proof (intro allI impI)
  fix st f
  assume st: "ss_file st \<noteq> []" "\<forall>p. p \<noteq> [] \<longrightarrow> settings_view (NewSettingsStore p f) = settings_view st"
  show "\<exists>st' f'. set_setting sel upd x WriteOk st f = (None, st', f') \<and> ss_file st' = ss_file st \<and>
      settings_view st' = upd x (settings_view st) \<and> (\<forall>p. p \<noteq> [] \<longrightarrow> settings_view (NewSettingsStore p f') = upd x (settings_view st))"
  proof (cases "sel (ss_data st) = x")
    case True
    then show ?thesis using st assms(2) by (simp add: set_setting_def unsaved_def)
  next
    case False
    then show ?thesis using Save_written[of "st\<lparr>ss_data := upd x (ss_data st)\<rparr>" f] st(1) assms(1) by (simp add: set_setting_def)
  qed
qed

lemma setters_write:
  "writes_to (SettingsStore_SetMyReadEnabled b WriteOk) (\<lambda>d. d\<lparr>set_MyReadEnabled := b\<rparr>)"
  "writes_to (SettingsStore_SetMyDisplayName name WriteOk) (\<lambda>d. d\<lparr>set_MyDisplayName := name\<rparr>)"
  "writes_to (SettingsStore_SetShowNotificationContent b WriteOk) (\<lambda>d. d\<lparr>set_ShowNotificationContent := b\<rparr>)"
  "writes_to (SettingsStore_SetNotificationCount b WriteOk) (\<lambda>d. d\<lparr>set_ShowNotificationCount := b\<rparr>)"
  "writes_to (SettingsStore_SetNotificationNames b WriteOk) (\<lambda>d. d\<lparr>set_ShowNotificationNames := b\<rparr>)"
  "writes_to (SettingsStore_SetNotificationProgress b WriteOk) (\<lambda>d. d\<lparr>set_ShowNotificationProgress := b\<rparr>)"
  "writes_to (SettingsStore_SetSphinxEnabled b WriteOk) (\<lambda>d. d\<lparr>set_SphinxEnabled := b\<rparr>)"
  "writes_to (SettingsStore_SetMixingEnabled b WriteOk) (\<lambda>d. d\<lparr>set_MixingEnabled := b\<rparr>)"
  "writes_to (SettingsStore_SetMaskingEnabled b WriteOk) (\<lambda>d. d\<lparr>set_MaskingEnabled := b\<rparr>)"
  "writes_to (SettingsStore_SetFileRequestThreshold mb WriteOk) (\<lambda>d. d\<lparr>set_FileRequestThreshold := mb\<rparr>)"
  unfolding SettingsStore_SetMyReadEnabled_def SettingsStore_SetMyDisplayName_def SettingsStore_SetShowNotificationContent_def
    SettingsStore_SetNotificationCount_def SettingsStore_SetNotificationNames_def SettingsStore_SetNotificationProgress_def
    SettingsStore_SetSphinxEnabled_def SettingsStore_SetMixingEnabled_def SettingsStore_SetMaskingEnabled_def
    SettingsStore_SetFileRequestThreshold_def
  by (rule set_setting_writes; simp add: settings_view_def SettingsStore_GetTtl_def Let_def)+

definition shown_period :: "string \<Rightarrow> string" where
  "shown_period period = (if period = [] \<or> period = ''forever'' then ''never'' else period)"

lemma SetTtl_writes:
  "writes_to (SettingsStore_SetTtl period md WriteOk) (\<lambda>d. d\<lparr>set_TtlPeriod := shown_period period, set_TtlMode := md\<rparr>)"
  unfolding writes_to_def
proof (intro allI impI)
  fix st :: settings_store and f
  assume "ss_file st \<noteq> []"
  moreover have "settings_view (st\<lparr>ss_data := (ss_data st)\<lparr>set_TtlPeriod := period, set_TtlMode := md\<rparr>\<rparr>) =
      (settings_view st)\<lparr>set_TtlPeriod := shown_period period, set_TtlMode := md\<rparr>"
    by (simp add: settings_view_def SettingsStore_GetTtl_def Let_def shown_period_def)
  ultimately show "\<exists>st' f'. SettingsStore_SetTtl period md WriteOk st f = (None, st', f') \<and> ss_file st' = ss_file st \<and>
      settings_view st' = (settings_view st)\<lparr>set_TtlPeriod := shown_period period, set_TtlMode := md\<rparr> \<and>
      (\<forall>p. p \<noteq> [] \<longrightarrow> settings_view (NewSettingsStore p f') = (settings_view st)\<lparr>set_TtlPeriod := shown_period period, set_TtlMode := md\<rparr>)"
    using Save_written[of "st\<lparr>ss_data := (ss_data st)\<lparr>set_TtlPeriod := period, set_TtlMode := md\<rparr>\<rparr>" f]
    by (simp add: SettingsStore_SetTtl_def)
qed

section \<open>The contract\<close>

text \<open>What a call is for, on the settings as the getters show them.\<close>

definition ttl_mode :: "string \<Rightarrow> string \<Rightarrow> string option" where
  "ttl_mode period mode = (if mode \<noteq> [] \<and> period \<noteq> ''never'' \<and> period \<noteq> ''forever'' then Some mode else None)"

fun wanted :: "setting_call \<Rightarrow> settings \<Rightarrow> settings" where
  "wanted (SetRead b) d = d\<lparr>set_MyReadEnabled := b\<rparr>"
| "wanted (SetName name) d = d\<lparr>set_MyDisplayName := name\<rparr>"
| "wanted (SetContent b) d = d\<lparr>set_ShowNotificationContent := b\<rparr>"
| "wanted (SetCount b) d = d\<lparr>set_ShowNotificationCount := b\<rparr>"
| "wanted (SetNames b) d = d\<lparr>set_ShowNotificationNames := b\<rparr>"
| "wanted (SetProgress b) d = d\<lparr>set_ShowNotificationProgress := b\<rparr>"
| "wanted (SetTtlTo period mode) d = d\<lparr>set_TtlPeriod := shown_period period, set_TtlMode := ttl_mode period mode\<rparr>"
| "wanted (SetSphinx b) d = d\<lparr>set_SphinxEnabled := b\<rparr>"
| "wanted (SetMixing b) d = d\<lparr>set_MixingEnabled := b\<rparr>"
| "wanted (SetMasking b) d = d\<lparr>set_MaskingEnabled := b\<rparr>"
| "wanted (SetThreshold mb) d = d\<lparr>set_FileRequestThreshold := mb\<rparr>"

definition show_settings ::
  "settings \<Rightarrow> bool \<times> string \<times> bool \<times> bool \<times> bool \<times> bool \<times> (string \<times> string) \<times> bool \<times> bool \<times> int" where
  "show_settings d = (set_MyReadEnabled d, set_MyDisplayName d, set_ShowNotificationContent d, set_ShowNotificationCount d,
     set_ShowNotificationNames d, set_ShowNotificationProgress d,
     (set_TtlPeriod d, case set_TtlMode d of None \<Rightarrow> [] | Some x \<Rightarrow> x), set_SphinxEnabled d, set_MaskingEnabled d,
     set_FileRequestThreshold d)"

text \<open>The node and the file hold the settings \<open>d\<close>.\<close>

definition holds_settings :: "settings \<Rightarrow> settings_state \<Rightarrow> bool" where
  "holds_settings d s \<longleftrightarrow> (\<exists>st. nd_settings (fst s) = Some st \<and> ss_file st \<noteq> [] \<and> settings_view st = d \<and>
     nd_myReadEnabled (fst s) = set_MyReadEnabled d \<and> nd_useOnion (fst s) = set_SphinxEnabled d \<and>
     (\<forall>p. p \<noteq> [] \<longrightarrow> settings_view (NewSettingsStore p (sp_file (snd s))) = d))"

lemma node_setter_holds:
  assumes "holds_settings d s" "writes_to op upd"
  shows "\<exists>st' f'. node_setter op s = (True, (fst s)\<lparr>nd_settings := Some st'\<rparr>, (snd s)\<lparr>sp_file := f'\<rparr>) \<and> ss_file st' \<noteq> [] \<and>
    settings_view st' = upd d \<and> (\<forall>p. p \<noteq> [] \<longrightarrow> settings_view (NewSettingsStore p f') = upd d)"
proof -
  obtain st where st: "nd_settings (fst s) = Some st" "ss_file st \<noteq> []" "settings_view st = d"
      "\<forall>p. p \<noteq> [] \<longrightarrow> settings_view (NewSettingsStore p (sp_file (snd s))) = d"
    using assms(1) by (auto simp: holds_settings_def)
  then obtain st' f' where "op st (sp_file (snd s)) = (None, st', f')" "ss_file st' = ss_file st" "settings_view st' = upd d"
      "\<forall>p. p \<noteq> [] \<longrightarrow> settings_view (NewSettingsStore p f') = upd d"
    using assms(2) unfolding writes_to_def by metis
  with st(1,2) show ?thesis by (cases s) (intro exI[of _ st'] exI[of _ f'], simp add: node_setter_def)
qed

lemma getter_view:
  "SettingsStore_GetMyReadEnabled st = set_MyReadEnabled (settings_view st)"
  "SettingsStore_GetSphinxEnabled st = set_SphinxEnabled (settings_view st)"
  "SettingsStore_GetMixingEnabled st = set_MixingEnabled (settings_view st)"
  by (simp_all add: settings_view_def SettingsStore_GetMyReadEnabled_def SettingsStore_GetSphinxEnabled_def SettingsStore_GetMixingEnabled_def)

lemma setting_step_holds:
  assumes "holds_settings d s"
  shows "holds_settings (wanted c d) (setting_step WriteOk c s)"
proof -
  have parts: "nd_myReadEnabled (fst s) = set_MyReadEnabled d" "nd_useOnion (fst s) = set_SphinxEnabled d" "nd_settings (fst s) \<noteq> None"
    using assms by (auto simp: holds_settings_def)
  show ?thesis
  proof (cases c)
    case (SetRead b)
    obtain n sp where s: "s = (n, sp)" by (cases s)
    have "node_setter (SettingsStore_SetMyReadEnabled b WriteOk) (n\<lparr>nd_myReadEnabled := b\<rparr>, sp) =
        (case node_setter (SettingsStore_SetMyReadEnabled b WriteOk) s of (ok, n', sp') \<Rightarrow> (ok, n'\<lparr>nd_myReadEnabled := b\<rparr>, sp'))"
      by (auto simp: node_setter_def s split: option.split prod.split)
    with SetRead node_setter_holds[OF assms setters_write(1)[of b]] parts s show ?thesis
      by (auto simp: Node_SetMyReadEnabled_def holds_settings_def)
  next
    case (SetTtlTo period mode)
    with node_setter_holds[OF assms SetTtl_writes[of period "ttl_mode period mode"]] parts show ?thesis
      by (auto simp: Node_SetTtl_def holds_settings_def ttl_mode_def)
  next
    case (SetSphinx b)
    with node_setter_holds[OF assms setters_write(7)[of b]] parts show ?thesis
      by (auto simp: Node_SetSphinxEnabled_def holds_settings_def)
  next
    case (SetMixing b)
    with node_setter_holds[OF assms setters_write(8)[of b]] parts show ?thesis
      by (auto simp: Node_SetMixingEnabled_def holds_settings_def)
  next
    case (SetName name)
    with node_setter_holds[OF assms setters_write(2)[of name]] parts show ?thesis
      by (auto simp: Node_SetMyDisplayName_def holds_settings_def)
  next
    case (SetContent b)
    with node_setter_holds[OF assms setters_write(3)[of b]] parts show ?thesis
      by (auto simp: Node_SetShowNotificationContent_def holds_settings_def)
  next
    case (SetCount b)
    with node_setter_holds[OF assms setters_write(4)[of b]] parts show ?thesis
      by (auto simp: Node_SetNotificationCount_def holds_settings_def)
  next
    case (SetNames b)
    with node_setter_holds[OF assms setters_write(5)[of b]] parts show ?thesis
      by (auto simp: Node_SetNotificationNames_def holds_settings_def)
  next
    case (SetProgress b)
    with node_setter_holds[OF assms setters_write(6)[of b]] parts show ?thesis
      by (auto simp: Node_SetNotificationProgress_def holds_settings_def)
  next
    case (SetMasking b)
    with node_setter_holds[OF assms setters_write(9)[of b]] parts show ?thesis
      by (auto simp: Node_SetMaskingEnabled_def holds_settings_def)
  next
    case (SetThreshold mb)
    with node_setter_holds[OF assms setters_write(10)[of mb]] parts show ?thesis
      by (auto simp: Node_SetFileRequestThreshold_def holds_settings_def)
  qed
qed

lemma setting_run_holds: "holds_settings d s \<Longrightarrow> holds_settings (fold wanted cs d) (setting_run cs s)"
  unfolding setting_run_def by (induction cs arbitrary: d s) (simp_all add: setting_step_holds)

lemma holds_shown: "holds_settings d s \<Longrightarrow> settings_shown (fst s) = show_settings d"
  by (auto simp: holds_settings_def settings_shown_def show_settings_def node_getter_def settings_view_def
      Node_GetMyReadEnabled_def Node_GetMyDisplayName_def Node_GetShowNotificationContent_def Node_GetNotificationCount_def
      Node_GetNotificationNames_def Node_GetNotificationProgress_def Node_GetTtl_def Node_GetSphinxEnabled_def
      Node_GetMaskingEnabled_def Node_GetFileRequestThreshold_def SettingsStore_GetMyDisplayName_def
      SettingsStore_GetShowNotificationContent_def SettingsStore_GetNotificationCount_def SettingsStore_GetNotificationNames_def
      SettingsStore_GetNotificationProgress_def SettingsStore_GetMaskingEnabled_def SettingsStore_GetFileRequestThreshold_def
      SettingsStore_GetTtl_def Let_def)

lemma NewSettingsStore_file: "ss_file (NewSettingsStore p f) = p"
  by (simp add: NewSettingsStore_def split: file_content.split)

lemma NewSettingsStore_view_path:
  "p \<noteq> [] \<Longrightarrow> q \<noteq> [] \<Longrightarrow> settings_view (NewSettingsStore p f) = settings_view (NewSettingsStore q f)"
  by (simp add: NewSettingsStore_def settings_view_def SettingsStore_GetTtl_def Let_def split: file_content.split)

definition file_settings :: "settings_file file_content \<Rightarrow> settings" where
  "file_settings f = settings_view (NewSettingsStore ''isotope_settings.json'' f)"

lemma file_settings_view: "p \<noteq> [] \<Longrightarrow> settings_view (NewSettingsStore p f) = file_settings f"
  unfolding file_settings_def by (rule NewSettingsStore_view_path) simp_all

lemma settings_start_holds: "holds_settings (file_settings f) (settings_start L n f)"
proof -
  define st where "st = NewSettingsStore (path_text (nd_dir n @ [''isotope_settings.json''])) f"
  have path: "path_text (nd_dir n @ [''isotope_settings.json'']) \<noteq> []" by (simp add: path_text_def)
  then have st: "settings_view st = file_settings f" "ss_file st \<noteq> []"
    unfolding st_def by (rule file_settings_view) (simp add: NewSettingsStore_file path)
  have "nd_settings (fst (settings_start L n f)) = Some st" "sp_file (snd (settings_start L n f)) = f"
      "nd_myReadEnabled (fst (settings_start L n f)) = SettingsStore_GetMyReadEnabled st"
      "nd_useOnion (fst (settings_start L n f)) = SettingsStore_GetSphinxEnabled st"
    by (simp_all add: settings_start_def open_stores_def Let_def st_def)
  then show ?thesis
    unfolding holds_settings_def using st file_settings_view[of _ f] by (intro exI[of _ st]) (simp add: getter_view)
qed

section \<open>Properties\<close>

text \<open>The flag of mixing that the calls leave in the node.\<close>

definition mixing_after :: "setting_call list \<Rightarrow> bool \<Rightarrow> bool" where
  "mixing_after cs b = fold (\<lambda>c b. case c of SetMixing x \<Rightarrow> x | _ \<Rightarrow> b) cs b"

lemma node_setter_mixing: "sp_mixing (snd (snd (node_setter op s))) = sp_mixing (snd s)"
  by (cases s) (simp add: node_setter_def split: option.split prod.split)

lemma setting_step_mixing:
  assumes "holds_settings d s"
  shows "sp_mixing (snd (setting_step WriteOk c s)) = (case c of SetMixing x \<Rightarrow> x | _ \<Rightarrow> sp_mixing (snd s))"
proof (cases c)
  case (SetMixing b)
  with node_setter_holds[OF assms setters_write(8)[of b]] assms show ?thesis
    by (auto simp: Node_SetMixingEnabled_def holds_settings_def)
next
  case (SetRead b)
  then show ?thesis by (cases s) (simp add: Node_SetMyReadEnabled_def node_setter_mixing)
next
  case (SetSphinx b)
  with node_setter_holds[OF assms setters_write(7)[of b]] assms show ?thesis
    by (auto simp: Node_SetSphinxEnabled_def holds_settings_def)
qed (simp_all add: Node_SetMyDisplayName_def Node_SetShowNotificationContent_def Node_SetNotificationCount_def
    Node_SetNotificationNames_def Node_SetNotificationProgress_def Node_SetTtl_def Node_SetMaskingEnabled_def
    Node_SetFileRequestThreshold_def node_setter_mixing)

lemma setting_run_mixing: "holds_settings d s \<Longrightarrow> sp_mixing (snd (setting_run cs s)) = mixing_after cs (sp_mixing (snd s))"
proof (induction cs arbitrary: d s)
  case (Cons c cs)
  from Cons.IH[OF setting_step_holds[OF Cons.prems]] setting_step_mixing[OF Cons.prems] show ?case
    by (simp add: setting_run_def mixing_after_def)
qed (simp add: setting_run_def mixing_after_def)

lemma settings_start_mixing: "sp_mixing (snd (settings_start L n f)) = False"
  by (simp add: settings_start_def Let_def)

text \<open>C17.  The settings do what they are for and survive a restart, but for one getter: after a start and
any calls of the setters whose writes succeed, every getter of the node shows what the calls set.  After a
new start on the file they left, every getter shows the same, save the one of mixing: it shows that mixing
is off, while the store has the flag that was set, which is the one that messages get.\<close>

theorem settings_survive_restart:
  "settings_shown (fst (setting_run cs (settings_start L n f))) = show_settings (fold wanted cs (file_settings f)) \<and>
   Node_GetMixingEnabled (setting_run cs (settings_start L n f)) = mixing_after cs False \<and>
   (let restarted = settings_start L' m (sp_file (snd (setting_run cs (settings_start L n f))))
    in settings_shown (fst restarted) = show_settings (fold wanted cs (file_settings f)) \<and>
       \<not> Node_GetMixingEnabled restarted \<and>
       map_option SettingsStore_GetMixingEnabled (nd_settings (fst restarted)) =
         Some (set_MixingEnabled (fold wanted cs (file_settings f))))"
proof -
  have h: "holds_settings (fold wanted cs (file_settings f)) (setting_run cs (settings_start L n f))"
    by (rule setting_run_holds[OF settings_start_holds])
  let ?f = "sp_file (snd (setting_run cs (settings_start L n f)))"
  have held: "file_settings ?f = fold wanted cs (file_settings f)"
    using h by (auto simp: holds_settings_def file_settings_def)
  then have r: "holds_settings (fold wanted cs (file_settings f)) (settings_start L' m ?f)"
    using settings_start_holds[of ?f L' m] by simp
  then have "map_option SettingsStore_GetMixingEnabled (nd_settings (fst (settings_start L' m ?f))) =
      Some (set_MixingEnabled (fold wanted cs (file_settings f)))"
    by (auto simp: holds_settings_def getter_view(3))
  moreover have "Node_GetMixingEnabled (setting_run cs (settings_start L n f)) = mixing_after cs False"
    using setting_run_mixing[OF settings_start_holds[of f L n], of cs] settings_start_mixing
    by (simp add: Node_GetMixingEnabled_def)
  ultimately show ?thesis
    using holds_shown[OF h] holds_shown[OF r] by (simp add: Let_def Node_GetMixingEnabled_def settings_start_mixing)
qed

text \<open>A setting is lost after a failed write: the second try of the same call finds nothing to
change, writes nothing and reports success; the switch is on until the node starts again.\<close>

theorem failed_setting_is_lost:
  assumes "Node_SetSphinxEnabled (WriteFails f) True (settings_start L n f) = (ok, s1)"
    and "Node_SetSphinxEnabled WriteOk True s1 = (ok', s2)"
    and "\<not> set_SphinxEnabled (file_settings f)"
  shows "\<not> ok \<and> ok' \<and> Node_GetSphinxEnabled (fst s2) \<and>
    \<not> Node_GetSphinxEnabled (fst (settings_start L' m (sp_file (snd s2))))"
proof -
  obtain st where st: "nd_settings (fst (settings_start L n f)) = Some st" "ss_file st \<noteq> []" "settings_view st = file_settings f"
    using settings_start_holds[of f L n] by (auto simp: holds_settings_def)
  then have off: "\<not> set_SphinxEnabled (ss_data st)"
    using assms(3) getter_view(2)[of st] by (simp add: SettingsStore_GetSphinxEnabled_def)
  have "sp_file (snd (settings_start L n f)) = f" by (simp add: settings_start_def Let_def)
  then obtain st1 where s1: "\<not> ok" "nd_settings (fst s1) = Some st1" "set_SphinxEnabled (ss_data st1)" "sp_file (snd s1) = f"
    using assms(1) st(1,2) off
    by (auto simp: Node_SetSphinxEnabled_def node_setter_def SettingsStore_SetSphinxEnabled_def set_setting_def SettingsStore_Save_def
        SettingsStore_saveLocked_def save_document_def saved_def split: prod.splits bool.splits)
  then have "ok'" "Node_GetSphinxEnabled (fst s2)" "sp_file (snd s2) = f"
    using assms(2)
    by (auto simp: Node_SetSphinxEnabled_def node_setter_def SettingsStore_SetSphinxEnabled_def set_setting_def unsaved_def
        Node_GetSphinxEnabled_def split: prod.splits bool.splits)
  moreover have "\<not> Node_GetSphinxEnabled (fst (settings_start L' m f))"
    using settings_start_holds[of f L' m] assms(3) by (auto simp: holds_settings_def Node_GetSphinxEnabled_def)
  ultimately show ?thesis using s1(1) by simp
qed

theorem failed_setting_is_lost_witness:
  "\<exists>s1 s2. Node_SetSphinxEnabled (WriteFails NoFile) True (settings_start example_lib demo_node NoFile) = (False, s1) \<and>
    Node_SetSphinxEnabled WriteOk True s1 = (True, s2) \<and> Node_GetSphinxEnabled (fst s2) \<and>
    \<not> Node_GetSphinxEnabled (fst (settings_start example_lib demo_node (sp_file (snd s2))))"
proof -
  obtain ok s1 where s1: "Node_SetSphinxEnabled (WriteFails NoFile) True (settings_start example_lib demo_node NoFile) = (ok, s1)"
    by (metis surj_pair)
  obtain ok' s2 where s2: "Node_SetSphinxEnabled WriteOk True s1 = (ok', s2)" by (metis surj_pair)
  have "\<not> set_SphinxEnabled (file_settings NoFile)"
    by (simp add: file_settings_def settings_view_def NewSettingsStore_def default_settings_def SettingsStore_GetTtl_def Let_def)
  from failed_setting_is_lost[OF s1 s2 this, of example_lib demo_node] show ?thesis using s1 s2 by (intro exI[of _ s1] exI[of _ s2]) simp
qed

text \<open>Mixing: the getter of the node shows the zero value after a start, while messages carry the stored flag.\<close>

lemma mixing_shown_off:
  "\<not> Node_GetMixingEnabled (settings_start L n f)"
  "\<exists>st. nd_settings (fst (settings_start L n f)) = Some st \<and> SettingsStore_GetMixingEnabled st = set_MixingEnabled (file_settings f)"
proof -
  show "\<not> Node_GetMixingEnabled (settings_start L n f)"
    by (simp add: settings_start_def Node_GetMixingEnabled_def Let_def)
  show "\<exists>st. nd_settings (fst (settings_start L n f)) = Some st \<and> SettingsStore_GetMixingEnabled st = set_MixingEnabled (file_settings f)"
    using settings_start_holds[of f L n]
    by (auto simp: holds_settings_def settings_view_def SettingsStore_GetMixingEnabled_def dest!: arg_cong[where f = set_MixingEnabled])
qed

section \<open>The invariant\<close>

lemma node_setter_inv: "node_inv n \<Longrightarrow> node_inv (fst (snd (node_setter op (n, sp))))"
  by (auto simp: node_setter_def node_inv_def Node_GetContact_def split: option.split prod.split)

lemma setting_step_inv: "node_inv (fst s) \<Longrightarrow> node_inv (fst (setting_step w c s))"
proof (cases s)
  fix n sp
  assume s: "s = (n, sp)" and inv: "node_inv (fst s)"
  have keep: "node_inv (fst (snd (node_setter op (n, sp))))" "node_inv (fst (snd (node_setter op (n\<lparr>nd_myReadEnabled := b\<rparr>, sp))))" for op b
    using inv node_setter_inv[of n op sp] node_setter_inv[of "n\<lparr>nd_myReadEnabled := b\<rparr>" op sp]
    by (simp_all add: s node_inv_def Node_GetContact_def)
  have onion: "node_inv (n1\<lparr>nd_useOnion := b\<rparr>) = node_inv n1" for n1 b by (simp add: node_inv_def Node_GetContact_def)
  show "node_inv (fst (setting_step w c s))"
    using keep inv onion
    by (cases c) (auto simp: s Node_SetMyReadEnabled_def Node_SetMyDisplayName_def Node_SetShowNotificationContent_def
      Node_SetNotificationCount_def Node_SetNotificationNames_def Node_SetNotificationProgress_def Node_SetTtl_def
      Node_SetMaskingEnabled_def Node_SetFileRequestThreshold_def Node_SetSphinxEnabled_def Node_SetMixingEnabled_def
      split: prod.split bool.split dest: arg_cong[where f = "\<lambda>x. node_inv (fst (snd x))"])
qed

end
