(* ===== verification/Http.thy ===== *)
theory Http
  imports UserSettings Stego
begin

text \<open>
  node/handlers.go, and the status, the list of peers and the request for a restore of node.go and
  node_p2p.go.  A handler gets the decoded request and gives what it writes; \<open>net/http\<close> recovers a
  panic of a handler, so the process lives on, but a mutex that the handler held stays locked:
  \<open>hs_locked\<close> says that \<open>n.mu\<close> is locked for ever.
\<close>

section \<open>State and parameters\<close>

record http_state =
  hs_node :: node
  hs_locked :: bool

record http_lib =
  ht_state :: state_lib
  ht_perm :: "nat \<Rightarrow> nat list"
  ht_shuffle :: "bytes \<Rightarrow> nat \<Rightarrow> nat list"
  ht_key :: "string \<Rightarrow> bytes"
  ht_wavToBase64 :: "bytes \<Rightarrow> string"
  ht_base64ToWav :: "string \<Rightarrow> bytes option"

record peer_info =
  pi_PeerID :: string
  pi_Multiaddrs :: "string list"
  pi_Connected :: bool
  pi_Announced :: "announced_peer option"

datatype body =
    SentBody int int
  | StegoBody
  | ChannelBody string string string
  | ChannelsBody "channel list"
  | OkBody
  | MessagesBody "message list"
  | StatusBody string nat nat nat
  | PeersBody "peer_info list"
  | HealthBody nat nat real real "string list"
  | LayersBody layers
  | HashesBody string string

datatype http_result = Reply body | HttpError nat | Panicked | Blocked

type_synonym handled = "http_result \<times> http_state"

definition method_not_allowed :: nat where "method_not_allowed = 405"
definition bad_request :: nat where "bad_request = 400"
definition not_found :: nat where "not_found = 404"

text \<open>\<open>n.mu.Lock()\<close>\<close>

definition with_mu :: "http_state \<Rightarrow> handled \<Rightarrow> handled" where
  "with_mu s r = (if hs_locked s then (Blocked, s) else r)"

text \<open>\<open>n.host.ID().String()[:8]\<close>: \<open>None\<close> is a panic, of a nil host or of a short ID.\<close>

definition short_id :: "node \<Rightarrow> string option" where
  "short_id n = (case nd_host n of None \<Rightarrow> None | Some me \<Rightarrow> if length me < 8 then None else Some (take 8 me))"

section \<open>Sending\<close>

record send_request =
  sr_Message :: string
  sr_Mode :: int
  sr_TTL :: int

definition clean_mode :: "int \<Rightarrow> int" where
  "clean_mode m = (if m < 0 \<or> 2 < m then 0 else m)"

definition request_expiry :: "env \<Rightarrow> int \<Rightarrow> time" where
  "request_expiry e ttl = (if 0 < ttl then ev_now e + wrap64 (ttl * Second) else 0)"

text \<open>The goroutine that sends a line to every connected peer.\<close>

definition send_lines :: "env \<Rightarrow> string \<Rightarrow> node \<Rightarrow> node" where
  "send_lines e line n = n\<lparr>nd_lines := nd_lines n @ map (\<lambda>p. (p, line)) (filter (\<lambda>p. ev_line e p line) (ev_peers e))\<rparr>"

text \<open>\<open>processMessageWithModeAndTTL\<close> locks \<open>n.mu\<close> unless the text goes to a chain of relays.\<close>

definition uses_chain :: "http_lib \<Rightarrow> env \<Rightarrow> int \<Rightarrow> node \<Rightarrow> bool" where
  "uses_chain H e mode n \<longleftrightarrow> mode \<noteq> 0 \<and> nd_host n \<noteq> None \<and>
     (let k = (if mode = 2 then 5 else 4) in k \<le> length (Node_selectRelays (ht_perm H) e k n))"

definition process_request ::
  "env \<Rightarrow> http_lib \<Rightarrow> string \<Rightarrow> int \<Rightarrow> time \<Rightarrow> body \<Rightarrow> string \<Rightarrow> http_state \<Rightarrow> handled" where
  "process_request e H msg mode expiresAt reply line s =
     (case short_id (hs_node s) of
        None \<Rightarrow> (Panicked, s)
      | Some me8 \<Rightarrow>
          if hs_locked s \<and> \<not> uses_chain H e mode (hs_node s) then (Blocked, s)
          else case Node_processMessageWithModeAndTTL (ht_perm H) e msg me8 True mode expiresAt (hs_node s) of
                 None \<Rightarrow> (Panicked, s)
               | Some n1 \<Rightarrow> (Reply reply, s\<lparr>hs_node := send_lines e line n1\<rparr>))"

definition Node_handleSend :: "env \<Rightarrow> http_lib \<Rightarrow> bool \<Rightarrow> send_request option \<Rightarrow> http_state \<Rightarrow> handled" where
  "Node_handleSend e H post req s =
     (if \<not> post then (HttpError method_not_allowed, s)
      else case req of None \<Rightarrow> (HttpError bad_request, s)
      | Some r \<Rightarrow>
          if sr_Message r = [] then (HttpError bad_request, s)
          else let mode = clean_mode (sr_Mode r)
               in process_request e H (sr_Message r) mode (request_expiry e (sr_TTL r)) (SentBody mode (sr_TTL r))
                    (Node_obfuscate e (hs_node s) (sr_Message r) @ [newline]) s)"

text \<open>The message is hidden in the WAV obfuscated; the own copy is kept in the clear.\<close>

definition Node_handleSendStego :: "env \<Rightarrow> http_lib \<Rightarrow> bool \<Rightarrow> (string \<times> string) option \<Rightarrow> http_state \<Rightarrow> handled" where
  "Node_handleSendStego e H post req s =
     (if \<not> post then (HttpError method_not_allowed, s)
      else case req of None \<Rightarrow> (HttpError bad_request, s)
      | Some (msg, wav) \<Rightarrow>
          if msg = [] \<or> wav = [] then (HttpError bad_request, s)
          else case ht_base64ToWav H wav of None \<Rightarrow> (HttpError bad_request, s)
          | Some wavBytes \<Rightarrow>
              if \<not> isWAV wavBytes then (HttpError bad_request, s)
              else case embedLSB (ht_shuffle H) wavBytes (string_bytes (Node_obfuscate e (hs_node s) msg))
                          (ht_key H (nd_ethHash (hs_node s))) of
                     Inl _ \<Rightarrow> (HttpError bad_request, s)
                   | Inr wavWithData \<Rightarrow>
                       process_request e H msg 0 0 StegoBody (STEGO_PREFIX @ ht_wavToBase64 H wavWithData @ [newline]) s)"

text \<open>A text message of a WebSocket client; every other message is ignored.\<close>

definition ws_send :: "env \<Rightarrow> http_lib \<Rightarrow> string \<Rightarrow> send_request \<Rightarrow> http_state \<Rightarrow> handled option" where
  "ws_send e H typ r s =
     (if typ = ''send'' \<and> sr_Message r \<noteq> []
      then let mode = clean_mode (sr_Mode r)
           in Some (process_request e H (sr_Message r) mode (request_expiry e (sr_TTL r)) (SentBody mode (sr_TTL r))
                (Node_obfuscate e (hs_node s) (sr_Message r) @ [newline]) s)
      else None)"

text \<open>What a new WebSocket client gets first.\<close>

definition ws_history :: "node \<Rightarrow> message list" where
  "ws_history n = (let msgs = Memory_GetAll (nd_memory n) in drop (if 20 < length msgs then length msgs - 20 else 0) msgs)"

section \<open>Channels\<close>

definition Node_handleCreateChannel :: "env \<Rightarrow> bool \<Rightarrow> string option \<Rightarrow> http_state \<Rightarrow> handled" where
  "Node_handleCreateChannel e post req s =
     (if \<not> post then (HttpError method_not_allowed, s)
      else case req of None \<Rightarrow> (HttpError bad_request, s)
      | Some name \<Rightarrow>
          if name = [] then (HttpError bad_request, s)
          else let n = hs_node s; i = ev_generateMsgID e name
            in case short_id n of None \<Rightarrow> (Panicked, s)
               | Some owner \<Rightarrow>
                   let s1 = s\<lparr>hs_node := n\<lparr>nd_channels := snd (ChannelStore_Create (ev_now e) i name owner (nd_channels n))\<rparr>\<rparr>
                   in if length i < 8 then (Panicked, s1) else (Reply (ChannelBody i name owner), s1))"

definition Node_handleGetChannels :: "http_state \<Rightarrow> handled" where
  "Node_handleGetChannels s = (Reply (ChannelsBody (ChannelStore_GetAll (nd_channels (hs_node s)))), s)"

definition channel_of_path :: "string \<Rightarrow> string option" where
  "channel_of_path path = (let parts = Split (CHR ''/'') path in if length parts < 4 then None else Some (parts ! 2))"

definition Node_handleSendToChannel :: "env \<Rightarrow> http_lib \<Rightarrow> bool \<Rightarrow> string \<Rightarrow> string option \<Rightarrow> http_state \<Rightarrow> handled" where
  "Node_handleSendToChannel e H post path req s =
     (if \<not> post then (HttpError method_not_allowed, s)
      else case channel_of_path path of None \<Rightarrow> (HttpError bad_request, s)
      | Some i \<Rightarrow>
          let n = hs_node s
          in case ChannelStore_Get (nd_channels n) i of None \<Rightarrow> (HttpError not_found, s)
             | Some ch \<Rightarrow> (case short_id n of None \<Rightarrow> (Panicked, s)
                 | Some me8 \<Rightarrow> (case req of None \<Rightarrow> (HttpError bad_request, s)
                     | Some msg \<Rightarrow>
                         if msg = [] then (HttpError bad_request, s)
                         else let m = zero_message\<lparr>msg_ID := ev_generateMsgID e msg, msg_Text := msg, msg_Sender := me8,
                                msg_Time := sl_local_now (ht_state H), msg_IsOwn := True, msg_Weight := Node_getPeerWeight me8 n,
                                msg_Created := ev_now e\<rparr>;
                              s1 = s\<lparr>hs_node := n\<lparr>nd_channels := AList.update i (Channel_AddMessage m ch) (nd_channels n)\<rparr>\<rparr>
                           in if length i < 8 then (Panicked, s1) else (Reply OkBody, s1))))"

definition Node_handleGetChannelMessages :: "string \<Rightarrow> http_state \<Rightarrow> handled" where
  "Node_handleGetChannelMessages path s =
     (case channel_of_path path of None \<Rightarrow> (HttpError bad_request, s)
      | Some i \<Rightarrow> (case ChannelStore_Get (nd_channels (hs_node s)) i of None \<Rightarrow> (HttpError not_found, s)
          | Some ch \<Rightarrow> (case short_id (hs_node s) of None \<Rightarrow> (Panicked, s)
              | Some me8 \<Rightarrow> (Reply (MessagesBody (Channel_GetVisibleMessages (Node_getPeerWeight me8 (hs_node s)) ch)), s))))"

section \<open>Reading\<close>

definition Node_handleMessages :: "http_state \<Rightarrow> handled" where
  "Node_handleMessages s = (Reply (MessagesBody (rev (Memory_GetAll (nd_memory (hs_node s))))), s)"

text \<open>\<open>GetStatus\<close> of the mobile API, with the number of requests; zero everywhere before the start.\<close>

definition Node_GetStatus :: "env \<Rightarrow> node \<Rightarrow> string \<times> nat \<times> nat \<times> nat \<times> nat" where
  "Node_GetStatus e n =
     (case nd_host n of
        None \<Rightarrow> ([], 0, 0, 0, 0)
      | Some me \<Rightarrow> (me, length (ev_peers e), Memory_Count (nd_memory n), length (nd_layers n),
          case nd_requests n of None \<Rightarrow> 0 | Some rs \<Rightarrow> RequestsStore_CountPending rs))"

definition Node_handleStatus :: "env \<Rightarrow> http_state \<Rightarrow> handled" where
  "Node_handleStatus e s = with_mu s
     (case nd_host (hs_node s) of
        None \<Rightarrow> (Panicked, s)
      | Some me \<Rightarrow> (Reply (StatusBody me (length (ev_peers e)) (Memory_Count (nd_memory (hs_node s)))
          (length (nd_layers (hs_node s)))), s))"

definition all_weights :: "node \<Rightarrow> real list" where
  "all_weights n = concat (nd_layers n)"

definition mean :: "real list \<Rightarrow> real" where
  "mean ws = (if 0 < length ws then sum_list ws / real (length ws) else 0)"

definition deviation :: "real list \<Rightarrow> real" where
  "deviation ws = (if 0 < length ws
     then go_sqrt (sum_list (map (\<lambda>w. (w - mean ws) * (w - mean ws)) ws) / real (length ws)) else 0)"

text \<open>The unlocking is deferred, so a panic inside does not leave the mutex locked.\<close>

definition Node_handleHealth :: "env \<Rightarrow> http_state \<Rightarrow> handled" where
  "Node_handleHealth e s = with_mu s
     (if nd_host (hs_node s) = None \<or> list_ex (\<lambda>p. length p < 8) (ev_peers e) then (Panicked, s)
      else let ws = all_weights (hs_node s)
           in (Reply (HealthBody (length (nd_layers (hs_node s))) (length ws) (mean ws) (deviation ws)
                (map (take 8) (ev_peers e))), s))"

definition Node_handleLayersAPI :: "http_state \<Rightarrow> handled" where
  "Node_handleLayersAPI s = with_mu s (Reply (LayersBody (nd_layers (hs_node s))), s)"

text \<open>
  \<open>stored\<close> is the peer store; \<open>order\<close> is the order in which the range over the announced peers visits
  them.
\<close>

definition Node_handlePeersFull :: "env \<Rightarrow> (string \<times> string list) list \<Rightarrow> string list \<Rightarrow> http_state \<Rightarrow> handled" where
  "Node_handlePeersFull e stored order s =
     (let n = hs_node s; announced = nd_announced n; connected = (\<lambda>p. p \<in> set (ev_peers e))
      in if nd_host n = None then (HttpError 503, s)
         else (Reply (PeersBody (
                map (\<lambda>(p, addrs). \<lparr>pi_PeerID = p, pi_Multiaddrs = addrs, pi_Connected = connected p, pi_Announced = announced p\<rparr>) stored @
                map (\<lambda>p. \<lparr>pi_PeerID = p, pi_Multiaddrs = [], pi_Connected = connected p, pi_Announced = announced p\<rparr>)
                  (filter (\<lambda>p. p \<notin> fst ` set stored \<and> announced p \<noteq> None) order))), s))"

section \<open>Feedback\<close>

definition rated :: "int \<Rightarrow> message \<Rightarrow> message" where
  "rated score m =
     (let w = (if score = 1 then (if 1 < msg_Weight m + 15 / 100 then 1 else msg_Weight m + 15 / 100)
               else (if msg_Weight m - 15 / 100 < 0 then 0 else msg_Weight m - 15 / 100))
      in m\<lparr>msg_Score := score, msg_Weight := w\<rparr>)"

definition change_message :: "string \<Rightarrow> (message \<Rightarrow> message) \<Rightarrow> memory \<Rightarrow> memory" where
  "change_message i f mem = mem\<lparr>mem_messages := update_first (\<lambda>x. msg_ID x = i) f (mem_messages mem)\<rparr>"

definition feedback_layers :: "env \<Rightarrow> int \<Rightarrow> message \<Rightarrow> node \<Rightarrow> layers option" where
  "feedback_layers e score m n =
     (let input = textToVector (ev_text e) (msg_Text m); output = fst (forward input (nd_layers n))
      in train (nd_layers n) input output
           (if score = 1 then hashToVector (ev_text e) (nd_ethHash n) else map uminus input) (2 / 100 * msg_Weight m))"

text \<open>
  \<open>handleFeedback\<close> unlocks by hand.  Its logs cut the ID to eight bytes: with a shorter ID they panic, and
  all but the one for an ignored dislike do so before the unlocking.
\<close>

definition feedback_locked :: "env \<Rightarrow> http_lib \<Rightarrow> string \<Rightarrow> int \<Rightarrow> message \<Rightarrow> http_state \<Rightarrow> handled" where
  "feedback_locked e H i score m0 s =
     (let n = hs_node s;
          mem1 = (if msg_Archived m0 then snd (Memory_RestoreFromArchive (ev_now e) i (nd_memory n)) else nd_memory n);
          n1 = n\<lparr>nd_memory := mem1\<rparr>
      in if msg_Archived m0 \<and> length i < 8 then (Panicked, s\<lparr>hs_node := n1, hs_locked := True\<rparr>)
         else let m1 = (case find (\<lambda>x. msg_ID x = i) (mem_messages mem1) of None \<Rightarrow> m0 | Some x \<Rightarrow> x);
                  n2 = n1\<lparr>nd_memory := change_message i (rated score) mem1\<rparr>
              in if length i < 8 then (Panicked, s\<lparr>hs_node := n2, hs_locked := True\<rparr>)
                 else case feedback_layers e score (rated score m1) n2 of
                   None \<Rightarrow> (Panicked, s\<lparr>hs_node := n2, hs_locked := True\<rparr>)
                 | Some ls \<Rightarrow>
                     let n3 = n2\<lparr>nd_layers := ls, nd_memory := (if msg_Weight (rated score m1) < 15 / 100
                                then change_message i (\<lambda>x. x\<lparr>msg_Archived := True\<rparr>) (nd_memory n2) else nd_memory n2)\<rparr>
                     in (Reply OkBody, s\<lparr>hs_node := snd (Node_saveState e (ht_state H) n3)\<rparr>))"

definition Node_handleFeedback :: "env \<Rightarrow> http_lib \<Rightarrow> string \<Rightarrow> string \<Rightarrow> http_state \<Rightarrow> handled" where
  "Node_handleFeedback e H i scoreStr s =
     (if i = [] \<or> scoreStr = [] then (HttpError bad_request, s)
      else case Atoi scoreStr of None \<Rightarrow> (HttpError bad_request, s)
      | Some score \<Rightarrow>
          if score \<noteq> 1 \<and> score \<noteq> -1 then (HttpError bad_request, s)
          else with_mu s
            (case find (\<lambda>x. msg_ID x = i) (mem_messages (nd_memory (hs_node s))) of
               None \<Rightarrow> (HttpError not_found, s)
             | Some m0 \<Rightarrow>
                 if msg_Archived m0 \<and> score \<noteq> 1 then (if length i < 8 then Panicked else Reply OkBody, s)
                 else feedback_locked e H i score m0 s))"

section \<open>Hashes\<close>

definition set_hash :: "(string \<Rightarrow> node \<Rightarrow> node) \<Rightarrow> (node \<Rightarrow> body) \<Rightarrow> bool \<Rightarrow> string option \<Rightarrow> http_state \<Rightarrow> handled" where
  "set_hash upd reply post req s =
     (if \<not> post then (HttpError method_not_allowed, s)
      else case req of None \<Rightarrow> (HttpError bad_request, s)
      | Some hash \<Rightarrow> with_mu s
          (let n1 = upd hash (hs_node s)
           in (Reply (reply n1), s\<lparr>hs_node := n1\<lparr>nd_started := nd_started n1 @ [SaveState]\<rparr>\<rparr>)))"

definition Node_handleSetPreHash :: "bool \<Rightarrow> string option \<Rightarrow> http_state \<Rightarrow> handled" where
  "Node_handleSetPreHash = set_hash (\<lambda>h n. n\<lparr>nd_preHash := h\<rparr>) (\<lambda>n. HashesBody (nd_preHash n) [])"

definition Node_handleSetAntiHash :: "bool \<Rightarrow> string option \<Rightarrow> http_state \<Rightarrow> handled" where
  "Node_handleSetAntiHash = set_hash (\<lambda>h n. n\<lparr>nd_antiHash := h\<rparr>) (\<lambda>n. HashesBody [] (nd_antiHash n))"

definition Node_handleGetHashes :: "http_state \<Rightarrow> handled" where
  "Node_handleGetHashes s = with_mu s (Reply (HashesBody (nd_preHash (hs_node s)) (nd_antiHash (hs_node s))), s)"

section \<open>The request for a restore\<close>

text \<open>
  \<open>answer p line\<close> is what the one read of the answer of \<open>p\<close> returns, \<open>None\<close> when the stream does not
  open.  A panic, of a short ID, is \<open>None\<close>.
\<close>

definition restore_from :: "env \<Rightarrow> (string \<Rightarrow> string \<Rightarrow> string option) \<Rightarrow> string \<Rightarrow> string \<Rightarrow> node \<Rightarrow> node" where
  "restore_from e answer line p n =
     (case answer p line of
        None \<Rightarrow> n
      | Some data \<Rightarrow> if 0 < length data then Node_handleReplicaData e (strings_TrimSpace data) n else n)"

definition Node_requestRestore :: "env \<Rightarrow> (string \<Rightarrow> string \<Rightarrow> string option) \<Rightarrow> node \<Rightarrow> node option" where
  "Node_requestRestore e answer n =
     (if nd_host n = None then Some n
      else map_option (\<lambda>me8. fold (restore_from e answer (RESTORE_PREFIX @ me8 @ [newline])) (ev_peers e) n) (short_id n))"

section \<open>Runs\<close>

datatype http_request =
    SendReq bool "send_request option"
  | StegoReq bool "(string \<times> string) option"
  | CreateChannelReq bool "string option"
  | ChannelsReq
  | ToChannelReq bool string "string option"
  | ChannelMessagesReq string
  | MessagesReq
  | StatusReq
  | HealthReq
  | LayersReq
  | PeersReq "(string \<times> string list) list" "string list"
  | FeedbackReq string string
  | PreHashReq bool "string option"
  | AntiHashReq bool "string option"
  | HashesReq

fun http_step :: "env \<Rightarrow> http_lib \<Rightarrow> http_request \<Rightarrow> http_state \<Rightarrow> handled" where
  "http_step e H (SendReq post req) s = Node_handleSend e H post req s"
| "http_step e H (StegoReq post req) s = Node_handleSendStego e H post req s"
| "http_step e H (CreateChannelReq post req) s = Node_handleCreateChannel e post req s"
| "http_step e H ChannelsReq s = Node_handleGetChannels s"
| "http_step e H (ToChannelReq post path req) s = Node_handleSendToChannel e H post path req s"
| "http_step e H (ChannelMessagesReq path) s = Node_handleGetChannelMessages path s"
| "http_step e H MessagesReq s = Node_handleMessages s"
| "http_step e H StatusReq s = Node_handleStatus e s"
| "http_step e H HealthReq s = Node_handleHealth e s"
| "http_step e H LayersReq s = Node_handleLayersAPI s"
| "http_step e H (PeersReq stored order) s = Node_handlePeersFull e stored order s"
| "http_step e H (FeedbackReq i score) s = Node_handleFeedback e H i score s"
| "http_step e H (PreHashReq post req) s = Node_handleSetPreHash post req s"
| "http_step e H (AntiHashReq post req) s = Node_handleSetAntiHash post req s"
| "http_step e H HashesReq s = Node_handleGetHashes s"

definition http_run :: "(env \<times> http_lib \<times> http_request) list \<Rightarrow> http_state \<Rightarrow> http_result list \<times> http_state" where
  "http_run = serve_all (\<lambda>(e, H, r). http_step e H r)"

section \<open>The lock\<close>

lemma locked_kept:
  assumes "hs_locked s"
  shows "hs_locked (snd (http_step e H r s))"
proof -
  have *: "hs_locked (snd (process_request e H msg mode x b l s))" for msg mode x b l
    using assms by (simp add: process_request_def split: option.split)
  show ?thesis
    using assms *
    by (cases r) (auto simp: Node_handleSend_def Node_handleSendStego_def Node_handleCreateChannel_def Node_handleGetChannels_def
        Node_handleSendToChannel_def Node_handleGetChannelMessages_def Node_handleMessages_def Node_handleStatus_def
        Node_handleHealth_def Node_handleLayersAPI_def Node_handlePeersFull_def Node_handleFeedback_def Node_handleSetPreHash_def
        Node_handleSetAntiHash_def Node_handleGetHashes_def set_hash_def with_mu_def Let_def
        split: option.split sum.split)
qed

interpretation locked_http: answering "\<lambda>(e, H, r). http_step e H r" hs_locked "\<lambda>_. True" "\<lambda>_. True"
  by unfold_locales (auto simp: locked_kept)

lemma locked_run: "hs_locked s \<Longrightarrow> hs_locked (snd (http_run rs s))"
  using locked_http.serve_all_invar[of s rs] by (simp add: http_run_def list_all_iff)

lemma locked_blocks:
  assumes "hs_locked s"
  shows "http_step e H StatusReq s = (Blocked, s)" "http_step e H HashesReq s = (Blocked, s)" "http_step e H LayersReq s = (Blocked, s)"
    "short_id (hs_node s) \<noteq> None \<Longrightarrow> msg \<noteq> [] \<Longrightarrow>
       http_step e H (SendReq True (Some \<lparr>sr_Message = msg, sr_Mode = 0, sr_TTL = ttl\<rparr>)) s = (Blocked, s)"
  using assms
  by (auto simp: Node_handleStatus_def Node_handleGetHashes_def Node_handleLayersAPI_def with_mu_def Node_handleSend_def
      process_request_def uses_chain_def clean_mode_def)

section \<open>No panic\<close>

text \<open>An environment and a request without short IDs.\<close>

definition long_ids :: "env \<Rightarrow> http_request \<Rightarrow> bool" where
  "long_ids e r \<longleftrightarrow> (\<forall>t. 8 \<le> length (ev_generateMsgID e t)) \<and> list_all (\<lambda>p. 8 \<le> length p) (ev_peers e) \<and>
     (case r of FeedbackReq i _ \<Rightarrow> 8 \<le> length i | _ \<Rightarrow> True)"

definition http_inv :: "http_state \<Rightarrow> bool" where
  "http_inv s \<longleftrightarrow> node_inv (hs_node s) \<and> \<not> hs_locked s \<and> short_id (hs_node s) \<noteq> None \<and>
     list_all (\<lambda>c. 8 \<le> length (fst c)) (nd_channels (hs_node s))"

definition fine :: "handled \<Rightarrow> bool" where
  "fine h \<longleftrightarrow> fst h \<noteq> Panicked \<and> fst h \<noteq> Blocked \<and> http_inv (snd h)"

text \<open>What the text of a user changes keeps the host and the channels.\<close>

definition same_place :: "node \<Rightarrow> node \<Rightarrow> bool" where
  "same_place n n' \<longleftrightarrow> nd_host n' = nd_host n \<and> nd_channels n' = nd_channels n"

lemma same_place_refl [simp]: "same_place n n"
  by (simp add: same_place_def)

lemma same_place_trans: "same_place n m \<Longrightarrow> same_place m k \<Longrightarrow> same_place n k"
  by (simp add: same_place_def)

lemma same_place_fold: "(\<And>x m. same_place m (f x m)) \<Longrightarrow> same_place n (fold f xs n)"
  by (induction xs arbitrary: n) (auto intro: same_place_trans)

lemma same_place_basic [simp]:
  "same_place n (n\<lparr>nd_memory := mem\<rparr>)" "same_place n (n\<lparr>nd_outbox := ob\<rparr>)" "same_place n (n\<lparr>nd_lines := li\<rparr>)"
  "same_place n (push_hook x n)" "same_place n (Node_scheduleSaveState n)" "same_place n (Node_setMessageStatus i st n)"
  "same_place n (snd (Node_sendServiceViaBootstrap e m n))" "same_place n (Node_enqueuePending m n)"
  "same_place n (Node_sendReplicaToPeer e p m n)" "same_place n (Node_addToBatch t p i tx n)" "same_place n (snd (Node_lookupPeer t p n))"
  by (auto simp: same_place_def push_hook_def Node_scheduleSaveState_def Node_setMessageStatus_def Node_sendServiceViaBootstrap_def
      Node_enqueuePending_def Node_sendReplicaToPeer_def Node_addToBatch_def Node_lookupPeer_def
      split: option.split prod.split bool.split)

lemma fallbackSend_place [simp]: "same_place n (snd (Node_fallbackSend e p m n))"
proof -
  have "same_place n n1" "same_place n (Node_sendReplicaToPeer e p m n1)" if "Node_lookupPeer (ev_now e) p n = (a, n1)" for a n1
    using same_place_basic(11)[of n "ev_now e" p] that same_place_trans[of n n1] by simp_all
  then show ?thesis by (auto simp: Node_fallbackSend_def split: option.split prod.split)
qed

lemma sendToRecipient_place [simp]: "same_place n (snd (Node_sendToRecipient e m n))"
  by (auto simp: Node_sendToRecipient_def Node_sendWithFallback_def)

lemma sendViaSphinx_place [simp]: "same_place n (snd (Node_sendViaSphinx e m n))"
proof -
  have "same_place n n1" if "Node_lookupPeer (ev_now e) r n = (x, n1)" for r x n1
    using same_place_basic(11)[of n "ev_now e" r] that by simp
  then have "same_place n (snd (Node_FindPeerByID e r n))" for r
    by (auto simp: Node_FindPeerByID_def split: option.split prod.split)
  then have "same_place n n1" if "Node_FindPeerByID e r n = (x, n1)" for r x n1 using that by (metis snd_conv)
  then have "same_place n n1" if "direct_reachable e r n = (b, n1)" for r b n1
    using that by (auto simp: direct_reachable_def split: if_splits option.splits prod.splits)
  then show ?thesis
    by (auto simp: Node_sendViaSphinx_def same_place_def Let_def split: option.split prod.split bool.split)
qed

lemma replicate_place [simp]: "same_place n (Node_replicateMessage e m n)"
proof -
  have "same_place n (replicate_addressed e x n)" for x n
    using sendToRecipient_place[of n e x] same_place_trans[OF sendToRecipient_place same_place_basic(8)]
    by (simp add: replicate_addressed_def Let_def) (simp add: same_place_def)
  moreover have "same_place n (replicate_broadcast e x n)" for x
    by (simp add: replicate_broadcast_def Let_def same_place_fold)
  moreover have "same_place n n1 \<Longrightarrow> same_place n (replicate_addressed e x n1)" for x n1
    using calculation(1) same_place_trans by blast
  moreover have "same_place n n1" if "Node_sendViaSphinx e x n = (b, n1)" for x b n1
    using sendViaSphinx_place[of n e x] that by simp
  ultimately show ?thesis
    by (auto simp: Node_replicateMessage_def Let_def split: prod.split bool.split)
qed

lemma store_and_send_place [simp]: "same_place n (store_and_send e m via n)"
proof -
  have memory: "same_place n (n\<lparr>nd_memory := mem\<rparr>)" for mem by simp
  have status: "same_place n (if b then Node_setMessageStatus i st (n\<lparr>nd_memory := mem\<rparr>) else n\<lparr>nd_memory := mem\<rparr>)" for b i st mem
    using same_place_trans[OF memory same_place_basic(6)] by simp
  have "same_place n (push_hook x (if via then snd (Node_sendServiceViaBootstrap e m n2) else Node_replicateMessage e m n2))"
    if "same_place n n2" for x n2
    using same_place_trans[OF same_place_trans[OF that] same_place_basic(4)] by simp
  with status memory show ?thesis by (simp add: store_and_send_def Let_def split: prod.split bool.split)
qed

lemma network_answer_place [simp]: "same_place n (network_answer e answer n)"
  using same_place_trans[OF same_place_basic(1) replicate_place, of n]
  by (simp add: network_answer_def Let_def split: prod.split bool.split)

lemma processMessageInternal_place:
  assumes "Node_processMessageInternal e msg sender own a n = Some n'"
  shows "same_place n n'"
proof -
  obtain answer n1 where n1: "learn e msg n = Some n1" "n' = (let n2 = store_and_send e (new_message e n1 msg sender own a) (pa_viaBootstrap a) n1;
      n3 = (if answer \<noteq> [] \<and> pa_recipient a = [] then network_answer e answer n2 else n2) in n3\<lparr>nd_started := nd_started n3 @ [SaveState]\<rparr>)"
    using assms by (auto simp: Node_processMessageInternal_def Let_def split: option.splits)
  have "same_place n n1" using n1(1) by (auto simp: learn_def Let_def same_place_def)
  then have n2: "same_place n (store_and_send e m via n1)" for m via using same_place_trans by simp
  then have "same_place n (network_answer e answer (store_and_send e m via n1))" for m via
    using same_place_trans[OF _ network_answer_place] by blast
  with n2 show ?thesis using n1(2) by (simp add: Let_def same_place_def)
qed

lemma process_text_ok:
  assumes "node_inv n"
  shows "\<exists>n'. Node_processMessageWithModeAndTTL perm e msg sender own mode x n = Some n' \<and> node_inv n' \<and> same_place n n'"
proof -
  obtain n' where "Node_processMessageInternal e msg sender own (plain_args\<lparr>pa_expiresAt := x\<rparr>) n = Some n'" "node_inv n'"
    using processMessageInternal_inv[OF assms] by blast
  moreover have "same_place n (Node_sendViaRelayChain e rs msg n)" for rs
    by (auto simp: Node_sendViaRelayChain_def same_place_def Let_def split: list.split)
  ultimately show ?thesis
    using processMessageInternal_place sendViaRelayChain_inv[OF assms]
    by (auto simp: Node_processMessageWithModeAndTTL_def Node_processMessageWithTTL_def Let_def)
qed

section \<open>Every handler is fine\<close>

lemma http_invD:
  assumes "http_inv s"
  obtains me where "nd_host (hs_node s) = Some me" "short_id (hs_node s) = Some (take 8 me)" "node_inv (hs_node s)" "\<not> hs_locked s"
  using assms by (auto simp: http_inv_def short_id_def split: option.splits if_splits)

lemma http_inv_place:
  "http_inv s \<Longrightarrow> node_inv n \<Longrightarrow> same_place (hs_node s) n \<Longrightarrow> http_inv (s\<lparr>hs_node := n\<rparr>)"
  by (simp add: http_inv_def same_place_def short_id_def)

lemma process_request_fine:
  assumes "http_inv s"
  shows "fine (process_request e H msg mode x b l s)"
proof -
  obtain me where me: "short_id (hs_node s) = Some (take 8 me)" "node_inv (hs_node s)" "\<not> hs_locked s"
    using http_invD[OF assms] by blast
  obtain n' where n': "Node_processMessageWithModeAndTTL (ht_perm H) e msg (take 8 me) True mode x (hs_node s) = Some n'"
      "node_inv n'" "same_place (hs_node s) n'"
    using process_text_ok[OF me(2)] by blast
  moreover have "node_inv (send_lines e l n')" "same_place (hs_node s) (send_lines e l n')"
    using n'(2,3) by (simp_all add: send_lines_def same_place_def)
  ultimately show ?thesis using me assms http_inv_place by (simp add: process_request_def fine_def)
qed

lemma channels_fine:
  assumes "http_inv s" "long_ids e r"
  shows "r = CreateChannelReq post req \<Longrightarrow> fine (Node_handleCreateChannel e post req s)"
    "fine (Node_handleSendToChannel e H post path req s)" "fine (Node_handleGetChannelMessages path s)"
proof -
  obtain me where me: "nd_host (hs_node s) = Some me" "short_id (hs_node s) = Some (take 8 me)" "node_inv (hs_node s)" "\<not> hs_locked s"
    using http_invD[OF assms(1)] by blast
  have keys: "list_all (\<lambda>c. 8 \<le> length (fst c)) (AList.update i ch cs)"
    if "list_all (\<lambda>c. 8 \<le> length (fst c)) cs" "8 \<le> length i" for i ch and cs :: channel_store
    using that by (induction cs) auto
  have old: "8 \<le> length i" if "ChannelStore_Get (nd_channels (hs_node s)) i = Some ch" for i ch
    using assms(1) that by (auto simp: http_inv_def ChannelStore_Get_def list_all_iff dest!: map_of_SomeD)
  have long: "8 \<le> length (ev_generateMsgID e t)" for t using assms(2) by (simp add: long_ids_def)
  have inv: "http_inv (s\<lparr>hs_node := (hs_node s)\<lparr>nd_channels := AList.update i ch (nd_channels (hs_node s))\<rparr>\<rparr>)"
    if "8 \<le> length i" for i ch
    using assms(1) keys[OF _ that] by (simp add: http_inv_def short_id_def)
  show "r = CreateChannelReq post req \<Longrightarrow> fine (Node_handleCreateChannel e post req s)"
    using me assms(1) long inv[OF long]
    by (auto simp: Node_handleCreateChannel_def fine_def Let_def ChannelStore_Create_def not_less[symmetric] split: option.split)
  show "fine (Node_handleSendToChannel e H post path req s)"
    using me assms(1) inv old by (auto simp: Node_handleSendToChannel_def fine_def Let_def not_less[symmetric] split: option.split)
  show "fine (Node_handleGetChannelMessages path s)"
    using me assms(1) by (auto simp: Node_handleGetChannelMessages_def fine_def split: option.split)
qed

lemma change_message_inv:
  assumes "mem_inv mem" "\<And>x. msg_key (f x) = msg_key x"
  shows "mem_inv (change_message i f mem)"
  using assms mem_inv_frame[of "update_first (\<lambda>x. msg_ID x = i) f (mem_messages mem)" mem]
  by (simp add: change_message_def map_update_first)

lemma feedback_fine:
  assumes "http_inv s" "8 \<le> length i"
  shows "fine (Node_handleFeedback e H i score s)"
proof -
  obtain me where me: "nd_host (hs_node s) = Some me" "node_inv (hs_node s)" "\<not> hs_locked s"
    using http_invD[OF assms(1)] by blast
  have mem: "mem_inv (nd_memory (hs_node s))" by (rule node_invD(1)[OF me(2)])
  have keys: "msg_key (rated sc x) = msg_key x" "msg_key (x\<lparr>msg_Archived := True\<rparr>) = msg_key x" for sc x
    by (simp_all add: msg_key_def rated_def Let_def chunk_key_def indexed_def is_chunk_def)
  have layers: "\<exists>ls. feedback_layers e sc m n = Some ls" for sc m n
    by (simp add: feedback_layers_def Let_def train_def length_forward VectorDim_def)
  have "fine (feedback_locked e H i sc m0 s)" for sc m0
  proof -
    define mem1 where "mem1 = (if msg_Archived m0 then snd (Memory_RestoreFromArchive (ev_now e) i (nd_memory (hs_node s)))
      else nd_memory (hs_node s))"
    have mem1: "mem_inv mem1" using mem RestoreFromArchive_inv(1)[OF mem, of "ev_now e" i] by (simp add: mem1_def)
    let ?mem2 = "change_message i (rated sc) mem1"
    have mem2: "mem_inv ?mem2" "mem_inv (change_message i (\<lambda>x. x\<lparr>msg_Archived := True\<rparr>) ?mem2)"
      using change_message_inv[OF mem1 keys(1)] change_message_inv[OF change_message_inv[OF mem1 keys(1)] keys(2)] by simp_all
    have inv: "http_inv (s\<lparr>hs_node := snd (Node_saveState e L ((hs_node s)\<lparr>nd_layers := ls, nd_memory := m\<rparr>))\<rparr>)"
      if "mem_inv m" for m ls L
      using assms(1) that me(2)
      by (auto simp: http_inv_def node_inv_def Node_GetContact_def short_id_def Node_saveState_def write_file_def Let_def)
    obtain ls where "feedback_layers e sc (rated sc (case find (\<lambda>x. msg_ID x = i) (mem_messages mem1) of None \<Rightarrow> m0 | Some x \<Rightarrow> x))
        ((hs_node s)\<lparr>nd_memory := ?mem2\<rparr>) = Some ls"
      using layers by blast
    then show ?thesis using assms(2) mem2 inv by (simp add: feedback_locked_def fine_def Let_def mem1_def[symmetric])
  qed
  then show ?thesis using me assms by (auto simp: Node_handleFeedback_def with_mu_def fine_def split: option.split)
qed

lemma http_step_fine:
  assumes "http_inv s" "long_ids e r"
  shows "fine (http_step e H r s)"
proof -
  obtain me where me: "nd_host (hs_node s) = Some me" "short_id (hs_node s) = Some (take 8 me)" "node_inv (hs_node s)" "\<not> hs_locked s"
    using http_invD[OF assms(1)] by blast
  have peers: "\<not> list_ex (\<lambda>p. length p < 8) (ev_peers e)" using assms(2) by (auto simp: long_ids_def list_all_iff list_ex_iff)
  have hash: "http_inv (s\<lparr>hs_node := (hs_node s)\<lparr>nd_preHash := h, nd_started := st\<rparr>\<rparr>)"
      "http_inv (s\<lparr>hs_node := (hs_node s)\<lparr>nd_antiHash := h, nd_started := st\<rparr>\<rparr>)" for h st
    using assms(1) by (simp_all add: http_inv_def node_inv_def Node_GetContact_def short_id_def)
  show ?thesis
    using assms me peers hash channels_fine[OF assms] process_request_fine[OF assms(1)] feedback_fine[OF assms(1)]
    by (cases r) (auto simp: Node_handleSend_def Node_handleSendStego_def Node_handleGetChannels_def Node_handleMessages_def
        Node_handleStatus_def Node_handleHealth_def Node_handleLayersAPI_def Node_handlePeersFull_def Node_handleSetPreHash_def
        Node_handleSetAntiHash_def Node_handleGetHashes_def set_hash_def with_mu_def Let_def fine_def long_ids_def
        split: option.split sum.split)
qed

section \<open>Properties\<close>

interpretation safe_http: answering "\<lambda>(e, H, r). http_step e H r" http_inv "\<lambda>(e, H, r). long_ids e r" "\<lambda>x. x \<noteq> Panicked \<and> x \<noteq> Blocked"
  using http_step_fine by unfold_locales (auto simp: fine_def)


definition http_example :: "string \<Rightarrow> http_state" where
  "http_example i = \<lparr>hs_node = demo_node\<lparr>nd_host := Some ''QmMyLongPeer'',
     nd_memory := snd (Memory_Add 1 (zero_message\<lparr>msg_ID := i, msg_Text := ''x'', msg_Weight := 1 / 2, msg_Created := 1\<rparr>) empty_memory)\<rparr>,
     hs_locked = False\<rparr>"

definition http_example_env :: env where
  "http_example_env = (quiet_env 5)\<lparr>ev_generateMsgID := (@) ''0123456789''\<rparr>"

definition http_example_lib :: http_lib where
  "http_example_lib = \<lparr>ht_state = example_lib, ht_perm = (\<lambda>k. [0..<k]), ht_shuffle = (\<lambda>_ k. [0..<k]), ht_key = (\<lambda>_. []),
     ht_wavToBase64 = (\<lambda>_. []), ht_base64ToWav = (\<lambda>_. None)\<rparr>"

lemma http_example_inv: "i \<noteq> [] \<Longrightarrow> http_inv (http_example i)"
proof -
  have "mem_inv (snd (Memory_Add 1 (zero_message\<lparr>msg_ID := i, msg_Text := ''x'', msg_Weight := 1 / 2, msg_Created := 1\<rparr>) empty_memory))"
    using Add_inv(1)[OF mem_inv_empty] by blast
  moreover have "nd_channels demo_node = []" by (simp add: demo_node_def)
  ultimately show ?thesis
    using demo_node_inv by (simp add: http_inv_def http_example_def node_inv_def Node_GetContact_def short_id_def ContactsStore_Get_def
        demo_node_def sample_contact_def)
qed


text \<open>C38.  A short ID stops the node: when the user rates a message whose ID has less than eight bytes,
and any peer can send such a message, the handler panics with the mutex of the node locked.  From then on,
whatever requests come, sending and the status never answer.\<close>

theorem short_id_locks_node:
  assumes "http_inv s" "Memory_GetByID (nd_memory (hs_node s)) i = Some m" "i \<noteq> []" "length i < 8"
    and "http_step e H (FeedbackReq i ''1'') s = (x, s1)"
  shows "x = Panicked \<and> hs_locked (snd (http_run rs s1)) \<and>
    fst (http_step e' H' StatusReq (snd (http_run rs s1))) = Blocked"
proof -
  have inv: "mem_inv (nd_memory (hs_node s))" "\<not> hs_locked s" using assms(1) node_invD(1) by (auto simp: http_inv_def)
  then have "find (\<lambda>x. msg_ID x = i) (mem_messages (nd_memory (hs_node s))) \<noteq> None"
    using GetByID_Some[OF inv(1), of i m] assms(2) by (auto simp: find_None_iff)
  then obtain m0 where m0: "find (\<lambda>x. msg_ID x = i) (mem_messages (nd_memory (hs_node s))) = Some m0" by blast
  have one: "Atoi ''1'' = Some 1" by (simp add: Atoi_def is_digit_def digits_value_def min_int64_def max_int64_def)
  have "http_step e H (FeedbackReq i ''1'') s = feedback_locked e H i 1 m0 s"
    using assms(3) inv(2) m0 one by (simp add: Node_handleFeedback_def with_mu_def)
  then have "x = Panicked" "hs_locked s1" using assms(4,5) by (auto simp: feedback_locked_def Let_def split: if_splits)
  with locked_run[of s1 rs] locked_blocks(1)[of "snd (http_run rs s1)" e' H'] show ?thesis by simp
qed

theorem short_id_locks_node_witness:
  "fst (http_step http_example_env http_example_lib (FeedbackReq ''ab'' ''1'') (http_example ''ab'')) = Panicked \<and>
   fst (http_step http_example_env http_example_lib StatusReq (snd (http_run [(http_example_env, http_example_lib, MessagesReq)]
     (snd (http_step http_example_env http_example_lib (FeedbackReq ''ab'' ''1'') (http_example ''ab'')))))) = Blocked"
proof -
  let ?s = "http_example ''ab''"
  obtain x s1 where step: "http_step http_example_env http_example_lib (FeedbackReq ''ab'' ''1'') ?s = (x, s1)" by (metis surj_pair)
  have "\<exists>m. Memory_GetByID (nd_memory (hs_node ?s)) ''ab'' = Some m"
    by (simp add: http_example_def Memory_Add_def Memory_GetByID_def mem_lookup_def empty_memory_def is_expired_def IsZero_def
        with_defaults_def Let_def zero_message_def)
  then obtain m where "Memory_GetByID (nd_memory (hs_node ?s)) ''ab'' = Some m" by blast
  from short_id_locks_node[OF http_example_inv this _ _ step, of "[(http_example_env, http_example_lib, MessagesReq)]"
      http_example_env http_example_lib] step
  show ?thesis by simp
qed

end
