(* ===== verification/Restore.thy ===== *)
theory Restore
  imports Http Relay
begin

text \<open>
  A node that starts asks its peers for the messages it sent before (\<open>requestRestore\<close>), with the first
  eight bytes of its ID; a peer answers with the replicas whose origin is what was asked for.
\<close>

lemma fold_idle: "(\<And>x m. x \<in> set xs \<Longrightarrow> f x m = m) \<Longrightarrow> fold f xs n = n"
  by (induction xs arbitrary: n) simp_all

lemma restore_line:
  assumes "plain_id p"
  shows "stream_message [RESTORE_PREFIX @ p @ [newline]] = RESTORE_PREFIX @ p"
proof -
  have "p \<noteq> []" "\<not> ascii_space (last p)" using assms by (auto simp: plain_id_def list_all_iff)
  then have "strings_TrimSpace ((RESTORE_PREFIX @ p) @ [newline]) = RESTORE_PREFIX @ p"
    by (intro strings_TrimSpace_newline) (auto simp: RESTORE_PREFIX_def ascii_space_def)
  then show ?thesis by (simp add: stream_message_def RESTORE_PREFIX_def)
qed

lemma restore_answered:
  assumes "plain_id p"
  shows "Node_handleStream e [RESTORE_PREFIX @ p @ [newline]] q n =
    Some (map (\<lambda>m. REPLICA_PREFIX @ ev_marshal e m @ [newline]) (Memory_GetReplicasFor p (nd_memory n)), n)"
  using restore_line[OF assms] by (simp add: Node_handleStream_def line_prefixes TrimPrefix_def)

text \<open>The answers of the peers: what their handlers write, read at once.\<close>

definition peer_answers :: "env \<Rightarrow> (string \<Rightarrow> node) \<Rightarrow> string \<Rightarrow> string \<Rightarrow> string \<Rightarrow> string option" where
  "peer_answers e peers me p line = map_option (concat \<circ> fst) (Node_handleStream e [line] me (peers p))"

text \<open>A restore brings nothing back: a node asks with eight bytes of its ID, but the replicas that its
peers keep have its whole ID as their origin, so every peer answers with nothing and the node that lost its
state stays as it is.\<close>

theorem restore_finds_nothing:
  assumes "nd_host n = Some me" "8 < length me" "plain_id (take 8 me)"
    and "\<forall>p \<in> set (ev_peers e). \<forall>x \<in> set (mem_messages (nd_memory (peers p))).
      8 < length (msg_Sender x) \<and> msg_ReplicatedFrom x \<in> {[], msg_Sender x}"
  shows "Node_requestRestore e (peer_answers e' peers me) n = Some n"
proof -
  have "restore_from e (peer_answers e' peers me) (RESTORE_PREFIX @ take 8 me @ [newline]) p m = m"
    if "p \<in> set (ev_peers e)" for p m
  proof -
    have "Memory_GetReplicasFor (take 8 me) (nd_memory (peers p)) = []"
    proof -
      have "length (take 8 me) = 8" using assms(2) by simp
      then have "msg_ReplicatedFrom x \<noteq> take 8 me" if "x \<in> set (mem_messages (nd_memory (peers p)))" for x
        using assms(4) \<open>p \<in> set (ev_peers e)\<close> that by fastforce
      then show ?thesis by (auto simp: Memory_GetReplicasFor_def filter_empty_conv)
    qed
    then show ?thesis
      using restore_answered[OF assms(3), of e' me "peers p"] by (simp add: restore_from_def peer_answers_def)
  qed
  then have "fold (restore_from e (peer_answers e' peers me) (RESTORE_PREFIX @ take 8 me @ [newline])) (ev_peers e) n = n"
    by (rule fold_idle)
  with assms(1,2) show ?thesis by (simp add: Node_requestRestore_def short_id_def)
qed

definition kept_replica :: message where
  "kept_replica = (sent_form (zero_message\<lparr>msg_ID := ''m1'', msg_Text := ''hello'', msg_Sender := ''QmMyLongPeer''\<rparr>))"

theorem restore_finds_nothing_witness:
  "let peers = (\<lambda>_. demo_node\<lparr>nd_memory := snd (Memory_Add 1 kept_replica empty_memory)\<rparr>);
       n = demo_node\<lparr>nd_host := Some ''QmMyLongPeer''\<rparr>
   in Node_requestRestore ((quiet_env 2)\<lparr>ev_peers := [''ali'']\<rparr>) (peer_answers (quiet_env 2) peers ''QmMyLongPeer'') n = Some n \<and>
      map msg_Sender (mem_messages (nd_memory (peers ''ali''))) = [''QmMyLongPeer'']"
  unfolding Let_def
proof
  let ?mem = "snd (Memory_Add 1 kept_replica empty_memory)"
  have mem: "mem_messages ?mem = [with_defaults 1 kept_replica]"
    by (simp add: Memory_Add_def empty_memory_def is_expired_def IsZero_def kept_replica_def sent_form_def zero_message_def Let_def)
  then show "map msg_Sender (mem_messages (nd_memory (demo_node\<lparr>nd_memory := ?mem\<rparr>))) = [''QmMyLongPeer'']"
    by (simp add: with_defaults_def kept_replica_def sent_form_def Let_def)
  show "Node_requestRestore ((quiet_env 2)\<lparr>ev_peers := [''ali'']\<rparr>)
      (peer_answers (quiet_env 2) (\<lambda>_. demo_node\<lparr>nd_memory := ?mem\<rparr>) ''QmMyLongPeer'') (demo_node\<lparr>nd_host := Some ''QmMyLongPeer''\<rparr>) =
      Some (demo_node\<lparr>nd_host := Some ''QmMyLongPeer''\<rparr>)"
    using mem by (intro restore_finds_nothing)
      (simp_all add: plain_id_def ascii_space_def with_defaults_def kept_replica_def sent_form_def Let_def)
qed

end
