(* ===== verification/Sockets.thy ===== *)
theory Sockets
  imports Http
begin

text \<open>
  The WebSocket clients of node/handlers.go: the set of connections, a session of one client, and the
  broadcast to all of them.
\<close>

section \<open>Sessions\<close>

text \<open>
  The messages a client sends, each with its environment, \<open>None\<close> when it is not JSON; the end of the list
  is the error of the last read.  A panic or a mutex that is never unlocked ends the session.
\<close>

fun ws_reads :: "http_lib \<Rightarrow> (env \<times> (string \<times> send_request) option) list \<Rightarrow> http_state \<Rightarrow> http_result list \<times> http_state" where
  "ws_reads H [] s = ([], s)"
| "ws_reads H ((e, msg) # rest) s =
     (case (case msg of None \<Rightarrow> None | Some (typ, r) \<Rightarrow> ws_send e H typ r s) of
        None \<Rightarrow> ws_reads H rest s
      | Some (x, s1) \<Rightarrow>
          if x = Panicked \<or> x = Blocked then ([x], s1)
          else (case ws_reads H rest s1 of (xs, s2) \<Rightarrow> (x # xs, s2)))"

text \<open>
  The clients, what is written to the client and the state afterwards.  The removal of the connection is
  deferred, so it happens after a panic too, but not while the handler waits.
\<close>

definition Node_handleWebSocket ::
  "http_lib \<Rightarrow> nat \<Rightarrow> (env \<times> (string \<times> send_request) option) list \<Rightarrow> nat list \<times> http_state \<Rightarrow>
     message list \<times> http_result list \<times> nat list \<times> http_state" where
  "Node_handleWebSocket H conn reads st =
     (case st of (clients, s) \<Rightarrow> (case ws_reads H reads s of
        (xs, s1) \<Rightarrow> (ws_history (hs_node s), xs, if Blocked \<in> set xs then List.insert conn clients else removeAll conn clients, s1)))"

definition Node_broadcastToWS :: "message \<Rightarrow> nat list \<Rightarrow> (nat \<times> message) list" where
  "Node_broadcastToWS msg clients = map (\<lambda>c. (c, msg)) clients"

section \<open>What a session keeps\<close>

lemma ws_history_last: "length (ws_history n) \<le> 20 \<and> (\<exists>older. Memory_GetAll (nd_memory n) = older @ ws_history n)"
  by (auto simp: ws_history_def Let_def Memory_GetAll_def intro: exI[of _ "take (length (mem_messages (nd_memory n)) - 20) (mem_messages (nd_memory n))"])

text \<open>Whatever a client sends, the session ends with the connection removed, unless \<open>n.mu\<close> is locked for ever.\<close>

lemma ws_reads_blocked: "Blocked \<in> set (fst (ws_reads H reads s)) \<Longrightarrow> hs_locked s"
proof (induction H reads s rule: ws_reads.induct)
  case (2 H e msg rest s)
  have process: "hs_locked s'" if "process_request e H m mode x b l s' = (Blocked, s1)" for m mode x b l s' s1
    using that by (auto simp: process_request_def split: option.splits if_splits)
  have locked: "hs_locked (snd (process_request e H m mode x b l s')) = hs_locked s'" for m mode x b l s'
    by (simp add: process_request_def split: option.split)
  show ?case
  proof (cases "case msg of None \<Rightarrow> None | Some (typ, r) \<Rightarrow> ws_send e H typ r s")
    case None
    with 2 show ?thesis by simp
  next
    case (Some a)
    obtain x s1 where a: "a = (x, s1)" by (cases a)
    from Some a obtain m mode t b l where "process_request e H m mode t b l s = (x, s1)"
      by (auto simp: ws_send_def Let_def split: option.splits if_splits)
    then have "hs_locked s1 = hs_locked s" "x = Blocked \<Longrightarrow> hs_locked s"
      using locked[of m mode t b l s] process[of m mode t b l s] by auto
    show ?thesis
    proof (cases "x = Panicked \<or> x = Blocked")
      case True
      with 2(3) Some a \<open>x = Blocked \<Longrightarrow> hs_locked s\<close> show ?thesis by auto
    next
      case False
      then have "Blocked \<in> set (fst (ws_reads H rest s1))" using 2(3) Some a by (auto split: prod.splits)
      then have "hs_locked s1" using 2(2)[OF Some[unfolded a] refl False] by simp
      with \<open>hs_locked s1 = hs_locked s\<close> show ?thesis by simp
    qed
  qed
qed simp

lemma session_removes_client:
  assumes "\<not> hs_locked s" "Node_handleWebSocket H conn reads (clients, s) = (history, xs, clients', s')"
  shows "conn \<notin> set clients'" "set clients' = set clients - {conn}"
proof -
  have "Blocked \<notin> set (fst (ws_reads H reads s))" using ws_reads_blocked[of H reads s] assms(1) by blast
  then show "conn \<notin> set clients'" "set clients' = set clients - {conn}"
    using assms(2) by (auto simp: Node_handleWebSocket_def split: prod.splits)
qed

end
