(* ===== verification/Seed.thy ===== *)
theory Seed
  imports State
begin

text \<open>
  node/seed.go and the seed phrase of node/node_e2e.go: the keys of the node come from a BIP39 phrase,
  so that a phone that has lost its files gets its identity back.  The BIP39 package, HMAC-SHA256, the
  key generator of libp2p and Curve25519 are the record \<open>seed_lib\<close>.
\<close>

section \<open>Phrases\<close>

record seed_lib =
  se_entropy :: "int \<Rightarrow> string option"
  se_mnemonic :: "string \<Rightarrow> string option"
  se_valid :: "string \<Rightarrow> bool"
  se_seed :: "string \<Rightarrow> string option"
  se_hmac :: "string \<Rightarrow> string \<Rightarrow> string"
  se_ed25519 :: "string \<Rightarrow> (string \<times> string) option"
  se_peerID :: "string \<Rightarrow> string option"
  se_x25519 :: "string \<Rightarrow> string option"

definition seedHMACEd25519 :: string where "seedHMACEd25519 = ''OpenBazaar seed''"
definition seedHMACX25519 :: string where "seedHMACX25519 = ''OpenBazaar x25519''"

definition GenerateSeedPhrase :: "seed_lib \<Rightarrow> int \<Rightarrow> string option" where
  "GenerateSeedPhrase S words =
     (if words = 12 then Option.bind (se_entropy S 128) (se_mnemonic S)
      else if words = 24 then Option.bind (se_entropy S 256) (se_mnemonic S)
      else None)"

definition ValidateSeedPhrase :: "seed_lib \<Rightarrow> string \<Rightarrow> bool" where
  "ValidateSeedPhrase S phrase \<longleftrightarrow> phrase \<noteq> [] \<and> se_valid S phrase"

definition seedBytes :: "seed_lib \<Rightarrow> string \<Rightarrow> string option" where
  "seedBytes S phrase =
     (if \<not> ValidateSeedPhrase S phrase then None
      else case se_seed S phrase of
        None \<Rightarrow> None
      | Some seed \<Rightarrow> if length seed \<noteq> 64 then None else Some seed)"

section \<open>Keys\<close>

text \<open>The public and the private key, and the peer ID.\<close>

definition SeedToEd25519 :: "seed_lib \<Rightarrow> string \<Rightarrow> ((string \<times> string) \<times> string) option" where
  "SeedToEd25519 S phrase =
     (case seedBytes S phrase of
        None \<Rightarrow> None
      | Some seed \<Rightarrow> (case se_ed25519 S (se_hmac S seedHMACEd25519 seed) of
          None \<Rightarrow> None
        | Some (pub, priv) \<Rightarrow> map_option (Pair (pub, priv)) (se_peerID S pub)))"

text \<open>The public and the private key.\<close>

definition SeedToX25519 :: "seed_lib \<Rightarrow> string \<Rightarrow> (string \<times> string) option" where
  "SeedToX25519 S phrase =
     (case seedBytes S phrase of
        None \<Rightarrow> None
      | Some seed \<Rightarrow>
          let derived = se_hmac S seedHMACX25519 seed
          in if length derived \<noteq> 32 then None
             else map_option (\<lambda>pub. (pub, derived)) (se_x25519 S derived))"

text \<open>\<open>n.seedPhrase\<close>, before and after.\<close>

definition Node_SetSeedPhrase :: "seed_lib \<Rightarrow> string \<Rightarrow> string \<Rightarrow> bool \<times> string" where
  "Node_SetSeedPhrase S phrase old = (if ValidateSeedPhrase S phrase then (True, phrase) else (False, old))"

text \<open>What \<open>InitP2P\<close> takes from the phrase of the node.\<close>

definition seeded :: "seed_lib \<Rightarrow> string \<Rightarrow> state_lib \<Rightarrow> state_lib" where
  "seeded S phrase L = L\<lparr>sl_seedPhrase := phrase, sl_seed_ed25519 := map_option fst (SeedToEd25519 S phrase),
     sl_seed_x25519 := SeedToX25519 S phrase\<rparr>"

section \<open>The identity\<close>

text \<open>The identity of a node: its peer ID and its two pairs of keys.\<close>

definition identity :: "node \<Rightarrow> string option \<times> (string \<times> string) \<times> (string \<times> string)" where
  "identity n = (nd_host n, (nd_ed25519Pub n, nd_ed25519Priv n), (nd_x25519Pub n, nd_x25519Priv n))"

lemma identity_frames:
  "identity (open_stores L n) = identity n" "identity (remove_self e me n) = identity n"
  "identity (initial_layers e n) = identity n" "identity (n\<lparr>nd_useOnion := b\<rparr>) = identity n"
  by (simp_all add: identity_def open_stores_def remove_self_def initial_layers_def Let_def split: option.split prod.split)

lemma seeded_keys:
  assumes "init_keys (seeded S phrase L) n = (True, n')" "phrase \<noteq> []"
  shows "\<exists>ed pid x. SeedToEd25519 S phrase = Some (ed, pid) \<and> SeedToX25519 S phrase = Some x \<and>
    (nd_ed25519Pub n', nd_ed25519Priv n') = ed \<and> (nd_x25519Pub n', nd_x25519Priv n') = x"
  using assms by (auto simp: init_keys_def seeded_def Let_def split: option.splits if_splits)

text \<open>The steps of a start that succeeds.\<close>

lemma InitP2P_steps:
  assumes "Node_InitP2P e L n = Some (True, n')"
  shows "\<exists>n4 n5 key n6 me b. init_keys L n4 = (True, n5) \<and> init_identity L (open_stores L n5) = (key, n6) \<and> sl_host L key = Some me \<and>
    n' = (initial_layers e (remove_self e me (n6\<lparr>nd_host := Some me\<rparr>)))\<lparr>nd_useOnion := b\<rparr>"
proof -
  define n2 where "n2 = snd (Node_loadState e L (n\<lparr>nd_adaptive := Some (NewAdaptiveParams (ev_now e)), nd_channels := NewChannelStore\<rparr>))"
  obtain n3 where n3: "Node_runE2ECleanupOnce L n2 = Some n3"
    using assms by (cases "Node_runE2ECleanupOnce L n2") (simp_all add: Node_InitP2P_def n2_def Let_def)
  obtain ok n5 where n5: "init_keys L (Node_loadPendingQueue L n3) = (ok, n5)" by fastforce
  obtain key n6 where n6: "init_identity L (open_stores L n5) = (key, n6)" by fastforce
  have ok using assms n3 n5 by (cases ok) (simp_all add: Node_InitP2P_def n2_def Let_def)
  then obtain me where me: "sl_host L key = Some me"
    using assms n3 n5 n6 by (cases "sl_host L key") (simp_all add: Node_InitP2P_def n2_def Let_def)
  show ?thesis
    using assms n3 n5 n6 me \<open>ok\<close>
    by (intro exI[of _ "Node_loadPendingQueue L n3"] exI[of _ n5] exI[of _ key] exI[of _ n6] exI[of _ me] exI[of _ "nd_useOnion n'"])
      (auto simp: Node_InitP2P_def n2_def Let_def)
qed

lemma seeded_identity:
  assumes "Node_InitP2P e (seeded S phrase L) n = Some (True, n')" "phrase \<noteq> []"
  shows "\<exists>ed pid x me. SeedToEd25519 S phrase = Some (ed, pid) \<and> SeedToX25519 S phrase = Some x \<and>
    sl_host L (snd ed) = Some me \<and> identity n' = (Some me, ed, x)"
proof -
  obtain n4 n5 key n6 me b where steps: "init_keys (seeded S phrase L) n4 = (True, n5)"
      "init_identity (seeded S phrase L) (open_stores (seeded S phrase L) n5) = (key, n6)" "sl_host L key = Some me"
      "n' = (initial_layers e (remove_self e me (n6\<lparr>nd_host := Some me\<rparr>)))\<lparr>nd_useOnion := b\<rparr>"
    using InitP2P_steps[OF assms(1)] by (auto simp: seeded_def)
  then have "key = nd_ed25519Priv n5" "n6 = open_stores (seeded S phrase L) n5"
    using assms(2) identity_frames(1)[of "seeded S phrase L" n5] by (auto simp: init_identity_def seeded_def identity_def)
  moreover have "identity (n6\<lparr>nd_host := h\<rparr>) = (h, snd (identity n6))" for h by (simp add: identity_def)
  ultimately have "identity n' = (Some me, snd (identity n5))" "sl_host L (nd_ed25519Priv n5) = Some me"
    using steps(3,4) identity_frames by simp_all
  moreover obtain ed pid x where "SeedToEd25519 S phrase = Some (ed, pid)" "SeedToX25519 S phrase = Some x"
      "(nd_ed25519Pub n5, nd_ed25519Priv n5) = ed" "(nd_x25519Pub n5, nd_x25519Priv n5) = x"
    using seeded_keys[OF steps(1) assms(2)] by blast
  ultimately show ?thesis by (auto simp: identity_def)
qed

text \<open>C18.  A phrase restores the identity: two starts with the same phrase have the same peer ID and the
same keys, whatever the files of the two phones hold and whatever their key generators return.\<close>

theorem seed_restores_identity:
  assumes "phrase \<noteq> []" "sl_host L = sl_host L'"
    and "Node_InitP2P e (seeded S phrase L) n = Some (True, m)" "Node_InitP2P e' (seeded S phrase L') n' = Some (True, m')"
  shows "identity m = identity m'"
  using seeded_identity[OF assms(3,1)] seeded_identity[OF assms(4,1)] assms(2) by auto

text \<open>A phone that has lost its files, and one that has a state and other keys.\<close>

definition seed_example :: seed_lib where
  "seed_example = \<lparr>se_entropy = (\<lambda>k. Some (replicate (nat (k div 8)) (CHR ''e''))), se_mnemonic = Some, se_valid = (\<lambda>_. True),
     se_seed = (\<lambda>p. Some (take 64 (p @ replicate 64 (CHR ''0'')))), se_hmac = (\<lambda>k s. take 32 s),
     se_ed25519 = (\<lambda>s. Some (s, s @ s)), se_peerID = Some, se_x25519 = Some\<rparr>"

definition lost_phone :: node where
  "lost_phone = NewNode \<lparr>cf_EthHash = ''eth'', cf_Bootstrap = [], cf_EnableRelayServer = False, cf_IsRelay = False,
     cf_UseOnion = False\<rparr> Map.empty"

lemma seed_start:
  assumes "sound_files n" "mem_inv (nd_memory n)" "nd_unackedChunks n = []"
  shows "\<exists>m. Node_InitP2P (quiet_env 10) (seeded seed_example ''twelve words'' (example_lib\<lparr>sl_host := Some\<rparr>)) n = Some (True, m)"
proof -
  let ?L = "seeded seed_example ''twelve words'' (example_lib\<lparr>sl_host := Some\<rparr>)"
  obtain ok m where m: "Node_InitP2P (quiet_env 10) ?L n = Some (ok, m)"
    using InitP2P_inv[OF assms, of "quiet_env 10" ?L] by blast
  have "sl_host ?L k = Some k" for k by (simp add: seeded_def example_lib_def)
  moreover have "init_keys ?L k \<noteq> (False, k')" for k k'
    by (simp add: init_keys_def seeded_def SeedToEd25519_def SeedToX25519_def seedBytes_def ValidateSeedPhrase_def seed_example_def
        Let_def)
  ultimately have ok
    using m by (auto simp: Node_InitP2P_def Let_def split: option.splits prod.splits bool.splits)
  then have "Node_InitP2P (quiet_env 10) ?L n = Some (True, m)" using m by simp
  then show ?thesis by (rule exI)
qed

theorem seed_restores_identity_witness:
  "\<exists>m m'. Node_InitP2P (quiet_env 10) (seeded seed_example ''twelve words'' (example_lib\<lparr>sl_host := Some\<rparr>)) lost_phone = Some (True, m) \<and>
    Node_InitP2P (quiet_env 10) (seeded seed_example ''twelve words'' (example_lib\<lparr>sl_host := Some\<rparr>)) saved_example = Some (True, m') \<and>
    identity m = identity m'"
proof -
  have "sound_files lost_phone" "mem_inv (nd_memory lost_phone)" "nd_unackedChunks lost_phone = []"
    by (simp_all add: lost_phone_def sound_files_def NewNode_def mem_inv_empty)
  then obtain m where m: "Node_InitP2P (quiet_env 10) (seeded seed_example ''twelve words'' (example_lib\<lparr>sl_host := Some\<rparr>)) lost_phone = Some (True, m)"
    using seed_start by blast
  have "sound_files saved_example" "mem_inv (nd_memory saved_example)" "nd_unackedChunks saved_example = []"
    using add_all_inv[OF mem_inv_empty] by (simp_all add: saved_example_def sound_files_def NewNode_def)
  then obtain m' where m': "Node_InitP2P (quiet_env 10) (seeded seed_example ''twelve words'' (example_lib\<lparr>sl_host := Some\<rparr>)) saved_example = Some (True, m')"
    using seed_start by blast
  show ?thesis using m m' seed_restores_identity[OF _ _ m m'] by (intro exI[of _ m] exI[of _ m']) simp
qed

end
