(* ===== verification/Dht.thy ===== *)
theory Dht
  imports Routing
begin

text \<open>
  node/dht.go: the node of the distributed hash table.  The table of libp2p is the record \<open>dht_lib\<close>;
  what the code asks of it is kept in \<open>dh_calls\<close>.  A missing node, \<open>nil\<close>, is \<open>None\<close>; the result \<open>None\<close>
  of an operation is a panic, of an ID that is cut to 16 bytes for a log.
\<close>

section \<open>State and parameters\<close>

datatype dht_call = BootstrapTable | RefreshTable | ProvideSelf | CloseTable | AddPeer string

record dht_node =
  dh_started :: bool
  dh_calls :: "dht_call list"

text \<open>The peers of the routing table, their addresses, and what \<open>FindPeer\<close> and \<open>Provide\<close> of the table return.\<close>

record dht_lib =
  dl_new :: bool
  dl_table :: "string list"
  dl_addrs :: "string \<Rightarrow> string list"
  dl_find :: "string \<Rightarrow> string list option"
  dl_provide :: bool

definition dht_asks :: "dht_call \<Rightarrow> dht_node \<Rightarrow> dht_node" where
  "dht_asks c d = d\<lparr>dh_calls := dh_calls d @ [c]\<rparr>"

definition NewDHT :: "dht_lib \<Rightarrow> string option \<Rightarrow> dht_node option" where
  "NewDHT D host = (if host = None \<or> \<not> dl_new D then None else Some \<lparr>dh_started = False, dh_calls = []\<rparr>)"

section \<open>Operations\<close>

definition DHT_RefreshOnDemand :: "dht_node option \<Rightarrow> dht_node option" where
  "DHT_RefreshOnDemand dn =
     (case dn of None \<Rightarrow> None | Some d \<Rightarrow> Some (if dh_started d then dht_asks RefreshTable d else d))"

text \<open>The peer that an address of the list connects to.\<close>

definition joined_peer :: "env \<Rightarrow> string \<Rightarrow> string option" where
  "joined_peer e addrStr =
     (let addr = strings_TrimSpace addrStr
      in if addr = [] then None
         else case ev_AddrInfo e addr of None \<Rightarrow> None | Some p \<Rightarrow> if ev_Connect e addr then Some p else None)"

text \<open>The flag is whether it returned nil.\<close>

definition DHT_JoinDHT :: "env \<Rightarrow> string list \<Rightarrow> dht_node option \<Rightarrow> (bool \<times> dht_node option) option" where
  "DHT_JoinDHT e bootstrapPeers dn =
     (case dn of
        None \<Rightarrow> Some (False, dn)
      | Some d \<Rightarrow>
          let connected = List.map_filter (joined_peer e) bootstrapPeers
          in if list_ex (\<lambda>p. length p < 16) connected then None
             else let d1 = (if 0 < length connected then DHT_RefreshOnDemand (Some (dht_asks BootstrapTable d)) else Some d)
                  in Some (True, map_option (\<lambda>x. x\<lparr>dh_started := True\<rparr>) d1))"

definition DHT_Provide :: "dht_lib \<Rightarrow> string \<Rightarrow> dht_node option \<Rightarrow> (bool \<times> dht_node option) option" where
  "DHT_Provide D me dn =
     (case dn of
        None \<Rightarrow> Some (False, dn)
      | Some d \<Rightarrow>
          if \<not> dh_started d then Some (False, dn)
          else if \<not> dl_provide D then Some (False, Some (dht_asks ProvideSelf d))
          else if length me < 16 then None
          else Some (True, Some (dht_asks ProvideSelf d)))"

text \<open>The addresses of the peer; the inner \<open>None\<close> is an error.\<close>

definition DHT_FindPeer :: "env \<Rightarrow> dht_lib \<Rightarrow> string \<Rightarrow> dht_node option \<Rightarrow> string list option option" where
  "DHT_FindPeer e D peerID dn =
     (case dn of
        None \<Rightarrow> Some None
      | Some d \<Rightarrow>
          if \<not> dh_started d then Some None
          else if \<not> ev_Decode e peerID then Some None
          else case dl_find D peerID of
                 None \<Rightarrow> Some None
               | Some addrs \<Rightarrow> if length peerID < 16 then None else Some (Some addrs))"

definition DHT_GetRoutingTableSize :: "dht_lib \<Rightarrow> dht_node option \<Rightarrow> nat" where
  "DHT_GetRoutingTableSize D dn = (case dn of None \<Rightarrow> 0 | Some d \<Rightarrow> length (dl_table D))"

definition DHT_IsDHTActive :: "dht_lib \<Rightarrow> dht_node option \<Rightarrow> bool" where
  "DHT_IsDHTActive D dn \<longleftrightarrow> 10 \<le> DHT_GetRoutingTableSize D dn"

definition DHT_SaveRoutingTable :: "dht_lib \<Rightarrow> dht_node option \<Rightarrow> string list" where
  "DHT_SaveRoutingTable D dn =
     (case dn of None \<Rightarrow> []
      | Some d \<Rightarrow> concat (map (\<lambda>p. map (\<lambda>addr. addr @ ''/p2p/'' @ p) (dl_addrs D p)) (dl_table D)))"

text \<open>\<open>data\<close> is the list in the state file, \<open>None\<close> when it is not JSON.\<close>

definition DHT_LoadRoutingTable :: "env \<Rightarrow> string list option \<Rightarrow> dht_node option \<Rightarrow> bool \<times> dht_node option" where
  "DHT_LoadRoutingTable e data dn =
     (case dn of
        None \<Rightarrow> (False, dn)
      | Some d \<Rightarrow> (case data of
          None \<Rightarrow> (False, dn)
        | Some addrs \<Rightarrow> (True, Some (fold (\<lambda>a. dht_asks (AddPeer a)) (filter (\<lambda>a. ev_AddrInfo e a \<noteq> None) addrs) d))))"

definition DHT_Close :: "dht_node option \<Rightarrow> dht_node option" where
  "DHT_Close dn = map_option (\<lambda>d. dht_asks CloseTable (d\<lparr>dh_started := False\<rparr>)) dn"

definition DHT_IsStarted :: "dht_node option \<Rightarrow> bool" where
  "DHT_IsStarted dn \<longleftrightarrow> (case dn of None \<Rightarrow> False | Some d \<Rightarrow> dh_started d)"

record dht_info =
  di_started :: bool
  di_peer_id :: string
  di_rt_size :: nat
  di_rt_peers :: "string list"
  di_dht_active :: bool

text \<open>The inner \<open>None\<close> is the answer of a missing node.\<close>

definition DHT_GetDHTInfo :: "dht_lib \<Rightarrow> string \<Rightarrow> dht_node option \<Rightarrow> dht_info option option" where
  "DHT_GetDHTInfo D me dn =
     (case dn of
        None \<Rightarrow> Some None
      | Some d \<Rightarrow>
          if list_ex (\<lambda>p. length p < 16) (dl_table D) then None
          else Some (Some \<lparr>di_started = dh_started d, di_peer_id = me, di_rt_size = length (dl_table D),
                 di_rt_peers = map (take 16) (dl_table D), di_dht_active = DHT_IsDHTActive D dn\<rparr>))"

section \<open>HTTP\<close>

text \<open>The answers of the handlers of node/handlers.go for the DHT.\<close>

datatype dht_answer = DHTHttpError nat | DHTError | DHTFound "string list" | DHTProvided | DHTInfo "dht_info option" | DHTPanic

definition Node_handleDHTFindPeer :: "env \<Rightarrow> dht_lib \<Rightarrow> string \<Rightarrow> dht_node option \<Rightarrow> dht_answer" where
  "Node_handleDHTFindPeer e D peerID dn =
     (if peerID = [] then DHTHttpError 400
      else if dn = None then DHTHttpError 503
      else case DHT_FindPeer e D peerID dn of
             None \<Rightarrow> DHTPanic
           | Some None \<Rightarrow> DHTError
           | Some (Some addrs) \<Rightarrow> DHTFound (map (\<lambda>addr. addr @ ''/p2p/'' @ peerID) addrs))"

definition Node_handleDHTProvide :: "dht_lib \<Rightarrow> string \<Rightarrow> dht_node option \<Rightarrow> dht_answer \<times> dht_node option" where
  "Node_handleDHTProvide D me dn =
     (if dn = None then (DHTHttpError 503, dn)
      else case DHT_Provide D me dn of
             None \<Rightarrow> (DHTPanic, dn)
           | Some (b, d) \<Rightarrow> (if b then DHTProvided else DHTError, d))"

definition Node_handleDHTInfo :: "dht_lib \<Rightarrow> string \<Rightarrow> dht_node option \<Rightarrow> dht_answer" where
  "Node_handleDHTInfo D me dn =
     (if dn = None then DHTInfo None else case DHT_GetDHTInfo D me dn of None \<Rightarrow> DHTPanic | Some r \<Rightarrow> DHTInfo r)"

section \<open>Joining\<close>

text \<open>\<open>JoinDHT\<close> succeeds without a single peer, and then the node counts as started.\<close>

lemma JoinDHT_alone:
  assumes "\<forall>a \<in> set peers. \<not> ev_Connect e (strings_TrimSpace a)"
  shows "DHT_JoinDHT e peers (Some d) = Some (True, Some (d\<lparr>dh_started := True\<rparr>))"
proof -
  have "List.map_filter (joined_peer e) peers = []"
    using assms by (induction peers) (simp_all add: List.map_filter_simps joined_peer_def Let_def split: option.split)
  then show ?thesis by (simp add: DHT_JoinDHT_def)
qed

text \<open>
  The refresh after the bootstrap does nothing: \<open>RefreshOnDemand\<close> returns at once while \<open>started\<close> is
  false, and \<open>JoinDHT\<close> sets it only afterwards.
\<close>

lemma JoinDHT_never_refreshes:
  assumes "NewDHT D host = Some d" "DHT_JoinDHT e peers (Some d) = Some (b, Some d')"
  shows "RefreshTable \<notin> set (dh_calls d')"
  using assms by (auto simp: NewDHT_def DHT_JoinDHT_def DHT_RefreshOnDemand_def dht_asks_def Let_def split: if_splits)

lemma Close_then_idle:
  "DHT_Provide D me (DHT_Close dn) = Some (False, DHT_Close dn)" "DHT_FindPeer e D p (DHT_Close dn) = Some None"
  "DHT_RefreshOnDemand (DHT_Close dn) = DHT_Close dn" "\<not> DHT_IsStarted (DHT_Close dn)"
  by (simp_all add: DHT_Close_def DHT_Provide_def DHT_FindPeer_def DHT_RefreshOnDemand_def DHT_IsStarted_def dht_asks_def split: option.split)

section \<open>The table in the state file\<close>

lemma fold_asks: "dh_calls (fold (\<lambda>a. dht_asks (AddPeer a)) as d) = dh_calls d @ map AddPeer as"
  by (induction as arbitrary: d) (simp_all add: dht_asks_def)

text \<open>What is saved is added again after a restart, when its addresses can be read.\<close>

lemma table_round_trip:
  assumes "\<forall>p \<in> set (dl_table D). \<forall>a \<in> set (dl_addrs D p). ev_AddrInfo e (a @ ''/p2p/'' @ p) = Some p"
  shows "\<exists>d'. DHT_LoadRoutingTable e (Some (DHT_SaveRoutingTable D (Some old))) (Some d) = (True, Some d') \<and>
    dh_calls d' = dh_calls d @ concat (map (\<lambda>p. map (\<lambda>a. AddPeer (a @ ''/p2p/'' @ p)) (dl_addrs D p)) (dl_table D))"
proof -
  have "filter (\<lambda>a. ev_AddrInfo e a \<noteq> None) (DHT_SaveRoutingTable D (Some old)) = DHT_SaveRoutingTable D (Some old)"
    using assms by (intro filter_True) (auto simp: DHT_SaveRoutingTable_def)
  then show ?thesis by (simp add: DHT_LoadRoutingTable_def fold_asks) (simp add: DHT_SaveRoutingTable_def map_concat comp_def)
qed

end
