(* ===== verification/Mobile.thy ===== *)
theory Mobile
  imports Http Relay Seed Dht
begin

text \<open>
  node/mobile/mobile.go: the interface of the mobile app.  The package keeps at most one node; a
  function locks \<open>nodeMu\<close>, checks that the node runs and that its arguments are there, calls the
  operation of the node, and gives the answer, which the app gets as JSON.  Arguments that are JSON
  come decoded, \<open>None\<close> when they are malformed.

  The lines the functions write to the journal are left out, like those of the node; \<open>addLog\<close> itself
  is modelled.
\<close>

section \<open>The journal\<close>

record journal =
  jr_logs :: "string list"
  jr_file :: "string option"

definition maxMsgLen :: nat where "maxMsgLen = 4096"

definition shortened :: "string \<Rightarrow> string" where
  "shortened msg =
     (if maxMsgLen < length msg
      then let removed = decimal (int (length msg - maxMsgLen))
           in if 65536 < length msg
              then ''[BIG '' @ decimal (int (length msg)) @ '' chars] '' @ take 256 msg @ ''...[truncated '' @ removed @ '' chars]''
              else take maxMsgLen msg @ ''...[truncated '' @ removed @ '' chars]''
      else msg)"

definition addLog :: "string \<Rightarrow> string \<Rightarrow> journal \<Rightarrow> journal" where
  "addLog stamp msg j =
     (let line = stamp @ '' '' @ shortened msg;
          logs = jr_logs j @ [line]
      in \<lparr>jr_logs = (if 500 < length logs then drop (length logs - 500) logs else logs),
          jr_file = map_option (\<lambda>f. f @ line @ [newline]) (jr_file j)\<rparr>)"

definition GetLogs :: "journal \<Rightarrow> string" where
  "GetLogs j = string_join [newline] (jr_logs j)"

section \<open>State\<close>

text \<open>
  \<open>ap_files\<close> holds the files of the phone while no node runs; \<open>ap_stopped\<close> holds the nodes that were
  stopped, whose loops have no way to end.
\<close>

record app =
  ap_node :: "node option"
  ap_settings :: settings_part
  ap_relay :: relay_part
  ap_dht :: "dht_node option"
  ap_screenOn :: bool
  ap_seedPhrase :: string
  ap_files :: node
  ap_stopped :: "node list"
  ap_filesDir :: string
  ap_pendingSeedPhrase :: string
  ap_journal :: journal

record mobile_lib =
  mb_send :: send_lib
  mb_state :: state_lib
  mb_seed :: seed_lib
  mb_dht :: dht_lib
  mb_w_settings :: "settings_file write_outcome"
  mb_ifaces :: "string list option"
  mb_stored :: "(string \<times> string list) list"

section \<open>Answers\<close>

datatype api_error = NotStarted | Needed string | InvalidJSON | EmptyMultiaddrs | NoPeers | NoBootstrapPeers | NoHost | NoDHT | ContactNotFound | Refused

datatype reply =
    Crashed
  | ErrorJSON api_error
  | Status string
  | IdReply string
  | CountReply nat
  | FlagReply bool
  | TextReply string
  | FileReply string bool string int int
  | NodeStatus "string \<times> nat \<times> nat \<times> nat \<times> nat"
  | MessagesReply "message list"
  | AddrsReply "string list"
  | UsedReply string
  | QRReply "qrDataV1 option"
  | ContactsReply "contact list"
  | ContactReply contact
  | RequestsReply "contact_request list"
  | StatusesReply "string \<rightharpoonup> message_status"
  | FileStatusesReply "file_status_entry list"
  | TtlReply "string \<times> string"
  | NotificationReply bool bool bool
  | ThresholdReply int
  | DHTReply "dht_info option"

type_synonym answered = "reply \<times> app"

definition ok :: reply where "ok = Status ''ok''"

definition ok_if :: "bool \<Rightarrow> reply" where
  "ok_if b = (if b then ok else ErrorJSON Refused)"

definition id_reply :: "string option \<Rightarrow> reply" where
  "id_reply x = (case x of None \<Rightarrow> ErrorJSON Refused | Some i \<Rightarrow> IdReply i)"

text \<open>\<open>if node == nil\<close>\<close>

definition with_node :: "app \<Rightarrow> (node \<Rightarrow> answered) \<Rightarrow> answered" where
  "with_node s f = (case ap_node s of None \<Rightarrow> (ErrorJSON NotStarted, s) | Some n \<Rightarrow> f n)"

text \<open>What a function that only reads answers when there is no node.\<close>

definition read_node :: "app \<Rightarrow> reply \<Rightarrow> (node \<Rightarrow> reply) \<Rightarrow> answered" where
  "read_node s dflt f = (case ap_node s of None \<Rightarrow> dflt | Some n \<Rightarrow> f n, s)"

text \<open>The checks for empty arguments, in order, each with its name in the error.\<close>

definition needing :: "(string \<times> string) list \<Rightarrow> app \<Rightarrow> answered \<Rightarrow> answered" where
  "needing args s r =
     (case find (\<lambda>a. snd a = []) args of None \<Rightarrow> r | Some a \<Rightarrow> (ErrorJSON (Needed (fst a)), s))"

definition decoded :: "'a option \<Rightarrow> app \<Rightarrow> ('a \<Rightarrow> answered) \<Rightarrow> answered" where
  "decoded x s f = (case x of None \<Rightarrow> (ErrorJSON InvalidJSON, s) | Some y \<Rightarrow> f y)"

text \<open>The answer of an operation of the node, which may panic.\<close>

definition answer :: "app \<Rightarrow> ('a \<Rightarrow> reply) \<Rightarrow> 'a \<times> node \<Rightarrow> answered" where
  "answer s f r = (f (fst r), s\<lparr>ap_node := Some (snd r)\<rparr>)"

definition answer_if :: "app \<Rightarrow> ('a \<Rightarrow> reply) \<Rightarrow> ('a \<times> node) option \<Rightarrow> answered" where
  "answer_if s f r = (case r of None \<Rightarrow> (Crashed, s) | Some x \<Rightarrow> answer s f x)"

definition answer_setting :: "app \<Rightarrow> bool \<times> settings_state \<Rightarrow> answered" where
  "answer_setting s r = (case r of (b, n, sp) \<Rightarrow> (ok_if b, s\<lparr>ap_node := Some n, ap_settings := sp\<rparr>))"

section \<open>Start and stop\<close>

definition parseBootstrapPeers :: "string \<Rightarrow> string list" where
  "parseBootstrapPeers bootstrapPeers =
     (if bootstrapPeers = [] then []
      else filter (\<lambda>p. p \<noteq> []) (map strings_TrimSpace (Split (CHR '','') bootstrapPeers)))"

text \<open>\<open>existing\<close> is the log file when it can be opened.\<close>

definition SetFilesDir :: "string \<Rightarrow> string option \<Rightarrow> app \<Rightarrow> app" where
  "SetFilesDir dir existing s =
     (let s1 = s\<lparr>ap_filesDir := dir\<rparr>
      in if dir \<noteq> [] then s1\<lparr>ap_journal := (ap_journal s)\<lparr>jr_file := existing\<rparr>\<rparr> else s1)"

definition SaveLog :: "app \<Rightarrow> string" where
  "SaveLog s = ap_filesDir s @ ''/isotope.log''"

text \<open>The directory of the state file, \<open>filepath.Dir(filesDir + "/isotope_state.json")\<close>, as its components.\<close>

definition dir_path :: "string \<Rightarrow> path" where
  "dir_path dir = filter (\<lambda>c. c \<noteq> [] \<and> c \<noteq> ''.'') (Split (CHR ''/'') dir)"

definition mobile_config :: "string \<Rightarrow> string \<Rightarrow> config" where
  "mobile_config ethHash bootstrapPeers =
     \<lparr>cf_EthHash = ethHash, cf_Bootstrap = parseBootstrapPeers bootstrapPeers, cf_EnableRelayServer = False,
      cf_IsRelay = False, cf_UseOnion = False\<rparr>"

text \<open>A new node on the files that \<open>fs\<close> left.\<close>

definition node_on_files :: "config \<Rightarrow> string \<Rightarrow> node \<Rightarrow> node" where
  "node_on_files cfg dir fs =
     (NewNode cfg (nd_disk fs))\<lparr>nd_contacts_file := nd_contacts_file fs, nd_requests_file := nd_requests_file fs,
        nd_deleted_file := nd_deleted_file fs, nd_aborted_file := nd_aborted_file fs, nd_offers_file := nd_offers_file fs,
        nd_hook := True, nd_dir := dir_path dir\<rparr>"

definition state_file_lib :: "mobile_lib \<Rightarrow> app \<Rightarrow> state_lib" where
  "state_file_lib M s = (mb_state M)\<lparr>sl_name := ''isotope_state.json'', sl_settings_file := sp_file (ap_settings s)\<rparr>"

text \<open>A pending phrase that is not valid is dropped, and the node starts without one.\<close>

definition mobile_Start :: "env \<Rightarrow> mobile_lib \<Rightarrow> string \<Rightarrow> string \<Rightarrow> app \<Rightarrow> answered" where
  "mobile_Start e M ethHash bootstrapPeers s =
     (if ap_node s \<noteq> None then (Status ''already_started'', s)
      else let dir = (if ap_filesDir s = [] then ''.'' else ap_filesDir s);
               s1 = s\<lparr>ap_filesDir := dir\<rparr>;
               n0 = node_on_files (mobile_config ethHash bootstrapPeers) dir (ap_files s);
               phrase = (if ap_pendingSeedPhrase s \<noteq> [] then snd (Node_SetSeedPhrase (mb_seed M) (ap_pendingSeedPhrase s) []) else [])
           in case Node_StartMobile e (seeded (mb_seed M) phrase (state_file_lib M s)) n0 of
                None \<Rightarrow> (Crashed, s1)
              | Some (False, n) \<Rightarrow> (ErrorJSON Refused, s1\<lparr>ap_files := n\<rparr>)
              | Some (True, n) \<Rightarrow>
                  (Status ''started'', s1\<lparr>ap_node := Some n, ap_settings := (ap_settings s)\<lparr>sp_mixing := False\<rparr>,
                     ap_relay := new_relay_part, ap_dht := None, ap_screenOn := True, ap_seedPhrase := phrase\<rparr>))"

text \<open>\<open>closes\<close>: the host closes without an error.\<close>

definition mobile_Stop :: "env \<Rightarrow> mobile_lib \<Rightarrow> bool \<Rightarrow> app \<Rightarrow> answered" where
  "mobile_Stop e M closes s =
     (case ap_node s of
        None \<Rightarrow> (Status ''not_started'', s)
      | Some n \<Rightarrow>
          let n1 = Node_Stop e (state_file_lib M s) n
          in if closes then (Status ''stopped'', s\<lparr>ap_node := None, ap_dht := None, ap_files := n1, ap_stopped := ap_stopped s @ [n1]\<rparr>)
             else (ErrorJSON Refused, s\<lparr>ap_node := Some n1, ap_dht := DHT_Close (ap_dht s)\<rparr>))"

text \<open>
  A save of the state by a loop of the stopped node \<open>i\<close>: it writes its own memory to the file that the
  running node, or the next one, uses.
\<close>

definition stopped_saves :: "env \<Rightarrow> mobile_lib \<Rightarrow> nat \<Rightarrow> app \<Rightarrow> app" where
  "stopped_saves e M i s =
     (if length (ap_stopped s) \<le> i then s
      else let current = (case ap_node s of None \<Rightarrow> ap_files s | Some n \<Rightarrow> n);
               old = snd (Node_saveState e (state_file_lib M s) ((ap_stopped s ! i)\<lparr>nd_disk := nd_disk current\<rparr>));
               s1 = s\<lparr>ap_stopped := (ap_stopped s)[i := old]\<rparr>
           in case ap_node s of
                None \<Rightarrow> s1\<lparr>ap_files := (ap_files s)\<lparr>nd_disk := nd_disk old\<rparr>\<rparr>
              | Some n \<Rightarrow> s1\<lparr>ap_node := Some (n\<lparr>nd_disk := nd_disk old\<rparr>)\<rparr>)"

section \<open>Messages\<close>

definition mobile_GetStatus :: "env \<Rightarrow> app \<Rightarrow> answered" where
  "mobile_GetStatus e s =
     read_node s (NodeStatus ([], 0, 0, 0, 0)) (\<lambda>n. NodeStatus (Node_GetStatus e n))"

definition mobile_GetMessages :: "env \<Rightarrow> app \<Rightarrow> answered" where
  "mobile_GetMessages e s =
     read_node s (MessagesReply [])
       (\<lambda>n. MessagesReply (filter (\<lambda>m. msg_Type m = TypeMessage) (Node_GetMessages (ev_now e) n)))"

definition mobile_SendMessage :: "env \<Rightarrow> string \<Rightarrow> string \<Rightarrow> string \<Rightarrow> app \<Rightarrow> answered" where
  "mobile_SendMessage e txt period mode s =
     with_node s (\<lambda>n. answer_if s id_reply (Node_SendMessage e txt period mode n))"

definition mobile_SendToPeer :: "env \<Rightarrow> string \<Rightarrow> string \<Rightarrow> string \<Rightarrow> string \<Rightarrow> app \<Rightarrow> answered" where
  "mobile_SendToPeer e peerID txt period mode s =
     with_node s (\<lambda>n. answer_if s id_reply (Node_SendToPeer e peerID txt period mode n))"

definition mobile_GetMessageStatuses :: "app \<Rightarrow> answered" where
  "mobile_GetMessageStatuses s =
     read_node s (StatusesReply Map.empty) (\<lambda>n. StatusesReply (Node_GetMessageStatuses n))"

definition mobile_SendRead :: "env \<Rightarrow> string \<Rightarrow> string \<Rightarrow> app \<Rightarrow> answered" where
  "mobile_SendRead e ref recipient s =
     with_node s (\<lambda>n. needing [(''ref and recipient'', ref), (''ref and recipient'', recipient)] s
       (answer s ok_if (Node_SendRead e ref recipient n)))"

definition mobile_SendReadBatch :: "env \<Rightarrow> string list option \<Rightarrow> string \<Rightarrow> app \<Rightarrow> answered" where
  "mobile_SendReadBatch e refsJSON recipient s =
     with_node s (\<lambda>n. needing [(''recipient'', recipient)] s
       (decoded refsJSON s (\<lambda>refs. if length refs = 0 then (ok, s) else answer s ok_if (Node_SendReadBatch e refs recipient n))))"

definition mobile_MarkReadLocally :: "string list option \<Rightarrow> app \<Rightarrow> answered" where
  "mobile_MarkReadLocally refsJSON s =
     with_node s (\<lambda>n. decoded refsJSON s
       (\<lambda>refs. if length refs = 0 then (CountReply 0, s) else answer s CountReply (Node_MarkReadLocally refs n)))"

section \<open>Media and files\<close>

definition mobile_SendVoice :: "env \<Rightarrow> string \<Rightarrow> string \<Rightarrow> int \<Rightarrow> string \<Rightarrow> string \<Rightarrow> app \<Rightarrow> answered" where
  "mobile_SendVoice e peerID mediaData duration period mode s =
     with_node s (\<lambda>n. needing [(''peerID'', peerID), (''mediaData'', mediaData)] s
       (answer s id_reply (Node_SendVoice e peerID mediaData duration period mode n)))"

definition mobile_SendVoiceByPath :: "env \<Rightarrow> mobile_lib \<Rightarrow> string \<Rightarrow> string \<Rightarrow> string \<Rightarrow> int \<Rightarrow> string \<Rightarrow> string \<Rightarrow> app \<Rightarrow> answered" where
  "mobile_SendVoiceByPath e M peerID filePath fileName duration period mode s =
     with_node s (\<lambda>n. needing [(''peerID'', peerID), (''filePath'', filePath)] s
       (answer s id_reply (Node_SendVoiceByPath e (mb_send M) peerID filePath fileName duration period mode n)))"

definition mobile_SendPhoto :: "env \<Rightarrow> string \<Rightarrow> string \<Rightarrow> string \<Rightarrow> string \<Rightarrow> app \<Rightarrow> answered" where
  "mobile_SendPhoto e peerID photoBase64 period mode s =
     with_node s (\<lambda>n. needing [(''peerID'', peerID), (''photoBase64'', photoBase64)] s
       (answer s id_reply (Node_SendPhoto e peerID photoBase64 period mode n)))"

definition mobile_SendPhotoByPath :: "env \<Rightarrow> mobile_lib \<Rightarrow> string \<Rightarrow> string \<Rightarrow> string \<Rightarrow> string \<Rightarrow> string \<Rightarrow> app \<Rightarrow> answered" where
  "mobile_SendPhotoByPath e M peerID filePath fileName period mode s =
     with_node s (\<lambda>n. needing [(''peerID'', peerID), (''filePath'', filePath)] s
       (answer s id_reply (Node_SendPhotoByPath e (mb_send M) peerID filePath fileName period mode n)))"

definition file_reply :: "string \<Rightarrow> string \<times> bool \<times> int \<times> int \<times> bool \<Rightarrow> reply" where
  "file_reply fileName r =
     (case r of (mediaID, offerPending, fileSize, chunkTotal, True) \<Rightarrow> FileReply mediaID offerPending fileName fileSize chunkTotal
      | (_, _, _, _, False) \<Rightarrow> ErrorJSON Refused)"

definition mobile_SendFileByPath :: "env \<Rightarrow> mobile_lib \<Rightarrow> string \<Rightarrow> string \<Rightarrow> string \<Rightarrow> string \<Rightarrow> string \<Rightarrow> app \<Rightarrow> answered" where
  "mobile_SendFileByPath e M peerID filePath fileName period mode s =
     with_node s (\<lambda>n. needing [(''peerID'', peerID), (''filePath'', filePath)] s
       (answer s (file_reply fileName) (Node_SendFileByPath e (mb_send M) peerID filePath fileName period mode n)))"

definition mobile_GetChunk :: "string \<Rightarrow> int \<Rightarrow> app \<Rightarrow> answered" where
  "mobile_GetChunk mediaID chunkIndex s =
     with_node s (\<lambda>n. needing [(''mediaID'', mediaID)] s
       (case Node_GetChunk mediaID chunkIndex n of None \<Rightarrow> ErrorJSON Refused | Some data \<Rightarrow> TextReply data, s))"

definition mobile_ClearChunkData :: "string \<Rightarrow> int \<Rightarrow> app \<Rightarrow> answered" where
  "mobile_ClearChunkData mediaID chunkIndex s =
     with_node s (\<lambda>n. needing [(''mediaID'', mediaID)] s (answer s (\<lambda>_. ok) (Node_ClearChunkData mediaID chunkIndex n)))"

definition mobile_FileAck :: "string \<Rightarrow> int list option \<Rightarrow> app \<Rightarrow> answered" where
  "mobile_FileAck mediaID indicesJSON s =
     with_node s (\<lambda>n. needing [(''mediaID'', mediaID)] s (decoded indicesJSON s
       (\<lambda>indices. if length indices = 0 then (CountReply 0, s)
          else answer s (\<lambda>_. CountReply (length indices)) ((), Node_FileAck mediaID indices n))))"

definition mobile_DeleteFile :: "string \<Rightarrow> app \<Rightarrow> answered" where
  "mobile_DeleteFile mediaID s =
     with_node s (\<lambda>n. needing [(''mediaID'', mediaID)] s (answer_if s CountReply (Node_DeleteFile mediaID n)))"

definition mobile_GetFileStatuses :: "app \<Rightarrow> answered" where
  "mobile_GetFileStatuses s =
     read_node s (FileStatusesReply []) (\<lambda>n. FileStatusesReply (Node_GetFileStatuses n))"

definition mobile_SendFileComplete :: "env \<Rightarrow> string \<Rightarrow> string \<Rightarrow> app \<Rightarrow> answered" where
  "mobile_SendFileComplete e mediaID recipient s =
     with_node s (\<lambda>n. needing [(''mediaID'', mediaID), (''recipient'', recipient)] s
       (answer s ok_if (Node_SendFileComplete e mediaID recipient n)))"

text \<open>The offer gets no expiry.\<close>

definition mobile_SendFileOffer :: "env \<Rightarrow> mobile_lib \<Rightarrow> string \<Rightarrow> string \<Rightarrow> string \<Rightarrow> int \<Rightarrow> int \<Rightarrow> int \<Rightarrow> string \<Rightarrow> app \<Rightarrow> answered" where
  "mobile_SendFileOffer e M peerID mediaID fileName fileSize chunkTotal ttlSeconds ttlMode s =
     with_node s (\<lambda>n. needing [(''peerID'', peerID), (''mediaID'', mediaID)] s
       (answer s ok_if (Node_SendFileOffer e (mb_send M) peerID
          \<lparr>fm_MediaID = mediaID, fm_FileName = fileName, fm_FileSize = fileSize, fm_ChunkTotal = chunkTotal, fm_MediaType = [],
           fm_TtlSeconds = ttlSeconds, fm_TtlMode = ttlMode, fm_ExpiresAt = 0, fm_CreatedAt = 0\<rparr> n)))"

definition mobile_SendFileAccept :: "env \<Rightarrow> string \<Rightarrow> string \<Rightarrow> string \<Rightarrow> app \<Rightarrow> answered" where
  "mobile_SendFileAccept e offerMsgID mediaID recipient s =
     with_node s (\<lambda>n. needing [(''offerMsgID'', offerMsgID), (''mediaID'', mediaID), (''recipient'', recipient)] s
       (answer s ok_if (Node_SendFileAccept e offerMsgID mediaID recipient n)))"

definition mobile_SendFileDecline :: "env \<Rightarrow> string \<Rightarrow> string \<Rightarrow> string \<Rightarrow> app \<Rightarrow> answered" where
  "mobile_SendFileDecline e offerMsgID mediaID recipient s =
     with_node s (\<lambda>n. needing [(''offerMsgID'', offerMsgID), (''mediaID'', mediaID), (''recipient'', recipient)] s
       (answer s ok_if (Node_SendFileDecline e offerMsgID mediaID recipient n)))"

definition mobile_SendFileCancel :: "env \<Rightarrow> string \<Rightarrow> string \<Rightarrow> string \<Rightarrow> app \<Rightarrow> answered" where
  "mobile_SendFileCancel e offerMsgID mediaID recipient s =
     with_node s (\<lambda>n. needing [(''offerMsgID'', offerMsgID), (''mediaID'', mediaID), (''recipient'', recipient)] s
       (answer s ok_if (Node_SendFileCancel e offerMsgID mediaID recipient n)))"

definition mobile_SendFileAbort :: "env \<Rightarrow> string \<Rightarrow> string \<Rightarrow> app \<Rightarrow> answered" where
  "mobile_SendFileAbort e peerID mediaID s =
     with_node s (\<lambda>n. needing [(''peerID'', peerID), (''mediaID'', mediaID)] s (answer s ok_if (Node_SendFileAbort e peerID mediaID n)))"

definition mobile_GetAborted :: "app \<Rightarrow> answered" where
  "mobile_GetAborted s =
     read_node s (AddrsReply []) (\<lambda>n. AddrsReply (Node_GetAborted n))"

section \<open>Peers\<close>

definition mobile_GetPeers :: "env \<Rightarrow> app \<Rightarrow> answered" where
  "mobile_GetPeers e s =
     read_node s (AddrsReply []) (\<lambda>n. AddrsReply (Node_GetPeers e n))"

definition mobile_GetMultiaddrs :: "env \<Rightarrow> mobile_lib \<Rightarrow> app \<Rightarrow> answered" where
  "mobile_GetMultiaddrs e M s =
     read_node s (AddrsReply []) (\<lambda>n. AddrsReply (Node_GetMultiaddrs e (mb_ifaces M) n))"

definition refreshed :: "app \<Rightarrow> app" where
  "refreshed s =
     s\<lparr>ap_dht := DHT_RefreshOnDemand (ap_dht s)\<rparr>"

definition mobile_ConnectToPeer :: "env \<Rightarrow> string \<Rightarrow> app \<Rightarrow> answered" where
  "mobile_ConnectToPeer e multiaddr s =
     with_node s (\<lambda>n. if Node_ConnectToPeer e multiaddr n then (Status ''connected'', refreshed s) else (ErrorJSON Refused, s))"

definition mobile_ConnectToPeerWithFallback :: "env \<Rightarrow> string list \<Rightarrow> string list option \<Rightarrow> app \<Rightarrow> answered" where
  "mobile_ConnectToPeerWithFallback e arrivals multiaddrsJSON s =
     with_node s (\<lambda>n. decoded multiaddrsJSON s (\<lambda>multiaddrs.
       if length multiaddrs = 0 then (ErrorJSON EmptyMultiaddrs, s)
       else case Node_ConnectToPeerWithFallback e multiaddrs arrivals n of
              None \<Rightarrow> (ErrorJSON Refused, s) | Some used \<Rightarrow> (UsedReply used, refreshed s)))"

definition mobile_Announce :: "env \<Rightarrow> string list option \<Rightarrow> app \<Rightarrow> answered" where
  "mobile_Announce e multiaddrsJSON s =
     with_node s (\<lambda>n. decoded multiaddrsJSON s (\<lambda>multiaddrs.
       if length multiaddrs = 0 then (ErrorJSON EmptyMultiaddrs, s)
       else case Node_SendAnnounce e multiaddrs n (ap_relay s) of
              (n1, r1) \<Rightarrow> (Status ''announced'', s\<lparr>ap_node := Some n1, ap_relay := r1\<rparr>)))"

definition mobile_FindPeerByID :: "env \<Rightarrow> string \<Rightarrow> app \<Rightarrow> answered" where
  "mobile_FindPeerByID e peerID s =
     with_node s (\<lambda>n. answer s (\<lambda>r. case r of None \<Rightarrow> ErrorJSON Refused | Some addrs \<Rightarrow> AddrsReply addrs) (Node_FindPeerByID e peerID n))"

text \<open>\<open>stored\<close> is the peer store after the exchange with every connected peer.\<close>

definition mobile_FindPeersViaNetwork :: "env \<Rightarrow> (string \<times> string list) list \<Rightarrow> app \<Rightarrow> answered" where
  "mobile_FindPeersViaNetwork e stored s =
     with_node s (\<lambda>n. if length (Node_GetPeers e n) = 0 then (ErrorJSON NoPeers, s)
       else (AddrsReply (filter (\<lambda>addr. \<not> sublist (host_id n) addr) (Node_GetKnownPeers stored n)), s))"

section \<open>The hash table\<close>

definition mobile_JoinDHT :: "env \<Rightarrow> mobile_lib \<Rightarrow> string \<Rightarrow> app \<Rightarrow> answered" where
  "mobile_JoinDHT e M bootstrapPeers s =
     with_node s (\<lambda>n. let peers = parseBootstrapPeers bootstrapPeers
       in if length peers = 0 then (ErrorJSON NoBootstrapPeers, s)
          else if nd_host n = None then (ErrorJSON NoHost, s)
          else case NewDHT (mb_dht M) (nd_host n) of
                 None \<Rightarrow> (ErrorJSON Refused, s)
               | Some d \<Rightarrow> (case DHT_JoinDHT e peers (Some d) of
                     None \<Rightarrow> (Crashed, s)
                   | Some (False, _) \<Rightarrow> (ErrorJSON Refused, s)
                   | Some (True, d1) \<Rightarrow> (Status ''joined'', s\<lparr>ap_dht := d1\<rparr>)))"

text \<open>The first known address that has the ID in it; otherwise what an active DHT finds.\<close>

definition mobile_FindPeer :: "env \<Rightarrow> mobile_lib \<Rightarrow> string \<Rightarrow> app \<Rightarrow> answered" where
  "mobile_FindPeer e M peerID s =
     with_node s (\<lambda>n. case find (sublist peerID) (Node_GetKnownPeers (mb_stored M) n) of
         Some addr \<Rightarrow> (AddrsReply [addr], s)
       | None \<Rightarrow>
           if DHT_IsDHTActive (mb_dht M) (ap_dht s)
           then (case DHT_FindPeer e (mb_dht M) peerID (DHT_RefreshOnDemand (ap_dht s)) of
                   None \<Rightarrow> (Crashed, refreshed s)
                 | Some None \<Rightarrow> (Status ''not_found'', refreshed s)
                 | Some (Some addrs) \<Rightarrow> (AddrsReply (map (\<lambda>a. a @ ''/p2p/'' @ peerID) addrs), refreshed s))
           else (Status ''not_found'', s))"

definition mobile_Provide :: "mobile_lib \<Rightarrow> app \<Rightarrow> answered" where
  "mobile_Provide M s =
     with_node s (\<lambda>n. if ap_dht s = None then (ErrorJSON NoDHT, s)
       else case DHT_Provide (mb_dht M) (host_id n) (ap_dht s) of
              None \<Rightarrow> (Crashed, s)
            | Some (False, d) \<Rightarrow> (ErrorJSON Refused, s\<lparr>ap_dht := d\<rparr>)
            | Some (True, d) \<Rightarrow> (Status ''provided'', s\<lparr>ap_dht := d\<rparr>))"

definition mobile_GetDHTInfo :: "mobile_lib \<Rightarrow> app \<Rightarrow> answered" where
  "mobile_GetDHTInfo M s =
     (case ap_node s of None \<Rightarrow> (DHTReply None, s)
      | Some n \<Rightarrow> (case DHT_GetDHTInfo (mb_dht M) (host_id n) (ap_dht s) of None \<Rightarrow> (Crashed, s) | Some r \<Rightarrow> (DHTReply r, s)))"

section \<open>Keys and contacts\<close>

definition mobile_GetEd25519PublicKey :: "env \<Rightarrow> app \<Rightarrow> answered" where
  "mobile_GetEd25519PublicKey e s =
     read_node s (TextReply []) (\<lambda>n. TextReply (Node_GetEd25519PublicKey e n))"

definition mobile_GetX25519PublicKey :: "env \<Rightarrow> app \<Rightarrow> answered" where
  "mobile_GetX25519PublicKey e s =
     read_node s (TextReply []) (\<lambda>n. TextReply (Node_GetX25519PublicKey e n))"

definition mobile_GetMyQRData :: "env \<Rightarrow> app \<Rightarrow> answered" where
  "mobile_GetMyQRData e s =
     read_node s (ErrorJSON NotStarted) (\<lambda>n. QRReply (Node_GetMyQRData e n))"

definition is_verified :: "string \<Rightarrow> node \<Rightarrow> bool" where
  "is_verified peerID n =
     (case Node_GetContact peerID n of None \<Rightarrow> False | Some c \<Rightarrow> con_Verified c)"

definition mobile_AddContact :: "env \<Rightarrow> string \<Rightarrow> string \<Rightarrow> string \<Rightarrow> string \<Rightarrow> string \<Rightarrow> string \<Rightarrow> bool \<Rightarrow> app \<Rightarrow> answered" where
  "mobile_AddContact e peerID ed25519Pub x25519Pub signature localName remoteName readEnabled s =
     with_node s (\<lambda>n. needing [(''peerID'', peerID)] s
       (case Node_AddContact e peerID ed25519Pub x25519Pub signature localName remoteName readEnabled n of
          (added, n1) \<Rightarrow> answer s (\<lambda>b. if b then FlagReply (is_verified peerID n1) else ErrorJSON Refused) (added, n1)))"

definition mobile_SetContactReadEnabled :: "env \<Rightarrow> string \<Rightarrow> bool \<Rightarrow> app \<Rightarrow> answered" where
  "mobile_SetContactReadEnabled e peerID enabled s =
     with_node s (\<lambda>n. needing [(''peerID'', peerID)] s (answer s (\<lambda>err. ok_if (err = None)) (Node_SetContactReadEnabled e peerID enabled n)))"

definition mobile_RenameContact :: "env \<Rightarrow> string \<Rightarrow> string \<Rightarrow> app \<Rightarrow> answered" where
  "mobile_RenameContact e peerID localName s =
     with_node s (\<lambda>n. needing [(''peerID'', peerID)] s (answer s (\<lambda>err. ok_if (err = None)) (Node_RenameContact e peerID localName n)))"

definition mobile_RemoveContact :: "env \<Rightarrow> string \<Rightarrow> app \<Rightarrow> answered" where
  "mobile_RemoveContact e peerID s =
     with_node s (\<lambda>n. needing [(''peerID'', peerID)] s (answer_if s ok_if (Node_RemoveContact e peerID n)))"

definition mobile_GetContacts :: "app \<Rightarrow> answered" where
  "mobile_GetContacts s =
     read_node s (ContactsReply []) (\<lambda>n. ContactsReply (Node_GetContacts n))"

definition mobile_GetContact :: "string \<Rightarrow> app \<Rightarrow> answered" where
  "mobile_GetContact peerID s =
     read_node s (ErrorJSON NotStarted)
       (\<lambda>n. case Node_GetContact peerID n of None \<Rightarrow> ErrorJSON ContactNotFound | Some c \<Rightarrow> ContactReply c)"

definition mobile_GetDeletedPeers :: "app \<Rightarrow> answered" where
  "mobile_GetDeletedPeers s =
     read_node s (AddrsReply []) (\<lambda>n. AddrsReply (Node_GetDeletedPeers n))"

definition mobile_RemoveFromDeleted :: "env \<Rightarrow> string \<Rightarrow> app \<Rightarrow> answered" where
  "mobile_RemoveFromDeleted e peerID s =
     with_node s (\<lambda>n. needing [(''peerID'', peerID)] s (answer s ok_if (Node_RemoveFromDeleted e peerID n)))"

definition mobile_SendContactHello :: "env \<Rightarrow> mobile_lib \<Rightarrow> string \<Rightarrow> app \<Rightarrow> answered" where
  "mobile_SendContactHello e M peerID s =
     with_node s (\<lambda>n. needing [(''peerID'', peerID)] s (answer s ok_if (Node_SendContactHello e (mb_send M) peerID n)))"

definition mobile_SendContactRequest :: "env \<Rightarrow> mobile_lib \<Rightarrow> string \<Rightarrow> string \<Rightarrow> app \<Rightarrow> answered" where
  "mobile_SendContactRequest e M peerID name s =
     with_node s (\<lambda>n. needing [(''peerID'', peerID)] s (answer_if s id_reply (Node_SendContactRequest e (mb_send M) peerID name n)))"

definition mobile_GetRequests :: "app \<Rightarrow> answered" where
  "mobile_GetRequests s =
     read_node s (RequestsReply []) (\<lambda>n. RequestsReply (Node_GetRequests n))"

definition mobile_AcceptRequestByID :: "env \<Rightarrow> mobile_lib \<Rightarrow> string \<Rightarrow> app \<Rightarrow> answered" where
  "mobile_AcceptRequestByID e M i s =
     with_node s (\<lambda>n. needing [(''id'', i)] s (answer_if s ok_if (Node_AcceptRequestByID e (mb_send M) i n)))"

definition mobile_RejectRequestByID :: "env \<Rightarrow> mobile_lib \<Rightarrow> string \<Rightarrow> app \<Rightarrow> answered" where
  "mobile_RejectRequestByID e M i s =
     with_node s (\<lambda>n. needing [(''id'', i)] s (answer_if s ok_if (Node_RejectRequestByID e (mb_send M) i n)))"

section \<open>Settings\<close>

text \<open>What the setters share.\<close>

definition mobile_set :: "(settings_state \<Rightarrow> bool \<times> settings_state) \<Rightarrow> app \<Rightarrow> answered" where
  "mobile_set op s =
     with_node s (\<lambda>n. answer_setting s (op (n, ap_settings s)))"

definition mobile_SetMyReadEnabled :: "mobile_lib \<Rightarrow> bool \<Rightarrow> app \<Rightarrow> answered" where
  "mobile_SetMyReadEnabled M enabled =
     mobile_set (\<lambda>st. (True, Node_SetMyReadEnabled (mb_w_settings M) enabled st))"

definition mobile_SetMyDisplayName :: "mobile_lib \<Rightarrow> string \<Rightarrow> app \<Rightarrow> answered" where
  "mobile_SetMyDisplayName M name =
     mobile_set (Node_SetMyDisplayName (mb_w_settings M) name)"

definition mobile_SetShowNotificationContent :: "mobile_lib \<Rightarrow> bool \<Rightarrow> app \<Rightarrow> answered" where
  "mobile_SetShowNotificationContent M enabled =
     mobile_set (Node_SetShowNotificationContent (mb_w_settings M) enabled)"

definition mobile_SetSphinxEnabled :: "mobile_lib \<Rightarrow> bool \<Rightarrow> app \<Rightarrow> answered" where
  "mobile_SetSphinxEnabled M enabled =
     mobile_set (Node_SetSphinxEnabled (mb_w_settings M) enabled)"

definition mobile_SetMixingEnabled :: "mobile_lib \<Rightarrow> bool \<Rightarrow> app \<Rightarrow> answered" where
  "mobile_SetMixingEnabled M enabled =
     mobile_set (Node_SetMixingEnabled (mb_w_settings M) enabled)"

definition mobile_SetMaskingEnabled :: "mobile_lib \<Rightarrow> bool \<Rightarrow> app \<Rightarrow> answered" where
  "mobile_SetMaskingEnabled M enabled =
     mobile_set (Node_SetMaskingEnabled (mb_w_settings M) enabled)"

definition mobile_SetFileRequestThreshold :: "mobile_lib \<Rightarrow> int \<Rightarrow> app \<Rightarrow> answered" where
  "mobile_SetFileRequestThreshold M thresholdMB =
     mobile_set (Node_SetFileRequestThreshold (mb_w_settings M) thresholdMB)"

definition mobile_SetTtl :: "mobile_lib \<Rightarrow> string \<Rightarrow> string \<Rightarrow> app \<Rightarrow> answered" where
  "mobile_SetTtl M period mode =
     mobile_set (Node_SetTtl (mb_w_settings M) period mode)"

text \<open>A field that is not in the object is not set; the first setter that fails ends the call.\<close>

definition set_if :: "(bool \<Rightarrow> settings_state \<Rightarrow> bool \<times> settings_state) \<Rightarrow> bool option \<Rightarrow> bool \<times> settings_state \<Rightarrow> bool \<times> settings_state" where
  "set_if setter field r =
     (case field of None \<Rightarrow> r | Some v \<Rightarrow> if fst r then setter v (snd r) else r)"

definition mobile_SetNotificationSettings :: "mobile_lib \<Rightarrow> (string \<rightharpoonup> bool) option \<Rightarrow> app \<Rightarrow> answered" where
  "mobile_SetNotificationSettings M settingsJSON s =
     with_node s (\<lambda>n. decoded settingsJSON s (\<lambda>settings. answer_setting s
       (set_if (Node_SetNotificationProgress (mb_w_settings M)) (settings ''progress'')
         (set_if (Node_SetNotificationNames (mb_w_settings M)) (settings ''names'')
           (set_if (Node_SetNotificationCount (mb_w_settings M)) (settings ''count'') (True, n, ap_settings s))))))"

definition mobile_SetDummyScreenOn :: "bool \<Rightarrow> app \<Rightarrow> answered" where
  "mobile_SetDummyScreenOn screenOn s =
     with_node s (\<lambda>n. (ok, s\<lparr>ap_screenOn := screenOn\<rparr>))"

definition mobile_GetMyReadEnabled :: "app \<Rightarrow> answered" where
  "mobile_GetMyReadEnabled s =
     read_node s (FlagReply True) (\<lambda>n. FlagReply (Node_GetMyReadEnabled n))"

definition mobile_GetShowNotificationContent :: "app \<Rightarrow> answered" where
  "mobile_GetShowNotificationContent s =
     read_node s (FlagReply True) (\<lambda>n. FlagReply (Node_GetShowNotificationContent n))"

definition mobile_GetSphinxEnabled :: "app \<Rightarrow> answered" where
  "mobile_GetSphinxEnabled s =
     read_node s (FlagReply False) (\<lambda>n. FlagReply (Node_GetSphinxEnabled n))"

definition mobile_GetMaskingEnabled :: "app \<Rightarrow> answered" where
  "mobile_GetMaskingEnabled s =
     read_node s (FlagReply False) (\<lambda>n. FlagReply (Node_GetMaskingEnabled n))"

definition mobile_GetMixingEnabled :: "app \<Rightarrow> answered" where
  "mobile_GetMixingEnabled s =
     read_node s (FlagReply False) (\<lambda>n. FlagReply (Node_GetMixingEnabled (n, ap_settings s)))"

definition mobile_GetNotificationSettings :: "app \<Rightarrow> answered" where
  "mobile_GetNotificationSettings s =
     read_node s (NotificationReply False False False)
       (\<lambda>n. NotificationReply (Node_GetNotificationCount n) (Node_GetNotificationNames n) (Node_GetNotificationProgress n))"

definition mobile_GetMyDisplayName :: "app \<Rightarrow> answered" where
  "mobile_GetMyDisplayName s =
     read_node s (TextReply []) (\<lambda>n. TextReply (Node_GetMyDisplayName n))"

definition mobile_GetTtl :: "app \<Rightarrow> answered" where
  "mobile_GetTtl s =
     read_node s (TtlReply (''never'', [])) (\<lambda>n. TtlReply (Node_GetTtl n))"

definition mobile_GetFileRequestThreshold :: "app \<Rightarrow> answered" where
  "mobile_GetFileRequestThreshold s =
     read_node s (ThresholdReply (-1)) (\<lambda>n. ThresholdReply (Node_GetFileRequestThreshold n))"

section \<open>The seed phrase\<close>

definition mobile_GenerateSeedPhrase :: "mobile_lib \<Rightarrow> int \<Rightarrow> app \<Rightarrow> answered" where
  "mobile_GenerateSeedPhrase M words s =
     (case GenerateSeedPhrase (mb_seed M) words of None \<Rightarrow> ErrorJSON Refused | Some phrase \<Rightarrow> TextReply phrase, s)"

definition mobile_SetSeedPhraseBeforeStart :: "mobile_lib \<Rightarrow> string \<Rightarrow> app \<Rightarrow> answered" where
  "mobile_SetSeedPhraseBeforeStart M phrase s =
     needing [(''phrase'', phrase)] s
       (if ValidateSeedPhrase (mb_seed M) phrase then (ok, s\<lparr>ap_pendingSeedPhrase := phrase\<rparr>) else (ErrorJSON Refused, s))"

definition mobile_SetSeedPhrase :: "mobile_lib \<Rightarrow> string \<Rightarrow> app \<Rightarrow> answered" where
  "mobile_SetSeedPhrase M phrase s =
     with_node s (\<lambda>n. case Node_SetSeedPhrase (mb_seed M) phrase (ap_seedPhrase s) of
       (b, phrase') \<Rightarrow> (ok_if b, s\<lparr>ap_seedPhrase := phrase'\<rparr>))"

definition mobile_GetSeedPhrase :: "app \<Rightarrow> answered" where
  "mobile_GetSeedPhrase s =
     read_node s (ErrorJSON NotStarted) (\<lambda>n. TextReply (ap_seedPhrase s))"

end
