(* ===== verification/MobileRun.thy ===== *)
theory MobileRun
  imports Mobile
begin

text \<open>
  Sessions of the mobile app: any calls of the interface of node/mobile/mobile.go, with what peers and
  the loops of the node do in between, and what the nodes that were stopped still do.
\<close>

section \<open>Runs\<close>

text \<open>The functions by their part of the interface, each with its arguments.\<close>

datatype message_call =
    DoGetStatus
  | DoGetMessages
  | DoSendMessage string string string
  | DoSendToPeer string string string string
  | DoGetMessageStatuses
  | DoSendRead string string
  | DoSendReadBatch "string list option" string
  | DoMarkReadLocally "string list option"

fun message_step :: "env \<Rightarrow> mobile_lib \<Rightarrow> message_call \<Rightarrow> app \<Rightarrow> answered" where
  "message_step e M DoGetStatus s = mobile_GetStatus e s"
| "message_step e M DoGetMessages s = mobile_GetMessages e s"
| "message_step e M (DoSendMessage x1 x2 x3) s = mobile_SendMessage e x1 x2 x3 s"
| "message_step e M (DoSendToPeer x1 x2 x3 x4) s = mobile_SendToPeer e x1 x2 x3 x4 s"
| "message_step e M DoGetMessageStatuses s = mobile_GetMessageStatuses s"
| "message_step e M (DoSendRead x1 x2) s = mobile_SendRead e x1 x2 s"
| "message_step e M (DoSendReadBatch x1 x2) s = mobile_SendReadBatch e x1 x2 s"
| "message_step e M (DoMarkReadLocally x) s = mobile_MarkReadLocally x s"

datatype file_call =
    DoSendVoice string string int string string
  | DoSendVoiceByPath string string string int string string
  | DoSendPhoto string string string string
  | DoSendPhotoByPath string string string string string
  | DoSendFileByPath string string string string string
  | DoGetChunk string int
  | DoClearChunkData string int
  | DoFileAck string "int list option"
  | DoDeleteFile string
  | DoGetFileStatuses
  | DoSendFileComplete string string
  | DoSendFileOffer string string string int int int string
  | DoSendFileAccept string string string
  | DoSendFileDecline string string string
  | DoSendFileCancel string string string
  | DoSendFileAbort string string
  | DoGetAborted

fun file_step :: "env \<Rightarrow> mobile_lib \<Rightarrow> file_call \<Rightarrow> app \<Rightarrow> answered" where
  "file_step e M (DoSendVoice x1 x2 x3 x4 x5) s = mobile_SendVoice e x1 x2 x3 x4 x5 s"
| "file_step e M (DoSendVoiceByPath x1 x2 x3 x4 x5 x6) s = mobile_SendVoiceByPath e M x1 x2 x3 x4 x5 x6 s"
| "file_step e M (DoSendPhoto x1 x2 x3 x4) s = mobile_SendPhoto e x1 x2 x3 x4 s"
| "file_step e M (DoSendPhotoByPath x1 x2 x3 x4 x5) s = mobile_SendPhotoByPath e M x1 x2 x3 x4 x5 s"
| "file_step e M (DoSendFileByPath x1 x2 x3 x4 x5) s = mobile_SendFileByPath e M x1 x2 x3 x4 x5 s"
| "file_step e M (DoGetChunk x1 x2) s = mobile_GetChunk x1 x2 s"
| "file_step e M (DoClearChunkData x1 x2) s = mobile_ClearChunkData x1 x2 s"
| "file_step e M (DoFileAck x1 x2) s = mobile_FileAck x1 x2 s"
| "file_step e M (DoDeleteFile x) s = mobile_DeleteFile x s"
| "file_step e M DoGetFileStatuses s = mobile_GetFileStatuses s"
| "file_step e M (DoSendFileComplete x1 x2) s = mobile_SendFileComplete e x1 x2 s"
| "file_step e M (DoSendFileOffer x1 x2 x3 x4 x5 x6 x7) s = mobile_SendFileOffer e M x1 x2 x3 x4 x5 x6 x7 s"
| "file_step e M (DoSendFileAccept x1 x2 x3) s = mobile_SendFileAccept e x1 x2 x3 s"
| "file_step e M (DoSendFileDecline x1 x2 x3) s = mobile_SendFileDecline e x1 x2 x3 s"
| "file_step e M (DoSendFileCancel x1 x2 x3) s = mobile_SendFileCancel e x1 x2 x3 s"
| "file_step e M (DoSendFileAbort x1 x2) s = mobile_SendFileAbort e x1 x2 s"
| "file_step e M DoGetAborted s = mobile_GetAborted s"

datatype peer_call =
    DoGetPeers
  | DoGetMultiaddrs
  | DoConnectToPeer string
  | DoConnectToPeerWithFallback "string list" "string list option"
  | DoAnnounce "string list option"
  | DoFindPeerByID string
  | DoFindPeersViaNetwork "(string \<times> string list) list"

fun peer_step :: "env \<Rightarrow> mobile_lib \<Rightarrow> peer_call \<Rightarrow> app \<Rightarrow> answered" where
  "peer_step e M DoGetPeers s = mobile_GetPeers e s"
| "peer_step e M DoGetMultiaddrs s = mobile_GetMultiaddrs e M s"
| "peer_step e M (DoConnectToPeer x) s = mobile_ConnectToPeer e x s"
| "peer_step e M (DoConnectToPeerWithFallback x1 x2) s = mobile_ConnectToPeerWithFallback e x1 x2 s"
| "peer_step e M (DoAnnounce x) s = mobile_Announce e x s"
| "peer_step e M (DoFindPeerByID x) s = mobile_FindPeerByID e x s"
| "peer_step e M (DoFindPeersViaNetwork x) s = mobile_FindPeersViaNetwork e x s"

datatype contact_call =
    DoGetEd25519PublicKey
  | DoGetX25519PublicKey
  | DoGetMyQRData
  | DoAddContact string string string string string string bool
  | DoSetContactReadEnabled string bool
  | DoRenameContact string string
  | DoRemoveContact string
  | DoGetContacts
  | DoGetContact string
  | DoGetDeletedPeers
  | DoRemoveFromDeleted string
  | DoSendContactHello string
  | DoSendContactRequest string string
  | DoGetRequests
  | DoAcceptRequestByID string
  | DoRejectRequestByID string

fun contact_step :: "env \<Rightarrow> mobile_lib \<Rightarrow> contact_call \<Rightarrow> app \<Rightarrow> answered" where
  "contact_step e M DoGetEd25519PublicKey s = mobile_GetEd25519PublicKey e s"
| "contact_step e M DoGetX25519PublicKey s = mobile_GetX25519PublicKey e s"
| "contact_step e M DoGetMyQRData s = mobile_GetMyQRData e s"
| "contact_step e M (DoAddContact x1 x2 x3 x4 x5 x6 x7) s = mobile_AddContact e x1 x2 x3 x4 x5 x6 x7 s"
| "contact_step e M (DoSetContactReadEnabled x1 x2) s = mobile_SetContactReadEnabled e x1 x2 s"
| "contact_step e M (DoRenameContact x1 x2) s = mobile_RenameContact e x1 x2 s"
| "contact_step e M (DoRemoveContact x) s = mobile_RemoveContact e x s"
| "contact_step e M DoGetContacts s = mobile_GetContacts s"
| "contact_step e M (DoGetContact x) s = mobile_GetContact x s"
| "contact_step e M DoGetDeletedPeers s = mobile_GetDeletedPeers s"
| "contact_step e M (DoRemoveFromDeleted x) s = mobile_RemoveFromDeleted e x s"
| "contact_step e M (DoSendContactHello x) s = mobile_SendContactHello e M x s"
| "contact_step e M (DoSendContactRequest x1 x2) s = mobile_SendContactRequest e M x1 x2 s"
| "contact_step e M DoGetRequests s = mobile_GetRequests s"
| "contact_step e M (DoAcceptRequestByID x) s = mobile_AcceptRequestByID e M x s"
| "contact_step e M (DoRejectRequestByID x) s = mobile_RejectRequestByID e M x s"

datatype settings_call =
    DoSetMyReadEnabled bool
  | DoSetMyDisplayName string
  | DoSetShowNotificationContent bool
  | DoSetSphinxEnabled bool
  | DoSetMixingEnabled bool
  | DoSetMaskingEnabled bool
  | DoSetFileRequestThreshold int
  | DoSetTtl string string
  | DoSetNotificationSettings "(string \<rightharpoonup> bool) option"
  | DoSetDummyScreenOn bool
  | DoGetMyReadEnabled
  | DoGetShowNotificationContent
  | DoGetSphinxEnabled
  | DoGetMaskingEnabled
  | DoGetMixingEnabled
  | DoGetNotificationSettings
  | DoGetMyDisplayName
  | DoGetTtl
  | DoGetFileRequestThreshold

fun settings_step :: "env \<Rightarrow> mobile_lib \<Rightarrow> settings_call \<Rightarrow> app \<Rightarrow> answered" where
  "settings_step e M (DoSetMyReadEnabled x) s = mobile_SetMyReadEnabled M x s"
| "settings_step e M (DoSetMyDisplayName x) s = mobile_SetMyDisplayName M x s"
| "settings_step e M (DoSetShowNotificationContent x) s = mobile_SetShowNotificationContent M x s"
| "settings_step e M (DoSetSphinxEnabled x) s = mobile_SetSphinxEnabled M x s"
| "settings_step e M (DoSetMixingEnabled x) s = mobile_SetMixingEnabled M x s"
| "settings_step e M (DoSetMaskingEnabled x) s = mobile_SetMaskingEnabled M x s"
| "settings_step e M (DoSetFileRequestThreshold x) s = mobile_SetFileRequestThreshold M x s"
| "settings_step e M (DoSetTtl x1 x2) s = mobile_SetTtl M x1 x2 s"
| "settings_step e M (DoSetNotificationSettings x) s = mobile_SetNotificationSettings M x s"
| "settings_step e M (DoSetDummyScreenOn x) s = mobile_SetDummyScreenOn x s"
| "settings_step e M DoGetMyReadEnabled s = mobile_GetMyReadEnabled s"
| "settings_step e M DoGetShowNotificationContent s = mobile_GetShowNotificationContent s"
| "settings_step e M DoGetSphinxEnabled s = mobile_GetSphinxEnabled s"
| "settings_step e M DoGetMaskingEnabled s = mobile_GetMaskingEnabled s"
| "settings_step e M DoGetMixingEnabled s = mobile_GetMixingEnabled s"
| "settings_step e M DoGetNotificationSettings s = mobile_GetNotificationSettings s"
| "settings_step e M DoGetMyDisplayName s = mobile_GetMyDisplayName s"
| "settings_step e M DoGetTtl s = mobile_GetTtl s"
| "settings_step e M DoGetFileRequestThreshold s = mobile_GetFileRequestThreshold s"

datatype seed_call =
    DoGenerateSeedPhrase int
  | DoSetSeedPhraseBeforeStart string
  | DoSetSeedPhrase string
  | DoGetSeedPhrase

fun seed_step :: "env \<Rightarrow> mobile_lib \<Rightarrow> seed_call \<Rightarrow> app \<Rightarrow> answered" where
  "seed_step e M (DoGenerateSeedPhrase x) s = mobile_GenerateSeedPhrase M x s"
| "seed_step e M (DoSetSeedPhraseBeforeStart x) s = mobile_SetSeedPhraseBeforeStart M x s"
| "seed_step e M (DoSetSeedPhrase x) s = mobile_SetSeedPhrase M x s"
| "seed_step e M DoGetSeedPhrase s = mobile_GetSeedPhrase s"

datatype table_call =
    DoJoinDHT string
  | DoFindPeer string
  | DoProvide
  | DoGetDHTInfo

fun table_step :: "env \<Rightarrow> mobile_lib \<Rightarrow> table_call \<Rightarrow> app \<Rightarrow> answered" where
  "table_step e M (DoJoinDHT x) s = mobile_JoinDHT e M x s"
| "table_step e M (DoFindPeer x) s = mobile_FindPeer e M x s"
| "table_step e M DoProvide s = mobile_Provide M s"
| "table_step e M DoGetDHTInfo s = mobile_GetDHTInfo M s"

text \<open>Besides the calls of the app: what the node does between them, and what the stopped nodes still do.\<close>

datatype api_call =
    DoStart string string
  | DoStop bool
  | DoSetFilesDir string "string option"
  | DoLog string string
  | Messages message_call
  | Files file_call
  | Peers peer_call
  | Contacts contact_call
  | Settings settings_call
  | Seeds seed_call
  | Table table_call
  | NodeDoes node_event
  | StoppedSaves nat

fun api_step :: "env \<Rightarrow> mobile_lib \<Rightarrow> api_call \<Rightarrow> app \<Rightarrow> answered" where
  "api_step e M (DoStart ethHash bootstrapPeers) s = mobile_Start e M ethHash bootstrapPeers s"
| "api_step e M (DoStop closes) s = mobile_Stop e M closes s"
| "api_step e M (DoSetFilesDir dir existing) s = (ok, SetFilesDir dir existing s)"
| "api_step e M (DoLog stamp msg) s = (ok, s\<lparr>ap_journal := addLog stamp msg (ap_journal s)\<rparr>)"
| "api_step e M (Messages c) s = message_step e M c s"
| "api_step e M (Files c) s = file_step e M c s"
| "api_step e M (Peers c) s = peer_step e M c s"
| "api_step e M (Contacts c) s = contact_step e M c s"
| "api_step e M (Settings c) s = settings_step e M c s"
| "api_step e M (Seeds c) s = seed_step e M c s"
| "api_step e M (Table c) s = table_step e M c s"
| "api_step e M (NodeDoes x) s = (case ap_node s of None \<Rightarrow> (ok, s)
     | Some n \<Rightarrow> (case node_step e x n of None \<Rightarrow> (Crashed, s) | Some n1 \<Rightarrow> (ok, s\<lparr>ap_node := Some n1\<rparr>)))"
| "api_step e M (StoppedSaves i) s = (ok, stopped_saves e M i s)"

definition api_run :: "(env \<times> mobile_lib \<times> api_call) list \<Rightarrow> app \<Rightarrow> reply list \<times> app" where
  "api_run = serve_all (\<lambda>(e, M, c). api_step e M c)"

section \<open>No crash\<close>

text \<open>\<open>P\<close> is what holds of the files while no node runs.\<close>

definition app_inv :: "(node \<Rightarrow> bool) \<Rightarrow> app \<Rightarrow> bool" where
  "app_inv P s \<longleftrightarrow> (case ap_node s of None \<Rightarrow> P (ap_files s) | Some n \<Rightarrow> node_inv n)"

definition served :: "(node \<Rightarrow> bool) \<Rightarrow> answered \<Rightarrow> bool" where
  "served P r \<longleftrightarrow> fst r \<noteq> Crashed \<and> app_inv P (snd r)"

named_theorems served_intros \<open>what the functions of the interface are made of\<close>

lemma with_node_served [served_intros]:
  "app_inv P s \<Longrightarrow> (\<And>n. node_inv n \<Longrightarrow> served P (f n)) \<Longrightarrow> served P (with_node s f)"
  by (cases "ap_node s") (auto simp: with_node_def served_def app_inv_def)

lemma read_node_served [served_intros]:
  "app_inv P s \<Longrightarrow> dflt \<noteq> Crashed \<Longrightarrow> (\<And>n. f n \<noteq> Crashed) \<Longrightarrow> served P (read_node s dflt f)"
  by (auto simp: read_node_def served_def split: option.split)

lemma needing_served [served_intros]: "app_inv P s \<Longrightarrow> served P r \<Longrightarrow> served P (needing args s r)"
  by (auto simp: needing_def served_def split: option.split)

lemma decoded_served [served_intros]: "app_inv P s \<Longrightarrow> (\<And>y. served P (f y)) \<Longrightarrow> served P (decoded x s f)"
  by (auto simp: decoded_def served_def split: option.split)

lemma answer_served [served_intros]: "node_inv (snd r) \<Longrightarrow> (\<And>x. f x \<noteq> Crashed) \<Longrightarrow> served P (answer s f r)"
  by (simp add: answer_def served_def app_inv_def)

lemma answer_if_served [served_intros]: "returns_inv r \<Longrightarrow> (\<And>x. f x \<noteq> Crashed) \<Longrightarrow> served P (answer_if s f r)"
  by (auto simp: answer_if_def returns_inv_def answer_served)

lemma answer_setting_served [served_intros]: "node_inv (fst (snd r)) \<Longrightarrow> served P (answer_setting s r)"
  by (cases r) (simp add: answer_setting_def served_def app_inv_def ok_if_def ok_def)

lemma replies_not_crashed [simp]: "ok \<noteq> Crashed" "ok_if b \<noteq> Crashed" "id_reply x \<noteq> Crashed" "file_reply name r \<noteq> Crashed"
  by (auto simp: ok_def ok_if_def id_reply_def file_reply_def split: option.split prod.split bool.split)

lemma if_served [served_intros]: "(b \<Longrightarrow> served P x) \<Longrightarrow> (\<not> b \<Longrightarrow> served P y) \<Longrightarrow> served P (if b then x else y)"
  by simp

lemma reply_served [served_intros]: "app_inv P s \<Longrightarrow> x \<noteq> Crashed \<Longrightarrow> served P (x, s)"
  by (simp add: served_def)

lemma app_inv_frame [simp]: "app_inv P (s\<lparr>ap_screenOn := b\<rparr>) = app_inv P s" "app_inv P (s\<lparr>ap_seedPhrase := p\<rparr>) = app_inv P s"
  "app_inv P (s\<lparr>ap_pendingSeedPhrase := p\<rparr>) = app_inv P s" "app_inv P (s\<lparr>ap_journal := j\<rparr>) = app_inv P s"
  "app_inv P (s\<lparr>ap_filesDir := d\<rparr>) = app_inv P s"
  "app_inv P (s\<lparr>ap_dht := t\<rparr>) = app_inv P s" "app_inv P (refreshed s) = app_inv P s"
  by (cases "ap_node s"; simp add: app_inv_def refreshed_def)+

lemma message_served:
  assumes "app_inv P s"
  shows "served P (message_step e M c s)"
  using assms
  by (cases c)
    (auto simp: mobile_GetStatus_def mobile_GetMessages_def mobile_SendMessage_def mobile_SendToPeer_def mobile_GetMessageStatuses_def
      mobile_SendRead_def mobile_SendReadBatch_def mobile_MarkReadLocally_def SendMessage_inv SendToPeer_inv
      intro!: served_intros node_inv_intros)

lemma returns_operations:
  "node_inv n \<Longrightarrow> returns_inv (Node_DeleteFile i n)" "node_inv n \<Longrightarrow> returns_inv (Node_RemoveContact e p n)"
  using DeleteFile_inv[of n i] RemoveContact_inv[of n e p] by (auto simp: returns_inv_def)

lemma found_inv: "node_inv n \<Longrightarrow> node_inv (snd (Node_FindPeerByID e p n))"
  by (metis FindPeerByID_core node_inv_core)

lemma announce_inv: "node_inv n \<Longrightarrow> node_inv (fst (Node_SendAnnounce e as n r))"
  by (simp add: Node_SendAnnounce_def Let_def node_inv_def Node_GetContact_def)

lemma announce_served:
  "node_inv n \<Longrightarrow> served P (case Node_SendAnnounce e as n r of (n1, r1) \<Rightarrow> (Status x, s\<lparr>ap_node := Some n1, ap_relay := r1\<rparr>))"
  using announce_inv[of n e as r] by (cases "Node_SendAnnounce e as n r") (simp add: served_def app_inv_def)

lemma RemoveFromDeleted_node_inv [node_inv_intros]: "node_inv n \<Longrightarrow> node_inv (snd (Node_RemoveFromDeleted e p n))"
  by (auto simp: Node_RemoveFromDeleted_def split: option.split prod.split
      intro!: deleted_update_inv RemoveFromDeleted_inv dest: node_invD(4))

lemma AddContact_served:
  "node_inv n \<Longrightarrow> (\<And>b m. f b m \<noteq> Crashed) \<Longrightarrow>
     served P (case Node_AddContact e p ed x sg nm rn re n of (added, n1) \<Rightarrow> answer s (\<lambda>b. f b n1) (added, n1))"
  using AddContact_inv[of n e p ed x sg nm rn re] by (auto simp: served_def answer_def app_inv_def split: prod.split)

lemma setters_inv:
  assumes "node_inv n"
  shows "node_inv (fst (Node_SetMyReadEnabled w b (n, sp)))" "node_inv (fst (snd (Node_SetMyDisplayName w name (n, sp))))"
    "node_inv (fst (snd (Node_SetShowNotificationContent w b (n, sp))))" "node_inv (fst (snd (Node_SetNotificationCount w b (n, sp))))"
    "node_inv (fst (snd (Node_SetNotificationNames w b (n, sp))))" "node_inv (fst (snd (Node_SetNotificationProgress w b (n, sp))))"
    "node_inv (fst (snd (Node_SetTtl w name mode (n, sp))))" "node_inv (fst (snd (Node_SetSphinxEnabled w b (n, sp))))"
    "node_inv (fst (snd (Node_SetMixingEnabled w b (n, sp))))" "node_inv (fst (snd (Node_SetMaskingEnabled w b (n, sp))))"
    "node_inv (fst (snd (Node_SetFileRequestThreshold w mb (n, sp))))"
  using assms setting_step_inv[of "(n, sp)" w "SetRead b"] setting_step_inv[of "(n, sp)" w "SetName name"]
    setting_step_inv[of "(n, sp)" w "SetContent b"] setting_step_inv[of "(n, sp)" w "SetCount b"]
    setting_step_inv[of "(n, sp)" w "SetNames b"] setting_step_inv[of "(n, sp)" w "SetProgress b"]
    setting_step_inv[of "(n, sp)" w "SetTtlTo name mode"] setting_step_inv[of "(n, sp)" w "SetSphinx b"]
    setting_step_inv[of "(n, sp)" w "SetMixing b"] setting_step_inv[of "(n, sp)" w "SetMasking b"]
    setting_step_inv[of "(n, sp)" w "SetThreshold mb"]
  by simp_all

lemma mobile_set_served:
  "app_inv P s \<Longrightarrow> (\<And>n sp. node_inv n \<Longrightarrow> node_inv (fst (snd (op (n, sp))))) \<Longrightarrow> served P (mobile_set op s)"
  by (auto simp: mobile_set_def intro!: served_intros)

lemma set_if_inv:
  "(\<And>v n sp. node_inv n \<Longrightarrow> node_inv (fst (snd (setter v (n, sp))))) \<Longrightarrow> node_inv (fst (snd r)) \<Longrightarrow>
     node_inv (fst (snd (set_if setter field r)))"
  by (cases r) (simp add: set_if_def split: option.split)

lemma notifications_served:
  "app_inv P s \<Longrightarrow> served P (mobile_SetNotificationSettings M settings s)"
  unfolding mobile_SetNotificationSettings_def
  by (intro served_intros set_if_inv) (auto simp: setters_inv)

lemma file_served:
  assumes "app_inv P s"
  shows "served P (file_step e M c s)"
  using assms
  by (cases c)
    (auto simp: mobile_SendVoice_def mobile_SendVoiceByPath_def mobile_SendPhoto_def mobile_SendPhotoByPath_def mobile_SendFileByPath_def
      mobile_GetChunk_def mobile_ClearChunkData_def mobile_FileAck_def mobile_DeleteFile_def mobile_GetFileStatuses_def
      mobile_SendFileComplete_def mobile_SendFileOffer_def mobile_SendFileAccept_def mobile_SendFileDecline_def mobile_SendFileCancel_def
      mobile_SendFileAbort_def mobile_GetAborted_def Node_SendVoice_def Node_SendPhoto_def Node_SendVoiceByPath_def
      Node_SendPhotoByPath_def SendFileOffer_inv returns_operations node_inv_intros
      intro!: served_intros split: option.splits)

lemma peer_served:
  assumes "app_inv P s"
  shows "served P (peer_step e M c s)"
  using assms
  by (cases c)
    (auto simp: mobile_GetPeers_def mobile_GetMultiaddrs_def mobile_ConnectToPeer_def mobile_ConnectToPeerWithFallback_def
      mobile_Announce_def mobile_FindPeerByID_def mobile_FindPeersViaNetwork_def found_inv
      intro!: served_intros announce_served split: option.splits if_splits)

lemma contact_served:
  assumes "app_inv P s"
  shows "served P (contact_step e M c s)"
  using assms
  by (cases c)
    (auto simp: mobile_GetEd25519PublicKey_def mobile_GetX25519PublicKey_def mobile_GetMyQRData_def mobile_AddContact_def
      mobile_SetContactReadEnabled_def mobile_RenameContact_def mobile_RemoveContact_def mobile_GetContacts_def mobile_GetContact_def
      mobile_GetDeletedPeers_def mobile_RemoveFromDeleted_def mobile_SendContactHello_def mobile_SendContactRequest_def
      mobile_GetRequests_def mobile_AcceptRequestByID_def mobile_RejectRequestByID_def Node_SendContactHello_def
      SendContactRequest_inv AcceptRequestByID_inv RejectRequestByID_inv returns_operations RemoveFromDeleted_node_inv
      node_inv_intros intro!: AddContact_served served_intros split: option.splits if_splits)

lemma settings_served:
  assumes "app_inv P s"
  shows "served P (settings_step e M c s)"
  using assms
  by (cases c)
    (auto simp: mobile_SetMyReadEnabled_def mobile_SetMyDisplayName_def mobile_SetShowNotificationContent_def mobile_SetSphinxEnabled_def
      mobile_SetMixingEnabled_def mobile_SetMaskingEnabled_def mobile_SetFileRequestThreshold_def mobile_SetTtl_def
      notifications_served mobile_SetDummyScreenOn_def mobile_GetMyReadEnabled_def mobile_GetShowNotificationContent_def
      mobile_GetSphinxEnabled_def mobile_GetMaskingEnabled_def mobile_GetMixingEnabled_def mobile_GetNotificationSettings_def
      mobile_GetMyDisplayName_def mobile_GetTtl_def mobile_GetFileRequestThreshold_def setters_inv
      intro!: served_intros mobile_set_served)

lemma seed_served:
  assumes "app_inv P s"
  shows "served P (seed_step e M c s)"
  using assms
  by (cases c)
    (auto simp: mobile_GenerateSeedPhrase_def mobile_SetSeedPhraseBeforeStart_def mobile_SetSeedPhrase_def mobile_GetSeedPhrase_def
      Node_SetSeedPhrase_def intro!: served_intros split: option.split)


text \<open>
  The logs of the DHT cut IDs to 16 bytes.  The IDs of libp2p are longer.  The invariant of the
  node does not bound its own ID, so \<open>Provide\<close>, which logs it, is left out.
\<close>

definition long_ids_16 :: "env \<Rightarrow> mobile_lib \<Rightarrow> table_call \<Rightarrow> bool" where
  "long_ids_16 e M c \<longleftrightarrow> c \<noteq> DoProvide \<and> (\<forall>a p. ev_AddrInfo e a = Some p \<longrightarrow> 16 \<le> length p) \<and>
     (\<forall>p. dl_find (mb_dht M) p \<noteq> None \<longrightarrow> 16 \<le> length p) \<and> list_all (\<lambda>p. 16 \<le> length p) (dl_table (mb_dht M))"

lemma joined_long: "\<forall>a p. ev_AddrInfo e a = Some p \<longrightarrow> 16 \<le> length p \<Longrightarrow>
    \<not> list_ex (\<lambda>p. length p < 16) (List.map_filter (joined_peer e) peers)"
  by (induction peers) (auto simp: List.map_filter_simps joined_peer_def Let_def not_less split: option.splits)

lemma JoinDHT_returns: "\<forall>a p. ev_AddrInfo e a = Some p \<longrightarrow> 16 \<le> length p \<Longrightarrow> DHT_JoinDHT e peers dn \<noteq> None"
  using joined_long[of e peers] by (auto simp: DHT_JoinDHT_def Let_def split: option.split)

lemma FindPeer_returns: "\<forall>p. dl_find D p \<noteq> None \<longrightarrow> 16 \<le> length p \<Longrightarrow> \<exists>r. DHT_FindPeer e D p dn = Some r"
  by (auto simp: DHT_FindPeer_def split: option.split)

lemma table_served:
  assumes "app_inv P s" "long_ids_16 e M c"
  shows "served P (table_step e M c s)"
proof (cases c)
  case (DoJoinDHT x)
  have "served P (case DHT_JoinDHT e peers (Some d) of None \<Rightarrow> (Crashed, s) | Some (False, _) \<Rightarrow> (ErrorJSON Refused, s)
      | Some (True, d1) \<Rightarrow> (Status ''joined'', s\<lparr>ap_dht := d1\<rparr>))" for peers d
    using JoinDHT_returns[of e peers "Some d"] assms by (auto simp: long_ids_16_def served_def split: bool.splits)
  then show ?thesis using DoJoinDHT assms(1) by (auto simp: mobile_JoinDHT_def Let_def intro!: served_intros split: option.split)
next
  case (DoFindPeer x)
  have "served P (case DHT_FindPeer e (mb_dht M) x d of None \<Rightarrow> (Crashed, refreshed s) | Some None \<Rightarrow> (Status ''not_found'', refreshed s)
      | Some (Some addrs) \<Rightarrow> (AddrsReply (map (\<lambda>a. a @ ''/p2p/'' @ x) addrs), refreshed s))" for d
    using FindPeer_returns[of "mb_dht M" e x d] assms by (auto simp: long_ids_16_def served_def split: option.split)
  then have "served P (case find Q as of Some addr \<Rightarrow> (AddrsReply [addr], s) | None \<Rightarrow> if b
      then (case DHT_FindPeer e (mb_dht M) x d of None \<Rightarrow> (Crashed, refreshed s) | Some None \<Rightarrow> (Status ''not_found'', refreshed s)
        | Some (Some addrs) \<Rightarrow> (AddrsReply (map (\<lambda>a. a @ ''/p2p/'' @ x) addrs), refreshed s))
      else (Status ''not_found'', s))" for Q as b d
    using assms(1) by (cases "find Q as") (simp_all add: served_def)
  then show ?thesis using DoFindPeer assms(1) by (simp add: mobile_FindPeer_def with_node_served)
next
  case DoGetDHTInfo
  have "served P (case DHT_GetDHTInfo (mb_dht M) me d of None \<Rightarrow> (Crashed, s) | Some r \<Rightarrow> (DHTReply r, s))" for me d
  proof -
    have "\<not> list_ex (\<lambda>p. length p < 16) (dl_table (mb_dht M))"
      using assms(2) by (auto simp: long_ids_16_def list_ex_iff list_all_iff)
    with assms(1) show ?thesis by (cases d) (simp_all add: DHT_GetDHTInfo_def served_def)
  qed
  then show ?thesis using DoGetDHTInfo assms(1) by (simp add: mobile_GetDHTInfo_def served_def split: option.split)
qed (use assms in \<open>simp add: long_ids_16_def\<close>)

lemmas calls_served = message_served file_served peer_served contact_served settings_served seed_served

section \<open>Starts\<close>

text \<open>A start that fails leaves the files of the stores as they were.\<close>

lemma InitP2P_fails:
  assumes "Node_InitP2P e L n = Some (False, n')"
  shows "start_frame n n'"
proof -
  define n1 where "n1 = n\<lparr>nd_adaptive := Some (NewAdaptiveParams (ev_now e)), nd_channels := NewChannelStore\<rparr>"
  define n2 where "n2 = snd (Node_loadState e L n1)"
  obtain n3 where n3: "Node_runE2ECleanupOnce L n2 = Some n3"
    using assms by (cases "Node_runE2ECleanupOnce L n2") (simp_all add: Node_InitP2P_def n1_def n2_def Let_def)
  obtain ok n5 where n5: "init_keys L (Node_loadPendingQueue L n3) = (ok, n5)" by fastforce
  obtain key n6 where n6: "init_identity L (open_stores L n5) = (key, n6)" by fastforce
  have "start_frame n2 n3" using n3 by (auto simp: Node_runE2ECleanupOnce_def Let_def start_frame_def write_file_def split: option.splits if_splits prod.splits)
  moreover have "start_frame n n2" using start_frames(1)[of n1 e L] by (simp add: n2_def n1_def start_frame_def)
  moreover have "start_frame n3 n5"
    using start_frames(2)[of n3 L] start_frames(3)[of "Node_loadPendingQueue L n3" L] n5 by (simp add: start_frame_def)
  ultimately have frame: "start_frame n n5" using start_frame_trans by blast
  have "start_frame n5 n6" using init_identity_frame[OF n6] by (auto simp: open_stores_def Let_def start_frame_def)
  then have "start_frame n n6" using frame start_frame_trans by blast
  moreover have "n' = n5 \<or> n' = n6"
    using assms n3 n5 n6 by (cases ok; cases "sl_host L key") (simp_all add: Node_InitP2P_def n1_def n2_def Let_def)
  ultimately show ?thesis using frame by auto
qed

lemma Start_served:
  assumes "app_inv sound_files s"
  shows "served sound_files (mobile_Start e M ethHash bootstrapPeers s)"
proof (cases "ap_node s")
  case None
  define L where "L = seeded (mb_seed M) (if ap_pendingSeedPhrase s \<noteq> [] then snd (Node_SetSeedPhrase (mb_seed M) (ap_pendingSeedPhrase s) []) else [])
      (state_file_lib M s)"
  define n0 where "n0 = node_on_files (mobile_config ethHash bootstrapPeers) (if ap_filesDir s = [] then ''.'' else ap_filesDir s) (ap_files s)"
  define n1 where "n1 = n0\<lparr>nd_adaptive := Some (NewAdaptiveParams (ev_now e)), nd_channels := NewChannelStore\<rparr>"
  have sound: "sound_files n1" "mem_inv (nd_memory n1)" "nd_unackedChunks n1 = []"
    using assms None by (simp_all add: n1_def n0_def node_on_files_def NewNode_def mem_inv_empty app_inv_def sound_files_def)
  have "sl_name L \<noteq> []" by (simp add: L_def seeded_def state_file_lib_def)
  then have start: "Node_StartMobile e L n0 = Node_InitP2P e L n1" by (simp add: Node_StartMobile_def n1_def)
  obtain ok n' where n': "Node_InitP2P e L n1 = Some (ok, n')" "ok \<longrightarrow> node_inv n'" using InitP2P_inv[OF sound, of e L] by blast
  show ?thesis
  proof (cases ok)
    case True
    with None n' start show ?thesis by (simp add: mobile_Start_def Let_def L_def[symmetric] n0_def[symmetric] served_def app_inv_def)
  next
    case False
    then have "sound_files n'" using InitP2P_fails[of e L n1 n'] n' sound(1) sound_files_frame[of n1 n'] by simp
    with False None n' start show ?thesis
      by (simp add: mobile_Start_def Let_def L_def[symmetric] n0_def[symmetric] served_def app_inv_def)
  qed
qed (use assms in \<open>simp add: mobile_Start_def served_def\<close>)

lemma Stop_node_inv: "node_inv n \<Longrightarrow> node_inv (Node_Stop e L n)"
  by (simp add: Node_Stop_def Node_saveState_def Node_savePendingQueue_def write_file_def Let_def node_inv_def Node_GetContact_def
      split: prod.split)

lemma Stop_served: "app_inv (\<lambda>_. True) s \<Longrightarrow> served (\<lambda>_. True) (mobile_Stop e M closes s)"
  by (auto simp: mobile_Stop_def Let_def served_def app_inv_def Stop_node_inv split: option.splits)

lemma NodeDoes_served: "app_inv P s \<Longrightarrow> \<not> panics x \<Longrightarrow> served P (api_step e M (NodeDoes x) s)"
proof (cases "ap_node s")
  case (Some n)
  assume "app_inv P s" "\<not> panics x"
  then obtain n' where "node_step e x n = Some n'" "node_inv n'" using node_step_inv[of n x e] Some by (auto simp: app_inv_def)
  with Some show ?thesis by (simp add: served_def app_inv_def)
qed (simp add: served_def)

lemma stopped_saves_served:
  assumes "app_inv P s" "\<And>f d. P f \<Longrightarrow> P (f\<lparr>nd_disk := d\<rparr>)"
  shows "app_inv P (stopped_saves e M i s)"
  using assms by (cases "ap_node s") (simp_all add: stopped_saves_def Let_def app_inv_def node_inv_def Node_GetContact_def)

definition is_start :: "api_call \<Rightarrow> bool" where
  "is_start c \<longleftrightarrow> (case c of DoStart _ _ \<Rightarrow> True | _ \<Rightarrow> False)"

definition is_stop :: "api_call \<Rightarrow> bool" where
  "is_stop c \<longleftrightarrow> (case c of DoStop _ \<Rightarrow> True | _ \<Rightarrow> False)"

definition call_fine :: "env \<Rightarrow> mobile_lib \<Rightarrow> api_call \<Rightarrow> bool" where
  "call_fine e M c \<longleftrightarrow> (case c of Table t \<Rightarrow> long_ids_16 e M t | NodeDoes x \<Rightarrow> \<not> panics x | _ \<Rightarrow> True)"

lemma other_served:
  assumes "app_inv P s" "\<And>f d. P f \<Longrightarrow> P (f\<lparr>nd_disk := d\<rparr>)" "\<not> is_start c" "\<not> is_stop c" "call_fine e M c"
  shows "served P (api_step e M c s)"
proof (cases c)
  case (NodeDoes x)
  then show ?thesis using NodeDoes_served[OF assms(1)] assms(5) by (simp add: call_fine_def)
next
  case (StoppedSaves i)
  then show ?thesis using stopped_saves_served[OF assms(1,2)] by (simp add: served_def)
next
  case (DoSetFilesDir dir existing)
  then show ?thesis using assms(1) by (cases dir) (simp_all add: served_def SetFilesDir_def Let_def ok_def)
next
  case (DoLog stamp msg)
  then show ?thesis using assms(1) by (simp add: served_def)
qed (use assms in \<open>simp_all add: calls_served table_served is_start_def is_stop_def call_fine_def\<close>)

text \<open>Before the first stop the files stay sound while no node runs; after it nothing is known of them.\<close>

interpretation before_stop: answering "\<lambda>(e, M, c). api_step e M c" "app_inv sound_files"
  "\<lambda>(e, M, c). \<not> is_stop c \<and> call_fine e M c" "\<lambda>x. x \<noteq> Crashed"
proof -
  have "served sound_files (api_step e M c s)" if "app_inv sound_files s" "\<not> is_stop c \<and> call_fine e M c" for s e M c
    using that Start_served[OF that(1)] other_served[OF that(1), of c e M]
    by (cases "is_start c") (auto simp: is_start_def sound_files_def split: api_call.splits)
  then show "answering (\<lambda>(e, M, c). api_step e M c) (app_inv sound_files) (\<lambda>(e, M, c). \<not> is_stop c \<and> call_fine e M c) (\<lambda>x. x \<noteq> Crashed)"
    by unfold_locales (auto simp: served_def)
qed

interpretation after_stop: answering "\<lambda>(e, M, c). api_step e M c" "app_inv (\<lambda>_. True)"
  "\<lambda>(e, M, c). \<not> is_start c \<and> call_fine e M c" "\<lambda>x. x \<noteq> Crashed"
proof -
  have "served (\<lambda>_. True) (api_step e M c s)" if "app_inv (\<lambda>_. True) s" "\<not> is_start c \<and> call_fine e M c" for s e M c
    using that Stop_served[OF that(1)] other_served[OF that(1), of c e M]
    by (cases "is_stop c") (auto simp: is_stop_def split: api_call.splits)
  then show "answering (\<lambda>(e, M, c). api_step e M c) (app_inv (\<lambda>_. True)) (\<lambda>(e, M, c). \<not> is_start c \<and> call_fine e M c) (\<lambda>x. x \<noteq> Crashed)"
    by unfold_locales (auto simp: served_def)
qed

section \<open>A session of the app\<close>

text \<open>C16.  A session of the app: it begins without a node, on sound files, starts a node any number of times
before the first stop and not after it.  Calls of the app, events of the node and saves of stopped nodes
come in any order, except that the app does not call \<open>Provide\<close>, the IDs of the DHT have at least 16
bytes, and no sync stream has a negative layer index.  Then no call panics, and the running node keeps its invariant.\<close>

theorem api_session_safe:
  assumes "ap_node s = None" "sound_files (ap_files s)"
    and "list_all (\<lambda>(e, M, c). \<not> is_stop c \<and> call_fine e M c) xs" "list_all (\<lambda>(e, M, c). \<not> is_start c \<and> call_fine e M c) ys"
  shows "Crashed \<notin> set (fst (api_run (xs @ ys) s)) \<and> (\<forall>n. ap_node (snd (api_run (xs @ ys) s)) = Some n \<longrightarrow> node_inv n)"
proof -
  obtain as s1 where xs: "api_run xs s = (as, s1)" by fastforce
  obtain bs s2 where ys: "api_run ys s1 = (bs, s2)" by fastforce
  have "app_inv sound_files s" using assms(1,2) by (simp add: app_inv_def)
  then have one: "Crashed \<notin> set as" "app_inv sound_files s1"
    using before_stop.serve_all_good[of s xs] assms(3) xs by (auto simp: api_run_def list_all_iff)
  then have "app_inv (\<lambda>_. True) s1" by (auto simp: app_inv_def split: option.splits)
  then have "Crashed \<notin> set bs" "app_inv (\<lambda>_. True) s2"
    using after_stop.serve_all_good[of s1 ys] assms(4) ys by (auto simp: api_run_def list_all_iff)
  with one xs ys show ?thesis by (auto simp: api_run_def serve_all_append app_inv_def)
qed

definition fresh_app :: app where
  "fresh_app = \<lparr>ap_node = None, ap_settings = \<lparr>sp_file = NoFile, sp_mixing = False\<rparr>, ap_relay = new_relay_part, ap_dht = None, ap_screenOn = True,
     ap_seedPhrase = [], ap_files = lost_phone, ap_stopped = [], ap_filesDir = [], ap_pendingSeedPhrase = [],
     ap_journal = \<lparr>jr_logs = [], jr_file = None\<rparr>\<rparr>"

definition example_send_lib :: send_lib where
  "example_send_lib = \<lparr>sd_contact_json = (\<lambda>_. []), sd_control_json = (\<lambda>t _. t), sd_hello_json = (\<lambda>_. []), sd_offer_json = (\<lambda>_. []),
     sd_meta_json = (\<lambda>_. []), sd_open = (\<lambda>_. None), sd_sent_dir = True, sd_files_dir = True, sd_copy = (\<lambda>_. Copied),
     sd_write_meta = True, sd_dummy = (\<lambda>_. None)\<rparr>"

definition example_mobile_lib :: mobile_lib where
  "example_mobile_lib = \<lparr>mb_send = example_send_lib, mb_state = example_lib, mb_seed = seed_example, mb_dht = \<lparr>dl_new = True, dl_table = [], dl_addrs = (\<lambda>_. []), dl_find = (\<lambda>_. None), dl_provide = True\<rparr>,
      mb_w_settings = WriteOk,
     mb_ifaces = None, mb_stored = []\<rparr>"

theorem api_session_safe_witness:
  "Crashed \<notin> set (fst (api_run
     [(quiet_env 10, example_mobile_lib, Contacts DoGetContacts), (quiet_env 11, example_mobile_lib, DoStart ''eth'' []),
      (quiet_env 12, example_mobile_lib, Messages (DoSendMessage ''hello'' ''never'' [])),
      (quiet_env 13, example_mobile_lib, DoStop True), (quiet_env 14, example_mobile_lib, Messages DoGetMessages)] fresh_app))"
  using api_session_safe[of fresh_app
    "[(quiet_env 10, example_mobile_lib, Contacts DoGetContacts), (quiet_env 11, example_mobile_lib, DoStart ''eth'' []),
      (quiet_env 12, example_mobile_lib, Messages (DoSendMessage ''hello'' ''never'' []))]"
    "[(quiet_env 13, example_mobile_lib, DoStop True), (quiet_env 14, example_mobile_lib, Messages DoGetMessages)]"]
  by (simp add: fresh_app_def lost_phone_def NewNode_def sound_files_def is_start_def is_stop_def call_fine_def)

section \<open>Without a node\<close>

text \<open>While no node runs, a call that is not about the start, the journal or the phrase changes nothing.\<close>

lemma without_node:
  assumes "ap_node s = None"
  shows "snd (message_step e M c1 s) = s" "snd (file_step e M c2 s) = s" "snd (peer_step e M c3 s) = s"
    "snd (contact_step e M c4 s) = s" "snd (settings_step e M c5 s) = s"
    "snd (table_step e M c6 s) = s"
  using assms
proof -
  show "snd (message_step e M c1 s) = s"
    using assms by (cases c1; simp add: mobile_GetStatus_def mobile_GetMessages_def mobile_SendMessage_def mobile_SendToPeer_def mobile_GetMessageStatuses_def
      mobile_SendRead_def mobile_SendReadBatch_def mobile_MarkReadLocally_def with_node_def read_node_def)
  show "snd (file_step e M c2 s) = s"
    using assms by (cases c2; simp add: mobile_SendVoice_def mobile_SendVoiceByPath_def mobile_SendPhoto_def mobile_SendPhotoByPath_def mobile_SendFileByPath_def
      mobile_GetChunk_def mobile_ClearChunkData_def mobile_FileAck_def mobile_DeleteFile_def mobile_GetFileStatuses_def
      mobile_SendFileComplete_def mobile_SendFileOffer_def mobile_SendFileAccept_def mobile_SendFileDecline_def
      mobile_SendFileCancel_def mobile_SendFileAbort_def mobile_GetAborted_def with_node_def read_node_def)
  show "snd (peer_step e M c3 s) = s"
    using assms by (cases c3; simp add: mobile_GetPeers_def mobile_GetMultiaddrs_def mobile_ConnectToPeer_def mobile_ConnectToPeerWithFallback_def
      mobile_Announce_def mobile_FindPeerByID_def mobile_FindPeersViaNetwork_def with_node_def read_node_def)
  show "snd (contact_step e M c4 s) = s"
    using assms by (cases c4; simp add: mobile_GetEd25519PublicKey_def mobile_GetX25519PublicKey_def mobile_GetMyQRData_def mobile_AddContact_def
      mobile_SetContactReadEnabled_def mobile_RenameContact_def mobile_RemoveContact_def mobile_GetContacts_def
      mobile_GetContact_def mobile_GetDeletedPeers_def mobile_RemoveFromDeleted_def mobile_SendContactHello_def
      mobile_SendContactRequest_def mobile_GetRequests_def mobile_AcceptRequestByID_def mobile_RejectRequestByID_def with_node_def
      read_node_def)
  show "snd (settings_step e M c5 s) = s"
    using assms by (cases c5; simp add: mobile_SetMyReadEnabled_def mobile_SetMyDisplayName_def mobile_SetShowNotificationContent_def mobile_SetSphinxEnabled_def
      mobile_SetMixingEnabled_def mobile_SetMaskingEnabled_def mobile_SetFileRequestThreshold_def mobile_SetTtl_def
      mobile_SetNotificationSettings_def mobile_SetDummyScreenOn_def mobile_GetMyReadEnabled_def
      mobile_GetShowNotificationContent_def mobile_GetSphinxEnabled_def mobile_GetMaskingEnabled_def mobile_GetMixingEnabled_def
      mobile_GetNotificationSettings_def mobile_GetMyDisplayName_def mobile_GetTtl_def mobile_GetFileRequestThreshold_def
      mobile_set_def with_node_def read_node_def)
  show "snd (table_step e M c6 s) = s"
    using assms by (cases c6; simp add: mobile_JoinDHT_def mobile_FindPeer_def mobile_Provide_def mobile_GetDHTInfo_def with_node_def)
qed

section \<open>The journal is bounded\<close>

lemma shortened_bound: "length (shortened msg) \<le> maxMsgLen + length (decimal (int (length msg))) + length (decimal (int (length msg - maxMsgLen))) + 64"
  by (simp add: shortened_def Let_def maxMsgLen_def)

lemma addLog_bound: "length (jr_logs j) \<le> 500 \<Longrightarrow> length (jr_logs (addLog stamp msg j)) \<le> 500"
  by (simp add: addLog_def Let_def)

lemma addLog_last: "last (jr_logs (addLog stamp msg j)) = stamp @ '' '' @ shortened msg"
  by (simp add: addLog_def Let_def)

section \<open>A peer that is only a relay on the way\<close>

text \<open>The address of a peer behind a relay has the ID of the relay in it, so it is given as the address of the relay.\<close>

lemma FindPeer_relay:
  assumes "ap_node s = Some n" "nd_host n \<noteq> None" "mb_stored M = [(p, [''/p2p/'' @ relay @ ''/p2p-circuit''])]"
    and "\<not> sublist ''127.0.0.1'' (''/p2p/'' @ relay @ ''/p2p-circuit/p2p/'' @ p)"
  shows "mobile_FindPeer e M relay s = (AddrsReply [''/p2p/'' @ relay @ ''/p2p-circuit/p2p/'' @ p], s)"
proof -
  have "sublist relay (''/p2p/'' @ relay @ ''/p2p-circuit/p2p/'' @ p)" by (rule sublist_appendI)
  moreover obtain me where "nd_host n = Some me" using assms(2) by blast
  ultimately show ?thesis using assms by (simp add: mobile_FindPeer_def with_node_def Node_GetKnownPeers_def outer_address_def)
qed


section \<open>A stopped node that goes on\<close>

text \<open>C34.  A stopped node destroys the state of the running one: its loops go on after \<open>Stop\<close>, and when
one of them saves the state, the next start loads the messages that the stopped node had, whatever the
running node has received and saved since.\<close>

theorem stopped_node_overwrites:
  assumes s: "ap_node s = Some n" "i < length (ap_stopped s)" "ap_stopped s ! i = z" "nd_dir z = dir_path dir"
    and laws: "state_laws e r (state_file_lib M s) (state_of e (state_file_lib M s) z)"
    and saved: "fst (Node_saveState e (state_file_lib M s) (z\<lparr>nd_disk := nd_disk n\<rparr>))"
    and msgs: "mem_inv (nd_memory z)" "\<forall>x \<in> set (Memory_GetAll (nd_memory z)). settled x" and later: "ev_now e \<le> ev_now r"
  shows "\<exists>n' m. ap_node (stopped_saves e M i s) = Some n' \<and>
    Node_loadState r (state_file_lib M s) (node_on_files cfg dir n') = (True, m) \<and>
    Memory_GetAll (nd_memory m) = map kept_message (filter (\<lambda>x. \<not> is_expired (ev_now r) x) (Memory_GetAll (nd_memory z)))"
proof -
  let ?L = "state_file_lib M s" and ?z = "z\<lparr>nd_disk := nd_disk n\<rparr>"
  obtain z' where z': "Node_saveState e ?L ?z = (True, z')" using saved by (cases "Node_saveState e ?L ?z") auto
  define n' where "n' = n\<lparr>nd_disk := nd_disk z'\<rparr>"
  have "state_of e ?L ?z = state_of e ?L z" by (simp add: state_of_def)
  moreover have "nd_dir z' = nd_dir z" using z' by (auto simp: Node_saveState_def write_file_def Let_def split: if_splits)
  ultimately obtain m where "Node_loadState r ?L (node_on_files cfg dir n') = (True, m)"
      "Memory_GetAll (nd_memory m) = map kept_message (filter (\<lambda>x. \<not> is_expired (ev_now r) x) (Memory_GetAll (nd_memory z)))"
    using saved_state_loads[of e r ?L ?z z' "node_on_files cfg dir n'"] laws z' msgs later s(4)
    by (auto simp: state_file_lib_def node_on_files_def NewNode_def n'_def)
  moreover have "ap_node (stopped_saves e M i s) = Some n'" using s(1-3) z' by (simp add: stopped_saves_def n'_def)
  ultimately show ?thesis by blast
qed

text \<open>The node of the first start is stopped; the one of the second start gets a message and saves it.\<close>

definition running_example :: node where
  "running_example = saved_example\<lparr>nd_memory := snd (Memory_Add 10 (kept_example ''d4'' ''new'' 0 0) (nd_memory saved_example))\<rparr>"

definition stopped_example :: app where
  "stopped_example = fresh_app\<lparr>ap_node := Some (snd (Node_saveState (quiet_env 10) (state_file_lib example_mobile_lib fresh_app) running_example)),
     ap_stopped := [saved_example]\<rparr>"

lemma saved_example_seen: "mem_seen (nd_memory saved_example) ''d4'' = None"
  by (simp add: saved_example_def add_all_def kept_example_def Memory_Add_def empty_memory_def is_expired_def After_def IsZero_def
      with_defaults_def Let_def)

theorem stopped_node_overwrites_witness:
  "\<exists>n n' m. ap_node stopped_example = Some n \<and> ''d4'' \<in> msg_ID ` set (Memory_GetAll (nd_memory n)) \<and>
    ap_node (stopped_saves (quiet_env 11) example_mobile_lib 0 stopped_example) = Some n' \<and>
    Node_loadState (quiet_env 20) (state_file_lib example_mobile_lib stopped_example) (node_on_files (mobile_config [] []) ''.'' n') = (True, m) \<and>
    ''d4'' \<notin> msg_ID ` set (Memory_GetAll (nd_memory m))"
proof -
  let ?n = "snd (Node_saveState (quiet_env 10) (state_file_lib example_mobile_lib fresh_app) running_example)"
  let ?L = "state_file_lib example_mobile_lib stopped_example"
  have L: "?L = example_lib\<lparr>sl_name := ''isotope_state.json'', sl_settings_file := NoFile\<rparr>"
    by (simp add: state_file_lib_def example_mobile_lib_def stopped_example_def fresh_app_def)
  have app: "ap_node stopped_example = Some ?n" "ap_stopped stopped_example = [saved_example]" by (simp_all add: stopped_example_def)
  have dir: "nd_dir saved_example = dir_path ''.''" by (simp add: saved_example_def NewNode_def dir_path_def)
  have laws: "state_laws (quiet_env 11) (quiet_env 20) ?L (state_of (quiet_env 11) ?L saved_example)"
    unfolding L by (simp add: state_laws_def gcm_law_def state_of_def example_lib_def gzip_magic_def saved_example_messages)
      (simp add: kept_example_def is_expired_def After_def IsZero_def saved_example_def)
  have saved: "fst (Node_saveState (quiet_env 11) ?L (saved_example\<lparr>nd_disk := nd_disk ?n\<rparr>))"
    unfolding L by (simp add: Node_saveState_def write_file_def example_lib_def Let_def)
  have inv: "mem_inv (nd_memory saved_example)" unfolding saved_example_def using add_all_inv[OF mem_inv_empty] by simp
  have set: "\<forall>x \<in> set (Memory_GetAll (nd_memory saved_example)). settled x"
    by (auto simp: saved_example_messages settled_def kept_example_def)
  obtain n' m where "ap_node (stopped_saves (quiet_env 11) example_mobile_lib 0 stopped_example) = Some n'"
      "Node_loadState (quiet_env 20) ?L (node_on_files (mobile_config [] []) ''.'' n') = (True, m)"
      "Memory_GetAll (nd_memory m) = map kept_message (filter (\<lambda>x. \<not> is_expired 20 x) (Memory_GetAll (nd_memory saved_example)))"
    using stopped_node_overwrites[of stopped_example ?n 0 saved_example "''.''" "quiet_env 11" "quiet_env 20" example_mobile_lib
      "mobile_config [] []"] app dir laws saved inv set by auto
  moreover have "''d4'' \<in> msg_ID ` set (Memory_GetAll (nd_memory ?n))"
    by (simp add: Node_saveState_def running_example_def Memory_Add_def Memory_GetAll_def kept_example_def Let_def
        is_expired_def IsZero_def saved_example_seen split: prod.split)
  ultimately show ?thesis
    using app by (intro exI[of _ ?n] exI[of _ n'] exI[of _ m]) (auto simp: saved_example_messages kept_example_def kept_message_def clear_text_def)
qed

end
