(* ===== verification/Onion.thy ===== *)
theory Onion
  imports Sphinx ServiceSpec
begin

text \<open>
  The onion packets of node/sphinx.go on the streams of node/node_p2p.go.  In the other theories
  the packet of a message, the peeling of a layer and the payload are the fields
  \<open>ev_sphinx_packet\<close>, \<open>ev_sphinx_process\<close> and \<open>ev_sphinx_extract\<close> of the environment; here they are
  the functions of the theory \<open>Sphinx\<close>, with the contacts, the weights and the private key of
  the node.
\<close>

section \<open>The environment of a node with onion packets\<close>

lemma string_bytes_string [simp]: "string_bytes (bytes_string b) = b"
proof -
  have "(of_char (char_of (unat w) :: char) :: byte) = w" for w :: byte
  proof -
    have "unat w < 2 ^ LENGTH(8)" by (rule unsigned_less)
    then have "unat (of_char (char_of (unat w) :: char) :: byte) = unat w" by (simp add: unat_of_char)
    then show ?thesis by (simp add: word_unat_eq_iff)
  qed
  then show ?thesis by (simp add: string_bytes_def bytes_string_def map_idI)
qed

text \<open>The route and the packet of \<open>sendViaSphinx\<close>: the first relay and the bytes to send.\<close>

definition onion_packet ::
  "sphinx_crypto \<Rightarrow> (draw \<Rightarrow> nat \<Rightarrow> bytes option) \<Rightarrow> (nat \<Rightarrow> nat list) \<Rightarrow> (bytes \<times> bytes) option \<Rightarrow> env \<Rightarrow> node \<Rightarrow>
     message \<Rightarrow> (string \<times> string) option" where
  "onion_packet C rand perm keygen e n m =
     (case cr_peer_Decode C (msg_Recipient m) of
        None \<Rightarrow> None
      | Some recipient \<Rightarrow>
          (case Node_buildSphinxRoute C (nd_contacts n) (\<lambda>p. Node_getPeerWeight p n) perm keygen recipient of
             Inl err \<Rightarrow> None
           | Inr route \<Rightarrow>
               (case Node_buildSphinxPacket C rand route (string_bytes (ev_marshal e m)) (msg_MixingEnabled m)
                       (msg_MediaType m = ''dummy'') of
                  Inl err \<Rightarrow> None
                | Inr packet \<Rightarrow> Some (cr_peer_String C (sr_Relays route ! 0), bytes_string packet))))"

text \<open>
  The text of a dummy: \<open>r\<close> is \<open>rand.Intn(maxLen - minLen + 1)\<close>, \<open>picks\<close> the indexes of the letters.
\<close>

definition dummy_chars :: string where
  "dummy_chars = ''abcdefghijklmnopqrstuvwxyzABCDEFGHIJKLMNOPQRSTUVWXYZ0123456789 .,!?''"

definition generateRandomText :: "nat \<Rightarrow> nat \<Rightarrow> (nat \<Rightarrow> nat) \<Rightarrow> string" where
  "generateRandomText minLen r picks = map (\<lambda>i. dummy_chars ! picks i) [0..<minLen + r]"

text \<open>The route and the packet of \<open>sendDummy\<close> for the contact \<open>p\<close>.\<close>

definition onion_dummy ::
  "sphinx_crypto \<Rightarrow> (draw \<Rightarrow> nat \<Rightarrow> bytes option) \<Rightarrow> (nat \<Rightarrow> nat list) \<Rightarrow> (bytes \<times> bytes) option \<Rightarrow> node \<Rightarrow>
     nat \<Rightarrow> (nat \<Rightarrow> nat) \<Rightarrow> string \<Rightarrow> (string \<times> string) option" where
  "onion_dummy C rand perm keygen n r picks p =
     (case cr_peer_Decode C p of
        None \<Rightarrow> None
      | Some recipient \<Rightarrow>
          (case Node_buildSphinxRoute C (nd_contacts n) (\<lambda>p. Node_getPeerWeight p n) perm keygen recipient of
             Inl err \<Rightarrow> None
           | Inr route \<Rightarrow>
               (case Node_buildSphinxPacket C rand route (string_bytes (generateRandomText 50 r picks)) False True of
                  Inl err \<Rightarrow> None
                | Inr packet \<Rightarrow> Some (cr_peer_String C (sr_Relays route ! 0), bytes_string packet))))"

definition onion_peel :: "sphinx_crypto \<Rightarrow> node \<Rightarrow> string \<Rightarrow> (string \<times> bool \<times> bool \<times> string) option" where
  "onion_peel C n raw =
     (case Node_processSphinxPacket C (string_bytes (nd_x25519Priv n)) (string_bytes raw) of
        Inl err \<Rightarrow> None
      | Inr (nextPeer, mixing, dummy, remainder) \<Rightarrow>
          Some (cr_peer_String C nextPeer, mixing, dummy, bytes_string remainder))"

definition onion_extract :: "sphinx_crypto \<Rightarrow> node \<Rightarrow> string \<Rightarrow> string option" where
  "onion_extract C n raw =
     (case Node_extractSphinxPayload C (string_bytes (nd_x25519Priv n)) (string_bytes raw) of
        Inl err \<Rightarrow> None
      | Inr payload \<Rightarrow> Some (bytes_string payload))"

definition peel_env :: "sphinx_crypto \<Rightarrow> node \<Rightarrow> env \<Rightarrow> env" where
  "peel_env C n e =
     e\<lparr>ev_Decode := (\<lambda>s. cr_peer_Decode C s \<noteq> None), ev_sphinx_process := onion_peel C n,
       ev_sphinx_extract := onion_extract C n\<rparr>"

definition onion_env ::
  "sphinx_crypto \<Rightarrow> (draw \<Rightarrow> nat \<Rightarrow> bytes option) \<Rightarrow> (nat \<Rightarrow> nat list) \<Rightarrow> (bytes \<times> bytes) option \<Rightarrow> node \<Rightarrow> env \<Rightarrow> env" where
  "onion_env C rand perm keygen n e = (peel_env C n e)\<lparr>ev_sphinx_packet := onion_packet C rand perm keygen e n\<rparr>"

section \<open>What is promised of a packet on its way\<close>

text \<open>
  Standard base64: it decodes what it encodes, its alphabet has no white space, and it writes four
  characters for every three bytes begun.
\<close>

definition line_law :: "env \<Rightarrow> bool" where
  "line_law e \<longleftrightarrow> base64_law e \<and>
     (\<forall>b. list_all (\<lambda>c. \<not> ascii_space c) (ev_base64 e b) \<and> length (ev_base64 e b) \<le> 2 * length b + 4)"

definition same_codec :: "env \<Rightarrow> env \<Rightarrow> bool" where
  "same_codec e e' \<longleftrightarrow> ev_base64 e' = ev_base64 e \<and> ev_base64_decode e' = ev_base64_decode e \<and>
     ev_unmarshal e' = ev_unmarshal e"

text \<open>
  Whatever the clock and the network of the relay do, and however the stream is cut: the relay
  writes the one line to the next peer when it reaches it without a circuit, and nothing
  otherwise.
\<close>

definition passes_on :: "sphinx_crypto \<Rightarrow> env \<Rightarrow> node \<Rightarrow> string \<Rightarrow> string \<Rightarrow> string \<Rightarrow> bool" where
  "passes_on C e n line nextPeer line' \<longleftrightarrow>
     (\<forall>e' reads remote. same_codec e e' \<longrightarrow> concat reads = line @ [newline] \<longrightarrow>
        Node_handleStream (peel_env C n e') reads remote n =
          Some ([], case direct_reachable (peel_env C n e') nextPeer n of
            (reachable, n1) \<Rightarrow>
              if reachable \<and> ev_line e' nextPeer line'
              then n1\<lparr>nd_lines := nd_lines n1 @ [(nextPeer, line')]\<rparr> else n1))"

text \<open>
  The recipient first tries to peel the packet as a relay does.  It starts with the ephemeral
  key, so unless those bytes happen to verify as a layer, the recipient handles the message.
\<close>

definition arrives_as :: "sphinx_crypto \<Rightarrow> env \<Rightarrow> bytes \<Rightarrow> node \<Rightarrow> string \<Rightarrow> message \<Rightarrow> bool" where
  "arrives_as C e eph n line m \<longleftrightarrow>
     (\<exists>raw. line = SPHINX_PREFIX @ ev_base64 e raw \<and> take 32 (string_bytes raw) = eph \<and>
        (\<forall>e' reads remote. same_codec e e' \<longrightarrow> concat reads = line @ [newline] \<longrightarrow> onion_peel C n raw = None \<longrightarrow>
           Node_handleStream (peel_env C n e') reads remote n =
             Some ([], if nd_host n = Some (msg_Recipient m)
                       then Node_handleSphinxReplicaMsg (peel_env C n e') m n else n)))"

section \<open>Lines with packets\<close>

lemma line_lawD:
  assumes "line_law e"
  shows "ev_base64_decode e (ev_base64 e b) = Some b" "\<forall>c \<in> set (ev_base64 e b). \<not> ascii_space c"
    "length (ev_base64 e b) \<le> 2 * length b + 4"
  using assms by (simp_all add: line_law_def base64_law_def list_all_iff)

lemma TrimSpace_no_space: "\<forall>c \<in> set s. \<not> ascii_space c \<Longrightarrow> strings_TrimSpace s = s"
  by (cases "s = []") (simp_all add: strings_TrimSpace_id, simp add: strings_TrimSpace_def)

lemma sphinx_line_read:
  assumes law: "line_law e" and reads: "concat reads = (SPHINX_PREFIX @ ev_base64 e raw) @ [newline]"
    and size: "length raw \<le> 66272"
  shows "stream_message reads = SPHINX_PREFIX @ ev_base64 e raw"
proof -
  let ?l = "SPHINX_PREFIX @ ev_base64 e raw"
  have sp: "\<forall>c \<in> set ?l. \<not> ascii_space c"
    using line_lawD(2)[OF law] by (auto simp: SPHINX_PREFIX_def ascii_space_def)
  have nl: "newline \<notin> set ?l" using sp by (auto simp: ascii_space_def)
  have "length ?l < 4 * 1024 * 1024"
    using line_lawD(3)[OF law, of raw] size by (simp add: SPHINX_PREFIX_def)
  then have "read_stream reads [] = ?l @ [newline]"
    using read_stream_line[OF nl _ reads, of "[]"] by simp
  moreover have "?l \<noteq> []" by (simp add: SPHINX_PREFIX_def)
  ultimately show ?thesis
    using sp unfolding stream_message_def by (metis strings_TrimSpace_newline hd_in_set last_in_set)
qed

lemma sphinx_line_handled:
  assumes law: "line_law e" and same: "ev_base64 e' = ev_base64 e" "ev_base64_decode e' = ev_base64_decode e"
    and reads: "concat reads = (SPHINX_PREFIX @ ev_base64 e raw) @ [newline]" and size: "length raw \<le> 66272"
  shows "Node_handleStream e' reads remote n = Some ([], receive_sphinx e' (ev_base64 e raw) n)"
    "ev_base64_decode e' (strings_TrimSpace (ev_base64 e raw)) = Some raw"
  using sphinx_line_read[OF law reads size] same line_lawD(1)[OF law] TrimSpace_no_space[OF line_lawD(2)[OF law]]
  by (simp_all add: Node_handleStream_def line_prefixes TrimPrefix_def)

lemma peel_env_simps [simp]:
  "ev_sphinx_process (peel_env C n e) = onion_peel C n" "ev_sphinx_extract (peel_env C n e) = onion_extract C n"
  "ev_base64 (peel_env C n e) = ev_base64 e" "ev_base64_decode (peel_env C n e) = ev_base64_decode e"
  "ev_unmarshal (peel_env C n e) = ev_unmarshal e" "ev_line (peel_env C n e) = ev_line e"
  by (simp_all add: peel_env_def)

lemma relay_passes_on:
  assumes law: "line_law e" and size: "length p \<le> 66272"
    and peel: "Node_processSphinxPacket C (string_bytes (nd_x25519Priv n)) p = Inr (nextPeer, mixing, dummy, p')"
  shows "passes_on C e n (SPHINX_PREFIX @ ev_base64 e (bytes_string p)) (cr_peer_String C nextPeer)
    (SPHINX_PREFIX @ ev_base64 e (bytes_string p'))"
  unfolding passes_on_def
proof (intro allI impI)
  fix e' reads remote
  assume same: "same_codec e e'" and reads: "concat reads = (SPHINX_PREFIX @ ev_base64 e (bytes_string p)) @ [newline]"
  have size': "length (bytes_string p) \<le> 66272" using size by (simp add: bytes_string_def)
  have peel': "onion_peel C n (bytes_string p) = Some (cr_peer_String C nextPeer, mixing, dummy, bytes_string p')"
    using peel by (simp add: onion_peel_def)
  have codec: "ev_base64 (peel_env C n e') = ev_base64 e" "ev_base64_decode (peel_env C n e') = ev_base64_decode e"
    using same by (simp_all add: same_codec_def)
  show "Node_handleStream (peel_env C n e') reads remote n =
      Some ([], case direct_reachable (peel_env C n e') (cr_peer_String C nextPeer) n of (reachable, n1) \<Rightarrow>
        if reachable \<and> ev_line e' (cr_peer_String C nextPeer) (SPHINX_PREFIX @ ev_base64 e (bytes_string p'))
        then n1\<lparr>nd_lines := nd_lines n1 @ [(cr_peer_String C nextPeer, SPHINX_PREFIX @ ev_base64 e (bytes_string p'))]\<rparr>
        else n1)"
    using sphinx_line_handled[OF law codec reads size'] codec(1)
    by (simp add: receive_sphinx_def peel' Let_def split: prod.split bool.split)
qed

lemma recipient_handles:
  assumes law: "line_law e" and size: "length p \<le> 66272"
    and payload: "Node_extractSphinxPayload C (string_bytes (nd_x25519Priv n)) p = Inr (string_bytes payload)"
    and json: "ev_unmarshal e payload = Some m" and eph: "take 32 p = eph"
  shows "arrives_as C e eph n (SPHINX_PREFIX @ ev_base64 e (bytes_string p)) m"
  unfolding arrives_as_def
proof (intro exI conjI allI impI)
  fix e' reads remote
  assume same: "same_codec e e'" and reads: "concat reads = (SPHINX_PREFIX @ ev_base64 e (bytes_string p)) @ [newline]"
    and "onion_peel C n (bytes_string p) = None"
  have size': "length (bytes_string p) \<le> 66272" using size by (simp add: bytes_string_def)
  have codec: "ev_base64 (peel_env C n e') = ev_base64 e" "ev_base64_decode (peel_env C n e') = ev_base64_decode e"
    and um: "ev_unmarshal e' payload = Some m"
    using same json by (simp_all add: same_codec_def)
  have ex: "onion_extract C n (bytes_string p) = Some payload"
    using payload by (simp add: onion_extract_def)
  show "Node_handleStream (peel_env C n e') reads remote n =
      Some ([], if nd_host n = Some (msg_Recipient m) then Node_handleSphinxReplicaMsg (peel_env C n e') m n else n)"
    using sphinx_line_handled[OF law codec reads size'] \<open>onion_peel C n (bytes_string p) = None\<close>
    by (simp add: receive_sphinx_def ex um)
qed (use eph in simp_all)

lemma direct_reachable_lines: "direct_reachable e p n = (b, n') \<Longrightarrow> nd_lines n' = nd_lines n"
  by (auto simp: direct_reachable_def Node_FindPeerByID_def Node_lookupPeer_def split: if_splits option.splits)

lemma sendViaSphinxE:
  assumes "Node_sendViaSphinx e m n = (True, n')"
  obtains relay1 packet where "ev_sphinx_packet e m = Some (relay1, packet)"
    "nd_lines n' = nd_lines n @ [(relay1, SPHINX_PREFIX @ ev_base64 e packet)]"
  using assms
  by (auto simp: Node_sendViaSphinx_def Let_def dest: direct_reachable_lines split: if_splits option.splits prod.splits bool.splits)

lemma onion_packetE:
  assumes "onion_packet C rand perm keygen e n m = Some (relay1, packet)"
  obtains recipient route p where "cr_peer_Decode C (msg_Recipient m) = Some recipient"
    "Node_buildSphinxRoute C (nd_contacts n) (\<lambda>p. Node_getPeerWeight p n) perm keygen recipient = Inr route"
    "Node_buildSphinxPacket C rand route (string_bytes (ev_marshal e m)) (msg_MixingEnabled m) (msg_MediaType m = ''dummy'') = Inr p"
    "relay1 = cr_peer_String C (sr_Relays route ! 0)" "packet = bytes_string p"
  using assms by (auto simp: onion_packet_def split: option.splits sum.splits)

lemma built_route_shape:
  assumes "Node_buildSphinxRoute C contacts weight perm (Some (pub, priv)) recipient = Inr route"
  shows "length (sr_Relays route) = 2" "sr_Ephemeral route = pub"
  using assms
  by (auto simp: Node_buildSphinxRoute_def Node_selectSphinxRelays_def Let_def split: if_splits sum.splits option.splits)

lemma built_packet_sizes:
  assumes laws: "crypto_laws C" "rand_full rand" and eph: "length pub = 32"
    and route: "Node_buildSphinxRoute C contacts weight perm (Some (pub, priv)) recipient = Inr route"
    and pkt: "Node_buildSphinxPacket C rand route payload mixing dummy = Inr p"
  shows "length p = 66272 \<and> length payload \<le> 65532"
proof
  show "length p = 66272"
    using length_packet[OF laws _ _ pkt] built_route_shape[OF route] eph by simp
  show "length payload \<le> 65532" by (rule buildSphinxPacketE[OF pkt])
qed

lemma length_generateRandomText [simp]: "length (generateRandomText k r picks) = k + r"
  by (simp add: generateRandomText_def)

section \<open>Properties\<close>

text \<open>C19.  The size of a packet that is handed to the first relay tells nothing: with a message and as a dummy it
  has exactly 66272 bytes, whatever the length of the message, and a message whose JSON is longer than 65532
  bytes does not go out as a packet.  (Each relay takes off its layer, so on the later hops packets are shorter.)\<close>

theorem packets_look_alike:
  assumes laws: "crypto_laws C" "rand_full rand" and eph: "length pub = 32"
    and message: "onion_packet C rand perm (Some (pub, priv)) e n m = Some (relay1, packet)"
    and dummy: "onion_dummy C rand' perm' (Some (pub, priv)) n r picks p = Some (relay1', packet')" "rand_full rand'"
  shows "length packet = 66272 \<and> length packet' = length packet \<and> length (ev_marshal e m) \<le> 65532"
proof -
  from message obtain recipient route x where x:
      "Node_buildSphinxRoute C (nd_contacts n) (\<lambda>p. Node_getPeerWeight p n) perm (Some (pub, priv)) recipient = Inr route"
      "Node_buildSphinxPacket C rand route (string_bytes (ev_marshal e m)) (msg_MixingEnabled m) (msg_MediaType m = ''dummy'') = Inr x"
      "packet = bytes_string x" by (rule onion_packetE)
  from dummy(1) obtain recipient' route' y where y:
      "Node_buildSphinxRoute C (nd_contacts n) (\<lambda>p. Node_getPeerWeight p n) perm' (Some (pub, priv)) recipient' = Inr route'"
      "Node_buildSphinxPacket C rand' route' (string_bytes (generateRandomText 50 r picks)) False True = Inr y"
      "packet' = bytes_string y" by (auto simp: onion_dummy_def split: option.splits sum.splits)
  show ?thesis
    using built_packet_sizes[OF laws eph x(1,2)] built_packet_sizes[OF laws(1) dummy(2) eph y(1,2)] x(3) y(3)
    by (simp add: bytes_string_def)
qed

text \<open>C7.  A message that goes out as an onion packet can travel over two relays to its recipient: the sender writes
  one line, to the first relay.  A relay that gets its line, however the stream is cut, writes one line to the
  next peer when it reaches that peer directly and the write succeeds, and no line otherwise.  A recipient that
  gets its line handles exactly the message that was sent, provided that the node is the one the message is
  addressed to and that the ephemeral key in front of the packet does not verify as a layer for it.\<close>

theorem onion_delivers:
  assumes laws: "crypto_laws C" "dh_laws C pub" "rand_full rand" "line_law e"
    and contacts: "nd_contacts s = Some cs"
      "announced_keys C pub (\<lambda>p. string_bytes (nd_x25519Priv (net (cr_peer_String C p)))) cs"
    and recipient: "cr_peer_Decode C (msg_Recipient m) = Some q" "cr_peer_String C q = msg_Recipient m"
    and json: "ev_unmarshal e (ev_marshal e m) = Some m"
    and sent: "Node_sendViaSphinx (onion_env C rand perm (Some (pub x, x)) s e) m s = (True, s')"
  shows "\<exists>p1 p2 l1 l2 l3. nd_lines s' = nd_lines s @ [(p1, l1)] \<and>
    passes_on C e (net p1) l1 p2 l2 \<and> passes_on C e (net p2) l2 (msg_Recipient m) l3 \<and>
    arrives_as C e (pub x) (net (msg_Recipient m)) l3 m"
proof -
  from sent obtain relay1 packet where
      out: "ev_sphinx_packet (onion_env C rand perm (Some (pub x, x)) s e) m = Some (relay1, packet)"
      "nd_lines s' = nd_lines s @ [(relay1, SPHINX_PREFIX @ ev_base64 e packet)]"
    by (rule sendViaSphinxE) (simp add: onion_env_def)
  from out(1) have "onion_packet C rand perm (Some (pub x, x)) e s m = Some (relay1, packet)"
    by (simp add: onion_env_def)
  then obtain r route pkt where b: "cr_peer_Decode C (msg_Recipient m) = Some r"
      "Node_buildSphinxRoute C (nd_contacts s) (\<lambda>p. Node_getPeerWeight p s) perm (Some (pub x, x)) r = Inr route"
      "Node_buildSphinxPacket C rand route (string_bytes (ev_marshal e m)) (msg_MixingEnabled m) (msg_MediaType m = ''dummy'') = Inr pkt"
      "relay1 = cr_peer_String C (sr_Relays route ! 0)" "packet = bytes_string pkt"
    by (rule onion_packetE)
  from b(1) recipient have r: "cr_peer_String C r = msg_Recipient m" by simp
  obtain r1 r2 p2 p3 where p: "sr_Relays route = [r1, r2]"
      "Node_processSphinxPacket C (string_bytes (nd_x25519Priv (net (cr_peer_String C r1)))) pkt =
         Inr (r2, msg_MixingEnabled m, msg_MediaType m = ''dummy'', p2)"
      "Node_processSphinxPacket C (string_bytes (nd_x25519Priv (net (cr_peer_String C r2)))) p2 =
         Inr (r, msg_MixingEnabled m, msg_MediaType m = ''dummy'', p3)"
      "Node_extractSphinxPayload C (string_bytes (nd_x25519Priv (net (cr_peer_String C r)))) p3 = Inr (string_bytes (ev_marshal e m))"
      "length pkt = 66272" "length p2 = 65994" "length p3 = 65716" "take 32 p3 = pub x"
    by (rule packet_peels[OF laws(1-3) contacts(2) b(2)[unfolded contacts(1)] b(3)])
  let ?line = "\<lambda>p. SPHINX_PREFIX @ ev_base64 e (bytes_string p)"
  have "nd_lines s' = nd_lines s @ [(cr_peer_String C r1, ?line pkt)]" using out(2) b(4,5) p(1) by simp
  moreover have "passes_on C e (net (cr_peer_String C r1)) (?line pkt) (cr_peer_String C r2) (?line p2)"
    by (rule relay_passes_on[OF laws(4) _ p(2)]) (simp add: p(5))
  moreover have "passes_on C e (net (cr_peer_String C r2)) (?line p2) (msg_Recipient m) (?line p3)"
    unfolding r[symmetric] by (rule relay_passes_on[OF laws(4) _ p(3)]) (simp add: p(6))
  moreover have "arrives_as C e (pub x) (net (msg_Recipient m)) (?line p3) m"
    by (rule recipient_handles[OF laws(4) _ _ json p(8)]) (use p(4,7) r in simp_all)
  ultimately show ?thesis by blast
qed

section \<open>A network for the witness\<close>

text \<open>Two letters for every byte, in the place of base64.\<close>

definition nibbles :: "string \<Rightarrow> string" where
  "nibbles s = concat (map (\<lambda>c. [char_of (65 + of_char c div 16 :: nat), char_of (65 + of_char c mod 16 :: nat)]) s)"

fun unnibbles :: "string \<Rightarrow> string option" where
  "unnibbles [] = Some []"
| "unnibbles [a] = None"
| "unnibbles (a # b # s) = map_option ((#) (char_of ((of_char a - 65) * 16 + (of_char b - 65) :: nat))) (unnibbles s)"

lemma nibble_bounds: "(of_char c :: nat) div 16 < 16" "(of_char c :: nat) mod 16 < 16"
  using nat_of_char_less_256[of c] by (simp_all add: less_mult_imp_div_less)

lemma nibble_value: "k < 16 \<Longrightarrow> (of_char (char_of (65 + k :: nat) :: char) :: nat) = 65 + k"
  by simp

lemma unnibbles_nibbles: "unnibbles (nibbles s) = Some s"
proof (induction s)
  case (Cons c s)
  have "unnibbles (nibbles (c # s)) =
      map_option ((#) (char_of (of_char c div 16 * 16 + of_char c mod 16 :: nat))) (unnibbles (nibbles s))"
    using nibble_bounds[of c] by (simp add: nibbles_def nibble_value del: of_char_of)
  with Cons.IH show ?case by (simp add: div_mult_mod_eq)
qed (simp add: nibbles_def)

lemma nibbles_no_space: "\<forall>x \<in> set (nibbles s). \<not> ascii_space x"
proof
  fix x assume "x \<in> set (nibbles s)"
  then obtain c where "x = char_of (65 + of_char c div 16 :: nat) \<or> x = char_of (65 + of_char c mod 16 :: nat)"
    by (auto simp: nibbles_def)
  then obtain k where "k < 16" "(of_char x :: nat) = 65 + k" using nibble_value nibble_bounds[of c] by metis
  then show "\<not> ascii_space x" by (auto simp: ascii_space_def)
qed

definition onion_message :: message where
  "onion_message = zero_message\<lparr>msg_ID := ''m'', msg_Sender := ''ps'', msg_Recipient := ''pr'', msg_MixingEnabled := True\<rparr>"

definition wire_env :: env where
  "wire_env = (quiet_env 1)\<lparr>ev_base64 := nibbles, ev_base64_decode := unnibbles, ev_Peerstore := \<lambda>_. [''a''],
     ev_line := \<lambda>_ _. True, ev_unmarshal := \<lambda>s. if s = ''m'' then Some onion_message else None\<rparr>"

definition onion_node :: "string \<Rightarrow> node" where
  "onion_node p = (NewNode \<lparr>cf_EthHash = [], cf_Bootstrap = [], cf_EnableRelayServer = False, cf_IsRelay = False,
       cf_UseOnion = True\<rparr> Map.empty)
     \<lparr>nd_host := Some p, nd_contacts := Some demo_contacts, nd_x25519Priv := CHR ''k'' # replicate 31 (CHR 0x00)\<rparr>"

lemma wire_line_law: "line_law wire_env"
  using nibbles_no_space
  by (simp add: line_law_def base64_law_def wire_env_def unnibbles_nibbles list_all_iff)
     (simp add: nibbles_def length_concat comp_def sum_list_triv)

lemma onion_announced:
  "announced_keys demo_crypto (padded 32) (\<lambda>p. string_bytes (nd_x25519Priv (onion_node (cr_peer_String demo_crypto p)))) demo_contacts"
proof -
  have "padded 32 (string_bytes (CHR ''k'' # replicate 31 (CHR 0x00))) = padded 32 (string_bytes ''k'')"
    by (simp add: padded_def string_bytes_def numeral_eq_Suc)
  then show ?thesis using demo_announced by (simp add: announced_keys_def onion_node_def)
qed

lemma onion_route:
  assumes "\<And>p. 1 / 2 \<le> weight p"
  shows "\<exists>route. Node_buildSphinxRoute demo_crypto (Some demo_contacts) weight (\<lambda>n. [0..<n]) (Some (padded 32 [], [])) ''r'' = Inr route \<and>
     sr_Relays route = [''a'', ''b'']"
proof -
  have "\<not> weight p < 1 / 2" for p using assms[of p] by simp
  then have "Node_selectSphinxRelays demo_crypto (Some demo_contacts) weight (\<lambda>n. [0..<n]) ''r'' = [''a'', ''b'']"
    by (simp add: Node_selectSphinxRelays_def trusted_peers_def trusted_relay_def Let_def ContactsStore_GetAll_def
      demo_contacts_def sample_contact_def demo_crypto_def List.map_filter_simps)
  moreover obtain ka kb kr where "contact_key demo_crypto demo_contacts [] ''a'' = Inr ka"
    "contact_key demo_crypto demo_contacts [] ''b'' = Inr kb" "contact_key demo_crypto demo_contacts [] ''r'' = Inr kr"
    using demo_keys by (metis insertI1 insertI2)
  ultimately show ?thesis by (simp add: Node_buildSphinxRoute_def)
qed

definition onion_sender_env :: env where
  "onion_sender_env = onion_env demo_crypto demo_rand (\<lambda>n. [0..<n]) (Some (padded 32 [], [])) (onion_node ''ps'') wire_env"

lemma demo_Decode: "cr_peer_Decode demo_crypto ''pr'' = Some ''r''" "cr_peer_String demo_crypto ''r'' = ''pr''"
  by (simp_all add: demo_crypto_def)

lemma onion_demo_route:
  "\<exists>route. Node_buildSphinxRoute demo_crypto (nd_contacts (onion_node p)) (\<lambda>q. Node_getPeerWeight q (onion_node p))
     (\<lambda>n. [0..<n]) (Some (padded 32 [], [])) ''r'' = Inr route \<and> sr_Relays route = [''a'', ''b''] \<and>
     (\<forall>payload mixing dummy. length payload \<le> 65532 \<longrightarrow>
        (\<exists>pkt. Node_buildSphinxPacket demo_crypto demo_rand route payload mixing dummy = Inr pkt))"
proof -
  let ?w = "\<lambda>q. Node_getPeerWeight q (onion_node p)"
  have "1 / 2 \<le> ?w q" for q
    by (simp add: Node_getPeerWeight_def onion_node_def Memory_GetMessagesFrom_def empty_memory_def)
  then obtain route where route: "Node_buildSphinxRoute demo_crypto (Some demo_contacts) ?w
      (\<lambda>n. [0..<n]) (Some (padded 32 [], [])) ''r'' = Inr route" and rel: "sr_Relays route = [''a'', ''b'']"
    using onion_route[of ?w] by blast
  have r: "sr_Recipient route = ''r''" "length (sr_Keys route) = 3"
    by (rule built_route[OF demo_announced demo_laws(2) route], simp)+
  have "\<exists>pkt. Node_buildSphinxPacket demo_crypto demo_rand route payload mixing dummy = Inr pkt" if "length payload \<le> 65532"
    for payload mixing dummy
    using packet_built_iff[OF _ r(2) rel, of demo_rand demo_crypto payload mixing dummy] r(1) that
    by (simp add: demo_rand_def demo_crypto_def)
  with route rel show ?thesis by (auto simp: onion_node_def)
qed

lemma onion_packet_built:
  "\<exists>relay1 packet. onion_packet demo_crypto demo_rand (\<lambda>n. [0..<n]) (Some (padded 32 [], [])) wire_env (onion_node ''ps'') onion_message =
     Some (relay1, packet)"
proof -
  obtain route pkt where "Node_buildSphinxRoute demo_crypto (nd_contacts (onion_node ''ps'')) (\<lambda>q. Node_getPeerWeight q (onion_node ''ps''))
      (\<lambda>n. [0..<n]) (Some (padded 32 [], [])) ''r'' = Inr route"
      "Node_buildSphinxPacket demo_crypto demo_rand route (string_bytes ''m'') True False = Inr pkt"
    using onion_demo_route[of "''ps''"] by force
  then show ?thesis
    by (simp add: onion_packet_def demo_Decode onion_message_def zero_message_def wire_env_def)
qed

lemma onion_dummy_built:
  "\<exists>relay1 packet. onion_dummy demo_crypto demo_rand (\<lambda>n. [0..<n]) (Some (padded 32 [], [])) (onion_node ''ps'') 7 (\<lambda>i. i mod 26) ''pr'' =
     Some (relay1, packet)"
proof -
  obtain route pkt where "Node_buildSphinxRoute demo_crypto (nd_contacts (onion_node ''ps'')) (\<lambda>q. Node_getPeerWeight q (onion_node ''ps''))
      (\<lambda>n. [0..<n]) (Some (padded 32 [], [])) ''r'' = Inr route"
      "Node_buildSphinxPacket demo_crypto demo_rand route (string_bytes (generateRandomText 50 7 (\<lambda>i. i mod 26))) False True = Inr pkt"
    using onion_demo_route[of "''ps''"] by force
  then show ?thesis by (simp add: onion_dummy_def demo_Decode)
qed

theorem packets_look_alike_witness:
  "\<exists>r packet r' packet'. onion_packet demo_crypto demo_rand (\<lambda>n. [0..<n]) (Some (padded 32 [], [])) wire_env (onion_node ''ps'') onion_message =
      Some (r, packet) \<and>
    onion_dummy demo_crypto demo_rand (\<lambda>n. [0..<n]) (Some (padded 32 [], [])) (onion_node ''ps'') 7 (\<lambda>i. i mod 26) ''pr'' = Some (r', packet') \<and>
    length packet = 66272 \<and> length packet' = 66272"
proof -
  obtain r packet r' packet' where p:
      "onion_packet demo_crypto demo_rand (\<lambda>n. [0..<n]) (Some (padded 32 [], [])) wire_env (onion_node ''ps'') onion_message = Some (r, packet)"
      "onion_dummy demo_crypto demo_rand (\<lambda>n. [0..<n]) (Some (padded 32 [], [])) (onion_node ''ps'') 7 (\<lambda>i. i mod 26) ''pr'' = Some (r', packet')"
    using onion_packet_built onion_dummy_built by blast
  then show ?thesis
    using packets_look_alike[OF demo_laws(1,3) length_padded p demo_laws(3)] by auto
qed

lemma wire_reachable:
  "direct_reachable (peel_env demo_crypto n wire_env) p m = (True, m)"
  "direct_reachable onion_sender_env p m = (True, m)"
proof -
  have "not_circuit ''a''" by (auto simp: not_circuit_def dest: sublist_length_le)
  then show "direct_reachable (peel_env demo_crypto n wire_env) p m = (True, m)" "direct_reachable onion_sender_env p m = (True, m)"
    by (simp_all add: direct_reachable_def peel_env_def onion_sender_env_def onion_env_def wire_env_def)
qed

lemma zero_key_not_peeled:
  assumes "take 32 (string_bytes raw) = padded 32 []"
  shows "onion_peel demo_crypto n raw = None"
proof -
  have "string_bytes raw ! 0 = take 32 (string_bytes raw) ! 0" by simp
  also have "\<dots> = 0" unfolding assms by (simp add: padded_def)
  finally show ?thesis by (simp add: onion_peel_def Node_processSphinxPacket_def)
qed

theorem onion_delivers_witness:
  "\<exists>s' p1 p2 l1 l2 l3. Node_sendViaSphinx onion_sender_env onion_message (onion_node ''ps'') = (True, s') \<and>
    nd_lines s' = [(p1, l1)] \<and>
    Node_handleStream (peel_env demo_crypto (onion_node p1) wire_env) [l1 @ [newline]] ''ps'' (onion_node p1) =
      Some ([], (onion_node p1)\<lparr>nd_lines := [(p2, l2)]\<rparr>) \<and>
    Node_handleStream (peel_env demo_crypto (onion_node p2) wire_env) [l2 @ [newline]] p1 (onion_node p2) =
      Some ([], (onion_node p2)\<lparr>nd_lines := [(''pr'', l3)]\<rparr>) \<and>
    Node_handleStream (peel_env demo_crypto (onion_node ''pr'') wire_env) [l3 @ [newline]] p2 (onion_node ''pr'') =
      Some ([], Node_handleSphinxReplicaMsg (peel_env demo_crypto (onion_node ''pr'') wire_env) onion_message (onion_node ''pr''))"
proof -
  let ?E = "\<lambda>p. peel_env demo_crypto (onion_node p) wire_env"
  obtain relay1 packet where "onion_packet demo_crypto demo_rand (\<lambda>n. [0..<n]) (Some (padded 32 [], [])) wire_env
      (onion_node ''ps'') onion_message = Some (relay1, packet)" using onion_packet_built by blast
  then have "ev_sphinx_packet onion_sender_env onion_message = Some (relay1, packet)"
    by (simp add: onion_sender_env_def onion_env_def)
  moreover have "ev_Decode onion_sender_env (msg_Recipient onion_message)" "\<And>p l. ev_line onion_sender_env p l"
    by (simp_all add: onion_sender_env_def onion_env_def peel_env_def wire_env_def demo_Decode onion_message_def)
  ultimately obtain s' where sent: "Node_sendViaSphinx onion_sender_env onion_message (onion_node ''ps'') = (True, s')"
    by (simp add: Node_sendViaSphinx_def wire_reachable)
  have "ev_unmarshal wire_env (ev_marshal wire_env onion_message) = Some onion_message"
    by (simp add: wire_env_def onion_message_def)
  then obtain p1 p2 l1 l2 l3 where d: "nd_lines s' = nd_lines (onion_node ''ps'') @ [(p1, l1)]"
      "passes_on demo_crypto wire_env (onion_node p1) l1 p2 l2"
      "passes_on demo_crypto wire_env (onion_node p2) l2 ''pr'' l3"
      "arrives_as demo_crypto wire_env (padded 32 []) (onion_node ''pr'') l3 onion_message"
    using onion_delivers[OF demo_laws wire_line_law _ onion_announced _ _ _ sent[unfolded onion_sender_env_def]]
    by (auto simp: demo_Decode onion_message_def onion_node_def)
  have same: "same_codec wire_env wire_env" by (simp add: same_codec_def)
  have empty: "nd_lines (onion_node p) = []" for p by (simp add: onion_node_def)
  have line: "ev_line wire_env p l" for p l by (simp add: wire_env_def)
  have hop: "Node_handleStream (?E p) [l @ [newline]] q (onion_node p) = Some ([], (onion_node p)\<lparr>nd_lines := [(p', l')]\<rparr>)"
    if "passes_on demo_crypto wire_env (onion_node p) l p' l'" for p l p' l' q
    using that[unfolded passes_on_def, rule_format, OF same, of "[l @ [newline]]" q] by (simp add: wire_reachable line empty)
  have "Node_handleStream (?E ''pr'') [l3 @ [newline]] p2 (onion_node ''pr'') =
      Some ([], Node_handleSphinxReplicaMsg (?E ''pr'') onion_message (onion_node ''pr''))"
  proof -
    have "nd_host (onion_node ''pr'') = Some (msg_Recipient onion_message)" by (simp add: onion_node_def onion_message_def)
    with d(4) zero_key_not_peeled same show ?thesis by (force simp: arrives_as_def)
  qed
  moreover have "nd_lines s' = [(p1, l1)]" using d(1) empty by simp
  ultimately show ?thesis using sent hop[OF d(2), of "''ps''"] hop[OF d(3), of p1] by blast
qed

end
