(* ===== verification/Saving.thy ===== *)
theory Saving
  imports State NodeSpec
begin

text \<open>
  When the node writes its files: the delayed writes of the state (\<open>scheduleSaveState\<close> of
  node/node_service.go) and of the queue of waiting messages (\<open>scheduleSavePendingQueue\<close> of
  node/node.go), with the goroutines that carry them out in every interleaving.

  Both have the same shape: a change sets a flag and starts a goroutine that sleeps for five
  seconds, clears the flag, takes a copy and writes it.  They differ in the mutex.  \<open>saveState\<close>
  holds \<open>n.mu\<close> from the copy until the file is written, and the flag is under the same mutex;
  \<open>savePendingQueue\<close> gives \<open>pendingMu\<close> back after the copy, so two writes can pass each other.
\<close>

section \<open>The goroutines\<close>

text \<open>
  \<open>sv_data\<close> is what a write would write now, \<open>sv_file\<close> what the file holds.  Of the goroutines only
  the numbers count: \<open>sv_callers\<close> have made a change and not yet scheduled its write, \<open>sv_sleeping\<close>
  sleep, \<open>sv_due\<close> are about to copy; \<open>sv_writing\<close> are the copies on their way to the file.
  \<open>sv_failed\<close> tells that the last write failed.
\<close>

record 'd saving =
  sv_data :: 'd
  sv_callers :: nat
  sv_scheduled :: bool
  sv_sleeping :: nat
  sv_due :: nat
  sv_writing :: "'d multiset"
  sv_file :: 'd
  sv_failed :: bool

definition saving_start :: "'d \<Rightarrow> 'd saving" where
  "saving_start d = \<lparr>sv_data = d, sv_callers = 0, sv_scheduled = False, sv_sleeping = 0, sv_due = 0,
     sv_writing = {#}, sv_file = d, sv_failed = False\<rparr>"

definition saving_idle :: "('d, 'z) saving_scheme \<Rightarrow> bool" where
  "saving_idle S \<longleftrightarrow> sv_callers S = 0 \<and> sv_sleeping S = 0 \<and> sv_due S = 0 \<and> sv_writing S = {#}"

text \<open>The region of the mutex at the start of \<open>scheduleSaveState\<close>, and the one after the sleep.\<close>

definition schedule_region :: "('d, 'z) saving_scheme \<Rightarrow> ('d, 'z) saving_scheme" where
  "schedule_region S =
     (if sv_scheduled S then S else S\<lparr>sv_scheduled := True, sv_sleeping := Suc (sv_sleeping S)\<rparr>)"

definition wake_region :: "('d, 'z) saving_scheme \<Rightarrow> ('d, 'z) saving_scheme" where
  "wake_region S = S\<lparr>sv_scheduled := False, sv_sleeping := sv_sleeping S - 1, sv_due := Suc (sv_due S)\<rparr>"

definition copy_region :: "('d, 'z) saving_scheme \<Rightarrow> ('d, 'z) saving_scheme" where
  "copy_region S = S\<lparr>sv_due := sv_due S - 1, sv_writing := add_mset (sv_data S) (sv_writing S)\<rparr>"

definition finish_write :: "'d \<Rightarrow> bool \<Rightarrow> ('d, 'z) saving_scheme \<Rightarrow> ('d, 'z) saving_scheme" where
  "finish_write d ok S =
     S\<lparr>sv_writing := sv_writing S - {#d#}, sv_file := (if ok then d else sv_file S), sv_failed := \<not> ok\<rparr>"

text \<open>
  The state file.  A caller that has changed something either schedules a write or starts one
  (\<open>go n.saveState()\<close>); \<open>sv_writing = {#}\<close> where the mutex \<open>n.mu\<close> has to be free.  A silent change, such as a
  received text that is added to the memory (node_p2p.go:313), has no such caller.  The ghost \<open>ss_since\<close> holds the
  states from the last change with a caller on.
\<close>

record 'd state_saving = "'d saving" +
  ss_since :: "'d list"

definition state_start :: "'d \<Rightarrow> 'd state_saving" where
  "state_start d = \<lparr>sv_data = d, sv_callers = 0, sv_scheduled = False, sv_sleeping = 0, sv_due = 0,
     sv_writing = {#}, sv_file = d, sv_failed = False, ss_since = [d]\<rparr>"

inductive state_step :: "delivery_origin \<Rightarrow> 'd state_saving \<Rightarrow> 'd state_saving \<Rightarrow> bool" where
  Change: "state_step Outside S (S\<lparr>sv_data := d, sv_callers := Suc (sv_callers S), ss_since := [d]\<rparr>)"
| Silent: "state_step Outside S (S\<lparr>sv_data := d, ss_since := ss_since S @ [d]\<rparr>)"
| Schedule: "0 < sv_callers S \<Longrightarrow> sv_writing S = {#} \<Longrightarrow>
    state_step Inside S ((schedule_region S)\<lparr>sv_callers := sv_callers S - 1\<rparr>)"
| Spawn: "0 < sv_callers S \<Longrightarrow>
    state_step Inside S (S\<lparr>sv_callers := sv_callers S - 1, sv_due := Suc (sv_due S)\<rparr>)"
| Wake: "0 < sv_sleeping S \<Longrightarrow> sv_writing S = {#} \<Longrightarrow> state_step Inside S (wake_region S)"
| Copy: "0 < sv_due S \<Longrightarrow> sv_writing S = {#} \<Longrightarrow> state_step Inside S (copy_region S)"
| Finish: "d \<in># sv_writing S \<Longrightarrow> state_step Inside S (finish_write d ok S)"

inductive_cases state_InsideE: "state_step Inside S S'"

text \<open>
  The file of the queue: \<open>enqueuePending\<close> appends and schedules, \<open>removePendingByRef\<close> removes what was
  delivered and writes at once when that changed something.
\<close>

definition enqueued :: "message \<Rightarrow> message list \<Rightarrow> message list" where
  "enqueued m q = q @ [if is_chunk m then clear_text m else m]"

definition without_ref :: "string \<Rightarrow> message list \<Rightarrow> message list" where
  "without_ref r q = filter (\<lambda>m. msg_ID m \<noteq> r) q"

inductive queue_step :: "delivery_origin \<Rightarrow> message list saving \<Rightarrow> message list saving \<Rightarrow> bool" where
  Enqueue: "queue_step Outside S (S\<lparr>sv_data := enqueued m (sv_data S), sv_callers := Suc (sv_callers S)\<rparr>)"
| Remove: "r \<noteq> [] \<Longrightarrow> length (without_ref r (sv_data S)) \<noteq> length (sv_data S) \<Longrightarrow>
    queue_step Outside S (S\<lparr>sv_data := without_ref r (sv_data S), sv_due := Suc (sv_due S)\<rparr>)"
| Queue_schedule: "0 < sv_callers S \<Longrightarrow>
    queue_step Inside S ((schedule_region S)\<lparr>sv_callers := sv_callers S - 1\<rparr>)"
| Queue_wake: "0 < sv_sleeping S \<Longrightarrow> queue_step Inside S (wake_region S)"
| Queue_copy: "0 < sv_due S \<Longrightarrow> queue_step Inside S (copy_region S)"
| Queue_finish: "q \<in># sv_writing S \<Longrightarrow> queue_step Inside S (finish_write q ok S)"

text \<open>The changes of the queue are those of the operations of the node.\<close>

lemma queue_operations:
  "nd_pendingMessages (Node_enqueuePending m n) = enqueued m (nd_pendingMessages n)"
  "r \<noteq> [] \<Longrightarrow> nd_pendingMessages (Node_removePendingByRef r n) = without_ref r (nd_pendingMessages n)"
  by (simp_all add: Node_enqueuePending_def Node_removePendingByRef_def enqueued_def without_ref_def)

section \<open>The state file is written in the end\<close>

definition state_reachable :: "'d state_saving \<Rightarrow> bool" where
  "state_reachable S \<longleftrightarrow> (\<exists>d. (\<lambda>S S'. \<exists>l. state_step l S S')\<^sup>*\<^sup>* (state_start d) S)"

text \<open>
  The flag is set exactly while one goroutine sleeps, there is at most one write, and a file that
  is behind the last change with a caller has somebody who will write it.
\<close>

definition saving_inv :: "'d state_saving \<Rightarrow> bool" where
  "saving_inv S \<longleftrightarrow> sv_sleeping S = (if sv_scheduled S then 1 else 0) \<and> sv_data S \<in> set (ss_since S) \<and>
     size (sv_writing S) \<le> 1 \<and> (\<forall>w \<in># sv_writing S. w \<in> set (ss_since S) \<or> 0 < sv_callers S \<or> 0 < sv_due S) \<and>
     (sv_file S \<in> set (ss_since S) \<or> sv_failed S \<or> 0 < sv_callers S \<or> 0 < sv_sleeping S \<or> 0 < sv_due S \<or> sv_writing S \<noteq> {#})"

lemmas saving_regions = schedule_region_def wake_region_def copy_region_def finish_write_def

lemma one_write: "size W \<le> 1 \<Longrightarrow> d \<in># W \<Longrightarrow> W = {#d#}"
proof -
  assume "size W \<le> 1" "d \<in># W"
  moreover from this have "0 < size W" by (auto simp: nonempty_has_size[symmetric])
  ultimately obtain a where "W = {#a#}" using size_1_singleton_mset[of W] by force
  with \<open>d \<in># W\<close> show "W = {#d#}" by simp
qed

lemma saving_invD:
  assumes "saving_inv S"
  shows "sv_sleeping S = (if sv_scheduled S then 1 else 0)" "sv_data S \<in> set (ss_since S)" "size (sv_writing S) \<le> 1"
    "w \<in># sv_writing S \<Longrightarrow> w \<in> set (ss_since S) \<or> 0 < sv_callers S \<or> 0 < sv_due S"
    "sv_file S \<in> set (ss_since S) \<or> sv_failed S \<or> 0 < sv_callers S \<or> 0 < sv_sleeping S \<or> 0 < sv_due S \<or> sv_writing S \<noteq> {#}"
proof -
  note I = assms[unfolded saving_inv_def]
  show "sv_sleeping S = (if sv_scheduled S then 1 else 0)" using I by (elim conjE) assumption
  show "sv_data S \<in> set (ss_since S)" using I by (elim conjE) assumption
  show "size (sv_writing S) \<le> 1" using I by (elim conjE) assumption
  show "w \<in># sv_writing S \<Longrightarrow> w \<in> set (ss_since S) \<or> 0 < sv_callers S \<or> 0 < sv_due S" using I by (elim conjE) (rule bspec)
  show "sv_file S \<in> set (ss_since S) \<or> sv_failed S \<or> 0 < sv_callers S \<or> 0 < sv_sleeping S \<or> 0 < sv_due S \<or> sv_writing S \<noteq> {#}"
    using I by (elim conjE) assumption
qed

lemma schedule_inv: "saving_inv S \<Longrightarrow> sv_writing S = {#} \<Longrightarrow> saving_inv ((schedule_region S)\<lparr>sv_callers := k\<rparr>)"
  by (cases "sv_scheduled S") (simp_all add: saving_inv_def schedule_region_def)

lemma finish_inv:
  assumes inv: "saving_inv S" and d: "d \<in># sv_writing S"
  shows "saving_inv (finish_write d ok S)"
proof -
  have "sv_writing S = {#d#}" by (rule one_write[OF saving_invD(3)[OF inv] d])
  then have "sv_writing (finish_write d ok S) = {#}" by (simp add: finish_write_def)
  moreover have "sv_sleeping (finish_write d ok S) = (if sv_scheduled (finish_write d ok S) then 1 else 0)"
    using saving_invD(1)[OF inv] by (simp add: finish_write_def)
  moreover have "sv_file (finish_write d ok S) \<in> set (ss_since S) \<or> sv_failed (finish_write d ok S) \<or> 0 < sv_callers S \<or> 0 < sv_due S"
    using saving_invD(4)[OF inv d] by (simp add: finish_write_def)
  moreover have "sv_data (finish_write d ok S) \<in> set (ss_since S)" using saving_invD(2)[OF inv] by (simp add: finish_write_def)
  moreover have "ss_since (finish_write d ok S) = ss_since S" "sv_callers (finish_write d ok S) = sv_callers S"
      "sv_due (finish_write d ok S) = sv_due S" by (simp_all add: finish_write_def)
  ultimately show ?thesis unfolding saving_inv_def by simp
qed

lemma state_step_inv: "state_step l S S' \<Longrightarrow> saving_inv S \<Longrightarrow> saving_inv S'"
proof (induction rule: state_step.induct)
  case (Change S d)
  then show ?case by (simp add: saving_inv_def)
next
  case (Silent S d)
  then show ?case by (auto simp: saving_inv_def)
next
  case (Spawn S)
  then show ?case by (simp add: saving_inv_def)
next
  case (Wake S)
  then show ?case by (cases "sv_scheduled S") (simp_all add: saving_inv_def wake_region_def)
next
  case (Copy S)
  then show ?case by (simp add: saving_inv_def copy_region_def)
qed (simp_all add: schedule_inv finish_inv)

lemma inside_data: "state_step Inside S S' \<Longrightarrow> sv_data S' = sv_data S \<and> ss_since S' = ss_since S"
  by (erule state_InsideE) (simp_all add: saving_regions)

text \<open>How many steps the goroutines can still take.\<close>

definition saving_work :: "('d, 'z) saving_scheme \<Rightarrow> nat" where
  "saving_work S = 4 * sv_callers S + 3 * sv_sleeping S + 2 * sv_due S + size (sv_writing S)"

lemma inside_work: "state_step Inside S S' \<Longrightarrow> saving_work S' < saving_work S"
  by (erule state_InsideE) (auto simp: saving_work_def saving_regions size_Diff_singleton dest: multi_member_split)

lemma inside_progress:
  assumes "\<not> saving_idle S"
  shows "\<exists>S'. state_step Inside S S'"
proof (cases "sv_writing S = {#}")
  case True
  then consider "0 < sv_callers S" | "0 < sv_sleeping S" | "0 < sv_due S"
    using assms by (auto simp: saving_idle_def)
  then show ?thesis using True state_step.Spawn state_step.Wake state_step.Copy by cases blast+
next
  case False
  then obtain d where "d \<in># sv_writing S" by blast
  from state_step.Finish[OF this, of True] show ?thesis by blast
qed

interpretation state_saves: settling "\<lambda>S. \<exists>d. S = state_start d" "\<lambda>S S'. \<exists>l. state_step l S S'" saving_inv
    "state_step Inside" saving_work saving_idle
proof
  show "saving_inv S" if "\<exists>d. S = state_start d" for S :: "'a state_saving"
    using that by (auto simp: saving_inv_def state_start_def)
qed (auto intro: state_step_inv inside_work inside_progress)

lemma state_reachable_inv: "state_reachable S \<Longrightarrow> saving_inv S"
  unfolding state_reachable_def by (auto intro: state_saves.reachable_invar)

lemma inside_keeps_data: "(state_step Inside)\<^sup>*\<^sup>* S S' \<Longrightarrow> sv_data S' = sv_data S \<and> ss_since S' = ss_since S"
  by (induction rule: rtranclp_induct) (auto dest: inside_data)

text \<open>C12.  No change that its caller follows by a scheduled or a started write is forgotten, in whatever
order the goroutines run: when nobody changes the state any more they come to rest after finitely many
steps, and however they do, the file then holds the state that the last such change made, or one that a
later silent change made, unless the last write failed.  Without a silent change after it the file holds the
state of the memory.\<close>

theorem state_is_saved:
  assumes "state_reachable S"
  shows "wfP (\<lambda>T' T. state_step Inside T T') \<and>
    (\<exists>S'. (state_step Inside)\<^sup>*\<^sup>* S S' \<and> saving_idle S') \<and>
    (\<forall>S'. (state_step Inside)\<^sup>*\<^sup>* S S' \<and> \<not> (\<exists>T. state_step Inside S' T) \<longrightarrow>
       sv_data S' = sv_data S \<and> (sv_file S' \<in> set (ss_since S) \<or> sv_failed S') \<and>
       (length (ss_since S) = 1 \<longrightarrow> sv_file S' = sv_data S \<or> sv_failed S'))"
proof (intro conjI allI impI)
  fix S' assume run: "(state_step Inside)\<^sup>*\<^sup>* S S' \<and> \<not> (\<exists>T. state_step Inside S' T)"
  then show data: "sv_data S' = sv_data S" using inside_keeps_data by blast
  have since: "ss_since S' = ss_since S" using run inside_keeps_data by blast
  have "saving_inv S'" "saving_idle S'"
    using run state_saves.inside_invar state_saves.rest_idle state_reachable_inv[OF assms] by blast+
  with since saving_invD(5)[of S'] show written: "sv_file S' \<in> set (ss_since S) \<or> sv_failed S'" by (simp add: saving_idle_def)
  assume "length (ss_since S) = 1"
  then obtain d where "ss_since S = [d]" by (auto simp: length_Suc_conv)
  with written saving_invD(2)[OF state_reachable_inv[OF assms]] show "sv_file S' = sv_data S \<or> sv_failed S'" by simp
qed (rule state_saves.terminates, rule state_saves.settles)

text \<open>A silent change that comes last is never written: the goroutines rest and the file is behind.\<close>

lemma silent_change_stays:
  "state_reachable ((state_start d)\<lparr>sv_data := d', ss_since := [d, d']\<rparr>) \<and>
   saving_idle ((state_start d)\<lparr>sv_data := d', ss_since := [d, d']\<rparr>) \<and>
   sv_file ((state_start d)\<lparr>sv_data := d', ss_since := [d, d']\<rparr>) = d"
proof -
  have "state_step Outside (state_start d) ((state_start d)\<lparr>sv_data := d', ss_since := [d, d']\<rparr>)"
    using state_step.Silent[of "state_start d" d'] by (simp add: state_start_def)
  then show ?thesis unfolding state_reachable_def by (auto simp: state_start_def saving_idle_def)
qed

section \<open>The file of the queue can stay behind\<close>

definition queue_reachable :: "message list saving \<Rightarrow> bool" where
  "queue_reachable S \<longleftrightarrow> (\<lambda>S S'. \<exists>l. queue_step l S S')\<^sup>*\<^sup>* (saving_start []) S"

lemma queue_reachable_step: "queue_reachable S \<Longrightarrow> queue_step l S S' \<Longrightarrow> queue_reachable S'"
  unfolding queue_reachable_def by (rule rtranclp.rtrancl_into_rtrancl) blast+

definition sent_again :: "message \<Rightarrow> message" where
  "sent_again m = m\<lparr>msg_ReplicatedFrom := msg_Sender m, msg_IsOwn := False\<rparr>"

lemma flush_sends:
  assumes "nd_pendingMessages n = [m]" "nd_host n \<noteq> None" "msg_Recipient m \<noteq> []" "\<not> is_chunk m"
    and "ev_Decode e (msg_Recipient m)" "msg_Recipient m \<in> set (ev_peers e)" "\<not> nd_deadPeers n (msg_Recipient m)"
    and "ev_direct e (msg_Recipient m) (sent_again m)"
  shows "nd_outbox (Node_flushPending e n) = nd_outbox n @ [(msg_Recipient m, sent_again m)]"
  using assms
  by (simp add: Node_flushPending_def Node_tryReplicate_def Node_sendToRecipient_def Node_sendWithFallback_def
      Node_isPeerDead_def sent_again_def)

text \<open>C33.  A delivered message can stay in the file of the queue for good, without a failed write: the write
of an older copy ends after the write that follows the removal.  A start that finds this file loads the
message, and the first round of the queue sends it to its recipient again when that is connected and takes it.\<close>

theorem delivered_message_comes_back:
  assumes "msg_ID m \<noteq> []" "\<not> is_chunk m" "msg_Recipient m \<noteq> []"
    and json: "sl_queue_parse L (sl_queue_json L [m]) = Some [m]" and name: "sl_name L \<noteq> []"
  shows "\<exists>S. queue_reachable S \<and> saving_idle S \<and> \<not> sv_failed S \<and> sv_data S = [] \<and>
    (\<forall>n. nd_disk n (state_path L n ''.queue'') = Some (sl_queue_json L (sv_file S)) \<longrightarrow>
       nd_pendingMessages (Node_loadPendingQueue L n) = [m] \<and>
       (\<forall>e. nd_host n \<noteq> None \<and> \<not> nd_deadPeers n (msg_Recipient m) \<and> ev_Decode e (msg_Recipient m) \<and>
          msg_Recipient m \<in> set (ev_peers e) \<and> ev_direct e (msg_Recipient m) (sent_again m) \<longrightarrow>
          (msg_Recipient m, sent_again m) \<in> set (nd_outbox (Node_flushPending e (Node_loadPendingQueue L n)))))"
proof -
  let ?S = "\<lambda>d c s z u w f. \<lparr>sv_data = d, sv_callers = c, sv_scheduled = s, sv_sleeping = z, sv_due = u,
     sv_writing = w, sv_file = f, sv_failed = False\<rparr>"
  have "queue_reachable (saving_start [])" by (simp add: queue_reachable_def)
  then have "queue_reachable (?S [m] 1 False 0 0 {#} [])"
    by (rule queue_reachable_step) (use queue_step.Enqueue[of "saving_start []" m] assms(2) in \<open>simp add: saving_start_def enqueued_def\<close>)
  then have "queue_reachable (?S [m] 0 True 1 0 {#} [])"
    by (rule queue_reachable_step) (use queue_step.Queue_schedule[of "?S [m] 1 False 0 0 {#} []"] in \<open>simp add: saving_regions\<close>)
  then have "queue_reachable (?S [m] 0 False 0 1 {#} [])"
    by (rule queue_reachable_step) (use queue_step.Queue_wake[of "?S [m] 0 True 1 0 {#} []"] in \<open>simp add: saving_regions\<close>)
  then have "queue_reachable (?S [m] 0 False 0 0 {#[m]#} [])"
    by (rule queue_reachable_step) (use queue_step.Queue_copy[of "?S [m] 0 False 0 1 {#} []"] in \<open>simp add: saving_regions\<close>)
  then have "queue_reachable (?S [] 0 False 0 1 {#[m]#} [])"
    by (rule queue_reachable_step)
      (use queue_step.Remove[of "msg_ID m" "?S [m] 0 False 0 0 {#[m]#} []"] assms(1) in \<open>simp add: without_ref_def\<close>)
  then have "queue_reachable (?S [] 0 False 0 0 {#[], [m]#} [])"
    by (rule queue_reachable_step) (use queue_step.Queue_copy[of "?S [] 0 False 0 1 {#[m]#} []"] in \<open>simp add: saving_regions\<close>)
  then have "queue_reachable (?S [] 0 False 0 0 {#[m]#} [])"
    by (rule queue_reachable_step)
      (use queue_step.Queue_finish[of "[]" "?S [] 0 False 0 0 {#[], [m]#} []" True] in \<open>simp add: saving_regions\<close>)
  then have "queue_reachable (?S [] 0 False 0 0 {#} [m])"
    by (rule queue_reachable_step)
      (use queue_step.Queue_finish[of "[m]" "?S [] 0 False 0 0 {#[m]#} []" True] in \<open>simp add: saving_regions\<close>)
  moreover have "(msg_Recipient m, sent_again m) \<in> set (nd_outbox (Node_flushPending e n))"
    if "nd_pendingMessages n = [m]" "nd_host n \<noteq> None" "\<not> nd_deadPeers n (msg_Recipient m)" "ev_Decode e (msg_Recipient m)"
      "msg_Recipient m \<in> set (ev_peers e)" "ev_direct e (msg_Recipient m) (sent_again m)" for n e
    using flush_sends[OF that(1,2) assms(3,2) that(4,5,3,6)] by simp
  ultimately show ?thesis
    by (intro exI[of _ "?S [] 0 False 0 0 {#} [m]"]) (auto simp: saving_idle_def Node_loadPendingQueue_def json name)
qed

section \<open>What arrives is not saved\<close>

text \<open>C32.  A received text is acknowledged and not saved: it is in the memory and its receipt waits to be
sent, but no write of the state is scheduled or started for it, so a crash loses a message that its
sender counts as delivered.\<close>

theorem acknowledged_not_saved:
  assumes m1: "decrypt_message e n m = Some m1" and plain: "\<not> is_chunk m1" "msg_MediaType m \<noteq> ''batch''"
    and new: "mem_seen (nd_memory n) (msg_ID m) \<noteq> Some True" "\<not> is_expired (ev_now e) m1"
    and "msg_Sender m \<noteq> []" "msg_ID m \<noteq> []" and n1: "n1 = receive_e2e e m n"
  shows "msg_ID m \<in> msg_ID ` set (Memory_GetAll (nd_memory n1)) \<and>
    msg_ID m \<in> set (dv_pending (nd_delivery n1) (msg_Sender m)) \<and>
    nd_disk n1 = nd_disk n \<and> nd_saveScheduled n1 = nd_saveScheduled n \<and>
    (\<exists>started. nd_started n1 = nd_started n @ started \<and> SaveState \<notin> set started)"
proof -
  define x where "x = m1\<lparr>msg_SenderName := Node_nameForPeer (msg_Sender m1) n\<rparr>"
  note k = decrypt_message_keeps[OF m1]
  have x: "msg_ID x = msg_ID m" "msg_Sender x = msg_Sender m" "\<not> is_chunk x" "\<not> is_expired (ev_now e) x"
    using k plain(1) new(2) by (simp_all add: x_def is_chunk_def is_expired_def)
  have n1': "n1 = accept_message True e x n"
    using m1 plain n1 by (simp add: receive_e2e_def aborted_chunk_def x_def)
  obtain mem where add: "Memory_Add (ev_now e) x (nd_memory n) = (True, mem)"
      "with_defaults (ev_now e) x \<in> set (mem_messages mem)"
    using new(1) x(1,4) by (auto simp: Memory_Add_def Let_def)
  define n2 where "n2 = show_message True e x (count_accepted e x (n\<lparr>nd_memory := mem\<rparr>))"
  have n2: "nd_memory n2 = mem" "nd_disk n2 = nd_disk n" "nd_saveScheduled n2 = nd_saveScheduled n"
      "nd_started n2 = nd_started n"
    using x(3) by (simp_all add: n2_def show_message_def count_accepted_def push_hook_def)
  have n1_eq: "n1 = Node_queueDelivered (msg_Sender m) (msg_ID m) n2"
    using add(1) x(1,2) by (simp add: n1' accept_message_def n2_def)
  have "msg_ID m \<in> msg_ID ` set (Memory_GetAll (nd_memory n1))"
    using add(2) n2(1) x(1) by (force simp: n1_eq Memory_GetAll_def image_iff intro: bexI[of _ "with_defaults (ev_now e) x"])
  moreover have "nd_disk n1 = nd_disk n" "nd_saveScheduled n1 = nd_saveScheduled n"
      "\<exists>started. nd_started n1 = nd_started n @ started \<and> SaveState \<notin> set started"
    using n2 by (simp_all add: n1_eq Node_queueDelivered_def split: prod.split)
  ultimately show ?thesis using queueDelivered_waits[OF assms(6,7)] n1_eq by blast
qed

section \<open>Witnesses\<close>

theorem state_is_saved_witness:
  "\<exists>S'. (state_step Inside)\<^sup>*\<^sup>* ((state_start (0 :: nat))\<lparr>sv_data := 5, sv_callers := 1, ss_since := [5]\<rparr>) S' \<and> sv_file S' = 5"
proof -
  let ?S = "(state_start (0 :: nat))\<lparr>sv_data := 5, sv_callers := 1, ss_since := [5]\<rparr>"
  have "state_step Outside (state_start 0) ?S"
    using state_step.Change[of "state_start 0" "5 :: nat"] by (simp add: state_start_def)
  then have r: "state_reachable ?S" unfolding state_reachable_def by blast
  let ?T = "\<lambda>u w f. \<lparr>sv_data = 5 :: nat, sv_callers = 0, sv_scheduled = False, sv_sleeping = 0, sv_due = u,
     sv_writing = w, sv_file = f, sv_failed = False, ss_since = [5]\<rparr>"
  have "state_step Inside ?S (?T 1 {#} 0)" using state_step.Spawn[of ?S] by (simp add: state_start_def)
  moreover have "state_step Inside (?T 1 {#} 0) (?T 0 {#5#} 0)"
    using state_step.Copy[of "?T 1 {#} 0"] by (simp add: saving_regions)
  moreover have "state_step Inside (?T 0 {#5#} 0) (?T 0 {#} 5)"
    using state_step.Finish[of 5 "?T 0 {#5#} 0" True] by (simp add: saving_regions)
  ultimately have run: "(state_step Inside)\<^sup>*\<^sup>* ?S (?T 0 {#} 5)"
    by (meson converse_rtranclp_into_rtranclp r_into_rtranclp)
  have "\<not> (\<exists>U. state_step Inside (?T 0 {#} 5) U)" by (auto elim: state_InsideE)
  with state_is_saved[OF r] run show ?thesis by (intro exI[of _ "?T 0 {#} 5"]) auto
qed

definition queued_text :: message where
  "queued_text = zero_message\<lparr>msg_ID := ''q'', msg_Text := ''hi'', msg_Recipient := ''bob''\<rparr>"

text \<open>A JSON of queues that tells the empty queue from the one with \<open>queued_text\<close>; \<open>bob\<close> is connected.\<close>

definition queue_lib :: state_lib where
  "queue_lib = example_lib\<lparr>sl_queue_json := \<lambda>q. concat (map msg_ID q),
     sl_queue_parse := \<lambda>s. if s = [] then Some [] else if s = ''q'' then Some [queued_text] else None\<rparr>"

definition bob_connected :: env where
  "bob_connected = (quiet_env 1)\<lparr>ev_peers := [''bob''], ev_direct := \<lambda>p _. p = ''bob''\<rparr>"

theorem delivered_message_comes_back_witness:
  "\<exists>S n. queue_reachable S \<and> saving_idle S \<and> sv_data S = [] \<and>
    nd_disk n (state_path queue_lib n ''.queue'') = Some (sl_queue_json queue_lib (sv_file S)) \<and>
    (''bob'', sent_again queued_text) \<in> set (nd_outbox (Node_flushPending bob_connected (Node_loadPendingQueue queue_lib n)))"
proof -
  have q: "msg_ID queued_text \<noteq> []" "\<not> is_chunk queued_text" "msg_Recipient queued_text \<noteq> []"
    by (simp_all add: queued_text_def zero_message_def is_chunk_def isChunkedMediaType_def)
  have json: "sl_queue_parse queue_lib (sl_queue_json queue_lib [queued_text]) = Some [queued_text]" "sl_name queue_lib \<noteq> []"
    by (simp_all add: queue_lib_def queued_text_def example_lib_def)
  obtain S where S: "queue_reachable S" "saving_idle S" "sv_data S = []"
      "\<And>n e. nd_disk n (state_path queue_lib n ''.queue'') = Some (sl_queue_json queue_lib (sv_file S)) \<Longrightarrow>
        nd_host n \<noteq> None \<and> \<not> nd_deadPeers n (msg_Recipient queued_text) \<and> ev_Decode e (msg_Recipient queued_text) \<and>
          msg_Recipient queued_text \<in> set (ev_peers e) \<and> ev_direct e (msg_Recipient queued_text) (sent_again queued_text) \<Longrightarrow>
        (msg_Recipient queued_text, sent_again queued_text) \<in> set (nd_outbox (Node_flushPending e (Node_loadPendingQueue queue_lib n)))"
    using delivered_message_comes_back[OF q json] by blast
  let ?n = "demo_node\<lparr>nd_disk := [state_path queue_lib demo_node ''.queue'' \<mapsto> sl_queue_json queue_lib (sv_file S)]\<rparr>"
  have "nd_disk ?n (state_path queue_lib ?n ''.queue'') = Some (sl_queue_json queue_lib (sv_file S))"
    by (simp add: state_path_def)
  moreover from S(4)[OF this, of bob_connected]
  have "(''bob'', sent_again queued_text) \<in> set (nd_outbox (Node_flushPending bob_connected (Node_loadPendingQueue queue_lib ?n)))"
    by (simp add: bob_connected_def quiet_env_def queued_text_def demo_node_def NewNode_def)
  ultimately show ?thesis using S(1-3) by blast
qed

theorem acknowledged_not_saved_witness:
  "\<exists>n1. n1 = receive_e2e (quiet_env 1) (sealed_text ''i'' ''hi'') keyed_node \<and> nd_disk n1 = nd_disk keyed_node \<and>
    ''i'' \<in> msg_ID ` set (Memory_GetAll (nd_memory n1)) \<and> ''i'' \<in> set (dv_pending (nd_delivery n1) ''ali'')"
proof -
  have "\<not> is_chunk (sealed_text ''i'' ''hi''\<lparr>msg_Text := ''hi''\<rparr>)" by (simp add: is_chunk_def isChunkedMediaType_def)
  moreover have "mem_seen (nd_memory keyed_node) ''i'' \<noteq> Some True"
    by (simp add: keyed_node_def demo_node_def empty_memory_def)
  moreover have "\<not> is_expired 1 (sealed_text ''i'' ''hi''\<lparr>msg_Text := ''hi''\<rparr>)"
    by (simp add: is_expired_def sealed_text_def zero_message_def IsZero_def)
  ultimately show ?thesis
    using acknowledged_not_saved[OF sealed_text_opens(1)[of 1 "''i''" "''hi''"] _ _ _ _ _ _ refl] by simp
qed

end
