(* ===== verification/Startup.thy ===== *)
theory Startup
  imports MobileRun
begin

text \<open>
  main/main.go and the parts of \<open>InitP2P\<close> and \<open>NewNode\<close> of node/node.go that turn the configuration
  into addresses and file names; and a round of the self-adaptation of node/adapt.go.
  \<open>getenv\<close> is the environment of the process, empty where a variable is not set.
\<close>

section \<open>Names and addresses\<close>

text \<open>\<open>strconv.Atoi\<close> when the error is ignored: 0 for a malformed number, else the nearest bound.\<close>

definition Atoi_ignored :: "string \<Rightarrow> int" where
  "Atoi_ignored s =
     (let ds = (if s \<noteq> [] \<and> (hd s = CHR ''-'' \<or> hd s = CHR ''+'') then tl s else s)
      in case Atoi s of
           Some v \<Rightarrow> v
         | None \<Rightarrow> if ds = [] \<or> \<not> list_all is_digit ds then 0
                   else if hd s = CHR ''-'' then min_int64 else max_int64)"

text \<open>The name of the state file in the directory \<open>state\<close> when none was given.\<close>

definition default_state_file :: "(string \<Rightarrow> string) \<Rightarrow> string" where
  "default_state_file getenv =
     (let nodeIDStr = (if getenv ''NODE_ID'' = [] then ''1'' else getenv ''NODE_ID'')
      in ''state_node'' @ decimal (Atoi_ignored nodeIDStr) @ ''.json'')"

definition configured_port :: "int \<Rightarrow> int" where
  "configured_port port = (if port = 0 then 9000 else port)"

definition configured_ip :: "string \<Rightarrow> string" where
  "configured_ip ip = (if ip = [] then ''0.0.0.0'' else ip)"

text \<open>The two addresses that \<open>libp2p.New\<close> listens on.\<close>

definition listen_addresses :: "string \<Rightarrow> int \<Rightarrow> string list" where
  "listen_addresses ip port =
     [''/ip4/'' @ ip @ ''/tcp/'' @ decimal port,
      ''/ip4/'' @ ip @ ''/tcp/'' @ decimal (wrap64 (port + 1)) @ ''/ws'']"

datatype transport = WebSocket | TCP

definition transports :: "string list \<Rightarrow> transport list" where
  "transports names =
     (if length names = 0 then [WebSocket]
      else List.map_filter (\<lambda>t. if t = ''ws'' then Some WebSocket else if t = ''tcp'' then Some TCP else None) names)"

section \<open>The command line\<close>

text \<open>A number from the environment, or the default.\<close>

definition env_number :: "(string \<Rightarrow> string) \<Rightarrow> string \<Rightarrow> int \<Rightarrow> int" where
  "env_number getenv name dflt =
     (if getenv name \<noteq> [] then (case Atoi (getenv name) of Some p \<Rightarrow> p | None \<Rightarrow> dflt) else dflt)"

text \<open>The hash of the rules, from the environment or from the file; \<open>None\<close> is \<open>log.Fatal\<close>.\<close>

definition ethics_hash :: "text_lib \<Rightarrow> (string \<Rightarrow> string) \<Rightarrow> string option \<Rightarrow> string option" where
  "ethics_hash T getenv commandments =
     (if getenv ''ISOTOPE_ETHICS_HASH'' = []
      then map_option (\<lambda>d. hex_bytes (tl_sha256 T d)) commandments
      else Some (getenv ''ISOTOPE_ETHICS_HASH''))"

definition main_config :: "string \<Rightarrow> (string \<Rightarrow> string) \<Rightarrow> config" where
  "main_config ethHash getenv =
     \<lparr>cf_EthHash = ethHash, cf_Bootstrap = [],
      cf_EnableRelayServer = (getenv ''ISOTOPE_ENABLE_RELAY'' = ''true''), cf_IsRelay = False, cf_UseOnion = False\<rparr>"

text \<open>How \<open>main\<close> ends, or the node that serves at a port, with the port it listens on.\<close>

datatype main_outcome = Fatal | Panics | Serving node int int

definition core_main ::
  "env \<Rightarrow> state_lib \<Rightarrow> text_lib \<Rightarrow> (string \<Rightarrow> string) \<Rightarrow> string option \<Rightarrow> node \<Rightarrow> main_outcome" where
  "core_main e L T getenv commandments fs =
     (case ethics_hash T getenv commandments of
        None \<Rightarrow> Fatal
      | Some ethHash \<Rightarrow>
          let n = (node_on_files (main_config ethHash getenv) ''state'' fs)\<lparr>nd_hook := False\<rparr>
          in case Node_InitP2P e (L\<lparr>sl_name := default_state_file getenv, sl_seedPhrase := []\<rparr>) n of
               None \<Rightarrow> Panics
             | Some (False, n1) \<Rightarrow> Fatal
             | Some (True, n1) \<Rightarrow>
                 Serving n1 (configured_port (env_number getenv ''ISOTOPE_PORT'' 9000)) (env_number getenv ''ISOTOPE_HTTP_PORT'' 8081))"

section \<open>Self-adaptation\<close>

text \<open>A round of \<open>StartAdaptation\<close>: the metrics of the memory, the rules, and a save when something changed.\<close>

definition adaptation_round :: "env \<Rightarrow> state_lib \<Rightarrow> node \<Rightarrow> node" where
  "adaptation_round e L n =
     (case nd_adaptive n of
        None \<Rightarrow> n
      | Some a \<Rightarrow>
          (case Node_Adapt (ev_now e) (Node_CollectMetrics (map msg_Weight (Memory_GetAll (nd_memory n)))) a of
             (changed, a') \<Rightarrow>
               let n1 = n\<lparr>nd_adaptive := Some a'\<rparr>
               in if changed then snd (Node_saveState e L n1) else n1))"

section \<open>Lemmas\<close>

lemma Atoi_ignored_decimal: "min_int64 \<le> i \<Longrightarrow> i \<le> max_int64 \<Longrightarrow> Atoi_ignored (decimal i) = i"
  by (simp add: Atoi_ignored_def Atoi_decimal)

text \<open>A node ID in the environment names its own state file.\<close>

lemma default_state_file_id:
  assumes "getenv ''NODE_ID'' = decimal i" "min_int64 \<le> i" "i \<le> max_int64"
  shows "default_state_file getenv = ''state_node'' @ decimal i @ ''.json''"
proof -
  have "decimal i \<noteq> []" using decimal_nat_digits by (simp add: decimal_def)
  then show ?thesis using assms by (simp add: default_state_file_def Atoi_ignored_decimal)
qed

text \<open>Without the variable the node is number one.\<close>

lemma default_state_file_unset: "getenv ''NODE_ID'' = [] \<Longrightarrow> default_state_file getenv = ''state_node1.json''"
proof -
  assume "getenv ''NODE_ID'' = []"
  moreover have "char_of (49 :: nat) = CHR ''1''" by code_simp
  then have one: "decimal 1 = ''1''" by (simp add: decimal_def decimal_nat.simps)
  moreover have "Atoi_ignored ''1'' = 1"
    using Atoi_ignored_decimal[of 1] by (simp add: one min_int64_def max_int64_def)
  ultimately show ?thesis by (simp add: default_state_file_def Let_def)
qed

lemma env_number_garbage: "Atoi (getenv name) = None \<Longrightarrow> env_number getenv name dflt = dflt"
  by (simp add: env_number_def)

lemma adaptation_round_inv: "node_inv n \<Longrightarrow> node_inv (adaptation_round e L n)"
  by (rule iffD2[OF node_inv_core])
    (auto simp: same_core_def adaptation_round_def Let_def Node_saveState_def write_file_def split: option.split prod.split)

lemma main_starts_safe:
  assumes "sound_files fs"
  shows "core_main e L T getenv commandments fs = Fatal \<or>
    (\<exists>n port http. core_main e L T getenv commandments fs = Serving n port http \<and>
       node_inv n \<and> (\<forall>xs. (node_run xs n = None \<longleftrightarrow> list_ex (\<lambda>(e, x). panics x) xs) \<and>
         (\<forall>n'. node_run xs n = Some n' \<longrightarrow> node_inv n')))"
proof (cases "ethics_hash T getenv commandments")
  case None
  then show ?thesis by (simp add: core_main_def)
next
  case (Some h)
  let ?n = "(node_on_files (main_config h getenv) ''state'' fs)\<lparr>nd_hook := False\<rparr>"
  have "sound_files ?n" "mem_inv (nd_memory ?n)" "nd_unackedChunks ?n = []"
    using assms by (simp_all add: node_on_files_def sound_files_def mem_inv_empty)
  then obtain ok n1 where "Node_InitP2P e (L\<lparr>sl_name := default_state_file getenv, sl_seedPhrase := []\<rparr>) ?n = Some (ok, n1)"
      "ok \<longrightarrow> node_inv n1" using InitP2P_inv by blast
  then show ?thesis using Some node_run_inv by (cases ok) (auto simp: core_main_def)
qed

end
