(* ===== verification/FileTurns.thy ===== *)
theory FileTurns
  imports Delivery
begin

text \<open>
  The turns of the files in node/media.go: \<open>sendFileChunksAsync\<close> puts the chunks of one file into the
  queue before it starts with the next one.  The goroutines wait for each other with the mutex
  \<open>mediaSendMu\<close>, the condition variable \<open>mediaSendCond\<close> and the name of the file whose turn it is,
  \<open>activeMediaID\<close>; what they do in their turn is \<open>Node_sendFileChunksAsync\<close>.
\<close>

section \<open>The goroutines\<close>

text \<open>
  A goroutine is about to take the mutex and test the name, sleeps in \<open>Wait\<close>, or has its turn.
  The goroutines are numbered, since two of them can be for the same file.
\<close>

datatype turn = Trying | Asleep | HasTurn

record file_turns =
  ft_active :: string
  ft_senders :: "nat \<rightharpoonup> string \<times> turn"

definition turns_start :: file_turns where
  "turns_start = \<lparr>ft_active = [], ft_senders = Map.empty\<rparr>"

text \<open>The region of the mutex at the start: one round of the loop around \<open>Wait\<close>.\<close>

definition take_turn :: "nat \<Rightarrow> string \<Rightarrow> file_turns \<Rightarrow> file_turns" where
  "take_turn k i S =
     (if ft_active S \<noteq> [] \<and> ft_active S \<noteq> i
      then S\<lparr>ft_senders := (ft_senders S)(k \<mapsto> (i, Asleep))\<rparr>
      else S\<lparr>ft_active := i, ft_senders := (ft_senders S)(k \<mapsto> (i, HasTurn))\<rparr>)"

text \<open>\<open>Broadcast\<close>\<close>

definition wake_all :: "(nat \<rightharpoonup> string \<times> turn) \<Rightarrow> (nat \<rightharpoonup> string \<times> turn)" where
  "wake_all senders = (\<lambda>k. map_option (\<lambda>(i, t). (i, if t = Asleep then Trying else t)) (senders k))"

text \<open>The region of the deferred function.\<close>

definition end_turn :: "nat \<Rightarrow> string \<Rightarrow> file_turns \<Rightarrow> file_turns" where
  "end_turn k i S =
     (let senders = (ft_senders S)(k := None)
      in if ft_active S = i then S\<lparr>ft_active := [], ft_senders := wake_all senders\<rparr>
         else S\<lparr>ft_senders := senders\<rparr>)"

inductive turn_step :: "delivery_origin \<Rightarrow> file_turns \<Rightarrow> file_turns \<Rightarrow> bool" where
  Call: "ft_senders S k = None \<Longrightarrow> turn_step Outside S (S\<lparr>ft_senders := (ft_senders S)(k \<mapsto> (i, Trying))\<rparr>)"
| Try: "ft_senders S k = Some (i, Trying) \<Longrightarrow> turn_step Inside S (take_turn k i S)"
| End: "ft_senders S k = Some (i, HasTurn) \<Longrightarrow> turn_step Inside S (end_turn k i S)"

text \<open>Every file has a name, and no file is sent by two goroutines at the same time.\<close>

definition single_senders :: "file_turns \<Rightarrow> bool" where
  "single_senders S \<longleftrightarrow> (\<forall>k i t. ft_senders S k = Some (i, t) \<longrightarrow> i \<noteq> []) \<and>
     (\<forall>k l i t u. ft_senders S k = Some (i, t) \<longrightarrow> ft_senders S l = Some (i, u) \<longrightarrow> k = l)"

definition turns_reachable :: "file_turns \<Rightarrow> bool" where
  "turns_reachable S \<longleftrightarrow> (\<lambda>S S'. \<exists>l. turn_step l S S')\<^sup>*\<^sup>* turns_start S"

definition single_reachable :: "file_turns \<Rightarrow> bool" where
  "single_reachable S \<longleftrightarrow> (\<lambda>S S'. single_senders S' \<and> (\<exists>l. turn_step l S S'))\<^sup>*\<^sup>* turns_start S"

section \<open>The invariant\<close>

text \<open>Whoever has the turn is named, the named file has the turn, and nobody sleeps when no file is named.\<close>

definition turns_inv :: "file_turns \<Rightarrow> bool" where
  "turns_inv S \<longleftrightarrow> single_senders S \<and>
     (\<forall>k i. ft_senders S k = Some (i, HasTurn) \<longrightarrow> i = ft_active S) \<and>
     (ft_active S \<noteq> [] \<longrightarrow> (\<exists>k. ft_senders S k = Some (ft_active S, HasTurn))) \<and>
     (ft_active S = [] \<longrightarrow> (\<forall>k i. ft_senders S k \<noteq> Some (i, Asleep)))"

lemma turns_invD:
  assumes "turns_inv S"
  shows "ft_senders S k = Some (i, t) \<Longrightarrow> i \<noteq> []"
    "ft_senders S k = Some (i, t) \<Longrightarrow> ft_senders S l = Some (i, u) \<Longrightarrow> k = l"
    "ft_senders S k = Some (i, HasTurn) \<Longrightarrow> i = ft_active S"
    "ft_active S \<noteq> [] \<Longrightarrow> \<exists>k. ft_senders S k = Some (ft_active S, HasTurn)"
    "ft_active S = [] \<Longrightarrow> ft_senders S k \<noteq> Some (i, Asleep)"
  using assms unfolding turns_inv_def single_senders_def by blast+

lemma wake_all_Some:
  "wake_all s k = Some (i, t) \<longleftrightarrow> (t = Trying \<and> s k = Some (i, Asleep)) \<or> (t \<noteq> Asleep \<and> s k = Some (i, t))"
  by (auto simp: wake_all_def split: if_splits)

lemma only_turn:
  assumes "turns_inv S" "ft_senders S k = Some (i, HasTurn)" "ft_senders S l = Some (j, HasTurn)"
  shows "l = k"
  using turns_invD(3)[OF assms(1)] turns_invD(2)[OF assms(1)] assms(2,3) by metis

lemma single_end_turn: "single_senders S \<Longrightarrow> single_senders (end_turn k i S)"
  unfolding single_senders_def end_turn_def Let_def
  by (auto simp: wake_all_Some split: if_splits)

lemma take_turn_single:
  assumes "single_senders S" "ft_senders S k = Some (i, Trying)"
  shows "single_senders (take_turn k i S)"
  using assms unfolding single_senders_def take_turn_def
  by (auto split: if_splits)

lemma turns_invI:
  assumes "single_senders S" "\<And>k i. ft_senders S k = Some (i, HasTurn) \<Longrightarrow> i = ft_active S"
    and "ft_active S \<noteq> [] \<Longrightarrow> \<exists>k. ft_senders S k = Some (ft_active S, HasTurn)"
    and "\<And>k i. ft_active S = [] \<Longrightarrow> ft_senders S k \<noteq> Some (i, Asleep)"
  shows "turns_inv S"
  using assms unfolding turns_inv_def by blast

lemma call_inv:
  assumes inv: "turns_inv S" and single: "single_senders (S\<lparr>ft_senders := (ft_senders S)(k \<mapsto> (i, Trying))\<rparr>)"
    and k: "ft_senders S k = None"
  shows "turns_inv (S\<lparr>ft_senders := (ft_senders S)(k \<mapsto> (i, Trying))\<rparr>)"
proof (rule turns_invI[OF single], goal_cases)
  case (1 l j)
  then show ?case using turns_invD(3)[OF inv, of l j] by (simp split: if_splits)
next
  case 2
  then obtain l where "ft_senders S l = Some (ft_active S, HasTurn)" using turns_invD(4)[OF inv] by auto
  then show ?case using k by (intro exI[of _ l]) auto
next
  case (3 l j)
  then show ?case using turns_invD(5)[OF inv, of l j] by simp
qed

lemma try_inv:
  assumes inv: "turns_inv S" and k: "ft_senders S k = Some (i, Trying)"
  shows "turns_inv (take_turn k i S)"
proof -
  have single: "single_senders (take_turn k i S)"
    using take_turn_single k inv by (simp add: turns_inv_def)
  show ?thesis
  proof (cases "ft_active S = []")
    case True
    then have take: "take_turn k i S = S\<lparr>ft_active := i, ft_senders := (ft_senders S)(k \<mapsto> (i, HasTurn))\<rparr>"
      by (simp add: take_turn_def)
    have none: "ft_senders S l \<noteq> Some (j, HasTurn)" for l j
      using turns_invD(3)[OF inv, of l j] turns_invD(1)[OF inv, of l j HasTurn] True by blast
    show ?thesis
    proof (rule turns_invI[OF single], goal_cases)
      case (1 l j)
      then show ?case using none[of l j] by (simp add: take split: if_splits)
    next
      case 2
      show ?case by (simp add: take exI[of _ k])
    next
      case (3 l j)
      then show ?case using turns_invD(1)[OF inv k] by (simp add: take)
    qed
  next
    case False
    then obtain l where l: "ft_senders S l = Some (ft_active S, HasTurn)" using turns_invD(4)[OF inv] by blast
    then have ne: "ft_active S \<noteq> i" "l \<noteq> k" using turns_invD(2)[OF inv l, of k Trying] k by auto
    with False have take: "take_turn k i S = S\<lparr>ft_senders := (ft_senders S)(k \<mapsto> (i, Asleep))\<rparr>"
      by (simp add: take_turn_def)
    show ?thesis
    proof (rule turns_invI[OF single], goal_cases)
      case (1 q j)
      then show ?case using turns_invD(3)[OF inv, of q j] by (simp add: take split: if_splits)
    next
      case 2
      show ?case using l ne(2) by (simp add: take exI[of _ l])
    next
      case (3 q j)
      then show ?case using False by (simp add: take)
    qed
  qed
qed

lemma end_inv:
  assumes inv: "turns_inv S" and k: "ft_senders S k = Some (i, HasTurn)"
  shows "turns_inv (end_turn k i S)"
proof -
  have single: "single_senders (end_turn k i S)" using single_end_turn inv by (simp add: turns_inv_def)
  have "ft_active S = i" using turns_invD(3)[OF inv k] by simp
  moreover have "((ft_senders S)(k := None)) l \<noteq> Some (j, HasTurn)" for l j
    using only_turn[OF inv k, of l j] by auto
  ultimately show ?thesis
    using single unfolding turns_inv_def by (auto simp: end_turn_def Let_def wake_all_Some)
qed

interpretation turns: interleaving "\<lambda>S. S = turns_start" "\<lambda>S S'. single_senders S' \<and> (\<exists>l. turn_step l S S')" turns_inv
proof
  show "turns_inv S" if "S = turns_start" for S
    using that by (simp add: turns_inv_def single_senders_def turns_start_def)
  show "turns_inv S'" if "single_senders S' \<and> (\<exists>l. turn_step l S S')" "turns_inv S" for S S'
  proof -
    from that(1) obtain l where "turn_step l S S'" "single_senders S'" by blast
    then show ?thesis using that(2) by cases (auto intro: call_inv try_inv end_inv)
  qed
qed

lemma single_reachable_inv: "single_reachable S \<Longrightarrow> turns_inv S"
  unfolding single_reachable_def by (rule turns.reachable_invar) simp_all

text \<open>A goroutine that tries while no file is named gets its turn.\<close>

lemma free_turn:
  assumes "turns_inv S" "ft_active S = []" "ft_senders S k = Some (i, t)"
  shows "\<exists>S'. (turn_step Inside)\<^sup>*\<^sup>* S S' \<and> ft_senders S' k = Some (i, HasTurn)"
proof (cases t)
  case Trying
  then have "turn_step Inside S (take_turn k i S)" using assms(3) turn_step.Try by simp
  moreover have "ft_senders (take_turn k i S) k = Some (i, HasTurn)" using assms(2) by (simp add: take_turn_def)
  ultimately show ?thesis by blast
next
  case Asleep
  then show ?thesis using turns_invD(5)[OF assms(1,2)] assms(3) by blast
qed (use assms(3) in blast)

text \<open>C21.  The files take turns: as long as no file is sent by two goroutines at the same time, at most one
goroutine puts chunks into the queue, and nobody waits in vain: every goroutine that waits can still
get its turn, without any further call.\<close>

theorem files_take_turns:
  assumes "single_reachable S"
  shows "(\<forall>k l i j. ft_senders S k = Some (i, HasTurn) \<and> ft_senders S l = Some (j, HasTurn) \<longrightarrow> k = l) \<and>
    (\<forall>k i t. ft_senders S k = Some (i, t) \<longrightarrow>
       (\<exists>S'. (turn_step Inside)\<^sup>*\<^sup>* S S' \<and> ft_senders S' k = Some (i, HasTurn)))"
proof (intro conjI allI impI)
  note inv = single_reachable_inv[OF assms]
  show "k = l" if "ft_senders S k = Some (i, HasTurn) \<and> ft_senders S l = Some (j, HasTurn)" for k l i j
    using only_turn[OF inv] that by metis
  show "\<exists>S'. (turn_step Inside)\<^sup>*\<^sup>* S S' \<and> ft_senders S' k = Some (i, HasTurn)" if k: "ft_senders S k = Some (i, t)" for k i t
  proof (cases "ft_active S = [] \<or> t = HasTurn")
    case True
    then show ?thesis using free_turn[OF inv _ k] k by blast
  next
    case False
    then obtain l where l: "ft_senders S l = Some (ft_active S, HasTurn)" using turns_invD(4)[OF inv] by blast
    let ?T = "end_turn l (ft_active S) S"
    have "l \<noteq> k" using l k False by auto
    then have "\<exists>u. ft_senders ?T k = Some (i, u)" "ft_active ?T = []"
      using k by (simp_all add: end_turn_def wake_all_def)
    then obtain S' where "(turn_step Inside)\<^sup>*\<^sup>* ?T S'" "ft_senders S' k = Some (i, HasTurn)"
      using free_turn[OF end_inv[OF inv l]] by blast
    moreover have "turn_step Inside S ?T" using l by (rule turn_step.End)
    ultimately show ?thesis by (blast intro: converse_rtranclp_into_rtranclp)
  qed
qed

section \<open>The same file twice\<close>

text \<open>
  When a file is accepted twice, two goroutines send it; the first one to end passes the turn on
  while the second still sends, and the chunks of two files mix in the queue.
\<close>

lemma turns_reachable_step: "turns_reachable S \<Longrightarrow> turn_step l S S' \<Longrightarrow> turns_reachable S'"
  unfolding turns_reachable_def by (rule rtranclp.rtrancl_into_rtrancl) blast+

lemma same_file_twice_mixes:
  assumes "i \<noteq> []" "j \<noteq> []" "i \<noteq> j"
  shows "\<exists>S. turns_reachable S \<and> ft_senders S 1 = Some (i, HasTurn) \<and> ft_senders S 2 = Some (j, HasTurn)"
proof -
  let ?S = "\<lambda>a s. \<lparr>ft_active = a, ft_senders = s\<rparr>"
  have ended: "end_turn 0 i (?S i [0 \<mapsto> (i, HasTurn), 1 \<mapsto> (i, HasTurn)]) = ?S [] [1 \<mapsto> (i, HasTurn)]"
    by (simp add: end_turn_def wake_all_def fun_eq_iff)
  have "turns_reachable turns_start" by (simp add: turns_reachable_def)
  then have "turns_reachable (?S [] [0 \<mapsto> (i, Trying)])"
    by (rule turns_reachable_step) (use turn_step.Call[of turns_start 0 i] in \<open>simp add: turns_start_def\<close>)
  then have "turns_reachable (?S [] [0 \<mapsto> (i, Trying), 1 \<mapsto> (i, Trying)])"
    by (rule turns_reachable_step) (use turn_step.Call[of "?S [] [0 \<mapsto> (i, Trying)]" 1 i] in simp)
  then have "turns_reachable (?S i [0 \<mapsto> (i, HasTurn), 1 \<mapsto> (i, Trying)])"
    by (rule turns_reachable_step)
      (use turn_step.Try[of "?S [] [0 \<mapsto> (i, Trying), 1 \<mapsto> (i, Trying)]" 0 i] in \<open>simp add: take_turn_def fun_upd_twist\<close>)
  then have "turns_reachable (?S i [0 \<mapsto> (i, HasTurn), 1 \<mapsto> (i, HasTurn)])"
    by (rule turns_reachable_step)
      (use turn_step.Try[of "?S i [0 \<mapsto> (i, HasTurn), 1 \<mapsto> (i, Trying)]" 1 i] in \<open>simp add: take_turn_def\<close>)
  then have "turns_reachable (?S [] [1 \<mapsto> (i, HasTurn)])"
    by (rule turns_reachable_step) (use turn_step.End[of "?S i [0 \<mapsto> (i, HasTurn), 1 \<mapsto> (i, HasTurn)]" 0 i] ended in simp)
  then have "turns_reachable (?S [] [1 \<mapsto> (i, HasTurn), 2 \<mapsto> (j, Trying)])"
    by (rule turns_reachable_step) (use turn_step.Call[of "?S [] [1 \<mapsto> (i, HasTurn)]" 2 j] in simp)
  then have "turns_reachable (?S j [1 \<mapsto> (i, HasTurn), 2 \<mapsto> (j, HasTurn)])"
    by (rule turns_reachable_step)
      (use turn_step.Try[of "?S [] [1 \<mapsto> (i, HasTurn), 2 \<mapsto> (j, Trying)]" 2 j] in \<open>simp add: take_turn_def\<close>)
  then show ?thesis by force
qed

lemma single_reachable_step:
  "single_reachable S \<Longrightarrow> turn_step l S T \<Longrightarrow> T = S' \<Longrightarrow> single_senders S' \<Longrightarrow> single_reachable S'"
  unfolding single_reachable_def by (rule rtranclp.rtrancl_into_rtrancl) blast+

theorem files_take_turns_witness:
  "\<exists>S'. (turn_step Inside)\<^sup>*\<^sup>* \<lparr>ft_active = ''a'', ft_senders = [0 \<mapsto> (''a'', HasTurn), 1 \<mapsto> (''b'', Trying)]\<rparr> S' \<and>
    ft_senders S' 1 = Some (''b'', HasTurn)"
proof -
  let ?S = "\<lambda>a s. \<lparr>ft_active = a, ft_senders = s\<rparr>"
  have "single_reachable turns_start" by (simp add: single_reachable_def)
  then have "single_reachable (?S [] [0 \<mapsto> (''a'', Trying)])"
    by (rule single_reachable_step[OF _ turn_step.Call[of turns_start 0 "''a''"]])
      (auto simp: turns_start_def single_senders_def split: if_splits)
  then have "single_reachable (?S ''a'' [0 \<mapsto> (''a'', HasTurn)])"
    by (rule single_reachable_step[OF _ turn_step.Try[of "?S [] [0 \<mapsto> (''a'', Trying)]" 0 "''a''"]])
      (auto simp: take_turn_def single_senders_def split: if_splits)
  then have "single_reachable (?S ''a'' [0 \<mapsto> (''a'', HasTurn), 1 \<mapsto> (''b'', Trying)])"
    by (rule single_reachable_step[OF _ turn_step.Call[of "?S ''a'' [0 \<mapsto> (''a'', HasTurn)]" 1 "''b''"]])
      (auto simp: single_senders_def split: if_splits)
  from files_take_turns[OF this] show ?thesis by auto
qed

end
